(* ===== verification/Prelude.thy ===== *)
theory Prelude
  imports
    Main
    "HOL-Library.List_Lexorder"
    "HOL-Library.Char_ord"
    "HOL-Library.Product_Lexorder"
begin

text \<open>
  What the components share: the result type of fallible code, the handful of SQL
  statements the store is written in (as functions on lists of rows), and the lemmas
  about them that carry the component proofs.

  A Python call that may raise is a value of \<open>'e + 'a\<close>: \<open>Inl\<close> the exception, \<open>Inr\<close> the
  result.  A table is the list of its rows in insertion order.
\<close>

named_theorems res_simps \<open>inversion of successful runs\<close>
named_theorems sql_simps \<open>effect of the SQL statements on sets of rows\<close>

section \<open>Results\<close>

definition bindR :: "'e + 'a \<Rightarrow> ('a \<Rightarrow> 'e + 'b) \<Rightarrow> 'e + 'b" where
  "bindR m k = (case m of Inl e \<Rightarrow> Inl e | Inr x \<Rightarrow> k x)"

text \<open>\<open>check c e k\<close> is \<open>if not c: raise e\<close> followed by \<open>k\<close>.\<close>

definition check :: "bool \<Rightarrow> 'e \<Rightarrow> 'e + 'a \<Rightarrow> 'e + 'a" where
  "check c e k = (if c then k else Inl e)"

text \<open>\<open>require v e\<close> is the row test \<open>if row is None: raise e\<close>.\<close>

definition require :: "'a option \<Rightarrow> 'e \<Rightarrow> 'e + 'a" where
  "require v e = (case v of None \<Rightarrow> Inl e | Some x \<Rightarrow> Inr x)"

lemma bindR_simps [simp]: "bindR (Inl e) k = Inl e" "bindR (Inr x) k = k x"
  by (simp_all add: bindR_def)

lemma bindR_Inr_iff [simp]: "bindR m k = Inr y \<longleftrightarrow> (\<exists>x. m = Inr x \<and> k x = Inr y)"
  by (cases m) auto

lemma bindR_Inl_iff:
  "bindR m k = Inl e \<longleftrightarrow> m = Inl e \<or> (\<exists>x. m = Inr x \<and> k x = Inl e)"
  by (cases m) auto

lemma check_Inr_iff [simp]: "check c e k = Inr y \<longleftrightarrow> c \<and> k = Inr y"
  by (simp add: check_def)

lemma check_Inl_iff: "check c e k = Inl e' \<longleftrightarrow> (\<not> c \<and> e = e') \<or> (c \<and> k = Inl e')"
  by (auto simp: check_def)

lemma check_True [simp]: "check True e k = k" "check False e k = Inl e"
  by (simp_all add: check_def)

lemma require_Inr_iff [simp]: "require v e = Inr y \<longleftrightarrow> v = Some y"
  by (simp add: require_def split: option.splits)

lemma require_simps [simp]: "require None e = Inl e" "require (Some x) e = Inr x"
  by (simp_all add: require_def)

lemma require_Inl_iff: "require v e = Inl e' \<longleftrightarrow> v = None \<and> e = e'"
  by (auto simp: require_def split: option.splits)

text \<open>\<open>holdsR P m\<close>: the run \<open>m\<close> succeeds with a value that satisfies \<open>P\<close>.\<close>

definition holdsR :: "('a \<Rightarrow> bool) \<Rightarrow> 'e + 'a \<Rightarrow> bool" where
  "holdsR P m = (case m of Inl _ \<Rightarrow> False | Inr x \<Rightarrow> P x)"

lemma holdsRE: "holdsR P m \<Longrightarrow> (\<And>x. m = Inr x \<Longrightarrow> P x \<Longrightarrow> thesis) \<Longrightarrow> thesis"
  by (auto simp: holdsR_def split: sum.splits)

text \<open>
  \<open>wpR P m\<close>: when the run \<open>m\<close> succeeds its value satisfies \<open>P\<close>.  The rules \<open>wp_intros\<close> take a
  method apart along its statements, with every test that was passed as a hypothesis.
\<close>

named_theorems wp_intros \<open>rules that take a fallible method apart\<close>

definition wpR :: "('a \<Rightarrow> bool) \<Rightarrow> 'e + 'a \<Rightarrow> bool" where
  "wpR P m \<longleftrightarrow> (\<forall>x. m = Inr x \<longrightarrow> P x)"

lemma wpD: "wpR P m \<Longrightarrow> m = Inr x \<Longrightarrow> P x"
  by (simp add: wpR_def)

lemma wp_rules [wp_intros]:
  "P x \<Longrightarrow> wpR P (Inr x)"
  "wpR P (Inl e)"
  "(c \<Longrightarrow> wpR P k) \<Longrightarrow> wpR P (check c e k)"
  "(\<And>y. m = Inr y \<Longrightarrow> wpR P (f y)) \<Longrightarrow> wpR P (bindR m f)"
  "(c \<Longrightarrow> wpR P k) \<Longrightarrow> (\<not> c \<Longrightarrow> wpR P k') \<Longrightarrow> wpR P (if c then k else k')"
  "(v = None \<Longrightarrow> wpR P k) \<Longrightarrow> (\<And>y. v = Some y \<Longrightarrow> wpR P (g y))
    \<Longrightarrow> wpR P (case v of None \<Rightarrow> k | Some y \<Rightarrow> g y)"
  "(\<And>a b. p = (a, b) \<Longrightarrow> wpR P (h a b)) \<Longrightarrow> wpR P (case p of (a, b) \<Rightarrow> h a b)"
  "wpR P (l z) \<Longrightarrow> wpR P (Let z l)"
  by (auto simp: wpR_def split: option.splits prod.splits)

text \<open>A loop whose body may raise: the first exception ends it.\<close>

fun foldR :: "('a \<Rightarrow> 's \<Rightarrow> 'e + 's) \<Rightarrow> 'a list \<Rightarrow> 's \<Rightarrow> 'e + 's" where
  "foldR f [] s = Inr s"
| "foldR f (x # xs) s = bindR (f x s) (foldR f xs)"

lemma foldR_invariant:
  assumes "foldR f xs s = Inr s'" and "P s"
    and "\<And>x s s'. x \<in> set xs \<Longrightarrow> P s \<Longrightarrow> f x s = Inr s' \<Longrightarrow> P s'"
  shows "P s'"
  using assms
proof (induction xs arbitrary: s)
  case Nil
  then show ?case by simp
next
  case (Cons x xs)
  from Cons.prems(1) obtain s1 where s1: "f x s = Inr s1" "foldR f xs s1 = Inr s'"
    by auto
  from Cons.prems(2,3) s1(1) have "P s1" by auto
  with s1(2) Cons.prems(3) show ?case by (intro Cons.IH) auto
qed

section \<open>SQL statements on lists of rows\<close>

text \<open>
  \<open>find P t\<close> is \<open>SELECT ... WHERE P\<close> followed by \<open>fetchone()\<close>.  The other statements:
\<close>

definition upd_where :: "('r \<Rightarrow> bool) \<Rightarrow> ('r \<Rightarrow> 'r) \<Rightarrow> 'r list \<Rightarrow> 'r list" where
  "upd_where P f t = map (\<lambda>r. if P r then f r else r) t"

definition del_where :: "('r \<Rightarrow> bool) \<Rightarrow> 'r list \<Rightarrow> 'r list" where
  "del_where P t = filter (\<lambda>r. \<not> P r) t"

text \<open>The \<open>rowcount\<close> of an \<open>UPDATE\<close> or \<open>DELETE\<close>: the rows its condition matches.\<close>

definition rowcount :: "('r \<Rightarrow> bool) \<Rightarrow> 'r list \<Rightarrow> nat" where
  "rowcount P t = length (filter P t)"

definition order_by :: "('r \<Rightarrow> 'k::linorder) \<Rightarrow> 'r list \<Rightarrow> 'r list" where
  "order_by key t = sort_key key t"

text \<open>\<open>ORDER BY key DESC LIMIT 1\<close> and \<open>ORDER BY key LIMIT 1\<close>.\<close>

definition latest_by :: "('r \<Rightarrow> 'k::linorder) \<Rightarrow> 'r list \<Rightarrow> 'r option" where
  "latest_by key t = (case order_by key t of [] \<Rightarrow> None | r # rs \<Rightarrow> Some (last (r # rs)))"

definition earliest_by :: "('r \<Rightarrow> 'k::linorder) \<Rightarrow> 'r list \<Rightarrow> 'r option" where
  "earliest_by key t = (case order_by key t of [] \<Rightarrow> None | r # rs \<Rightarrow> Some r)"

lemma set_upd_where [sql_simps]: "set (upd_where P f t) = (\<lambda>r. if P r then f r else r) ` set t"
  by (simp add: upd_where_def)

lemma set_del_where [sql_simps]: "set (del_where P t) = {r \<in> set t. \<not> P r}"
  by (auto simp: del_where_def)

lemma set_order_by [simp]: "set (order_by key t) = set t"
  by (simp add: order_by_def)

lemma sorted_order_by: "sorted (map key (order_by key t))"
  by (simp add: order_by_def)

lemma length_upd_where [simp]: "length (upd_where P f t) = length t"
  by (simp add: upd_where_def)

lemma map_upd_where:
  "(\<And>r. P r \<Longrightarrow> g (f r) = g r) \<Longrightarrow> map g (upd_where P f t) = map g t"
  by (induction t) (auto simp: upd_where_def)

lemma upd_where_id: "(\<And>r. r \<in> set t \<Longrightarrow> \<not> P r) \<Longrightarrow> upd_where P f t = t"
  by (induction t) (auto simp: upd_where_def)

lemma distinct_map_del_where: "distinct (map g t) \<Longrightarrow> distinct (map g (del_where P t))"
  by (simp add: del_where_def distinct_map_filter)

lemma rowcount_eq_0_iff: "rowcount P t = 0 \<longleftrightarrow> (\<forall>r\<in>set t. \<not> P r)"
  by (auto simp: rowcount_def filter_empty_conv)

lemma rowcount_pos_iff: "0 < rowcount P t \<longleftrightarrow> (\<exists>r\<in>set t. P r)"
  by (metis neq0_conv rowcount_eq_0_iff)

lemma rowcount_cong: "(\<And>r. r \<in> set t \<Longrightarrow> P r = Q r) \<Longrightarrow> rowcount P t = rowcount Q t"
  by (simp add: rowcount_def cong: filter_cong)

lemma rowcount_Cons:
  "rowcount P (r # t) = (if P r then Suc (rowcount P t) else rowcount P t)"
  by (simp add: rowcount_def)

lemma rowcount_append: "rowcount P (t @ u) = rowcount P t + rowcount P u"
  by (simp add: rowcount_def)

lemma rowcount_Nil [simp]: "rowcount P [] = 0"
  by (simp add: rowcount_def)

subsection \<open>Rows with a primary key\<close>

lemma key_unique:
  "distinct (map key t) \<Longrightarrow> r \<in> set t \<Longrightarrow> s \<in> set t \<Longrightarrow> key r = key s \<Longrightarrow> r = s"
  by (auto simp: distinct_map dest: inj_onD)

lemma find_SomeD: "find P t = Some r \<Longrightarrow> r \<in> set t \<and> P r"
  by (auto simp: find_Some_iff)

lemma find_NoneD: "find P t = None \<Longrightarrow> r \<in> set t \<Longrightarrow> \<not> P r"
  by (auto simp: find_None_iff)

lemma find_unique:
  assumes "r \<in> set t" and "P r" and "\<And>s. s \<in> set t \<Longrightarrow> P s \<Longrightarrow> s = r"
  shows "find P t = Some r"
proof (cases "find P t")
  case None
  with assms(1,2) show ?thesis by (auto simp: find_None_iff)
next
  case (Some s)
  with assms(3) show ?thesis by (auto dest!: find_SomeD)
qed

lemma find_by_key:
  "distinct (map key t) \<Longrightarrow> r \<in> set t \<Longrightarrow> find (\<lambda>s. key s = key r) t = Some r"
  by (rule find_unique) (auto dest: key_unique)

lemma key_head_notin:
  "distinct (map key (r # t)) \<Longrightarrow> s \<in> set t \<Longrightarrow> key s \<noteq> key r"
  by (metis distinct.simps(2) image_eqI list.simps(9) set_map)

lemma rowcount_key_le_1:
  assumes "distinct (map key t)"
  shows "rowcount (\<lambda>r. key r = k \<and> P r) t \<le> 1"
  using assms
proof (induction t)
  case Nil
  then show ?case by simp
next
  case (Cons r t)
  show ?case
  proof (cases "key r = k \<and> P r")
    case True
    then have "rowcount (\<lambda>r. key r = k \<and> P r) t = 0"
      using key_head_notin [OF Cons.prems] by (auto simp: rowcount_eq_0_iff)
    with True show ?thesis by (simp add: rowcount_Cons)
  next
    case False
    with Cons show ?thesis by (auto simp: rowcount_Cons)
  qed
qed

lemma rowcount_key_eq_1:
  assumes "distinct (map key t)" and "r \<in> set t" and "P r"
  shows "rowcount (\<lambda>s. key s = key r \<and> P s) t = 1"
proof -
  have "0 < rowcount (\<lambda>s. key s = key r \<and> P s) t"
    using assms(2,3) by (auto simp: rowcount_pos_iff)
  with rowcount_key_le_1 [OF assms(1), of "key r" P] show ?thesis by linarith
qed

text \<open>
  Counting rows after one row, found by its key, changed: the count moves by what that
  row contributes.
\<close>

lemma rowcount_upd_key:
  assumes "distinct (map key t)" and "r \<in> set t"
  shows "rowcount Q (upd_where (\<lambda>s. key s = key r) f t) + (if Q r then 1 else 0)
       = rowcount Q t + (if Q (f r) then 1 else 0)"
  using assms
proof (induction t)
  case Nil
  then show ?case by simp
next
  case (Cons a t)
  show ?case
  proof (cases "a = r")
    case True
    then have "\<And>s. s \<in> set t \<Longrightarrow> \<not> key s = key r"
      using key_head_notin [OF Cons.prems(1)] by simp
    then have "upd_where (\<lambda>s. key s = key r) f t = t" by (rule upd_where_id)
    with True show ?thesis by (simp add: upd_where_def rowcount_Cons)
  next
    case False
    with Cons.prems have r: "r \<in> set t" and "key a \<noteq> key r" by auto
    with Cons.IH Cons.prems(1) show ?thesis by (simp add: upd_where_def rowcount_Cons)
  qed
qed

lemma latest_by_Some_in: "latest_by key t = Some r \<Longrightarrow> r \<in> set t"
proof -
  assume h: "latest_by key t = Some r"
  then have "order_by key t \<noteq> []" and "r = last (order_by key t)"
    by (auto simp: latest_by_def split: list.splits)
  then show ?thesis by (metis last_in_set set_order_by)
qed

lemma latest_by_None_iff [simp]: "latest_by key t = None \<longleftrightarrow> t = []"
proof -
  have "order_by key t = [] \<longleftrightarrow> t = []"
    by (metis set_empty set_order_by)
  then show ?thesis by (auto simp: latest_by_def split: list.splits)
qed

lemma earliest_by_Some_in: "earliest_by key t = Some r \<Longrightarrow> r \<in> set t"
proof -
  assume "earliest_by key t = Some r"
  then obtain rs where "order_by key t = r # rs"
    by (auto simp: earliest_by_def split: list.splits)
  then show ?thesis by (metis list.set_intros(1) set_order_by)
qed

lemma earliest_by_None_iff [simp]: "earliest_by key t = None \<longleftrightarrow> t = []"
proof -
  have "order_by key t = [] \<longleftrightarrow> t = []"
    by (metis set_empty set_order_by)
  then show ?thesis by (auto simp: earliest_by_def split: list.splits)
qed

section \<open>JSON values\<close>

text \<open>
  What the JSON columns hold (numbers are the integers the store reads back; the code
  never computes with a JSON float).  An object is an association list; \<open>jget\<close> is
  \<open>dict.get\<close>.
\<close>

datatype json =
    JNull
  | JBool bool
  | JNum int
  | JStr string
  | JArr "json list"
  | JObj "(string \<times> json) list"

fun jget :: "string \<Rightarrow> json \<Rightarrow> json option" where
  "jget k (JObj kvs) = map_of kvs k"
| "jget k _ = None"

lemma json_member_size:
  "(k, v) \<in> set xs \<Longrightarrow> size v < size (JObj xs)"
  "v \<in> set vs \<Longrightarrow> size v < size (JArr vs)"
  by (induction xs, auto, induction vs, auto)

text \<open>
  Python's \<open>==\<close> on decoded JSON: objects are unordered, and a boolean equals the number it is.
\<close>

function (sequential) same_json :: "json \<Rightarrow> json \<Rightarrow> bool" where
  "same_json (JObj xs) (JObj ys) =
     (length xs = length ys
      \<and> list_all (\<lambda>(k, v). case map_of ys k of None \<Rightarrow> False | Some w \<Rightarrow> same_json v w) xs)"
| "same_json (JArr xs) (JArr ys) =
     (length xs = length ys \<and> list_all (\<lambda>(v, w). same_json v w) (zip xs ys))"
| "same_json (JBool b) (JNum n) = (n = (if b then 1 else 0))"
| "same_json (JNum n) (JBool b) = (n = (if b then 1 else 0))"
| "same_json a b = (a = b)"
  by pat_completeness auto
termination
  by (relation "measure (\<lambda>(a, b). size a)")
    (auto dest!: set_zip_leftD json_member_size simp del: json.size)

definition is_true :: "json option \<Rightarrow> bool" where
  "is_true v \<longleftrightarrow> v = Some (JBool True)"

end
