(* ===== verification/Screening.thy ===== *)
theory Screening
  imports Prelude
begin

text \<open>
  The text screens of \<^verbatim>\<open>models.py\<close> and \<^verbatim>\<open>storage.py\<close>: what may appear in operator
  names and reasons, resource keys and metadata, collector routes, SQL statements and
  bound parameters.  A \<open>string\<close> is a list of code points U+0000 to U+00FF; the classes
  below (white space, letters, \<open>str.lower\<close>, Unicode categories Cc and Cf) are Python's
  on that range.  Each regular expression is written as the matcher it denotes.
\<close>

section \<open>Characters\<close>

definition code :: "char \<Rightarrow> nat" where
  "code c = of_char c"

definition is_lower :: "char \<Rightarrow> bool" where
  "is_lower c \<longleftrightarrow> 97 \<le> code c \<and> code c \<le> 122"

definition is_upper :: "char \<Rightarrow> bool" where
  "is_upper c \<longleftrightarrow> 65 \<le> code c \<and> code c \<le> 90"

definition is_digit :: "char \<Rightarrow> bool" where
  "is_digit c \<longleftrightarrow> 48 \<le> code c \<and> code c \<le> 57"

definition is_alpha :: "char \<Rightarrow> bool" where
  "is_alpha c \<longleftrightarrow> is_lower c \<or> is_upper c"

definition is_alnum :: "char \<Rightarrow> bool" where
  "is_alnum c \<longleftrightarrow> is_alpha c \<or> is_digit c"

definition is_hex :: "char \<Rightarrow> bool" where
  "is_hex c \<longleftrightarrow> is_digit c \<or> (97 \<le> code c \<and> code c \<le> 102)"

definition is_space :: "char \<Rightarrow> bool" where
  "is_space c \<longleftrightarrow> (9 \<le> code c \<and> code c \<le> 13) \<or> (28 \<le> code c \<and> code c \<le> 32)
     \<or> code c = 133 \<or> code c = 160"

definition is_control_or_format :: "char \<Rightarrow> bool" where
  "is_control_or_format c \<longleftrightarrow> code c < 32 \<or> (127 \<le> code c \<and> code c \<le> 159) \<or> code c = 173"

definition to_lower :: "char \<Rightarrow> char" where
  "to_lower c =
     (if is_upper c \<or> (192 \<le> code c \<and> code c \<le> 222 \<and> code c \<noteq> 215)
      then char_of (code c + 32) else c)"

definition py_lower :: "string \<Rightarrow> string" where
  "py_lower s = map to_lower s"

definition py_strip :: "string \<Rightarrow> string" where
  "py_strip s = rev (dropWhile is_space (rev (dropWhile is_space s)))"

definition starts_with :: "string \<Rightarrow> string \<Rightarrow> bool" where
  "starts_with p s \<longleftrightarrow> take (length p) s = p"

text \<open>\<open>search P prev s\<close>: some suffix of \<open>s\<close>, with the character before it, satisfies \<open>P\<close>.\<close>

fun search :: "(char option \<Rightarrow> string \<Rightarrow> bool) \<Rightarrow> char option \<Rightarrow> string \<Rightarrow> bool" where
  "search P prev [] = P prev []"
| "search P prev (c # cs) = (P prev (c # cs) \<or> search P (Some c) cs)"

definition contains :: "string \<Rightarrow> string \<Rightarrow> bool" where
  "contains s sub \<longleftrightarrow> search (\<lambda>_ t. starts_with sub t) None s"

section \<open>Credential patterns\<close>

definition scheme_char :: "char \<Rightarrow> bool" where
  "scheme_char c \<longleftrightarrow> is_alnum c \<or> c \<in> set ''+.-''"

text \<open>\<^verbatim>\<open>[A-Za-z][A-Za-z0-9+.-]*://[^/\s]+@\<close>\<close>

definition credential_uri_at :: "string \<Rightarrow> bool" where
  "credential_uri_at s =
     (case s of
        [] \<Rightarrow> False
      | c # cs \<Rightarrow>
          is_alpha c
          \<and> (let rest = dropWhile scheme_char cs
             in starts_with ''://'' rest
                \<and> CHR ''@'' \<in> set (tl (takeWhile (\<lambda>c. c \<noteq> CHR ''/'' \<and> \<not> is_space c)
                                          (drop 3 rest)))))"

definition credential_uri_pattern :: "string \<Rightarrow> bool" where
  "credential_uri_pattern s = search (\<lambda>_. credential_uri_at) None s"

definition assignment_words :: "string list" where
  "assignment_words =
     [''apikey'', ''api_key'', ''api-key'', ''clientsecret'', ''client_secret'',
      ''client-secret'', ''cookie'', ''password'', ''passwd'', ''secret'', ''token'']"

text \<open>
  \<^verbatim>\<open>(?i)(?<![A-Za-z0-9])(?:api[_-]?key|...|token)\s*(?:=|:)\s*\S\<close>
\<close>

definition credential_assignment_at :: "char option \<Rightarrow> string \<Rightarrow> bool" where
  "credential_assignment_at prev s \<longleftrightarrow>
     (case prev of None \<Rightarrow> True | Some p \<Rightarrow> \<not> is_alnum p)
     \<and> (\<exists>w \<in> set assignment_words.
          starts_with w (py_lower s)
          \<and> (case dropWhile is_space (drop (length w) s) of
               [] \<Rightarrow> False
             | c # r \<Rightarrow> (c = CHR ''='' \<or> c = CHR '':'') \<and> dropWhile is_space r \<noteq> []))"

definition credential_assignment_pattern :: "string \<Rightarrow> bool" where
  "credential_assignment_pattern s = search credential_assignment_at None s"

section \<open>Resource fields (models.py)\<close>

definition sensitive_resource_fields :: "string list" where
  "sensitive_resource_fields =
     [''api_key'', ''client_secret'', ''connection_string'', ''cookie'', ''cookies'',
      ''dsn'', ''password'', ''passwd'', ''secret'', ''token'']"

definition sensitive_components :: "string list" where
  "sensitive_components =
     [''cookie'', ''cookies'', ''password'', ''passwd'', ''secret'', ''token'']"

definition sensitive_markers :: "string list" where
  "sensitive_markers =
     [''apikey'', ''clientsecret'', ''cookie'', ''password'', ''passwd'', ''secret'',
      ''token'']"

text \<open>
  \<open>re.sub("[^a-z0-9]+", "_", ...)\<close>: the flag says that the run being replaced has begun.
\<close>

definition field_char :: "char \<Rightarrow> bool" where
  "field_char c \<longleftrightarrow> is_lower c \<or> is_digit c"

fun collapse_runs :: "bool \<Rightarrow> string \<Rightarrow> string" where
  "collapse_runs b [] = []"
| "collapse_runs b (c # cs) =
     (if field_char c then c # collapse_runs False cs
      else if b then collapse_runs True cs
      else CHR ''_'' # collapse_runs True cs)"

text \<open>\<open>normalized.split("_")\<close>, empty components dropped.\<close>

fun components_of :: "string \<Rightarrow> string \<Rightarrow> string list" where
  "components_of cur [] = (if cur = [] then [] else [cur])"
| "components_of cur (c # cs) =
     (if c = CHR ''_'' then (if cur = [] then [] else [cur]) @ components_of [] cs
      else components_of (cur @ [c]) cs)"

definition is_sensitive_resource_field :: "string \<Rightarrow> bool" where
  "is_sensitive_resource_field value =
     (let normalized = collapse_runs False (py_lower (py_strip value));
          collapsed = filter (\<lambda>c. c \<noteq> CHR ''_'') normalized;
          components = components_of [] normalized
      in if normalized \<in> set sensitive_resource_fields
            \<or> (\<exists>c \<in> set components. c \<in> set sensitive_components)
         then True
         else (\<exists>m \<in> set sensitive_markers. contains collapsed m))"

text \<open>\<open>False\<close> is the \<open>ValueError\<close> of \<open>_reject_resource_secrets\<close>.\<close>

fun resource_secrets_ok :: "json \<Rightarrow> bool" where
  "resource_secrets_ok (JObj kvs) =
     list_all (\<lambda>kv. \<not> is_sensitive_resource_field (fst kv) \<and> resource_secrets_ok (snd kv)) kvs"
| "resource_secrets_ok (JArr vs) = list_all resource_secrets_ok vs"
| "resource_secrets_ok (JStr s) =
     (\<not> credential_uri_pattern (py_strip s) \<and> \<not> credential_assignment_pattern s)"
| "resource_secrets_ok _ = True"

fun control_characters_ok :: "json \<Rightarrow> bool" where
  "control_characters_ok (JObj kvs) = list_all (\<lambda>kv. control_characters_ok (snd kv)) kvs"
| "control_characters_ok (JArr vs) = list_all control_characters_ok vs"
| "control_characters_ok (JStr s) = (\<not> list_ex is_control_or_format s)"
| "control_characters_ok _ = True"

section \<open>Operator and collector text (storage.py)\<close>

definition operator_text :: "nat \<Rightarrow> string \<Rightarrow> bool" where
  "operator_text limit value \<longleftrightarrow>
     \<not> (value \<noteq> py_strip value
        \<or> value = []
        \<or> length value > limit
        \<or> list_ex is_control_or_format value
        \<or> credential_assignment_pattern value
        \<or> credential_uri_pattern value)"

definition collector_text :: "bool \<Rightarrow> string \<Rightarrow> bool" where
  "collector_text allow_newlines value \<longleftrightarrow>
     \<not> (value = [] \<or> length value > 16384)
     \<and> \<not> value \<noteq> py_strip value
     \<and> \<not> list_ex (\<lambda>c. is_control_or_format c \<and> \<not> (allow_newlines \<and> code c = 10)) value
     \<and> \<not> credential_assignment_pattern value
     \<and> \<not> credential_uri_pattern value"

text \<open>\<open>SELECT\b\<close> at the start, case-insensitively; a word character ends the match.\<close>

definition is_word_char :: "char \<Rightarrow> bool" where
  "is_word_char c \<longleftrightarrow> is_alnum c \<or> c = CHR ''_''
     \<or> code c \<in> {170, 178, 179, 181, 185, 186, 188, 189, 190}
     \<or> (192 \<le> code c \<and> code c \<noteq> 215 \<and> code c \<noteq> 247)"

definition read_only_sql_pattern :: "string \<Rightarrow> bool" where
  "read_only_sql_pattern s \<longleftrightarrow>
     starts_with ''select'' (py_lower s)
     \<and> (case drop 6 s of [] \<Rightarrow> True | c # _ \<Rightarrow> \<not> is_word_char c)"

definition read_only_statement :: "string \<Rightarrow> bool" where
  "read_only_statement value \<longleftrightarrow>
     collector_text False value
     \<and> \<not> (\<not> read_only_sql_pattern value
          \<or> contains value '';''
          \<or> contains value ''--''
          \<or> contains value ''/*''
          \<or> contains value ''*/''
          \<or> contains value ''#'')"

definition bounded_query_parameters :: "json list \<Rightarrow> bool" where
  "bounded_query_parameters value \<longleftrightarrow>
     length value \<le> 64
     \<and> list_all (\<lambda>p. case p of
            JNull \<Rightarrow> True | JBool _ \<Rightarrow> True | JNum _ \<Rightarrow> True
          | JStr s \<Rightarrow> collector_text False s \<and> length s \<le> 1024
          | JArr _ \<Rightarrow> False | JObj _ \<Rightarrow> False) value"

definition bounded_expected_ids :: "json list \<Rightarrow> bool" where
  "bounded_expected_ids value \<longleftrightarrow>
     length value \<le> 256
     \<and> list_all (\<lambda>p. case p of
            JNum _ \<Rightarrow> True | JStr s \<Rightarrow> collector_text False s | _ \<Rightarrow> False) value
     \<and> distinct value"

section \<open>Identifier patterns\<close>

text \<open>\<^verbatim>\<open>^res_[0-9a-f]{32}$\<close> and \<^verbatim>\<open>^fta_[0-9a-f]{32}$\<close>, whole string.\<close>

definition opaque_id :: "string \<Rightarrow> bool" where
  "opaque_id s \<longleftrightarrow> length s = 32 \<and> list_all is_hex s"

definition resource_definition_id :: "string \<Rightarrow> bool" where
  "resource_definition_id s \<longleftrightarrow> starts_with ''res_'' s \<and> opaque_id (drop 4 s)"

definition focused_test_admission_id :: "string \<Rightarrow> bool" where
  "focused_test_admission_id s \<longleftrightarrow> starts_with ''fta_'' s \<and> opaque_id (drop 4 s)"

definition sha256_text :: "string \<Rightarrow> bool" where
  "sha256_text s \<longleftrightarrow> length s = 64 \<and> list_all is_hex s"

definition registered_resource_alias :: "string \<Rightarrow> bool" where
  "registered_resource_alias key \<longleftrightarrow> starts_with ''res_'' (py_strip key)"

definition exact_record_id :: "string \<Rightarrow> bool" where
  "exact_record_id value \<longleftrightarrow>
     \<not> (value \<noteq> py_strip value \<or> value = [] \<or> length value > 128
        \<or> list_ex is_control_or_format value)"

section \<open>Lemmas\<close>

lemma search_append:
  "P (if xs = [] then prev else Some (last xs)) ys \<Longrightarrow> search P prev (xs @ ys)"
proof (induction xs arbitrary: prev)
  case Nil
  then show ?case by (cases ys) auto
next
  case (Cons x xs)
  then show ?case by (cases xs) auto
qed

lemma searchE:
  assumes "search P prev s"
  shows "\<exists>xs ys. s = xs @ ys \<and> P (if xs = [] then prev else Some (last xs)) ys"
  using assms
proof (induction s arbitrary: prev)
  case Nil
  then show ?case by auto
next
  case (Cons c cs)
  show ?case
  proof (cases "P prev (c # cs)")
    case True
    then show ?thesis by (intro exI [of _ "[]"] exI [of _ "c # cs"]) simp
  next
    case False
    with Cons.prems have "search P (Some c) cs" by simp
    from Cons.IH [OF this] obtain xs ys
      where "cs = xs @ ys" "P (if xs = [] then Some c else Some (last xs)) ys"
      by blast
    then show ?thesis
      by (intro exI [of _ "c # xs"] exI [of _ ys]) (auto split: if_splits)
  qed
qed

lemma starts_with_iff: "starts_with p s \<longleftrightarrow> (\<exists>r. s = p @ r)"
  unfolding starts_with_def by (metis append_eq_conv_conj append_take_drop_id)

lemma contains_iff: "contains s sub \<longleftrightarrow> (\<exists>p r. s = p @ sub @ r)"
proof
  assume "contains s sub"
  then show "\<exists>p r. s = p @ sub @ r"
    unfolding contains_def by (force dest!: searchE simp: starts_with_iff)
next
  assume "\<exists>p r. s = p @ sub @ r"
  then obtain p r where "s = p @ (sub @ r)" by auto
  then show "contains s sub"
    unfolding contains_def
    by (simp only:) (rule search_append, simp add: starts_with_iff)
qed

lemma contains_refl [simp]: "contains s s"
  unfolding contains_iff by (rule exI [of _ "[]"], rule exI [of _ "[]"]) simp

lemma contains_append: "contains s m \<Longrightarrow> contains (s @ t) m" "contains t m \<Longrightarrow> contains (s @ t) m"
  unfolding contains_iff by (metis append.assoc)+

lemma contains_mono: "contains s sub \<Longrightarrow> contains sub m \<Longrightarrow> contains s m"
  unfolding contains_iff by (metis append.assoc)

lemma filter_collapse_runs:
  "filter (\<lambda>c. c \<noteq> CHR ''_'') (collapse_runs b s) = filter field_char s"
  by (induction s arbitrary: b) (auto simp: field_char_def is_lower_def is_digit_def code_def)

lemma components_of_contains:
  "w \<in> set (components_of cur s) \<Longrightarrow>
   CHR ''_'' \<notin> set cur \<Longrightarrow> contains (cur @ filter (\<lambda>c. c \<noteq> CHR ''_'') s) w"
proof (induction cur s rule: components_of.induct)
  case (1 cur)
  then show ?case by (auto split: if_splits)
next
  case (2 cur c cs)
  show ?case
  proof (cases "c = CHR ''_''")
    case True
    consider "w = cur" | "w \<in> set (components_of [] cs)"
      using "2.prems"(1) True by (auto split: if_splits)
    then show ?thesis
    proof cases
      case 1
      then show ?thesis by (simp add: contains_append)
    next
      case 2
      with "2.IH"(1) [OF True] have "contains (filter (\<lambda>c. c \<noteq> CHR ''_'') cs) w" by simp
      with True show ?thesis by (simp add: contains_append)
    qed
  next
    case False
    with "2.IH"(2) [OF False] "2.prems" show ?thesis by auto
  qed
qed

text \<open>
  C33.  Which field names are sensitive: those whose letters and digits, lower-cased and with
  every separator removed, contain one of the seven markers, and the two names
  \<open>connection_string\<close> and \<open>dsn\<close>.  The set of full names and the test of the components
  refuse nothing else, so no spelling of a marker with separators gets through.
\<close>

theorem sensitive_resource_field_iff:
  "is_sensitive_resource_field value \<longleftrightarrow>
     (\<exists>m \<in> set sensitive_markers. contains (filter field_char (py_lower (py_strip value))) m)
     \<or> collapse_runs False (py_lower (py_strip value)) \<in> {''connection_string'', ''dsn''}"
  (is "_ \<longleftrightarrow> ?marked \<or> ?named")
proof -
  let ?n = "collapse_runs False (py_lower (py_strip value))"
  let ?c = "filter (\<lambda>c. c \<noteq> CHR ''_'') ?n"
  have c: "?c = filter field_char (py_lower (py_strip value))"
    by (rule filter_collapse_runs)
  have marked: "?marked" if "w \<in> set (components_of [] ?n)" "w \<in> set sensitive_components" for w
  proof -
    have "contains ?c w" using components_of_contains [OF that(1)] by simp
    moreover have "\<exists>m \<in> set sensitive_markers. contains w m"
      using that(2)
      by (auto simp: sensitive_components_def sensitive_markers_def contains_def starts_with_def)
    ultimately show ?thesis unfolding c [symmetric] by (blast intro: contains_mono)
  qed
  have named: "?marked \<or> ?named" if "?n \<in> set sensitive_resource_fields"
  proof (cases ?named)
    case False
    with that have "\<exists>m \<in> set sensitive_markers. contains ?c m"
      unfolding sensitive_resource_fields_def
      by (auto simp: sensitive_markers_def contains_def starts_with_def)
    then show ?thesis unfolding c by simp
  qed simp
  have "?named \<Longrightarrow> ?n \<in> set sensitive_resource_fields"
    by (auto simp: sensitive_resource_fields_def)
  with marked named show ?thesis
    unfolding is_sensitive_resource_field_def Let_def c if_bool_eq_disj by blast
qed

lemma dropWhile_spaces: "list_all is_space sp \<Longrightarrow> dropWhile is_space (sp @ r) = dropWhile is_space r"
  by (induction sp) auto

lemma to_lower_append: "py_lower (s @ t) = py_lower s @ py_lower t"
  by (simp add: py_lower_def)

lemma length_py_lower [simp]: "length (py_lower s) = length s"
  by (simp add: py_lower_def)

text \<open>
  C34.  No operator text (names, reasons, resource owners) and no collector text (routes,
  statements, parameters, resource keys) is accepted that assigns a value to a credential
  word anywhere in it, in any letter case and with any white space around the sign.
\<close>

theorem credential_assignment_rejected:
  assumes "py_lower w \<in> set assignment_words"
    and "p = [] \<or> \<not> is_alnum (last p)"
    and "list_all is_space sp" and "sep = CHR ''='' \<or> sep = CHR '':''"
    and "list_ex (\<lambda>c. \<not> is_space c) v"
  shows "\<not> operator_text limit (p @ w @ sp @ sep # v)
       \<and> \<not> collector_text nl (p @ w @ sp @ sep # v)"
proof -
  have ns: "\<not> is_space sep" using assms(4) by (auto simp: is_space_def code_def)
  have v: "dropWhile is_space v \<noteq> []"
    using assms(5) by (auto simp: list_ex_iff dropWhile_eq_Nil_conv)
  have "starts_with (py_lower w) (py_lower (w @ sp @ sep # v))"
    by (simp add: starts_with_iff to_lower_append)
  moreover have "dropWhile is_space (drop (length (py_lower w)) (w @ sp @ sep # v)) = sep # v"
    using assms(3) ns by (simp add: dropWhile_spaces)
  ultimately have "credential_assignment_at (if p = [] then None else Some (last p))
      (w @ sp @ sep # v)"
    unfolding credential_assignment_at_def using assms(1,2,4) v
    by (intro conjI bexI [of _ "py_lower w"]) auto
  then have "credential_assignment_pattern (p @ w @ sp @ sep # v)"
    unfolding credential_assignment_pattern_def by (rule search_append)
  then show ?thesis by (simp add: operator_text_def collector_text_def)
qed

lemma credential_assignment_rejected_witness:
  "\<not> operator_text 256 ''stop: API_Key = x''"
proof -
  have "\<not> operator_text 256 (''stop: '' @ ''API_Key'' @ '' '' @ CHR ''='' # '' x'')"
    by (rule credential_assignment_rejected [THEN conjunct1])
      (simp_all add: py_lower_def to_lower_def is_upper_def is_lower_def is_digit_def
        is_alpha_def is_alnum_def is_space_def code_def assignment_words_def char_of_def bit_0)
  then show ?thesis by simp
qed

end
