(* ===== verification/Models.thy ===== *)
theory Models
  imports Screening
begin

text \<open>
  \<^verbatim>\<open>models.py\<close>: the enumerations, the worker handoffs with their validators, and the
  evaluation of test handoffs against an item's evidence gates.

  A worker's handoff reaches the code as a dictionary.  Pydantic parses it: presence and
  base types of the fields are its concern; what the model keeps is the record of the
  parsed fields and every constraint the source declares on them (\<open>NonEmptyString\<close>,
  \<open>min_length\<close>, the \<open>model_validator\<close> methods), as a validation that returns the
  stripped record or fails.
\<close>

section \<open>Enumerations\<close>

datatype CampaignStatus = CampaignActive | CampaignPaused | CampaignCompleted | CampaignCancelled

datatype ItemState =
    Backlog | Investigating | ReadyForFix | Fixing | ReadyForTest | Testing
  | VerifiedGreen | Blocked

datatype WorkerRole = Investigator | Fixer | Tester

datatype JobStatus =
    JobPending | JobLeased | JobRunning | JobCompleted | JobFailed | JobCancelled

datatype AttemptStatus =
    AttemptRunning | AttemptSucceeded | AttemptFailed | AttemptExpired | AttemptInterrupted

datatype WorkspaceKind = SourceReadOnly | ManagedWorktree | Simulated

datatype ResourceKind = ChromeProfile | TenantDatabase | QueueEnvironment | TestFixture

datatype ResourcePolicyMode = Exclusive | Shared

datatype ManagedWorktreeState =
    WtProvisioning | WtReady | WtCleanupPending | WtQuarantined | WtRemoved

datatype ApprovalStatus = ApprovalPending | ApprovalApproved | ApprovalRejected

datatype EvidenceKind =
    EvBrowser | EvScreenshot | EvDatabase | EvTest | EvGl | EvApi | EvLog | EvExport
  | EvDocument | EvOther

datatype GateKind = FocusedTests | BrowserGate | DatabaseGate | GlGate | ApiGate | ExportGate

datatype GateResult = GatePass | GateFail | GateNotApplicable

datatype InvestigationOutcome = InvestigationReadyForFix | InvestigationBlocked

datatype FixOutcome = FixReadyForTest | FixBlocked

datatype TestOutcome = TestPass | TestRed | TestBlocked

datatype BlockerKind = ExecutionBlocker | ProductDecision

datatype GateDecision = DecideGreen | ReturnToFix | DecideBlocked | Rejected

subsection \<open>The values the enumerations persist as\<close>

fun campaign_status_value :: "CampaignStatus \<Rightarrow> string" where
  "campaign_status_value CampaignActive = ''active''"
| "campaign_status_value CampaignPaused = ''paused''"
| "campaign_status_value CampaignCompleted = ''completed''"
| "campaign_status_value CampaignCancelled = ''cancelled''"

definition all_campaign_statuses :: "CampaignStatus list" where
  "all_campaign_statuses = [CampaignActive, CampaignPaused, CampaignCompleted, CampaignCancelled]"

definition campaign_status_of :: "string \<Rightarrow> CampaignStatus option" where
  "campaign_status_of s = find (\<lambda>x. campaign_status_value x = s) all_campaign_statuses"

fun item_state_value :: "ItemState \<Rightarrow> string" where
  "item_state_value Backlog = ''backlog''"
| "item_state_value Investigating = ''investigating''"
| "item_state_value ReadyForFix = ''ready_for_fix''"
| "item_state_value Fixing = ''fixing''"
| "item_state_value ReadyForTest = ''ready_for_test''"
| "item_state_value Testing = ''testing''"
| "item_state_value VerifiedGreen = ''verified_green''"
| "item_state_value Blocked = ''blocked''"

definition all_item_states :: "ItemState list" where
  "all_item_states =
     [Backlog, Investigating, ReadyForFix, Fixing, ReadyForTest, Testing, VerifiedGreen, Blocked]"

definition item_state_of :: "string \<Rightarrow> ItemState option" where
  "item_state_of s = find (\<lambda>x. item_state_value x = s) all_item_states"

fun worker_role_value :: "WorkerRole \<Rightarrow> string" where
  "worker_role_value Investigator = ''investigator''"
| "worker_role_value Fixer = ''fixer''"
| "worker_role_value Tester = ''tester''"

definition all_worker_roles :: "WorkerRole list" where
  "all_worker_roles = [Investigator, Fixer, Tester]"

definition worker_role_of :: "string \<Rightarrow> WorkerRole option" where
  "worker_role_of s = find (\<lambda>x. worker_role_value x = s) all_worker_roles"

fun workspace_kind_value :: "WorkspaceKind \<Rightarrow> string" where
  "workspace_kind_value SourceReadOnly = ''source_read_only''"
| "workspace_kind_value ManagedWorktree = ''managed_worktree''"
| "workspace_kind_value Simulated = ''simulated''"

definition all_workspace_kinds :: "WorkspaceKind list" where
  "all_workspace_kinds = [SourceReadOnly, ManagedWorktree, Simulated]"

definition workspace_kind_of :: "string \<Rightarrow> WorkspaceKind option" where
  "workspace_kind_of s = find (\<lambda>x. workspace_kind_value x = s) all_workspace_kinds"

fun gate_value :: "GateKind \<Rightarrow> string" where
  "gate_value FocusedTests = ''focused_tests''"
| "gate_value BrowserGate = ''browser''"
| "gate_value DatabaseGate = ''database''"
| "gate_value GlGate = ''gl''"
| "gate_value ApiGate = ''api''"
| "gate_value ExportGate = ''export''"

definition all_gates :: "GateKind list" where
  "all_gates = [FocusedTests, BrowserGate, DatabaseGate, GlGate, ApiGate, ExportGate]"

definition gate_of :: "string \<Rightarrow> GateKind option" where
  "gate_of s = find (\<lambda>x. gate_value x = s) all_gates"

fun resource_kind_value :: "ResourceKind \<Rightarrow> string" where
  "resource_kind_value ChromeProfile = ''chrome_profile''"
| "resource_kind_value TenantDatabase = ''tenant_database''"
| "resource_kind_value QueueEnvironment = ''queue_environment''"
| "resource_kind_value TestFixture = ''test_fixture''"

definition all_resource_kinds :: "ResourceKind list" where
  "all_resource_kinds = [ChromeProfile, TenantDatabase, QueueEnvironment, TestFixture]"

definition resource_kind_of :: "string \<Rightarrow> ResourceKind option" where
  "resource_kind_of s = find (\<lambda>x. resource_kind_value x = s) all_resource_kinds"

text \<open>Roles in the order the enumeration lists them, which is the order pools are built in.\<close>

fun role_index :: "WorkerRole \<Rightarrow> nat" where
  "role_index Investigator = 0"
| "role_index Fixer = 1"
| "role_index Tester = 2"

instantiation WorkerRole :: linorder
begin

definition less_eq_WorkerRole :: "WorkerRole \<Rightarrow> WorkerRole \<Rightarrow> bool" where
  "less_eq_WorkerRole a b \<longleftrightarrow> role_index a \<le> role_index b"

definition less_WorkerRole :: "WorkerRole \<Rightarrow> WorkerRole \<Rightarrow> bool" where
  "less_WorkerRole a b \<longleftrightarrow> role_index a < role_index b"

instance
proof
  fix a b c :: WorkerRole
  show "(a < b) = (a \<le> b \<and> \<not> b \<le> a)"
    by (auto simp: less_eq_WorkerRole_def less_WorkerRole_def)
  show "a \<le> a" by (simp add: less_eq_WorkerRole_def)
  show "a \<le> b \<Longrightarrow> b \<le> c \<Longrightarrow> a \<le> c" by (simp add: less_eq_WorkerRole_def)
  show "a \<le> b \<Longrightarrow> b \<le> a \<Longrightarrow> a = b"
    by (cases a; cases b) (simp_all add: less_eq_WorkerRole_def)
  show "a \<le> b \<or> b \<le> a" by (auto simp: less_eq_WorkerRole_def)
qed

end

lemma in_all_worker_roles [simp]: "r \<in> set all_worker_roles"
  by (cases r) (simp_all add: all_worker_roles_def)

text \<open>Persisted values determine the enumeration member they came from.\<close>

lemma item_state_of_value [simp]: "item_state_of (item_state_value x) = Some x"
  by (cases x) (simp_all add: item_state_of_def all_item_states_def)

lemma worker_role_of_value [simp]: "worker_role_of (worker_role_value x) = Some x"
  by (cases x) (simp_all add: worker_role_of_def all_worker_roles_def)

lemma workspace_kind_of_value [simp]: "workspace_kind_of (workspace_kind_value x) = Some x"
  by (cases x) (simp_all add: workspace_kind_of_def all_workspace_kinds_def)

lemma gate_of_value [simp]: "gate_of (gate_value x) = Some x"
  by (cases x) (simp_all add: gate_of_def all_gates_def)

lemma item_state_of_SomeD: "item_state_of s = Some x \<Longrightarrow> item_state_value x = s"
  by (auto simp: item_state_of_def dest: find_SomeD)

lemma worker_role_of_SomeD: "worker_role_of s = Some x \<Longrightarrow> worker_role_value x = s"
  by (auto simp: worker_role_of_def dest: find_SomeD)

lemma workspace_kind_of_SomeD: "workspace_kind_of s = Some x \<Longrightarrow> workspace_kind_value x = s"
  by (auto simp: workspace_kind_of_def dest: find_SomeD)

lemma item_state_value_inject [simp]: "item_state_value x = item_state_value y \<longleftrightarrow> x = y"
  by (metis item_state_of_value option.inject)

lemma worker_role_value_inject [simp]: "worker_role_value x = worker_role_value y \<longleftrightarrow> x = y"
  by (metis worker_role_of_value option.inject)

section \<open>Item states of the roles\<close>

fun queued_state :: "WorkerRole \<Rightarrow> ItemState" where
  "queued_state Investigator = Backlog"
| "queued_state Fixer = ReadyForFix"
| "queued_state Tester = ReadyForTest"

fun active_state :: "WorkerRole \<Rightarrow> ItemState" where
  "active_state Investigator = Investigating"
| "active_state Fixer = Fixing"
| "active_state Tester = Testing"

definition is_active_state :: "ItemState \<Rightarrow> bool" where
  "is_active_state s \<longleftrightarrow> s \<in> {Investigating, Fixing, Testing}"

lemma is_active_state_active [simp]: "is_active_state (active_state r)"
  by (cases r) (simp_all add: is_active_state_def)

lemma not_active_queued [simp]: "\<not> is_active_state (queued_state r)"
  by (cases r) (simp_all add: is_active_state_def)

lemma queued_not_active [simp]: "queued_state r \<noteq> active_state r'"
  by (cases r; cases r') simp_all

section \<open>Handoffs\<close>

datatype model_error = ValidationError | AttributeError

record evidence_ref =
  ev_id :: string
  ev_kind :: EvidenceKind
  ev_location :: string
  ev_description :: string
  ev_metadata :: json

record blocker =
  bl_kind :: BlockerKind
  bl_summary :: string
  bl_next_action :: string
  bl_evidence :: "evidence_ref list"

record investigation_handoff =
  ih_item_id :: string
  ih_outcome :: InvestigationOutcome
  ih_synopsis :: string
  ih_reproduction_steps :: "string list"
  ih_root_cause :: string
  ih_proposed_fix :: string
  ih_acceptance_criteria :: "string list"
  ih_evidence :: "evidence_ref list"
  ih_blocker :: "blocker option"

record fix_handoff =
  fh_item_id :: string
  fh_outcome :: FixOutcome
  fh_summary :: string
  fh_changed_files :: "string list"
  fh_tests_run :: "string list"
  fh_tester_instructions :: "string list"
  fh_evidence :: "evidence_ref list"
  fh_blocker :: "blocker option"

record gate_proof =
  gp_gate :: GateKind
  gp_result :: GateResult
  gp_summary :: string
  gp_evidence :: "evidence_ref list"

record test_handoff =
  th_item_id :: string
  th_outcome :: TestOutcome
  th_summary :: string
  th_gate_proofs :: "gate_proof list"
  th_failure_summary :: "string option"
  th_blocker :: "blocker option"

datatype handoff =
    HInvestigation investigation_handoff
  | HFix fix_handoff
  | HTest test_handoff

fun gate_evidence_kinds :: "GateKind \<Rightarrow> EvidenceKind list" where
  "gate_evidence_kinds FocusedTests = [EvTest, EvLog]"
| "gate_evidence_kinds BrowserGate = [EvBrowser, EvScreenshot]"
| "gate_evidence_kinds DatabaseGate = [EvDatabase]"
| "gate_evidence_kinds GlGate = [EvGl, EvDatabase]"
| "gate_evidence_kinds ApiGate = [EvApi, EvLog]"
| "gate_evidence_kinds ExportGate = [EvExport, EvDocument]"

subsection \<open>Validation\<close>

text \<open>\<open>NonEmptyString\<close>: strip, then at least one character.\<close>

definition non_empty_string :: "string \<Rightarrow> model_error + string" where
  "non_empty_string s =
     (let t = py_strip s in check (t \<noteq> []) ValidationError (Inr t))"

fun validate_all :: "('a \<Rightarrow> model_error + 'a) \<Rightarrow> 'a list \<Rightarrow> model_error + 'a list" where
  "validate_all v [] = Inr []"
| "validate_all v (x # xs) =
     bindR (v x) (\<lambda>y. bindR (validate_all v xs) (\<lambda>ys. Inr (y # ys)))"

definition validate_option :: "('a \<Rightarrow> model_error + 'a) \<Rightarrow> 'a option \<Rightarrow> model_error + 'a option" where
  "validate_option v x =
     (case x of None \<Rightarrow> Inr None | Some y \<Rightarrow> bindR (v y) (\<lambda>z. Inr (Some z)))"

definition validate_evidence_ref :: "evidence_ref \<Rightarrow> model_error + evidence_ref" where
  "validate_evidence_ref e =
     bindR (non_empty_string (ev_id e)) (\<lambda>i.
     bindR (non_empty_string (ev_location e)) (\<lambda>l.
     bindR (non_empty_string (ev_description e)) (\<lambda>d.
       Inr (e\<lparr>ev_id := i, ev_location := l, ev_description := d\<rparr>))))"

definition validate_blocker :: "blocker \<Rightarrow> model_error + blocker" where
  "validate_blocker b =
     bindR (non_empty_string (bl_summary b)) (\<lambda>s.
     bindR (non_empty_string (bl_next_action b)) (\<lambda>n.
     bindR (validate_all validate_evidence_ref (bl_evidence b)) (\<lambda>es.
     check (es \<noteq> []) ValidationError
       (Inr (b\<lparr>bl_summary := s, bl_next_action := n, bl_evidence := es\<rparr>)))))"

definition validate_investigation_handoff ::
    "investigation_handoff \<Rightarrow> model_error + investigation_handoff" where
  "validate_investigation_handoff h =
     bindR (non_empty_string (ih_item_id h)) (\<lambda>item.
     bindR (non_empty_string (ih_synopsis h)) (\<lambda>synopsis.
     bindR (validate_all non_empty_string (ih_reproduction_steps h)) (\<lambda>steps.
     check (steps \<noteq> []) ValidationError (
     bindR (non_empty_string (ih_root_cause h)) (\<lambda>cause.
     bindR (non_empty_string (ih_proposed_fix h)) (\<lambda>fix.
     bindR (validate_all non_empty_string (ih_acceptance_criteria h)) (\<lambda>criteria.
     check (criteria \<noteq> []) ValidationError (
     bindR (validate_all validate_evidence_ref (ih_evidence h)) (\<lambda>evidence.
     check (evidence \<noteq> []) ValidationError (
     bindR (validate_option validate_blocker (ih_blocker h)) (\<lambda>blocker.
     check (\<not> (ih_outcome h = InvestigationBlocked \<and> blocker = None)) ValidationError (
     check (\<not> (ih_outcome h = InvestigationReadyForFix \<and> blocker \<noteq> None)) ValidationError (
       Inr (h\<lparr>ih_item_id := item, ih_synopsis := synopsis, ih_reproduction_steps := steps,
              ih_root_cause := cause, ih_proposed_fix := fix,
              ih_acceptance_criteria := criteria, ih_evidence := evidence,
              ih_blocker := blocker\<rparr>))))))))))))))"

definition validate_fix_handoff :: "fix_handoff \<Rightarrow> model_error + fix_handoff" where
  "validate_fix_handoff h =
     bindR (non_empty_string (fh_item_id h)) (\<lambda>item.
     bindR (non_empty_string (fh_summary h)) (\<lambda>summary.
     bindR (validate_all non_empty_string (fh_changed_files h)) (\<lambda>changed.
     bindR (validate_all non_empty_string (fh_tests_run h)) (\<lambda>tests.
     bindR (validate_all non_empty_string (fh_tester_instructions h)) (\<lambda>instructions.
     bindR (validate_all validate_evidence_ref (fh_evidence h)) (\<lambda>evidence.
     bindR (validate_option validate_blocker (fh_blocker h)) (\<lambda>blocker.
     let h' = h\<lparr>fh_item_id := item, fh_summary := summary, fh_changed_files := changed,
                 fh_tests_run := tests, fh_tester_instructions := instructions,
                 fh_evidence := evidence, fh_blocker := blocker\<rparr>
     in if fh_outcome h = FixBlocked
        then check (blocker \<noteq> None) ValidationError (Inr h')
        else check (blocker = None) ValidationError (
             check (changed \<noteq> []) ValidationError (
             check (instructions \<noteq> []) ValidationError (Inr h'))))))))))"

definition validate_gate_proof :: "gate_proof \<Rightarrow> model_error + gate_proof" where
  "validate_gate_proof p =
     bindR (non_empty_string (gp_summary p)) (\<lambda>summary.
     bindR (validate_all validate_evidence_ref (gp_evidence p)) (\<lambda>evidence.
     check (\<not> ((gp_result p = GatePass \<or> gp_result p = GateFail) \<and> evidence = []))
       ValidationError (
     let incompatible =
           filter (\<lambda>k. k \<notin> set (gate_evidence_kinds (gp_gate p))) (map ev_kind evidence)
     in check (incompatible = []) ValidationError
          (Inr (p\<lparr>gp_summary := summary, gp_evidence := evidence\<rparr>)))))"

definition validate_test_outcome :: "test_handoff \<Rightarrow> model_error + test_handoff" where
  "validate_test_outcome h =
     (let proof_gates = map gp_gate (th_gate_proofs h);
          failed_proofs = filter (\<lambda>p. gp_result p = GateFail) (th_gate_proofs h)
      in check (distinct proof_gates) ValidationError (
         case th_outcome h of
           TestPass \<Rightarrow>
             check (th_gate_proofs h \<noteq> []) ValidationError (
             check (failed_proofs = []) ValidationError (
             check (th_failure_summary h = None \<and> th_blocker h = None) ValidationError
               (Inr h)))
         | TestRed \<Rightarrow>
             check (failed_proofs \<noteq> []) ValidationError (
             check (th_failure_summary h \<noteq> None) ValidationError (
             check (th_blocker h = None) ValidationError (Inr h)))
         | TestBlocked \<Rightarrow>
             check (th_blocker h \<noteq> None) ValidationError (
             check (\<not> (failed_proofs \<noteq> [] \<or> th_failure_summary h \<noteq> None)) ValidationError
               (Inr h))))"

definition validate_test_handoff :: "test_handoff \<Rightarrow> model_error + test_handoff" where
  "validate_test_handoff h =
     bindR (non_empty_string (th_item_id h)) (\<lambda>item.
     bindR (non_empty_string (th_summary h)) (\<lambda>summary.
     bindR (validate_all validate_gate_proof (th_gate_proofs h)) (\<lambda>proofs.
     bindR (validate_option non_empty_string (th_failure_summary h)) (\<lambda>failure.
     bindR (validate_option validate_blocker (th_blocker h)) (\<lambda>blocker.
       validate_test_outcome
         (h\<lparr>th_item_id := item, th_summary := summary, th_gate_proofs := proofs,
            th_failure_summary := failure, th_blocker := blocker\<rparr>))))))"

section \<open>Gate evaluation\<close>

record gate_evaluation =
  ge_decision :: GateDecision
  ge_next_state :: "ItemState option"
  ge_missing_gates :: "GateKind list"
  ge_failed_gates :: "GateKind list"
  ge_inapplicable_required_gates :: "GateKind list"
  ge_reasons :: "string list"

definition can_advance :: "gate_evaluation \<Rightarrow> bool" where
  "can_advance e \<longleftrightarrow> ge_next_state e \<noteq> None"

definition gate_evaluation_of :: "GateDecision \<Rightarrow> ItemState option \<Rightarrow> string list \<Rightarrow> gate_evaluation" where
  "gate_evaluation_of d s rs =
     \<lparr>ge_decision = d, ge_next_state = s, ge_missing_gates = [], ge_failed_gates = [],
      ge_inapplicable_required_gates = [], ge_reasons = rs\<rparr>"

text \<open>The dictionary \<open>{proof.gate: proof}\<close>: a later proof of a gate replaces an earlier one.\<close>

definition proof_by_gate :: "test_handoff \<Rightarrow> GateKind \<Rightarrow> gate_proof option" where
  "proof_by_gate h g = map_of (rev (map (\<lambda>p. (gp_gate p, p)) (th_gate_proofs h))) g"

fun join :: "string \<Rightarrow> string list \<Rightarrow> string" where
  "join sep [] = []"
| "join sep [s] = s"
| "join sep (s # t # ts) = s @ sep @ join sep (t # ts)"

definition reason_of :: "string \<Rightarrow> GateKind list \<Rightarrow> string list" where
  "reason_of text gates =
     (if gates = [] then [] else [text @ join '', '' (map gate_value gates)])"

definition evaluate_test_handoff ::
    "GateKind list \<Rightarrow> test_handoff \<Rightarrow> model_error + gate_evaluation" where
  "evaluate_test_handoff required h =
     (if required = [] then
        Inr (gate_evaluation_of Rejected None
               [''an item must define at least one required evidence gate''])
      else if \<not> distinct required then
        Inr (gate_evaluation_of Rejected None [''required evidence gates must be unique''])
      else if th_outcome h = TestBlocked then
        (case th_blocker h of
           None \<Rightarrow> Inl AttributeError
         | Some b \<Rightarrow> Inr (gate_evaluation_of DecideBlocked (Some Blocked) [bl_summary b]))
      else
        let failed = map gp_gate (filter (\<lambda>p. gp_result p = GateFail) (th_gate_proofs h))
        in if th_outcome h = TestRed then
             (let failed_required = filter (\<lambda>g. g \<in> set failed) required
              in if failed_required = [] then
                   Inr (gate_evaluation_of Rejected None
                          [''a red result must fail at least one item-required gate'']
                        \<lparr>ge_failed_gates := failed\<rparr>)
                 else
                   (case th_failure_summary h of
                      None \<Rightarrow> Inl ValidationError
                    | Some s \<Rightarrow>
                        Inr (gate_evaluation_of ReturnToFix (Some ReadyForFix) [s]
                             \<lparr>ge_failed_gates := failed_required\<rparr>)))
           else
             (let missing = filter (\<lambda>g. proof_by_gate h g = None) required;
                  inapplicable = filter (\<lambda>g. case proof_by_gate h g of None \<Rightarrow> False
                      | Some p \<Rightarrow> gp_result p = GateNotApplicable) required;
                  failed_required = filter (\<lambda>g. case proof_by_gate h g of None \<Rightarrow> False
                      | Some p \<Rightarrow> gp_result p = GateFail) required
              in if missing \<noteq> [] \<or> inapplicable \<noteq> [] \<or> failed_required \<noteq> [] then
                   Inr (gate_evaluation_of Rejected None
                          (reason_of ''missing proof for required gates: '' missing
                           @ reason_of ''required gates cannot be marked not applicable: ''
                               inapplicable
                           @ reason_of ''required gates failed: '' failed_required)
                        \<lparr>ge_missing_gates := missing, ge_failed_gates := failed_required,
                         ge_inapplicable_required_gates := inapplicable\<rparr>)
                 else
                   Inr (gate_evaluation_of DecideGreen (Some VerifiedGreen)
                          [''all required evidence gates passed with attached evidence''])))"

end
