(* ===== verification/Resources.thy ===== *)
theory Resources
  imports Models
begin

text \<open>
  The typed resource definitions of \<^verbatim>\<open>models.py\<close> and the validators on them, with what the
  code asks of the world outside.  \<open>validate_resource_spec\<close> is
  \<open>ResourceDefinitionSpec.model_validate\<close> on a dictionary whose fields have the declared
  base types: it returns the canonical definition (strings stripped, paths resolved) or
  \<open>ValidationError\<close>.
\<close>

section \<open>The world outside\<close>

text \<open>
  The functions of \<open>hashlib\<close>, \<open>pathlib\<close> and \<open>os\<close> that the operations call, on the file
  system as it is when they run:
  \<^item> \<open>digest v\<close>: the SHA-256 hex digest of the canonical JSON text of \<open>v\<close>;
  \<^item> \<open>expanduser p\<close>: \<open>str(Path(p).expanduser())\<close>; \<open>resolve p\<close>: \<open>str(Path(p).resolve())\<close>;
  \<^item> \<open>is_file p\<close>: \<open>Path(p).is_file()\<close>;
  \<^item> \<open>directory p\<close>: device, inode and owner of \<open>p\<close> when \<open>p\<close> is a directory that resolves
    to itself;
  \<^item> \<open>dump v\<close>: the bytes of that text;
  \<^item> \<open>str_of v\<close>: \<open>str(v)\<close> of a JSON value that is not a string;
  \<^item> \<open>sha256 b\<close>: the SHA-256 hex digest of the bytes \<open>b\<close>; \<open>loads b\<close>: \<open>json.loads\<close> of them, \<open>None\<close>
    when it raises;
  \<^item> \<open>darwin\<close>: \<open>sys.platform == 'darwin'\<close>; \<open>own_uid\<close>: \<open>os.getuid()\<close>;
  \<^item> \<open>lstat p\<close>: \<open>Path(p).lstat()\<close>, \<open>None\<close> when it raises \<open>OSError\<close>; \<open>resolve_strict p\<close>:
    \<open>str(Path(p).resolve(strict=True))\<close>, \<open>None\<close> when \<open>p\<close> does not exist; \<open>can_execute p\<close>:
    \<open>os.access(p, os.X_OK)\<close>; \<open>content p\<close>: the bytes of the regular file \<open>p\<close>; \<open>link_target p\<close>:
    \<open>os.readlink(p)\<close>;
  \<^item> \<open>walk p\<close>: what \<open>os.walk(p, topdown=True, followlinks=False)\<close> yields when nothing is pruned.

  A function that reads a file twice to see whether it changed meanwhile sees one file system
  here: the branches that report such a change have no counterpart.
\<close>

datatype file_kind = RegularFile | Directory | SymbolicLink | OtherFile

record file_stat =
  st_kind :: file_kind
  st_dev :: int
  st_ino :: int
  st_uid :: int
  st_mode :: int
  st_nlink :: int
  st_size :: int

record world =
  digest :: "json \<Rightarrow> string"
  dump :: "json \<Rightarrow> string"
  expanduser :: "string \<Rightarrow> string"
  resolve :: "string \<Rightarrow> string"
  is_file :: "string \<Rightarrow> bool"
  directory :: "string \<Rightarrow> (int \<times> int \<times> int) option"
  str_of :: "json \<Rightarrow> string"
  sha256 :: "string \<Rightarrow> string"
  loads :: "string \<Rightarrow> json option"
  darwin :: bool
  own_uid :: int
  lstat :: "string \<Rightarrow> file_stat option"
  resolve_strict :: "string \<Rightarrow> string option"
  can_execute :: "string \<Rightarrow> bool"
  content :: "string \<Rightarrow> string"
  link_target :: "string \<Rightarrow> string"
  walk :: "string \<Rightarrow> (string \<times> string list \<times> string list) list"

text \<open>\<open>Path(p).is_absolute()\<close> on a POSIX path.\<close>

definition is_absolute :: "string \<Rightarrow> bool" where
  "is_absolute p \<longleftrightarrow> starts_with ''/'' p"

definition opt_str :: "string option \<Rightarrow> json" where
  "opt_str v = (case v of None \<Rightarrow> JNull | Some s \<Rightarrow> JStr s)"

definition opt_num :: "int option \<Rightarrow> json" where
  "opt_num v = (case v of None \<Rightarrow> JNull | Some n \<Rightarrow> JNum n)"

definition str_list :: "string list \<Rightarrow> json" where
  "str_list xs = JArr (map JStr xs)"

section \<open>Constrained strings\<close>

definition name_char :: "char \<Rightarrow> bool" where
  "name_char c \<longleftrightarrow> is_alnum c \<or> c \<in> set ''_.:-''"

text \<open>\<open>ResourceName\<close>: stripped, 1 to 128 characters, \<^verbatim>\<open>^[A-Za-z0-9][A-Za-z0-9_.:-]*$\<close>.\<close>

definition resource_name :: "string \<Rightarrow> model_error + string" where
  "resource_name s =
     (let t = py_strip s
      in check (1 \<le> length t \<and> length t \<le> 128) ValidationError (
         check (is_alnum (hd t) \<and> list_all name_char (tl t)) ValidationError (Inr t)))"

text \<open>\<open>EnvironmentKey\<close>: \<^verbatim>\<open>^[A-Z][A-Z0-9_]{0,127}$\<close>, stripped by the model's policy.\<close>

definition environment_key :: "string \<Rightarrow> model_error + string" where
  "environment_key s =
     (let t = py_strip s
      in check (t \<noteq> [] \<and> length t \<le> 128 \<and> is_upper (hd t)
            \<and> list_all (\<lambda>c. is_upper c \<or> is_digit c \<or> c = CHR ''_'') (tl t))
           ValidationError (Inr t))"

section \<open>Concurrency policy\<close>

record resource_policy =
  rp_mode :: ResourcePolicyMode
  rp_limit :: int

definition policy_ok :: "resource_policy \<Rightarrow> bool" where
  "policy_ok p \<longleftrightarrow> 1 \<le> rp_limit p \<and> rp_limit p \<le> 128
     \<and> \<not> (rp_mode p = Exclusive \<and> rp_limit p \<noteq> 1)
     \<and> \<not> (rp_mode p = Shared \<and> rp_limit p < 2)"

definition default_policy :: resource_policy where
  "default_policy = \<lparr>rp_mode = Exclusive, rp_limit = 1\<rparr>"

definition policy_json :: "resource_policy \<Rightarrow> json" where
  "policy_json p =
     JObj [(''mode'', JStr (case rp_mode p of Exclusive \<Rightarrow> ''exclusive'' | Shared \<Rightarrow> ''shared'')),
           (''limit'', JNum (rp_limit p))]"

section \<open>Typed configurations\<close>

datatype resource_configuration =
    ChromeConfig string string                            \<comment> \<open>user_data_dir, profile_directory\<close>
  | TenantConfig string string string                     \<comment> \<open>tenant_key, database_name, connection_env\<close>
  | QueueConfig string "string list" "string option"      \<comment> \<open>environment_key, queue_names, connection_env\<close>
  | FixtureConfig string string                           \<comment> \<open>fixture_key, root_path\<close>

fun configuration_json :: "resource_configuration \<Rightarrow> json" where
  "configuration_json (ChromeConfig d p) =
     JObj [(''user_data_dir'', JStr d), (''profile_directory'', JStr p)]"
| "configuration_json (TenantConfig t d e) =
     JObj [(''tenant_key'', JStr t), (''database_name'', JStr d), (''connection_env'', JStr e)]"
| "configuration_json (QueueConfig k qs e) =
     JObj [(''environment_key'', JStr k), (''queue_names'', str_list qs),
           (''connection_env'', opt_str e)]"
| "configuration_json (FixtureConfig k r) =
     JObj [(''fixture_key'', JStr k), (''root_path'', JStr r), (''disposable'', JBool True)]"

fun configuration_kind :: "resource_configuration \<Rightarrow> ResourceKind" where
  "configuration_kind (ChromeConfig _ _) = ChromeProfile"
| "configuration_kind (TenantConfig _ _ _) = TenantDatabase"
| "configuration_kind (QueueConfig _ _ _) = QueueEnvironment"
| "configuration_kind (FixtureConfig _ _) = TestFixture"

definition profile_char :: "char \<Rightarrow> bool" where
  "profile_char c \<longleftrightarrow> is_alnum c \<or> c \<in> set ''_. -''"

definition validate_profile_directory :: "string \<Rightarrow> bool" where
  "validate_profile_directory value \<longleftrightarrow>
     value = py_strip value
     \<and> control_characters_ok (JStr value)
     \<and> \<not> (value = ''.'' \<or> value = ''..'' \<or> CHR ''/'' \<in> set value \<or> CHR 0x5C \<in> set value)
     \<and> value \<noteq> [] \<and> length value \<le> 128 \<and> is_alnum (hd value) \<and> list_all profile_char (tl value)"

definition agent_flow_tmp :: string where
  "agent_flow_tmp = ''/private/tmp/agent-flow-''"

fun validate_configuration ::
    "world \<Rightarrow> resource_configuration \<Rightarrow> model_error + resource_configuration" where
  "validate_configuration W (ChromeConfig d p) =
     bindR (non_empty_string d) (\<lambda>d'.
     check (is_absolute (expanduser W d')) ValidationError (
     check (validate_profile_directory p) ValidationError
       (Inr (ChromeConfig (resolve W (expanduser W d')) p))))"
| "validate_configuration W (TenantConfig t d e) =
     bindR (resource_name t) (\<lambda>t'.
     bindR (resource_name d) (\<lambda>d'.
     bindR (environment_key e) (\<lambda>e'.
       Inr (TenantConfig t' d' e'))))"
| "validate_configuration W (QueueConfig k qs e) =
     bindR (resource_name k) (\<lambda>k'.
     bindR (validate_all resource_name qs) (\<lambda>qs'.
     check (1 \<le> length qs' \<and> length qs' \<le> 64) ValidationError (
     check (distinct qs') ValidationError (
     bindR (validate_option environment_key e) (\<lambda>e'.
       Inr (QueueConfig k' qs' e'))))))"
| "validate_configuration W (FixtureConfig k r) =
     bindR (resource_name k) (\<lambda>k'.
     bindR (non_empty_string r) (\<lambda>r'.
     check (is_absolute (expanduser W r')) ValidationError (
     let normalized = resolve W (expanduser W r')
     in check (starts_with agent_flow_tmp normalized) ValidationError
          (Inr (FixtureConfig k' normalized)))))"

section \<open>Definitions\<close>

record resource_spec =
  rs_kind :: ResourceKind
  rs_label :: string
  rs_enabled :: bool
  rs_configuration :: resource_configuration
  rs_campaign_id :: "string option"
  rs_metadata :: "(string \<times> json) list"
  rs_policy :: resource_policy

text \<open>Metadata keys: \<^verbatim>\<open>[A-Za-z][A-Za-z0-9_.-]{0,63}\<close>, the whole key.\<close>

definition metadata_key :: "string \<Rightarrow> bool" where
  "metadata_key k \<longleftrightarrow> k \<noteq> [] \<and> length k \<le> 64 \<and> is_alpha (hd k)
     \<and> list_all (\<lambda>c. is_alnum c \<or> c \<in> set ''_.-'') (tl k)"

fun metadata_value :: "json \<Rightarrow> model_error + json" where
  "metadata_value (JStr s) = Inr (JStr (py_strip s))"
| "metadata_value (JNum n) = Inr (JNum n)"
| "metadata_value (JBool b) = Inr (JBool b)"
| "metadata_value _ = Inl ValidationError"

definition validate_metadata ::
    "(string \<times> json) list \<Rightarrow> model_error + (string \<times> json) list" where
  "validate_metadata m =
     check (resource_secrets_ok (JObj m)) ValidationError (
     check (control_characters_ok (JObj m)) ValidationError (
     check (length m \<le> 32) ValidationError (
     check (list_all (\<lambda>kv. metadata_key (fst kv)) m) ValidationError (
     validate_all (\<lambda>kv. bindR (metadata_value (snd kv)) (\<lambda>v. Inr (fst kv, v))) m))))"

definition validate_label :: "string \<Rightarrow> model_error + string" where
  "validate_label s =
     check (resource_secrets_ok (JStr s)) ValidationError (
     check (control_characters_ok (JStr s)) ValidationError (
     let t = py_strip s
     in check (1 \<le> length t \<and> length t \<le> 160) ValidationError (Inr t)))"

definition validate_resource_spec :: "world \<Rightarrow> resource_spec \<Rightarrow> model_error + resource_spec" where
  "validate_resource_spec W s =
     bindR (validate_label (rs_label s)) (\<lambda>label.
     check (resource_secrets_ok (configuration_json (rs_configuration s))) ValidationError (
     bindR (validate_configuration W (rs_configuration s)) (\<lambda>configuration.
     bindR (validate_option non_empty_string (rs_campaign_id s)) (\<lambda>campaign.
     bindR (validate_metadata (rs_metadata s)) (\<lambda>metadata.
     check (policy_ok (rs_policy s)) ValidationError (
     check (configuration_kind configuration = rs_kind s) ValidationError
       (Inr (s\<lparr>rs_label := label, rs_configuration := configuration,
               rs_campaign_id := campaign, rs_metadata := metadata\<rparr>))))))))"

text \<open>\<open>_resource_identity_hash\<close> and \<open>_resource_definition_hash\<close>: \<open>enabled\<close> is not hashed.\<close>

definition resource_identity_hash :: "world \<Rightarrow> ResourceKind \<Rightarrow> resource_configuration \<Rightarrow> string" where
  "resource_identity_hash W k c =
     digest W (JObj [(''kind'', JStr (resource_kind_value k)),
                     (''configuration'', configuration_json c)])"

definition resource_definition_hash :: "world \<Rightarrow> string \<Rightarrow> resource_spec \<Rightarrow> string" where
  "resource_definition_hash W i s =
     digest W (JObj [(''id'', JStr i),
                     (''kind'', JStr (resource_kind_value (rs_kind s))),
                     (''label'', JStr (rs_label s)),
                     (''configuration'', configuration_json (rs_configuration s)),
                     (''campaign_id'', opt_str (rs_campaign_id s)),
                     (''metadata'', JObj (rs_metadata s)),
                     (''policy'', policy_json (rs_policy s))])"

end
