(* ===== verification/Schema.thy ===== *)
theory Schema
  imports Resources
begin

text \<open>
  The store's tables (the \<^verbatim>\<open>_SCHEMA_V1\<close> to \<^verbatim>\<open>_SCHEMA_V12\<close> statements of \<^verbatim>\<open>storage.py\<close>):
  one record per table, the columns its fields, and one \<open>insert\<close> per table with the primary
  key, the foreign keys, the unique indexes and the \<open>CHECK\<close> constraints that SQLite enforces
  (a violation is \<open>IntegrityError\<close>).

  Instants are integers: the code adds a lease duration to the clock and compares instants,
  nothing else.  A \<open>NULL\<close> is \<open>None\<close>.  The execution tables keep the columns that the queue
  reads or writes.
\<close>

type_synonym time = int

datatype store_error =
    ValueError | TypeError | IndexError | OSError | IntegrityError
  | StorageError | NotFoundError | TransitionConflict | LeaseConflict

text \<open>\<open>except StorageError\<close> also catches its three subclasses.\<close>

definition is_storage_error :: "store_error \<Rightarrow> bool" where
  "is_storage_error e \<longleftrightarrow> e \<in> {StorageError, NotFoundError, TransitionConflict, LeaseConflict}"

datatype execution_mode = LegacyMode | FocusedTestAdmissionMode

record campaign_row =
  cp_id :: string
  cp_name :: string
  cp_status :: CampaignStatus
  cp_config :: json
  cp_global_limit :: int
  cp_role_limits :: "(string \<times> int) list"
  cp_created_at :: time
  cp_updated_at :: time
  cp_execution_mode :: execution_mode

record item_row =
  it_id :: string
  it_campaign_id :: string
  it_title :: string
  it_description :: string
  it_state :: ItemState
  it_priority :: int
  it_required_gates :: "GateKind list"
  it_metadata :: json
  it_created_at :: time
  it_updated_at :: time

text \<open>\<open>result_json\<close>: a validated handoff, or the dictionary a failure carries.\<close>

datatype stage_result = ResultHandoff handoff | ResultJson json

record job_row =
  jb_id :: string
  jb_campaign_id :: string
  jb_item_id :: string
  jb_role :: WorkerRole
  jb_stage :: string
  jb_status :: JobStatus
  jb_priority :: int
  jb_payload :: json
  jb_result :: "stage_result option"
  jb_required_resources :: "string list"
  jb_queued_state :: ItemState
  jb_active_state :: ItemState
  jb_required_approval_action :: "string option"
  jb_available_at :: time
  jb_lease_owner :: "string option"
  jb_lease_token :: "string option"
  jb_lease_expires_at :: "time option"
  jb_heartbeat_at :: "time option"
  jb_current_attempt_id :: "string option"
  jb_attempt_count :: int
  jb_last_error :: "string option"
  jb_created_at :: time
  jb_updated_at :: time
  jb_workspace_kind :: WorkspaceKind
  jb_managed_worktree_id :: "string option"

record attempt_row =
  at_id :: string
  at_job_id :: string
  at_number :: int
  at_worker_id :: string
  at_lease_token :: string
  at_status :: AttemptStatus
  at_result :: "stage_result option"
  at_error :: "string option"
  at_started_at :: time
  at_heartbeat_at :: time
  at_lease_expires_at :: time
  at_finished_at :: "time option"
  at_external_provider :: "string option"
  at_external_session_id :: "string option"
  at_external_process_id :: "int option"
  at_external_process_group_id :: "int option"
  at_external_process_executable :: "string option"
  at_external_process_started_at :: "time option"
  at_managed_worktree_id :: "string option"
  at_managed_worktree_generation :: "int option"
  at_admission_id :: "string option"

record event_row =
  en_campaign_id :: "string option"
  en_item_id :: "string option"
  en_job_id :: "string option"
  en_kind :: string
  en_actor :: "string option"
  en_data :: json
  en_created_at :: time

record approval_row =
  ap_id :: string
  ap_campaign_id :: string
  ap_item_id :: "string option"
  ap_action :: string
  ap_scope :: json
  ap_status :: ApprovalStatus
  ap_requested_by :: string
  ap_requested_at :: time
  ap_resolved_by :: "string option"
  ap_resolved_at :: "time option"

record artifact_row =
  ar_id :: string
  ar_item_id :: string
  ar_job_id :: "string option"
  ar_kind :: string
  ar_uri :: string
  ar_metadata :: json
  ar_created_at :: time
  ar_attempt_id :: "string option"

record lease_row =
  ls_key :: string
  ls_slot :: nat
  ls_definition_id :: "string option"
  ls_owner :: string
  ls_job_id :: "string option"
  ls_token :: string
  ls_acquired_at :: time
  ls_heartbeat_at :: time
  ls_expires_at :: time
  ls_identity_hash :: "string option"

record definition_row =
  rd_id :: string
  rd_kind :: ResourceKind
  rd_label :: string
  rd_enabled :: bool
  rd_configuration :: resource_configuration
  rd_campaign_id :: "string option"
  rd_metadata :: "(string \<times> json) list"
  rd_policy :: resource_policy
  rd_identity_hash :: string
  rd_definition_hash :: string
  rd_created_at :: time
  rd_updated_at :: time

datatype identity_version = DarwinLibprocV1 | LegacyV3

datatype process_state = ProcActive | ProcLegacyUnverifiable | ProcQuarantined | ProcStopped

record process_row =
  ep_id :: string
  ep_attempt_id :: string
  ep_job_id :: string
  ep_provider :: string
  ep_process_id :: int
  ep_process_group_id :: int
  ep_owner_uid :: "int option"
  ep_start_seconds :: "int option"
  ep_start_microseconds :: "int option"
  ep_kernel_executable :: "string option"
  ep_target_executable :: "string option"
  ep_identity_version :: identity_version
  ep_state :: process_state
  ep_recorded_at :: time
  ep_stopped_at :: "time option"
  ep_outcome :: "string option"
  ep_reconciliation_owner :: "string option"
  ep_reconciliation_token :: "string option"
  ep_reconciliation_expires_at :: "time option"
  ep_last_error :: "string option"
  ep_updated_at :: time

datatype control_action = ActInterrupt | ActResume

datatype control_status = CtlPending | CtlApplied | CtlRejected

record control_row =
  oc_id :: string
  oc_job_id :: string
  oc_source_attempt_id :: string
  oc_target_attempt_id :: "string option"
  oc_action :: control_action
  oc_status :: control_status
  oc_requested_by :: string
  oc_reason :: string
  oc_expected_lease_owner :: "string option"
  oc_expected_lease_token :: "string option"
  oc_expected_provider :: "string option"
  oc_expected_session_id :: "string option"
  oc_expected_process_id :: "int option"
  oc_expected_process_group_id :: "int option"
  oc_expected_process_start_seconds :: "int option"
  oc_expected_process_start_microseconds :: "int option"
  oc_expected_process_executable :: "string option"
  oc_expected_worktree_id :: "string option"
  oc_expected_worktree_generation :: "int option"
  oc_expected_resources :: "string list"
  oc_expected_resources_sha256 :: string
  oc_requested_at :: time
  oc_applied_at :: "time option"
  oc_last_error :: "string option"

record worktree_row =
  wt_id :: string
  wt_generation :: int
  wt_campaign_id :: string
  wt_item_id :: string
  wt_fixer_job_id :: string
  wt_repository_path :: string
  wt_source_git_common_dir :: string
  wt_source_git_dir :: string
  wt_source_device :: int
  wt_source_inode :: int
  wt_source_owner_uid :: int
  wt_object_format :: string
  wt_worktree_path :: string
  wt_worktree_git_dir :: "string option"
  wt_worktree_device :: "int option"
  wt_worktree_inode :: "int option"
  wt_worktree_owner_uid :: "int option"
  wt_branch_ref :: string
  wt_base_revision :: string
  wt_base_tree :: string
  wt_head_revision :: "string option"
  wt_lock_reason :: string
  wt_source_snapshot :: json
  wt_state :: ManagedWorktreeState
  wt_last_error :: "string option"
  wt_created_at :: time
  wt_ready_at :: "time option"
  wt_cleanup_started_at :: "time option"
  wt_removed_at :: "time option"
  wt_updated_at :: time

datatype operation_kind = OpCreate | OpRemove

datatype operation_status = OpRunning | OpSucceeded | OpQuarantined

datatype operation_process_state = OpProcActive | OpProcStopped

record operation_row =
  wo_id :: string
  wo_worktree_id :: string
  wo_number :: int
  wo_kind :: operation_kind
  wo_status :: operation_status
  wo_owner :: string
  wo_token :: string
  wo_lease_expires_at :: time
  wo_expected_identity :: json
  wo_observed_identity :: "json option"
  wo_process_id :: "int option"
  wo_process_group_id :: "int option"
  wo_process_owner_uid :: "int option"
  wo_process_start_seconds :: "int option"
  wo_process_start_microseconds :: "int option"
  wo_process_kernel_executable :: "string option"
  wo_process_target_executable :: "string option"
  wo_process_identity_version :: "identity_version option"
  wo_process_state :: "operation_process_state option"
  wo_process_stopped_at :: "time option"
  wo_stdout_path :: "string option"
  wo_stdout_sha256 :: "string option"
  wo_stderr_path :: "string option"
  wo_stderr_sha256 :: "string option"
  wo_reconciliation_owner :: "string option"
  wo_reconciliation_token :: "string option"
  wo_reconciliation_expires_at :: "time option"
  wo_error :: "string option"
  wo_started_at :: time
  wo_finished_at :: "time option"
  wo_updated_at :: time

record focused_plan_row =
  fp_id :: string
  fp_item_id :: string
  fp_plan_number :: int
  fp_executable_path :: string
  fp_executable_device :: int
  fp_executable_inode :: int
  fp_executable_owner_uid :: int
  fp_executable_mode :: int
  fp_executable_sha256 :: string
  fp_sandbox_policy_version :: "string option"
  fp_sandbox_executable_path :: "string option"
  fp_sandbox_executable_device :: "int option"
  fp_sandbox_executable_inode :: "int option"
  fp_sandbox_executable_owner_uid :: "int option"
  fp_sandbox_executable_mode :: "int option"
  fp_sandbox_executable_sha256 :: "string option"
  fp_python_runtime_root :: "string option"
  fp_python_runtime_sha256 :: "string option"
  fp_test_file :: string
  fp_selector :: string
  fp_environment :: json
  fp_environment_sha256 :: string
  fp_workspace_manifest :: json
  fp_workspace_manifest_sha256 :: string
  fp_runtime_root :: string
  fp_timeout_seconds :: int
  fp_output_limit_bytes :: int
  fp_created_at :: time

text \<open>The file columns of a plan or an execution: one record per file.\<close>

record file_identity =
  fi_path :: string
  fi_device :: int
  fi_inode :: int
  fi_owner_uid :: int
  fi_mode :: int
  fi_sha256 :: string

record output_identity =
  oi_device :: int
  oi_inode :: int
  oi_owner_uid :: int
  oi_mode :: int
  oi_nlink :: int
  oi_bytes :: int
  oi_sha256 :: string

record browser_plan_row =
  bp_id :: string
  bp_item_id :: string
  bp_plan_number :: int
  bp_resource_definition_id :: string
  bp_resource_identity_hash :: string
  bp_route :: string
  bp_route_identity :: output_identity
  bp_expected_title :: string
  bp_expected_body_text :: string
  bp_runtime_root :: string
  bp_timeout_seconds :: int
  bp_plan_sha256 :: string
  bp_created_at :: time

record database_plan_row =
  dp_id :: string
  dp_item_id :: string
  dp_plan_number :: int
  dp_resource_definition_id :: string
  dp_resource_identity_hash :: string
  dp_statement :: string
  dp_parameters :: "json list"
  dp_query_sha256 :: string
  dp_id_column :: string
  dp_expected_ids :: "json list"
  dp_expected_row_count :: "int option"
  dp_max_rows :: int
  dp_max_bytes :: int
  dp_timeout_seconds :: int
  dp_runtime_root :: string
  dp_plan_sha256 :: string
  dp_created_at :: time

datatype execution_status = ExPrepared | ExFinished | ExAbandoned | ExQuarantined

text \<open>The columns the three tables of executions share, then those of each.\<close>

record execution_row =
  ex_id :: string
  ex_plan_id :: string
  ex_attempt_id :: string
  ex_job_id :: string
  ex_item_id :: string
  ex_status :: execution_status
  ex_outcome :: "string option"
  ex_error :: "string option"
  ex_prepared_at :: time
  ex_finished_at :: "time option"
  ex_updated_at :: time

record focused_execution_row = execution_row +
  fx_worktree_id :: string
  fx_worktree_generation :: int
  fx_executable :: file_identity
  fx_sandbox_policy_version :: "string option"
  fx_sandbox_executable :: "file_identity option"
  fx_python_runtime_root :: "string option"
  fx_python_runtime_sha256 :: "string option"
  fx_sandbox_profile :: "string option"
  fx_sandbox_profile_sha256 :: "string option"
  fx_test_file :: string
  fx_selector :: string
  fx_test_command :: "string list"
  fx_test_command_sha256 :: string
  fx_command :: "string list"
  fx_command_sha256 :: string
  fx_environment :: "(string \<times> string) list"
  fx_environment_sha256 :: string
  fx_cwd :: string
  fx_cwd_device :: int
  fx_cwd_inode :: int
  fx_cwd_owner_uid :: int
  fx_cwd_mode :: int
  fx_manifest_before :: json
  fx_manifest_before_sha256 :: string
  fx_manifest_after :: "json option"
  fx_manifest_after_sha256 :: "string option"
  fx_run_parent :: string
  fx_artifact_directory :: string
  fx_stdout_path :: string
  fx_stderr_path :: string
  fx_timeout_seconds :: int
  fx_output_limit_bytes :: int
  fx_stdout :: "output_identity option"
  fx_stderr :: "output_identity option"
  fx_stdout_artifact_id :: "string option"
  fx_stderr_artifact_id :: "string option"
  fx_exit_code :: "int option"
  fx_semantic_summary :: "string option"
  fx_canonical_handoff :: "test_handoff option"

record browser_execution_row = execution_row +
  bx_resource_definition_id :: string
  bx_resource_identity_hash :: string
  bx_requested_route :: string
  bx_observed_route :: "string option"
  bx_observed_title :: "string option"
  bx_observed_body_sha256 :: "string option"
  bx_assertions :: "(bool \<times> bool \<times> bool) option"
  bx_run_parent :: string
  bx_screenshot_path :: string
  bx_screenshot :: "output_identity option"
  bx_artifact_id :: "string option"

record database_execution_row = execution_row +
  dx_resource_definition_id :: string
  dx_resource_identity_hash :: string
  dx_query_sha256 :: string
  dx_row_count :: "int option"
  dx_column_count :: "int option"
  dx_observed_ids :: "json list option"
  dx_read_only_proof :: "json option"
  dx_run_parent :: string
  dx_result_path :: string
  dx_result :: "output_identity option"
  dx_artifact_id :: "string option"

record resource_binding =
  rb_id :: string
  rb_kind :: ResourceKind
  rb_campaign_id :: "string option"
  rb_identity_hash :: string
  rb_definition_hash :: string
  rb_policy :: resource_policy

record admission_row =
  fa_id :: string
  fa_campaign_id :: string
  fa_item_id :: string
  fa_tester_job_id :: string
  fa_managed_worktree_id :: string
  fa_managed_worktree_generation :: int
  fa_focused_test_plan_id :: string
  fa_focused_test_plan_sha256 :: string
  fa_campaign_config_sha256 :: string
  fa_job_payload_sha256 :: string
  fa_required_gates_sha256 :: string
  fa_repository_identity :: json
  fa_repository_identity_sha256 :: string
  fa_worktree_identity :: json
  fa_worktree_identity_sha256 :: string
  fa_resource_definition_ids :: "string list"
  fa_resource_bindings :: "resource_binding list"
  fa_resource_bindings_sha256 :: string
  fa_required_resources_sha256 :: string
  fa_authority_sha256 :: string
  fa_active :: bool
  fa_admitted_by :: string
  fa_admission_reason :: string
  fa_admitted_at :: time
  fa_revoked_by :: "string option"
  fa_revocation_reason :: "string option"
  fa_revoked_at :: "time option"
  fa_updated_at :: time
  fa_browser_plan_id :: "string option"
  fa_browser_plan_sha256 :: "string option"
  fa_database_plan_id :: "string option"
  fa_database_plan_sha256 :: "string option"

record store =
  campaigns :: "campaign_row list"
  items :: "item_row list"
  jobs :: "job_row list"
  attempts :: "attempt_row list"
  events :: "event_row list"
  approvals :: "approval_row list"
  artifacts :: "artifact_row list"
  leases :: "lease_row list"
  definitions :: "definition_row list"
  processes :: "process_row list"
  controls :: "control_row list"
  worktrees :: "worktree_row list"
  worktree_operations :: "operation_row list"
  focused_plans :: "focused_plan_row list"
  focused_executions :: "focused_execution_row list"
  browser_plans :: "browser_plan_row list"
  browser_executions :: "browser_execution_row list"
  database_plans :: "database_plan_row list"
  database_executions :: "database_execution_row list"
  admissions :: "admission_row list"

definition empty_store :: store where
  "empty_store = \<lparr>campaigns = [], items = [], jobs = [], attempts = [], events = [],
     approvals = [], artifacts = [], leases = [], definitions = [], processes = [],
     controls = [], worktrees = [], worktree_operations = [], focused_plans = [], focused_executions = [],
     browser_plans = [], browser_executions = [], database_plans = [], database_executions = [],
     admissions = []\<rparr>"

section \<open>Inserts\<close>

definition has_key :: "('r \<Rightarrow> 'k) \<Rightarrow> 'k \<Rightarrow> 'r list \<Rightarrow> bool" where
  "has_key key k t \<longleftrightarrow> k \<in> key ` set t"

definition has_optional_key :: "('r \<Rightarrow> 'k) \<Rightarrow> 'k option \<Rightarrow> 'r list \<Rightarrow> bool" where
  "has_optional_key key k t \<longleftrightarrow> (case k of None \<Rightarrow> True | Some k' \<Rightarrow> has_key key k' t)"

definition insert_campaign :: "campaign_row \<Rightarrow> store \<Rightarrow> store_error + store" where
  "insert_campaign r st =
     check (\<not> has_key cp_id (cp_id r) (campaigns st)) IntegrityError (
     check (cp_global_limit r > 0) IntegrityError
       (Inr (st\<lparr>campaigns := campaigns st @ [r]\<rparr>)))"

definition insert_item :: "item_row \<Rightarrow> store \<Rightarrow> store_error + store" where
  "insert_item r st =
     check (\<not> has_key it_id (it_id r) (items st)) IntegrityError (
     check (has_key cp_id (it_campaign_id r) (campaigns st)) IntegrityError
       (Inr (st\<lparr>items := items st @ [r]\<rparr>)))"

definition open_job :: "job_row \<Rightarrow> bool" where
  "open_job j \<longleftrightarrow> jb_status j = JobPending \<or> jb_status j = JobRunning"

text \<open>With the unique index \<open>one_open_job_per_stage\<close>.\<close>

definition insert_job :: "job_row \<Rightarrow> store \<Rightarrow> store_error + store" where
  "insert_job r st =
     check (\<not> has_key jb_id (jb_id r) (jobs st)) IntegrityError (
     check (has_key cp_id (jb_campaign_id r) (campaigns st)) IntegrityError (
     check (has_key it_id (jb_item_id r) (items st)) IntegrityError (
     check (has_optional_key wt_id (jb_managed_worktree_id r) (worktrees st)) IntegrityError (
     check (\<not> (open_job r \<and> (\<exists>j \<in> set (jobs st). open_job j \<and> jb_item_id j = jb_item_id r
                 \<and> jb_role j = jb_role r \<and> jb_stage j = jb_stage r))) IntegrityError
       (Inr (st\<lparr>jobs := jobs st @ [r]\<rparr>))))))"

definition insert_attempt :: "attempt_row \<Rightarrow> store \<Rightarrow> store_error + store" where
  "insert_attempt r st =
     check (\<not> has_key at_id (at_id r) (attempts st)) IntegrityError (
     check (has_key jb_id (at_job_id r) (jobs st)) IntegrityError (
     check (\<not> has_key (\<lambda>a. (at_job_id a, at_number a)) (at_job_id r, at_number r) (attempts st))
       IntegrityError (
     check (has_optional_key wt_id (at_managed_worktree_id r) (worktrees st)) IntegrityError (
     check (has_optional_key fa_id (at_admission_id r) (admissions st)) IntegrityError
       (Inr (st\<lparr>attempts := attempts st @ [r]\<rparr>))))))"

definition lease_row_ok :: "lease_row \<Rightarrow> bool" where
  "lease_row_ok r \<longleftrightarrow> ls_slot r > 0
     \<and> (ls_definition_id r = None \<or> ls_definition_id r = Some (ls_key r))
     \<and> (ls_definition_id r = None \<or> ls_job_id r \<noteq> None)"

definition insert_lease :: "lease_row \<Rightarrow> store \<Rightarrow> store_error + store" where
  "insert_lease r st =
     check (\<not> has_key (\<lambda>l. (ls_key l, ls_slot l)) (ls_key r, ls_slot r) (leases st)) IntegrityError (
     check (has_optional_key jb_id (ls_job_id r) (jobs st)) IntegrityError (
     check (has_optional_key rd_id (ls_definition_id r) (definitions st)) IntegrityError (
     check (lease_row_ok r) IntegrityError
       (Inr (st\<lparr>leases := leases st @ [r]\<rparr>)))))"

definition insert_approval :: "approval_row \<Rightarrow> store \<Rightarrow> store_error + store" where
  "insert_approval r st =
     check (\<not> has_key ap_id (ap_id r) (approvals st)) IntegrityError (
     check (has_key cp_id (ap_campaign_id r) (campaigns st)) IntegrityError (
     check (has_optional_key it_id (ap_item_id r) (items st)) IntegrityError
       (Inr (st\<lparr>approvals := approvals st @ [r]\<rparr>))))"

definition insert_artifact :: "artifact_row \<Rightarrow> store \<Rightarrow> store_error + store" where
  "insert_artifact r st =
     check (\<not> has_key ar_id (ar_id r) (artifacts st)) IntegrityError (
     check (has_key it_id (ar_item_id r) (items st)) IntegrityError (
     check (has_optional_key jb_id (ar_job_id r) (jobs st)) IntegrityError (
     check (has_optional_key at_id (ar_attempt_id r) (attempts st)) IntegrityError
       (Inr (st\<lparr>artifacts := artifacts st @ [r]\<rparr>)))))"

definition definition_row_ok :: "definition_row \<Rightarrow> bool" where
  "definition_row_ok r \<longleftrightarrow> resource_definition_id (rd_id r) \<and> sha256_text (rd_identity_hash r)"

definition insert_definition :: "definition_row \<Rightarrow> store \<Rightarrow> store_error + store" where
  "insert_definition r st =
     check (\<not> has_key rd_id (rd_id r) (definitions st)) IntegrityError (
     check (has_optional_key cp_id (rd_campaign_id r) (campaigns st)) IntegrityError (
     check (\<not> has_key (\<lambda>d. (rd_kind d, rd_identity_hash d)) (rd_kind r, rd_identity_hash r)
              (definitions st)) IntegrityError (
     check (definition_row_ok r) IntegrityError
       (Inr (st\<lparr>definitions := definitions st @ [r]\<rparr>)))))"

text \<open>The \<open>CHECK\<close> constraints of \<open>external_processes\<close>.\<close>

definition process_row_ok :: "process_row \<Rightarrow> bool" where
  "process_row_ok r \<longleftrightarrow>
     ep_process_id r > 1 \<and> ep_process_group_id r > 1
     \<and> (case ep_start_microseconds r of None \<Rightarrow> True | Some u \<Rightarrow> 0 \<le> u \<and> u < 1000000)
     \<and> (ep_identity_version r \<noteq> DarwinLibprocV1
        \<or> ((case ep_owner_uid r of None \<Rightarrow> False | Some u \<Rightarrow> u \<ge> 0)
           \<and> (case ep_start_seconds r of None \<Rightarrow> False | Some s \<Rightarrow> s > 0)
           \<and> ep_start_microseconds r \<noteq> None
           \<and> ep_kernel_executable r \<noteq> None \<and> ep_target_executable r \<noteq> None))
     \<and> (ep_state r = ProcStopped \<longleftrightarrow> ep_stopped_at r \<noteq> None)
     \<and> ((ep_reconciliation_owner r = None \<and> ep_reconciliation_token r = None
         \<and> ep_reconciliation_expires_at r = None)
        \<or> (ep_reconciliation_owner r \<noteq> None \<and> ep_reconciliation_token r \<noteq> None
           \<and> ep_reconciliation_expires_at r \<noteq> None))"

definition process_birth :: "process_row \<Rightarrow> int \<times> int option \<times> int option" where
  "process_birth r = (ep_process_id r, ep_start_seconds r, ep_start_microseconds r)"

text \<open>
  With the partial unique indexes \<open>one_live_external_process_identity\<close> (a \<open>NULL\<close> column is
  distinct from every value) and \<open>one_live_external_process_per_attempt\<close>.
\<close>

definition insert_process :: "process_row \<Rightarrow> store \<Rightarrow> store_error + store" where
  "insert_process r st =
     check (\<not> has_key ep_id (ep_id r) (processes st)) IntegrityError (
     check (has_key at_id (ep_attempt_id r) (attempts st)) IntegrityError (
     check (has_key jb_id (ep_job_id r) (jobs st)) IntegrityError (
     check (process_row_ok r) IntegrityError (
     check (\<not> (ep_state r \<noteq> ProcStopped \<and> ep_start_seconds r \<noteq> None
              \<and> ep_start_microseconds r \<noteq> None
              \<and> (\<exists>p \<in> set (processes st). ep_state p \<noteq> ProcStopped
                    \<and> process_birth p = process_birth r))) IntegrityError (
     check (\<not> (ep_state r \<noteq> ProcStopped
              \<and> (\<exists>p \<in> set (processes st). ep_state p \<noteq> ProcStopped
                    \<and> ep_attempt_id p = ep_attempt_id r))) IntegrityError
       (Inr (st\<lparr>processes := processes st @ [r]\<rparr>)))))))"

text \<open>The \<open>CHECK\<close> constraints of \<open>operator_controls\<close>.\<close>

definition control_row_ok :: "control_row \<Rightarrow> bool" where
  "control_row_ok r \<longleftrightarrow>
     sha256_text (oc_expected_resources_sha256 r)
     \<and> (oc_status r = CtlPending \<longrightarrow>
          oc_target_attempt_id r = None \<and> oc_applied_at r = None \<and> oc_last_error r = None)
     \<and> (oc_status r = CtlApplied \<longrightarrow> oc_applied_at r \<noteq> None)
     \<and> (oc_action r = ActInterrupt \<longrightarrow>
          oc_expected_lease_owner r \<noteq> None \<and> oc_expected_lease_token r \<noteq> None)
     \<and> (oc_action r = ActResume \<longrightarrow>
          oc_expected_provider r \<noteq> None \<and> oc_expected_session_id r \<noteq> None)"

text \<open>With the partial unique index \<open>one_pending_operator_control\<close>.\<close>

definition insert_control :: "control_row \<Rightarrow> store \<Rightarrow> store_error + store" where
  "insert_control r st =
     check (\<not> has_key oc_id (oc_id r) (controls st)) IntegrityError (
     check (has_key jb_id (oc_job_id r) (jobs st)) IntegrityError (
     check (has_key at_id (oc_source_attempt_id r) (attempts st)) IntegrityError (
     check (control_row_ok r) IntegrityError (
     check (\<not> (oc_status r = CtlPending
              \<and> (\<exists>c \<in> set (controls st). oc_status c = CtlPending \<and> oc_job_id c = oc_job_id r
                    \<and> oc_action c = oc_action r))) IntegrityError
       (Inr (st\<lparr>controls := controls st @ [r]\<rparr>))))))"

text \<open>The worktree tables; a running operation is unique per worktree.\<close>

definition insert_worktree :: "worktree_row \<Rightarrow> store \<Rightarrow> store_error + store" where
  "insert_worktree r st =
     check (\<not> has_key wt_id (wt_id r) (worktrees st)) IntegrityError (
     check (has_key cp_id (wt_campaign_id r) (campaigns st)) IntegrityError (
     check (has_key it_id (wt_item_id r) (items st)) IntegrityError (
     check (has_key jb_id (wt_fixer_job_id r) (jobs st)) IntegrityError (
     check (\<not> has_key wt_item_id (wt_item_id r) (worktrees st)
            \<and> \<not> has_key wt_worktree_path (wt_worktree_path r) (worktrees st)
            \<and> \<not> has_key (\<lambda>w. (wt_source_git_common_dir w, wt_branch_ref w))
                  (wt_source_git_common_dir r, wt_branch_ref r) (worktrees st)) IntegrityError (
     check (0 < wt_generation r \<and> 0 \<le> wt_source_device r \<and> 0 \<le> wt_source_inode r
            \<and> 0 \<le> wt_source_owner_uid r) IntegrityError
       (Inr (st\<lparr>worktrees := worktrees st @ [r]\<rparr>)))))))"

definition running_operation :: "string \<Rightarrow> operation_row \<Rightarrow> bool" where
  "running_operation worktree r \<longleftrightarrow> wo_worktree_id r = worktree \<and> wo_status r = OpRunning"

definition insert_worktree_operation :: "operation_row \<Rightarrow> store \<Rightarrow> store_error + store" where
  "insert_worktree_operation r st =
     check (\<not> has_key wo_id (wo_id r) (worktree_operations st)) IntegrityError (
     check (has_key wt_id (wo_worktree_id r) (worktrees st)) IntegrityError (
     check (\<not> has_key (\<lambda>x. (wo_worktree_id x, wo_number x)) (wo_worktree_id r, wo_number r)
              (worktree_operations st)) IntegrityError (
     check (0 < wo_number r) IntegrityError (
     check (\<not> (wo_status r = OpRunning
              \<and> list_ex (running_operation (wo_worktree_id r)) (worktree_operations st)))
       IntegrityError
       (Inr (st\<lparr>worktree_operations := worktree_operations st @ [r]\<rparr>))))))"

text \<open>The tables of the collectors.\<close>

definition insert_focused_plan :: "focused_plan_row \<Rightarrow> store \<Rightarrow> store_error + store" where
  "insert_focused_plan r st =
     check (\<not> has_key fp_id (fp_id r) (focused_plans st)) IntegrityError (
     check (has_key it_id (fp_item_id r) (items st)) IntegrityError (
     check (\<not> has_key (\<lambda>p. (fp_item_id p, fp_plan_number p)) (fp_item_id r, fp_plan_number r)
              (focused_plans st)) IntegrityError (
     check (0 < fp_plan_number r \<and> 0 \<le> fp_executable_device r \<and> 0 \<le> fp_executable_inode r
            \<and> 0 \<le> fp_executable_owner_uid r \<and> 0 < fp_executable_mode r
            \<and> 0 < fp_timeout_seconds r \<and> 0 < fp_output_limit_bytes r) IntegrityError
       (Inr (st\<lparr>focused_plans := focused_plans st @ [r]\<rparr>)))))"

definition insert_browser_plan :: "browser_plan_row \<Rightarrow> store \<Rightarrow> store_error + store" where
  "insert_browser_plan r st =
     check (\<not> has_key bp_id (bp_id r) (browser_plans st)) IntegrityError (
     check (has_key it_id (bp_item_id r) (items st)
            \<and> has_key rd_id (bp_resource_definition_id r) (definitions st)) IntegrityError (
     check (\<not> has_key (\<lambda>p. (bp_item_id p, bp_plan_number p)) (bp_item_id r, bp_plan_number r)
              (browser_plans st)
            \<and> \<not> has_key (\<lambda>p. (bp_item_id p, bp_plan_sha256 p)) (bp_item_id r, bp_plan_sha256 r)
              (browser_plans st)) IntegrityError (
     check (0 < bp_plan_number r \<and> 0 < bp_timeout_seconds r
            \<and> (let o' = bp_route_identity r in 0 \<le> oi_device o' \<and> 0 \<le> oi_inode o'
                 \<and> 0 \<le> oi_owner_uid o' \<and> 0 < oi_mode o' \<and> 0 < oi_nlink o' \<and> 0 < oi_bytes o'
                 \<and> sha256_text (oi_sha256 o'))
            \<and> sha256_text (bp_resource_identity_hash r) \<and> sha256_text (bp_plan_sha256 r))
       IntegrityError
       (Inr (st\<lparr>browser_plans := browser_plans st @ [r]\<rparr>)))))"

definition insert_database_plan :: "database_plan_row \<Rightarrow> store \<Rightarrow> store_error + store" where
  "insert_database_plan r st =
     check (\<not> has_key dp_id (dp_id r) (database_plans st)) IntegrityError (
     check (has_key it_id (dp_item_id r) (items st)
            \<and> has_key rd_id (dp_resource_definition_id r) (definitions st)) IntegrityError (
     check (\<not> has_key (\<lambda>p. (dp_item_id p, dp_plan_number p)) (dp_item_id r, dp_plan_number r)
              (database_plans st)
            \<and> \<not> has_key (\<lambda>p. (dp_item_id p, dp_plan_sha256 p)) (dp_item_id r, dp_plan_sha256 r)
              (database_plans st)) IntegrityError (
     check (0 < dp_plan_number r \<and> 0 < dp_max_rows r \<and> 0 < dp_max_bytes r \<and> 0 < dp_timeout_seconds r
            \<and> (case dp_expected_row_count r of None \<Rightarrow> True | Some n \<Rightarrow> 0 \<le> n)
            \<and> sha256_text (dp_resource_identity_hash r) \<and> sha256_text (dp_query_sha256 r)
            \<and> sha256_text (dp_plan_sha256 r)) IntegrityError
       (Inr (st\<lparr>database_plans := database_plans st @ [r]\<rparr>)))))"

definition insert_focused_execution :: "focused_execution_row \<Rightarrow> store \<Rightarrow> store_error + store" where
  "insert_focused_execution r st =
     check (\<not> has_key ex_id (ex_id r) (focused_executions st)) IntegrityError (
     check (has_key fp_id (ex_plan_id r) (focused_plans st) \<and> has_key at_id (ex_attempt_id r) (attempts st)
            \<and> has_key jb_id (ex_job_id r) (jobs st) \<and> has_key it_id (ex_item_id r) (items st)
            \<and> has_key wt_id (fx_worktree_id r) (worktrees st)) IntegrityError (
     check (\<not> has_key ex_attempt_id (ex_attempt_id r) (focused_executions st)
            \<and> \<not> has_key fx_artifact_directory (fx_artifact_directory r) (focused_executions st)
            \<and> \<not> has_key fx_stdout_path (fx_stdout_path r) (focused_executions st)
            \<and> \<not> has_key fx_stderr_path (fx_stderr_path r) (focused_executions st)) IntegrityError (
     check (0 < fx_worktree_generation r \<and> 0 \<le> fi_device (fx_executable r)
            \<and> 0 \<le> fi_inode (fx_executable r) \<and> 0 \<le> fi_owner_uid (fx_executable r)
            \<and> 0 < fi_mode (fx_executable r) \<and> 0 \<le> fx_cwd_device r \<and> 0 \<le> fx_cwd_inode r
            \<and> 0 \<le> fx_cwd_owner_uid r \<and> 0 < fx_cwd_mode r \<and> 0 < fx_timeout_seconds r
            \<and> 0 < fx_output_limit_bytes r \<and> fx_stdout_path r \<noteq> fx_stderr_path r) IntegrityError
       (Inr (st\<lparr>focused_executions := focused_executions st @ [r]\<rparr>)))))"

definition insert_browser_execution :: "browser_execution_row \<Rightarrow> store \<Rightarrow> store_error + store" where
  "insert_browser_execution r st =
     check (\<not> has_key ex_id (ex_id r) (browser_executions st)) IntegrityError (
     check (has_key (\<lambda>p. (bp_id p, bp_item_id p, bp_resource_definition_id p))
              (ex_plan_id r, ex_item_id r, bx_resource_definition_id r) (browser_plans st)
            \<and> has_key (\<lambda>a. (at_id a, at_job_id a)) (ex_attempt_id r, ex_job_id r) (attempts st)
            \<and> has_key (\<lambda>j. (jb_id j, jb_item_id j)) (ex_job_id r, ex_item_id r) (jobs st)) IntegrityError (
     check (\<not> has_key ex_attempt_id (ex_attempt_id r) (browser_executions st)
            \<and> \<not> has_key bx_screenshot_path (bx_screenshot_path r) (browser_executions st)) IntegrityError (
     check (sha256_text (bx_resource_identity_hash r)) IntegrityError
       (Inr (st\<lparr>browser_executions := browser_executions st @ [r]\<rparr>)))))"

definition insert_database_execution :: "database_execution_row \<Rightarrow> store \<Rightarrow> store_error + store" where
  "insert_database_execution r st =
     check (\<not> has_key ex_id (ex_id r) (database_executions st)) IntegrityError (
     check (has_key (\<lambda>p. (dp_id p, dp_item_id p, dp_resource_definition_id p))
              (ex_plan_id r, ex_item_id r, dx_resource_definition_id r) (database_plans st)
            \<and> has_key (\<lambda>a. (at_id a, at_job_id a)) (ex_attempt_id r, ex_job_id r) (attempts st)
            \<and> has_key (\<lambda>j. (jb_id j, jb_item_id j)) (ex_job_id r, ex_item_id r) (jobs st)) IntegrityError (
     check (\<not> has_key ex_attempt_id (ex_attempt_id r) (database_executions st)
            \<and> \<not> has_key dx_result_path (dx_result_path r) (database_executions st)) IntegrityError (
     check (sha256_text (dx_resource_identity_hash r) \<and> sha256_text (dx_query_sha256 r)) IntegrityError
       (Inr (st\<lparr>database_executions := database_executions st @ [r]\<rparr>)))))"

text \<open>With the unique index \<open>one_active_focused_test_admission_per_tester_job\<close>.\<close>

definition insert_admission :: "admission_row \<Rightarrow> store \<Rightarrow> store_error + store" where
  "insert_admission r st =
     check (\<not> has_key fa_id (fa_id r) (admissions st)) IntegrityError (
     check (has_key cp_id (fa_campaign_id r) (campaigns st) \<and> has_key it_id (fa_item_id r) (items st)
            \<and> has_key jb_id (fa_tester_job_id r) (jobs st)
            \<and> has_key wt_id (fa_managed_worktree_id r) (worktrees st)
            \<and> has_key fp_id (fa_focused_test_plan_id r) (focused_plans st)
            \<and> has_optional_key bp_id (fa_browser_plan_id r) (browser_plans st)
            \<and> has_optional_key dp_id (fa_database_plan_id r) (database_plans st)) IntegrityError (
     check (focused_test_admission_id (fa_id r) \<and> 0 < fa_managed_worktree_generation r
            \<and> list_all sha256_text
                [fa_focused_test_plan_sha256 r, fa_campaign_config_sha256 r, fa_job_payload_sha256 r,
                 fa_required_gates_sha256 r, fa_repository_identity_sha256 r,
                 fa_worktree_identity_sha256 r, fa_resource_bindings_sha256 r,
                 fa_required_resources_sha256 r, fa_authority_sha256 r]) IntegrityError (
     check (\<not> (fa_active r \<and> list_ex (\<lambda>a. fa_active a \<and> fa_tester_job_id a = fa_tester_job_id r)
              (admissions st))) IntegrityError
       (Inr (st\<lparr>admissions := admissions st @ [r]\<rparr>)))))"

section \<open>Events\<close>

definition append_event ::
    "string \<Rightarrow> string option \<Rightarrow> string option \<Rightarrow> string option \<Rightarrow> string option
     \<Rightarrow> (string \<times> json) list \<Rightarrow> time \<Rightarrow> store \<Rightarrow> store" where
  "append_event kind campaign item job actor data now st =
     st\<lparr>events := events st @
       [\<lparr>en_campaign_id = campaign, en_item_id = item, en_job_id = job, en_kind = kind,
         en_actor = actor, en_data = JObj data, en_created_at = now\<rparr>]\<rparr>"

text \<open>\<open>append_event\<close> changes nothing but the event log.\<close>

lemma append_event_tables [simp]:
  "campaigns (append_event k c i j a d n st) = campaigns st"
  "items (append_event k c i j a d n st) = items st"
  "jobs (append_event k c i j a d n st) = jobs st"
  "attempts (append_event k c i j a d n st) = attempts st"
  "approvals (append_event k c i j a d n st) = approvals st"
  "artifacts (append_event k c i j a d n st) = artifacts st"
  "leases (append_event k c i j a d n st) = leases st"
  "definitions (append_event k c i j a d n st) = definitions st"
  "processes (append_event k c i j a d n st) = processes st"
  "controls (append_event k c i j a d n st) = controls st"
  "worktrees (append_event k c i j a d n st) = worktrees st"
  "worktree_operations (append_event k c i j a d n st) = worktree_operations st"
  "focused_plans (append_event k c i j a d n st) = focused_plans st"
  "focused_executions (append_event k c i j a d n st) = focused_executions st"
  "browser_executions (append_event k c i j a d n st) = browser_executions st"
  "database_executions (append_event k c i j a d n st) = database_executions st"
  "admissions (append_event k c i j a d n st) = admissions st"
  by (simp_all add: append_event_def)

end
