(* ===== verification/Registry.thy ===== *)
theory Registry
  imports Schema
begin

text \<open>
  The resource registry of \<^verbatim>\<open>storage.py\<close>: defining a resource, reading a definition back with
  its integrity checks, listing, and switching a definition on and off.

  A mutation returns the store it commits; the code then ends with a read of the row, which
  is \<open>get_resource_definition\<close>.
\<close>

definition exact_resource_definition_id :: "string \<Rightarrow> store_error + unit" where
  "exact_resource_definition_id i = check (resource_definition_id i) ValueError (Inr ())"

definition definition_spec :: "definition_row \<Rightarrow> resource_spec" where
  "definition_spec r =
     \<lparr>rs_kind = rd_kind r, rs_label = rd_label r, rs_enabled = rd_enabled r,
      rs_configuration = rd_configuration r, rs_campaign_id = rd_campaign_id r,
      rs_metadata = rd_metadata r, rs_policy = rd_policy r\<rparr>"

text \<open>
  \<open>_validated_resource_definition_row\<close>: the row must validate, be canonical (validation
  changes nothing) and carry the hashes of its own fields.
\<close>

definition validated_resource_definition_row ::
    "world \<Rightarrow> definition_row \<Rightarrow> store_error + definition_row" where
  "validated_resource_definition_row W r =
     check (definition_row_ok r) StorageError (
     case validate_resource_spec W (definition_spec r) of
       Inl _ \<Rightarrow> Inl StorageError
     | Inr canonical \<Rightarrow>
         check (canonical = definition_spec r) StorageError (
         check (resource_identity_hash W (rd_kind r) (rd_configuration r) = rd_identity_hash r)
           StorageError (
         check (resource_definition_hash W (rd_id r) (definition_spec r) = rd_definition_hash r)
           StorageError (Inr r))))"

definition find_definition :: "string \<Rightarrow> store \<Rightarrow> definition_row option" where
  "find_definition i st = find (\<lambda>d. rd_id d = i) (definitions st)"

definition get_resource_definition :: "world \<Rightarrow> string \<Rightarrow> store \<Rightarrow> store_error + definition_row" where
  "get_resource_definition W i st =
     bindR (exact_resource_definition_id i) (\<lambda>_.
     bindR (require (find_definition i st) NotFoundError)
       (validated_resource_definition_row W))"

definition define_resource ::
    "world \<Rightarrow> string \<Rightarrow> string \<Rightarrow> resource_configuration \<Rightarrow> string \<Rightarrow> resource_policy option
     \<Rightarrow> string option \<Rightarrow> (string \<times> json) list \<Rightarrow> bool \<Rightarrow> string option \<Rightarrow> string \<Rightarrow> time
     \<Rightarrow> store \<Rightarrow> store_error + (store \<times> string)" where
  "define_resource W kind label configuration actor policy campaign metadata enabled given fresh
     now st =
     check (operator_text 256 actor) ValueError (
     bindR (case given of None \<Rightarrow> Inr fresh
            | Some i \<Rightarrow> bindR (exact_resource_definition_id i) (\<lambda>_. Inr i)) (\<lambda>rid.
     bindR (require (resource_kind_of (py_lower kind)) ValueError) (\<lambda>k.
     bindR (case validate_resource_spec W
              \<lparr>rs_kind = k, rs_label = label, rs_enabled = enabled,
               rs_configuration = configuration, rs_campaign_id = campaign,
               rs_metadata = metadata,
               rs_policy = (case policy of None \<Rightarrow> default_policy | Some p \<Rightarrow> p)\<rparr> of
            Inl _ \<Rightarrow> Inl ValueError | Inr s \<Rightarrow> Inr s) (\<lambda>s.
     let ih = resource_identity_hash W (rs_kind s) (rs_configuration s)
     in
     check (campaign = None \<or> has_optional_key cp_id campaign (campaigns st)) NotFoundError (
     check (find (\<lambda>d. rd_kind d = rs_kind s \<and> rd_identity_hash d = ih) (definitions st) = None)
       TransitionConflict (
     check (find_definition rid st = None) TransitionConflict (
     bindR (insert_definition
              \<lparr>rd_id = rid, rd_kind = rs_kind s, rd_label = rs_label s, rd_enabled = rs_enabled s,
               rd_configuration = rs_configuration s, rd_campaign_id = rs_campaign_id s,
               rd_metadata = rs_metadata s, rd_policy = rs_policy s, rd_identity_hash = ih,
               rd_definition_hash = resource_definition_hash W rid s,
               rd_created_at = now, rd_updated_at = now\<rparr> st) (\<lambda>st1.
       Inr (append_event ''resource.defined'' campaign None None (Some actor)
              [(''resource_id'', JStr rid), (''kind'', JStr (resource_kind_value (rs_kind s))),
               (''label'', JStr (rs_label s)), (''enabled'', JBool (rs_enabled s)),
               (''policy'', policy_json (rs_policy s)), (''identity_hash'', JStr ih)] now st1,
            rid)))))))))"

text \<open>
  \<open>list_resource_definitions\<close>: the filters are the \<open>WHERE\<close> clauses, and one malformed row
  fails the whole listing.
\<close>

fun validate_rows :: "world \<Rightarrow> definition_row list \<Rightarrow> store_error + definition_row list" where
  "validate_rows W [] = Inr []"
| "validate_rows W (r # rs) =
     bindR (validated_resource_definition_row W r) (\<lambda>d.
     bindR (validate_rows W rs) (\<lambda>ds. Inr (d # ds)))"

definition list_resource_definitions ::
    "world \<Rightarrow> string option \<Rightarrow> string option \<Rightarrow> bool option \<Rightarrow> bool \<Rightarrow> store
     \<Rightarrow> store_error + definition_row list" where
  "list_resource_definitions W campaign kind enabled include_global st =
     bindR (case kind of None \<Rightarrow> Inr None
            | Some s \<Rightarrow> bindR (require (resource_kind_of (py_lower s)) ValueError)
                          (\<lambda>k. Inr (Some k))) (\<lambda>kind'.
     validate_rows W
       (order_by (\<lambda>d. (resource_kind_value (rd_kind d), rd_label d, rd_id d))
         (filter (\<lambda>d.
            (campaign \<noteq> None \<longrightarrow> rd_campaign_id d = campaign
                                \<or> (include_global \<and> rd_campaign_id d = None))
            \<and> (kind' \<noteq> None \<longrightarrow> kind' = Some (rd_kind d))
            \<and> (enabled \<noteq> None \<longrightarrow> enabled = Some (rd_enabled d)))
          (definitions st))))"

definition set_resource_enabled ::
    "world \<Rightarrow> string \<Rightarrow> bool \<Rightarrow> string \<Rightarrow> time \<Rightarrow> store \<Rightarrow> store_error + store" where
  "set_resource_enabled W rid enabled actor now st =
     bindR (exact_resource_definition_id rid) (\<lambda>_.
     check (operator_text 256 actor) ValueError (
     bindR (require (find_definition rid st) NotFoundError) (\<lambda>row.
     bindR (validated_resource_definition_row W row) (\<lambda>d.
     if rd_enabled d = enabled then Inr st
     else
       check (rowcount (\<lambda>r. rd_id r = rid \<and> rd_enabled r = (\<not> enabled)) (definitions st) = 1)
         TransitionConflict (
       Inr (append_event (if enabled then ''resource.enabled'' else ''resource.disabled'')
              (rd_campaign_id row) None None (Some actor)
              [(''resource_id'', JStr rid), (''kind'', JStr (resource_kind_value (rd_kind d))),
               (''label'', JStr (rd_label d)), (''enabled'', JBool enabled)] now
              (st\<lparr>definitions := upd_where (\<lambda>r. rd_id r = rid \<and> rd_enabled r = (\<not> enabled))
                 (\<lambda>r. r\<lparr>rd_enabled := enabled, rd_updated_at := now\<rparr>) (definitions st)\<rparr>)))))))"

section \<open>What reading a definition guarantees\<close>

lemma validated_row_same:
  "validated_resource_definition_row W r = Inr d \<Longrightarrow> d = r"
  by (auto simp: validated_resource_definition_row_def split: sum.splits)

lemma validated_row_iff:
  "validated_resource_definition_row W r = Inr d \<longleftrightarrow>
     d = r \<and> definition_row_ok r
     \<and> validate_resource_spec W (definition_spec r) = Inr (definition_spec r)
     \<and> resource_identity_hash W (rd_kind r) (rd_configuration r) = rd_identity_hash r
     \<and> resource_definition_hash W (rd_id r) (definition_spec r) = rd_definition_hash r"
  by (auto simp: validated_resource_definition_row_def split: sum.splits)

text \<open>The enabled switch is no part of what validation looks at.\<close>

lemma validate_spec_enabled:
  "validate_resource_spec W (s\<lparr>rs_enabled := e\<rparr>) =
     (case validate_resource_spec W s of Inl x \<Rightarrow> Inl x | Inr s' \<Rightarrow> Inr (s'\<lparr>rs_enabled := e\<rparr>))"
  by (simp add: validate_resource_spec_def bindR_def check_def split: sum.splits if_splits)

lemma validated_row_switch:
  assumes "validated_resource_definition_row W r = Inr d"
  shows "validated_resource_definition_row W (r\<lparr>rd_enabled := e, rd_updated_at := t\<rparr>)
         = Inr (r\<lparr>rd_enabled := e, rd_updated_at := t\<rparr>)"
proof -
  let ?r = "r\<lparr>rd_enabled := e, rd_updated_at := t\<rparr>"
  have spec: "definition_spec ?r = (definition_spec r)\<lparr>rs_enabled := e\<rparr>"
    by (simp add: definition_spec_def)
  show ?thesis
    using assms unfolding validated_row_iff
    by (simp add: spec validate_spec_enabled definition_row_ok_def resource_definition_hash_def)
qed

lemma find_upd_where_same:
  assumes "find P t = Some r" and "\<And>x. P (f x) = P x"
    and "\<And>x. Q x \<Longrightarrow> P x" and "Q r"
  shows "find P (upd_where Q f t) = Some (f r)"
  using assms(1,4)
proof (induction t)
  case Nil
  then show ?case by simp
next
  case (Cons x xs)
  then show ?case
    using assms(2,3) by (auto simp: upd_where_def split: if_splits)
qed

text \<open>
  C35: switching a definition on or off is a round trip through the integrity checks.  When
  \<open>set_resource_enabled\<close> succeeds, the read the code ends with succeeds too, and returns the
  definition that was there with only the switch (and the update time) changed: a toggle can
  neither damage a registered resource nor alter its identity, its configuration or its
  concurrency policy.
\<close>

theorem set_resource_enabled_round_trip:
  assumes ok: "set_resource_enabled W rid enabled actor now st = Inr st'"
  shows "\<exists>d. get_resource_definition W rid st = Inr d
           \<and> (rd_enabled d = enabled \<and> st' = st
              \<or> rd_enabled d = (\<not> enabled)
                \<and> get_resource_definition W rid st'
                   = Inr (d\<lparr>rd_enabled := enabled, rd_updated_at := now\<rparr>))"
proof -
  from ok obtain row where row: "find_definition rid st = Some row"
      "validated_resource_definition_row W row = Inr row" "resource_definition_id rid"
    by (auto simp: set_resource_enabled_def exact_resource_definition_id_def
        dest: validated_row_same)
  then have get: "get_resource_definition W rid st = Inr row"
    by (simp add: get_resource_definition_def exact_resource_definition_id_def)
  show ?thesis
  proof (cases "rd_enabled row = enabled")
    case True
    with ok row get show ?thesis
      by (auto simp: set_resource_enabled_def exact_resource_definition_id_def)
  next
    case False
    have rid: "rd_id row = rid"
      using row(1) by (auto simp: find_definition_def dest: find_SomeD)
    let ?P = "\<lambda>r. rd_id r = rid \<and> rd_enabled r = (\<not> enabled)"
    let ?f = "\<lambda>r::definition_row. r\<lparr>rd_enabled := enabled, rd_updated_at := now\<rparr>"
    have defs: "definitions st' = upd_where ?P ?f (definitions st)"
      using ok row False
      by (auto simp: set_resource_enabled_def exact_resource_definition_id_def)
    have "find_definition rid st' = Some (?f row)"
      unfolding find_definition_def defs
      by (rule find_upd_where_same) (use row(1) rid False in \<open>auto simp: find_definition_def\<close>)
    with row have "get_resource_definition W rid st' = Inr (?f row)"
      by (simp add: get_resource_definition_def exact_resource_definition_id_def
          validated_row_switch [of W row row now enabled])
    with get False show ?thesis by auto
  qed
qed

definition example_world :: world where
  "example_world = \<lparr>digest = (\<lambda>_. replicate 64 CHR ''0''), dump = (\<lambda>_. []), expanduser = (\<lambda>p. p),
     resolve = (\<lambda>p. p), is_file = (\<lambda>_. True), directory = (\<lambda>_. None), str_of = (\<lambda>_. []),
     sha256 = (\<lambda>_. replicate 64 CHR ''0''), loads = (\<lambda>_. None), darwin = True, own_uid = 501,
     lstat = (\<lambda>_. None), resolve_strict = Some, can_execute = (\<lambda>_. True), content = (\<lambda>_. []),
     link_target = (\<lambda>_. []), walk = (\<lambda>_. [])\<rparr>"

definition example_definition :: definition_row where
  "example_definition =
     \<lparr>rd_id = ''res_'' @ replicate 32 CHR ''a'', rd_kind = TenantDatabase, rd_label = ''tenant'',
      rd_enabled = False, rd_configuration = TenantConfig ''tenant'' ''app'' ''DB_URL'',
      rd_campaign_id = None, rd_metadata = [], rd_policy = default_policy,
      rd_identity_hash = replicate 64 CHR ''0'', rd_definition_hash = replicate 64 CHR ''0'',
      rd_created_at = 0, rd_updated_at = 0\<rparr>"

lemma set_resource_enabled_round_trip_witness:
  "\<exists>d. get_resource_definition example_world (rd_id example_definition)
          (empty_store\<lparr>definitions := [example_definition]\<rparr>) = Inr d
      \<and> \<not> rd_enabled d"
proof -
  have "holdsR (\<lambda>st'. map rd_enabled (definitions st') = [True])
      (set_resource_enabled example_world (rd_id example_definition) True ''ops'' 5
        (empty_store\<lparr>definitions := [example_definition]\<rparr>))"
    by code_simp
  then obtain st' where st': "set_resource_enabled example_world (rd_id example_definition) True ''ops'' 5
      (empty_store\<lparr>definitions := [example_definition]\<rparr>) = Inr st'" "map rd_enabled (definitions st') = [True]"
    by (rule holdsRE)
  have "st' \<noteq> empty_store\<lparr>definitions := [example_definition]\<rparr>" using st'(2) by (auto simp: example_definition_def)
  with set_resource_enabled_round_trip [OF st'(1)] show ?thesis by auto
qed

end
