(* ===== verification/Admission.thy ===== *)
theory Admission
  imports Registry
begin

text \<open>
  Repository scopes and approvals, the focused-test admissions of \<^verbatim>\<open>storage.py\<close> (what an
  admission pins, the integrity of its row, the check that everything it pins is still
  live) and the admission fences of a running attempt.
\<close>

section \<open>Repository scopes\<close>

text \<open>
  \<open>{str(r) for r in repositories or ()}\<close>: iterating a string gives its characters, iterating
  an object its keys, and a number or \<open>True\<close> is not iterable.
\<close>

fun scope_elements :: "world \<Rightarrow> json \<Rightarrow> store_error + string list" where
  "scope_elements W JNull = Inr []"
| "scope_elements W (JBool b) = (if b then Inl TypeError else Inr [])"
| "scope_elements W (JNum n) = (if n = 0 then Inr [] else Inl TypeError)"
| "scope_elements W (JStr s) = Inr (map (\<lambda>c. [c]) s)"
| "scope_elements W (JArr xs) = Inr (map (\<lambda>v. case v of JStr s \<Rightarrow> s | _ \<Rightarrow> str_of W v) xs)"
| "scope_elements W (JObj kvs) = Inr (map fst kvs)"

definition repository_scope :: "world \<Rightarrow> json \<Rightarrow> store_error + string list" where
  "repository_scope W value =
     scope_elements W
       (case jget ''repository_paths'' value of
          Some v \<Rightarrow> v
        | None \<Rightarrow> (case jget ''repositories'' value of Some v \<Rightarrow> v | None \<Rightarrow> JNull))"

definition canonical_repository_scope :: "world \<Rightarrow> json \<Rightarrow> store_error + string list" where
  "canonical_repository_scope W value =
     bindR (repository_scope W value) (\<lambda>rs. Inr (map (\<lambda>r. resolve W (expanduser W r)) rs))"

definition approval_covers_job :: "world \<Rightarrow> json \<Rightarrow> json \<Rightarrow> json \<Rightarrow> store_error + bool" where
  "approval_covers_job W campaign_config job_payload approval_scope =
     bindR (repository_scope W campaign_config) (\<lambda>cs.
     bindR (repository_scope W job_payload) (\<lambda>js.
     if cs @ js = [] then Inr True
     else bindR (repository_scope W approval_scope) (\<lambda>as.
       Inr (set (cs @ js) \<subseteq> set as))))"

definition approval_covers_repository ::
    "world \<Rightarrow> json \<Rightarrow> string \<Rightarrow> json \<Rightarrow> store_error + bool" where
  "approval_covers_repository W campaign_config repository_path approval_scope =
     (let repository = resolve W (expanduser W repository_path) in
      bindR (canonical_repository_scope W campaign_config) (\<lambda>cs.
      if repository \<notin> set cs then Inr False
      else bindR (canonical_repository_scope W approval_scope) (\<lambda>as.
        Inr (repository \<in> set as))))"

text \<open>\<open>any(f(x) for x in xs)\<close>, which stops at the first true element and at the first exception.\<close>

fun any_of :: "('a \<Rightarrow> 'e + bool) \<Rightarrow> 'a list \<Rightarrow> 'e + bool" where
  "any_of f [] = Inr False"
| "any_of f (x # xs) = bindR (f x) (\<lambda>b. if b then Inr True else any_of f xs)"

lemma any_of_True: "any_of f xs = Inr True \<Longrightarrow> \<exists>x \<in> set xs. f x = Inr True"
  by (induction xs) (auto split: if_splits)

section \<open>What an admission pins\<close>

definition need_int :: "int option \<Rightarrow> store_error + int" where
  "need_int v = require v TypeError"

definition str_none :: "string option \<Rightarrow> json" where
  "str_none v = JStr (case v of None \<Rightarrow> ''None'' | Some s \<Rightarrow> s)"

definition focused_plan_authority :: "focused_plan_row \<Rightarrow> store_error + json" where
  "focused_plan_authority p =
     bindR (need_int (fp_sandbox_executable_device p)) (\<lambda>device.
     bindR (need_int (fp_sandbox_executable_inode p)) (\<lambda>inode.
     bindR (need_int (fp_sandbox_executable_owner_uid p)) (\<lambda>owner.
     bindR (need_int (fp_sandbox_executable_mode p)) (\<lambda>mode.
       Inr (JObj
         [(''id'', JStr (fp_id p)),
          (''work_item_id'', JStr (fp_item_id p)),
          (''plan_number'', JNum (fp_plan_number p)),
          (''executable_path'', JStr (fp_executable_path p)),
          (''executable_device'', JNum (fp_executable_device p)),
          (''executable_inode'', JNum (fp_executable_inode p)),
          (''executable_owner_uid'', JNum (fp_executable_owner_uid p)),
          (''executable_mode'', JNum (fp_executable_mode p)),
          (''executable_sha256'', JStr (fp_executable_sha256 p)),
          (''sandbox_policy_version'', str_none (fp_sandbox_policy_version p)),
          (''sandbox_executable_path'', str_none (fp_sandbox_executable_path p)),
          (''sandbox_executable_device'', JNum device),
          (''sandbox_executable_inode'', JNum inode),
          (''sandbox_executable_owner_uid'', JNum owner),
          (''sandbox_executable_mode'', JNum mode),
          (''sandbox_executable_sha256'', str_none (fp_sandbox_executable_sha256 p)),
          (''python_runtime_root'', str_none (fp_python_runtime_root p)),
          (''python_runtime_sha256'', str_none (fp_python_runtime_sha256 p)),
          (''test_file'', JStr (fp_test_file p)),
          (''selector'', JStr (fp_selector p)),
          (''environment'', fp_environment p),
          (''environment_sha256'', JStr (fp_environment_sha256 p)),
          (''workspace_manifest'', fp_workspace_manifest p),
          (''workspace_manifest_sha256'', JStr (fp_workspace_manifest_sha256 p)),
          (''runtime_root'', JStr (fp_runtime_root p)),
          (''timeout_seconds'', JNum (fp_timeout_seconds p)),
          (''output_limit_bytes'', JNum (fp_output_limit_bytes p))])))))"

definition repository_admission_identity :: "worktree_row \<Rightarrow> json" where
  "repository_admission_identity w = JObj
     [(''repository_path'', JStr (wt_repository_path w)),
      (''source_git_common_dir'', JStr (wt_source_git_common_dir w)),
      (''source_git_dir'', JStr (wt_source_git_dir w)),
      (''source_device'', JNum (wt_source_device w)),
      (''source_inode'', JNum (wt_source_inode w)),
      (''source_owner_uid'', JNum (wt_source_owner_uid w)),
      (''object_format'', JStr (wt_object_format w)),
      (''base_revision'', JStr (wt_base_revision w)),
      (''base_tree'', JStr (wt_base_tree w)),
      (''source_snapshot'', wt_source_snapshot w)]"

definition worktree_admission_identity :: "worktree_row \<Rightarrow> store_error + json" where
  "worktree_admission_identity w =
     bindR (need_int (wt_worktree_device w)) (\<lambda>device.
     bindR (need_int (wt_worktree_inode w)) (\<lambda>inode.
     bindR (need_int (wt_worktree_owner_uid w)) (\<lambda>owner.
       Inr (JObj
         [(''id'', JStr (wt_id w)),
          (''generation'', JNum (wt_generation w)),
          (''work_item_id'', JStr (wt_item_id w)),
          (''worktree_path'', JStr (wt_worktree_path w)),
          (''worktree_git_dir'', str_none (wt_worktree_git_dir w)),
          (''worktree_device'', JNum device),
          (''worktree_inode'', JNum inode),
          (''worktree_owner_uid'', JNum owner),
          (''branch_ref'', JStr (wt_branch_ref w)),
          (''base_revision'', JStr (wt_base_revision w)),
          (''base_tree'', JStr (wt_base_tree w))]))))"

definition binding_of :: "definition_row \<Rightarrow> resource_binding" where
  "binding_of d =
     \<lparr>rb_id = rd_id d, rb_kind = rd_kind d, rb_campaign_id = rd_campaign_id d,
      rb_identity_hash = rd_identity_hash d, rb_definition_hash = rd_definition_hash d,
      rb_policy = rd_policy d\<rparr>"

fun exact_ids :: "string list \<Rightarrow> store_error + string list" where
  "exact_ids [] = Inr []"
| "exact_ids (i # is) =
     bindR (exact_resource_definition_id i) (\<lambda>_. bindR (exact_ids is) (\<lambda>js. Inr (i # js)))"

fun bind_resources ::
    "world \<Rightarrow> string \<Rightarrow> bool \<Rightarrow> string list \<Rightarrow> store \<Rightarrow> store_error + resource_binding list" where
  "bind_resources W campaign require_enabled [] st = Inr []"
| "bind_resources W campaign require_enabled (i # is) st =
     bindR (require (find_definition i st) NotFoundError) (\<lambda>row.
     bindR (case validated_resource_definition_row W row of
              Inl e \<Rightarrow> Inl (if is_storage_error e then TransitionConflict else e)
            | Inr d \<Rightarrow> Inr d) (\<lambda>d.
     check (\<not> (require_enabled \<and> \<not> rd_enabled d)) TransitionConflict (
     check (rd_campaign_id d = None \<or> rd_campaign_id d = Some campaign) TransitionConflict (
     bindR (bind_resources W campaign require_enabled is st) (\<lambda>bs. Inr (binding_of d # bs))))))"

definition focused_test_admission_resource_bindings ::
    "world \<Rightarrow> string \<Rightarrow> string list \<Rightarrow> bool \<Rightarrow> store \<Rightarrow> store_error + resource_binding list" where
  "focused_test_admission_resource_bindings W campaign ids require_enabled st =
     check (length ids \<le> 128) ValueError (
     bindR (exact_ids ids) (\<lambda>exact.
     check (distinct exact) ValueError (
       bind_resources W campaign require_enabled (sort exact) st)))"

definition binding_json :: "resource_binding \<Rightarrow> json" where
  "binding_json b = JObj
     [(''id'', JStr (rb_id b)), (''kind'', JStr (resource_kind_value (rb_kind b))),
      (''campaign_id'', opt_str (rb_campaign_id b)),
      (''identity_hash'', JStr (rb_identity_hash b)),
      (''definition_hash'', JStr (rb_definition_hash b)),
      (''policy'', policy_json (rb_policy b))]"

definition bindings_json :: "resource_binding list \<Rightarrow> json" where
  "bindings_json bs = JArr (map binding_json bs)"

section \<open>The admission's own integrity\<close>

definition focused_test_admission_authority :: "admission_row \<Rightarrow> json" where
  "focused_test_admission_authority a = JObj
     [(''id'', JStr (fa_id a)),
      (''campaign_id'', JStr (fa_campaign_id a)),
      (''work_item_id'', JStr (fa_item_id a)),
      (''tester_job_id'', JStr (fa_tester_job_id a)),
      (''managed_worktree_id'', JStr (fa_managed_worktree_id a)),
      (''managed_worktree_generation'', JNum (fa_managed_worktree_generation a)),
      (''focused_test_plan_id'', JStr (fa_focused_test_plan_id a)),
      (''focused_test_plan_sha256'', JStr (fa_focused_test_plan_sha256 a)),
      (''campaign_config_sha256'', JStr (fa_campaign_config_sha256 a)),
      (''job_payload_sha256'', JStr (fa_job_payload_sha256 a)),
      (''required_gates_sha256'', JStr (fa_required_gates_sha256 a)),
      (''repository_identity'', fa_repository_identity a),
      (''repository_identity_sha256'', JStr (fa_repository_identity_sha256 a)),
      (''worktree_identity'', fa_worktree_identity a),
      (''worktree_identity_sha256'', JStr (fa_worktree_identity_sha256 a)),
      (''resource_definition_ids'', str_list (fa_resource_definition_ids a)),
      (''resource_bindings'', bindings_json (fa_resource_bindings a)),
      (''resource_bindings_sha256'', JStr (fa_resource_bindings_sha256 a)),
      (''required_resources_sha256'', JStr (fa_required_resources_sha256 a)),
      (''admitted_by'', JStr (fa_admitted_by a)),
      (''admission_reason'', JStr (fa_admission_reason a)),
      (''admitted_at'', JNum (fa_admitted_at a))]"

fun is_object :: "json \<Rightarrow> bool" where
  "is_object (JObj _) = True"
| "is_object _ = False"

definition optional_sha256 :: "string option \<Rightarrow> bool" where
  "optional_sha256 v \<longleftrightarrow> (case v of None \<Rightarrow> True | Some h \<Rightarrow> sha256_text h)"

definition focused_test_admission_record ::
    "world \<Rightarrow> admission_row \<Rightarrow> store_error + admission_row" where
  "focused_test_admission_record W a =
     check (focused_test_admission_id (fa_id a)) StorageError (
     check (fa_resource_definition_ids a = sort (fa_resource_definition_ids a)
            \<and> distinct (fa_resource_definition_ids a)
            \<and> map rb_id (fa_resource_bindings a) = fa_resource_definition_ids a) StorageError (
     check (is_object (fa_repository_identity a) \<and> is_object (fa_worktree_identity a)) StorageError (
     check (optional_sha256 (fa_browser_plan_sha256 a) \<and> optional_sha256 (fa_database_plan_sha256 a))
       StorageError (
     check (list_all sha256_text
              [fa_focused_test_plan_sha256 a, fa_campaign_config_sha256 a, fa_job_payload_sha256 a,
               fa_required_gates_sha256 a, fa_repository_identity_sha256 a,
               fa_worktree_identity_sha256 a, fa_resource_bindings_sha256 a,
               fa_required_resources_sha256 a]
            \<and> fa_repository_identity_sha256 a = digest W (fa_repository_identity a)
            \<and> fa_worktree_identity_sha256 a = digest W (fa_worktree_identity a)
            \<and> fa_resource_bindings_sha256 a = digest W (bindings_json (fa_resource_bindings a)))
       StorageError (
     check (digest W (focused_test_admission_authority a) = fa_authority_sha256 a) StorageError
       (Inr a))))))"

section \<open>Live admissions\<close>

definition darwin_sandbox_policy_version :: string where
  "darwin_sandbox_policy_version = ''darwin-seatbelt-v1''"

definition worktree_resource_prefix :: string where
  "worktree_resource_prefix = ''git-worktree:''"

definition default_required_gates :: "GateKind list" where
  "default_required_gates = [FocusedTests, BrowserGate, DatabaseGate]"

definition assert_admission_directory_identity ::
    "world \<Rightarrow> string \<Rightarrow> int \<Rightarrow> int \<Rightarrow> int \<Rightarrow> store_error + unit" where
  "assert_admission_directory_identity W path device inode owner =
     check (directory W path = Some (device, inode, owner)) LeaseConflict (Inr ())"

definition latest_plan :: "string \<Rightarrow> store \<Rightarrow> focused_plan_row option" where
  "latest_plan item st =
     latest_by fp_plan_number (filter (\<lambda>p. fp_item_id p = item) (focused_plans st))"

definition validate_live_focused_test_admission ::
    "world \<Rightarrow> admission_row \<Rightarrow> job_row \<Rightarrow> store \<Rightarrow> store_error + admission_row" where
  "validate_live_focused_test_admission W row job st =
     bindR (case focused_test_admission_record W row of
              Inl e \<Rightarrow> Inl LeaseConflict | Inr a \<Rightarrow> Inr a) (\<lambda>a.
     check (fa_active a) LeaseConflict (
     check (fa_campaign_id a = jb_campaign_id job \<and> fa_item_id a = jb_item_id job
            \<and> fa_tester_job_id a = jb_id job \<and> jb_role job = Tester
            \<and> jb_workspace_kind job = ManagedWorktree
            \<and> jb_managed_worktree_id job = Some (fa_managed_worktree_id a)) LeaseConflict (
     bindR (require (find (\<lambda>c. cp_id c = jb_campaign_id job) (campaigns st)) LeaseConflict) (\<lambda>campaign.
     bindR (require (find (\<lambda>i. it_id i = jb_item_id job \<and> it_campaign_id i = jb_campaign_id job)
              (items st)) LeaseConflict) (\<lambda>item.
     bindR (require (find (\<lambda>w. wt_id w = fa_managed_worktree_id a
              \<and> wt_campaign_id w = jb_campaign_id job \<and> wt_item_id w = jb_item_id job)
              (worktrees st)) LeaseConflict) (\<lambda>worktree.
     bindR (require (find (\<lambda>p. fp_id p = fa_focused_test_plan_id a \<and> fp_item_id p = jb_item_id job)
              (focused_plans st)) LeaseConflict) (\<lambda>plan.
     bindR (require (latest_plan (jb_item_id job) st) LeaseConflict) (\<lambda>latest.
     check (cp_status campaign = CampaignActive
            \<and> cp_execution_mode campaign = FocusedTestAdmissionMode
            \<and> wt_state worktree = WtReady
            \<and> fp_id latest = fp_id plan) LeaseConflict (
     check (it_required_gates item \<in> {[FocusedTests], default_required_gates}) LeaseConflict (
     check (digest W (cp_config campaign) = fa_campaign_config_sha256 a
            \<and> digest W (jb_payload job) = fa_job_payload_sha256 a
            \<and> digest W (str_list (map gate_value (it_required_gates item)))
                = fa_required_gates_sha256 a) LeaseConflict (
     bindR (worktree_admission_identity worktree) (\<lambda>worktree_identity.
     bindR (canonical_repository_scope W (cp_config campaign)) (\<lambda>scope.
     check (repository_admission_identity worktree = fa_repository_identity a
            \<and> worktree_identity = fa_worktree_identity a
            \<and> wt_generation worktree = fa_managed_worktree_generation a
            \<and> wt_repository_path worktree \<in> set scope) LeaseConflict (
     bindR (assert_admission_directory_identity W (wt_repository_path worktree)
              (wt_source_device worktree) (wt_source_inode worktree)
              (wt_source_owner_uid worktree)) (\<lambda>_.
     bindR (need_int (wt_worktree_device worktree)) (\<lambda>device.
     bindR (need_int (wt_worktree_inode worktree)) (\<lambda>inode.
     bindR (need_int (wt_worktree_owner_uid worktree)) (\<lambda>owner.
     bindR (assert_admission_directory_identity W (wt_worktree_path worktree) device inode owner) (\<lambda>_.
     bindR (focused_plan_authority plan) (\<lambda>authority.
     check (digest W authority = fa_focused_test_plan_sha256 a
            \<and> fp_sandbox_policy_version plan = Some darwin_sandbox_policy_version) LeaseConflict (
     bindR (focused_test_admission_resource_bindings W (jb_campaign_id job)
              (fa_resource_definition_ids a) True st) (\<lambda>bindings.
     let expected = sort (fa_resource_definition_ids a @ [worktree_resource_prefix @ wt_id worktree])
     in
     check (bindings = fa_resource_bindings a
            \<and> jb_required_resources job = expected
            \<and> digest W (str_list expected) = fa_required_resources_sha256 a) LeaseConflict
       (Inr a)))))))))))))))))))))))"

text \<open>Every failure of the live check reaches the caller as \<open>LeaseConflict\<close>.\<close>

definition assert_live_focused_test_admission ::
    "world \<Rightarrow> admission_row \<Rightarrow> job_row \<Rightarrow> store \<Rightarrow> store_error + admission_row" where
  "assert_live_focused_test_admission W row job st =
     (case validate_live_focused_test_admission W row job st of
        Inl _ \<Rightarrow> Inl LeaseConflict | Inr a \<Rightarrow> Inr a)"

definition running_attempt_of :: "job_row \<Rightarrow> store \<Rightarrow> attempt_row option" where
  "running_attempt_of job st =
     find (\<lambda>a. jb_current_attempt_id job = Some (at_id a) \<and> at_job_id a = jb_id job
              \<and> at_status a = AttemptRunning) (attempts st)"

definition assert_attempt_focused_test_admission ::
    "world \<Rightarrow> job_row \<Rightarrow> store \<Rightarrow> store_error + admission_row option" where
  "assert_attempt_focused_test_admission W job st =
     bindR (require (running_attempt_of job st) LeaseConflict) (\<lambda>attempt.
     bindR (require (find (\<lambda>c. cp_id c = jb_campaign_id job) (campaigns st)) LeaseConflict) (\<lambda>campaign.
     case at_admission_id attempt of
       None \<Rightarrow> check (cp_execution_mode campaign \<noteq> FocusedTestAdmissionMode) LeaseConflict (Inr None)
     | Some admission_id \<Rightarrow>
         check (cp_execution_mode campaign = FocusedTestAdmissionMode) LeaseConflict (
         bindR (require (find (\<lambda>a. fa_id a = admission_id) (admissions st)) LeaseConflict) (\<lambda>row.
         bindR (assert_live_focused_test_admission W row job st) (\<lambda>a.
         check (fa_id a = admission_id) LeaseConflict (Inr (Some a)))))))"

record collector_plan =
  pl_id :: string
  pl_sha256 :: string
  pl_item_id :: string
  pl_resource_definition_id :: string
  pl_resource_identity_hash :: string

definition assert_attempt_collector_admission ::
    "world \<Rightarrow> job_row \<Rightarrow> attempt_row option \<Rightarrow> string \<Rightarrow> collector_plan \<Rightarrow> store
     \<Rightarrow> store_error + admission_row" where
  "assert_attempt_collector_admission W job attempt collector plan st =
     check (collector \<in> {''browser'', ''database''}) LeaseConflict (
     bindR (require attempt LeaseConflict) (\<lambda>attempt.
     check (at_status attempt = AttemptRunning) LeaseConflict (
     bindR (assert_attempt_focused_test_admission W job st) (\<lambda>found.
     bindR (require found LeaseConflict) (\<lambda>a.
     check (jb_current_attempt_id job = Some (at_id attempt)) LeaseConflict (
     check (at_job_id attempt = jb_id job) LeaseConflict (
     check (at_admission_id attempt = Some (fa_id a)) LeaseConflict (
     bindR (require (find (\<lambda>i. it_id i = jb_item_id job) (items st)) TypeError) (\<lambda>item.
     check (it_required_gates item = default_required_gates) LeaseConflict (
     let expected_id = (if collector = ''browser'' then fa_browser_plan_id a else fa_database_plan_id a);
         expected_hash = (if collector = ''browser'' then fa_browser_plan_sha256 a
                          else fa_database_plan_sha256 a)
     in
     check (expected_id \<notin> {None, Some []} \<and> expected_hash \<notin> {None, Some []}) LeaseConflict (
     check (Some (pl_id plan) = expected_id) LeaseConflict (
     check (Some (pl_sha256 plan) = expected_hash) LeaseConflict (
     check (pl_item_id plan = jb_item_id job) LeaseConflict (
     check (pl_resource_definition_id plan \<in> set (fa_resource_definition_ids a)) LeaseConflict (
     bindR (require (find (\<lambda>b. rb_id b = pl_resource_definition_id plan) (fa_resource_bindings a))
              LeaseConflict) (\<lambda>b.
     check (rb_identity_hash b = pl_resource_identity_hash plan) LeaseConflict
       (Inr a)))))))))))))))))"

section \<open>Reading and revoking\<close>

definition get_focused_test_admission :: "world \<Rightarrow> string \<Rightarrow> store \<Rightarrow> store_error + admission_row" where
  "get_focused_test_admission W i st =
     check (focused_test_admission_id i) ValueError (
     bindR (require (find (\<lambda>a. fa_id a = i) (admissions st)) NotFoundError)
       (focused_test_admission_record W))"

definition revoke_focused_test_admission ::
    "world \<Rightarrow> string \<Rightarrow> string \<Rightarrow> string \<Rightarrow> time \<Rightarrow> store \<Rightarrow> store_error + store" where
  "revoke_focused_test_admission W i revoked_by reason now st =
     check (focused_test_admission_id i) ValueError (
     check (operator_text 256 revoked_by) ValueError (
     check (operator_text 1024 reason) ValueError (
     bindR (require (find (\<lambda>a. fa_id a = i) (admissions st)) NotFoundError) (\<lambda>row.
     bindR (focused_test_admission_record W row) (\<lambda>a.
     if \<not> fa_active a then Inr st
     else
       check (rowcount (\<lambda>r. fa_id r = i \<and> fa_active r) (admissions st) = 1) TransitionConflict (
       Inr (append_event ''focused_test.admission_revoked'' (Some (fa_campaign_id a))
              (Some (fa_item_id a)) (Some (fa_tester_job_id a)) (Some revoked_by)
              [(''admission_id'', JStr i), (''reason'', JStr reason)] now
              (st\<lparr>admissions := upd_where (\<lambda>r. fa_id r = i \<and> fa_active r)
                 (\<lambda>r. r\<lparr>fa_active := False, fa_revoked_by := Some revoked_by,
                       fa_revocation_reason := Some reason, fa_revoked_at := Some now,
                       fa_updated_at := now\<rparr>) (admissions st)\<rparr>))))))))"

end
