(* ===== verification/Fences.thy ===== *)
theory Fences
  imports Admission
begin

text \<open>
  The checks the queue operations of \<^verbatim>\<open>storage.py\<close> share: the lease fence of a running job,
  the slots a claim would take and the fences on the registered resources it holds, the
  worktree binding, the external process of the attempt and a pending operator interrupt.
\<close>

section \<open>Resource slots\<close>

record claim_entry =
  ce_key :: string
  ce_slot :: nat
  ce_definition :: "definition_row option"

text \<open>\<open>next(slot for slot in range(1, limit + 1) if slot not in held)\<close>.\<close>

definition free_slot :: "nat list \<Rightarrow> int \<Rightarrow> nat option" where
  "free_slot held limit = find (\<lambda>s. s \<notin> set held) [1..<nat limit + 1]"

definition held_slots :: "string \<Rightarrow> store \<Rightarrow> nat list" where
  "held_slots key st = map ls_slot (filter (\<lambda>l. ls_key l = key) (leases st))"

text \<open>The definition a resource key stands for and its limit; \<open>None\<close> refuses the claim.\<close>

definition claim_definition ::
    "world \<Rightarrow> job_row \<Rightarrow> string \<Rightarrow> store \<Rightarrow> definition_row option option" where
  "claim_definition W job key st =
     (if registered_resource_alias key \<and> py_strip key \<noteq> key then None
      else if \<not> starts_with ''res_'' key then Some None
      else if \<not> resource_definition_id key then None
      else case find_definition key st of
        None \<Rightarrow> None
      | Some row \<Rightarrow>
          if \<not> rd_enabled row then None
          else case validated_resource_definition_row W row of
            Inl _ \<Rightarrow> None
          | Inr d \<Rightarrow>
              if rd_campaign_id d = None \<or> rd_campaign_id d = Some (jb_campaign_id job)
              then Some (Some d) else None)"

definition claim_limit :: "definition_row option \<Rightarrow> int" where
  "claim_limit d = (case d of None \<Rightarrow> 1 | Some d \<Rightarrow> rp_limit (rd_policy d))"

fun resource_claim_plan ::
    "world \<Rightarrow> job_row \<Rightarrow> string list \<Rightarrow> store \<Rightarrow> claim_entry list option" where
  "resource_claim_plan W job [] st = Some []"
| "resource_claim_plan W job (key # keys) st =
     (case claim_definition W job key st of
        None \<Rightarrow> None
      | Some d \<Rightarrow>
          (case free_slot (held_slots key st) (claim_limit d) of
             None \<Rightarrow> None
           | Some slot \<Rightarrow>
               (case resource_claim_plan W job keys st of
                  None \<Rightarrow> None
                | Some plan \<Rightarrow>
                    Some (\<lparr>ce_key = key, ce_slot = slot, ce_definition = d\<rparr> # plan))))"

definition registered_job_resource_leases :: "string \<Rightarrow> store \<Rightarrow> lease_row list" where
  "registered_job_resource_leases job_id st =
     order_by (\<lambda>l. (ls_key l, ls_slot l))
       (filter (\<lambda>l. ls_job_id l = Some job_id \<and> ls_definition_id l \<noteq> None) (leases st))"

definition registered_fence_ok :: "world \<Rightarrow> job_row \<Rightarrow> time \<Rightarrow> store \<Rightarrow> lease_row \<Rightarrow> bool" where
  "registered_fence_ok W job now st lease =
     (case ls_definition_id lease of
        None \<Rightarrow> False
      | Some i \<Rightarrow>
          (case find_definition i st of
             None \<Rightarrow> False
           | Some row \<Rightarrow>
               (case validated_resource_definition_row W row of
                  Inl _ \<Rightarrow> False
                | Inr d \<Rightarrow>
                    rd_enabled d
                    \<and> (rd_campaign_id d = None \<or> rd_campaign_id d = Some (jb_campaign_id job))
                    \<and> ls_key lease = rd_id d
                    \<and> ls_identity_hash lease = Some (rd_identity_hash d)
                    \<and> int (ls_slot lease) \<le> rp_limit (rd_policy d)
                    \<and> now < ls_expires_at lease)))"

definition assert_registered_resource_fences ::
    "world \<Rightarrow> job_row \<Rightarrow> time \<Rightarrow> store \<Rightarrow> store_error + unit" where
  "assert_registered_resource_fences W job now st =
     check (list_all (registered_fence_ok W job now st)
              (registered_job_resource_leases (jb_id job) st)) LeaseConflict (Inr ())"

definition lease_event_data :: "world \<Rightarrow> lease_row \<Rightarrow> store \<Rightarrow> (string \<times> json) list" where
  "lease_event_data W lease st =
     [(''resource_id'', opt_str (ls_definition_id lease)),
      (''lease_slot'', JNum (int (ls_slot lease)))]
     @ (case Option.bind (ls_definition_id lease) (\<lambda>i. find_definition i st) of
          None \<Rightarrow> [(''definition_status'', JStr ''invalid'')]
        | Some row \<Rightarrow>
            (case validated_resource_definition_row W row of
               Inl _ \<Rightarrow> [(''definition_status'', JStr ''invalid'')]
             | Inr d \<Rightarrow> [(''kind'', JStr (resource_kind_value (rd_kind d))),
                         (''label'', JStr (rd_label d)), (''policy'', policy_json (rd_policy d))]))"

fun append_resource_lease_events ::
    "world \<Rightarrow> string \<Rightarrow> lease_row list \<Rightarrow> string \<Rightarrow> string \<Rightarrow> string \<Rightarrow> string option \<Rightarrow> time
     \<Rightarrow> store \<Rightarrow> store" where
  "append_resource_lease_events W kind [] campaign item job actor now st = st"
| "append_resource_lease_events W kind (l # ls) campaign item job actor now st =
     append_resource_lease_events W kind ls campaign item job actor now
       (if ls_definition_id l = None then st
        else append_event kind (Some campaign) (Some item) (Some job) actor
               (lease_event_data W l st) now st)"

lemma append_resource_lease_events_tables [simp]:
  "campaigns (append_resource_lease_events W k ls c i j a n st) = campaigns st"
  "items (append_resource_lease_events W k ls c i j a n st) = items st"
  "jobs (append_resource_lease_events W k ls c i j a n st) = jobs st"
  "attempts (append_resource_lease_events W k ls c i j a n st) = attempts st"
  "approvals (append_resource_lease_events W k ls c i j a n st) = approvals st"
  "artifacts (append_resource_lease_events W k ls c i j a n st) = artifacts st"
  "leases (append_resource_lease_events W k ls c i j a n st) = leases st"
  "definitions (append_resource_lease_events W k ls c i j a n st) = definitions st"
  "processes (append_resource_lease_events W k ls c i j a n st) = processes st"
  "controls (append_resource_lease_events W k ls c i j a n st) = controls st"
  "worktrees (append_resource_lease_events W k ls c i j a n st) = worktrees st"
  "focused_plans (append_resource_lease_events W k ls c i j a n st) = focused_plans st"
  "focused_executions (append_resource_lease_events W k ls c i j a n st) = focused_executions st"
  "browser_executions (append_resource_lease_events W k ls c i j a n st) = browser_executions st"
  "database_executions (append_resource_lease_events W k ls c i j a n st) = database_executions st"
  "admissions (append_resource_lease_events W k ls c i j a n st) = admissions st"
  by (induction ls arbitrary: st) auto

section \<open>The lease fence\<close>

definition find_job :: "string \<Rightarrow> store \<Rightarrow> job_row option" where
  "find_job i st = find (\<lambda>j. jb_id j = i) (jobs st)"

definition find_item :: "string \<Rightarrow> store \<Rightarrow> item_row option" where
  "find_item i st = find (\<lambda>r. it_id r = i) (items st)"

definition find_campaign :: "string \<Rightarrow> store \<Rightarrow> campaign_row option" where
  "find_campaign i st = find (\<lambda>r. cp_id r = i) (campaigns st)"

text \<open>\<open>SELECT * FROM attempts WHERE id = ?\<close> with a column that may be \<open>NULL\<close>.\<close>

definition find_attempt :: "string option \<Rightarrow> store \<Rightarrow> attempt_row option" where
  "find_attempt i st = find (\<lambda>a. i = Some (at_id a)) (attempts st)"

definition live_lease :: "string \<Rightarrow> string \<Rightarrow> time \<Rightarrow> job_row \<Rightarrow> bool" where
  "live_lease worker token now job \<longleftrightarrow>
     jb_status job = JobRunning \<and> jb_lease_owner job = Some worker
     \<and> jb_lease_token job = Some token
     \<and> (case jb_lease_expires_at job of None \<Rightarrow> False | Some e \<Rightarrow> now < e)"

definition assert_live_lease ::
    "string \<Rightarrow> string \<Rightarrow> string \<Rightarrow> time \<Rightarrow> store \<Rightarrow> store_error + job_row" where
  "assert_live_lease job_id worker token now st =
     bindR (require (find_job job_id st) NotFoundError) (\<lambda>job.
     check (live_lease worker token now job) LeaseConflict (Inr job))"

lemma assert_live_lease_Inr [simp]:
  "assert_live_lease job_id worker token now st = Inr job \<longleftrightarrow>
     find_job job_id st = Some job \<and> live_lease worker token now job"
  by (auto simp: assert_live_lease_def)

lemma find_jobD: "find_job i st = Some j \<Longrightarrow> j \<in> set (jobs st) \<and> jb_id j = i"
  by (auto simp: find_job_def dest: find_SomeD)

lemma find_itemD: "find_item i st = Some r \<Longrightarrow> r \<in> set (items st) \<and> it_id r = i"
  by (auto simp: find_item_def dest: find_SomeD)

lemma find_attemptD: "find_attempt i st = Some a \<Longrightarrow> a \<in> set (attempts st) \<and> i = Some (at_id a)"
  by (auto simp: find_attempt_def dest: find_SomeD)

section \<open>The resource snapshot of an operator control\<close>

definition resources_hash :: "world \<Rightarrow> job_row \<Rightarrow> string" where
  "resources_hash W job = digest W (str_list (jb_required_resources job))"

definition assert_no_pending_operator_interrupt :: "string \<Rightarrow> store \<Rightarrow> store_error + unit" where
  "assert_no_pending_operator_interrupt job_id st =
     check (\<not> list_ex (\<lambda>c. oc_job_id c = job_id \<and> oc_action c = ActInterrupt
                         \<and> oc_status c = CtlPending) (controls st)) LeaseConflict (Inr ())"

section \<open>The external process of an attempt\<close>

definition attempt_processes :: "string option \<Rightarrow> store \<Rightarrow> process_row list" where
  "attempt_processes attempt st =
     filter (\<lambda>p. attempt = Some (ep_attempt_id p)) (processes st)"

text \<open>\<open>ORDER BY recorded_at DESC, id DESC LIMIT 1\<close>.\<close>

definition newest_process :: "process_row list \<Rightarrow> process_row option" where
  "newest_process ps = latest_by (\<lambda>p. (ep_recorded_at p, ep_id p)) ps"

definition unresolved_process :: "string option \<Rightarrow> store \<Rightarrow> process_row option" where
  "unresolved_process attempt st =
     newest_process (filter (\<lambda>p. ep_state p \<noteq> ProcStopped) (attempt_processes attempt st))"

definition assert_external_process_stopped :: "job_row \<Rightarrow> store \<Rightarrow> store_error + unit" where
  "assert_external_process_stopped job st =
     (let external = unresolved_process (jb_current_attempt_id job) st in
      bindR (require (find_attempt (jb_current_attempt_id job) st) LeaseConflict) (\<lambda>attempt.
      check (\<not> (external = None \<and> at_external_process_id attempt \<noteq> None
               \<and> newest_process (filter (\<lambda>p. at_external_process_id attempt = Some (ep_process_id p))
                    (attempt_processes (jb_current_attempt_id job) st)) = None)) LeaseConflict (
      check (external = None) LeaseConflict (Inr ()))))"

lemma assert_external_process_stopped_Inr:
  "assert_external_process_stopped job st = Inr () \<Longrightarrow>
     p \<in> set (processes st) \<Longrightarrow> jb_current_attempt_id job = Some (ep_attempt_id p)
     \<Longrightarrow> ep_state p = ProcStopped"
  by (auto simp: assert_external_process_stopped_def unresolved_process_def newest_process_def
      attempt_processes_def filter_empty_conv Let_def)

section \<open>The worktree binding\<close>

definition bound_worktree :: "job_row \<Rightarrow> store \<Rightarrow> worktree_row option" where
  "bound_worktree job st =
     find (\<lambda>w. jb_managed_worktree_id job = Some (wt_id w)
             \<and> wt_campaign_id w = jb_campaign_id job \<and> wt_item_id w = jb_item_id job
             \<and> wt_state w = WtReady) (worktrees st)"

definition assert_managed_worktree_binding :: "job_row \<Rightarrow> store \<Rightarrow> store_error + unit" where
  "assert_managed_worktree_binding job st =
     (if jb_workspace_kind job \<noteq> ManagedWorktree then Inr ()
      else
        check (jb_managed_worktree_id job \<noteq> None) LeaseConflict (
        bindR (require (bound_worktree job st) LeaseConflict) (\<lambda>w.
        bindR (require (find_attempt (jb_current_attempt_id job) st) LeaseConflict) (\<lambda>attempt.
        check (at_managed_worktree_id attempt = Some (wt_id w)
               \<and> at_managed_worktree_generation attempt = Some (wt_generation w)) LeaseConflict
          (Inr ())))))"

section \<open>The worktree of a claimed job\<close>

definition claimed_managed_worktree ::
    "string \<Rightarrow> string \<Rightarrow> string \<Rightarrow> time \<Rightarrow> store \<Rightarrow> store_error + worktree_row option" where
  "claimed_managed_worktree job_id worker token now st =
     bindR (assert_live_lease job_id worker token now st) (\<lambda>job.
     if jb_workspace_kind job \<noteq> ManagedWorktree then Inr None
     else bindR (assert_managed_worktree_binding job st) (\<lambda>_.
       Inr (find (\<lambda>w. jb_managed_worktree_id job = Some (wt_id w)) (worktrees st))))"

definition quarantine_claimed_managed_worktree ::
    "string \<Rightarrow> string \<Rightarrow> string \<Rightarrow> string \<Rightarrow> time \<Rightarrow> store \<Rightarrow> store_error + store" where
  "quarantine_claimed_managed_worktree job_id worker token reason now st =
     check (reason \<noteq> [] \<and> length reason \<le> 4096) ValueError (
     bindR (assert_live_lease job_id worker token now st) (\<lambda>job.
     check (jb_workspace_kind job = ManagedWorktree) LeaseConflict (
     bindR (assert_managed_worktree_binding job st) (\<lambda>_.
     let mine = (\<lambda>w. jb_managed_worktree_id job = Some (wt_id w) \<and> wt_state w = WtReady) in
     check (rowcount mine (worktrees st) = 1) LeaseConflict (
       Inr (append_event ''worktree.worker_validation_quarantined'' (Some (jb_campaign_id job))
              (Some (jb_item_id job)) (Some job_id) (Some worker)
              [(''worktree_id'', opt_str (jb_managed_worktree_id job)), (''reason'', JStr reason)] now
              (st\<lparr>worktrees := upd_where mine
                 (\<lambda>w. w\<lparr>wt_state := WtQuarantined, wt_last_error := Some reason,
                       wt_updated_at := now\<rparr>) (worktrees st)\<rparr>)))))))"

section \<open>What a claim plan guarantees\<close>

lemma free_slot_Some:
  "free_slot held limit = Some s \<Longrightarrow> 1 \<le> s \<and> int s \<le> limit \<and> s \<notin> set held"
  by (auto simp: free_slot_def dest!: find_SomeD)

lemma free_slot_None_iff:
  "free_slot held limit = None \<longleftrightarrow> (\<forall>s. 1 \<le> s \<and> int s \<le> limit \<longrightarrow> s \<in> set held)"
proof -
  have "free_slot held limit = None \<longleftrightarrow> (\<forall>s \<in> {1..<nat limit + 1}. s \<in> set held)"
    by (auto simp: free_slot_def find_None_iff)
  also have "\<dots> \<longleftrightarrow> (\<forall>s. 1 \<le> s \<and> int s \<le> limit \<longrightarrow> s \<in> set held)" by auto
  finally show ?thesis .
qed

lemma claim_plan_keys:
  "resource_claim_plan W job keys st = Some plan \<Longrightarrow> map ce_key plan = keys"
  by (induction keys arbitrary: plan) (auto split: option.splits)

lemma claim_plan_entry:
  "resource_claim_plan W job keys st = Some plan \<Longrightarrow> e \<in> set plan \<Longrightarrow>
     claim_definition W job (ce_key e) st = Some (ce_definition e)
     \<and> free_slot (held_slots (ce_key e) st) (claim_limit (ce_definition e)) = Some (ce_slot e)"
  by (induction keys arbitrary: plan) (auto split: option.splits)

lemma claim_plan_free:
  assumes "resource_claim_plan W job keys st = Some plan" and "e \<in> set plan"
    and "l \<in> set (leases st)"
  shows "(ls_key l, ls_slot l) \<noteq> (ce_key e, ce_slot e)"
proof
  assume same: "(ls_key l, ls_slot l) = (ce_key e, ce_slot e)"
  have "ce_slot e \<notin> set (held_slots (ce_key e) st)"
    using claim_plan_entry [OF assms(1,2)] free_slot_Some by blast
  moreover have "ls_slot l \<in> set (held_slots (ce_key e) st)"
    using assms(3) same by (simp add: held_slots_def image_iff) metis
  ultimately show False using same by simp
qed

lemma claim_definition_Some:
  assumes "claim_definition W job key st = Some (Some d)"
  shows "rd_id d = key \<and> rd_enabled d \<and> d \<in> set (definitions st)
    \<and> (rd_campaign_id d = None \<or> rd_campaign_id d = Some (jb_campaign_id job))
    \<and> validated_resource_definition_row W d = Inr d"
proof -
  from assms obtain row where row: "find_definition key st = Some row"
      "validated_resource_definition_row W row = Inr d" "rd_enabled row"
      "rd_campaign_id d = None \<or> rd_campaign_id d = Some (jb_campaign_id job)"
    by (auto simp: claim_definition_def split: option.splits sum.splits if_splits)
  then have "d = row" by (blast dest: validated_row_same)
  with row show ?thesis by (auto simp: find_definition_def dest: find_SomeD)
qed

end
