(* ===== verification/Enqueue.thy ===== *)
theory Enqueue
  imports Fences "HOL-Library.AList"
begin

text \<open>
  What fills the store of \<^verbatim>\<open>storage.py\<close>: campaigns, work items and queued jobs, the
  approvals, the artifacts, the event log and the standalone resource leases.

  A mutation returns the store it commits; identifiers that the code draws from
  \<open>uuid4().hex\<close> and the clock's reading are arguments.
\<close>

text \<open>A Python \<open>dict\<close> built from pairs: a later value replaces an earlier one in place.\<close>

definition dict_of :: "('k \<times> 'v) list \<Rightarrow> ('k \<times> 'v) list" where
  "dict_of kvs = fold (\<lambda>(k, v). AList.update k v) kvs []"

definition given_or :: "string option \<Rightarrow> string \<Rightarrow> string" where
  "given_or given fresh = (case given of None \<Rightarrow> fresh | Some i \<Rightarrow> if i = [] then fresh else i)"

section \<open>Campaigns\<close>

definition default_role_limits :: "(string \<times> int) list" where
  "default_role_limits = [(''investigator'', 2), (''fixer'', 2), (''tester'', 2)]"

definition create_campaign ::
    "string \<Rightarrow> string option \<Rightarrow> string \<Rightarrow> (string \<times> json) list \<Rightarrow> int \<Rightarrow> (string \<times> int) list
     \<Rightarrow> string \<Rightarrow> time \<Rightarrow> store \<Rightarrow> store_error + (store \<times> string)" where
  "create_campaign name given status config global_limit role_limits fresh now st =
     check (py_strip name \<noteq> []) ValueError (
     check (1 \<le> global_limit) ValueError (
     let limits = dict_of (map (\<lambda>(role, limit). (py_lower role, limit))
                    (if role_limits = [] then default_role_limits else role_limits))
     in
     check (set (map fst limits) = set (map fst default_role_limits)) ValueError (
     check (list_all (\<lambda>kv. 1 \<le> snd kv) limits) ValueError (
     bindR (require (campaign_status_of (py_lower status)) ValueError) (\<lambda>s.
     let cid = given_or given fresh
     in
     bindR (insert_campaign
              \<lparr>cp_id = cid, cp_name = name, cp_status = s, cp_config = JObj config,
               cp_global_limit = global_limit, cp_role_limits = limits,
               cp_created_at = now, cp_updated_at = now, cp_execution_mode = LegacyMode\<rparr> st) (\<lambda>st1.
       Inr (append_event ''campaign.created'' (Some cid) None None None
              [(''status'', JStr (campaign_status_value s))] now st1, cid)))))))"

section \<open>Jobs\<close>

definition default_workspace_kind :: "WorkerRole \<Rightarrow> bool \<Rightarrow> WorkspaceKind" where
  "default_workspace_kind role allow_simulated =
     (if role \<in> {Fixer, Tester} \<and> allow_simulated then Simulated
      else if role = Fixer then ManagedWorktree
      else SourceReadOnly)"

text \<open>The keyword arguments of \<open>_enqueue_job\<close>.\<close>

record job_request =
  jr_role :: string
  jr_stage :: string
  jr_queued_state :: string
  jr_active_state :: string
  jr_payload :: "(string \<times> json) list"
  jr_required_resources :: "string list"
  jr_required_approval_action :: "string option"
  jr_workspace_kind :: "string option"
  jr_managed_worktree_id :: "string option"
  jr_priority :: int
  jr_available_at :: time
  jr_job_id :: "string option"

definition request_workspace_kind ::
    "WorkerRole \<Rightarrow> bool \<Rightarrow> string option \<Rightarrow> store_error + WorkspaceKind" where
  "request_workspace_kind role allow_simulated given =
     bindR (case given of
              None \<Rightarrow> Inr (default_workspace_kind role allow_simulated)
            | Some s \<Rightarrow> require (workspace_kind_of (py_lower s)) ValueError) (\<lambda>kind.
     check (\<not> (kind = Simulated \<and> \<not> allow_simulated)) ValueError (
     check (\<not> (role = Fixer \<and> kind \<notin> {ManagedWorktree, Simulated})) ValueError
       (Inr kind)))"

definition check_request_worktree ::
    "WorkerRole \<Rightarrow> WorkspaceKind \<Rightarrow> string option \<Rightarrow> item_row \<Rightarrow> store \<Rightarrow> store_error + unit" where
  "check_request_worktree role kind given item st =
     (case given of
        Some w \<Rightarrow>
          check (kind = ManagedWorktree) ValueError (
          check (list_ex (\<lambda>r. wt_id r = w \<and> wt_campaign_id r = it_campaign_id item
                   \<and> wt_item_id r = it_id item \<and> wt_state r = WtReady) (worktrees st))
            TransitionConflict (Inr ()))
      | None \<Rightarrow> check (\<not> (kind = ManagedWorktree \<and> role \<noteq> Fixer)) ValueError (Inr ()))"

definition request_resources :: "string list \<Rightarrow> string option \<Rightarrow> store_error + string list" where
  "request_resources given worktree =
     check (\<not> list_ex (starts_with worktree_resource_prefix) given) ValueError (
     let resources = sort (remdups (given @
           (case worktree of None \<Rightarrow> [] | Some w \<Rightarrow> [worktree_resource_prefix @ w])))
     in check (list_all (\<lambda>r. py_strip r \<noteq> []) resources) ValueError (Inr resources))"

definition item_with_campaign :: "string \<Rightarrow> store \<Rightarrow> (item_row \<times> campaign_row) option" where
  "item_with_campaign item_id st =
     Option.bind (find_item item_id st) (\<lambda>i.
     Option.bind (find_campaign (it_campaign_id i) st) (\<lambda>c. Some (i, c)))"

definition enqueue_job_row ::
    "string \<Rightarrow> job_request \<Rightarrow> string \<Rightarrow> time \<Rightarrow> store \<Rightarrow> store_error + job_row" where
  "enqueue_job_row item_id q fresh now st =
     bindR (require (item_with_campaign item_id st) NotFoundError) (\<lambda>(item, campaign).
     check (item_state_value (it_state item) = jr_queued_state q) TransitionConflict (
     bindR (require (worker_role_of (jr_role q)) ValueError) (\<lambda>role.
     check (jr_queued_state q = item_state_value (queued_state role)
            \<and> jr_active_state q = item_state_value (active_state role)) ValueError (
     check (py_strip (jr_stage q) \<noteq> []) ValueError (
     bindR (request_workspace_kind role
              (is_true (jget ''allow_simulated_evidence'' (cp_config campaign)))
              (jr_workspace_kind q)) (\<lambda>kind.
     bindR (check_request_worktree role kind (jr_managed_worktree_id q) item st) (\<lambda>_.
     bindR (request_resources (jr_required_resources q) (jr_managed_worktree_id q)) (\<lambda>resources.
     check (case jr_required_approval_action q of None \<Rightarrow> True | Some a \<Rightarrow> py_strip a \<noteq> [])
       ValueError
       (Inr \<lparr>jb_id = given_or (jr_job_id q) fresh, jb_campaign_id = it_campaign_id item,
             jb_item_id = item_id, jb_role = role, jb_stage = jr_stage q, jb_status = JobPending,
             jb_priority = jr_priority q, jb_payload = JObj (jr_payload q), jb_result = None,
             jb_required_resources = resources, jb_queued_state = queued_state role,
             jb_active_state = active_state role,
             jb_required_approval_action = jr_required_approval_action q,
             jb_available_at = jr_available_at q, jb_lease_owner = None, jb_lease_token = None,
             jb_lease_expires_at = None, jb_heartbeat_at = None, jb_current_attempt_id = None,
             jb_attempt_count = 0, jb_last_error = None, jb_created_at = now,
             jb_updated_at = now, jb_workspace_kind = kind,
             jb_managed_worktree_id = jr_managed_worktree_id q\<rparr>)))))))))"

definition enqueue_job ::
    "string \<Rightarrow> job_request \<Rightarrow> string \<Rightarrow> time \<Rightarrow> store \<Rightarrow> store_error + (store \<times> string)" where
  "enqueue_job item_id q fresh now st =
     bindR (enqueue_job_row item_id q fresh now st) (\<lambda>job.
     bindR (insert_job job st) (\<lambda>st1.
       Inr (append_event ''job.enqueued'' (Some (jb_campaign_id job)) (Some item_id)
              (Some (jb_id job)) None
              [(''role'', JStr (worker_role_value (jb_role job))), (''stage'', JStr (jb_stage job))]
              now st1, jb_id job)))"

section \<open>Work items\<close>

text \<open>The \<open>initial_job\<close> and \<open>next_job\<close> dictionaries: the optional keys are options.\<close>

record next_job =
  nj_role :: string
  nj_stage :: string
  nj_queued_state :: "string option"
  nj_active_state :: string
  nj_payload :: "(string \<times> json) list"
  nj_required_resources :: "string list"
  nj_required_approval_action :: "string option"
  nj_workspace_kind :: "string option"
  nj_managed_worktree_id :: "string option"
  nj_priority :: "int option"
  nj_available_at :: "time option"
  nj_job_id :: "string option"

definition or_default :: "'a option \<Rightarrow> 'a \<Rightarrow> 'a" where
  "or_default v d = (case v of None \<Rightarrow> d | Some x \<Rightarrow> x)"

definition next_job_request ::
    "next_job \<Rightarrow> string \<Rightarrow> string option \<Rightarrow> string option \<Rightarrow> int \<Rightarrow> time \<Rightarrow> job_request" where
  "next_job_request n state workspace worktree priority now =
     \<lparr>jr_role = py_lower (nj_role n), jr_stage = nj_stage n,
      jr_queued_state = py_lower (or_default (nj_queued_state n) state),
      jr_active_state = py_lower (nj_active_state n), jr_payload = nj_payload n,
      jr_required_resources = nj_required_resources n,
      jr_required_approval_action = nj_required_approval_action n,
      jr_workspace_kind = workspace, jr_managed_worktree_id = worktree,
      jr_priority = or_default (nj_priority n) priority,
      jr_available_at = or_default (nj_available_at n) now, jr_job_id = nj_job_id n\<rparr>"

definition creatable_state :: "ItemState \<Rightarrow> bool" where
  "creatable_state s \<longleftrightarrow> s \<in> {Backlog, ReadyForFix, ReadyForTest, Blocked}"

fun parse_gates :: "string list \<Rightarrow> store_error + GateKind list" where
  "parse_gates [] = Inr []"
| "parse_gates (g # gs) =
     bindR (require (gate_of g) ValueError) (\<lambda>k. bindR (parse_gates gs) (\<lambda>ks. Inr (k # ks)))"

definition create_work_item ::
    "string \<Rightarrow> string \<Rightarrow> string option \<Rightarrow> string \<Rightarrow> string \<Rightarrow> int \<Rightarrow> string list
     \<Rightarrow> (string \<times> json) list \<Rightarrow> next_job option \<Rightarrow> string \<Rightarrow> string \<Rightarrow> time
     \<Rightarrow> store \<Rightarrow> store_error + (store \<times> string)" where
  "create_work_item campaign_id title given description state priority required_gates metadata
     initial_job fresh fresh_job now st =
     check (py_strip title \<noteq> [] \<and> py_strip description \<noteq> []) ValueError (
     bindR (require (item_state_of (py_lower state)) ValueError) (\<lambda>s.
     check (creatable_state s) ValueError (
     let names = map py_lower (if required_gates = [] then map gate_value default_required_gates
                               else required_gates)
     in
     check (distinct names) ValueError (
     bindR (parse_gates names) (\<lambda>gates.
     let item_id = given_or given fresh
     in
     bindR (insert_item
              \<lparr>it_id = item_id, it_campaign_id = campaign_id, it_title = title,
               it_description = description, it_state = s, it_priority = priority,
               it_required_gates = gates, it_metadata = JObj metadata,
               it_created_at = now, it_updated_at = now\<rparr> st) (\<lambda>st1.
     let st2 = append_event ''work_item.created'' (Some campaign_id) (Some item_id) None None
                 [(''state'', JStr (item_state_value s))] now st1
     in
     case initial_job of
       None \<Rightarrow> Inr (st2, item_id)
     | Some n \<Rightarrow>
         bindR (enqueue_job item_id
                  (next_job_request n (item_state_value s) (nj_workspace_kind n)
                     (nj_managed_worktree_id n) priority now) fresh_job now st2) (\<lambda>(st3, _).
           Inr (st3, item_id))))))))"

section \<open>Approvals\<close>

definition create_approval ::
    "string \<Rightarrow> string \<Rightarrow> string \<Rightarrow> string option \<Rightarrow> (string \<times> json) list \<Rightarrow> string \<Rightarrow> time
     \<Rightarrow> store \<Rightarrow> store_error + store" where
  "create_approval campaign_id action requested_by item_id scope fresh now st =
     bindR (insert_approval
              \<lparr>ap_id = fresh, ap_campaign_id = campaign_id, ap_item_id = item_id,
               ap_action = action, ap_scope = JObj scope, ap_status = ApprovalPending,
               ap_requested_by = requested_by, ap_requested_at = now,
               ap_resolved_by = None, ap_resolved_at = None\<rparr> st) (\<lambda>st1.
       Inr (append_event ''approval.requested'' (Some campaign_id) item_id None
              (Some requested_by)
              [(''approval_id'', JStr fresh), (''action'', JStr action)] now st1))"

definition resolution_of :: "string \<Rightarrow> ApprovalStatus option" where
  "resolution_of s = (if s = ''approved'' then Some ApprovalApproved
                      else if s = ''rejected'' then Some ApprovalRejected else None)"

definition resolve_approval ::
    "string \<Rightarrow> string \<Rightarrow> string \<Rightarrow> time \<Rightarrow> store \<Rightarrow> store_error + store" where
  "resolve_approval approval_id status resolved_by now st =
     bindR (require (resolution_of (py_lower status)) ValueError) (\<lambda>s.
     bindR (require (find (\<lambda>a. ap_id a = approval_id) (approvals st)) NotFoundError) (\<lambda>approval.
     let pending = (\<lambda>a. ap_id a = approval_id \<and> ap_status a = ApprovalPending) in
     check (rowcount pending (approvals st) = 1) TransitionConflict (
       Inr (append_event ''approval.resolved'' (Some (ap_campaign_id approval))
              (ap_item_id approval) None (Some resolved_by)
              [(''approval_id'', JStr approval_id), (''status'', JStr (py_lower status)),
               (''action'', JStr (ap_action approval))] now
              (st\<lparr>approvals := upd_where pending
                 (\<lambda>a. a\<lparr>ap_status := s, ap_resolved_by := Some resolved_by,
                       ap_resolved_at := Some now\<rparr>) (approvals st)\<rparr>)))))"

section \<open>Artifacts\<close>

definition add_artifact ::
    "string \<Rightarrow> string \<Rightarrow> string \<Rightarrow> string option \<Rightarrow> (string \<times> json) list \<Rightarrow> string \<Rightarrow> time
     \<Rightarrow> store \<Rightarrow> store_error + store" where
  "add_artifact item_id kind uri job_id metadata fresh now st =
     bindR (require (find_item item_id st) NotFoundError) (\<lambda>item.
     bindR (insert_artifact
              \<lparr>ar_id = fresh, ar_item_id = item_id, ar_job_id = job_id, ar_kind = kind,
               ar_uri = uri, ar_metadata = JObj metadata, ar_created_at = now,
               ar_attempt_id = None\<rparr> st) (\<lambda>st1.
       Inr (append_event ''artifact.added'' (Some (it_campaign_id item)) (Some item_id) job_id None
              [(''artifact_id'', JStr fresh), (''kind'', JStr kind), (''uri'', JStr uri)] now st1)))"

definition record_attempt_artifact ::
    "world \<Rightarrow> string \<Rightarrow> string \<Rightarrow> string \<Rightarrow> string \<Rightarrow> string \<Rightarrow> (string \<times> json) list
     \<Rightarrow> string \<Rightarrow> time \<Rightarrow> store \<Rightarrow> store_error + store" where
  "record_attempt_artifact W job_id worker token kind_text uri metadata fresh now st =
     (let kind = py_lower (py_strip kind_text); location = expanduser W uri in
      check (kind \<noteq> [] \<and> length kind \<le> 128) ValueError (
      check (is_absolute location \<and> is_file W location) ValueError (
      let normalized = resolve W location in
      bindR (assert_live_lease job_id worker token now st) (\<lambda>job.
      if list_ex (\<lambda>a. ar_job_id a = Some job_id \<and> jb_current_attempt_id job \<noteq> None
                   \<and> ar_attempt_id a = jb_current_attempt_id job \<and> ar_kind a = kind
                   \<and> ar_uri a = normalized) (artifacts st)
      then Inr st
      else
        bindR (insert_artifact
                 \<lparr>ar_id = fresh, ar_item_id = jb_item_id job, ar_job_id = Some job_id,
                  ar_kind = kind, ar_uri = normalized,
                  ar_metadata = JObj (AList.update ''attempt_id''
                     (opt_str (jb_current_attempt_id job)) metadata),
                  ar_created_at = now, ar_attempt_id = jb_current_attempt_id job\<rparr> st) (\<lambda>st1.
          Inr (append_event ''artifact.added'' (Some (jb_campaign_id job))
                 (Some (jb_item_id job)) (Some job_id) (Some worker)
                 [(''artifact_id'', JStr fresh),
                  (''attempt_id'', opt_str (jb_current_attempt_id job)),
                  (''kind'', JStr kind), (''uri'', JStr normalized)] now st1))))))"

section \<open>The event log\<close>

text \<open>\<open>add_event\<close> takes identifiers from its caller, so the event's foreign keys are checked.\<close>

definition add_event ::
    "string \<Rightarrow> string option \<Rightarrow> string option \<Rightarrow> string option \<Rightarrow> string option
     \<Rightarrow> (string \<times> json) list \<Rightarrow> time \<Rightarrow> store \<Rightarrow> store_error + store" where
  "add_event kind campaign item job actor data now st =
     check (has_optional_key cp_id campaign (campaigns st)
            \<and> has_optional_key it_id item (items st)
            \<and> has_optional_key jb_id job (jobs st)) IntegrityError
       (Inr (append_event kind campaign item job actor data now st))"

section \<open>Standalone resource leases\<close>

definition standalone_key :: "string \<Rightarrow> bool" where
  "standalone_key key \<longleftrightarrow> \<not> registered_resource_alias key \<and> collector_text False key"

definition find_lease :: "string \<Rightarrow> nat \<Rightarrow> store \<Rightarrow> lease_row option" where
  "find_lease key slot st = find (\<lambda>l. ls_key l = key \<and> ls_slot l = slot) (leases st)"

definition acquire_resource ::
    "string \<Rightarrow> string \<Rightarrow> int \<Rightarrow> string option \<Rightarrow> string \<Rightarrow> time \<Rightarrow> store
     \<Rightarrow> store_error + (store \<times> string option)" where
  "acquire_resource key owner lease_seconds job_id token now st =
     check (0 < lease_seconds) ValueError (
     check (job_id = None) ValueError (
     check (standalone_key key) ValueError (
     check (operator_text 256 owner) ValueError (
     let existing = find_lease key 1 st;
         acquire = (\<lambda>st1.
           bindR (insert_lease
                    \<lparr>ls_key = key, ls_slot = 1, ls_definition_id = None, ls_owner = owner,
                     ls_job_id = None, ls_token = token, ls_acquired_at = now,
                     ls_heartbeat_at = now, ls_expires_at = now + lease_seconds,
                     ls_identity_hash = None\<rparr> st1) (\<lambda>st2.
             Inr (append_event ''resource.acquired'' None None None (Some owner)
                    [(''resource_key'', JStr key), (''lease_slot'', JNum 1),
                     (''expires_at'', JNum (now + lease_seconds))] now st2, Some token)))
     in
     case existing of
       None \<Rightarrow> acquire st
     | Some l \<Rightarrow>
         if ls_job_id l \<noteq> None then Inr (st, None)
         else if now < ls_expires_at l then Inr (st, None)
         else acquire (append_event ''resource.lease_expired'' None None None (Some owner)
                [(''resource_key'', JStr key), (''lease_slot'', JNum 1)] now
                (st\<lparr>leases := del_where (\<lambda>l. ls_key l = key \<and> ls_slot l = 1) (leases st)\<rparr>))))))"

definition job_bound :: "string \<Rightarrow> store \<Rightarrow> bool" where
  "job_bound key st \<longleftrightarrow> (case find_lease key 1 st of None \<Rightarrow> False | Some l \<Rightarrow> ls_job_id l \<noteq> None)"

definition heartbeat_resource ::
    "string \<Rightarrow> string \<Rightarrow> string \<Rightarrow> int \<Rightarrow> time \<Rightarrow> store \<Rightarrow> store_error + (store \<times> bool)" where
  "heartbeat_resource key owner token lease_seconds now st =
     check (0 < lease_seconds) ValueError (
     check (standalone_key key) ValueError (
     check (operator_text 256 owner) ValueError (
     check (\<not> job_bound key st) LeaseConflict (
     let mine = (\<lambda>l. ls_key l = key \<and> ls_slot l = 1 \<and> ls_owner l = owner
                   \<and> ls_token l = token \<and> now < ls_expires_at l);
         changed = rowcount mine (leases st);
         st1 = st\<lparr>leases := upd_where mine
           (\<lambda>l. l\<lparr>ls_heartbeat_at := now, ls_expires_at := now + lease_seconds\<rparr>) (leases st)\<rparr>
     in
     Inr (if changed = 1
          then append_event ''resource.heartbeat'' None None None (Some owner)
                 [(''resource_key'', JStr key), (''lease_slot'', JNum 1),
                  (''expires_at'', JNum (now + lease_seconds))] now st1
          else st1, changed = 1)))))"

definition release_resource ::
    "string \<Rightarrow> string \<Rightarrow> string \<Rightarrow> time \<Rightarrow> store \<Rightarrow> store_error + (store \<times> bool)" where
  "release_resource key owner token now st =
     check (standalone_key key) ValueError (
     check (operator_text 256 owner) ValueError (
     check (\<not> job_bound key st) LeaseConflict (
     let mine = (\<lambda>l. ls_key l = key \<and> ls_slot l = 1 \<and> ls_owner l = owner \<and> ls_token l = token);
         changed = rowcount mine (leases st);
         st1 = st\<lparr>leases := del_where mine (leases st)\<rparr>
     in
     Inr (if changed = 1
          then append_event ''resource.released'' None None None (Some owner)
                 [(''resource_key'', JStr key), (''lease_slot'', JNum 1)] now st1
          else st1, changed = 1))))"

end
