(* ===== verification/External.thy ===== *)
theory External
  imports Enqueue
begin

text \<open>
  The external sessions and processes of an attempt in \<^verbatim>\<open>storage.py\<close>: binding a provider
  session, recording the process before it does any work, the release fences of the guarded
  launchers, and clearing the binding after the process group is reaped.
\<close>

section \<open>Sessions\<close>

definition applied_resume :: "string \<Rightarrow> store \<Rightarrow> control_row option" where
  "applied_resume attempt_id st =
     find (\<lambda>c. oc_target_attempt_id c = Some attempt_id \<and> oc_action c = ActResume
             \<and> oc_status c = CtlApplied) (controls st)"

definition session_of :: "attempt_row \<Rightarrow> string option \<times> string option" where
  "session_of a = (at_external_provider a, at_external_session_id a)"

definition record_external_session ::
    "world \<Rightarrow> string \<Rightarrow> string \<Rightarrow> string \<Rightarrow> string \<Rightarrow> string \<Rightarrow> time \<Rightarrow> store \<Rightarrow> store_error + store" where
  "record_external_session W job_id worker token provider_text session_text now st =
     (let provider = py_lower (py_strip provider_text); session = py_strip session_text;
          requested = (Some provider, Some session) in
      check (provider \<noteq> [] \<and> length provider \<le> 64) ValueError (
      check (session \<noteq> [] \<and> length session \<le> 512) ValueError (
      bindR (assert_live_lease job_id worker token now st) (\<lambda>job.
      bindR (assert_attempt_focused_test_admission W job st) (\<lambda>_.
      bindR (require (find_attempt (jb_current_attempt_id job) st) LeaseConflict) (\<lambda>attempt.
      check (at_status attempt = AttemptRunning) LeaseConflict (
      let authorization = applied_resume (at_id attempt) st;
          prior = list_ex (\<lambda>a. session_of a = requested \<and> at_job_id a = job_id
                            \<and> at_id a \<noteq> at_id attempt) (attempts st);
          authorized = (\<lambda>c. list_ex (\<lambda>a. at_id a = oc_source_attempt_id c \<and> at_job_id a = job_id
                            \<and> session_of a = requested) (attempts st));
          mine = (\<lambda>a. jb_current_attempt_id job = Some (at_id a) \<and> at_status a = AttemptRunning
                    \<and> session_of a = (None, None))
      in
      check (case authorization of None \<Rightarrow> True
             | Some c \<Rightarrow> (oc_expected_provider c, oc_expected_session_id c) = requested) LeaseConflict (
      check (prior \<longrightarrow> (case authorization of None \<Rightarrow> False | Some c \<Rightarrow> authorized c)) LeaseConflict (
      if session_of attempt = requested then Inr st
      else
        check (session_of attempt = (None, None)) LeaseConflict (
        check (\<not> list_ex (\<lambda>a. session_of a = requested \<and> at_job_id a \<noteq> job_id) (attempts st))
          LeaseConflict (
        check (rowcount mine (attempts st) = 1) LeaseConflict (
        Inr (append_event ''worker.external_session_recorded'' (Some (jb_campaign_id job))
               (Some (jb_item_id job)) (Some job_id) (Some worker)
               [(''provider'', JStr provider), (''session_id'', JStr session)] now
               (st\<lparr>attempts := upd_where mine
                  (\<lambda>a. a\<lparr>at_external_provider := Some provider,
                        at_external_session_id := Some session\<rparr>) (attempts st)\<rparr>))))))))))))))"

section \<open>Processes\<close>

record process_identity =
  pi_process_id :: int
  pi_process_group_id :: int
  pi_owner_uid :: int
  pi_kernel_executable :: string
  pi_start_seconds :: int
  pi_start_microseconds :: int
  pi_target_executable :: string

definition valid_identity :: "process_identity \<Rightarrow> bool" where
  "valid_identity p \<longleftrightarrow>
     1 < pi_process_id p \<and> 1 < pi_process_group_id p
     \<and> pi_process_group_id p = pi_process_id p
     \<and> 0 \<le> pi_owner_uid p
     \<and> list_all (\<lambda>v. v \<noteq> [] \<and> length v \<le> 4096 \<and> is_absolute v)
         [pi_kernel_executable p, pi_target_executable p]
     \<and> 0 < pi_start_seconds p
     \<and> 0 \<le> pi_start_microseconds p \<and> pi_start_microseconds p < 1000000"

definition row_identity_matches :: "string \<Rightarrow> process_identity \<Rightarrow> process_row \<Rightarrow> bool" where
  "row_identity_matches provider p r \<longleftrightarrow>
     ep_provider r = provider \<and> ep_process_id r = pi_process_id p
     \<and> ep_process_group_id r = pi_process_group_id p
     \<and> ep_owner_uid r = Some (pi_owner_uid p)
     \<and> ep_kernel_executable r = Some (pi_kernel_executable p)
     \<and> ep_start_seconds r = Some (pi_start_seconds p)
     \<and> ep_start_microseconds r = Some (pi_start_microseconds p)
     \<and> ep_target_executable r = Some (pi_target_executable p)"

definition new_process_row :: "string \<Rightarrow> string \<Rightarrow> string \<Rightarrow> string \<Rightarrow> process_identity \<Rightarrow> time \<Rightarrow> process_row" where
  "new_process_row fresh attempt_id job_id provider p now =
     \<lparr>ep_id = fresh, ep_attempt_id = attempt_id, ep_job_id = job_id, ep_provider = provider,
      ep_process_id = pi_process_id p, ep_process_group_id = pi_process_group_id p,
      ep_owner_uid = Some (pi_owner_uid p), ep_start_seconds = Some (pi_start_seconds p),
      ep_start_microseconds = Some (pi_start_microseconds p),
      ep_kernel_executable = Some (pi_kernel_executable p),
      ep_target_executable = Some (pi_target_executable p),
      ep_identity_version = DarwinLibprocV1, ep_state = ProcActive, ep_recorded_at = now,
      ep_stopped_at = None, ep_outcome = None, ep_reconciliation_owner = None,
      ep_reconciliation_token = None, ep_reconciliation_expires_at = None,
      ep_last_error = None, ep_updated_at = now\<rparr>"

definition identity_json :: "string \<Rightarrow> process_identity \<Rightarrow> (string \<times> json) list" where
  "identity_json provider p =
     [(''provider'', JStr provider), (''process_id'', JNum (pi_process_id p)),
      (''process_group_id'', JNum (pi_process_group_id p)),
      (''owner_uid'', JNum (pi_owner_uid p)),
      (''kernel_executable'', JStr (pi_kernel_executable p)),
      (''start_seconds'', JNum (pi_start_seconds p)),
      (''start_microseconds'', JNum (pi_start_microseconds p)),
      (''target_executable'', JStr (pi_target_executable p))]"

text \<open>Any \<open>IntegrityError\<close> of the insert is reported as a conflict.\<close>

definition record_external_process ::
    "world \<Rightarrow> string \<Rightarrow> string \<Rightarrow> string \<Rightarrow> string \<Rightarrow> process_identity \<Rightarrow> string \<Rightarrow> time
     \<Rightarrow> store \<Rightarrow> store_error + store" where
  "record_external_process W job_id worker token provider_text given fresh now st =
     (let provider = py_lower (py_strip provider_text);
          p = given\<lparr>pi_kernel_executable := py_strip (pi_kernel_executable given),
                    pi_target_executable := py_strip (pi_target_executable given)\<rparr> in
      check (provider \<noteq> [] \<and> length provider \<le> 64) ValueError (
      check (valid_identity p) ValueError (
      bindR (assert_live_lease job_id worker token now st) (\<lambda>job.
      bindR (assert_attempt_focused_test_admission W job st) (\<lambda>_.
      bindR (require (find_attempt (jb_current_attempt_id job) st) LeaseConflict) (\<lambda>attempt.
      check (at_status attempt = AttemptRunning) LeaseConflict (
      case unresolved_process (jb_current_attempt_id job) st of
        Some external \<Rightarrow>
          check (row_identity_matches provider p external \<and> ep_state external = ProcActive)
            LeaseConflict (Inr st)
      | None \<Rightarrow>
          bindR (case insert_process (new_process_row fresh (at_id attempt) job_id provider p now) st of
                   Inl e \<Rightarrow> Inl LeaseConflict | Inr st1 \<Rightarrow> Inr st1) (\<lambda>st1.
          let mine = (\<lambda>a. jb_current_attempt_id job = Some (at_id a) \<and> at_status a = AttemptRunning)
          in
          check (rowcount mine (attempts st1) = 1) LeaseConflict (
          Inr (append_event ''worker.external_process_started'' (Some (jb_campaign_id job))
                 (Some (jb_item_id job)) (Some job_id) (Some worker) (identity_json provider p) now
                 (st1\<lparr>attempts := upd_where mine
                    (\<lambda>a. a\<lparr>at_external_process_id := Some (pi_process_id p),
                          at_external_process_group_id := Some (pi_process_group_id p),
                          at_external_process_executable := Some (pi_kernel_executable p),
                          at_external_process_started_at := Some now\<rparr>) (attempts st1)\<rparr>)))))))))))"

section \<open>Release fences\<close>

definition prepared_execution :: "job_row \<Rightarrow> 'a execution_row_scheme list \<Rightarrow> 'a execution_row_scheme option" where
  "prepared_execution job t =
     find (\<lambda>e. jb_current_attempt_id job = Some (ex_attempt_id e) \<and> ex_job_id e = jb_id job
             \<and> ex_status e = ExPrepared) t"

definition active_process :: "job_row \<Rightarrow> string \<Rightarrow> store \<Rightarrow> process_row option" where
  "active_process job provider st =
     newest_process (filter (\<lambda>p. ep_job_id p = jb_id job \<and> ep_provider p = provider
                              \<and> ep_state p = ProcActive)
       (attempt_processes (jb_current_attempt_id job) st))"

text \<open>
  The body of \<open>focused_test_guardian_release_fence\<close> up to its \<open>yield\<close>: the caller writes the
  guardian's barrier inside the same transaction.
\<close>

definition focused_test_guardian_release_fence ::
    "world \<Rightarrow> string \<Rightarrow> string \<Rightarrow> string \<Rightarrow> process_identity \<Rightarrow> time \<Rightarrow> store \<Rightarrow> store_error + unit" where
  "focused_test_guardian_release_fence W job_id worker token p now st =
     bindR (assert_live_lease job_id worker token now st) (\<lambda>job.
     bindR (assert_attempt_focused_test_admission W job st) (\<lambda>admission.
     check (admission \<noteq> None) LeaseConflict (
     bindR (require (prepared_execution job (focused_executions st)) LeaseConflict) (\<lambda>execution.
     bindR (require (active_process job ''focused_test'' st) LeaseConflict) (\<lambda>external.
     check (row_identity_matches ''focused_test'' p external
            \<and> pi_process_id p = pi_process_group_id p
            \<and> map_option fi_path (fx_sandbox_executable execution) = Some (pi_target_executable p)) LeaseConflict
       (Inr ()))))))"

text \<open>
  \<open>browser_guardian_release_fence\<close> and \<open>authorize_database_query_execution\<close> call
  \<open>_assert_attempt_collector_admission\<close> with four of its five arguments: the call itself
  raises \<open>TypeError\<close>, so nothing after it runs.
\<close>

definition browser_guardian_release_fence ::
    "string \<Rightarrow> string \<Rightarrow> string \<Rightarrow> process_identity \<Rightarrow> time \<Rightarrow> store \<Rightarrow> store_error + unit" where
  "browser_guardian_release_fence job_id worker token p now st =
     bindR (assert_live_lease job_id worker token now st) (\<lambda>job.
     bindR (require (find_attempt (jb_current_attempt_id job) st) LeaseConflict) (\<lambda>attempt.
       Inl TypeError))"

definition authorize_database_query_execution ::
    "string \<Rightarrow> string \<Rightarrow> string \<Rightarrow> string \<Rightarrow> time \<Rightarrow> store \<Rightarrow> store_error + database_execution_row" where
  "authorize_database_query_execution execution_id job_id worker token now st =
     check (opaque_id execution_id) ValueError (
     bindR (require (find (\<lambda>e. ex_id e = execution_id) (database_executions st)) LeaseConflict) (\<lambda>execution.
     check (ex_status execution = ExPrepared) LeaseConflict (
     bindR (assert_live_lease job_id worker token now st) (\<lambda>job.
     bindR (require (find_attempt (jb_current_attempt_id job) st) LeaseConflict) (\<lambda>attempt.
     check (ex_attempt_id execution = at_id attempt) LeaseConflict
       (Inl TypeError))))))"

section \<open>Clearing\<close>

definition clear_external_process ::
    "string \<Rightarrow> string \<Rightarrow> string \<Rightarrow> int \<Rightarrow> int \<Rightarrow> time \<Rightarrow> store \<Rightarrow> store_error + store" where
  "clear_external_process job_id worker token pid pgid now st =
     bindR (assert_live_lease job_id worker token now st) (\<lambda>job.
     let same = (\<lambda>p. jb_current_attempt_id job = Some (ep_attempt_id p)
                   \<and> ep_process_id p = pid \<and> ep_process_group_id p = pgid);
         mine = (\<lambda>p. same p \<and> ep_state p = ProcActive)
     in
     check (rowcount same (processes st) = 1) LeaseConflict (
     check (rowcount mine (processes st) = 1) LeaseConflict (
     Inr (append_event ''worker.external_process_stopped'' (Some (jb_campaign_id job))
            (Some (jb_item_id job)) (Some job_id) (Some worker)
            [(''process_id'', JNum pid), (''process_group_id'', JNum pgid)] now
            (st\<lparr>processes := upd_where mine
               (\<lambda>p. p\<lparr>ep_state := ProcStopped, ep_stopped_at := Some now,
                     ep_outcome := Some ''reaped'', ep_last_error := None,
                     ep_updated_at := now\<rparr>) (processes st)\<rparr>)))))"

end
