(* ===== verification/Operator.thy ===== *)
theory Operator
  imports External
begin

text \<open>
  The operator's controls in \<^verbatim>\<open>storage.py\<close>: requesting the interruption of one exact live
  attempt, the fence a request must still match when it is polled or applied, and
  authorising the next claim to resume one interrupted session.
\<close>

definition byte_exact :: "nat \<Rightarrow> string \<Rightarrow> bool" where
  "byte_exact limit v \<longleftrightarrow> v = py_strip v \<and> v \<noteq> [] \<and> length v \<le> limit"

section \<open>Interrupts\<close>

definition pending_control :: "control_action \<Rightarrow> string \<Rightarrow> control_row \<Rightarrow> bool" where
  "pending_control action job_id c \<longleftrightarrow>
     oc_job_id c = job_id \<and> oc_action c = action \<and> oc_status c = CtlPending"

definition interrupt_fence :: "string \<Rightarrow> time \<Rightarrow> job_row \<Rightarrow> bool" where
  "interrupt_fence token now job \<longleftrightarrow>
     jb_status job = JobRunning \<and> jb_lease_token job = Some token
     \<and> (case jb_lease_expires_at job of None \<Rightarrow> False | Some e \<Rightarrow> now < e)
     \<and> jb_lease_owner job \<notin> {None, Some []} \<and> jb_current_attempt_id job \<notin> {None, Some []}"

definition interrupt_row ::
    "world \<Rightarrow> string \<Rightarrow> job_row \<Rightarrow> attempt_row \<Rightarrow> process_row option \<Rightarrow> string \<Rightarrow> string \<Rightarrow> string
     \<Rightarrow> time \<Rightarrow> control_row" where
  "interrupt_row W fresh job attempt external token requested_by reason now =
     \<lparr>oc_id = fresh, oc_job_id = jb_id job, oc_source_attempt_id = at_id attempt,
      oc_target_attempt_id = None, oc_action = ActInterrupt, oc_status = CtlPending,
      oc_requested_by = requested_by, oc_reason = reason,
      oc_expected_lease_owner = jb_lease_owner job, oc_expected_lease_token = Some token,
      oc_expected_provider = at_external_provider attempt,
      oc_expected_session_id = at_external_session_id attempt,
      oc_expected_process_id = map_option ep_process_id external,
      oc_expected_process_group_id = map_option ep_process_group_id external,
      oc_expected_process_start_seconds = Option.bind external ep_start_seconds,
      oc_expected_process_start_microseconds = Option.bind external ep_start_microseconds,
      oc_expected_process_executable = Option.bind external ep_kernel_executable,
      oc_expected_worktree_id = at_managed_worktree_id attempt,
      oc_expected_worktree_generation = at_managed_worktree_generation attempt,
      oc_expected_resources = jb_required_resources job,
      oc_expected_resources_sha256 = resources_hash W job,
      oc_requested_at = now, oc_applied_at = None, oc_last_error = None\<rparr>"

definition request_job_interrupt ::
    "world \<Rightarrow> string \<Rightarrow> string \<Rightarrow> string \<Rightarrow> string \<Rightarrow> string \<Rightarrow> time \<Rightarrow> store
     \<Rightarrow> store_error + (store \<times> control_row)" where
  "request_job_interrupt W job_id token requested_by reason fresh now st =
     check (operator_text 256 requested_by) ValueError (
     check (operator_text 4096 reason) ValueError (
     check (job_id = py_strip job_id \<and> job_id \<noteq> [] \<and> token = py_strip token \<and> token \<noteq> []) ValueError (
     bindR (require (find_job job_id st) NotFoundError) (\<lambda>job.
     check (interrupt_fence token now job) LeaseConflict (
     case find (pending_control ActInterrupt job_id) (controls st) of
       Some existing \<Rightarrow>
         check (Some (oc_source_attempt_id existing) = jb_current_attempt_id job
                \<and> oc_expected_lease_token existing = Some token
                \<and> oc_requested_by existing = requested_by
                \<and> oc_reason existing = reason) LeaseConflict (Inr (st, existing))
     | None \<Rightarrow>
         bindR (require (find (\<lambda>a. jb_current_attempt_id job = Some (at_id a)
                  \<and> at_status a = AttemptRunning) (attempts st)) LeaseConflict) (\<lambda>attempt.
         let external = unresolved_process (Some (at_id attempt)) st;
             row = interrupt_row W fresh job attempt external token requested_by reason now
         in
         bindR (insert_control row st) (\<lambda>st1.
           Inr (append_event ''operator.interrupt_requested'' (Some (jb_campaign_id job))
                  (Some (jb_item_id job)) (Some job_id) (Some requested_by)
                  [(''request_id'', JStr fresh), (''attempt_id'', JStr (at_id attempt)),
                   (''process_id'', opt_num (map_option ep_process_id external)),
                   (''process_group_id'', opt_num (map_option ep_process_group_id external)),
                   (''reason'', JStr reason)] now st1, row))))))))"

text \<open>The process columns a request expects and the ones a row has.\<close>

definition expected_process ::
    "control_row \<Rightarrow> int option \<times> int option \<times> int option \<times> int option \<times> string option" where
  "expected_process c =
     (oc_expected_process_id c, oc_expected_process_group_id c,
      oc_expected_process_start_seconds c, oc_expected_process_start_microseconds c,
      oc_expected_process_executable c)"

definition observed_process ::
    "process_row option \<Rightarrow> int option \<times> int option \<times> int option \<times> int option \<times> string option" where
  "observed_process external =
     (case external of
        None \<Rightarrow> (None, None, None, None, None)
      | Some p \<Rightarrow> (Some (ep_process_id p), Some (ep_process_group_id p), ep_start_seconds p,
                  ep_start_microseconds p, ep_kernel_executable p))"

text \<open>
  The external process an interrupt is checked against: with \<open>allow_stopped_process\<close>, the
  newest row of the expected process, which must be active or stopped and, when stopped, not
  replaced by another one.
\<close>

definition interrupt_process ::
    "control_row \<Rightarrow> attempt_row \<Rightarrow> bool \<Rightarrow> store \<Rightarrow> store_error + process_row option" where
  "interrupt_process request attempt allow_stopped st =
     (if allow_stopped \<and> oc_expected_process_id request \<noteq> None
      then
        bindR (require (newest_process (filter (\<lambda>p.
                  oc_expected_process_id request = Some (ep_process_id p)
                  \<and> oc_expected_process_group_id request = Some (ep_process_group_id p))
                 (attempt_processes (Some (at_id attempt)) st))) LeaseConflict) (\<lambda>external.
        check (ep_state external \<in> {ProcActive, ProcStopped}) LeaseConflict (
        check (\<not> (ep_state external = ProcStopped
                 \<and> list_ex (\<lambda>p. ep_state p \<noteq> ProcStopped \<and> ep_id p \<noteq> ep_id external)
                     (attempt_processes (Some (at_id attempt)) st))) LeaseConflict
          (Inr (Some external))))
      else Inr (unresolved_process (Some (at_id attempt)) st))"

definition assert_operator_interrupt_request ::
    "world \<Rightarrow> string \<Rightarrow> job_row \<Rightarrow> string \<Rightarrow> string \<Rightarrow> bool \<Rightarrow> store \<Rightarrow> store_error + control_row" where
  "assert_operator_interrupt_request W request_id job worker token allow_stopped st =
     bindR (require (find (\<lambda>c. oc_id c = request_id \<and> oc_action c = ActInterrupt
              \<and> oc_status c = CtlPending) (controls st)) LeaseConflict) (\<lambda>request.
     check (oc_job_id request = jb_id job
            \<and> Some (oc_source_attempt_id request) = jb_current_attempt_id job
            \<and> oc_expected_lease_owner request = Some worker
            \<and> oc_expected_lease_token request = Some token
            \<and> oc_expected_worktree_id request = jb_managed_worktree_id job
            \<and> oc_expected_resources request = jb_required_resources job
            \<and> oc_expected_resources_sha256 request = resources_hash W job) LeaseConflict (
     bindR (require (find (\<lambda>a. jb_current_attempt_id job = Some (at_id a)
              \<and> at_status a = AttemptRunning) (attempts st)) LeaseConflict) (\<lambda>attempt.
     check (at_managed_worktree_id attempt = oc_expected_worktree_id request
            \<and> at_managed_worktree_generation attempt = oc_expected_worktree_generation request
            \<and> at_external_provider attempt = oc_expected_provider request
            \<and> at_external_session_id attempt = oc_expected_session_id request) LeaseConflict (
     bindR (interrupt_process request attempt allow_stopped st) (\<lambda>external.
     check (expected_process request = observed_process external) LeaseConflict
       (Inr request))))))"

definition poll_operator_interrupt ::
    "world \<Rightarrow> string \<Rightarrow> string \<Rightarrow> string \<Rightarrow> time \<Rightarrow> store \<Rightarrow> store_error + control_row option" where
  "poll_operator_interrupt W job_id worker token now st =
     bindR (assert_live_lease job_id worker token now st) (\<lambda>job.
     case find (pending_control ActInterrupt job_id) (controls st) of
       None \<Rightarrow> Inr None
     | Some c \<Rightarrow>
         bindR (assert_operator_interrupt_request W (oc_id c) job worker token True st)
           (\<lambda>request. Inr (Some request)))"

section \<open>Resumes\<close>

definition interrupted_attempt :: "string \<Rightarrow> string \<Rightarrow> store \<Rightarrow> attempt_row option" where
  "interrupted_attempt attempt_id job_id st =
     find (\<lambda>a. at_id a = attempt_id \<and> at_job_id a = job_id \<and> at_status a = AttemptInterrupted)
       (attempts st)"

definition stopped_provider_process :: "string \<Rightarrow> string option \<Rightarrow> store \<Rightarrow> bool" where
  "stopped_provider_process attempt_id provider st \<longleftrightarrow>
     list_ex (\<lambda>p. ep_state p = ProcStopped \<and> provider = Some (ep_provider p))
       (attempt_processes (Some attempt_id) st)"

definition request_job_resume ::
    "world \<Rightarrow> string \<Rightarrow> string \<Rightarrow> string \<Rightarrow> string \<Rightarrow> string \<Rightarrow> string \<Rightarrow> string \<Rightarrow> time
     \<Rightarrow> store \<Rightarrow> store_error + (store \<times> control_row)" where
  "request_job_resume W job_id source provider session requested_by reason fresh now st =
     check (operator_text 256 requested_by) ValueError (
     check (operator_text 4096 reason) ValueError (
     check (byte_exact 512 job_id \<and> byte_exact 512 source \<and> byte_exact 64 provider
            \<and> byte_exact 512 session) ValueError (
     bindR (require (find_job job_id st) LeaseConflict) (\<lambda>job.
     check (jb_status job = JobPending \<and> jb_current_attempt_id job = None) LeaseConflict (
     bindR (require (interrupted_attempt source job_id st) LeaseConflict) (\<lambda>attempt.
     check (at_number attempt = jb_attempt_count job
            \<and> at_external_provider attempt = Some provider
            \<and> at_external_session_id attempt = Some session) LeaseConflict (
     check (unresolved_process (Some source) st = None) LeaseConflict (
     check (stopped_provider_process source (Some provider) st) LeaseConflict (
     let row =
       \<lparr>oc_id = fresh, oc_job_id = job_id, oc_source_attempt_id = source,
        oc_target_attempt_id = None, oc_action = ActResume, oc_status = CtlPending,
        oc_requested_by = requested_by, oc_reason = reason,
        oc_expected_lease_owner = None, oc_expected_lease_token = None,
        oc_expected_provider = Some provider, oc_expected_session_id = Some session,
        oc_expected_process_id = None, oc_expected_process_group_id = None,
        oc_expected_process_start_seconds = None,
        oc_expected_process_start_microseconds = None, oc_expected_process_executable = None,
        oc_expected_worktree_id = at_managed_worktree_id attempt,
        oc_expected_worktree_generation = at_managed_worktree_generation attempt,
        oc_expected_resources = jb_required_resources job,
        oc_expected_resources_sha256 = resources_hash W job,
        oc_requested_at = now, oc_applied_at = None, oc_last_error = None\<rparr>
     in
     bindR (case insert_control row st of Inl e \<Rightarrow> Inl LeaseConflict | Inr st1 \<Rightarrow> Inr st1) (\<lambda>st1.
       Inr (append_event ''operator.resume_requested'' (Some (jb_campaign_id job))
              (Some (jb_item_id job)) (Some job_id) (Some requested_by)
              [(''request_id'', JStr fresh), (''source_attempt_id'', JStr source),
               (''provider'', JStr provider), (''session_id'', JStr session),
               (''reason'', JStr reason)] now st1, row)))))))))))"

definition list_operator_controls :: "string option \<Rightarrow> store \<Rightarrow> control_row list" where
  "list_operator_controls job_id st =
     order_by (\<lambda>c. (oc_requested_at c, oc_id c))
       (filter (\<lambda>c. job_id = None \<or> job_id = Some (oc_job_id c)) (controls st))"

end
