(* ===== verification/Recovery.thy ===== *)
theory Recovery
  imports Operator
begin

text \<open>
  Recovery of expired leases in \<^verbatim>\<open>storage.py\<close>: ending the prepared executions of an attempt,
  putting an expired job back in its queue, releasing orphaned leases, and the fenced
  reconciliation of an expired attempt's external process.
\<close>

section \<open>Prepared executions\<close>

definition execution_status_value :: "execution_status \<Rightarrow> string" where
  "execution_status_value s =
     (case s of ExPrepared \<Rightarrow> ''prepared'' | ExFinished \<Rightarrow> ''finished''
      | ExAbandoned \<Rightarrow> ''abandoned'' | ExQuarantined \<Rightarrow> ''quarantined'')"

definition prepared_for :: "string option \<Rightarrow> 'a execution_row_scheme \<Rightarrow> bool" where
  "prepared_for attempt e \<longleftrightarrow> attempt = Some (ex_attempt_id e) \<and> ex_status e = ExPrepared"

definition end_prepared ::
    "string option \<Rightarrow> execution_status \<Rightarrow> string \<Rightarrow> time
     \<Rightarrow> 'a execution_row_scheme list \<Rightarrow> 'a execution_row_scheme list" where
  "end_prepared attempt status reason now t =
     upd_where (prepared_for attempt)
       (\<lambda>e. e\<lparr>ex_status := status, ex_error := Some reason, ex_finished_at := Some now,
             ex_updated_at := now\<rparr>) t"

definition execution_ended_event ::
    "string \<Rightarrow> job_row \<Rightarrow> execution_status \<Rightarrow> string \<Rightarrow> time \<Rightarrow> string option \<Rightarrow> store \<Rightarrow> store" where
  "execution_ended_event prefix job status reason now actor st =
     append_event (prefix @ ''.execution_'' @ execution_status_value status)
       (Some (jb_campaign_id job)) (Some (jb_item_id job)) (Some (jb_id job)) actor
       [(''attempt_id'', opt_str (jb_current_attempt_id job)), (''reason'', JStr reason)] now st"

definition end_prepared_focused_execution ::
    "job_row \<Rightarrow> execution_status \<Rightarrow> string \<Rightarrow> time \<Rightarrow> string option \<Rightarrow> store \<Rightarrow> store" where
  "end_prepared_focused_execution job status reason now actor st =
     (let attempt = jb_current_attempt_id job;
          changed = rowcount (prepared_for attempt) (focused_executions st);
          st1 = st\<lparr>focused_executions :=
                   end_prepared attempt status reason now (focused_executions st)\<rparr>
      in if changed = 0 then st1
         else execution_ended_event ''focused_test'' job status reason now actor st1)"

definition end_prepared_evidence_executions ::
    "job_row \<Rightarrow> execution_status \<Rightarrow> string \<Rightarrow> time \<Rightarrow> string option \<Rightarrow> store \<Rightarrow> store" where
  "end_prepared_evidence_executions job status reason now actor st =
     (let attempt = jb_current_attempt_id job;
          browser_changed = rowcount (prepared_for attempt) (browser_executions st);
          st1 = st\<lparr>browser_executions :=
                   end_prepared attempt status reason now (browser_executions st)\<rparr>;
          st2 = (if browser_changed = 0 then st1
                 else execution_ended_event ''browser_evidence'' job status reason now actor st1);
          database_changed = rowcount (prepared_for attempt) (database_executions st2);
          st3 = st2\<lparr>database_executions :=
                   end_prepared attempt status reason now (database_executions st2)\<rparr>
      in if database_changed = 0 then st3
         else execution_ended_event ''database_evidence'' job status reason now actor st3)"

definition end_executions ::
    "job_row \<Rightarrow> execution_status \<Rightarrow> string \<Rightarrow> time \<Rightarrow> string option \<Rightarrow> store \<Rightarrow> store" where
  "end_executions job status reason now actor st =
     end_prepared_evidence_executions job status reason now actor
       (end_prepared_focused_execution job status reason now actor st)"

lemma end_executions_tables [simp]:
  "campaigns (end_executions j s r n a st) = campaigns st"
  "items (end_executions j s r n a st) = items st"
  "jobs (end_executions j s r n a st) = jobs st"
  "attempts (end_executions j s r n a st) = attempts st"
  "approvals (end_executions j s r n a st) = approvals st"
  "artifacts (end_executions j s r n a st) = artifacts st"
  "leases (end_executions j s r n a st) = leases st"
  "definitions (end_executions j s r n a st) = definitions st"
  "processes (end_executions j s r n a st) = processes st"
  "controls (end_executions j s r n a st) = controls st"
  "worktrees (end_executions j s r n a st) = worktrees st"
  "focused_plans (end_executions j s r n a st) = focused_plans st"
  "admissions (end_executions j s r n a st) = admissions st"
  by (simp_all add: end_executions_def end_prepared_focused_execution_def
      end_prepared_evidence_executions_def execution_ended_event_def Let_def)

section \<open>Steps shared by every end of an attempt\<close>

text \<open>\<open>UPDATE work_items SET state = ... WHERE id = ? AND state = ?\<close>, with its \<open>rowcount\<close>.\<close>

definition in_state :: "string \<Rightarrow> ItemState \<Rightarrow> item_row \<Rightarrow> bool" where
  "in_state item_id s i \<longleftrightarrow> it_id i = item_id \<and> it_state i = s"

definition move_item ::
    "string \<Rightarrow> ItemState \<Rightarrow> ItemState \<Rightarrow> time \<Rightarrow> store \<Rightarrow> store_error + store" where
  "move_item item_id from to now st =
     check (rowcount (in_state item_id from) (items st) = 1) TransitionConflict (
       Inr (st\<lparr>items := upd_where (in_state item_id from)
          (\<lambda>i. i\<lparr>it_state := to, it_updated_at := now\<rparr>) (items st)\<rparr>))"

definition is_running_attempt :: "string option \<Rightarrow> attempt_row \<Rightarrow> bool" where
  "is_running_attempt attempt a \<longleftrightarrow> attempt = Some (at_id a) \<and> at_status a = AttemptRunning"

definition finish_attempt ::
    "string option \<Rightarrow> AttemptStatus \<Rightarrow> (attempt_row \<Rightarrow> attempt_row) \<Rightarrow> time \<Rightarrow> store \<Rightarrow> store" where
  "finish_attempt attempt status f now st =
     st\<lparr>attempts := upd_where (is_running_attempt attempt)
        (\<lambda>a. (f a)\<lparr>at_status := status, at_finished_at := Some now\<rparr>) (attempts st)\<rparr>"

definition unlease :: "JobStatus \<Rightarrow> time \<Rightarrow> job_row \<Rightarrow> job_row" where
  "unlease status now j =
     j\<lparr>jb_status := status, jb_lease_owner := None, jb_lease_token := None,
       jb_lease_expires_at := None, jb_heartbeat_at := None, jb_current_attempt_id := None,
       jb_updated_at := now\<rparr>"

definition job_leases :: "string \<Rightarrow> store \<Rightarrow> lease_row list" where
  "job_leases job_id st = filter (\<lambda>l. ls_job_id l = Some job_id) (leases st)"

definition fenced_lease :: "job_row \<Rightarrow> lease_row \<Rightarrow> bool" where
  "fenced_lease job l \<longleftrightarrow> ls_job_id l = Some (jb_id job)
     \<and> jb_lease_owner job = Some (ls_owner l) \<and> jb_lease_token job = Some (ls_token l)"

section \<open>Expiry of one job\<close>

definition reject_pending_interrupt :: "job_row \<Rightarrow> string \<Rightarrow> time \<Rightarrow> store \<Rightarrow> store_error + store" where
  "reject_pending_interrupt job error now st =
     (case find (pending_control ActInterrupt (jb_id job)) (controls st) of
        None \<Rightarrow> Inr st
      | Some c \<Rightarrow>
          let reason = error @ '' before the operator interrupt was applied'';
              this = (\<lambda>r. oc_id r = oc_id c \<and> oc_status r = CtlPending)
          in
          check (rowcount this (controls st) = 1) LeaseConflict (
          Inr (append_event ''operator.interrupt_rejected'' (Some (jb_campaign_id job))
                 (Some (jb_item_id job)) (Some (jb_id job)) (Some (oc_requested_by c))
                 [(''request_id'', JStr (oc_id c)),
                  (''attempt_id'', opt_str (jb_current_attempt_id job)),
                  (''reason'', JStr reason)] now
                 (st\<lparr>controls := upd_where this
                    (\<lambda>r. r\<lparr>oc_status := CtlRejected, oc_last_error := Some reason\<rparr>)
                    (controls st)\<rparr>))))"

definition expire_job_after_lease ::
    "world \<Rightarrow> job_row \<Rightarrow> string \<Rightarrow> (string \<times> json) list \<Rightarrow> time \<Rightarrow> store \<Rightarrow> store_error + store" where
  "expire_job_after_lease W job error event_data now st =
     bindR (reject_pending_interrupt job error now st) (\<lambda>st1.
     check (set (map ls_key (job_leases (jb_id job) st1)) = set (jb_required_resources job)
            \<and> list_all (fenced_lease job) (job_leases (jb_id job) st1)) LeaseConflict (
     let registered = registered_job_resource_leases (jb_id job) st1 in
     bindR (move_item (jb_item_id job) (jb_active_state job) (jb_queued_state job) now st1) (\<lambda>st2.
     let st3 = end_executions job ExAbandoned error now None st2 in
     check (rowcount (is_running_attempt (jb_current_attempt_id job)) (attempts st3) = 1)
       LeaseConflict (
     let st4 = finish_attempt (jb_current_attempt_id job) AttemptExpired
                 (\<lambda>a. a\<lparr>at_error := Some error\<rparr>) now st3;
         this = (\<lambda>j. jb_id j = jb_id job \<and> jb_status j = JobRunning
                   \<and> jb_current_attempt_id j \<noteq> None
                   \<and> jb_current_attempt_id j = jb_current_attempt_id job)
     in
     check (rowcount this (jobs st4) = 1) LeaseConflict (
     let st5 = st4\<lparr>jobs := upd_where this
                 (\<lambda>j. (unlease JobPending now j)\<lparr>jb_available_at := now, jb_last_error := Some error\<rparr>)
                 (jobs st4)\<rparr>
     in
     check (rowcount (fenced_lease job) (leases st5) = length (remdups (jb_required_resources job)))
       LeaseConflict (
     let st6 = st5\<lparr>leases := del_where (fenced_lease job) (leases st5)\<rparr>;
         st7 = append_resource_lease_events W ''resource.recovered'' registered
                 (jb_campaign_id job) (jb_item_id job) (jb_id job) (jb_lease_owner job) now st6
     in
     Inr (append_event ''job.lease_expired'' (Some (jb_campaign_id job)) (Some (jb_item_id job))
            (Some (jb_id job)) None
            (dict_of ([(''from_state'', JStr (item_state_value (jb_active_state job))),
                       (''to_state'', JStr (item_state_value (jb_queued_state job))),
                       (''attempt_id'', opt_str (jb_current_attempt_id job))] @ event_data))
            now st7)))))))"

section \<open>All expired leases\<close>

definition lease_expired :: "time \<Rightarrow> job_row \<Rightarrow> bool" where
  "lease_expired now j \<longleftrightarrow> jb_status j = JobRunning
     \<and> (case jb_lease_expires_at j of None \<Rightarrow> False | Some e \<Rightarrow> e \<le> now)"

definition has_unresolved_process :: "string option \<Rightarrow> store \<Rightarrow> process_row option" where
  "has_unresolved_process attempt st =
     find (\<lambda>p. ep_state p \<noteq> ProcStopped) (attempt_processes attempt st)"

record recovery =
  rc_job_ids :: "string list"
  rc_resources :: nat
  rc_pending :: "(string \<times> process_row) list"

fun recover_jobs ::
    "world \<Rightarrow> time \<Rightarrow> job_row list \<Rightarrow> store \<times> string list \<times> (string \<times> process_row) list
     \<Rightarrow> store_error + (store \<times> string list \<times> (string \<times> process_row) list)" where
  "recover_jobs W now [] acc = Inr acc"
| "recover_jobs W now (job # js) (st, ids, pending) =
     (case has_unresolved_process (jb_current_attempt_id job) st of
        Some p \<Rightarrow> recover_jobs W now js (st, ids, pending @ [(jb_id job, p)])
      | None \<Rightarrow>
          bindR (expire_job_after_lease W job ''lease expired'' [] now st) (\<lambda>st1.
            recover_jobs W now js (st1, ids @ [jb_id job], pending)))"

definition orphaned_lease :: "time \<Rightarrow> store \<Rightarrow> lease_row \<Rightarrow> bool" where
  "orphaned_lease now st l \<longleftrightarrow> ls_expires_at l \<le> now
     \<and> (case Option.bind (ls_job_id l) (\<lambda>i. find_job i st) of
          None \<Rightarrow> True | Some j \<Rightarrow> jb_status j \<noteq> JobRunning)"

definition release_orphan :: "world \<Rightarrow> time \<Rightarrow> lease_row \<Rightarrow> store \<Rightarrow> store" where
  "release_orphan W now l st =
     (let st1 = st\<lparr>leases := del_where (\<lambda>r. ls_key r = ls_key l \<and> ls_slot r = ls_slot l) (leases st)\<rparr>
      in case ls_definition_id l of
           None \<Rightarrow> append_event ''resource.lease_expired'' None None (ls_job_id l) (Some (ls_owner l))
                     [(''resource_key'', JStr (ls_key l))] now st1
         | Some _ \<Rightarrow>
             (case Option.bind (ls_job_id l) (\<lambda>i. find_job i st) of
                None \<Rightarrow> append_resource_lease_events W ''resource.recovered'' [l] ''None'' ''None''
                          (case ls_job_id l of None \<Rightarrow> ''None'' | Some i \<Rightarrow> i) (Some (ls_owner l)) now st1
              | Some j \<Rightarrow> append_resource_lease_events W ''resource.recovered'' [l] (jb_campaign_id j)
                          (jb_item_id j) (jb_id j) (Some (ls_owner l)) now st1))"

fun release_orphans :: "world \<Rightarrow> time \<Rightarrow> lease_row list \<Rightarrow> store \<Rightarrow> store" where
  "release_orphans W now [] st = st"
| "release_orphans W now (l # ls) st = release_orphans W now ls (release_orphan W now l st)"

definition recover_expired :: "world \<Rightarrow> time \<Rightarrow> store \<Rightarrow> store_error + (store \<times> recovery)" where
  "recover_expired W now st =
     bindR (recover_jobs W now (order_by jb_id (filter (lease_expired now) (jobs st))) (st, [], []))
       (\<lambda>(st1, ids, pending).
     let orphans = filter (orphaned_lease now st1) (leases st1)
     in Inr (release_orphans W now orphans st1,
             \<lparr>rc_job_ids = ids, rc_resources = length orphans, rc_pending = pending\<rparr>))"

section \<open>Reconciliation of an external process\<close>

definition reconciliation_free :: "time \<Rightarrow> process_row \<Rightarrow> bool" where
  "reconciliation_free now p \<longleftrightarrow> ep_reconciliation_token p = None
     \<or> (case ep_reconciliation_expires_at p of None \<Rightarrow> False | Some e \<Rightarrow> e \<le> now)"

definition reconcilable :: "bool \<Rightarrow> string list \<Rightarrow> time \<Rightarrow> store \<Rightarrow> process_row \<Rightarrow> bool" where
  "reconcilable include_quarantined excluded now st p \<longleftrightarrow>
     (ep_state p \<in> {ProcActive, ProcLegacyUnverifiable}
      \<or> (include_quarantined \<and> ep_state p = ProcQuarantined))
     \<and> ep_attempt_id p \<notin> set excluded
     \<and> (case find_job (ep_job_id p) st of
          None \<Rightarrow> False
        | Some j \<Rightarrow> jb_status j = JobRunning \<and> jb_current_attempt_id j = Some (ep_attempt_id p)
                   \<and> lease_expired now j)
     \<and> reconciliation_free now p"

definition claim_external_process_reconciliation ::
    "string \<Rightarrow> int \<Rightarrow> bool \<Rightarrow> string list \<Rightarrow> string \<Rightarrow> time \<Rightarrow> store
     \<Rightarrow> store_error + (store \<times> process_row option)" where
  "claim_external_process_reconciliation owner_text lease_seconds include_quarantined excluded
     token now st =
     (let owner = py_strip owner_text in
      check (owner \<noteq> [] \<and> length owner \<le> 256) ValueError (
      check (0 < lease_seconds) ValueError (
      case earliest_by (\<lambda>p. (ep_recorded_at p, ep_id p))
             (filter (reconcilable include_quarantined excluded now st) (processes st)) of
        None \<Rightarrow> Inr (st, None)
      | Some candidate \<Rightarrow>
          let this = (\<lambda>p. ep_id p = ep_id candidate \<and> ep_state p = ep_state candidate
                        \<and> reconciliation_free now p);
              take = (\<lambda>p. p\<lparr>ep_reconciliation_owner := Some owner,
                           ep_reconciliation_token := Some token,
                           ep_reconciliation_expires_at := Some (now + lease_seconds),
                           ep_updated_at := now\<rparr>);
              j = find_job (ep_job_id candidate) st
          in
          check (rowcount this (processes st) = 1) LeaseConflict (
          Inr (append_event ''worker.external_process_reconciliation_claimed''
                 (map_option jb_campaign_id j) (map_option jb_item_id j)
                 (Some (ep_job_id candidate)) (Some owner)
                 [(''attempt_id'', JStr (ep_attempt_id candidate)),
                  (''process_id'', JNum (ep_process_id candidate)),
                  (''process_group_id'', JNum (ep_process_group_id candidate)),
                  (''expires_at'', JNum (now + lease_seconds))] now
                 (st\<lparr>processes := upd_where this take (processes st)\<rparr>),
               Some (take candidate))))))"

type_synonym recorded_identity =
  "int \<times> int \<times> int option \<times> string option \<times> int option \<times> int option \<times> string option
   \<times> identity_version"

definition recorded_identity :: "process_row \<Rightarrow> recorded_identity" where
  "recorded_identity p =
     (ep_process_id p, ep_process_group_id p, ep_owner_uid p, ep_kernel_executable p,
      ep_start_seconds p, ep_start_microseconds p, ep_target_executable p,
      ep_identity_version p)"

text \<open>The identity columns without which no process may be released automatically.\<close>

definition verifiable :: "process_row \<Rightarrow> bool" where
  "verifiable p \<longleftrightarrow>
     ep_identity_version p = DarwinLibprocV1 \<and> ep_owner_uid p \<noteq> None
     \<and> ep_start_seconds p \<noteq> None \<and> ep_start_microseconds p \<noteq> None
     \<and> ep_kernel_executable p \<notin> {None, Some []} \<and> ep_target_executable p \<notin> {None, Some []}"

definition fenced_process :: "string \<Rightarrow> string \<Rightarrow> string \<Rightarrow> store \<Rightarrow> process_row option" where
  "fenced_process attempt_id owner token st =
     newest_process (filter (\<lambda>p. ep_reconciliation_owner p = Some owner
                              \<and> ep_reconciliation_token p = Some token)
       (attempt_processes (Some attempt_id) st))"

definition release_fence_fields :: "process_row \<Rightarrow> process_row" where
  "release_fence_fields p =
     p\<lparr>ep_reconciliation_owner := None, ep_reconciliation_token := None,
       ep_reconciliation_expires_at := None\<rparr>"

definition reconciliation_data ::
    "process_row \<Rightarrow> string \<Rightarrow> string \<Rightarrow> (string \<times> json) list \<Rightarrow> (string \<times> json) list" where
  "reconciliation_data p status reason observed =
     [(''attempt_id'', JStr (ep_attempt_id p)), (''process_id'', JNum (ep_process_id p)),
      (''process_group_id'', JNum (ep_process_group_id p)), (''status'', JStr status),
      (''reason'', JStr reason), (''observed'', JObj observed)]"

text \<open>
  The table's \<open>CHECK((state = 'stopped' AND stopped_at IS NOT NULL) OR (state != 'stopped' AND
  stopped_at IS NULL))\<close> rejects the update that would quarantine a stopped row.
\<close>

definition complete_external_process_reconciliation ::
    "world \<Rightarrow> string \<Rightarrow> string \<Rightarrow> string \<Rightarrow> recorded_identity \<Rightarrow> string \<Rightarrow> string
     \<Rightarrow> (string \<times> json) list \<Rightarrow> time \<Rightarrow> store \<Rightarrow> store_error + (store \<times> bool)" where
  "complete_external_process_reconciliation W attempt_id owner token expected status_text
     reason_text observed now st =
     (let status = py_lower (py_strip status_text); reason = py_strip reason_text in
      check (status \<in> {''gone'', ''terminated'', ''quarantined''}) ValueError (
      check (reason \<noteq> [] \<and> length reason \<le> 4096) ValueError (
      bindR (case fenced_process attempt_id owner token st of
               Some p \<Rightarrow> Inr p
             | None \<Rightarrow> Inl (if attempt_processes (Some attempt_id) st = [] then NotFoundError
                           else LeaseConflict)) (\<lambda>external.
      bindR (require (find_job (ep_job_id external) st) NotFoundError) (\<lambda>job.
      check (case ep_reconciliation_expires_at external of None \<Rightarrow> False | Some e \<Rightarrow> now < e)
        LeaseConflict (
      check (lease_expired now job \<and> jb_current_attempt_id job = Some attempt_id) LeaseConflict (
      check (expected = recorded_identity external) LeaseConflict (
      check (status = ''quarantined'' \<or> verifiable external) LeaseConflict (
      let data = reconciliation_data external status reason observed;
          event = (\<lambda>kind. append_event kind (Some (jb_campaign_id job)) (Some (jb_item_id job))
                     (Some (jb_id job)) (Some owner) data now)
      in
      if status = ''quarantined'' then
        let st1 = end_executions job ExQuarantined reason now (Some owner) st
        in check (ep_state external \<noteq> ProcStopped) IntegrityError (
           Inr (event ''worker.external_process_reconciliation_blocked''
                  (st1\<lparr>processes := upd_where (\<lambda>p. ep_id p = ep_id external)
                     (\<lambda>p. (release_fence_fields p)\<lparr>ep_state := ProcQuarantined,
                           ep_outcome := Some ''quarantined'', ep_last_error := Some reason,
                           ep_updated_at := now\<rparr>) (processes st1)\<rparr>), False))
      else
        let this = (\<lambda>p. ep_id p = ep_id external \<and> ep_state p \<noteq> ProcStopped) in
        check (rowcount this (processes st) = 1) LeaseConflict (
        bindR (expire_job_after_lease W job
                 ''lease expired after external process reconciliation''
                 [(''external_process_status'', JStr status)] now
                 (event ''worker.external_process_reconciled''
                   (st\<lparr>processes := upd_where this
                      (\<lambda>p. (release_fence_fields p)\<lparr>ep_state := ProcStopped,
                            ep_stopped_at := Some now, ep_outcome := Some status,
                            ep_last_error := None, ep_updated_at := now\<rparr>)
                      (processes st)\<rparr>))) (\<lambda>st2.
          Inr (st2, True))))))))))))"

definition list_external_processes :: "process_state option \<Rightarrow> store \<Rightarrow> process_row list" where
  "list_external_processes state st =
     order_by (\<lambda>p. (ep_recorded_at p, ep_id p))
       (filter (\<lambda>p. state = None \<or> state = Some (ep_state p)) (processes st))"

end
