(* ===== verification/Claim.thy ===== *)
theory Claim
  imports Recovery
begin

text \<open>
  Claiming a job in \<^verbatim>\<open>storage.py\<close>: the candidates in their order, the conditions a candidate
  must meet (admission, workspace, approval, concurrency limits, resource slots), the
  transition that leases the first one that meets them, the resume authorisation it
  consumes, and the heartbeat that extends the lease.
\<close>

section \<open>Candidates\<close>

definition claimable :: "WorkerRole \<Rightarrow> time \<Rightarrow> store \<Rightarrow> job_row \<Rightarrow> bool" where
  "claimable role now st j \<longleftrightarrow>
     jb_status j = JobPending \<and> jb_role j = role \<and> jb_available_at j \<le> now
     \<and> (case find_campaign (jb_campaign_id j) st of
          None \<Rightarrow> False | Some c \<Rightarrow> cp_status c = CampaignActive)
     \<and> (case find_item (jb_item_id j) st of
          None \<Rightarrow> False | Some i \<Rightarrow> it_state i = jb_queued_state j)"

definition candidates :: "WorkerRole \<Rightarrow> time \<Rightarrow> store \<Rightarrow> job_row list" where
  "candidates role now st =
     order_by (\<lambda>j. (- jb_priority j, jb_created_at j, jb_id j)) (filter (claimable role now st) (jobs st))"

section \<open>Conditions\<close>

definition active_admission :: "job_row \<Rightarrow> store \<Rightarrow> admission_row option" where
  "active_admission job st =
     latest_by (\<lambda>a. (fa_admitted_at a, fa_id a))
       (filter (\<lambda>a. fa_tester_job_id a = jb_id job \<and> fa_active a) (admissions st))"

text \<open>\<open>None\<close>: the candidate is skipped.  Outside admission mode no admission is pinned.\<close>

definition claim_admission ::
    "world \<Rightarrow> campaign_row \<Rightarrow> job_row \<Rightarrow> store \<Rightarrow> admission_row option option" where
  "claim_admission W campaign job st =
     (if cp_execution_mode campaign \<noteq> FocusedTestAdmissionMode then Some None
      else if jb_role job \<noteq> Tester then None
      else case active_admission job st of
        None \<Rightarrow> None
      | Some a \<Rightarrow> (case assert_live_focused_test_admission W a job st of
                    Inl _ \<Rightarrow> None | Inr _ \<Rightarrow> Some (Some a)))"

definition claim_workspace :: "campaign_row \<Rightarrow> job_row \<Rightarrow> store \<Rightarrow> worktree_row option option" where
  "claim_workspace campaign job st =
     (case jb_workspace_kind job of
        Simulated \<Rightarrow>
          if is_true (jget ''allow_simulated_evidence'' (cp_config campaign)) then Some None else None
      | ManagedWorktree \<Rightarrow>
          (case jb_managed_worktree_id job of
             None \<Rightarrow> None
           | Some w \<Rightarrow>
               (case bound_worktree job st of
                  None \<Rightarrow> None
                | Some row \<Rightarrow>
                    if worktree_resource_prefix @ w \<in> set (jb_required_resources job)
                    then Some (Some row) else None))
      | SourceReadOnly \<Rightarrow> if jb_role job = Fixer then None else Some None)"

definition claim_approvals :: "job_row \<Rightarrow> string \<Rightarrow> store \<Rightarrow> approval_row list" where
  "claim_approvals job action st =
     order_by (\<lambda>a. (ap_requested_at a, ap_id a))
       (filter (\<lambda>a. ap_campaign_id a = jb_campaign_id job \<and> ap_action a = action
                 \<and> ap_status a = ApprovalApproved
                 \<and> (ap_item_id a = None \<or> ap_item_id a = Some (jb_item_id job))) (approvals st))"

definition claim_approved ::
    "world \<Rightarrow> campaign_row \<Rightarrow> job_row \<Rightarrow> worktree_row option \<Rightarrow> store \<Rightarrow> store_error + bool" where
  "claim_approved W campaign job worktree st =
     (case jb_required_approval_action job of
        None \<Rightarrow> Inr True
      | Some action \<Rightarrow>
          any_of (\<lambda>a. case worktree of
              Some w \<Rightarrow> approval_covers_repository W (cp_config campaign) (wt_repository_path w)
                         (ap_scope a)
            | None \<Rightarrow> approval_covers_job W (cp_config campaign) (jb_payload job) (ap_scope a))
            (claim_approvals job action st))"

definition running_in :: "string \<Rightarrow> job_row \<Rightarrow> bool" where
  "running_in campaign_id j \<longleftrightarrow> jb_campaign_id j = campaign_id \<and> jb_status j = JobRunning"

definition role_limit :: "campaign_row \<Rightarrow> WorkerRole \<Rightarrow> int" where
  "role_limit campaign role =
     (case map_of (cp_role_limits campaign) (worker_role_value role) of
        None \<Rightarrow> cp_global_limit campaign | Some l \<Rightarrow> l)"

definition within_limits :: "campaign_row \<Rightarrow> WorkerRole \<Rightarrow> store \<Rightarrow> bool" where
  "within_limits campaign role st \<longleftrightarrow>
     int (rowcount (running_in (cp_id campaign)) (jobs st)) < cp_global_limit campaign
     \<and> int (rowcount (\<lambda>j. running_in (cp_id campaign) j \<and> jb_role j = role) (jobs st))
       < role_limit campaign role"

record claim_grant =
  cg_admission :: "admission_row option"
  cg_worktree :: "worktree_row option"
  cg_plan :: "claim_entry list"

definition claim_conditions ::
    "world \<Rightarrow> job_row \<Rightarrow> store \<Rightarrow> store_error + claim_grant option" where
  "claim_conditions W job st =
     (case find_campaign (jb_campaign_id job) st of
        None \<Rightarrow> Inr None
      | Some campaign \<Rightarrow>
          (case claim_admission W campaign job st of
             None \<Rightarrow> Inr None
           | Some admission \<Rightarrow>
               (case claim_workspace campaign job st of
                  None \<Rightarrow> Inr None
                | Some worktree \<Rightarrow>
                    bindR (claim_approved W campaign job worktree st) (\<lambda>approved.
                    if \<not> approved \<or> \<not> within_limits campaign (jb_role job) st then Inr None
                    else case resource_claim_plan W job (jb_required_resources job) st of
                      None \<Rightarrow> Inr None
                    | Some plan \<Rightarrow>
                        Inr (Some \<lparr>cg_admission = admission, cg_worktree = worktree,
                                   cg_plan = plan\<rparr>)))))"

section \<open>Taking the claim\<close>

definition claimed_attempt ::
    "job_row \<Rightarrow> claim_grant \<Rightarrow> string \<Rightarrow> string \<Rightarrow> string \<Rightarrow> time \<Rightarrow> time \<Rightarrow> attempt_row" where
  "claimed_attempt job grant worker token attempt_id expires now =
     \<lparr>at_id = attempt_id, at_job_id = jb_id job, at_number = jb_attempt_count job + 1,
      at_worker_id = worker, at_lease_token = token, at_status = AttemptRunning,
      at_result = None, at_error = None, at_started_at = now, at_heartbeat_at = now,
      at_lease_expires_at = expires, at_finished_at = None, at_external_provider = None,
      at_external_session_id = None, at_external_process_id = None,
      at_external_process_group_id = None, at_external_process_executable = None,
      at_external_process_started_at = None,
      at_managed_worktree_id = jb_managed_worktree_id job,
      at_managed_worktree_generation = map_option wt_generation (cg_worktree grant),
      at_admission_id = map_option fa_id (cg_admission grant)\<rparr>"

definition claimed_lease ::
    "job_row \<Rightarrow> string \<Rightarrow> string \<Rightarrow> time \<Rightarrow> time \<Rightarrow> claim_entry \<Rightarrow> lease_row" where
  "claimed_lease job worker token expires now e =
     \<lparr>ls_key = ce_key e, ls_slot = ce_slot e,
      ls_definition_id = map_option rd_id (ce_definition e), ls_owner = worker,
      ls_job_id = Some (jb_id job), ls_token = token, ls_acquired_at = now,
      ls_heartbeat_at = now, ls_expires_at = expires,
      ls_identity_hash = map_option rd_identity_hash (ce_definition e)\<rparr>"

definition leased_job ::
    "string \<Rightarrow> string \<Rightarrow> string \<Rightarrow> time \<Rightarrow> time \<Rightarrow> int \<Rightarrow> job_row \<Rightarrow> job_row" where
  "leased_job worker token attempt_id expires now number j =
     j\<lparr>jb_status := JobRunning, jb_lease_owner := Some worker, jb_lease_token := Some token,
       jb_lease_expires_at := Some expires, jb_heartbeat_at := Some now,
       jb_current_attempt_id := Some attempt_id, jb_attempt_count := number,
       jb_updated_at := now\<rparr>"

record claim_result =
  cr_job_id :: string
  cr_attempt_id :: string
  cr_attempt_number :: int
  cr_lease_token :: string
  cr_resume :: "(string option \<times> string option) option"

definition pending_resume :: "string \<Rightarrow> store \<Rightarrow> control_row option" where
  "pending_resume job_id st =
     earliest_by (\<lambda>c. (oc_requested_at c, oc_id c))
       (filter (pending_control ActResume job_id) (controls st))"

definition resume_matches :: "world \<Rightarrow> job_row \<Rightarrow> control_row \<Rightarrow> attempt_row \<Rightarrow> store \<Rightarrow> bool" where
  "resume_matches W job c source st \<longleftrightarrow>
     at_number source = jb_attempt_count job
     \<and> session_of source = (oc_expected_provider c, oc_expected_session_id c)
     \<and> at_managed_worktree_id source = oc_expected_worktree_id c
     \<and> at_managed_worktree_generation source = oc_expected_worktree_generation c
     \<and> oc_expected_resources c = jb_required_resources job
     \<and> oc_expected_resources_sha256 c = resources_hash W job
     \<and> unresolved_process (Some (oc_source_attempt_id c)) st = None
     \<and> stopped_provider_process (oc_source_attempt_id c) (oc_expected_provider c) st"

definition consume_resume ::
    "world \<Rightarrow> job_row \<Rightarrow> string \<Rightarrow> time \<Rightarrow> store
     \<Rightarrow> store_error + (store \<times> (string option \<times> string option) option)" where
  "consume_resume W job attempt_id now st =
     (case pending_resume (jb_id job) st of
        None \<Rightarrow> Inr (st, None)
      | Some c \<Rightarrow>
          bindR (require (interrupted_attempt (oc_source_attempt_id c) (jb_id job) st)
                   LeaseConflict) (\<lambda>source.
          check (resume_matches W job c source st) LeaseConflict (
          let this = (\<lambda>r. oc_id r = oc_id c \<and> oc_status r = CtlPending) in
          check (rowcount this (controls st) = 1) LeaseConflict (
          Inr (append_event ''operator.resume_applied'' (Some (jb_campaign_id job))
                 (Some (jb_item_id job)) (Some (jb_id job)) (Some (oc_requested_by c))
                 [(''request_id'', JStr (oc_id c)), (''source_attempt_id'', JStr (at_id source)),
                  (''target_attempt_id'', JStr attempt_id),
                  (''provider'', opt_str (oc_expected_provider c)),
                  (''session_id'', opt_str (oc_expected_session_id c))] now
                 (st\<lparr>controls := upd_where this
                    (\<lambda>r. r\<lparr>oc_status := CtlApplied, oc_target_attempt_id := Some attempt_id,
                          oc_applied_at := Some now\<rparr>) (controls st)\<rparr>),
               Some (oc_expected_provider c, oc_expected_session_id c))))))"

definition claim_events ::
    "world \<Rightarrow> job_row \<Rightarrow> claim_grant \<Rightarrow> string \<Rightarrow> string \<Rightarrow> string \<Rightarrow> time \<Rightarrow> store \<Rightarrow> store" where
  "claim_events W job grant worker attempt_id token now st =
     (let st1 = append_event ''job.claimed'' (Some (jb_campaign_id job)) (Some (jb_item_id job))
                  (Some (jb_id job)) (Some worker)
                  [(''attempt_id'', JStr attempt_id),
                   (''attempt_number'', JNum (jb_attempt_count job + 1)),
                   (''lease_token'', JStr token),
                   (''resources'', str_list (jb_required_resources job)),
                   (''focused_test_admission_id'', opt_str (map_option fa_id (cg_admission grant))),
                   (''from_state'', JStr (item_state_value (jb_queued_state job))),
                   (''to_state'', JStr (item_state_value (jb_active_state job)))] now st
      in append_resource_lease_events W ''resource.claimed''
           (registered_job_resource_leases (jb_id job) st1) (jb_campaign_id job)
           (jb_item_id job) (jb_id job) (Some worker) now st1)"

lemma claim_events_tables [simp]:
  "campaigns (claim_events W j g w a k n st) = campaigns st"
  "items (claim_events W j g w a k n st) = items st"
  "jobs (claim_events W j g w a k n st) = jobs st"
  "attempts (claim_events W j g w a k n st) = attempts st"
  "leases (claim_events W j g w a k n st) = leases st"
  "definitions (claim_events W j g w a k n st) = definitions st"
  "processes (claim_events W j g w a k n st) = processes st"
  "controls (claim_events W j g w a k n st) = controls st"
  by (simp_all add: claim_events_def Let_def)

definition take_claim ::
    "world \<Rightarrow> job_row \<Rightarrow> claim_grant \<Rightarrow> string \<Rightarrow> string \<Rightarrow> string \<Rightarrow> int \<Rightarrow> time \<Rightarrow> store
     \<Rightarrow> store_error + (store \<times> claim_result)" where
  "take_claim W job grant worker attempt_id token lease_seconds now st =
     (let number = jb_attempt_count job + 1; expires = now + lease_seconds;
          this = (\<lambda>j. jb_id j = jb_id job \<and> jb_status j = JobPending) in
      check (rowcount this (jobs st) = 1) TransitionConflict (
      bindR (insert_attempt (claimed_attempt job grant worker token attempt_id expires now)
               (st\<lparr>jobs := upd_where this (leased_job worker token attempt_id expires now number)
                     (jobs st)\<rparr>)) (\<lambda>st1.
      bindR (foldR insert_lease (map (claimed_lease job worker token expires now) (cg_plan grant)) st1)
        (\<lambda>st2.
      bindR (consume_resume W job attempt_id now
               (claim_events W job grant worker attempt_id token now st2)) (\<lambda>(st3, resume).
        Inr (st3, \<lparr>cr_job_id = jb_id job, cr_attempt_id = attempt_id, cr_attempt_number = number,
                   cr_lease_token = token, cr_resume = resume\<rparr>))))))"

fun claim_first ::
    "world \<Rightarrow> job_row list \<Rightarrow> string \<Rightarrow> string \<Rightarrow> string \<Rightarrow> int \<Rightarrow> time \<Rightarrow> store
     \<Rightarrow> store_error + (store \<times> claim_result option)" where
  "claim_first W [] worker attempt_id token lease_seconds now st = Inr (st, None)"
| "claim_first W (job # js) worker attempt_id token lease_seconds now st =
     bindR (claim_conditions W job st) (\<lambda>granted.
     case granted of
       None \<Rightarrow> claim_first W js worker attempt_id token lease_seconds now st
     | Some grant \<Rightarrow>
         (case move_item (jb_item_id job) (jb_queued_state job) (jb_active_state job) now st of
            Inl _ \<Rightarrow> claim_first W js worker attempt_id token lease_seconds now st
          | Inr st1 \<Rightarrow>
              bindR (take_claim W job grant worker attempt_id token lease_seconds now st1)
                (\<lambda>(st2, r). Inr (st2, Some r))))"

text \<open>
  \<open>claim_job\<close>: recovery first, then the first candidate that meets every condition.  A role
  that names no worker matches no row.
\<close>

definition claim_job ::
    "world \<Rightarrow> string \<Rightarrow> string \<Rightarrow> int \<Rightarrow> string \<Rightarrow> string \<Rightarrow> time \<Rightarrow> store
     \<Rightarrow> store_error + (store \<times> claim_result option)" where
  "claim_job W role worker lease_seconds attempt_id token now st =
     check (0 < lease_seconds) ValueError (
     bindR (recover_expired W now st) (\<lambda>(st1, _).
     claim_first W
       (case worker_role_of (py_lower role) of None \<Rightarrow> [] | Some r \<Rightarrow> candidates r now st1)
       worker attempt_id token lease_seconds now st1))"

section \<open>Heartbeats\<close>

definition heartbeat_job ::
    "world \<Rightarrow> string \<Rightarrow> string \<Rightarrow> string \<Rightarrow> int \<Rightarrow> time \<Rightarrow> store \<Rightarrow> store_error + store" where
  "heartbeat_job W job_id worker token lease_seconds now st =
     check (0 < lease_seconds) ValueError (
     let expires = now + lease_seconds in
     bindR (assert_live_lease job_id worker token now st) (\<lambda>job.
     bindR (assert_attempt_focused_test_admission W job st) (\<lambda>_.
     bindR (assert_registered_resource_fences W job now st) (\<lambda>_.
     let mine = (\<lambda>l. ls_job_id l = Some job_id \<and> ls_owner l = worker \<and> ls_token l = token) in
     check (rowcount mine (leases st) = length (jb_required_resources job)) LeaseConflict (
     Inr (st\<lparr>jobs := upd_where (\<lambda>j. jb_id j = job_id)
                (\<lambda>j. j\<lparr>jb_heartbeat_at := Some now, jb_lease_expires_at := Some expires,
                      jb_updated_at := now\<rparr>) (jobs st),
             attempts := upd_where (is_running_attempt (jb_current_attempt_id job))
                (\<lambda>a. a\<lparr>at_heartbeat_at := now, at_lease_expires_at := expires\<rparr>) (attempts st),
             leases := upd_where mine
                (\<lambda>l. l\<lparr>ls_heartbeat_at := now, ls_expires_at := expires\<rparr>) (leases st)\<rparr>))))))"

end
