(* ===== verification/Gates.thy ===== *)
theory Gates
  imports Models
begin

text \<open>
  What the handoff validators guarantee and what the gate evaluation decides: the decision
  table of \<open>evaluate_test_handoff\<close>, that it never raises on a validated handoff, that its
  verdicts carry evidence, and that validating a validated handoff changes nothing (the
  store re-validates what the scheduler has already validated).
\<close>

section \<open>Validation\<close>

text \<open>
  \<open>_HANDOFF_MODEL_BY_ROLE[role].model_validate\<close>: the handoff of another role has other
  fields, which \<open>extra="forbid"\<close> and the required fields refuse.
\<close>

definition validate_handoff :: "WorkerRole \<Rightarrow> handoff \<Rightarrow> model_error + handoff" where
  "validate_handoff role h =
     (case (role, h) of
        (Investigator, HInvestigation i) \<Rightarrow>
          bindR (validate_investigation_handoff i) (\<lambda>i'. Inr (HInvestigation i'))
      | (Fixer, HFix f) \<Rightarrow> bindR (validate_fix_handoff f) (\<lambda>f'. Inr (HFix f'))
      | (Tester, HTest t) \<Rightarrow> bindR (validate_test_handoff t) (\<lambda>t'. Inr (HTest t'))
      | _ \<Rightarrow> Inl ValidationError)"

definition handoff_item_id :: "handoff \<Rightarrow> string" where
  "handoff_item_id h = (case h of HInvestigation i \<Rightarrow> ih_item_id i | HFix f \<Rightarrow> fh_item_id f
      | HTest t \<Rightarrow> th_item_id t)"

lemma dropWhile_rev_dropWhile:
  assumes "t = [] \<or> \<not> P (hd t)"
  shows "dropWhile P (rev (dropWhile P (rev t))) = rev (dropWhile P (rev t))"
proof (cases "rev (dropWhile P (rev t))")
  case Nil
  then show ?thesis by (simp only: dropWhile.simps)
next
  case (Cons c cs)
  have "t = rev (dropWhile P (rev t)) @ rev (takeWhile P (rev t))"
    by (metis rev_append rev_rev_ident takeWhile_dropWhile_id)
  with Cons have "t = c # (cs @ rev (takeWhile P (rev t)))" by simp
  with assms have "\<not> P c" by (metis list.discI list.sel(1))
  with Cons show ?thesis by simp
qed

lemma dropWhile_head: "dropWhile P s = [] \<or> \<not> P (hd (dropWhile P s))"
  by (metis hd_dropWhile)

lemma dropWhile_idem: "dropWhile P (dropWhile P s) = dropWhile P s"
  by (induction s) auto

lemma py_strip_idem [simp]: "py_strip (py_strip s) = py_strip s"
  unfolding py_strip_def
  by (subst dropWhile_rev_dropWhile [OF dropWhile_head]) (simp add: dropWhile_idem)

lemma non_empty_string_Inr [simp]:
  "non_empty_string s = Inr t \<longleftrightarrow> py_strip s \<noteq> [] \<and> t = py_strip s"
  by (auto simp: non_empty_string_def Let_def)

lemma validate_all_list_all2:
  "validate_all v xs = Inr ys \<longleftrightarrow> list_all2 (\<lambda>x y. v x = Inr y) xs ys"
proof (induction xs arbitrary: ys)
  case Nil
  then show ?case by auto
next
  case (Cons x xs)
  then show ?case by (cases ys) auto
qed

lemma validate_all_in:
  "validate_all v xs = Inr ys \<Longrightarrow> y \<in> set ys \<Longrightarrow> \<exists>x \<in> set xs. v x = Inr y"
  by (fastforce simp: validate_all_list_all2 list_all2_conv_all_nth in_set_conv_nth)

text \<open>
  The contract of a validator: what it returns is a fixed point of it.  Lists and optional
  values inherit it.
\<close>

locale validator =
  fixes v :: "'a \<Rightarrow> model_error + 'a"
  assumes stable: "v x = Inr y \<Longrightarrow> v y = Inr y"
begin

lemma all_stable: "validate_all v xs = Inr ys \<Longrightarrow> validate_all v ys = Inr ys"
  using stable by (auto simp: validate_all_list_all2 list_all2_conv_all_nth)

lemma option_stable: "validate_option v a = Inr b \<Longrightarrow> validate_option v b = Inr b"
  using stable by (auto simp: validate_option_def split: option.splits)

end

lemma validate_option_None_iff:
  "validate_option v a = Inr b \<Longrightarrow> b = None \<longleftrightarrow> a = None"
  by (auto simp: validate_option_def split: option.splits)

interpretation strings: validator non_empty_string
  by unfold_locales simp

interpretation evidence: validator validate_evidence_ref
  by unfold_locales (auto simp: validate_evidence_ref_def)

interpretation blockers: validator validate_blocker
  by unfold_locales (auto simp: validate_blocker_def evidence.all_stable)

interpretation proofs: validator validate_gate_proof
  by unfold_locales (auto simp: validate_gate_proof_def Let_def evidence.all_stable)

lemmas validate_idems =
  strings.all_stable evidence.all_stable proofs.all_stable
  strings.option_stable blockers.option_stable

lemma validate_investigation_idem:
  "validate_investigation_handoff h = Inr h' \<Longrightarrow> validate_investigation_handoff h' = Inr h'"
  unfolding validate_investigation_handoff_def by (auto simp: validate_idems)

lemma validate_fix_idem: "validate_fix_handoff h = Inr h' \<Longrightarrow> validate_fix_handoff h' = Inr h'"
  unfolding validate_fix_handoff_def
  by (auto simp: Let_def validate_idems split: if_splits)

lemma validate_test_outcome_Inr: "validate_test_outcome h = Inr h' \<Longrightarrow> h' = h"
  by (auto simp: validate_test_outcome_def Let_def split: TestOutcome.splits)

lemma validate_test_idem:
  assumes "validate_test_handoff h = Inr h'"
  shows "validate_test_handoff h' = Inr h'"
proof -
  obtain ps f b where ps: "validate_all validate_gate_proof (th_gate_proofs h) = Inr ps"
    and f: "validate_option non_empty_string (th_failure_summary h) = Inr f"
    and b: "validate_option validate_blocker (th_blocker h) = Inr b"
    and ne: "py_strip (th_item_id h) \<noteq> []" "py_strip (th_summary h) \<noteq> []"
    and out: "validate_test_outcome (h\<lparr>th_item_id := py_strip (th_item_id h),
        th_summary := py_strip (th_summary h), th_gate_proofs := ps,
        th_failure_summary := f, th_blocker := b\<rparr>) = Inr h'"
    using assms unfolding validate_test_handoff_def by auto
  from validate_test_outcome_Inr [OF out] out ne validate_idems(3) [OF ps]
    validate_idems(4) [OF f] validate_idems(5) [OF b]
  show ?thesis by (simp add: validate_test_handoff_def)
qed

text \<open>The same fact for the handoff of any role, as the store and the scheduler use it.\<close>

lemma validate_handoff_idem:
  "validate_handoff role h = Inr h' \<Longrightarrow> validate_handoff role h' = Inr h'"
  by (auto simp: validate_handoff_def split: WorkerRole.splits handoff.splits
      dest: validate_investigation_idem validate_fix_idem validate_test_idem)

section \<open>What a validated test handoff holds\<close>

definition evidenced :: "gate_proof \<Rightarrow> bool" where
  "evidenced p \<longleftrightarrow> gp_evidence p \<noteq> []
     \<and> (\<forall>e \<in> set (gp_evidence p). ev_kind e \<in> set (gate_evidence_kinds (gp_gate p)))"

lemma validated_gate_proof_evidenced:
  "validate_gate_proof p = Inr q \<Longrightarrow> gp_result q \<noteq> GateNotApplicable \<Longrightarrow> evidenced q"
  by (cases "gp_result q")
    (auto simp: validate_gate_proof_def Let_def evidenced_def filter_empty_conv)

lemma validated_test_handoff:
  assumes "validate_test_handoff raw = Inr h"
  shows validated_distinct: "distinct (map gp_gate (th_gate_proofs h))"
    and validated_evidenced:
      "p \<in> set (th_gate_proofs h) \<Longrightarrow> gp_result p \<noteq> GateNotApplicable \<Longrightarrow> evidenced p"
    and validated_blocked: "th_outcome h = TestBlocked \<Longrightarrow> th_blocker h \<noteq> None"
    and validated_red: "th_outcome h = TestRed \<Longrightarrow> th_failure_summary h \<noteq> None"
    and validated_pass: "th_outcome h = TestPass \<Longrightarrow> p \<in> set (th_gate_proofs h) \<Longrightarrow>
      gp_result p \<noteq> GateFail"
proof -
  obtain h0 proofs where h0: "validate_test_outcome h0 = Inr h"
    and proofs: "validate_all validate_gate_proof (th_gate_proofs raw) = Inr proofs"
    and p0: "th_gate_proofs h0 = proofs"
    using assms unfolding validate_test_handoff_def by auto
  have h: "h0 = h" using validate_test_outcome_Inr [OF h0] by simp
  note v = h0 [unfolded h validate_test_outcome_def Let_def]
  show "distinct (map gp_gate (th_gate_proofs h))" using v by simp
  show "th_outcome h = TestBlocked \<Longrightarrow> th_blocker h \<noteq> None" using v by simp
  show "th_outcome h = TestRed \<Longrightarrow> th_failure_summary h \<noteq> None" using v by simp
  show "th_outcome h = TestPass \<Longrightarrow> p \<in> set (th_gate_proofs h) \<Longrightarrow> gp_result p \<noteq> GateFail"
    using v by (auto simp: filter_empty_conv)
  show "p \<in> set (th_gate_proofs h) \<Longrightarrow> gp_result p \<noteq> GateNotApplicable \<Longrightarrow> evidenced p"
    using validate_all_in [OF proofs] p0 h validated_gate_proof_evidenced by blast
qed

lemma proof_by_gate_Some:
  assumes "distinct (map gp_gate (th_gate_proofs h))"
  shows "proof_by_gate h g = Some p \<longleftrightarrow> p \<in> set (th_gate_proofs h) \<and> gp_gate p = g"
proof -
  have "distinct (map fst (rev (map (\<lambda>p. (gp_gate p, p)) (th_gate_proofs h))))"
    using assms by (simp add: rev_map [symmetric] comp_def)
  then have "proof_by_gate h g = Some p \<longleftrightarrow>
      (g, p) \<in> set (rev (map (\<lambda>p. (gp_gate p, p)) (th_gate_proofs h)))"
    unfolding proof_by_gate_def by (rule map_of_eq_Some_iff)
  then show ?thesis by auto
qed

section \<open>The decision table\<close>

text \<open>\<open>gate_result h r g\<close>: the handoff holds a proof of gate \<open>g\<close> with result \<open>r\<close>.\<close>

definition gate_result :: "test_handoff \<Rightarrow> GateResult \<Rightarrow> GateKind \<Rightarrow> bool" where
  "gate_result h r g \<longleftrightarrow> (\<exists>p \<in> set (th_gate_proofs h). gp_gate p = g \<and> gp_result p = r)"

definition decision_table :: "GateKind list \<Rightarrow> test_handoff \<Rightarrow> GateDecision" where
  "decision_table required h =
     (if required = [] \<or> \<not> distinct required then Rejected
      else case th_outcome h of
          TestBlocked \<Rightarrow> DecideBlocked
        | TestRed \<Rightarrow> if list_ex (gate_result h GateFail) required then ReturnToFix else Rejected
        | TestPass \<Rightarrow> if list_all (gate_result h GatePass) required then DecideGreen else Rejected)"

fun decided_state :: "GateDecision \<Rightarrow> ItemState option" where
  "decided_state DecideGreen = Some VerifiedGreen"
| "decided_state ReturnToFix = Some ReadyForFix"
| "decided_state DecideBlocked = Some Blocked"
| "decided_state Rejected = None"

lemma gate_result_proof_by_gate:
  assumes "distinct (map gp_gate (th_gate_proofs h))"
  shows "gate_result h r g \<longleftrightarrow> (\<exists>p. proof_by_gate h g = Some p \<and> gp_result p = r)"
  unfolding gate_result_def proof_by_gate_Some [OF assms] by blast

lemma evaluate_pass:
  assumes "distinct (map gp_gate (th_gate_proofs h))" and "th_outcome h = TestPass"
    and "required \<noteq> []" and "distinct required"
  shows "\<exists>e. evaluate_test_handoff required h = Inr e
    \<and> ge_decision e = (if list_all (gate_result h GatePass) required then DecideGreen else Rejected)
    \<and> ge_next_state e = decided_state (ge_decision e) \<and> ge_reasons e \<noteq> []"
proof -
  let ?bad = "\<lambda>g. proof_by_gate h g = None
      \<or> (\<exists>p. proof_by_gate h g = Some p \<and> gp_result p = GateNotApplicable)
      \<or> (\<exists>p. proof_by_gate h g = Some p \<and> gp_result p = GateFail)"
  have pass: "gate_result h GatePass g \<longleftrightarrow> \<not> ?bad g" for g
    unfolding gate_result_proof_by_gate [OF assms(1)]
    by (cases "proof_by_gate h g") (auto intro: GateResult.exhaust)
  have all: "list_all (gate_result h GatePass) required \<longleftrightarrow> (\<forall>g \<in> set required. \<not> ?bad g)"
    unfolding list_all_iff pass ..
  show ?thesis
  proof (cases "\<forall>g \<in> set required. \<not> ?bad g")
    case True
    then have "filter (\<lambda>g. proof_by_gate h g = None) required = []"
      and "filter (\<lambda>g. case proof_by_gate h g of None \<Rightarrow> False
                      | Some p \<Rightarrow> gp_result p = GateNotApplicable) required = []"
      and "filter (\<lambda>g. case proof_by_gate h g of None \<Rightarrow> False
                      | Some p \<Rightarrow> gp_result p = GateFail) required = []"
      by (auto simp: filter_empty_conv split: option.splits)
    with True assms(2-4) all show ?thesis
      by (simp add: evaluate_test_handoff_def Let_def gate_evaluation_of_def)
  next
    case False
    then have "filter (\<lambda>g. proof_by_gate h g = None) required \<noteq> []
      \<or> filter (\<lambda>g. case proof_by_gate h g of None \<Rightarrow> False
                      | Some p \<Rightarrow> gp_result p = GateNotApplicable) required \<noteq> []
      \<or> filter (\<lambda>g. case proof_by_gate h g of None \<Rightarrow> False
                      | Some p \<Rightarrow> gp_result p = GateFail) required \<noteq> []"
      by (force simp: filter_empty_conv)
    with False assms(2-4) all show ?thesis
      by (auto simp: evaluate_test_handoff_def Let_def gate_evaluation_of_def reason_of_def)
  qed
qed

lemma evaluate_red:
  assumes "th_outcome h = TestRed" and "th_failure_summary h \<noteq> None"
    and "required \<noteq> []" and "distinct required"
  shows "\<exists>e. evaluate_test_handoff required h = Inr e
    \<and> ge_decision e = (if list_ex (gate_result h GateFail) required then ReturnToFix else Rejected)
    \<and> ge_next_state e = decided_state (ge_decision e) \<and> ge_reasons e \<noteq> []"
proof -
  have "list_ex (gate_result h GateFail) required \<longleftrightarrow>
      filter (\<lambda>g. g \<in> set (map gp_gate (filter (\<lambda>p. gp_result p = GateFail) (th_gate_proofs h))))
        required \<noteq> []"
    by (auto simp: list_ex_iff gate_result_def filter_empty_conv)
  with assms show ?thesis
    by (auto simp: evaluate_test_handoff_def Let_def gate_evaluation_of_def)
qed

lemma evaluate_decides:
  assumes "validate_test_handoff raw = Inr h"
  shows "\<exists>e. evaluate_test_handoff required h = Inr e
    \<and> ge_decision e = decision_table required h
    \<and> ge_next_state e = decided_state (ge_decision e) \<and> ge_reasons e \<noteq> []"
proof (cases "required = [] \<or> \<not> distinct required")
  case True
  then show ?thesis
    by (auto simp: evaluate_test_handoff_def decision_table_def gate_evaluation_of_def)
next
  case False
  note v = validated_test_handoff [OF assms]
  show ?thesis
  proof (cases "th_outcome h")
    case TestPass
    with evaluate_pass [OF v(1)] False show ?thesis by (simp add: decision_table_def)
  next
    case TestRed
    with evaluate_red v(4) False show ?thesis by (simp add: decision_table_def)
  next
    case TestBlocked
    with v(3) False show ?thesis
      by (auto simp: evaluate_test_handoff_def decision_table_def gate_evaluation_of_def)
  qed
qed

text \<open>
  C32.  \<open>evaluate_test_handoff\<close> never raises on a handoff that \<open>TestHandoff\<close> has validated: it
  returns the decision of the table, the state that belongs to the decision (none when the
  handoff is rejected) and at least one reason.
\<close>

theorem evaluate_test_handoff_decides:
  assumes "validate_test_handoff raw = Inr h"
  shows "\<exists>e. evaluate_test_handoff required h = Inr e
    \<and> ge_decision e = decision_table required h
    \<and> ge_next_state e = decided_state (ge_decision e) \<and> ge_reasons e \<noteq> []"
  using assms by (rule evaluate_decides)

definition example_evidence :: evidence_ref where
  "example_evidence = \<lparr>ev_id = ''e1'', ev_kind = EvTest, ev_location = ''/private/tmp/log'',
     ev_description = ''log'', ev_metadata = JObj []\<rparr>"

definition example_pass :: test_handoff where
  "example_pass = \<lparr>th_item_id = ''item'', th_outcome = TestPass, th_summary = ''passed'',
     th_gate_proofs = [\<lparr>gp_gate = FocusedTests, gp_result = GatePass, gp_summary = ''ok'',
       gp_evidence = [example_evidence]\<rparr>],
     th_failure_summary = None, th_blocker = None\<rparr>"

lemma example_pass_valid: "validate_test_handoff example_pass = Inr example_pass"
  by code_simp

lemma evaluate_test_handoff_decides_witness:
  "\<exists>e. evaluate_test_handoff [FocusedTests] example_pass = Inr e \<and> ge_decision e = DecideGreen"
proof -
  have "decision_table [FocusedTests] example_pass = DecideGreen" by code_simp
  with evaluate_test_handoff_decides [OF example_pass_valid, of "[FocusedTests]"]
  show ?thesis by auto
qed

lemma evaluate_green:
  assumes "validate_test_handoff raw = Inr h"
  shows "(\<exists>e. evaluate_test_handoff required h = Inr e \<and> ge_next_state e = Some VerifiedGreen)
    \<longleftrightarrow> required \<noteq> [] \<and> distinct required \<and> th_outcome h = TestPass
      \<and> (\<forall>g \<in> set required. \<exists>p \<in> set (th_gate_proofs h).
            gp_gate p = g \<and> gp_result p = GatePass \<and> gp_evidence p \<noteq> []
            \<and> (\<forall>e \<in> set (gp_evidence p). ev_kind e \<in> set (gate_evidence_kinds g)))"
  (is "?green \<longleftrightarrow> ?req \<and> ?dist \<and> ?pass \<and> ?proofs")
proof -
  obtain e where e: "evaluate_test_handoff required h = Inr e"
    "ge_decision e = decision_table required h" "ge_next_state e = decided_state (ge_decision e)"
    using evaluate_decides [OF assms] by blast
  have "?green \<longleftrightarrow> decision_table required h = DecideGreen"
    using e by (cases "decision_table required h") auto
  also have "\<dots> \<longleftrightarrow> ?req \<and> ?dist \<and> ?pass \<and> (\<forall>g \<in> set required. gate_result h GatePass g)"
    by (auto simp: decision_table_def list_all_iff split: TestOutcome.splits)
  also have "(\<forall>g \<in> set required. gate_result h GatePass g) \<longleftrightarrow> ?proofs"
    using validated_evidenced [OF assms] unfolding gate_result_def evidenced_def by fastforce
  finally show ?thesis .
qed

text \<open>
  C31.  Green needs evidence.  The evaluation says \<open>VERIFIED_GREEN\<close> exactly when the item
  requires at least one gate and none twice, the tester reported a pass, and every required
  gate has a passing proof with attached evidence of a kind that gate admits.
\<close>

theorem green_iff_every_required_gate_is_evidenced:
  assumes "validate_test_handoff raw = Inr h"
  shows "(\<exists>e. evaluate_test_handoff required h = Inr e \<and> ge_next_state e = Some VerifiedGreen)
    \<longleftrightarrow> required \<noteq> [] \<and> distinct required \<and> th_outcome h = TestPass
      \<and> (\<forall>g \<in> set required. \<exists>p \<in> set (th_gate_proofs h).
            gp_gate p = g \<and> gp_result p = GatePass \<and> gp_evidence p \<noteq> []
            \<and> (\<forall>e \<in> set (gp_evidence p). ev_kind e \<in> set (gate_evidence_kinds g)))"
  using assms by (rule evaluate_green)

lemma green_iff_every_required_gate_is_evidenced_witness:
  "\<exists>e. evaluate_test_handoff [FocusedTests] example_pass = Inr e
     \<and> ge_next_state e = Some VerifiedGreen"
  unfolding green_iff_every_required_gate_is_evidenced [OF example_pass_valid]
  by (simp add: example_pass_def example_evidence_def)

end
