(* ===== verification/Finish.thy ===== *)
theory Finish
  imports Gates Recovery
begin

text \<open>
  The ends of an attempt in \<^verbatim>\<open>storage.py\<close>: committing a validated stage result, failing a
  job with bounded retries, and a clean interruption.
\<close>

section \<open>Validating a stage result\<close>

text \<open>\<open>_handoff_evidence\<close>: the evidence of a handoff, of its blocker and of its proofs.\<close>

definition blocker_evidence :: "blocker option \<Rightarrow> evidence_ref list" where
  "blocker_evidence b = (case b of None \<Rightarrow> [] | Some b \<Rightarrow> bl_evidence b)"

definition handoff_evidence :: "handoff \<Rightarrow> evidence_ref list" where
  "handoff_evidence h =
     (case h of
        HInvestigation i \<Rightarrow> ih_evidence i @ blocker_evidence (ih_blocker i)
      | HFix f \<Rightarrow> fh_evidence f @ blocker_evidence (fh_blocker f)
      | HTest t \<Rightarrow> blocker_evidence (th_blocker t) @ concat (map gp_evidence (th_gate_proofs t)))"

definition simulated :: "evidence_ref \<Rightarrow> bool" where
  "simulated e \<longleftrightarrow> is_true (jget ''simulated'' (ev_metadata e))"

definition evidence_attached :: "world \<Rightarrow> bool \<Rightarrow> evidence_ref \<Rightarrow> bool" where
  "evidence_attached W allow_simulated e \<longleftrightarrow>
     (if simulated e then allow_simulated
      else is_absolute (expanduser W (ev_location e))
           \<and> is_file W (expanduser W (ev_location e)))"

definition allow_simulated :: "campaign_row \<Rightarrow> bool" where
  "allow_simulated c \<longleftrightarrow> is_true (jget ''allow_simulated_evidence'' (cp_config c))"

definition authoritative_gates :: "GateKind list \<Rightarrow> bool" where
  "authoritative_gates gates \<longleftrightarrow> gates = [FocusedTests] \<or> gates = default_required_gates"

definition model_validate :: "model_error + 'a \<Rightarrow> store_error + 'a" where
  "model_validate m = (case m of Inl _ \<Rightarrow> Inl ValueError | Inr x \<Rightarrow> Inr x)"

text \<open>
  The tester's branch: a campaign that allows simulated evidence is judged on the submitted
  handoff, any other on the canonical handoff of the attempt's own collectors, whatever was
  submitted.  \<open>authoritative\<close> reads that canonical handoff.
\<close>

definition validate_tester_result ::
    "(job_row \<Rightarrow> GateKind list \<Rightarrow> store \<Rightarrow> store_error + test_handoff) \<Rightarrow> job_row \<Rightarrow> handoff
     \<Rightarrow> bool \<Rightarrow> store \<Rightarrow> store_error + (handoff \<times> ItemState)" where
  "validate_tester_result authoritative job result simulated_ok st =
     bindR (require (find_item (jb_item_id job) st) NotFoundError) (\<lambda>item.
     let gates = it_required_gates item in
     bindR (if simulated_ok then
              bindR (model_validate (validate_handoff Tester result)) (\<lambda>h.
              case h of HTest t \<Rightarrow> Inr t | _ \<Rightarrow> Inl ValueError)
            else
              check (authoritative_gates gates) ValueError (
              bindR (authoritative job gates st) (\<lambda>raw.
                model_validate (validate_test_handoff raw)))) (\<lambda>t.
     bindR (model_validate (evaluate_test_handoff gates t)) (\<lambda>evaluation.
     bindR (require (ge_next_state evaluation) ValueError) (\<lambda>next.
       Inr (HTest t, next)))))"

definition expected_next_state :: "handoff \<Rightarrow> ItemState" where
  "expected_next_state h =
     (case h of
        HInvestigation i \<Rightarrow> if ih_outcome i = InvestigationBlocked then Blocked else ReadyForFix
      | HFix f \<Rightarrow> if fh_outcome f = FixBlocked then Blocked else ReadyForTest
      | HTest _ \<Rightarrow> Blocked)"

definition validate_stage_result ::
    "world \<Rightarrow> (job_row \<Rightarrow> GateKind list \<Rightarrow> store \<Rightarrow> store_error + test_handoff) \<Rightarrow> job_row
     \<Rightarrow> handoff \<Rightarrow> ItemState \<Rightarrow> store \<Rightarrow> store_error + handoff" where
  "validate_stage_result W authoritative job result next_state st =
     bindR (require (find_campaign (jb_campaign_id job) st) NotFoundError) (\<lambda>campaign.
     bindR (if jb_role job = Tester
            then validate_tester_result authoritative job result (allow_simulated campaign) st
            else
              bindR (model_validate (validate_handoff (jb_role job) result)) (\<lambda>h.
                Inr (h, expected_next_state h))) (\<lambda>(h, next).
     check (handoff_item_id h = jb_item_id job) ValueError (
     check (next = next_state) TransitionConflict (
     check (list_all (evidence_attached W (allow_simulated campaign)) (handoff_evidence h)) ValueError
       (Inr h)))))"

section \<open>Finishing\<close>

definition assert_resume_authorization_fulfilled :: "job_row \<Rightarrow> store \<Rightarrow> store_error + unit" where
  "assert_resume_authorization_fulfilled job st =
     (case Option.bind (jb_current_attempt_id job) (\<lambda>a. applied_resume a st) of
        None \<Rightarrow> Inr ()
      | Some c \<Rightarrow>
          bindR (require (find_attempt (jb_current_attempt_id job) st) LeaseConflict) (\<lambda>attempt.
          check (session_of attempt = (oc_expected_provider c, oc_expected_session_id c)) LeaseConflict (
          check (stopped_provider_process (at_id attempt) (oc_expected_provider c) st) LeaseConflict
            (Inr ()))))"

definition finish_job ::
    "world \<Rightarrow> job_row \<Rightarrow> string \<Rightarrow> string \<Rightarrow> handoff \<Rightarrow> time \<Rightarrow> store \<Rightarrow> store_error + store" where
  "finish_job W job worker token result now st =
     bindR (assert_external_process_stopped job st) (\<lambda>_.
     bindR (assert_resume_authorization_fulfilled job st) (\<lambda>_.
     bindR (assert_managed_worktree_binding job st) (\<lambda>_.
     bindR (assert_registered_resource_fences W job now st) (\<lambda>_.
     check (set (map ls_key (job_leases (jb_id job) st)) = set (jb_required_resources job)
            \<and> list_all (\<lambda>l. ls_owner l = worker \<and> ls_token l = token \<and> now < ls_expires_at l)
                (job_leases (jb_id job) st)) LeaseConflict (
     let registered = registered_job_resource_leases (jb_id job) st;
         running = is_running_attempt (jb_current_attempt_id job);
         this = (\<lambda>j. jb_id j = jb_id job \<and> jb_status j = JobRunning
                   \<and> jb_lease_owner j = Some worker \<and> jb_lease_token j = Some token);
         mine = (\<lambda>l. ls_job_id l = Some (jb_id job) \<and> ls_owner l = worker \<and> ls_token l = token);
         st1 = finish_attempt (jb_current_attempt_id job) AttemptSucceeded
                 (\<lambda>a. a\<lparr>at_result := Some (ResultHandoff result)\<rparr>) now st;
         st2 = st1\<lparr>jobs := upd_where this
                 (\<lambda>j. (unlease JobCompleted now j)\<lparr>jb_result := Some (ResultHandoff result)\<rparr>)
                 (jobs st1)\<rparr>
     in
     check (rowcount running (attempts st) = 1 \<and> rowcount this (jobs st1) = 1) LeaseConflict (
     check (rowcount mine (leases st2) = length (remdups (jb_required_resources job)))
       LeaseConflict (
     Inr (append_resource_lease_events W ''resource.released'' registered (jb_campaign_id job)
            (jb_item_id job) (jb_id job) (Some worker) now
            (st2\<lparr>leases := del_where mine (leases st2)\<rparr>)))))))))"

definition stage_next_states :: "WorkerRole \<Rightarrow> ItemState list" where
  "stage_next_states role =
     (case role of
        Investigator \<Rightarrow> [ReadyForFix, Blocked]
      | Fixer \<Rightarrow> [ReadyForTest, Blocked]
      | Tester \<Rightarrow> [VerifiedGreen, ReadyForFix, Blocked])"

definition successor_role :: "ItemState \<Rightarrow> string option" where
  "successor_role s = (if s = ReadyForFix then Some ''fixer''
                       else if s = ReadyForTest then Some ''tester'' else None)"

text \<open>The successor of a managed-worktree job inherits its worktree.\<close>

definition successor_request :: "job_row \<Rightarrow> next_job \<Rightarrow> ItemState \<Rightarrow> time \<Rightarrow> job_request" where
  "successor_request job n next_state now =
     (let inherit = jb_workspace_kind job = ManagedWorktree
                    \<and> py_lower (nj_role n) \<in> {''fixer'', ''tester''}
      in next_job_request n (item_state_value next_state)
           (if inherit then Some (workspace_kind_value ManagedWorktree) else nj_workspace_kind n)
           (if inherit then jb_managed_worktree_id job else nj_managed_worktree_id n) 0 now)"

definition commit_stage_result ::
    "world \<Rightarrow> (job_row \<Rightarrow> GateKind list \<Rightarrow> store \<Rightarrow> store_error + test_handoff) \<Rightarrow> string
     \<Rightarrow> string \<Rightarrow> string \<Rightarrow> handoff \<Rightarrow> string \<Rightarrow> string \<Rightarrow> string \<Rightarrow> (string \<times> json) list
     \<Rightarrow> next_job option \<Rightarrow> string \<Rightarrow> time \<Rightarrow> store \<Rightarrow> store_error + (store \<times> string option)" where
  "commit_stage_result W authoritative job_id worker token result expected_text next_text event_kind
     event_data next fresh now st =
     bindR (require (item_state_of (py_lower expected_text)) ValueError) (\<lambda>expected.
     bindR (require (item_state_of (py_lower next_text)) ValueError) (\<lambda>next_state.
     bindR (assert_live_lease job_id worker token now st) (\<lambda>job.
     bindR (assert_no_pending_operator_interrupt job_id st) (\<lambda>_.
     bindR (assert_attempt_focused_test_admission W job st) (\<lambda>_.
     check (expected = jb_active_state job) TransitionConflict (
     check (next_state \<in> set (stage_next_states (jb_role job))) TransitionConflict (
     bindR (validate_stage_result W authoritative job result next_state st) (\<lambda>validated.
     check (map_option (\<lambda>n. py_lower (nj_role n)) next = successor_role next_state)
       TransitionConflict (
     bindR (move_item (jb_item_id job) expected next_state now st) (\<lambda>st1.
     bindR (finish_job W job worker token validated now st1) (\<lambda>st2.
     let st3 = append_event event_kind (Some (jb_campaign_id job)) (Some (jb_item_id job))
                 (Some job_id) (Some worker)
                 (dict_of (event_data @ [(''from_state'', JStr (item_state_value expected)),
                                         (''to_state'', JStr (item_state_value next_state))])) now st2
     in
     case next of
       None \<Rightarrow> Inr (st3, None)
     | Some n \<Rightarrow>
         bindR (enqueue_job (jb_item_id job) (successor_request job n next_state now) fresh now st3)
           (\<lambda>(st4, i). Inr (st4, Some i)))))))))))))"

section \<open>Failing\<close>

definition failed_attempts :: "string \<Rightarrow> store \<Rightarrow> nat" where
  "failed_attempts job_id st =
     rowcount (\<lambda>a. at_job_id a = job_id \<and> at_status a = AttemptFailed) (attempts st)"

definition worktree_quarantined :: "job_row \<Rightarrow> store \<Rightarrow> bool" where
  "worktree_quarantined job st \<longleftrightarrow>
     (case jb_managed_worktree_id job of
        None \<Rightarrow> False
      | Some w \<Rightarrow> (case find (\<lambda>r. wt_id r = w) (worktrees st) of
                    None \<Rightarrow> True | Some r \<Rightarrow> wt_state r = WtQuarantined))"

definition fail_job ::
    "world \<Rightarrow> string \<Rightarrow> string \<Rightarrow> string \<Rightarrow> string \<Rightarrow> (string \<times> json) list \<Rightarrow> bool \<Rightarrow> time option
     \<Rightarrow> int \<Rightarrow> ItemState \<Rightarrow> time \<Rightarrow> store \<Rightarrow> store_error + (store \<times> bool)" where
  "fail_job W job_id worker token error result requeue available_at max_attempts blocked_state
     now st =
     check (1 \<le> max_attempts) ValueError (
     bindR (assert_live_lease job_id worker token now st) (\<lambda>job.
     bindR (assert_no_pending_operator_interrupt job_id st) (\<lambda>_.
     bindR (assert_external_process_stopped job st) (\<lambda>_.
     let st1 = end_executions job ExAbandoned error now (Some worker) st;
         st2 = finish_attempt (jb_current_attempt_id job) AttemptFailed
                 (\<lambda>a. a\<lparr>at_result := Some (ResultJson (JObj result)), at_error := Some error\<rparr>) now st1;
         failed = failed_attempts job_id st2;
         quarantined = worktree_quarantined job st2;
         will_requeue = (requeue \<and> int failed < max_attempts \<and> \<not> quarantined);
         next_state = (if will_requeue then jb_queued_state job else blocked_state)
     in
     bindR (move_item (jb_item_id job) (jb_active_state job) next_state now st2) (\<lambda>st3.
     let st4 = st3\<lparr>jobs := upd_where (\<lambda>j. jb_id j = job_id)
                 (\<lambda>j. (unlease (if will_requeue then JobPending else JobFailed) now j)
                    \<lparr>jb_result := Some (ResultJson (JObj result)), jb_last_error := Some error,
                     jb_available_at := or_default available_at now\<rparr>) (jobs st3)\<rparr>;
         registered = registered_job_resource_leases job_id st4;
         st5 = st4\<lparr>leases := del_where (\<lambda>l. ls_job_id l = Some job_id \<and> ls_token l = token)
                 (leases st4)\<rparr>;
         st6 = append_resource_lease_events W ''resource.released'' registered (jb_campaign_id job)
                 (jb_item_id job) job_id (Some worker) now st5
     in
     Inr (append_event (if will_requeue then ''job.requeued'' else ''job.failed'')
            (Some (jb_campaign_id job)) (Some (jb_item_id job)) (Some job_id) (Some worker)
            [(''error'', JStr error), (''from_state'', JStr (item_state_value (jb_active_state job))),
             (''to_state'', JStr (item_state_value next_state)),
             (''attempt_number'', JNum (jb_attempt_count job)),
             (''failed_attempts'', JNum (int failed)), (''max_attempts'', JNum max_attempts),
             (''managed_worktree_quarantined'', JBool quarantined)] now st6, will_requeue))))))"

section \<open>Interrupting\<close>

definition interrupt_job ::
    "world \<Rightarrow> string \<Rightarrow> string \<Rightarrow> string \<Rightarrow> string \<Rightarrow> string option \<Rightarrow> time \<Rightarrow> store
     \<Rightarrow> store_error + store" where
  "interrupt_job W job_id worker token reason request_id now st =
     bindR (assert_live_lease job_id worker token now st) (\<lambda>job.
     bindR (case request_id of
              None \<Rightarrow> bindR (assert_no_pending_operator_interrupt job_id st) (\<lambda>_. Inr None)
            | Some r \<Rightarrow>
                bindR (assert_operator_interrupt_request W r job worker token True st) (\<lambda>request.
                check (reason = oc_reason request) LeaseConflict (Inr (Some request)))) (\<lambda>request.
     bindR (assert_external_process_stopped job st) (\<lambda>_.
     let st1 = end_executions job ExAbandoned reason now (Some worker) st in
     bindR (move_item (jb_item_id job) (jb_active_state job) (jb_queued_state job) now st1) (\<lambda>st2.
     let st3 = finish_attempt (jb_current_attempt_id job) AttemptInterrupted
                 (\<lambda>a. a\<lparr>at_error := Some reason\<rparr>) now st2;
         st4 = st3\<lparr>jobs := upd_where (\<lambda>j. jb_id j = job_id)
                 (\<lambda>j. (unlease JobPending now j)\<lparr>jb_last_error := Some reason, jb_available_at := now\<rparr>)
                 (jobs st3)\<rparr>;
         registered = registered_job_resource_leases job_id st4;
         st5 = st4\<lparr>leases := del_where (\<lambda>l. ls_job_id l = Some job_id \<and> ls_token l = token)
                 (leases st4)\<rparr>;
         st6 = append_resource_lease_events W ''resource.released'' registered (jb_campaign_id job)
                 (jb_item_id job) job_id (Some worker) now st5;
         st7 = append_event ''job.interrupted'' (Some (jb_campaign_id job)) (Some (jb_item_id job))
                 (Some job_id) (Some worker)
                 [(''reason'', JStr reason), (''operator_request_id'', opt_str request_id),
                  (''from_state'', JStr (item_state_value (jb_active_state job))),
                  (''to_state'', JStr (item_state_value (jb_queued_state job)))] now st6
     in
     case request of
       None \<Rightarrow> Inr st7
     | Some c \<Rightarrow>
         let this = (\<lambda>r. Some (oc_id r) = request_id \<and> oc_status r = CtlPending) in
         check (rowcount this (controls st7) = 1) LeaseConflict (
         Inr (append_event ''operator.interrupt_applied'' (Some (jb_campaign_id job))
                (Some (jb_item_id job)) (Some job_id) (Some (oc_requested_by c))
                [(''request_id'', opt_str request_id),
                 (''attempt_id'', opt_str (jb_current_attempt_id job)),
                 (''reason'', JStr reason)] now
                (st7\<lparr>controls := upd_where this
                   (\<lambda>r. r\<lparr>oc_status := CtlApplied,
                         oc_target_attempt_id := jb_current_attempt_id job,
                         oc_applied_at := Some now\<rparr>) (controls st7)\<rparr>)))))))"

definition release_job ::
    "world \<Rightarrow> string \<Rightarrow> string \<Rightarrow> string \<Rightarrow> string \<Rightarrow> time \<Rightarrow> store \<Rightarrow> store_error + store" where
  "release_job W job_id worker token reason now st =
     interrupt_job W job_id worker token reason None now st"

definition recover_expired_leases :: "world \<Rightarrow> time \<Rightarrow> store \<Rightarrow> store_error + (store \<times> recovery)" where
  "recover_expired_leases W now st = recover_expired W now st"

end
