(* ===== verification/Queue.thy ===== *)
theory Queue
  imports Claim Finish
begin

text \<open>
  The invariant of the queue: what every operation of the store keeps true of the campaigns,
  items, jobs, attempts, leases, processes and controls, and the two transitions every
  operation on a lease is an instance of, opening an attempt and closing one.
\<close>

named_theorems queue_defs \<open>the parts of the queue invariant\<close>

section \<open>The invariant\<close>

definition running :: "job_row \<Rightarrow> bool" where
  "running j \<longleftrightarrow> jb_status j = JobRunning"

definition keys_ok :: "store \<Rightarrow> bool" where
  "keys_ok st \<longleftrightarrow> distinct (map cp_id (campaigns st)) \<and> distinct (map it_id (items st))
     \<and> distinct (map jb_id (jobs st)) \<and> distinct (map at_id (attempts st))
     \<and> distinct (map (\<lambda>l. (ls_key l, ls_slot l)) (leases st))
     \<and> distinct (map ep_id (processes st)) \<and> distinct (map oc_id (controls st))
     \<and> distinct (map rd_id (definitions st))"

text \<open>An item belongs to a campaign, a job to an item of its campaign.\<close>

definition owners_ok :: "store \<Rightarrow> bool" where
  "owners_ok st \<longleftrightarrow>
     (\<forall>i \<in> set (items st). it_campaign_id i \<in> cp_id ` set (campaigns st))
     \<and> (\<forall>j \<in> set (jobs st).
          (jb_item_id j, jb_campaign_id j) \<in> (\<lambda>i. (it_id i, it_campaign_id i)) ` set (items st))"

text \<open>The columns of a job that hold its lease are set exactly while it runs.\<close>

definition unleased :: "job_row \<Rightarrow> bool" where
  "unleased j \<longleftrightarrow> jb_lease_owner j = None \<and> jb_lease_token j = None
     \<and> jb_lease_expires_at j = None \<and> jb_current_attempt_id j = None"

definition jobs_ok :: "store \<Rightarrow> bool" where
  "jobs_ok st \<longleftrightarrow> (\<forall>j \<in> set (jobs st).
     jb_queued_state j = queued_state (jb_role j) \<and> jb_active_state j = active_state (jb_role j)
     \<and> distinct (jb_required_resources j) \<and> (\<not> running j \<longrightarrow> unleased j))"

definition attempt_of :: "job_row \<Rightarrow> attempt_row \<Rightarrow> bool" where
  "attempt_of j a \<longleftrightarrow> jb_current_attempt_id j = Some (at_id a) \<and> at_job_id a = jb_id j
     \<and> at_status a = AttemptRunning \<and> jb_lease_owner j = Some (at_worker_id a)
     \<and> jb_lease_token j = Some (at_lease_token a)
     \<and> jb_lease_expires_at j = Some (at_lease_expires_at a)"

definition lease_of :: "job_row \<Rightarrow> lease_row \<Rightarrow> bool" where
  "lease_of j l \<longleftrightarrow> ls_job_id l = Some (jb_id j) \<and> jb_lease_owner j = Some (ls_owner l)
     \<and> jb_lease_token j = Some (ls_token l) \<and> jb_lease_expires_at j = Some (ls_expires_at l)"

text \<open>
  A running job holds its item in its active state, has the running attempt its lease
  columns name, and holds one lease on each of the resources it requires.
\<close>

definition running_ok :: "store \<Rightarrow> bool" where
  "running_ok st \<longleftrightarrow> (\<forall>j \<in> set (jobs st). running j \<longrightarrow>
     (\<exists>i \<in> set (items st). it_id i = jb_item_id j \<and> it_state i = jb_active_state j)
     \<and> (\<exists>a \<in> set (attempts st). attempt_of j a)
     \<and> set (map ls_key (job_leases (jb_id j) st)) = set (jb_required_resources j)
     \<and> distinct (map ls_key (job_leases (jb_id j) st))
     \<and> (\<forall>l \<in> set (job_leases (jb_id j) st). lease_of j l))"

definition exclusive_ok :: "store \<Rightarrow> bool" where
  "exclusive_ok st \<longleftrightarrow> (\<forall>j \<in> set (jobs st). \<forall>k \<in> set (jobs st).
     running j \<longrightarrow> running k \<longrightarrow> jb_item_id j = jb_item_id k \<longrightarrow> j = k)"

definition items_ok :: "store \<Rightarrow> bool" where
  "items_ok st \<longleftrightarrow> (\<forall>i \<in> set (items st). is_active_state (it_state i) \<longrightarrow>
     (\<exists>j \<in> set (jobs st). running j \<and> jb_item_id j = it_id i))"

definition attempts_ok :: "store \<Rightarrow> bool" where
  "attempts_ok st \<longleftrightarrow> (\<forall>a \<in> set (attempts st).
     (at_status a = AttemptRunning \<longrightarrow> (\<exists>j \<in> set (jobs st). running j \<and> attempt_of j a))
     \<and> (\<exists>j \<in> set (jobs st). jb_id j = at_job_id a \<and> at_number a \<le> jb_attempt_count j))"

definition leases_ok :: "store \<Rightarrow> bool" where
  "leases_ok st \<longleftrightarrow> (\<forall>l \<in> set (leases st).
     1 \<le> ls_slot l
     \<and> (case ls_job_id l of None \<Rightarrow> True
        | Some i \<Rightarrow> (\<exists>j \<in> set (jobs st). running j \<and> jb_id j = i))
     \<and> (case ls_definition_id l of None \<Rightarrow> ls_slot l = 1
        | Some i \<Rightarrow> (\<exists>d \<in> set (definitions st). rd_id d = i \<and> i = ls_key l
                      \<and> int (ls_slot l) \<le> rp_limit (rd_policy d))))"

definition unresolved :: "process_row \<Rightarrow> bool" where
  "unresolved p \<longleftrightarrow> ep_state p \<noteq> ProcStopped"

definition processes_ok :: "store \<Rightarrow> bool" where
  "processes_ok st \<longleftrightarrow>
     (\<forall>p \<in> set (processes st). unresolved p \<longrightarrow>
        (\<exists>a \<in> set (attempts st). at_id a = ep_attempt_id p \<and> at_status a = AttemptRunning
                                   \<and> at_job_id a = ep_job_id p))
     \<and> (\<forall>p \<in> set (processes st). \<forall>q \<in> set (processes st). unresolved p \<longrightarrow> unresolved q \<longrightarrow>
        ep_attempt_id p = ep_attempt_id q \<longrightarrow> p = q)"

definition pending_interrupt :: "control_row \<Rightarrow> bool" where
  "pending_interrupt c \<longleftrightarrow> oc_action c = ActInterrupt \<and> oc_status c = CtlPending"

definition controls_ok :: "store \<Rightarrow> bool" where
  "controls_ok st \<longleftrightarrow>
     (\<forall>c \<in> set (controls st). pending_interrupt c \<longrightarrow>
        (\<exists>j \<in> set (jobs st). running j \<and> jb_id j = oc_job_id c
            \<and> jb_current_attempt_id j = Some (oc_source_attempt_id c)))
     \<and> (\<forall>c \<in> set (controls st). \<forall>d \<in> set (controls st). pending_interrupt c \<longrightarrow>
          pending_interrupt d \<longrightarrow> oc_job_id c = oc_job_id d \<longrightarrow> c = d)"

definition limits_ok :: "store \<Rightarrow> bool" where
  "limits_ok st \<longleftrightarrow> (\<forall>c \<in> set (campaigns st).
     0 \<le> cp_global_limit c
     \<and> int (rowcount (running_in (cp_id c)) (jobs st)) \<le> cp_global_limit c
     \<and> (\<forall>role. 0 \<le> role_limit c role
          \<and> int (rowcount (\<lambda>j. running_in (cp_id c) j \<and> jb_role j = role) (jobs st))
            \<le> role_limit c role))"

lemmas queue_parts [queue_defs] =
  keys_ok_def owners_ok_def jobs_ok_def running_ok_def exclusive_ok_def items_ok_def
  attempts_ok_def leases_ok_def processes_ok_def controls_ok_def limits_ok_def

definition queue_ok :: "store \<Rightarrow> bool" where
  "queue_ok st \<longleftrightarrow> keys_ok st \<and> owners_ok st \<and> jobs_ok st \<and> running_ok st \<and> exclusive_ok st
     \<and> items_ok st \<and> attempts_ok st \<and> leases_ok st \<and> processes_ok st \<and> controls_ok st
     \<and> limits_ok st"

lemma queue_ok_empty: "queue_ok empty_store"
  by (simp add: queue_ok_def queue_defs empty_store_def)

text \<open>The invariant looks at eight tables.\<close>

definition same_queue :: "store \<Rightarrow> store \<Rightarrow> bool" where
  "same_queue st st' \<longleftrightarrow> campaigns st' = campaigns st \<and> items st' = items st \<and> jobs st' = jobs st
     \<and> attempts st' = attempts st \<and> leases st' = leases st \<and> definitions st' = definitions st
     \<and> processes st' = processes st \<and> controls st' = controls st"

lemma queue_ok_cong:
  assumes "queue_ok st" and "same_queue st st'"
  shows "queue_ok st'"
proof -
  have eqs: "campaigns st' = campaigns st" "items st' = items st" "jobs st' = jobs st"
    "attempts st' = attempts st" "leases st' = leases st" "definitions st' = definitions st"
    "processes st' = processes st" "controls st' = controls st"
    using assms(2) by (simp_all add: same_queue_def)
  show ?thesis
    using assms(1) unfolding queue_ok_def queue_parts job_leases_def eqs .
qed

lemma same_queueI:
  "campaigns st' = campaigns st \<Longrightarrow> items st' = items st \<Longrightarrow> jobs st' = jobs st
   \<Longrightarrow> attempts st' = attempts st \<Longrightarrow> leases st' = leases st \<Longrightarrow> definitions st' = definitions st
   \<Longrightarrow> processes st' = processes st \<Longrightarrow> controls st' = controls st \<Longrightarrow> same_queue st st'"
  by (simp add: same_queue_def)

section \<open>Reading the invariant\<close>

lemma queue_okD:
  assumes "queue_ok st"
  shows "keys_ok st" "owners_ok st" "jobs_ok st" "running_ok st" "exclusive_ok st" "items_ok st"
    "attempts_ok st" "leases_ok st" "processes_ok st" "controls_ok st" "limits_ok st"
  using assms by (simp_all add: queue_ok_def)

lemma key_lists:
  assumes "queue_ok st"
  shows "distinct (map cp_id (campaigns st))" "distinct (map it_id (items st))"
    "distinct (map jb_id (jobs st))" "distinct (map at_id (attempts st))"
    "distinct (map (\<lambda>l. (ls_key l, ls_slot l)) (leases st))"
    "distinct (map ep_id (processes st))" "distinct (map oc_id (controls st))"
    "distinct (map rd_id (definitions st))"
  using queue_okD(1) [OF assms] by (simp_all add: keys_ok_def)

lemma job_unique:
  "queue_ok st \<Longrightarrow> j \<in> set (jobs st) \<Longrightarrow> k \<in> set (jobs st) \<Longrightarrow> jb_id j = jb_id k \<Longrightarrow> j = k"
  by (rule key_unique [OF key_lists(3)])

lemma item_unique:
  "queue_ok st \<Longrightarrow> i \<in> set (items st) \<Longrightarrow> k \<in> set (items st) \<Longrightarrow> it_id i = it_id k \<Longrightarrow> i = k"
  by (rule key_unique [OF key_lists(2)])

lemma attempt_unique:
  "queue_ok st \<Longrightarrow> a \<in> set (attempts st) \<Longrightarrow> b \<in> set (attempts st) \<Longrightarrow> at_id a = at_id b \<Longrightarrow> a = b"
  by (rule key_unique [OF key_lists(4)])

lemma find_job_iff:
  assumes "queue_ok st"
  shows "find_job i st = Some j \<longleftrightarrow> j \<in> set (jobs st) \<and> jb_id j = i"
proof
  assume "j \<in> set (jobs st) \<and> jb_id j = i"
  with find_by_key [OF key_lists(3) [OF assms], of j] show "find_job i st = Some j"
    by (auto simp: find_job_def)
qed (rule find_jobD)

lemma running_attempt:
  assumes "queue_ok st" and "j \<in> set (jobs st)" and "running j"
  obtains a where "a \<in> set (attempts st)" "attempt_of j a"
  using queue_okD(4) [OF assms(1)] assms(2,3) that unfolding running_ok_def by blast

lemma running_item:
  assumes "queue_ok st" and "j \<in> set (jobs st)" and "running j"
  obtains i where "i \<in> set (items st)" "it_id i = jb_item_id j" "it_state i = jb_active_state j"
  using queue_okD(4) [OF assms(1)] assms(2,3) that unfolding running_ok_def by blast

lemma running_lease:
  assumes "queue_ok st" and "j \<in> set (jobs st)" and "running j"
    and "l \<in> set (leases st)" and "ls_job_id l = Some (jb_id j)"
  shows "lease_of j l"
proof -
  have "l \<in> set (job_leases (jb_id j) st)" using assms(4,5) by (simp add: job_leases_def)
  then show ?thesis using queue_okD(4) [OF assms(1)] assms(2,3) unfolding running_ok_def by blast
qed

lemma running_resources:
  assumes "queue_ok st" and "j \<in> set (jobs st)" and "running j"
  shows "set (map ls_key (job_leases (jb_id j) st)) = set (jb_required_resources j)"
    and "distinct (map ls_key (job_leases (jb_id j) st))"
  using queue_okD(4) [OF assms(1)] assms(2,3) unfolding running_ok_def by blast+

lemma running_lease_count:
  assumes "queue_ok st" and "j \<in> set (jobs st)" and "running j"
  shows "length (job_leases (jb_id j) st) = length (jb_required_resources j)"
proof -
  have "distinct (jb_required_resources j)"
    using queue_okD(3) [OF assms(1)] assms(2) unfolding jobs_ok_def by blast
  with running_resources [OF assms] show ?thesis
    by (metis distinct_card length_map)
qed

lemma same_attempt_same_job:
  assumes "queue_ok st" and "j \<in> set (jobs st)" "running j" and "k \<in> set (jobs st)" "running k"
    and "jb_current_attempt_id j = jb_current_attempt_id k"
  shows "j = k"
proof -
  obtain a where a: "a \<in> set (attempts st)" "attempt_of j a"
    using assms(1-3) by (rule running_attempt)
  obtain b where b: "b \<in> set (attempts st)" "attempt_of k b"
    using assms(1,4,5) by (rule running_attempt)
  have "at_id a = at_id b" using a(2) b(2) assms(6) by (simp add: attempt_of_def)
  then have "a = b" using a b assms(1) by (auto intro: attempt_unique)
  then have "jb_id j = jb_id k" using a(2) b(2) by (simp add: attempt_of_def)
  then show ?thesis using assms by (auto intro: job_unique)
qed

lemma not_running_unleased:
  "queue_ok st \<Longrightarrow> j \<in> set (jobs st) \<Longrightarrow> \<not> running j \<Longrightarrow> unleased j"
  using queue_okD(3) unfolding jobs_ok_def by blast

lemma job_states:
  assumes "queue_ok st" and "j \<in> set (jobs st)"
  shows "jb_queued_state j = queued_state (jb_role j)" "jb_active_state j = active_state (jb_role j)"
    "distinct (jb_required_resources j)"
  using queue_okD(3) [OF assms(1)] assms(2) unfolding jobs_ok_def by blast+

end
