(* ===== verification/Closing.thy ===== *)
theory Closing
  imports Queue
begin

text \<open>
  Closing an attempt: the change that a commit, a failure, an interruption and an expiry have
  in common, and the proof that it keeps the queue invariant.
\<close>

section \<open>Updating the row with a key\<close>

lemma upd_where_cong:
  "(\<And>r. r \<in> set t \<Longrightarrow> P r = Q r) \<Longrightarrow> upd_where P f t = upd_where Q f t"
  by (simp add: upd_where_def)

lemma del_where_cong:
  "(\<And>r. r \<in> set t \<Longrightarrow> P r = Q r) \<Longrightarrow> del_where P t = del_where Q t"
  by (simp add: del_where_def cong: filter_cong)

lemma set_upd_key:
  assumes "distinct (map key t)" and "r \<in> set t"
  shows "set (upd_where (\<lambda>s. key s = key r) f t) = insert (f r) (set t - {r})"
proof -
  have "\<And>s. s \<in> set t \<Longrightarrow> key s = key r \<longleftrightarrow> s = r"
    using assms by (auto dest: key_unique)
  then show ?thesis using assms(2) by (auto simp: set_upd_where)
qed

section \<open>The change\<close>

text \<open>\<open>closed_row j j'\<close>: the job row after its attempt ended.\<close>

definition closed_row :: "job_row \<Rightarrow> job_row \<Rightarrow> bool" where
  "closed_row j j' \<longleftrightarrow> jb_id j' = jb_id j \<and> jb_item_id j' = jb_item_id j
     \<and> jb_campaign_id j' = jb_campaign_id j \<and> jb_role j' = jb_role j
     \<and> jb_queued_state j' = jb_queued_state j \<and> jb_active_state j' = jb_active_state j
     \<and> jb_required_resources j' = jb_required_resources j
     \<and> jb_attempt_count j' = jb_attempt_count j \<and> \<not> running j' \<and> unleased j'"

definition left_item :: "item_row \<Rightarrow> item_row \<Rightarrow> bool" where
  "left_item i i' \<longleftrightarrow> it_id i' = it_id i \<and> it_campaign_id i' = it_campaign_id i
     \<and> \<not> is_active_state (it_state i')"

definition ended_attempt :: "attempt_row \<Rightarrow> attempt_row \<Rightarrow> bool" where
  "ended_attempt a a' \<longleftrightarrow> at_id a' = at_id a \<and> at_job_id a' = at_job_id a
     \<and> at_number a' = at_number a \<and> at_status a' \<noteq> AttemptRunning"

definition resolved_process :: "process_row \<Rightarrow> process_row \<Rightarrow> bool" where
  "resolved_process p p' \<longleftrightarrow> ep_id p' = ep_id p \<and> ep_attempt_id p' = ep_attempt_id p
     \<and> \<not> unresolved p'"

definition settled_control :: "control_row \<Rightarrow> control_row \<Rightarrow> bool" where
  "settled_control c c' \<longleftrightarrow> oc_id c' = oc_id c \<and> \<not> pending_interrupt c'"

definition closes :: "store \<Rightarrow> job_row \<Rightarrow> store \<Rightarrow> bool" where
  "closes st j st' \<longleftrightarrow>
     campaigns st' = campaigns st \<and> definitions st' = definitions st
     \<and> (\<exists>F. items st' = upd_where (\<lambda>i. it_id i = jb_item_id j) F (items st)
            \<and> (\<forall>i. left_item i (F i)))
     \<and> (\<exists>G. jobs st' = upd_where (\<lambda>k. jb_id k = jb_id j) G (jobs st) \<and> (\<forall>k. closed_row k (G k)))
     \<and> (\<exists>H. attempts st' = upd_where (\<lambda>a. Some (at_id a) = jb_current_attempt_id j) H (attempts st)
            \<and> (\<forall>a. ended_attempt a (H a)))
     \<and> leases st' = del_where (\<lambda>l. ls_job_id l = Some (jb_id j)) (leases st)
     \<and> (\<exists>D K. processes st' = upd_where D K (processes st) \<and> (\<forall>p. resolved_process p (K p))
            \<and> (\<forall>p \<in> set (processes st). unresolved p
                 \<longrightarrow> jb_current_attempt_id j = Some (ep_attempt_id p) \<longrightarrow> D p))
     \<and> (\<exists>C M. controls st' = upd_where C M (controls st) \<and> (\<forall>c. settled_control c (M c))
            \<and> (\<forall>c \<in> set (controls st). pending_interrupt c \<longrightarrow> oc_job_id c = jb_id j \<longrightarrow> C c))"

text \<open>What a closing does to each table, as sets of rows.\<close>

lemma closes_jobs:
  assumes "queue_ok st" "j \<in> set (jobs st)" "closes st j st'"
  obtains j' where "set (jobs st') = insert j' (set (jobs st) - {j})" "closed_row j j'"
    "map jb_id (jobs st') = map jb_id (jobs st)"
    "\<forall>Q. rowcount Q (jobs st') + (if Q j then 1 else 0)
          = rowcount Q (jobs st) + (if Q j' then 1 else 0)"
proof -
  obtain G where G: "jobs st' = upd_where (\<lambda>k. jb_id k = jb_id j) G (jobs st)"
      "\<And>k. closed_row k (G k)"
    using assms(3) by (auto simp: closes_def)
  show ?thesis
  proof (rule that [of "G j"])
    show "set (jobs st') = insert (G j) (set (jobs st) - {j})"
      using set_upd_key [OF key_lists(3) [OF assms(1)] assms(2)] by (simp add: G(1))
    show "closed_row j (G j)" by (rule G(2))
    show "map jb_id (jobs st') = map jb_id (jobs st)"
      unfolding G(1) by (rule map_upd_where) (use G(2) in \<open>auto simp: closed_row_def\<close>)
    show "\<forall>Q. rowcount Q (jobs st') + (if Q j then 1 else 0)
          = rowcount Q (jobs st) + (if Q (G j) then 1 else 0)"
      unfolding G(1) by (rule allI, rule rowcount_upd_key [OF key_lists(3) [OF assms(1)] assms(2)])
  qed
qed

lemma closes_items:
  assumes "queue_ok st" "j \<in> set (jobs st)" "running j" "closes st j st'"
  obtains i i' where "i \<in> set (items st)" "it_id i = jb_item_id j"
    "set (items st') = insert i' (set (items st) - {i})" "left_item i i'"
    "map it_id (items st') = map it_id (items st)"
proof -
  obtain i where i: "i \<in> set (items st)" "it_id i = jb_item_id j"
    using assms(1-3) by (rule running_item)
  obtain F where F: "items st' = upd_where (\<lambda>k. it_id k = it_id i) F (items st)"
      "\<And>k. left_item k (F k)"
    using assms(4) i(2) by (auto simp: closes_def)
  have "set (items st') = insert (F i) (set (items st) - {i})"
    using set_upd_key [OF key_lists(2) [OF assms(1)] i(1)] by (simp add: F(1))
  moreover have "map it_id (items st') = map it_id (items st)"
    unfolding F(1) by (rule map_upd_where) (use F(2) in \<open>auto simp: left_item_def\<close>)
  ultimately show ?thesis using that i F(2) by blast
qed

lemma closes_attempts:
  assumes "queue_ok st" "j \<in> set (jobs st)" "running j" "closes st j st'"
  obtains a a' where "a \<in> set (attempts st)" "attempt_of j a"
    "set (attempts st') = insert a' (set (attempts st) - {a})" "ended_attempt a a'"
    "map at_id (attempts st') = map at_id (attempts st)"
proof -
  obtain a where a: "a \<in> set (attempts st)" "attempt_of j a"
    using assms(1-3) by (rule running_attempt)
  have cur: "jb_current_attempt_id j = Some (at_id a)" using a(2) by (simp add: attempt_of_def)
  obtain H where H: "attempts st' = upd_where (\<lambda>k. at_id k = at_id a) H (attempts st)"
      "\<And>k. ended_attempt k (H k)"
    using assms(4) cur by (auto simp: closes_def)
  have "set (attempts st') = insert (H a) (set (attempts st) - {a})"
    using set_upd_key [OF key_lists(4) [OF assms(1)] a(1)] by (simp add: H(1))
  moreover have "map at_id (attempts st') = map at_id (attempts st)"
    unfolding H(1) by (rule map_upd_where) (use H(2) in \<open>auto simp: ended_attempt_def\<close>)
  ultimately show ?thesis using that a H(2) by blast
qed

lemma closes_processes:
  assumes "closes st j st'"
  shows "map ep_id (processes st') = map ep_id (processes st)"
    and "p \<in> set (processes st') \<Longrightarrow> unresolved p \<Longrightarrow>
      p \<in> set (processes st) \<and> jb_current_attempt_id j \<noteq> Some (ep_attempt_id p)"
proof -
  obtain D K where K: "processes st' = upd_where D K (processes st)"
      "\<And>p. resolved_process p (K p)"
      "\<And>p. p \<in> set (processes st) \<Longrightarrow> unresolved p
         \<Longrightarrow> jb_current_attempt_id j = Some (ep_attempt_id p) \<Longrightarrow> D p"
    using assms unfolding closes_def by blast
  show "map ep_id (processes st') = map ep_id (processes st)"
    unfolding K(1) by (rule map_upd_where) (use K(2) in \<open>auto simp: resolved_process_def\<close>)
  show "p \<in> set (processes st') \<Longrightarrow> unresolved p \<Longrightarrow>
      p \<in> set (processes st) \<and> jb_current_attempt_id j \<noteq> Some (ep_attempt_id p)"
    using K(2,3) unfolding K(1) resolved_process_def
    by (auto simp: set_upd_where split: if_splits)
qed

lemma closes_controls:
  assumes "closes st j st'"
  shows "map oc_id (controls st') = map oc_id (controls st)"
    and "c \<in> set (controls st') \<Longrightarrow> pending_interrupt c \<Longrightarrow>
      c \<in> set (controls st) \<and> oc_job_id c \<noteq> jb_id j"
proof -
  obtain C M where M: "controls st' = upd_where C M (controls st)"
      "\<And>c. settled_control c (M c)"
      "\<And>c. c \<in> set (controls st) \<Longrightarrow> pending_interrupt c \<Longrightarrow> oc_job_id c = jb_id j \<Longrightarrow> C c"
    using assms unfolding closes_def by blast
  show "map oc_id (controls st') = map oc_id (controls st)"
    unfolding M(1) by (rule map_upd_where) (use M(2) in \<open>auto simp: settled_control_def\<close>)
  show "c \<in> set (controls st') \<Longrightarrow> pending_interrupt c \<Longrightarrow>
      c \<in> set (controls st) \<and> oc_job_id c \<noteq> jb_id j"
    using M(2,3) unfolding M(1) settled_control_def
    by (auto simp: set_upd_where split: if_splits)
qed

lemma closes_leases:
  assumes "closes st j st'"
  shows "leases st' = del_where (\<lambda>l. ls_job_id l = Some (jb_id j)) (leases st)"
    and "set (leases st') = {l \<in> set (leases st). ls_job_id l \<noteq> Some (jb_id j)}"
    and "jb_id k \<noteq> jb_id j \<Longrightarrow> job_leases (jb_id k) st' = job_leases (jb_id k) st"
proof -
  show 1: "leases st' = del_where (\<lambda>l. ls_job_id l = Some (jb_id j)) (leases st)"
    using assms by (simp add: closes_def)
  show "set (leases st') = {l \<in> set (leases st). ls_job_id l \<noteq> Some (jb_id j)}"
    by (simp add: 1 set_del_where)
  show "jb_id k \<noteq> jb_id j \<Longrightarrow> job_leases (jb_id k) st' = job_leases (jb_id k) st"
    by (auto simp: job_leases_def 1 del_where_def intro!: filter_cong)
qed

lemma closes_constants:
  "closes st j st' \<Longrightarrow> campaigns st' = campaigns st" "closes st j st' \<Longrightarrow> definitions st' = definitions st"
  by (simp_all add: closes_def)

section \<open>Closing keeps the invariant\<close>

lemma closes_keys:
  assumes "queue_ok st" "j \<in> set (jobs st)" "running j" "closes st j st'"
  shows "keys_ok st'"
proof -
  obtain j' where "map jb_id (jobs st') = map jb_id (jobs st)"
    using assms(1,2,4) by (rule closes_jobs)
  moreover obtain i where "map it_id (items st') = map it_id (items st)"
    using assms by (rule closes_items)
  moreover obtain a where "map at_id (attempts st') = map at_id (attempts st)"
    using assms by (rule closes_attempts)
  moreover have "distinct (map (\<lambda>l. (ls_key l, ls_slot l)) (leases st'))"
    unfolding closes_leases(1) [OF assms(4)]
    by (rule distinct_map_del_where) (rule key_lists(5) [OF assms(1)])
  ultimately show ?thesis
    using key_lists [OF assms(1)] closes_processes(1) [OF assms(4)] closes_controls(1) [OF assms(4)]
      closes_constants [OF assms(4)]
    by (simp add: keys_ok_def)
qed

lemma closes_owners:
  assumes "queue_ok st" "j \<in> set (jobs st)" "running j" "closes st j st'"
  shows "owners_ok st'"
proof -
  obtain j' where j': "set (jobs st') = insert j' (set (jobs st) - {j})" "closed_row j j'"
    using assms(1,2,4) by (rule closes_jobs)
  obtain i i' where i: "i \<in> set (items st)"
      "set (items st') = insert i' (set (items st) - {i})" "left_item i i'"
    using assms by (rule closes_items)
  have img: "(\<lambda>i. (it_id i, it_campaign_id i)) ` set (items st')
      = (\<lambda>i. (it_id i, it_campaign_id i)) ` set (items st)"
    unfolding i(2) using i(1,3) by (auto simp: left_item_def image_iff)
  have "\<And>k. k \<in> set (items st') \<Longrightarrow> it_campaign_id k \<in> cp_id ` set (campaigns st')"
    using queue_okD(2) [OF assms(1)] i closes_constants(1) [OF assms(4)]
    by (auto simp: owners_ok_def left_item_def)
  moreover have "\<And>k. k \<in> set (jobs st') \<Longrightarrow>
      (jb_item_id k, jb_campaign_id k) \<in> (\<lambda>i. (it_id i, it_campaign_id i)) ` set (items st')"
    unfolding img using queue_okD(2) [OF assms(1)] assms(2) j'
    by (auto simp: owners_ok_def closed_row_def)
  ultimately show ?thesis by (simp add: owners_ok_def)
qed

lemma closes_jobs_ok:
  assumes "queue_ok st" "j \<in> set (jobs st)" "running j" "closes st j st'"
  shows "jobs_ok st'"
proof -
  obtain j' where "set (jobs st') = insert j' (set (jobs st) - {j})" "closed_row j j'"
    using assms(1,2,4) by (rule closes_jobs)
  then show ?thesis
    using queue_okD(3) [OF assms(1)] assms(2) unfolding jobs_ok_def closed_row_def by auto
qed

lemma closes_running:
  assumes "queue_ok st" "j \<in> set (jobs st)" "running j" "closes st j st'"
  shows "running_ok st'"
  unfolding running_ok_def
proof (intro ballI impI)
  fix k assume k: "k \<in> set (jobs st')" "running k"
  obtain j' where j': "set (jobs st') = insert j' (set (jobs st) - {j})" "closed_row j j'"
    using assms(1,2,4) by (rule closes_jobs)
  then have old: "k \<in> set (jobs st)" "k \<noteq> j" using k by (auto simp: closed_row_def)
  have ids: "jb_id k \<noteq> jb_id j" using old assms(1,2) job_unique by blast
  have item: "jb_item_id k \<noteq> jb_item_id j"
    using queue_okD(5) [OF assms(1)] old assms(2,3) k(2) unfolding exclusive_ok_def by blast
  have current: "jb_current_attempt_id k \<noteq> jb_current_attempt_id j"
    using same_attempt_same_job [OF assms(1)] old assms(2,3) k(2) by blast
  note rk = queue_okD(4) [OF assms(1), unfolded running_ok_def, rule_format, OF old(1) k(2)]
  obtain i i' where i: "it_id i = jb_item_id j" "set (items st') = insert i' (set (items st) - {i})"
    using assms by (rule closes_items)
  obtain a a' where a: "attempt_of j a" "set (attempts st') = insert a' (set (attempts st) - {a})"
    using assms by (rule closes_attempts)
  have "\<exists>i \<in> set (items st'). it_id i = jb_item_id k \<and> it_state i = jb_active_state k"
    using rk i item by auto
  moreover have "\<exists>a \<in> set (attempts st'). attempt_of k a"
    using rk a current by (auto simp: attempt_of_def)
  ultimately show "(\<exists>i \<in> set (items st'). it_id i = jb_item_id k \<and> it_state i = jb_active_state k)
     \<and> (\<exists>a \<in> set (attempts st'). attempt_of k a)
     \<and> set (map ls_key (job_leases (jb_id k) st')) = set (jb_required_resources k)
     \<and> distinct (map ls_key (job_leases (jb_id k) st'))
     \<and> (\<forall>l \<in> set (job_leases (jb_id k) st'). lease_of k l)"
    using rk closes_leases(3) [OF assms(4) ids] by simp
qed

lemma closes_items_ok:
  assumes "queue_ok st" "j \<in> set (jobs st)" "running j" "closes st j st'"
  shows "items_ok st'" and "exclusive_ok st'"
proof -
  obtain j' where j': "set (jobs st') = insert j' (set (jobs st) - {j})" "closed_row j j'"
    using assms(1,2,4) by (rule closes_jobs)
  obtain i i' where i: "i \<in> set (items st)" "it_id i = jb_item_id j"
      "set (items st') = insert i' (set (items st) - {i})" "left_item i i'"
    using assms by (rule closes_items)
  show "exclusive_ok st'"
    using queue_okD(5) [OF assms(1)] j' unfolding exclusive_ok_def closed_row_def by auto
  show "items_ok st'"
    unfolding items_ok_def
  proof (intro ballI impI)
    fix k assume k: "k \<in> set (items st')" "is_active_state (it_state k)"
    with i have old: "k \<in> set (items st)" "k \<noteq> i" by (auto simp: left_item_def)
    then have "it_id k \<noteq> jb_item_id j" using i(1,2) assms(1) item_unique by metis
    moreover obtain h where "h \<in> set (jobs st)" "running h" "jb_item_id h = it_id k"
      using queue_okD(6) [OF assms(1)] old(1) k(2) unfolding items_ok_def by blast
    ultimately show "\<exists>h \<in> set (jobs st'). running h \<and> jb_item_id h = it_id k"
      using j'(1) by auto
  qed
qed

lemma closes_attempts_ok:
  assumes "queue_ok st" "j \<in> set (jobs st)" "running j" "closes st j st'"
  shows "attempts_ok st'" and "processes_ok st'"
proof -
  obtain j' where j': "set (jobs st') = insert j' (set (jobs st) - {j})" "closed_row j j'"
    using assms(1,2,4) by (rule closes_jobs)
  obtain a a' where a: "a \<in> set (attempts st)" "attempt_of j a"
      "set (attempts st') = insert a' (set (attempts st) - {a})" "ended_attempt a a'"
    using assms by (rule closes_attempts)
  have old: "(at_status b = AttemptRunning \<longrightarrow> (\<exists>h \<in> set (jobs st). running h \<and> attempt_of h b))
      \<and> (\<exists>h \<in> set (jobs st). jb_id h = at_job_id b \<and> at_number b \<le> jb_attempt_count h)"
    if "b \<in> set (attempts st)" for b
    using queue_okD(7) [OF assms(1)] that unfolding attempts_ok_def by blast
  have counted: "\<exists>h \<in> set (jobs st'). jb_id h = at_job_id b \<and> at_number b \<le> jb_attempt_count h"
    if b: "b \<in> set (attempts st)" for b
  proof -
    obtain h where "h \<in> set (jobs st)" "jb_id h = at_job_id b" "at_number b \<le> jb_attempt_count h"
      using old [OF b] by blast
    then show ?thesis using j' by (cases "h = j") (auto simp: closed_row_def)
  qed
  have live: "\<exists>h \<in> set (jobs st'). running h \<and> attempt_of h b"
    if b: "b \<in> set (attempts st)" "b \<noteq> a" "at_status b = AttemptRunning" for b
  proof -
    obtain h where h: "h \<in> set (jobs st)" "running h" "attempt_of h b" using old [OF b(1)] b(3) by blast
    have "h \<noteq> j"
      using h(3) a(1,2) b(1,2) attempt_unique [OF assms(1)] by (auto simp: attempt_of_def)
    with h j'(1) show ?thesis by auto
  qed
  have "(at_status b = AttemptRunning \<longrightarrow> (\<exists>h \<in> set (jobs st'). running h \<and> attempt_of h b))
      \<and> (\<exists>h \<in> set (jobs st'). jb_id h = at_job_id b \<and> at_number b \<le> jb_attempt_count h)"
    if b: "b \<in> set (attempts st')" for b
  proof (cases "b = a'")
    case True
    with a(4) counted [OF a(1)] show ?thesis by (simp add: ended_attempt_def)
  next
    case False
    with b a(3) have "b \<in> set (attempts st)" "b \<noteq> a" by auto
    with counted live show ?thesis by blast
  qed
  then show "attempts_ok st'" by (simp add: attempts_ok_def)
  have "\<exists>b \<in> set (attempts st'). at_id b = ep_attempt_id p \<and> at_status b = AttemptRunning
          \<and> at_job_id b = ep_job_id p"
    if p: "p \<in> set (processes st')" "unresolved p" for p
  proof -
    note q = closes_processes(2) [OF assms(4) p]
    then obtain b where b: "b \<in> set (attempts st)" "at_id b = ep_attempt_id p"
        "at_status b = AttemptRunning" "at_job_id b = ep_job_id p"
      using queue_okD(9) [OF assms(1)] p(2) unfolding processes_ok_def by blast
    with q a(2) have "b \<noteq> a" by (auto simp: attempt_of_def)
    with b a(3) show ?thesis by blast
  qed
  moreover have "p = q" if "p \<in> set (processes st')" "q \<in> set (processes st')"
      "unresolved p" "unresolved q" "ep_attempt_id p = ep_attempt_id q" for p q
    using closes_processes(2) [OF assms(4)] that queue_okD(9) [OF assms(1)]
    unfolding processes_ok_def by blast
  ultimately show "processes_ok st'" unfolding processes_ok_def by blast
qed

lemma closes_leases_ok:
  assumes "queue_ok st" "j \<in> set (jobs st)" "running j" "closes st j st'"
  shows "leases_ok st'" and "controls_ok st'"
proof -
  obtain j' where j': "set (jobs st') = insert j' (set (jobs st) - {j})" "closed_row j j'"
    using assms(1,2,4) by (rule closes_jobs)
  have keep: "\<exists>h \<in> set (jobs st'). running h \<and> jb_id h = i \<and> Q h"
    if "\<exists>h \<in> set (jobs st). running h \<and> jb_id h = i \<and> Q h" "i \<noteq> jb_id j" for i Q
    using that j' by auto
  show "leases_ok st'"
    unfolding leases_ok_def
  proof
    fix l assume "l \<in> set (leases st')"
    then have l: "l \<in> set (leases st)" "ls_job_id l \<noteq> Some (jb_id j)"
      by (simp_all add: closes_leases(2) [OF assms(4)])
    note old = queue_okD(8) [OF assms(1), unfolded leases_ok_def, rule_format, OF l(1)]
    have "case ls_job_id l of None \<Rightarrow> True | Some i \<Rightarrow> \<exists>h \<in> set (jobs st'). running h \<and> jb_id h = i"
      using old l(2) keep [of _ "\<lambda>_. True"] by (auto split: option.splits)
    have defs: "definitions st' = definitions st" by (rule closes_constants(2) [OF assms(4)])
    show "1 \<le> ls_slot l
       \<and> (case ls_job_id l of None \<Rightarrow> True | Some i \<Rightarrow> \<exists>h \<in> set (jobs st'). running h \<and> jb_id h = i)
       \<and> (case ls_definition_id l of None \<Rightarrow> ls_slot l = 1
          | Some i \<Rightarrow> \<exists>d \<in> set (definitions st'). rd_id d = i \<and> i = ls_key l
                        \<and> int (ls_slot l) \<le> rp_limit (rd_policy d))"
      unfolding defs using old \<open>case ls_job_id l of None \<Rightarrow> True | Some i \<Rightarrow> _\<close> by blast
  qed
  have "\<exists>h \<in> set (jobs st'). running h \<and> jb_id h = oc_job_id c
          \<and> jb_current_attempt_id h = Some (oc_source_attempt_id c)"
    if c: "c \<in> set (controls st')" "pending_interrupt c" for c
  proof -
    note d = closes_controls(2) [OF assms(4) c]
    show ?thesis
      using keep [of "oc_job_id c" "\<lambda>h. jb_current_attempt_id h = Some (oc_source_attempt_id c)"]
        d queue_okD(10) [OF assms(1)] c(2) unfolding controls_ok_def by blast
  qed
  moreover have "c = d" if "c \<in> set (controls st')" "d \<in> set (controls st')"
      "pending_interrupt c" "pending_interrupt d" "oc_job_id c = oc_job_id d" for c d
    using closes_controls(2) [OF assms(4)] that queue_okD(10) [OF assms(1)]
    unfolding controls_ok_def by blast
  ultimately show "controls_ok st'" unfolding controls_ok_def by blast
qed

lemma closes_limits:
  assumes "queue_ok st" "j \<in> set (jobs st)" "running j" "closes st j st'"
  shows "limits_ok st'"
proof -
  obtain j' where "set (jobs st') = insert j' (set (jobs st) - {j})" and j': "closed_row j j'"
    and "map jb_id (jobs st') = map jb_id (jobs st)"
    and count: "\<forall>Q. rowcount Q (jobs st') + (if Q j then 1 else 0)
                   = rowcount Q (jobs st) + (if Q j' then 1 else 0)"
    using assms(1,2,4) by (rule closes_jobs)
  have less: "int (rowcount Q (jobs st')) \<le> int (rowcount Q (jobs st))" if "\<not> Q j'" for Q
    using count [rule_format, of Q] that by (simp split: if_splits)
  have stopped: "\<not> running_in c j'" for c
    using j' by (simp add: closed_row_def running_in_def running_def)
  show ?thesis
    unfolding limits_ok_def closes_constants(1) [OF assms(4)]
  proof
    fix c assume "c \<in> set (campaigns st)"
    then have old: "0 \<le> cp_global_limit c"
        "int (rowcount (running_in (cp_id c)) (jobs st)) \<le> cp_global_limit c"
        "\<And>role. 0 \<le> role_limit c role
          \<and> int (rowcount (\<lambda>j. running_in (cp_id c) j \<and> jb_role j = role) (jobs st)) \<le> role_limit c role"
      using queue_okD(11) [OF assms(1)] unfolding limits_ok_def by blast+
    have "int (rowcount (running_in (cp_id c)) (jobs st')) \<le> cp_global_limit c"
      by (rule order_trans [OF less old(2)]) (rule stopped)
    moreover have "int (rowcount (\<lambda>j. running_in (cp_id c) j \<and> jb_role j = role) (jobs st'))
        \<le> role_limit c role" for role
      using stopped old(3) [of role]
      by (intro order_trans [OF less conjunct2 [OF old(3)]]) simp
    ultimately show "0 \<le> cp_global_limit c
      \<and> int (rowcount (running_in (cp_id c)) (jobs st')) \<le> cp_global_limit c
      \<and> (\<forall>role. 0 \<le> role_limit c role
          \<and> int (rowcount (\<lambda>j. running_in (cp_id c) j \<and> jb_role j = role) (jobs st'))
            \<le> role_limit c role)"
      using old(1,3) by simp
  qed
qed

lemma queue_ok_closes:
  assumes "queue_ok st" "j \<in> set (jobs st)" "running j" "closes st j st'"
  shows "queue_ok st'"
  unfolding queue_ok_def
  by (intro conjI closes_keys [OF assms] closes_owners [OF assms] closes_jobs_ok [OF assms]
      closes_running [OF assms] closes_items_ok [OF assms] closes_attempts_ok [OF assms]
      closes_leases_ok [OF assms] closes_limits [OF assms])

end
