(* ===== verification/Opening.thy ===== *)
theory Opening
  imports Closing
begin

text \<open>
  Opening an attempt: the change a claim makes to the store, and the proof that it keeps the
  queue invariant.  A queued item is not active, so no job runs on it, no lease and no running
  attempt belongs to the claimed job, and no interrupt is pending for it.
\<close>

section \<open>The change\<close>

definition opened_row :: "job_row \<Rightarrow> job_row \<Rightarrow> bool" where
  "opened_row j j' \<longleftrightarrow> jb_id j' = jb_id j \<and> jb_item_id j' = jb_item_id j
     \<and> jb_campaign_id j' = jb_campaign_id j \<and> jb_role j' = jb_role j
     \<and> jb_queued_state j' = jb_queued_state j \<and> jb_active_state j' = jb_active_state j
     \<and> jb_required_resources j' = jb_required_resources j
     \<and> jb_attempt_count j \<le> jb_attempt_count j' \<and> running j'"

definition entered_item :: "ItemState \<Rightarrow> item_row \<Rightarrow> item_row \<Rightarrow> bool" where
  "entered_item s i i' \<longleftrightarrow> it_id i' = it_id i \<and> it_campaign_id i' = it_campaign_id i
     \<and> it_state i' = s"

text \<open>A slot the definition of its resource admits; slot 1 when no definition is involved.\<close>

definition slot_ok :: "store \<Rightarrow> lease_row \<Rightarrow> bool" where
  "slot_ok st l \<longleftrightarrow> 1 \<le> ls_slot l
     \<and> (case ls_definition_id l of None \<Rightarrow> ls_slot l = 1
        | Some i \<Rightarrow> (\<exists>d \<in> set (definitions st). rd_id d = i \<and> i = ls_key l
                      \<and> int (ls_slot l) \<le> rp_limit (rd_policy d)))"

definition room_for :: "store \<Rightarrow> job_row \<Rightarrow> bool" where
  "room_for st j \<longleftrightarrow> (\<forall>c \<in> set (campaigns st). cp_id c = jb_campaign_id j \<longrightarrow>
     within_limits c (jb_role j) st)"

definition opens :: "store \<Rightarrow> job_row \<Rightarrow> job_row \<Rightarrow> attempt_row \<Rightarrow> lease_row list \<Rightarrow> store \<Rightarrow> bool" where
  "opens st j j' a rows st' \<longleftrightarrow>
     \<not> running j \<and> opened_row j j' \<and> room_for st j
     \<and> campaigns st' = campaigns st \<and> definitions st' = definitions st \<and> processes st' = processes st
     \<and> (\<exists>i \<in> set (items st). it_id i = jb_item_id j \<and> \<not> is_active_state (it_state i))
     \<and> (\<exists>F. items st' = upd_where (\<lambda>i. it_id i = jb_item_id j) F (items st)
            \<and> (\<forall>i. entered_item (jb_active_state j) i (F i)))
     \<and> (\<exists>G. jobs st' = upd_where (\<lambda>k. jb_id k = jb_id j) G (jobs st) \<and> G j = j'
            \<and> (\<forall>k. jb_id (G k) = jb_id k))
     \<and> attempts st' = attempts st @ [a] \<and> at_id a \<notin> at_id ` set (attempts st)
     \<and> attempt_of j' a \<and> at_number a \<le> jb_attempt_count j'
     \<and> leases st' = leases st @ rows \<and> distinct (map (\<lambda>l. (ls_key l, ls_slot l)) (leases st'))
     \<and> map ls_key rows = jb_required_resources j \<and> (\<forall>l \<in> set rows. lease_of j' l \<and> slot_ok st l)
     \<and> map oc_id (controls st') = map oc_id (controls st)
     \<and> (\<forall>c \<in> set (controls st'). pending_interrupt c \<longrightarrow> c \<in> set (controls st))"

lemma opens_jobs:
  assumes "queue_ok st" "j \<in> set (jobs st)" "opens st j j' a rows st'"
  shows "set (jobs st') = insert j' (set (jobs st) - {j})"
    and "map jb_id (jobs st') = map jb_id (jobs st)"
    and "rowcount Q (jobs st') + (if Q j then 1 else 0) = rowcount Q (jobs st) + (if Q j' then 1 else 0)"
proof -
  obtain G where G: "jobs st' = upd_where (\<lambda>k. jb_id k = jb_id j) G (jobs st)" "G j = j'"
      "\<And>k. jb_id (G k) = jb_id k"
    using assms(3) unfolding opens_def by blast
  show "set (jobs st') = insert j' (set (jobs st) - {j})"
    using set_upd_key [OF key_lists(3) [OF assms(1)] assms(2)] by (simp add: G(1) flip: G(2))
  show "map jb_id (jobs st') = map jb_id (jobs st)"
    unfolding G(1) by (rule map_upd_where) (rule G(3))
  show "rowcount Q (jobs st') + (if Q j then 1 else 0) = rowcount Q (jobs st) + (if Q j' then 1 else 0)"
    unfolding G(1) G(2) [symmetric] by (rule rowcount_upd_key [OF key_lists(3) [OF assms(1)] assms(2)])
qed

lemma opens_items:
  assumes "queue_ok st" "opens st j j' a rows st'"
  obtains i i' where "i \<in> set (items st)" "it_id i = jb_item_id j" "\<not> is_active_state (it_state i)"
    "set (items st') = insert i' (set (items st) - {i})" "entered_item (jb_active_state j) i i'"
    "map it_id (items st') = map it_id (items st)"
proof -
  obtain i where i: "i \<in> set (items st)" "it_id i = jb_item_id j" "\<not> is_active_state (it_state i)"
    using assms(2) unfolding opens_def by blast
  obtain F where F: "items st' = upd_where (\<lambda>k. it_id k = it_id i) F (items st)"
      "\<And>k. entered_item (jb_active_state j) k (F k)"
    using assms(2) unfolding opens_def i(2) by blast
  have "set (items st') = insert (F i) (set (items st) - {i})"
    using set_upd_key [OF key_lists(2) [OF assms(1)] i(1)] by (simp add: F(1))
  moreover have "map it_id (items st') = map it_id (items st)"
    unfolding F(1) by (rule map_upd_where) (use F(2) in \<open>simp add: entered_item_def\<close>)
  ultimately show ?thesis using that i F(2) by blast
qed

lemma opens_parts:
  assumes "opens st j j' a rows st'"
  shows "\<not> running j" "opened_row j j'" "room_for st j" "campaigns st' = campaigns st"
    "definitions st' = definitions st" "processes st' = processes st"
    "attempts st' = attempts st @ [a]" "at_id a \<notin> at_id ` set (attempts st)" "attempt_of j' a"
    "at_number a \<le> jb_attempt_count j'" "leases st' = leases st @ rows"
    "distinct (map (\<lambda>l. (ls_key l, ls_slot l)) (leases st'))"
    "map ls_key rows = jb_required_resources j" "\<And>l. l \<in> set rows \<Longrightarrow> lease_of j' l \<and> slot_ok st l"
    "map oc_id (controls st') = map oc_id (controls st)"
    "\<And>c. c \<in> set (controls st') \<Longrightarrow> pending_interrupt c \<Longrightarrow> c \<in> set (controls st)"
  using assms unfolding opens_def by blast+

lemma opened_rowD:
  assumes "opened_row j j'"
  shows "jb_id j' = jb_id j" "jb_item_id j' = jb_item_id j" "jb_campaign_id j' = jb_campaign_id j"
    "jb_role j' = jb_role j" "jb_queued_state j' = jb_queued_state j"
    "jb_active_state j' = jb_active_state j" "jb_required_resources j' = jb_required_resources j"
    "jb_attempt_count j \<le> jb_attempt_count j'" "running j'"
  using assms by (simp_all add: opened_row_def)

text \<open>A job that runs is another job, on another item.\<close>

lemma opens_other:
  assumes "queue_ok st" "j \<in> set (jobs st)" "opens st j j' a rows st'"
    and "k \<in> set (jobs st)" "running k"
  shows "k \<noteq> j" "jb_id k \<noteq> jb_id j" "jb_item_id k \<noteq> jb_item_id j" "k \<in> set (jobs st')"
proof -
  show kj: "k \<noteq> j" using opens_parts(1) [OF assms(3)] assms(5) by blast
  then show "jb_id k \<noteq> jb_id j" using job_unique [OF assms(1,4,2)] by blast
  obtain i where i: "i \<in> set (items st)" "it_id i = jb_item_id j" "\<not> is_active_state (it_state i)"
    using assms(1,3) by (rule opens_items)
  obtain h where h: "h \<in> set (items st)" "it_id h = jb_item_id k" "it_state h = jb_active_state k"
    using assms(1,4,5) by (rule running_item)
  show "jb_item_id k \<noteq> jb_item_id j"
  proof
    assume "jb_item_id k = jb_item_id j"
    then have "h = i" using item_unique [OF assms(1) h(1) i(1)] h(2) i(2) by simp
    then show False using i(3) h(3) job_states(2) [OF assms(1,4)] by simp
  qed
  show "k \<in> set (jobs st')" using opens_jobs(1) [OF assms(1-3)] assms(4) kj by simp
qed

section \<open>Opening keeps the invariant\<close>

lemma opens_keys:
  assumes "queue_ok st" "j \<in> set (jobs st)" "opens st j j' a rows st'"
  shows "keys_ok st'"
proof -
  obtain i where "map it_id (items st') = map it_id (items st)"
    using assms(1,3) by (rule opens_items)
  then show ?thesis
    using key_lists [OF assms(1)] opens_parts(4-8,12,15) [OF assms(3)] opens_jobs(2) [OF assms]
    by (simp add: keys_ok_def)
qed

lemma opens_owners:
  assumes "queue_ok st" "j \<in> set (jobs st)" "opens st j j' a rows st'"
  shows "owners_ok st'" and "jobs_ok st'"
proof -
  note row = opened_rowD [OF opens_parts(2) [OF assms(3)]]
  obtain i i' where i: "i \<in> set (items st)"
      "set (items st') = insert i' (set (items st) - {i})" "entered_item (jb_active_state j) i i'"
    using assms(1,3) by (rule opens_items)
  have img: "(\<lambda>i. (it_id i, it_campaign_id i)) ` set (items st')
      = (\<lambda>i. (it_id i, it_campaign_id i)) ` set (items st)"
    unfolding i(2) using i(1,3) by (auto simp: entered_item_def image_iff)
  have "\<And>k. k \<in> set (items st') \<Longrightarrow> it_campaign_id k \<in> cp_id ` set (campaigns st')"
    using queue_okD(2) [OF assms(1)] i unfolding opens_parts(4) [OF assms(3)]
    by (auto simp: owners_ok_def entered_item_def)
  moreover have "\<And>k. k \<in> set (jobs st') \<Longrightarrow>
      (jb_item_id k, jb_campaign_id k) \<in> (\<lambda>i. (it_id i, it_campaign_id i)) ` set (items st')"
    unfolding img opens_jobs(1) [OF assms] using queue_okD(2) [OF assms(1)] assms(2) row
    by (auto simp: owners_ok_def)
  ultimately show "owners_ok st'" by (simp add: owners_ok_def)
  show "jobs_ok st'"
    unfolding jobs_ok_def opens_jobs(1) [OF assms]
    using queue_okD(3) [OF assms(1)] assms(2) row unfolding jobs_ok_def by auto
qed

lemma opens_no_leases:
  assumes "queue_ok st" "j \<in> set (jobs st)" "opens st j j' a rows st'" "l \<in> set (leases st)"
  shows "ls_job_id l \<noteq> Some (jb_id j)"
proof
  assume "ls_job_id l = Some (jb_id j)"
  then obtain k where "k \<in> set (jobs st)" "running k" "jb_id k = jb_id j"
    using queue_okD(8) [OF assms(1)] assms(4) unfolding leases_ok_def by fastforce
  with opens_other(2) [OF assms(1-3)] show False by blast
qed

lemma opens_running:
  assumes "queue_ok st" "j \<in> set (jobs st)" "opens st j j' a rows st'"
  shows "running_ok st'"
  unfolding running_ok_def
proof (intro ballI impI)
  fix k assume k: "k \<in> set (jobs st')" "running k"
  note row = opened_rowD [OF opens_parts(2) [OF assms(3)]]
  note parts = opens_parts [OF assms(3)]
  obtain i i' where i: "i \<in> set (items st)" "it_id i = jb_item_id j"
      "set (items st') = insert i' (set (items st) - {i})" "entered_item (jb_active_state j) i i'"
    using assms(1,3) by (rule opens_items)
  show "(\<exists>i \<in> set (items st'). it_id i = jb_item_id k \<and> it_state i = jb_active_state k)
     \<and> (\<exists>a \<in> set (attempts st'). attempt_of k a)
     \<and> set (map ls_key (job_leases (jb_id k) st')) = set (jb_required_resources k)
     \<and> distinct (map ls_key (job_leases (jb_id k) st'))
     \<and> (\<forall>l \<in> set (job_leases (jb_id k) st'). lease_of k l)"
  proof (cases "k = j'")
    case True
    have "filter (\<lambda>l. ls_job_id l = Some (jb_id j)) (leases st) = []"
      using opens_no_leases [OF assms] by (simp add: filter_empty_conv)
    moreover have "filter (\<lambda>l. ls_job_id l = Some (jb_id j)) rows = rows"
      using parts(14) row(1) by (simp add: lease_of_def filter_id_conv)
    ultimately have mine: "job_leases (jb_id j') st' = rows"
      by (simp add: job_leases_def parts(11) row(1))
    have "\<exists>i \<in> set (items st'). it_id i = jb_item_id j' \<and> it_state i = jb_active_state j'"
      using i row by (auto simp: entered_item_def)
    then show ?thesis
      unfolding True mine using parts(7,9,14) row(7) parts(13) job_states(3) [OF assms(1,2)] by simp
  next
    case False
    then have old: "k \<in> set (jobs st)" using k(1) opens_jobs(1) [OF assms] by auto
    note other = opens_other [OF assms old k(2)]
    note rk = queue_okD(4) [OF assms(1), unfolded running_ok_def, rule_format, OF old k(2)]
    have "job_leases (jb_id k) st' = job_leases (jb_id k) st"
      using parts(14) row(1) other(2) by (auto simp: job_leases_def parts(11) lease_of_def filter_empty_conv)
    moreover have "\<exists>i \<in> set (items st'). it_id i = jb_item_id k \<and> it_state i = jb_active_state k"
      using rk i other(3) by auto
    moreover have "\<exists>a \<in> set (attempts st'). attempt_of k a" using rk parts(7) by auto
    ultimately show ?thesis using rk by simp
  qed
qed

lemma opens_exclusive:
  assumes "queue_ok st" "j \<in> set (jobs st)" "opens st j j' a rows st'"
  shows "exclusive_ok st'" and "items_ok st'"
proof -
  note row = opened_rowD [OF opens_parts(2) [OF assms(3)]]
  note js = opens_jobs(1) [OF assms]
  show "exclusive_ok st'"
    unfolding exclusive_ok_def
  proof (intro ballI impI)
    fix h k assume hk: "h \<in> set (jobs st')" "k \<in> set (jobs st')" "running h" "running k"
      "jb_item_id h = jb_item_id k"
    have new: "g = j' \<or> (g \<in> set (jobs st) \<and> jb_item_id g \<noteq> jb_item_id j')"
      if "g \<in> set (jobs st')" "running g" for g
      using that js opens_other(3) [OF assms] row(2) by auto
    then show "h = k"
      using hk new [OF hk(1,3)] new [OF hk(2,4)] queue_okD(5) [OF assms(1)]
      unfolding exclusive_ok_def by metis
  qed
  obtain i i' where i: "it_id i = jb_item_id j"
      "set (items st') = insert i' (set (items st) - {i})" "entered_item (jb_active_state j) i i'"
    using assms(1,3) by (rule opens_items)
  show "items_ok st'"
    unfolding items_ok_def
  proof (intro ballI impI)
    fix k assume k: "k \<in> set (items st')" "is_active_state (it_state k)"
    show "\<exists>h \<in> set (jobs st'). running h \<and> jb_item_id h = it_id k"
    proof (cases "k = i'")
      case True
      then show ?thesis using js row i by (auto simp: entered_item_def)
    next
      case False
      then have "k \<in> set (items st)" using k(1) i(2) by auto
      then obtain h where "h \<in> set (jobs st)" "running h" "jb_item_id h = it_id k"
        using queue_okD(6) [OF assms(1)] k(2) unfolding items_ok_def by blast
      then show ?thesis using opens_other(4) [OF assms] by blast
    qed
  qed
qed

lemma opens_attempts:
  assumes "queue_ok st" "j \<in> set (jobs st)" "opens st j j' a rows st'"
  shows "attempts_ok st'" and "processes_ok st'"
proof -
  note row = opened_rowD [OF opens_parts(2) [OF assms(3)]]
  note parts = opens_parts [OF assms(3)]
  note js = opens_jobs(1) [OF assms]
  have "(at_status b = AttemptRunning \<longrightarrow> (\<exists>h \<in> set (jobs st'). running h \<and> attempt_of h b))
      \<and> (\<exists>h \<in> set (jobs st'). jb_id h = at_job_id b \<and> at_number b \<le> jb_attempt_count h)"
    if b: "b \<in> set (attempts st')" for b
  proof (cases "b = a")
    case True
    then show ?thesis using js row(9) parts(9,10) by (auto simp: attempt_of_def)
  next
    case False
    then have "b \<in> set (attempts st)" using b parts(7) by simp
    then have old: "at_status b = AttemptRunning \<longrightarrow> (\<exists>h \<in> set (jobs st). running h \<and> attempt_of h b)"
        "\<exists>h \<in> set (jobs st). jb_id h = at_job_id b \<and> at_number b \<le> jb_attempt_count h"
      using queue_okD(7) [OF assms(1)] unfolding attempts_ok_def by blast+
    obtain h where h: "h \<in> set (jobs st)" "jb_id h = at_job_id b" "at_number b \<le> jb_attempt_count h"
      using old(2) by blast
    have "\<exists>h \<in> set (jobs st'). jb_id h = at_job_id b \<and> at_number b \<le> jb_attempt_count h"
      using h js row(1,8) by (cases "h = j") (auto intro: order_trans)
    then show ?thesis using old(1) opens_other(4) [OF assms] by blast
  qed
  then show "attempts_ok st'" unfolding attempts_ok_def by blast
  show "processes_ok st'"
    using queue_okD(9) [OF assms(1)] unfolding processes_ok_def parts(6,7) by auto
qed

lemma opens_leases:
  assumes "queue_ok st" "j \<in> set (jobs st)" "opens st j j' a rows st'"
  shows "leases_ok st'" and "controls_ok st'"
proof -
  note row = opened_rowD [OF opens_parts(2) [OF assms(3)]]
  note parts = opens_parts [OF assms(3)]
  have new: "j' \<in> set (jobs st')" using opens_jobs(1) [OF assms] by simp
  show "leases_ok st'"
    unfolding leases_ok_def
  proof
    fix l assume l: "l \<in> set (leases st')"
    show "1 \<le> ls_slot l
       \<and> (case ls_job_id l of None \<Rightarrow> True | Some i \<Rightarrow> \<exists>h \<in> set (jobs st'). running h \<and> jb_id h = i)
       \<and> (case ls_definition_id l of None \<Rightarrow> ls_slot l = 1
          | Some i \<Rightarrow> \<exists>d \<in> set (definitions st'). rd_id d = i \<and> i = ls_key l
                        \<and> int (ls_slot l) \<le> rp_limit (rd_policy d))"
    proof (cases "l \<in> set rows")
      case True
      then show ?thesis
        using parts(14) [OF True] new row(9) unfolding slot_ok_def lease_of_def parts(5) by auto
    next
      case False
      then have "l \<in> set (leases st)" using l parts(11) by simp
      note old = queue_okD(8) [OF assms(1), unfolded leases_ok_def, rule_format, OF this]
      have "case ls_job_id l of None \<Rightarrow> True | Some i \<Rightarrow> \<exists>h \<in> set (jobs st'). running h \<and> jb_id h = i"
        using old opens_other(4) [OF assms] by (auto split: option.splits)
      then show ?thesis unfolding parts(5) using old by blast
    qed
  qed
  have "\<exists>h \<in> set (jobs st'). running h \<and> jb_id h = oc_job_id c
          \<and> jb_current_attempt_id h = Some (oc_source_attempt_id c)"
    if c: "c \<in> set (controls st')" "pending_interrupt c" for c
    using parts(16) [OF c] c(2) queue_okD(10) [OF assms(1)] opens_other(4) [OF assms]
    unfolding controls_ok_def by blast
  moreover have "c = d" if "c \<in> set (controls st')" "d \<in> set (controls st')"
      "pending_interrupt c" "pending_interrupt d" "oc_job_id c = oc_job_id d" for c d
    using parts(16) that queue_okD(10) [OF assms(1)] unfolding controls_ok_def by blast
  ultimately show "controls_ok st'" unfolding controls_ok_def by blast
qed

lemma opens_limits:
  assumes "queue_ok st" "j \<in> set (jobs st)" "opens st j j' a rows st'"
  shows "limits_ok st'"
  unfolding limits_ok_def opens_parts(4) [OF assms(3)]
proof
  fix c assume c: "c \<in> set (campaigns st)"
  note row = opened_rowD [OF opens_parts(2) [OF assms(3)]]
  have old: "0 \<le> cp_global_limit c"
      "int (rowcount (running_in (cp_id c)) (jobs st)) \<le> cp_global_limit c"
      "\<And>role. 0 \<le> role_limit c role
        \<and> int (rowcount (\<lambda>j. running_in (cp_id c) j \<and> jb_role j = role) (jobs st)) \<le> role_limit c role"
    using queue_okD(11) [OF assms(1)] c unfolding limits_ok_def by blast+
  have idle: "\<not> running_in (cp_id c) j"
    using opens_parts(1) [OF assms(3)] by (simp add: running_in_def running_def)
  have count: "rowcount Q (jobs st') = rowcount Q (jobs st) + (if Q j' then 1 else 0)"
    if "\<not> Q j" for Q
    using opens_jobs(3) [OF assms, of Q] that by simp
  have room: "running_in (cp_id c) j' \<Longrightarrow> within_limits c (jb_role j') st"
    using opens_parts(3) [OF assms(3)] c row(3,4) by (auto simp: room_for_def running_in_def)
  have "int (rowcount (running_in (cp_id c)) (jobs st')) \<le> cp_global_limit c"
    using count [of "running_in (cp_id c)"] idle room old(2) by (auto simp: within_limits_def)
  moreover have "int (rowcount (\<lambda>j. running_in (cp_id c) j \<and> jb_role j = role) (jobs st'))
      \<le> role_limit c role" for role
    using count [of "\<lambda>j. running_in (cp_id c) j \<and> jb_role j = role"] idle room old(3) [of role]
    by (auto simp: within_limits_def)
  ultimately show "0 \<le> cp_global_limit c
    \<and> int (rowcount (running_in (cp_id c)) (jobs st')) \<le> cp_global_limit c
    \<and> (\<forall>role. 0 \<le> role_limit c role
        \<and> int (rowcount (\<lambda>j. running_in (cp_id c) j \<and> jb_role j = role) (jobs st'))
          \<le> role_limit c role)"
    using old(1,3) by simp
qed

lemma queue_ok_opens:
  assumes "queue_ok st" "j \<in> set (jobs st)" "opens st j j' a rows st'"
  shows "queue_ok st'"
  unfolding queue_ok_def
  by (intro conjI opens_keys [OF assms] opens_owners [OF assms] opens_running [OF assms]
      opens_exclusive [OF assms] opens_attempts [OF assms] opens_leases [OF assms]
      opens_limits [OF assms])

end
