(* ===== verification/Ends.thy ===== *)
theory Ends
  imports Closing
begin

text \<open>
  Every end of an attempt is a closing: \<open>commit_stage_result\<close> (up to its successor job),
  \<open>fail_job\<close>, \<open>interrupt_job\<close> and the expiry of a lease keep the queue invariant, and expiry
  cannot fail on a running job without an unresolved process.
\<close>

section \<open>The rows an end touches\<close>

lemma upd_where_False: "upd_where (\<lambda>_. False) f t = t"
  by (simp add: upd_where_def)

lemma live_leaseD:
  "live_lease worker token now j \<Longrightarrow> running j \<and> jb_lease_owner j = Some worker
     \<and> jb_lease_token j = Some token"
  by (simp add: live_lease_def running_def)

lemma is_running_attempt_iff:
  assumes "queue_ok st" "j \<in> set (jobs st)" "running j" "a \<in> set (attempts st)"
  shows "is_running_attempt (jb_current_attempt_id j) a \<longleftrightarrow> Some (at_id a) = jb_current_attempt_id j"
proof -
  obtain b where b: "b \<in> set (attempts st)" "attempt_of j b"
    using assms(1-3) by (rule running_attempt)
  show ?thesis
  proof (cases "Some (at_id a) = jb_current_attempt_id j")
    case True
    then have "a = b"
      using attempt_unique [OF assms(1,4) b(1)] b(2) by (simp add: attempt_of_def)
    with b(2) True show ?thesis by (simp add: is_running_attempt_def attempt_of_def)
  next
    case False
    then show ?thesis by (simp add: is_running_attempt_def eq_commute)
  qed
qed

lemma rowcount_running_attempt:
  assumes "queue_ok st" "j \<in> set (jobs st)" "running j"
  shows "rowcount (is_running_attempt (jb_current_attempt_id j)) (attempts st) = 1"
proof -
  obtain b where b: "b \<in> set (attempts st)" "attempt_of j b"
    using assms by (rule running_attempt)
  have "rowcount (is_running_attempt (jb_current_attempt_id j)) (attempts st)
      = rowcount (\<lambda>a. at_id a = at_id b \<and> True) (attempts st)"
  proof (rule rowcount_cong)
    fix a assume "a \<in> set (attempts st)"
    then have "is_running_attempt (jb_current_attempt_id j) a \<longleftrightarrow> Some (at_id a) = jb_current_attempt_id j"
      by (rule is_running_attempt_iff [OF assms])
    moreover have "jb_current_attempt_id j = Some (at_id b)" using b(2) by (simp add: attempt_of_def)
    ultimately show "is_running_attempt (jb_current_attempt_id j) a = (at_id a = at_id b \<and> True)"
      by simp
  qed
  also have "\<dots> = 1" by (rule rowcount_key_eq_1 [OF key_lists(4) [OF assms(1)] b(1)]) simp
  finally show ?thesis .
qed

lemma in_state_iff:
  assumes "queue_ok st" "j \<in> set (jobs st)" "running j" "i \<in> set (items st)"
  shows "in_state (jb_item_id j) (jb_active_state j) i \<longleftrightarrow> it_id i = jb_item_id j"
proof -
  obtain k where k: "k \<in> set (items st)" "it_id k = jb_item_id j" "it_state k = jb_active_state j"
    using assms(1-3) by (rule running_item)
  show ?thesis
  proof (cases "it_id i = jb_item_id j")
    case True
    then have "i = k" using item_unique [OF assms(1,4) k(1)] k(2) by simp
    with k(3) True show ?thesis by (simp add: in_state_def)
  next
    case False
    then show ?thesis by (simp add: in_state_def)
  qed
qed

lemma rowcount_in_state:
  assumes "queue_ok st" "j \<in> set (jobs st)" "running j"
  shows "rowcount (in_state (jb_item_id j) (jb_active_state j)) (items st) = 1"
proof -
  obtain k where k: "k \<in> set (items st)" "it_id k = jb_item_id j"
    using assms by (rule running_item)
  have "rowcount (in_state (jb_item_id j) (jb_active_state j)) (items st)
      = rowcount (\<lambda>i. it_id i = it_id k \<and> True) (items st)"
    by (rule rowcount_cong) (use k in_state_iff [OF assms] in auto)
  also have "\<dots> = 1" by (rule rowcount_key_eq_1 [OF key_lists(2) [OF assms(1)] k(1)]) simp
  finally show ?thesis .
qed

lemma rowcount_this_job:
  assumes "queue_ok st" "j \<in> set (jobs st)" "Q j"
  shows "rowcount (\<lambda>k. jb_id k = jb_id j \<and> Q k) (jobs st) = 1"
  using key_lists(3) [OF assms(1)] assms(2,3) by (rule rowcount_key_eq_1)

lemma fenced_lease_iff:
  assumes "queue_ok st" "j \<in> set (jobs st)" "running j" "l \<in> set (leases st)"
  shows "fenced_lease j l \<longleftrightarrow> ls_job_id l = Some (jb_id j)"
  using running_lease [OF assms] by (auto simp: fenced_lease_def lease_of_def)

lemma rowcount_job_leases:
  assumes "queue_ok st" "j \<in> set (jobs st)" "running j"
    and "\<And>l. l \<in> set (leases st) \<Longrightarrow> L l \<longleftrightarrow> ls_job_id l = Some (jb_id j)"
  shows "rowcount L (leases st) = length (jb_required_resources j)"
proof -
  have "rowcount L (leases st) = length (job_leases (jb_id j) st)"
    unfolding rowcount_def job_leases_def using assms(4) by (simp cong: filter_cong)
  then show ?thesis using running_lease_count [OF assms(1-3)] by simp
qed

section \<open>Closing, table by table\<close>

definition resolves :: "string option \<Rightarrow> process_row list \<Rightarrow> process_row list \<Rightarrow> bool" where
  "resolves attempt t t' \<longleftrightarrow> (\<exists>D K. t' = upd_where D K t \<and> (\<forall>p. resolved_process p (K p))
     \<and> (\<forall>p \<in> set t. unresolved p \<longrightarrow> attempt = Some (ep_attempt_id p) \<longrightarrow> D p))"

definition settles :: "string \<Rightarrow> control_row list \<Rightarrow> control_row list \<Rightarrow> bool" where
  "settles job_id t t' \<longleftrightarrow> (\<exists>C M. t' = upd_where C M t \<and> (\<forall>c. settled_control c (M c))
     \<and> (\<forall>c \<in> set t. pending_interrupt c \<longrightarrow> oc_job_id c = job_id \<longrightarrow> C c))"

lemma resolves_same:
  assumes "\<And>p. p \<in> set t \<Longrightarrow> attempt = Some (ep_attempt_id p) \<Longrightarrow> ep_state p = ProcStopped"
  shows "resolves attempt t t"
proof -
  let ?K = "\<lambda>p::process_row. p\<lparr>ep_state := ProcStopped\<rparr>"
  have "\<forall>p. resolved_process p (?K p)" by (simp add: resolved_process_def unresolved_def)
  moreover have "t = upd_where (\<lambda>_. False) ?K t" by (simp add: upd_where_False)
  moreover have "\<forall>p \<in> set t. unresolved p \<longrightarrow> attempt = Some (ep_attempt_id p) \<longrightarrow> False"
    using assms by (auto simp: unresolved_def)
  ultimately show ?thesis unfolding resolves_def by blast
qed

lemma settles_same:
  assumes "\<And>c. c \<in> set t \<Longrightarrow> pending_interrupt c \<Longrightarrow> oc_job_id c \<noteq> job_id"
  shows "settles job_id t t"
proof -
  let ?M = "\<lambda>c::control_row. c\<lparr>oc_status := CtlRejected\<rparr>"
  have "\<forall>c. settled_control c (?M c)" by (simp add: settled_control_def pending_interrupt_def)
  moreover have "t = upd_where (\<lambda>_. False) ?M t" by (simp add: upd_where_False)
  moreover have "\<forall>c \<in> set t. pending_interrupt c \<longrightarrow> oc_job_id c = job_id \<longrightarrow> False"
    using assms by auto
  ultimately show ?thesis unfolding settles_def by blast
qed

lemma closesI:
  assumes ok: "queue_ok st" "j \<in> set (jobs st)" "running j"
    and tables: "campaigns st' = campaigns st" "definitions st' = definitions st"
    and items: "items st' = upd_where (in_state (jb_item_id j) (jb_active_state j))
        (\<lambda>i. i\<lparr>it_state := s, it_updated_at := now\<rparr>) (items st)" "\<not> is_active_state s"
    and jobs: "jobs st' = upd_where P G (jobs st)" "\<And>k. closed_row k (G k)"
      "\<And>k. k \<in> set (jobs st) \<Longrightarrow> P k \<longleftrightarrow> jb_id k = jb_id j"
    and attempts: "attempts st' = upd_where (is_running_attempt (jb_current_attempt_id j)) H (attempts st)"
      "\<And>a. ended_attempt a (H a)"
    and leases: "leases st' = del_where L (leases st)"
      "\<And>l. l \<in> set (leases st) \<Longrightarrow> L l \<longleftrightarrow> ls_job_id l = Some (jb_id j)"
    and processes: "resolves (jb_current_attempt_id j) (processes st) (processes st')"
    and controls: "settles (jb_id j) (controls st) (controls st')"
  shows "closes st j st'"
proof -
  have "items st' = upd_where (\<lambda>i. it_id i = jb_item_id j)
      (\<lambda>i. i\<lparr>it_state := s, it_updated_at := now\<rparr>) (items st)"
    unfolding items(1) by (rule upd_where_cong) (rule in_state_iff [OF ok])
  moreover have "\<forall>i. left_item i (i\<lparr>it_state := s, it_updated_at := now\<rparr>)"
    using items(2) by (simp add: left_item_def)
  moreover have "jobs st' = upd_where (\<lambda>k. jb_id k = jb_id j) G (jobs st)"
    unfolding jobs(1) by (rule upd_where_cong) (rule jobs(3))
  moreover have "attempts st' = upd_where (\<lambda>a. Some (at_id a) = jb_current_attempt_id j) H (attempts st)"
    unfolding attempts(1) by (rule upd_where_cong) (rule is_running_attempt_iff [OF ok])
  moreover have "leases st' = del_where (\<lambda>l. ls_job_id l = Some (jb_id j)) (leases st)"
    unfolding leases(1) by (rule del_where_cong) (rule leases(2))
  ultimately show ?thesis
    unfolding closes_def using tables jobs(2) attempts(2) processes controls
    unfolding resolves_def settles_def by blast
qed

lemma closed_row_unlease:
  "status \<noteq> JobRunning \<Longrightarrow> closed_row k (unlease status now k)"
  "status \<noteq> JobRunning \<Longrightarrow> closed_row k ((unlease status now k)\<lparr>jb_result := r\<rparr>)"
  "status \<noteq> JobRunning \<Longrightarrow> closed_row k ((unlease status now k)\<lparr>jb_result := r, jb_last_error := e,
     jb_available_at := t\<rparr>)"
  "status \<noteq> JobRunning \<Longrightarrow> closed_row k ((unlease status now k)\<lparr>jb_last_error := e,
     jb_available_at := t\<rparr>)"
  "status \<noteq> JobRunning \<Longrightarrow> closed_row k ((unlease status now k)\<lparr>jb_available_at := t,
     jb_last_error := e\<rparr>)"
  by (simp_all add: closed_row_def unlease_def running_def unleased_def)

lemma ended_attempt_simps:
  "s \<noteq> AttemptRunning \<Longrightarrow> ended_attempt a (a\<lparr>at_result := r, at_status := s, at_finished_at := t\<rparr>)"
  "s \<noteq> AttemptRunning \<Longrightarrow> ended_attempt a (a\<lparr>at_error := e, at_status := s, at_finished_at := t\<rparr>)"
  "s \<noteq> AttemptRunning \<Longrightarrow> ended_attempt a (a\<lparr>at_result := r, at_error := e, at_status := s,
     at_finished_at := t\<rparr>)"
  by (simp_all add: ended_attempt_def)

lemma no_pending_settles:
  "assert_no_pending_operator_interrupt job_id st = Inr u \<Longrightarrow>
     settles job_id (controls st) (controls st)"
  by (rule settles_same)
    (auto simp: assert_no_pending_operator_interrupt_def pending_interrupt_def list_ex_iff)

lemma stopped_resolves:
  "assert_external_process_stopped j st = Inr () \<Longrightarrow>
     resolves (jb_current_attempt_id j) (processes st) (processes st)"
  by (rule resolves_same) (auto intro: assert_external_process_stopped_Inr)


section \<open>The four ends\<close>

lemma find_job_in: "queue_ok st \<Longrightarrow> find_job i st = Some j \<Longrightarrow> j \<in> set (jobs st) \<and> jb_id j = i"
  by (simp add: find_job_iff)

lemma token_lease_iff:
  assumes "queue_ok st" "j \<in> set (jobs st)" "live_lease worker token now j" "l \<in> set (leases st)"
  shows "ls_job_id l = Some (jb_id j) \<and> ls_token l = token \<longleftrightarrow> ls_job_id l = Some (jb_id j)"
    and "ls_job_id l = Some (jb_id j) \<and> ls_owner l = worker \<and> ls_token l = token
         \<longleftrightarrow> ls_job_id l = Some (jb_id j)"
proof -
  note live = live_leaseD [OF assms(3)]
  have "ls_owner l = worker \<and> ls_token l = token" if "ls_job_id l = Some (jb_id j)"
    using running_lease [OF assms(1,2) _ assms(4) that] live by (simp add: lease_of_def)
  then show "ls_job_id l = Some (jb_id j) \<and> ls_token l = token \<longleftrightarrow> ls_job_id l = Some (jb_id j)"
    "ls_job_id l = Some (jb_id j) \<and> ls_owner l = worker \<and> ls_token l = token
         \<longleftrightarrow> ls_job_id l = Some (jb_id j)" by auto
qed

lemma settles_one:
  assumes "queue_ok st" "c \<in> set (controls st)" "pending_interrupt c" "oc_job_id c = job_id"
    and "\<And>r. settled_control r (M r)"
  shows "settles job_id (controls st)
    (upd_where (\<lambda>r. oc_id r = oc_id c \<and> oc_status r = CtlPending) M (controls st))"
proof -
  have "oc_id r = oc_id c \<and> oc_status r = CtlPending"
    if "r \<in> set (controls st)" "pending_interrupt r" "oc_job_id r = job_id" for r
  proof -
    have "r = c"
      using queue_okD(10) [OF assms(1)] that assms(2-4) unfolding controls_ok_def by blast
    with assms(3) show ?thesis by (simp add: pending_interrupt_def)
  qed
  with assms(5) show ?thesis unfolding settles_def by blast
qed

text \<open>What interrupting a job writes.\<close>

lemma interrupt_job_tables:
  assumes "interrupt_job W job_id worker token reason rid now st = Inr st'"
  obtains job where "find_job job_id st = Some job" "live_lease worker token now job"
    "assert_external_process_stopped job st = Inr ()"
    "campaigns st' = campaigns st" "definitions st' = definitions st"
    "processes st' = processes st"
    "items st' = upd_where (in_state (jb_item_id job) (jb_active_state job))
      (\<lambda>i. i\<lparr>it_state := jb_queued_state job, it_updated_at := now\<rparr>) (items st)"
    "jobs st' = upd_where (\<lambda>k. jb_id k = job_id)
      (\<lambda>k. (unlease JobPending now k)\<lparr>jb_last_error := Some reason, jb_available_at := now\<rparr>) (jobs st)"
    "attempts st' = upd_where (is_running_attempt (jb_current_attempt_id job))
      (\<lambda>a. a\<lparr>at_error := Some reason, at_status := AttemptInterrupted, at_finished_at := Some now\<rparr>)
      (attempts st)"
    "leases st' = del_where (\<lambda>l. ls_job_id l = Some job_id \<and> ls_token l = token) (leases st)"
    "case rid of
       None \<Rightarrow> assert_no_pending_operator_interrupt job_id st = Inr () \<and> controls st' = controls st
     | Some r \<Rightarrow> \<exists>c. assert_operator_interrupt_request W r job worker token True st = Inr c
         \<and> reason = oc_reason c
         \<and> controls st' = upd_where (\<lambda>k. oc_id k = r \<and> oc_status k = CtlPending)
             (\<lambda>k. k\<lparr>oc_status := CtlApplied, oc_target_attempt_id := jb_current_attempt_id job,
                oc_applied_at := Some now\<rparr>) (controls st)"
proof -
  from assms obtain job where job: "find_job job_id st = Some job" "live_lease worker token now job"
    and stopped: "assert_external_process_stopped job st = Inr ()"
    unfolding interrupt_job_def Let_def by auto
  show ?thesis
  proof (cases rid)
    case None
    with assms job stopped show ?thesis
      by (intro that [of job]) (auto simp: interrupt_job_def Let_def move_item_def finish_attempt_def)
  next
    case (Some r)
    with assms job stopped show ?thesis
      by (intro that [of job]) (auto simp: interrupt_job_def Let_def move_item_def finish_attempt_def)
  qed
qed

lemma interrupt_job_closes:
  assumes ok: "queue_ok st" and run: "interrupt_job W job_id worker token reason rid now st = Inr st'"
  shows "\<exists>j. find_job job_id st = Some j \<and> live_lease worker token now j \<and> closes st j st'"
proof -
  from run obtain job where job: "find_job job_id st = Some job" "live_lease worker token now job"
    and stopped: "assert_external_process_stopped job st = Inr ()"
    and tables: "campaigns st' = campaigns st" "definitions st' = definitions st"
    "processes st' = processes st"
    "items st' = upd_where (in_state (jb_item_id job) (jb_active_state job))
      (\<lambda>i. i\<lparr>it_state := jb_queued_state job, it_updated_at := now\<rparr>) (items st)"
    "jobs st' = upd_where (\<lambda>k. jb_id k = job_id)
      (\<lambda>k. (unlease JobPending now k)\<lparr>jb_last_error := Some reason, jb_available_at := now\<rparr>) (jobs st)"
    "attempts st' = upd_where (is_running_attempt (jb_current_attempt_id job))
      (\<lambda>a. a\<lparr>at_error := Some reason, at_status := AttemptInterrupted, at_finished_at := Some now\<rparr>)
      (attempts st)"
    "leases st' = del_where (\<lambda>l. ls_job_id l = Some job_id \<and> ls_token l = token) (leases st)"
    and request: "case rid of
       None \<Rightarrow> assert_no_pending_operator_interrupt job_id st = Inr () \<and> controls st' = controls st
     | Some r \<Rightarrow> \<exists>c. assert_operator_interrupt_request W r job worker token True st = Inr c
         \<and> reason = oc_reason c
         \<and> controls st' = upd_where (\<lambda>k. oc_id k = r \<and> oc_status k = CtlPending)
             (\<lambda>k. k\<lparr>oc_status := CtlApplied, oc_target_attempt_id := jb_current_attempt_id job,
                oc_applied_at := Some now\<rparr>) (controls st)"
    by (rule interrupt_job_tables)
  have j: "job \<in> set (jobs st)" "jb_id job = job_id" "running job"
    using find_job_in [OF ok job(1)] live_leaseD [OF job(2)] by auto
  have control: "settles job_id (controls st) (controls st')"
  proof (cases rid)
    case None
    with request show ?thesis by (auto intro: no_pending_settles)
  next
    case (Some r)
    with request obtain c where c: "assert_operator_interrupt_request W r job worker token True st = Inr c"
      and eq: "controls st' = upd_where (\<lambda>k. oc_id k = r \<and> oc_status k = CtlPending)
             (\<lambda>k. k\<lparr>oc_status := CtlApplied, oc_target_attempt_id := jb_current_attempt_id job,
                oc_applied_at := Some now\<rparr>) (controls st)"
      by auto
    have c': "c \<in> set (controls st)" "oc_id c = r" "pending_interrupt c" "oc_job_id c = job_id"
      using c j(2) by (auto simp: assert_operator_interrupt_request_def pending_interrupt_def
          dest: find_SomeD)
    from settles_one [OF ok c'(1,3,4), where M = "\<lambda>k. k\<lparr>oc_status := CtlApplied,
        oc_target_attempt_id := jb_current_attempt_id job, oc_applied_at := Some now\<rparr>"]
    show ?thesis unfolding eq by (simp add: c'(2) settled_control_def pending_interrupt_def)
  qed
  have "closes st job st'"
  proof (rule closesI [OF ok j(1,3) tables(1,2,4) _ tables(5) _ _ tables(6) _ tables(7)])
    show "resolves (jb_current_attempt_id job) (processes st) (processes st')"
      unfolding tables(3) by (rule stopped_resolves [OF stopped])
  qed (use control j(2) token_lease_iff(1) [OF ok j(1) job(2)] job_states(1) [OF ok j(1)] in
      \<open>auto intro: closed_row_unlease ended_attempt_simps\<close>)
  with job show ?thesis by blast
qed

lemma worktree_quarantined_reads [simp]:
  "worktree_quarantined j (st\<lparr>attempts := x\<rparr>) = worktree_quarantined j st"
  "worktree_quarantined j (end_executions k s r n a st) = worktree_quarantined j st"
  by (simp_all add: worktree_quarantined_def cong: option.case_cong)

text \<open>What failing a job writes.\<close>

lemma fail_job_tables:
  assumes "fail_job W job_id worker token error result requeue available max_attempts
      blocked_state now st = Inr (st', requeued)"
  obtains job where "find_job job_id st = Some job" "live_lease worker token now job"
    "assert_no_pending_operator_interrupt job_id st = Inr ()"
    "assert_external_process_stopped job st = Inr ()"
    "campaigns st' = campaigns st" "definitions st' = definitions st"
    "processes st' = processes st" "controls st' = controls st"
    "items st' = upd_where (in_state (jb_item_id job) (jb_active_state job))
      (\<lambda>i. i\<lparr>it_state := if requeued then jb_queued_state job else blocked_state,
            it_updated_at := now\<rparr>) (items st)"
    "jobs st' = upd_where (\<lambda>j. jb_id j = job_id)
      (\<lambda>j. (unlease (if requeued then JobPending else JobFailed) now j)
           \<lparr>jb_result := Some (ResultJson (JObj result)), jb_last_error := Some error,
            jb_available_at := or_default available now\<rparr>) (jobs st)"
    "attempts st' = upd_where (is_running_attempt (jb_current_attempt_id job))
      (\<lambda>a. a\<lparr>at_result := Some (ResultJson (JObj result)), at_error := Some error,
            at_status := AttemptFailed, at_finished_at := Some now\<rparr>) (attempts st)"
    "leases st' = del_where (\<lambda>l. ls_job_id l = Some job_id \<and> ls_token l = token) (leases st)"
    "requeued = (requeue \<and> int (failed_attempts job_id (st\<lparr>attempts := attempts st'\<rparr>)) < max_attempts
      \<and> \<not> worktree_quarantined job st)"
proof -
  let ?goal = "\<lambda>(st', requeued). \<exists>job. find_job job_id st = Some job \<and> live_lease worker token now job
    \<and> assert_no_pending_operator_interrupt job_id st = Inr ()
    \<and> assert_external_process_stopped job st = Inr ()
    \<and> campaigns st' = campaigns st \<and> definitions st' = definitions st
    \<and> processes st' = processes st \<and> controls st' = controls st
    \<and> items st' = upd_where (in_state (jb_item_id job) (jb_active_state job))
      (\<lambda>i. i\<lparr>it_state := if requeued then jb_queued_state job else blocked_state,
            it_updated_at := now\<rparr>) (items st)
    \<and> jobs st' = upd_where (\<lambda>j. jb_id j = job_id)
      (\<lambda>j. (unlease (if requeued then JobPending else JobFailed) now j)
           \<lparr>jb_result := Some (ResultJson (JObj result)), jb_last_error := Some error,
            jb_available_at := or_default available now\<rparr>) (jobs st)
    \<and> attempts st' = upd_where (is_running_attempt (jb_current_attempt_id job))
      (\<lambda>a. a\<lparr>at_result := Some (ResultJson (JObj result)), at_error := Some error,
            at_status := AttemptFailed, at_finished_at := Some now\<rparr>) (attempts st)
    \<and> leases st' = del_where (\<lambda>l. ls_job_id l = Some job_id \<and> ls_token l = token) (leases st)
    \<and> requeued = (requeue \<and> int (failed_attempts job_id (st\<lparr>attempts := attempts st'\<rparr>)) < max_attempts
      \<and> \<not> worktree_quarantined job st)"
  have "wpR ?goal (fail_job W job_id worker token error result requeue available max_attempts
      blocked_state now st)"
    unfolding fail_job_def Let_def
    by (intro wp_intros) (simp add: move_item_def finish_attempt_def failed_attempts_def)
  from wpD [OF this assms] show ?thesis using that by auto
qed

lemma fail_job_closes:
  assumes ok: "queue_ok st" and blocked: "\<not> is_active_state blocked_state"
    and run: "fail_job W job_id worker token error result requeue available max_attempts
      blocked_state now st = Inr (st', requeued)"
  shows "\<exists>j. find_job job_id st = Some j \<and> live_lease worker token now j \<and> closes st j st'"
proof -
  from run obtain job where job: "find_job job_id st = Some job" "live_lease worker token now job"
    and pending: "assert_no_pending_operator_interrupt job_id st = Inr ()"
    and stopped: "assert_external_process_stopped job st = Inr ()"
    and tables: "campaigns st' = campaigns st" "definitions st' = definitions st"
    "processes st' = processes st" "controls st' = controls st"
    "items st' = upd_where (in_state (jb_item_id job) (jb_active_state job))
      (\<lambda>i. i\<lparr>it_state := if requeued then jb_queued_state job else blocked_state,
            it_updated_at := now\<rparr>) (items st)"
    "jobs st' = upd_where (\<lambda>j. jb_id j = job_id)
      (\<lambda>j. (unlease (if requeued then JobPending else JobFailed) now j)
           \<lparr>jb_result := Some (ResultJson (JObj result)), jb_last_error := Some error,
            jb_available_at := or_default available now\<rparr>) (jobs st)"
    "attempts st' = upd_where (is_running_attempt (jb_current_attempt_id job))
      (\<lambda>a. a\<lparr>at_result := Some (ResultJson (JObj result)), at_error := Some error,
            at_status := AttemptFailed, at_finished_at := Some now\<rparr>) (attempts st)"
    "leases st' = del_where (\<lambda>l. ls_job_id l = Some job_id \<and> ls_token l = token) (leases st)"
    by (rule fail_job_tables)
  have j: "job \<in> set (jobs st)" "jb_id job = job_id" "running job"
    using find_job_in [OF ok job(1)] live_leaseD [OF job(2)] by auto
  have active: "\<not> is_active_state (if requeued then jb_queued_state job else blocked_state)"
    using blocked job_states(1) [OF ok j(1)] by simp
  have "closes st job st'"
  proof (rule closesI [OF ok j(1,3) tables(1,2,5) active tables(6) _ _ tables(7) _ tables(8)])
    show "resolves (jb_current_attempt_id job) (processes st) (processes st')"
      unfolding tables(3) by (rule stopped_resolves [OF stopped])
    show "settles (jb_id job) (controls st) (controls st')"
      unfolding tables(4) j(2) by (rule no_pending_settles [OF pending])
  qed (use j(2) token_lease_iff(1) [OF ok j(1) job(2)] in
      \<open>auto intro: closed_row_unlease ended_attempt_simps\<close>)
  with job show ?thesis by blast
qed

lemma finish_job_closes:
  assumes ok: "queue_ok st" and j: "job \<in> set (jobs st)" and live: "live_lease worker token now job"
    and pending: "assert_no_pending_operator_interrupt (jb_id job) st = Inr ()"
    and moved: "move_item (jb_item_id job) (jb_active_state job) s now st = Inr st1"
    and active: "\<not> is_active_state s"
    and run: "finish_job W job worker token result now st1 = Inr st'"
  shows "closes st job st'"
proof -
  have r: "running job" using live_leaseD [OF live] by simp
  have st1: "jobs st1 = jobs st" "attempts st1 = attempts st" "leases st1 = leases st"
    "campaigns st1 = campaigns st" "definitions st1 = definitions st"
    "processes st1 = processes st" "controls st1 = controls st"
    "items st1 = upd_where (in_state (jb_item_id job) (jb_active_state job))
      (\<lambda>i. i\<lparr>it_state := s, it_updated_at := now\<rparr>) (items st)"
    using moved by (auto simp: move_item_def)
  have stopped: "assert_external_process_stopped job st1 = Inr ()"
    using run by (simp add: finish_job_def)
  have tables: "campaigns st' = campaigns st" "definitions st' = definitions st"
    "processes st' = processes st" "controls st' = controls st" "items st' = items st1"
    "jobs st' = upd_where (\<lambda>j. jb_id j = jb_id job \<and> jb_status j = JobRunning
                   \<and> jb_lease_owner j = Some worker \<and> jb_lease_token j = Some token)
      (\<lambda>j. (unlease JobCompleted now j)\<lparr>jb_result := Some (ResultHandoff result)\<rparr>) (jobs st)"
    "attempts st' = upd_where (is_running_attempt (jb_current_attempt_id job))
      (\<lambda>a. a\<lparr>at_result := Some (ResultHandoff result), at_status := AttemptSucceeded,
            at_finished_at := Some now\<rparr>) (attempts st)"
    "leases st' = del_where (\<lambda>l. ls_job_id l = Some (jb_id job) \<and> ls_owner l = worker
       \<and> ls_token l = token) (leases st)"
    using run st1 by (auto simp: finish_job_def Let_def finish_attempt_def)
  have match: "jb_id k = jb_id job \<and> jb_status k = JobRunning \<and> jb_lease_owner k = Some worker
      \<and> jb_lease_token k = Some token \<longleftrightarrow> jb_id k = jb_id job" if "k \<in> set (jobs st)" for k
    using job_unique [OF ok that j] live_leaseD [OF live] by (auto simp: running_def)
  show ?thesis
  proof (rule closesI [OF ok j r tables(1,2) _ active tables(6) _ match tables(7) _ tables(8)])
    show "items st' = upd_where (in_state (jb_item_id job) (jb_active_state job))
      (\<lambda>i. i\<lparr>it_state := s, it_updated_at := now\<rparr>) (items st)"
      by (simp add: tables(5) st1)
    show "resolves (jb_current_attempt_id job) (processes st) (processes st')"
      using stopped_resolves [OF stopped] by (simp add: tables(3) st1)
    show "settles (jb_id job) (controls st) (controls st')"
      unfolding tables(4) by (rule no_pending_settles [OF pending])
  qed (use token_lease_iff(2) [OF ok j live] in
      \<open>auto intro: closed_row_unlease ended_attempt_simps\<close>)
qed

text \<open>
  Expiry, on a store in which the processes of the attempt may just have been resolved: it
  succeeds, and it closes the attempt.
\<close>

definition resolved_store :: "store \<Rightarrow> job_row \<Rightarrow> store \<Rightarrow> bool" where
  "resolved_store st j st0 \<longleftrightarrow> campaigns st0 = campaigns st \<and> definitions st0 = definitions st
     \<and> items st0 = items st \<and> jobs st0 = jobs st \<and> attempts st0 = attempts st
     \<and> leases st0 = leases st \<and> controls st0 = controls st
     \<and> resolves (jb_current_attempt_id j) (processes st) (processes st0)"

lemma reject_pending_interrupt_runs:
  assumes ok: "queue_ok st" and j: "job \<in> set (jobs st)" and st0: "controls st0 = controls st"
  shows "\<exists>st1. reject_pending_interrupt job error now st0 = Inr st1
    \<and> campaigns st1 = campaigns st0 \<and> definitions st1 = definitions st0
    \<and> items st1 = items st0 \<and> jobs st1 = jobs st0 \<and> attempts st1 = attempts st0
    \<and> leases st1 = leases st0 \<and> processes st1 = processes st0
    \<and> settles (jb_id job) (controls st) (controls st1)"
proof (cases "find (pending_control ActInterrupt (jb_id job)) (controls st)")
  case None
  then have "settles (jb_id job) (controls st) (controls st)"
    by (intro settles_same) (auto simp: find_None_iff pending_control_def pending_interrupt_def)
  with None st0 show ?thesis by (simp add: reject_pending_interrupt_def)
next
  case (Some c)
  then have c: "c \<in> set (controls st)" "pending_interrupt c" "oc_job_id c = jb_id job"
      "oc_status c = CtlPending"
    by (auto simp: pending_control_def pending_interrupt_def dest: find_SomeD)
  have "rowcount (\<lambda>r. oc_id r = oc_id c \<and> oc_status r = CtlPending) (controls st) = 1"
    using key_lists(7) [OF ok] c(1,4) by (rule rowcount_key_eq_1)
  moreover note settles_one [OF ok c(1-3), where M = "\<lambda>r. r\<lparr>oc_status := CtlRejected,
      oc_last_error := Some (error @ '' before the operator interrupt was applied'')\<rparr>"]
  ultimately show ?thesis
    using Some st0
    by (simp add: reject_pending_interrupt_def Let_def settled_control_def pending_interrupt_def)
qed

lemma expire_job_after_lease_closes:
  assumes ok: "queue_ok st" and j: "job \<in> set (jobs st)" "running job"
    and st0: "resolved_store st job st0"
  shows "\<exists>st'. expire_job_after_lease W job error data now st0 = Inr st' \<and> closes st job st'
    \<and> processes st' = processes st0"
proof -
  obtain st1 where reject: "reject_pending_interrupt job error now st0 = Inr st1"
    and st1: "campaigns st1 = campaigns st" "definitions st1 = definitions st"
      "items st1 = items st" "jobs st1 = jobs st" "attempts st1 = attempts st"
      "leases st1 = leases st"
    and settled: "settles (jb_id job) (controls st) (controls st1)"
    and resolved: "resolves (jb_current_attempt_id job) (processes st) (processes st1)"
    and same: "processes st1 = processes st0"
    using reject_pending_interrupt_runs [OF ok j(1), of st0 error now] st0
    by (auto simp: resolved_store_def)
  have leases1: "job_leases (jb_id job) st1 = job_leases (jb_id job) st"
    by (simp add: job_leases_def st1)
  have fences: "set (map ls_key (job_leases (jb_id job) st1)) = set (jb_required_resources job)
      \<and> list_all (fenced_lease job) (job_leases (jb_id job) st1)"
    using running_resources(1) [OF ok j] fenced_lease_iff [OF ok j]
    by (auto simp: list_all_iff job_leases_def st1)
  obtain a where cur: "jb_current_attempt_id job = Some a"
    using running_attempt [OF ok j] by (metis attempt_of_def)
  have match: "jb_id k = jb_id job \<and> jb_status k = JobRunning \<and> jb_current_attempt_id k \<noteq> None
      \<and> jb_current_attempt_id k = jb_current_attempt_id job \<longleftrightarrow> jb_id k = jb_id job"
    if "k \<in> set (jobs st)" for k
    using job_unique [OF ok that j(1)] j(2) cur by (auto simp: running_def)
  have one: "rowcount (\<lambda>k. jb_id k = jb_id job \<and> jb_status k = JobRunning
      \<and> jb_current_attempt_id k \<noteq> None \<and> jb_current_attempt_id k = jb_current_attempt_id job)
      (jobs st) = 1"
    using rowcount_this_job [OF ok j(1), of "\<lambda>k. jb_status k = JobRunning
      \<and> jb_current_attempt_id k \<noteq> None \<and> jb_current_attempt_id k = jb_current_attempt_id job"]
      j(2) cur by (simp add: running_def)
  have distinct: "remdups (jb_required_resources job) = jb_required_resources job"
    using job_states(3) [OF ok j(1)] by (rule distinct_remdups_id)
  have released: "rowcount (fenced_lease job) (leases st) = length (jb_required_resources job)"
    by (rule rowcount_job_leases [OF ok j fenced_lease_iff [OF ok j]])
  obtain st' where run: "expire_job_after_lease W job error data now st0 = Inr st'"
    and st': "campaigns st' = campaigns st" "definitions st' = definitions st"
      "items st' = upd_where (in_state (jb_item_id job) (jb_active_state job))
        (\<lambda>i. i\<lparr>it_state := jb_queued_state job, it_updated_at := now\<rparr>) (items st)"
      "jobs st' = upd_where (\<lambda>k. jb_id k = jb_id job \<and> jb_status k = JobRunning
        \<and> jb_current_attempt_id k \<noteq> None \<and> jb_current_attempt_id k = jb_current_attempt_id job)
        (\<lambda>k. (unlease JobPending now k)\<lparr>jb_available_at := now, jb_last_error := Some error\<rparr>)
        (jobs st)"
      "attempts st' = upd_where (is_running_attempt (jb_current_attempt_id job))
        (\<lambda>a. a\<lparr>at_error := Some error, at_status := AttemptExpired, at_finished_at := Some now\<rparr>)
        (attempts st)"
      "leases st' = del_where (fenced_lease job) (leases st)"
      "processes st' = processes st1" "controls st' = controls st1"
    unfolding expire_job_after_lease_def move_item_def finish_attempt_def
    using fences one
    by (simp add: reject Let_def st1 rowcount_in_state [OF ok j]
        rowcount_running_attempt [OF ok j] distinct released)
  have "closes st job st'"
  proof (rule closesI [OF ok j st'(1,2,3) _ st'(4) _ match st'(5) _ st'(6) fenced_lease_iff [OF ok j]])
    show "resolves (jb_current_attempt_id job) (processes st) (processes st')"
      by (simp add: st'(7) resolved)
    show "settles (jb_id job) (controls st) (controls st')" by (simp add: st'(8) settled)
  qed (use job_states(1) [OF ok j(1)] in \<open>auto intro: closed_row_unlease ended_attempt_simps\<close>)
  with run st'(7) same show ?thesis by auto
qed

end
