(* ===== verification/Recovering.thy ===== *)
theory Recovering
  imports Ends
begin

text \<open>
  Recovery in a store that satisfies the queue invariant: it never fails, it puts every
  expired job without an unresolved process back in its queue, it leaves the others as they
  are, and it releases the expired standalone leases.
\<close>

section \<open>Standalone leases\<close>

lemma queue_ok_del_leases:
  assumes ok: "queue_ok st"
    and same: "campaigns st' = campaigns st" "items st' = items st" "jobs st' = jobs st"
      "attempts st' = attempts st" "definitions st' = definitions st"
      "processes st' = processes st" "controls st' = controls st"
    and leases: "leases st' = del_where L (leases st)"
      "\<And>l. l \<in> set (leases st) \<Longrightarrow> L l \<Longrightarrow> ls_job_id l = None"
  shows "queue_ok st'"
proof -
  have kept: "job_leases i st' = job_leases i st" for i
    unfolding job_leases_def leases(1) del_where_def filter_filter
    by (rule filter_cong) (use leases(2) in auto)
  have "keys_ok st'"
    using key_lists [OF ok] distinct_map_del_where [OF key_lists(5) [OF ok]]
    by (simp add: keys_ok_def same leases(1))
  moreover have "leases_ok st'"
    using queue_okD(8) [OF ok] unfolding leases_ok_def same leases(1) by (simp add: set_del_where)
  moreover have "running_ok st'"
    using queue_okD(4) [OF ok] unfolding running_ok_def same kept .
  ultimately show ?thesis
    using queue_okD [OF ok]
    by (simp add: queue_ok_def owners_ok_def jobs_ok_def exclusive_ok_def items_ok_def
        attempts_ok_def processes_ok_def controls_ok_def limits_ok_def same)
qed

lemma orphan_standalone:
  assumes ok: "queue_ok st" and l: "l \<in> set (leases st)" "orphaned_lease now st l"
  shows "ls_job_id l = None"
proof (rule ccontr)
  assume "ls_job_id l \<noteq> None"
  then obtain i where i: "ls_job_id l = Some i" by auto
  then obtain j where "j \<in> set (jobs st)" "running j" "jb_id j = i"
    using queue_okD(8) [OF ok] l(1) unfolding leases_ok_def by fastforce
  then have "find_job i st = Some j" by (simp add: find_job_iff [OF ok])
  with l(2) i \<open>running j\<close> show False by (simp add: orphaned_lease_def running_def)
qed

lemma release_orphan_tables:
  "campaigns (release_orphan W now l st) = campaigns st"
  "items (release_orphan W now l st) = items st"
  "jobs (release_orphan W now l st) = jobs st"
  "attempts (release_orphan W now l st) = attempts st"
  "definitions (release_orphan W now l st) = definitions st"
  "processes (release_orphan W now l st) = processes st"
  "controls (release_orphan W now l st) = controls st"
  "leases (release_orphan W now l st)
     = del_where (\<lambda>r. ls_key r = ls_key l \<and> ls_slot r = ls_slot l) (leases st)"
  by (simp_all add: release_orphan_def Let_def split: option.splits)

lemma release_orphans_ok:
  assumes "queue_ok st" and "set ls \<subseteq> set (leases st)" and "distinct ls"
    and "\<And>l. l \<in> set ls \<Longrightarrow> ls_job_id l = None"
  shows "queue_ok (release_orphans W now ls st)
    \<and> jobs (release_orphans W now ls st) = jobs st
    \<and> processes (release_orphans W now ls st) = processes st
    \<and> set (leases (release_orphans W now ls st)) = set (leases st) - set ls"
  using assms
proof (induction ls arbitrary: st)
  case Nil
  then show ?case by simp
next
  case (Cons l ls)
  let ?st = "release_orphan W now l st"
  have l: "l \<in> set (leases st)" using Cons.prems(2) by simp
  have only: "r = l" if "r \<in> set (leases st)" "ls_key r = ls_key l \<and> ls_slot r = ls_slot l" for r
    using key_unique [OF key_lists(5) [OF Cons.prems(1)] that(1) l] that(2) by simp
  have ok: "queue_ok ?st"
    by (rule queue_ok_del_leases [OF Cons.prems(1) release_orphan_tables])
      (use only Cons.prems(4) in auto)
  have left: "set (leases ?st) = set (leases st) - {l}"
    unfolding release_orphan_tables(8) set_del_where using only by auto
  have "set ls \<subseteq> set (leases ?st)"
    using Cons.prems(2,3) unfolding left by auto
  with Cons.IH [OF ok this] Cons.prems(3,4) left show ?case
    by (auto simp: release_orphan_tables)
qed

section \<open>Expired jobs\<close>

text \<open>The expired jobs that recovery must leave alone.\<close>

definition blocked_by_process :: "store \<Rightarrow> job_row \<Rightarrow> bool" where
  "blocked_by_process st j \<longleftrightarrow>
     (\<exists>p \<in> set (processes st). unresolved p \<and> jb_current_attempt_id j = Some (ep_attempt_id p))"

lemma has_unresolved_process_None:
  "has_unresolved_process (jb_current_attempt_id j) st = None \<longleftrightarrow> \<not> blocked_by_process st j"
  by (auto simp: has_unresolved_process_def blocked_by_process_def attempt_processes_def
      unresolved_def find_None_iff)

lemma expire_unblocked:
  assumes ok: "queue_ok st" and j: "j \<in> set (jobs st)" "running j" "\<not> blocked_by_process st j"
  shows "\<exists>st'. expire_job_after_lease W j error data now st = Inr st' \<and> closes st j st'
    \<and> processes st' = processes st"
proof -
  have "resolves (jb_current_attempt_id j) (processes st) (processes st)"
    using j(3) by (intro resolves_same) (auto simp: blocked_by_process_def unresolved_def)
  then have "resolved_store st j st" by (simp add: resolved_store_def)
  from expire_job_after_lease_closes [OF ok j(1,2) this] show ?thesis .
qed

text \<open>The outcome of the recovery loop over the jobs \<open>js\<close>.\<close>

definition recovered ::
    "store \<Rightarrow> job_row list \<Rightarrow> string list \<Rightarrow> store \<Rightarrow> string list \<Rightarrow> bool" where
  "recovered st js ids st' ids' \<longleftrightarrow> queue_ok st' \<and> processes st' = processes st
    \<and> (\<forall>j \<in> set (jobs st'). running j \<longrightarrow> j \<in> set (jobs st) \<and> (j \<in> set js \<longrightarrow> blocked_by_process st j))
    \<and> (\<forall>j \<in> set (jobs st). j \<notin> set js \<or> blocked_by_process st j \<longrightarrow> j \<in> set (jobs st'))
    \<and> set ids' = set ids \<union> jb_id ` {j \<in> set js. \<not> blocked_by_process st j}"

lemma unblocked_Cons:
  "{k \<in> set (j # js). \<not> P k} = (if P j then {k \<in> set js. \<not> P k} else insert j {k \<in> set js. \<not> P k})"
  by auto

lemma recovered_Cons_blocked:
  assumes b: "blocked_by_process st j" and r: "recovered st js ids st' ids'"
  shows "recovered st (j # js) ids st' ids'"
proof -
  have r': "queue_ok st'" "processes st' = processes st"
    "\<forall>k \<in> set (jobs st'). running k \<longrightarrow> k \<in> set (jobs st) \<and> (k \<in> set js \<longrightarrow> blocked_by_process st k)"
    "\<forall>k \<in> set (jobs st). k \<notin> set js \<or> blocked_by_process st k \<longrightarrow> k \<in> set (jobs st')"
    "set ids' = set ids \<union> jb_id ` {k \<in> set js. \<not> blocked_by_process st k}"
    using r unfolding recovered_def by blast+
  have "\<forall>k \<in> set (jobs st'). running k \<longrightarrow>
      k \<in> set (jobs st) \<and> (k \<in> set (j # js) \<longrightarrow> blocked_by_process st k)"
  proof (intro ballI impI conjI)
    fix k assume k: "k \<in> set (jobs st')" "running k"
    then show "k \<in> set (jobs st)" using r'(3) by blast
    have "k \<in> set js \<longrightarrow> blocked_by_process st k" using r'(3) k by blast
    then show "k \<in> set (j # js) \<Longrightarrow> blocked_by_process st k" using b by auto
  qed
  moreover have "\<forall>k \<in> set (jobs st). k \<notin> set (j # js) \<or> blocked_by_process st k \<longrightarrow> k \<in> set (jobs st')"
    using r'(4) by (metis list.set_intros(2))
  moreover have "set ids' = set ids \<union> jb_id ` {k \<in> set (j # js). \<not> blocked_by_process st k}"
    unfolding unblocked_Cons r'(5) using b by (simp only: if_True)
  ultimately show ?thesis using r'(1,2) unfolding recovered_def by blast
qed

lemma recovered_Cons_expired:
  assumes ok: "queue_ok st" and j: "j \<in> set (jobs st)" "\<not> blocked_by_process st j"
    and st1: "closes st j st1" "processes st1 = processes st"
    and rec: "recovered st1 js (ids @ [jb_id j]) st' ids'"
  shows "recovered st (j # js) ids st' ids'"
proof -
  obtain j' where j': "set (jobs st1) = insert j' (set (jobs st) - {j})" "closed_row j j'"
    using ok j(1) st1(1) by (rule closes_jobs)
  have same: "blocked_by_process st1 = blocked_by_process st"
    by (rule ext) (simp add: blocked_by_process_def st1(2))
  have idle: "\<not> running j'" using j'(2) by (simp add: closed_row_def)
  have r: "queue_ok st'" "processes st' = processes st1"
    "\<forall>k \<in> set (jobs st'). running k \<longrightarrow> k \<in> set (jobs st1) \<and> (k \<in> set js \<longrightarrow> blocked_by_process st k)"
    "\<forall>k \<in> set (jobs st1). k \<notin> set js \<or> blocked_by_process st k \<longrightarrow> k \<in> set (jobs st')"
    "set ids' = set (ids @ [jb_id j]) \<union> jb_id ` {k \<in> set js. \<not> blocked_by_process st k}"
    using rec unfolding recovered_def same by blast+
  have "\<forall>k \<in> set (jobs st'). running k \<longrightarrow>
      k \<in> set (jobs st) \<and> (k \<in> set (j # js) \<longrightarrow> blocked_by_process st k)"
  proof (intro ballI impI)
    fix k assume k: "k \<in> set (jobs st')" "running k"
    with r(3) have k1: "k \<in> set (jobs st1)" "k \<in> set js \<longrightarrow> blocked_by_process st k" by blast+
    with j'(1) idle k(2) have "k \<in> set (jobs st)" "k \<noteq> j" by auto
    with k1(2) show "k \<in> set (jobs st) \<and> (k \<in> set (j # js) \<longrightarrow> blocked_by_process st k)" by simp
  qed
  moreover have "\<forall>k \<in> set (jobs st). k \<notin> set (j # js) \<or> blocked_by_process st k \<longrightarrow> k \<in> set (jobs st')"
  proof (intro ballI impI)
    fix k assume k: "k \<in> set (jobs st)" "k \<notin> set (j # js) \<or> blocked_by_process st k"
    with j(2) have "k \<noteq> j" by auto
    with k(1) j'(1) have "k \<in> set (jobs st1)" by simp
    moreover have "k \<notin> set js \<or> blocked_by_process st k" using k(2) by auto
    ultimately show "k \<in> set (jobs st')" using r(4) by blast
  qed
  moreover have "set ids' = set ids \<union> jb_id ` {k \<in> set (j # js). \<not> blocked_by_process st k}"
    unfolding unblocked_Cons r(5) if_not_P [OF j(2)] by simp
  moreover have "processes st' = processes st" using r(2) st1(2) by simp
  ultimately show ?thesis using r(1) unfolding recovered_def by blast
qed

lemma recover_jobs_runs:
  assumes "queue_ok st" and "\<forall>j \<in> set js. j \<in> set (jobs st) \<and> running j" and "distinct js"
  shows "\<exists>st' ids' pending'. recover_jobs W now js (st, ids, pending) = Inr (st', ids', pending')
    \<and> recovered st js ids st' ids'"
  using assms
proof (induction js arbitrary: st ids pending)
  case Nil
  then show ?case by (simp add: recovered_def)
next
  case (Cons j js)
  have j: "j \<in> set (jobs st)" "running j" using Cons.prems(2) by simp_all
  show ?case
  proof (cases "blocked_by_process st j")
    case True
    then obtain p where p: "has_unresolved_process (jb_current_attempt_id j) st = Some p"
      using has_unresolved_process_None by (metis not_Some_eq)
    have "\<exists>st' ids' pending'. recover_jobs W now js (st, ids, pending @ [(jb_id j, p)])
        = Inr (st', ids', pending') \<and> recovered st js ids st' ids'"
      by (rule Cons.IH) (use Cons.prems in auto)
    with p True show ?thesis by (auto intro: recovered_Cons_blocked)
  next
    case False
    obtain st1 where st1: "expire_job_after_lease W j ''lease expired'' [] now st = Inr st1"
        "closes st j st1" "processes st1 = processes st"
      using expire_unblocked [OF Cons.prems(1) j False] by blast
    have ok1: "queue_ok st1" by (rule queue_ok_closes [OF Cons.prems(1) j st1(2)])
    obtain j' where j': "set (jobs st1) = insert j' (set (jobs st) - {j})"
      using Cons.prems(1) j(1) st1(2) by (rule closes_jobs)
    have "\<exists>st' ids' pending'. recover_jobs W now js (st1, ids @ [jb_id j], pending)
        = Inr (st', ids', pending') \<and> recovered st1 js (ids @ [jb_id j]) st' ids'"
      by (rule Cons.IH [OF ok1]) (use Cons.prems(2,3) j' in auto)
    then obtain st' ids' pending' where
        rec: "recover_jobs W now js (st1, ids @ [jb_id j], pending) = Inr (st', ids', pending')"
        "recovered st1 js (ids @ [jb_id j]) st' ids'" by blast
    have "recover_jobs W now (j # js) (st, ids, pending) = Inr (st', ids', pending')"
      using False rec(1) st1(1) by (simp add: has_unresolved_process_None [symmetric])
    moreover have "recovered st (j # js) ids st' ids'"
      by (rule recovered_Cons_expired [OF Cons.prems(1) j(1) False st1(2,3) rec(2)])
    ultimately show ?thesis by blast
  qed
qed

text \<open>What recovery does, for the claim that starts with it and for the reachable states.\<close>

lemma recover_expired_runs:
  assumes ok: "queue_ok st"
  shows "\<exists>st' r. recover_expired W now st = Inr (st', r) \<and> queue_ok st'
    \<and> processes st' = processes st
    \<and> (\<forall>j \<in> set (jobs st'). lease_expired now j \<longrightarrow> blocked_by_process st' j)
    \<and> (\<forall>j \<in> set (jobs st). \<not> lease_expired now j \<or> blocked_by_process st j \<longrightarrow> j \<in> set (jobs st'))
    \<and> (\<forall>l \<in> set (leases st'). ls_job_id l = None \<longrightarrow> now < ls_expires_at l)
    \<and> set (rc_job_ids r) = jb_id ` {j \<in> set (jobs st). lease_expired now j \<and> \<not> blocked_by_process st j}"
proof -
  let ?js = "order_by jb_id (filter (lease_expired now) (jobs st))"
  have js: "set ?js = {j \<in> set (jobs st). lease_expired now j}" by simp
  have "distinct (jobs st)" using key_lists(3) [OF ok] by (simp add: distinct_map)
  then have "distinct ?js" by (simp add: order_by_def)
  moreover have "j \<in> set (jobs st) \<and> running j" if "j \<in> set ?js" for j
    using that unfolding js by (simp add: lease_expired_def running_def)
  ultimately have "\<exists>st1 ids pending. recover_jobs W now ?js (st, [], []) = Inr (st1, ids, pending)
      \<and> recovered st ?js [] st1 ids"
    by (intro recover_jobs_runs [OF ok]) blast+
  then obtain st1 ids pending where run1:
      "recover_jobs W now ?js (st, [], []) = Inr (st1, ids, pending)"
    and "recovered st ?js [] st1 ids" by blast
  then have rec: "queue_ok st1" "processes st1 = processes st"
      "\<forall>j \<in> set (jobs st1). running j \<longrightarrow> j \<in> set (jobs st) \<and> (j \<in> set ?js \<longrightarrow> blocked_by_process st j)"
      "\<forall>j \<in> set (jobs st). j \<notin> set ?js \<or> blocked_by_process st j \<longrightarrow> j \<in> set (jobs st1)"
      "set ids = set [] \<union> jb_id ` {j \<in> set ?js. \<not> blocked_by_process st j}"
    unfolding recovered_def by blast+
  let ?orphans = "filter (orphaned_lease now st1) (leases st1)"
  have "distinct (leases st1)" using key_lists(5) [OF rec(1)] by (simp add: distinct_map)
  then have "distinct ?orphans" by simp
  moreover have "ls_job_id l = None" if "l \<in> set ?orphans" for l
    using orphan_standalone [OF rec(1)] that by auto
  ultimately have rel: "queue_ok (release_orphans W now ?orphans st1)"
      "jobs (release_orphans W now ?orphans st1) = jobs st1"
      "processes (release_orphans W now ?orphans st1) = processes st1"
      "set (leases (release_orphans W now ?orphans st1)) = set (leases st1) - set ?orphans"
    using release_orphans_ok [OF rec(1), of ?orphans W now] by auto
  have run: "recover_expired W now st = Inr (release_orphans W now ?orphans st1,
      \<lparr>rc_job_ids = ids, rc_resources = length ?orphans, rc_pending = pending\<rparr>)"
    by (simp add: recover_expired_def run1 Let_def)
  let ?st' = "release_orphans W now ?orphans st1"
  have same: "blocked_by_process ?st' = blocked_by_process st"
    by (rule ext) (simp add: blocked_by_process_def rel(3) rec(2))
  show ?thesis
  proof (intro exI conjI)
    show "recover_expired W now st = Inr (?st',
      \<lparr>rc_job_ids = ids, rc_resources = length ?orphans, rc_pending = pending\<rparr>)" by (rule run)
    show "queue_ok ?st'" by (rule rel(1))
    show "processes ?st' = processes st" by (simp add: rel(3) rec(2))
    show "\<forall>j \<in> set (jobs ?st'). lease_expired now j \<longrightarrow> blocked_by_process ?st' j"
    proof (intro ballI impI)
      fix j assume "j \<in> set (jobs ?st')" and expired: "lease_expired now j"
      then have "j \<in> set (jobs st1)" "running j"
        by (simp_all add: rel(2) lease_expired_def running_def)
      with rec(3) have "j \<in> set (jobs st)" "j \<in> set ?js \<longrightarrow> blocked_by_process st j" by blast+
      with expired show "blocked_by_process ?st' j" unfolding same js by simp
    qed
    show "\<forall>j \<in> set (jobs st). \<not> lease_expired now j \<or> blocked_by_process st j
        \<longrightarrow> j \<in> set (jobs ?st')"
      using rec(4) unfolding js rel(2) by blast
    show "\<forall>l \<in> set (leases ?st'). ls_job_id l = None \<longrightarrow> now < ls_expires_at l"
      unfolding rel(4) by (auto simp: orphaned_lease_def)
    show "set (rc_job_ids \<lparr>rc_job_ids = ids, rc_resources = length ?orphans, rc_pending = pending\<rparr>)
        = jb_id ` {j \<in> set (jobs st). lease_expired now j \<and> \<not> blocked_by_process st j}"
      using rec(5) unfolding js by simp
  qed
qed

end
