(* ===== verification/Claiming.thy ===== *)
theory Claiming
  imports Opening Recovering
begin

text \<open>
  A claim opens an attempt on the first candidate that meets every condition, and a heartbeat
  moves the three expiry columns of one attempt together: both keep the queue invariant.
\<close>

section \<open>Inserting the leases of a claim\<close>

lemma insert_lease_effect:
  assumes "insert_lease l st = Inr st'"
  shows "st' = st\<lparr>leases := leases st @ [l]\<rparr>" and "1 \<le> ls_slot l"
    and "(ls_key l, ls_slot l) \<notin> (\<lambda>l. (ls_key l, ls_slot l)) ` set (leases st)"
  using assms by (auto simp: insert_lease_def lease_row_ok_def has_key_def)

lemma insert_leases_effect:
  "foldR insert_lease rows st = Inr st' \<Longrightarrow>
     distinct (map (\<lambda>l. (ls_key l, ls_slot l)) (leases st)) \<Longrightarrow>
     st' = st\<lparr>leases := leases st @ rows\<rparr>
     \<and> distinct (map (\<lambda>l. (ls_key l, ls_slot l)) (leases st'))"
proof (induction rows arbitrary: st)
  case Nil
  then show ?case by simp
next
  case (Cons l rows)
  from Cons.prems(1) obtain st1 where st1: "insert_lease l st = Inr st1"
      "foldR insert_lease rows st1 = Inr st'" by auto
  note eff = insert_lease_effect [OF st1(1)]
  have "distinct (map (\<lambda>l. (ls_key l, ls_slot l)) (leases st1))"
    using Cons.prems(2) eff(3) by (simp add: eff(1))
  note IH = Cons.IH [OF st1(2) this]
  show ?case using conjunct2 [OF IH] by (simp add: conjunct1 [OF IH] eff(1))
qed

section \<open>The claim of one candidate\<close>

lemma consume_resume_effect:
  assumes "consume_resume W job attempt now st = Inr (st', r)"
  shows "campaigns st' = campaigns st \<and> items st' = items st \<and> jobs st' = jobs st
    \<and> attempts st' = attempts st \<and> leases st' = leases st \<and> definitions st' = definitions st
    \<and> processes st' = processes st \<and> map oc_id (controls st') = map oc_id (controls st)
    \<and> (\<forall>c \<in> set (controls st'). pending_interrupt c \<longrightarrow> c \<in> set (controls st))"
proof (cases "pending_resume (jb_id job) st")
  case None
  with assms show ?thesis by (simp add: consume_resume_def)
next
  case (Some c)
  let ?this = "\<lambda>r. oc_id r = oc_id c \<and> oc_status r = CtlPending"
  let ?f = "\<lambda>r. r\<lparr>oc_status := CtlApplied, oc_target_attempt_id := Some attempt, oc_applied_at := Some now\<rparr>"
  have st': "campaigns st' = campaigns st" "items st' = items st" "jobs st' = jobs st"
    "attempts st' = attempts st" "leases st' = leases st" "definitions st' = definitions st"
    "processes st' = processes st" "controls st' = upd_where ?this ?f (controls st)"
    using assms Some by (auto simp: consume_resume_def Let_def)
  have "map oc_id (controls st') = map oc_id (controls st)"
    unfolding st' by (rule map_upd_where) simp
  moreover have "\<forall>r \<in> set (controls st'). pending_interrupt r \<longrightarrow> r \<in> set (controls st)"
    unfolding st' by (auto simp: set_upd_where pending_interrupt_def)
  ultimately show ?thesis using st' by simp
qed

lemma take_claim_effect:
  assumes "take_claim W job grant worker attempt token secs now st = Inr (st', r)"
    and "distinct (map (\<lambda>l. (ls_key l, ls_slot l)) (leases st))"
  shows "campaigns st' = campaigns st" "items st' = items st" "definitions st' = definitions st"
    "processes st' = processes st"
    "jobs st' = upd_where (\<lambda>j. jb_id j = jb_id job \<and> jb_status j = JobPending)
       (leased_job worker token attempt (now + secs) now (jb_attempt_count job + 1)) (jobs st)"
    "attempts st' = attempts st @ [claimed_attempt job grant worker token attempt (now + secs) now]"
    "attempt \<notin> at_id ` set (attempts st)"
    "leases st' = leases st @ map (claimed_lease job worker token (now + secs) now) (cg_plan grant)"
    "distinct (map (\<lambda>l. (ls_key l, ls_slot l)) (leases st'))"
    "map oc_id (controls st') = map oc_id (controls st)"
    "\<forall>c \<in> set (controls st'). pending_interrupt c \<longrightarrow> c \<in> set (controls st)"
    "r = \<lparr>cr_job_id = jb_id job, cr_attempt_id = attempt, cr_attempt_number = jb_attempt_count job + 1,
          cr_lease_token = token, cr_resume = cr_resume r\<rparr>"
proof -
  let ?rows = "map (claimed_lease job worker token (now + secs) now) (cg_plan grant)"
  from assms(1) obtain st1 st2 resume where
      att: "insert_attempt (claimed_attempt job grant worker token attempt (now + secs) now)
        (st\<lparr>jobs := upd_where (\<lambda>j. jb_id j = jb_id job \<and> jb_status j = JobPending)
           (leased_job worker token attempt (now + secs) now (jb_attempt_count job + 1)) (jobs st)\<rparr>)
        = Inr st1"
    and ins: "foldR insert_lease ?rows st1 = Inr st2"
    and res: "consume_resume W job attempt now (claim_events W job grant worker attempt token now st2)
        = Inr (st', resume)"
    and r: "r = \<lparr>cr_job_id = jb_id job, cr_attempt_id = attempt,
          cr_attempt_number = jb_attempt_count job + 1, cr_lease_token = token, cr_resume = resume\<rparr>"
    unfolding take_claim_def Let_def by auto
  have st1: "st1 = st\<lparr>jobs := upd_where (\<lambda>j. jb_id j = jb_id job \<and> jb_status j = JobPending)
           (leased_job worker token attempt (now + secs) now (jb_attempt_count job + 1)) (jobs st),
         attempts := attempts st @ [claimed_attempt job grant worker token attempt (now + secs) now]\<rparr>"
    and fresh: "attempt \<notin> at_id ` set (attempts st)"
    using att by (auto simp: insert_attempt_def has_key_def claimed_attempt_def)
  have "distinct (map (\<lambda>l. (ls_key l, ls_slot l)) (leases st1))" using assms(2) by (simp add: st1)
  note ins' = insert_leases_effect [OF ins this]
  note st2 = conjunct1 [OF ins'] conjunct2 [OF ins']
  note eff = consume_resume_effect [OF res]
  show "campaigns st' = campaigns st" "items st' = items st" "definitions st' = definitions st"
    "processes st' = processes st"
    "jobs st' = upd_where (\<lambda>j. jb_id j = jb_id job \<and> jb_status j = JobPending)
       (leased_job worker token attempt (now + secs) now (jb_attempt_count job + 1)) (jobs st)"
    "attempts st' = attempts st @ [claimed_attempt job grant worker token attempt (now + secs) now]"
    "leases st' = leases st @ ?rows" "distinct (map (\<lambda>l. (ls_key l, ls_slot l)) (leases st'))"
    "map oc_id (controls st') = map oc_id (controls st)"
    "\<forall>c \<in> set (controls st'). pending_interrupt c \<longrightarrow> c \<in> set (controls st)"
    using eff st2(2) by (simp_all add: st2(1) st1)
  show "attempt \<notin> at_id ` set (attempts st)" by (rule fresh)
  show "r = \<lparr>cr_job_id = jb_id job, cr_attempt_id = attempt,
      cr_attempt_number = jb_attempt_count job + 1, cr_lease_token = token, cr_resume = cr_resume r\<rparr>"
    by (simp add: r)
qed

text \<open>\<open>claimed st job st' r\<close>: the claim \<open>r\<close> of the candidate \<open>job\<close>.\<close>

definition claimed ::
    "world \<Rightarrow> string \<Rightarrow> int \<Rightarrow> time \<Rightarrow> store \<Rightarrow> job_row \<Rightarrow> store \<Rightarrow> claim_result \<Rightarrow> bool" where
  "claimed W worker secs now st job st' r \<longleftrightarrow>
     (\<exists>grant st1 attempt token. claim_conditions W job st = Inr (Some grant)
        \<and> move_item (jb_item_id job) (jb_queued_state job) (jb_active_state job) now st = Inr st1
        \<and> take_claim W job grant worker attempt token secs now st1 = Inr (st', r))"

lemma claim_first_cases:
  "claim_first W js worker attempt token secs now st = Inr (st', r) \<Longrightarrow>
     (r = None \<and> st' = st)
     \<or> (\<exists>job \<in> set js. \<exists>c. r = Some c \<and> claimed W worker secs now st job st' c)"
proof (induction js)
  case Nil
  then show ?case by simp
next
  case (Cons job js)
  from Cons.prems obtain granted where g: "claim_conditions W job st = Inr granted" by auto
  have skip: ?case if "claim_first W js worker attempt token secs now st = Inr (st', r)"
    using Cons.IH [OF that] by auto
  show ?case
  proof (cases granted)
    case None
    with Cons.prems g show ?thesis by (intro skip) simp
  next
    case (Some grant)
    show ?thesis
    proof (cases "move_item (jb_item_id job) (jb_queued_state job) (jb_active_state job) now st")
      case (Inl e)
      with Cons.prems g Some show ?thesis by (intro skip) simp
    next
      case (Inr st1)
      with Cons.prems g Some obtain c where "take_claim W job grant worker attempt token secs now st1
          = Inr (st', c)" "r = Some c" by auto
      with g Some Inr show ?thesis unfolding claimed_def by auto
    qed
  qed
qed

lemma claim_conditionsD:
  assumes "claim_conditions W job st = Inr (Some grant)"
  obtains campaign where "find_campaign (jb_campaign_id job) st = Some campaign"
    "claim_admission W campaign job st = Some (cg_admission grant)"
    "claim_workspace campaign job st = Some (cg_worktree grant)"
    "claim_approved W campaign job (cg_worktree grant) st = Inr True"
    "within_limits campaign (jb_role job) st"
    "resource_claim_plan W job (jb_required_resources job) st = Some (cg_plan grant)"
  using assms by (auto simp: claim_conditions_def split: option.splits if_splits)

lemma claimed_opens:
  assumes ok: "queue_ok st" and cand: "claimable role t st job" and job: "job \<in> set (jobs st)"
    and claim: "claimed W worker secs now st job st' r"
  shows "\<exists>j' a rows. opens st job j' a rows st' \<and> jb_lease_owner j' = Some worker
    \<and> jb_lease_token j' = Some (cr_lease_token r) \<and> jb_current_attempt_id j' = Some (cr_attempt_id r)
    \<and> jb_lease_expires_at j' = Some (now + secs) \<and> cr_job_id r = jb_id job
    \<and> cr_attempt_number r = jb_attempt_count job + 1"
proof -
  obtain grant st1 attempt token where cond: "claim_conditions W job st = Inr (Some grant)"
    and moved: "move_item (jb_item_id job) (jb_queued_state job) (jb_active_state job) now st = Inr st1"
    and take: "take_claim W job grant worker attempt token secs now st1 = Inr (st', r)"
    using claim unfolding claimed_def by blast
  have st1: "campaigns st1 = campaigns st" "definitions st1 = definitions st"
    "jobs st1 = jobs st" "attempts st1 = attempts st" "leases st1 = leases st"
    "processes st1 = processes st" "controls st1 = controls st"
    "items st1 = upd_where (in_state (jb_item_id job) (jb_queued_state job))
      (\<lambda>i. i\<lparr>it_state := jb_active_state job, it_updated_at := now\<rparr>) (items st)"
    using moved by (auto simp: move_item_def)
  obtain campaign where campaign: "find_campaign (jb_campaign_id job) st = Some campaign"
    and limits: "within_limits campaign (jb_role job) st"
    and plan: "resource_claim_plan W job (jb_required_resources job) st = Some (cg_plan grant)"
    using cond by (rule claim_conditionsD)
  have pending: "jb_status job = JobPending" using cand by (simp add: claimable_def)
  obtain i where i: "i \<in> set (items st)" "it_id i = jb_item_id job" "it_state i = jb_queued_state job"
    using cand by (auto simp: claimable_def split: option.splits dest: find_itemD)
  have inactive: "\<not> is_active_state (it_state i)" using i(3) job_states(1) [OF ok job] by simp
  let ?leased = "leased_job worker token attempt (now + secs) now (jb_attempt_count job + 1)"
  let ?a = "claimed_attempt job grant worker token attempt (now + secs) now"
  let ?rows = "map (claimed_lease job worker token (now + secs) now) (cg_plan grant)"
  note eff = take_claim_effect [OF take, unfolded st1, OF key_lists(5) [OF ok]]
  have "items st' = upd_where (\<lambda>k. it_id k = jb_item_id job)
      (\<lambda>i. i\<lparr>it_state := jb_active_state job, it_updated_at := now\<rparr>) (items st)"
    unfolding eff(2) by (rule upd_where_cong)
      (use item_unique [OF ok _ i(1)] i(2,3) in \<open>auto simp: in_state_def\<close>)
  then have items: "\<exists>F. items st' = upd_where (\<lambda>k. it_id k = jb_item_id job) F (items st)
      \<and> (\<forall>k. entered_item (jb_active_state job) k (F k))"
    by (auto simp: entered_item_def)
  have "jobs st' = upd_where (\<lambda>k. jb_id k = jb_id job) ?leased (jobs st)"
    unfolding eff(5) by (rule upd_where_cong)
      (use job_unique [OF ok _ job] pending in auto)
  then have jobs: "\<exists>G. jobs st' = upd_where (\<lambda>k. jb_id k = jb_id job) G (jobs st)
      \<and> G job = ?leased job \<and> (\<forall>k. jb_id (G k) = jb_id k)"
    by (auto simp: leased_job_def)
  have rows: "lease_of (?leased job) l \<and> slot_ok st l" if l: "l \<in> set ?rows" for l
  proof -
    obtain e where e: "e \<in> set (cg_plan grant)" "l = claimed_lease job worker token (now + secs) now e"
      using l by auto
    note entry = claim_plan_entry [OF plan e(1)]
    have "slot_ok st l"
    proof (cases "ce_definition e")
      case None
      then have "ce_slot e = 1" using entry by (auto dest!: free_slot_Some simp: claim_limit_def)
      with None show ?thesis by (simp add: slot_ok_def e(2) claimed_lease_def)
    next
      case (Some d)
      then have "claim_definition W job (ce_key e) st = Some (Some d)" using entry by simp
      from claim_definition_Some [OF this] Some entry show ?thesis
        by (auto dest!: free_slot_Some simp: slot_ok_def e(2) claimed_lease_def claim_limit_def)
    qed
    then show ?thesis by (simp add: lease_of_def e(2) claimed_lease_def leased_job_def)
  qed
  have room: "room_for st job"
    unfolding room_for_def
  proof (intro ballI impI)
    fix c assume c: "c \<in> set (campaigns st)" "cp_id c = jb_campaign_id job"
    have "campaign \<in> set (campaigns st)" "cp_id campaign = jb_campaign_id job"
      using find_SomeD [OF campaign [unfolded find_campaign_def]] by simp_all
    then have "c = campaign"
      using key_unique [OF key_lists(1) [OF ok] c(1)] c(2) by simp
    with limits show "within_limits c (jb_role job) st" by simp
  qed
  have row: "opened_row job (?leased job)"
    by (simp add: opened_row_def leased_job_def running_def)
  have att: "attempt_of (?leased job) ?a"
    by (simp add: attempt_of_def leased_job_def claimed_attempt_def)
  have keys: "map ls_key ?rows = jb_required_resources job"
    using claim_plan_keys [OF plan] by (simp add: claimed_lease_def comp_def)
  have idle: "\<not> running job" using pending by (simp add: running_def)
  have item: "\<exists>i \<in> set (items st). it_id i = jb_item_id job \<and> \<not> is_active_state (it_state i)"
    using i(1,2) inactive by blast
  have fresh: "at_id ?a \<notin> at_id ` set (attempts st)" using eff(7) by (simp add: claimed_attempt_def)
  have number: "at_number ?a \<le> jb_attempt_count (?leased job)"
    by (simp add: claimed_attempt_def leased_job_def)
  have all_rows: "\<forall>l \<in> set ?rows. lease_of (?leased job) l \<and> slot_ok st l" using rows by blast
  have "opens st job (?leased job) ?a ?rows st'"
    unfolding opens_def
    by (intro conjI idle row room item items jobs att keys fresh number all_rows
        eff(1,3,4,6,8,9,10,11))
  moreover have "cr_attempt_id r = attempt" "cr_lease_token r = token" "cr_job_id r = jb_id job"
    "cr_attempt_number r = jb_attempt_count job + 1"
    by (subst eff(12), simp)+
  ultimately show ?thesis
    by (intro exI conjI) (auto simp: leased_job_def)
qed

end
