(* ===== verification/Beating.thy ===== *)
theory Beating
  imports Claiming
begin

text \<open>
  A heartbeat moves the expiry of a running job, of its attempt and of its leases together,
  and touches nothing else that the queue invariant reads.
\<close>

definition beats :: "store \<Rightarrow> job_row \<Rightarrow> store \<Rightarrow> bool" where
  "beats st j st' \<longleftrightarrow> (\<exists>e n.
     campaigns st' = campaigns st \<and> items st' = items st \<and> definitions st' = definitions st
     \<and> processes st' = processes st \<and> controls st' = controls st
     \<and> jobs st' = upd_where (\<lambda>k. jb_id k = jb_id j)
         (\<lambda>k. k\<lparr>jb_heartbeat_at := Some n, jb_lease_expires_at := Some e, jb_updated_at := n\<rparr>) (jobs st)
     \<and> attempts st' = upd_where (is_running_attempt (jb_current_attempt_id j))
         (\<lambda>a. a\<lparr>at_heartbeat_at := n, at_lease_expires_at := e\<rparr>) (attempts st)
     \<and> leases st' = upd_where (\<lambda>l. ls_job_id l = Some (jb_id j))
         (\<lambda>l. l\<lparr>ls_heartbeat_at := n, ls_expires_at := e\<rparr>) (leases st))"

lemma heartbeat_job_beats:
  assumes ok: "queue_ok st" and run: "heartbeat_job W job_id worker token secs now st = Inr st'"
  shows "\<exists>j. find_job job_id st = Some j \<and> live_lease worker token now j \<and> beats st j st'"
proof -
  from run obtain j where j: "find_job job_id st = Some j" "live_lease worker token now j"
    unfolding heartbeat_job_def Let_def by auto
  have in_jobs: "j \<in> set (jobs st)" "jb_id j = job_id" using find_job_in [OF ok j(1)] by auto
  have st': "campaigns st' = campaigns st" "items st' = items st" "definitions st' = definitions st"
    "processes st' = processes st" "controls st' = controls st"
    "jobs st' = upd_where (\<lambda>k. jb_id k = jb_id j)
       (\<lambda>k. k\<lparr>jb_heartbeat_at := Some now, jb_lease_expires_at := Some (now + secs),
             jb_updated_at := now\<rparr>) (jobs st)"
    "attempts st' = upd_where (is_running_attempt (jb_current_attempt_id j))
       (\<lambda>a. a\<lparr>at_heartbeat_at := now, at_lease_expires_at := now + secs\<rparr>) (attempts st)"
    "leases st' = upd_where (\<lambda>l. ls_job_id l = Some (jb_id j) \<and> ls_owner l = worker \<and> ls_token l = token)
       (\<lambda>l. l\<lparr>ls_heartbeat_at := now, ls_expires_at := now + secs\<rparr>) (leases st)"
    using run j in_jobs(2) unfolding heartbeat_job_def Let_def by auto
  have "leases st' = upd_where (\<lambda>l. ls_job_id l = Some (jb_id j))
       (\<lambda>l. l\<lparr>ls_heartbeat_at := now, ls_expires_at := now + secs\<rparr>) (leases st)"
    unfolding st'(8) by (rule upd_where_cong) (rule token_lease_iff(2) [OF ok in_jobs(1) j(2)])
  with st' j show ?thesis unfolding beats_def by blast
qed

lemma map_filter_upd_where:
  "(\<And>r. P r \<Longrightarrow> g (f r) = g r) \<Longrightarrow> (\<And>r. P r \<Longrightarrow> Q (f r) = Q r) \<Longrightarrow>
     map g (filter Q (upd_where P f t)) = map g (filter Q t)"
  by (induction t) (auto simp: upd_where_def)

lemma rowcount_upd_where:
  "(\<And>r. P r \<Longrightarrow> Q (f r) = Q r) \<Longrightarrow> rowcount Q (upd_where P f t) = rowcount Q t"
  by (induction t) (auto simp: upd_where_def rowcount_Cons)

lemma queue_ok_beats:
  assumes ok: "queue_ok st" and j: "j \<in> set (jobs st)" "running j" and beats: "beats st j st'"
  shows "queue_ok st'"
proof -
  obtain e n where st': "campaigns st' = campaigns st" "items st' = items st"
      "definitions st' = definitions st" "processes st' = processes st" "controls st' = controls st"
    and jobs': "jobs st' = upd_where (\<lambda>k. jb_id k = jb_id j)
       (\<lambda>k. k\<lparr>jb_heartbeat_at := Some n, jb_lease_expires_at := Some e, jb_updated_at := n\<rparr>) (jobs st)"
    and attempts': "attempts st' = upd_where (is_running_attempt (jb_current_attempt_id j))
       (\<lambda>a. a\<lparr>at_heartbeat_at := n, at_lease_expires_at := e\<rparr>) (attempts st)"
    and leases': "leases st' = upd_where (\<lambda>l. ls_job_id l = Some (jb_id j))
         (\<lambda>l. l\<lparr>ls_heartbeat_at := n, ls_expires_at := e\<rparr>) (leases st)"
    using beats unfolding beats_def by blast
  let ?f = "\<lambda>k::job_row. k\<lparr>jb_heartbeat_at := Some n, jb_lease_expires_at := Some e, jb_updated_at := n\<rparr>"
  obtain a where a: "a \<in> set (attempts st)" "attempt_of j a" using ok j by (rule running_attempt)
  have cur: "jb_current_attempt_id j = Some (at_id a)" using a(2) by (simp add: attempt_of_def)
  let ?a = "a\<lparr>at_heartbeat_at := n, at_lease_expires_at := e\<rparr>"
  have js: "set (jobs st') = insert (?f j) (set (jobs st) - {j})"
    unfolding jobs' by (rule set_upd_key [OF key_lists(3) [OF ok] j(1)])
  have "attempts st' = upd_where (\<lambda>b. at_id b = at_id a)
      (\<lambda>a. a\<lparr>at_heartbeat_at := n, at_lease_expires_at := e\<rparr>) (attempts st)"
    unfolding attempts'
  proof (rule upd_where_cong)
    fix r assume "r \<in> set (attempts st)"
    from is_running_attempt_iff [OF ok j this]
    show "is_running_attempt (jb_current_attempt_id j) r = (at_id r = at_id a)" by (simp add: cur)
  qed
  then have as: "set (attempts st') = insert ?a (set (attempts st) - {a})"
    using set_upd_key [OF key_lists(4) [OF ok] a(1)] by simp
  have ids: "map jb_id (jobs st') = map jb_id (jobs st)" "map at_id (attempts st') = map at_id (attempts st)"
    "map (\<lambda>l. (ls_key l, ls_slot l)) (leases st') = map (\<lambda>l. (ls_key l, ls_slot l)) (leases st)"
    unfolding jobs' attempts' leases' by (rule map_upd_where, simp)+
  have fj: "jb_id (?f j) = jb_id j" "running (?f j) = running j" "jb_item_id (?f j) = jb_item_id j"
    "jb_campaign_id (?f j) = jb_campaign_id j" "jb_role (?f j) = jb_role j"
    "jb_active_state (?f j) = jb_active_state j" "jb_queued_state (?f j) = jb_queued_state j"
    "jb_required_resources (?f j) = jb_required_resources j"
    "jb_current_attempt_id (?f j) = jb_current_attempt_id j"
    "jb_attempt_count (?f j) = jb_attempt_count j"
    by (simp_all add: running_def)
  have kept: "map ls_key (job_leases i st') = map ls_key (job_leases i st)" for i
    unfolding job_leases_def leases' by (rule map_filter_upd_where) simp_all
  have new_att: "attempt_of (?f j) ?a" using a(2) by (simp add: attempt_of_def)
  have leased: "\<forall>l \<in> set (job_leases (jb_id k) st'). lease_of (if k = j then ?f j else k) l"
    if k: "k \<in> set (jobs st)" "running k" for k
  proof
    fix l assume "l \<in> set (job_leases (jb_id k) st')"
    then obtain l0 where l0: "l0 \<in> set (leases st)" "ls_job_id l0 = Some (jb_id k)"
        "l = (if ls_job_id l0 = Some (jb_id j) then l0\<lparr>ls_heartbeat_at := n, ls_expires_at := e\<rparr> else l0)"
      unfolding job_leases_def leases' by (auto simp: set_upd_where split: if_splits)
    then have "lease_of k l0" using running_lease [OF ok k] by blast
    then show "lease_of (if k = j then ?f j else k) l"
      using l0 job_unique [OF ok k(1) j(1)] by (auto simp: lease_of_def)
  qed
  have "keys_ok st'" using key_lists [OF ok] unfolding keys_ok_def ids st' by blast
  moreover have "owners_ok st'"
    using queue_okD(2) [OF ok] j(1) unfolding owners_ok_def st' js by (auto simp: fj)
  moreover have "jobs_ok st'"
    using queue_okD(3) [OF ok] j unfolding jobs_ok_def js by (auto simp: fj)
  moreover have "running_ok st'"
    unfolding running_ok_def
  proof (intro ballI impI)
    fix k assume k: "k \<in> set (jobs st')" "running k"
    define k0 where "k0 = (if k = ?f j then j else k)"
    have k0: "k0 \<in> set (jobs st)" "running k0" "k = (if k0 = j then ?f j else k0)"
      using k js j by (auto simp: k0_def)
    note rk = queue_okD(4) [OF ok, unfolded running_ok_def, rule_format, OF k0(1,2)]
    have same: "jb_id k = jb_id k0" "jb_item_id k = jb_item_id k0"
      "jb_active_state k = jb_active_state k0" "jb_required_resources k = jb_required_resources k0"
      using k0(3) by auto
    have "\<exists>b \<in> set (attempts st'). attempt_of k b"
    proof (cases "k0 = j")
      case True
      then show ?thesis using new_att as k0(3) by auto
    next
      case False
      obtain b where b: "b \<in> set (attempts st)" "attempt_of k0 b" using rk by blast
      have "b \<noteq> a"
        using b(2) a(2) False job_unique [OF ok k0(1) j(1)] by (auto simp: attempt_of_def)
      then show ?thesis using b as k0(3) False by auto
    qed
    moreover have "\<forall>l \<in> set (job_leases (jb_id k) st'). lease_of k l"
      using leased [OF k0(1,2)] unfolding same(1) k0(3) [symmetric] .
    ultimately show "(\<exists>i \<in> set (items st'). it_id i = jb_item_id k \<and> it_state i = jb_active_state k)
       \<and> (\<exists>a \<in> set (attempts st'). attempt_of k a)
       \<and> set (map ls_key (job_leases (jb_id k) st')) = set (jb_required_resources k)
       \<and> distinct (map ls_key (job_leases (jb_id k) st'))
       \<and> (\<forall>l \<in> set (job_leases (jb_id k) st'). lease_of k l)"
      using rk unfolding same kept st' by blast
  qed
  moreover have "exclusive_ok st'"
    using queue_okD(5) [OF ok] j unfolding exclusive_ok_def js by (auto simp: fj)
  moreover have "items_ok st'"
    using queue_okD(6) [OF ok] j unfolding items_ok_def js st' by (auto simp: fj)
  moreover have "attempts_ok st'"
    unfolding attempts_ok_def
  proof
    fix b assume b: "b \<in> set (attempts st')"
    define b0 where "b0 = (if b = ?a then a else b)"
    have b0: "b0 \<in> set (attempts st)" "at_status b = at_status b0" "at_job_id b = at_job_id b0"
      "at_number b = at_number b0" "b0 = a \<longrightarrow> b = ?a" "b0 \<noteq> a \<longrightarrow> b = b0"
      using b as a(1) by (auto simp: b0_def)
    note old = queue_okD(7) [OF ok, unfolded attempts_ok_def, rule_format, OF b0(1)]
    have "\<exists>h \<in> set (jobs st'). jb_id h = at_job_id b \<and> at_number b \<le> jb_attempt_count h"
      using old b0(3,4) js fj(1,10) by (metis Diff_iff insertE insertI1 insert_Diff insert_iff)
    moreover have "\<exists>h \<in> set (jobs st'). running h \<and> attempt_of h b" if "at_status b = AttemptRunning"
    proof (cases "b0 = a")
      case True
      then show ?thesis using b0(5) new_att js fj(2) j(2) by auto
    next
      case False
      have "at_status b0 = AttemptRunning" using that b0(2) by simp
      then obtain h where h: "h \<in> set (jobs st)" "running h" "attempt_of h b0"
        using old by blast
      have "h \<noteq> j"
        using False h(3) a attempt_unique [OF ok b0(1) a(1)] by (auto simp: attempt_of_def)
      then show ?thesis using h js b0(6) False by auto
    qed
    ultimately show "(at_status b = AttemptRunning \<longrightarrow> (\<exists>h \<in> set (jobs st'). running h \<and> attempt_of h b))
      \<and> (\<exists>h \<in> set (jobs st'). jb_id h = at_job_id b \<and> at_number b \<le> jb_attempt_count h)" by blast
  qed
  moreover have "leases_ok st'"
  proof -
    have "\<exists>h \<in> set (jobs st'). running h \<and> jb_id h = i"
      if "\<exists>h \<in> set (jobs st). running h \<and> jb_id h = i" for i
      using that js fj(1,2) by auto
    then show ?thesis
      using queue_okD(8) [OF ok] unfolding leases_ok_def leases' st'
      by (auto simp: set_upd_where split: option.splits)
  qed
  moreover have "processes_ok st'"
  proof -
    have "\<exists>b \<in> set (attempts st'). at_id b = i \<and> at_status b = AttemptRunning \<and> at_job_id b = k"
      if "\<exists>b \<in> set (attempts st). at_id b = i \<and> at_status b = AttemptRunning \<and> at_job_id b = k" for i k
      using that as by auto
    then show ?thesis using queue_okD(9) [OF ok] unfolding processes_ok_def st' by blast
  qed
  moreover have "controls_ok st'"
  proof -
    have "\<exists>h \<in> set (jobs st'). running h \<and> jb_id h = i \<and> jb_current_attempt_id h = s"
      if "\<exists>h \<in> set (jobs st). running h \<and> jb_id h = i \<and> jb_current_attempt_id h = s" for i s
      using that js fj(1,2,9) by auto
    then show ?thesis using queue_okD(10) [OF ok] unfolding controls_ok_def st' by blast
  qed
  moreover have "limits_ok st'"
  proof -
    have count: "rowcount (\<lambda>j. running_in c j \<and> R (jb_role j)) (jobs st')
        = rowcount (\<lambda>j. running_in c j \<and> R (jb_role j)) (jobs st)" for c R
      unfolding jobs' by (rule rowcount_upd_where) (simp add: running_in_def)
    have "rowcount (running_in c) (jobs st') = rowcount (running_in c) (jobs st)"
      "rowcount (\<lambda>j. running_in c j \<and> jb_role j = r) (jobs st')
        = rowcount (\<lambda>j. running_in c j \<and> jb_role j = r) (jobs st)" for c r
      using count [of c "\<lambda>_. True"] count [of c "\<lambda>x. x = r"] by simp_all
    then show ?thesis
      using queue_okD(11) [OF ok] unfolding limits_ok_def st' by presburger
  qed
  ultimately show ?thesis unfolding queue_ok_def by blast
qed

end
