(* ===== verification/Growing.thy ===== *)
theory Growing
  imports Beating
begin

text \<open>
  Changes of one table that keep the queue invariant: a new campaign, item or queued job, a
  standalone lease, a registered definition, the session columns of an attempt, the state of
  a process, a new control.
\<close>

section \<open>New rows\<close>

lemma queue_ok_insert_campaign:
  assumes ok: "queue_ok st" and new: "cp_id c \<notin> cp_id ` set (campaigns st)"
    and limits: "0 \<le> cp_global_limit c" "\<And>role. 0 \<le> role_limit c role"
  shows "queue_ok (st\<lparr>campaigns := campaigns st @ [c]\<rparr>)"
proof -
  let ?st = "st\<lparr>campaigns := campaigns st @ [c]\<rparr>"
  have none: "\<not> running_in (cp_id c) j" if "j \<in> set (jobs st)" for j
  proof
    assume "running_in (cp_id c) j"
    then have c: "jb_campaign_id j = cp_id c" by (simp add: running_in_def)
    have "(jb_item_id j, jb_campaign_id j) \<in> (\<lambda>i. (it_id i, it_campaign_id i)) ` set (items st)"
      using queue_okD(2) [OF ok] that unfolding owners_ok_def by blast
    then obtain i where "i \<in> set (items st)" "it_campaign_id i = jb_campaign_id j" by auto
    then have "jb_campaign_id j \<in> cp_id ` set (campaigns st)"
      using queue_okD(2) [OF ok] unfolding owners_ok_def by metis
    with new c show False by simp
  qed
  have zero: "rowcount (\<lambda>j. running_in (cp_id c) j \<and> Q j) (jobs st) = 0" for Q
    using none by (auto simp: rowcount_eq_0_iff)
  have "keys_ok ?st" using key_lists [OF ok] new by (simp add: keys_ok_def)
  moreover have "owners_ok ?st" using queue_okD(2) [OF ok] by (simp add: owners_ok_def)
  moreover have "limits_ok ?st"
    using queue_okD(11) [OF ok] limits zero [of "\<lambda>_. True"] zero
    by (simp add: limits_ok_def)
  ultimately show ?thesis
    using queue_okD [OF ok]
    by (simp add: queue_ok_def jobs_ok_def running_ok_def job_leases_def exclusive_ok_def
        items_ok_def attempts_ok_def leases_ok_def processes_ok_def controls_ok_def
        cong: option.case_cong)
qed

lemma queue_ok_insert_item:
  assumes ok: "queue_ok st" and new: "it_id i \<notin> it_id ` set (items st)"
    and owner: "it_campaign_id i \<in> cp_id ` set (campaigns st)"
    and idle: "\<not> is_active_state (it_state i)"
  shows "queue_ok (st\<lparr>items := items st @ [i]\<rparr>)"
proof -
  let ?st = "st\<lparr>items := items st @ [i]\<rparr>"
  have "keys_ok ?st" using key_lists [OF ok] new by (simp add: keys_ok_def)
  moreover have "owners_ok ?st" using queue_okD(2) [OF ok] owner by (auto simp: owners_ok_def)
  moreover have "running_ok ?st"
    using queue_okD(4) [OF ok] unfolding running_ok_def job_leases_def by simp
  moreover have "items_ok ?st" using queue_okD(6) [OF ok] idle by (simp add: items_ok_def)
  ultimately show ?thesis
    using queue_okD [OF ok]
    by (simp add: queue_ok_def jobs_ok_def exclusive_ok_def attempts_ok_def leases_ok_def
        processes_ok_def controls_ok_def limits_ok_def cong: option.case_cong)
qed

definition queued_row :: "store \<Rightarrow> job_row \<Rightarrow> bool" where
  "queued_row st j \<longleftrightarrow> jb_id j \<notin> jb_id ` set (jobs st)
     \<and> (jb_item_id j, jb_campaign_id j) \<in> (\<lambda>i. (it_id i, it_campaign_id i)) ` set (items st)
     \<and> jb_queued_state j = queued_state (jb_role j) \<and> jb_active_state j = active_state (jb_role j)
     \<and> distinct (jb_required_resources j) \<and> \<not> running j \<and> unleased j"

lemma queue_ok_insert_job:
  assumes ok: "queue_ok st" and row: "queued_row st j"
  shows "queue_ok (st\<lparr>jobs := jobs st @ [j]\<rparr>)"
proof -
  let ?st = "st\<lparr>jobs := jobs st @ [j]\<rparr>"
  have idle: "\<not> running j" using row by (simp add: queued_row_def)
  have count: "rowcount (\<lambda>k. running_in c k \<and> Q k) (jobs st @ [j])
      = rowcount (\<lambda>k. running_in c k \<and> Q k) (jobs st)" for c Q
    using idle by (simp add: rowcount_append rowcount_Cons running_in_def running_def)
  have "keys_ok ?st" using key_lists [OF ok] row by (simp add: keys_ok_def queued_row_def)
  moreover have "owners_ok ?st"
    using queue_okD(2) [OF ok] row by (auto simp: owners_ok_def queued_row_def)
  moreover have "jobs_ok ?st"
    using queue_okD(3) [OF ok] row by (simp add: jobs_ok_def queued_row_def)
  moreover have "running_ok ?st"
    using queue_okD(4) [OF ok] idle by (simp add: running_ok_def job_leases_def
        cong: option.case_cong)
  moreover have "exclusive_ok ?st"
    using queue_okD(5) [OF ok] idle by (simp add: exclusive_ok_def)
  moreover have "items_ok ?st" using queue_okD(6) [OF ok] by (simp add: items_ok_def)
  moreover have "attempts_ok ?st"
    using queue_okD(7) [OF ok] by (auto simp: attempts_ok_def)
  moreover have "leases_ok ?st"
    using queue_okD(8) [OF ok] by (auto simp: leases_ok_def split: option.splits)
  moreover have "processes_ok ?st" using queue_okD(9) [OF ok] by (simp add: processes_ok_def)
  moreover have "controls_ok ?st"
    using queue_okD(10) [OF ok] unfolding controls_ok_def by simp
  moreover have "limits_ok ?st"
    using queue_okD(11) [OF ok] count count [of _ "\<lambda>_. True"] by (simp add: limits_ok_def)
  ultimately show ?thesis unfolding queue_ok_def by blast
qed

section \<open>Standalone leases\<close>

definition standalone :: "lease_row \<Rightarrow> bool" where
  "standalone l \<longleftrightarrow> ls_job_id l = None"

definition job_held :: "lease_row list \<Rightarrow> lease_row list" where
  "job_held t = filter (\<lambda>l. \<not> standalone l) t"

definition same_slot :: "lease_row \<Rightarrow> lease_row \<Rightarrow> bool" where
  "same_slot l k \<longleftrightarrow> ls_key l = ls_key k \<and> ls_slot l = ls_slot k
     \<and> ls_definition_id l = ls_definition_id k"

lemma queue_ok_standalone:
  assumes ok: "queue_ok st"
    and same: "campaigns st' = campaigns st" "items st' = items st" "jobs st' = jobs st"
      "attempts st' = attempts st" "definitions st' = definitions st"
      "processes st' = processes st" "controls st' = controls st"
    and keys: "distinct (map (\<lambda>l. (ls_key l, ls_slot l)) (leases st'))"
    and held: "job_held (leases st') = job_held (leases st)"
    and alone: "\<And>l. l \<in> set (leases st') \<Longrightarrow> standalone l \<Longrightarrow>
      (ls_slot l = 1 \<and> ls_definition_id l = None)
      \<or> (\<exists>k \<in> set (leases st). same_slot l k)"
  shows "queue_ok st'"
proof -
  have "job_leases i t = filter (\<lambda>l. ls_job_id l = Some i) (job_held (leases t))" for i t
    unfolding job_leases_def job_held_def filter_filter
    by (rule filter_cong) (auto simp: standalone_def)
  then have kept: "job_leases i st' = job_leases i st" for i using held by simp
  have in_held: "l \<in> set (leases st)" if "l \<in> set (leases st')" "\<not> standalone l" for l
  proof -
    have "l \<in> set (job_held (leases st'))" using that by (simp add: job_held_def)
    then show ?thesis unfolding held by (simp add: job_held_def)
  qed
  have "keys_ok st'" using key_lists [OF ok] keys by (simp add: keys_ok_def same)
  moreover have "leases_ok st'"
    unfolding leases_ok_def same
  proof
    fix l assume l: "l \<in> set (leases st')"
    show "1 \<le> ls_slot l
      \<and> (case ls_job_id l of None \<Rightarrow> True | Some i \<Rightarrow> \<exists>j \<in> set (jobs st). running j \<and> jb_id j = i)
      \<and> (case ls_definition_id l of None \<Rightarrow> ls_slot l = 1
         | Some i \<Rightarrow> \<exists>d \<in> set (definitions st). rd_id d = i \<and> i = ls_key l
             \<and> int (ls_slot l) \<le> rp_limit (rd_policy d))"
    proof (cases "standalone l")
      case True
      from alone [OF l True] show ?thesis
      proof
        assume "ls_slot l = 1 \<and> ls_definition_id l = None"
        with True show ?thesis by (simp add: standalone_def)
      next
        assume "\<exists>k \<in> set (leases st). same_slot l k"
        then obtain k where k: "k \<in> set (leases st)" "ls_key l = ls_key k" "ls_slot l = ls_slot k"
            "ls_definition_id l = ls_definition_id k"
          unfolding same_slot_def by blast
        from bspec [OF queue_okD(8) [OF ok, unfolded leases_ok_def] k(1)] True show ?thesis
          unfolding k(2-4) by (simp add: standalone_def)
      qed
    next
      case False
      with queue_okD(8) [OF ok] in_held [OF l] show ?thesis unfolding leases_ok_def by blast
    qed
  qed
  moreover have "running_ok st'"
    using queue_okD(4) [OF ok] unfolding running_ok_def same kept .
  ultimately show ?thesis
    using queue_okD [OF ok]
    by (simp add: queue_ok_def owners_ok_def jobs_ok_def exclusive_ok_def items_ok_def
        attempts_ok_def processes_ok_def controls_ok_def limits_ok_def same)
qed

section \<open>Definitions\<close>

lemma queue_ok_definitions:
  assumes ok: "queue_ok st" and ids: "distinct (map rd_id ds)"
    and kept: "\<And>d. d \<in> set (definitions st) \<Longrightarrow>
      \<exists>e \<in> set ds. rd_id e = rd_id d \<and> rp_limit (rd_policy e) = rp_limit (rd_policy d)"
  shows "queue_ok (st\<lparr>definitions := ds\<rparr>)"
proof -
  let ?st = "st\<lparr>definitions := ds\<rparr>"
  have "keys_ok ?st" using key_lists [OF ok] ids by (simp add: keys_ok_def)
  moreover have "leases_ok ?st"
    unfolding leases_ok_def
  proof
    fix l assume "l \<in> set (leases ?st)"
    then have l: "1 \<le> ls_slot l
      \<and> (case ls_job_id l of None \<Rightarrow> True | Some i \<Rightarrow> \<exists>j \<in> set (jobs st). running j \<and> jb_id j = i)
      \<and> (case ls_definition_id l of None \<Rightarrow> ls_slot l = 1
         | Some i \<Rightarrow> \<exists>d \<in> set (definitions st). rd_id d = i \<and> i = ls_key l
             \<and> int (ls_slot l) \<le> rp_limit (rd_policy d))"
      using queue_okD(8) [OF ok] unfolding leases_ok_def by simp
    have "case ls_definition_id l of None \<Rightarrow> ls_slot l = 1
         | Some i \<Rightarrow> \<exists>d \<in> set ds. rd_id d = i \<and> i = ls_key l \<and> int (ls_slot l) \<le> rp_limit (rd_policy d)"
    proof (cases "ls_definition_id l")
      case None
      with l show ?thesis by simp
    next
      case (Some i)
      with l obtain d where d: "d \<in> set (definitions st)" "rd_id d = i" "i = ls_key l"
          "int (ls_slot l) \<le> rp_limit (rd_policy d)" by auto
      obtain e where "e \<in> set ds" "rd_id e = rd_id d" "rp_limit (rd_policy e) = rp_limit (rd_policy d)"
        using kept [OF d(1)] by blast
      with Some d show ?thesis by auto
    qed
    with l show "1 \<le> ls_slot l
      \<and> (case ls_job_id l of None \<Rightarrow> True | Some i \<Rightarrow> \<exists>j \<in> set (jobs ?st). running j \<and> jb_id j = i)
      \<and> (case ls_definition_id l of None \<Rightarrow> ls_slot l = 1
         | Some i \<Rightarrow> \<exists>d \<in> set (definitions ?st). rd_id d = i \<and> i = ls_key l
             \<and> int (ls_slot l) \<le> rp_limit (rd_policy d))"
      by (cases "ls_job_id l"; cases "ls_definition_id l"; simp)
  qed
  ultimately show ?thesis
    using queue_okD [OF ok]
    by (simp add: queue_ok_def owners_ok_def jobs_ok_def exclusive_ok_def items_ok_def
        attempts_ok_def processes_ok_def controls_ok_def limits_ok_def running_ok_def job_leases_def
        cong: option.case_cong)
qed

section \<open>Attempts\<close>

text \<open>The columns of an attempt that the invariant reads.\<close>

definition attempt_core ::
    "attempt_row \<Rightarrow> string \<times> string \<times> int \<times> string \<times> string \<times> AttemptStatus \<times> time" where
  "attempt_core a = (at_id a, at_job_id a, at_number a, at_worker_id a, at_lease_token a,
     at_status a, at_lease_expires_at a)"

lemma attempt_core_reads:
  assumes "attempt_core a = attempt_core b"
  shows "at_id a = at_id b" "at_job_id a = at_job_id b" "at_number a = at_number b"
    "at_status a = at_status b" "attempt_of j a = attempt_of j b"
  using assms by (simp_all add: attempt_core_def attempt_of_def)

lemma queue_ok_attempts:
  assumes ok: "queue_ok st"
    and core: "\<And>a. Q a \<Longrightarrow> attempt_core (F a) = attempt_core a"
  shows "queue_ok (st\<lparr>attempts := upd_where Q F (attempts st)\<rparr>)"
proof -
  let ?F = "\<lambda>a. if Q a then F a else a"
  let ?st = "st\<lparr>attempts := upd_where Q F (attempts st)\<rparr>"
  note reads = attempt_core_reads [of "?F a" a for a]
  have same: "attempt_core (?F a) = attempt_core a" for a using core by simp
  have as: "set (attempts ?st) = ?F ` set (attempts st)" by (simp add: set_upd_where)
  have ids: "map at_id (attempts ?st) = map at_id (attempts st)"
    using reads(1) [OF same] by (simp add: upd_where_def)
  have ex: "(\<exists>b \<in> set (attempts ?st). R b) \<longleftrightarrow> (\<exists>a \<in> set (attempts st). R (?F a))" for R
    unfolding as by blast
  have all: "(\<forall>b \<in> set (attempts ?st). R b) \<longleftrightarrow> (\<forall>a \<in> set (attempts st). R (?F a))" for R
    unfolding as by blast
  have "keys_ok ?st" using key_lists [OF ok] ids by (simp add: keys_ok_def)
  moreover have "running_ok ?st"
    using queue_okD(4) [OF ok]
    unfolding running_ok_def ex reads(5) [OF same] by (simp add: job_leases_def)
  moreover have "attempts_ok ?st"
    using queue_okD(7) [OF ok]
    unfolding attempts_ok_def all reads(2-5) [OF same] by simp
  moreover have "processes_ok ?st"
    using queue_okD(9) [OF ok]
    unfolding processes_ok_def ex reads(1,2,4) [OF same] by simp
  ultimately show ?thesis
    using queue_okD [OF ok]
    by (simp add: queue_ok_def owners_ok_def jobs_ok_def exclusive_ok_def items_ok_def
        leases_ok_def controls_ok_def limits_ok_def cong: option.case_cong)
qed

section \<open>Processes\<close>

text \<open>A process row may change freely as long as a stopped one stays stopped.\<close>

definition process_kept :: "process_row \<Rightarrow> process_row \<Rightarrow> bool" where
  "process_kept p q \<longleftrightarrow> ep_id q = ep_id p \<and> ep_attempt_id q = ep_attempt_id p
     \<and> ep_job_id q = ep_job_id p \<and> (unresolved q \<longrightarrow> unresolved p)"

lemma queue_ok_process_update:
  assumes ok: "queue_ok st"
    and kept0: "\<And>p. p \<in> set (processes st) \<Longrightarrow> Q p \<Longrightarrow> process_kept p (F p)"
  shows "queue_ok (st\<lparr>processes := upd_where Q F (processes st)\<rparr>)"
proof -
  let ?Q = "\<lambda>p. p \<in> set (processes st) \<and> Q p"
  let ?F = "\<lambda>p. if ?Q p then F p else p"
  have here: "upd_where Q F (processes st) = upd_where ?Q F (processes st)"
    by (rule upd_where_cong) simp
  have kept: "?Q p \<Longrightarrow> process_kept p (F p)" for p using kept0 by simp
  let ?st = "st\<lparr>processes := upd_where Q F (processes st)\<rparr>"
  have F: "ep_id (?F p) = ep_id p" "ep_attempt_id (?F p) = ep_attempt_id p"
    "ep_job_id (?F p) = ep_job_id p" "unresolved (?F p) \<Longrightarrow> unresolved p" for p
    using kept [of p] by (auto simp: process_kept_def split: if_splits)
  have ids: "map ep_id (upd_where Q F (processes st)) = map ep_id (processes st)"
    unfolding here by (rule map_upd_where) (use kept in \<open>auto simp: process_kept_def\<close>)
  have ps: "set (processes ?st) = ?F ` set (processes st)"
    unfolding here by (simp add: set_upd_where)
  note old = queue_okD(9) [OF ok, unfolded processes_ok_def]
  have "processes_ok ?st"
    unfolding processes_ok_def
  proof (intro conjI ballI impI)
    fix p assume "p \<in> set (processes ?st)" "unresolved p"
    then obtain p0 where p0: "p0 \<in> set (processes st)" "p = ?F p0" "unresolved p0"
      unfolding ps using F(4) by blast
    then show "\<exists>a \<in> set (attempts ?st). at_id a = ep_attempt_id p \<and> at_status a = AttemptRunning
        \<and> at_job_id a = ep_job_id p"
      unfolding \<open>p = ?F p0\<close> F(2,3) using old by simp
  next
    fix p q assume "p \<in> set (processes ?st)" "q \<in> set (processes ?st)" "unresolved p" "unresolved q"
      and eq: "ep_attempt_id p = ep_attempt_id q"
    then obtain p0 q0 where p0: "p0 \<in> set (processes st)" "p = ?F p0" "unresolved p0"
      and q0: "q0 \<in> set (processes st)" "q = ?F q0" "unresolved q0"
      unfolding ps using F(4) by blast
    have "ep_attempt_id p0 = ep_attempt_id q0" using eq p0(2) q0(2) F(2) by metis
    then have "p0 = q0" using old p0 q0 by blast
    then show "p = q" using p0(2) q0(2) by simp
  qed
  moreover have "keys_ok ?st" using key_lists [OF ok] ids by (simp add: keys_ok_def)
  ultimately show ?thesis
    using queue_okD [OF ok]
    by (simp add: queue_ok_def owners_ok_def jobs_ok_def exclusive_ok_def items_ok_def
        leases_ok_def controls_ok_def limits_ok_def running_ok_def attempts_ok_def job_leases_def
        cong: option.case_cong)
qed

lemma queue_ok_insert_process:
  assumes ok: "queue_ok st" and new: "ep_id p \<notin> ep_id ` set (processes st)"
    and a: "\<exists>a \<in> set (attempts st). at_id a = ep_attempt_id p \<and> at_status a = AttemptRunning
      \<and> at_job_id a = ep_job_id p"
    and one: "\<And>q. q \<in> set (processes st) \<Longrightarrow> unresolved q \<Longrightarrow> ep_attempt_id q \<noteq> ep_attempt_id p"
  shows "queue_ok (st\<lparr>processes := processes st @ [p]\<rparr>)"
proof -
  let ?st = "st\<lparr>processes := processes st @ [p]\<rparr>"
  have "keys_ok ?st" using key_lists [OF ok] new by (simp add: keys_ok_def)
  moreover have "processes_ok ?st"
    using queue_okD(9) [OF ok] a one unfolding processes_ok_def
    by simp (metis one)
  ultimately show ?thesis
    using queue_okD [OF ok]
    by (simp add: queue_ok_def owners_ok_def jobs_ok_def exclusive_ok_def items_ok_def
        leases_ok_def controls_ok_def limits_ok_def running_ok_def attempts_ok_def job_leases_def
        cong: option.case_cong)
qed

section \<open>Controls\<close>

lemma queue_ok_insert_control:
  assumes ok: "queue_ok st" and new: "oc_id c \<notin> oc_id ` set (controls st)"
    and owner: "pending_interrupt c \<Longrightarrow> \<exists>j \<in> set (jobs st). running j \<and> jb_id j = oc_job_id c
      \<and> jb_current_attempt_id j = Some (oc_source_attempt_id c)"
    and one: "\<And>d. d \<in> set (controls st) \<Longrightarrow> pending_interrupt d \<Longrightarrow> pending_interrupt c \<Longrightarrow>
      oc_job_id d \<noteq> oc_job_id c"
  shows "queue_ok (st\<lparr>controls := controls st @ [c]\<rparr>)"
proof -
  let ?st = "st\<lparr>controls := controls st @ [c]\<rparr>"
  have "keys_ok ?st" using key_lists [OF ok] new by (simp add: keys_ok_def)
  moreover have "controls_ok ?st"
    using queue_okD(10) [OF ok] owner one unfolding controls_ok_def by simp metis
  ultimately show ?thesis
    using queue_okD [OF ok]
    by (simp add: queue_ok_def owners_ok_def jobs_ok_def exclusive_ok_def items_ok_def
        leases_ok_def processes_ok_def limits_ok_def running_ok_def attempts_ok_def job_leases_def
        cong: option.case_cong)
qed

end
