(* ===== verification/Steps.thy ===== *)
theory Steps
  imports Growing
begin

text \<open>
  Every operation of the store keeps the queue invariant: one lemma per operation, named
  \<open><operation>_ok\<close>.
\<close>

section \<open>Inserts and events\<close>

lemma same_queue_append_event: "same_queue st (append_event k c i j a d n st)"
  by (rule same_queueI) simp_all

lemma queue_ok_append_event [simp]:
  "queue_ok (append_event k c i j a d n st) = queue_ok st"
proof
  assume "queue_ok (append_event k c i j a d n st)"
  then show "queue_ok st" by (rule queue_ok_cong) (rule same_queueI; simp)
qed (rule queue_ok_cong [OF _ same_queue_append_event])

lemma insert_campaign_ok:
  assumes ok: "queue_ok st" and run: "insert_campaign c st = Inr st'"
    and limits: "\<forall>kv \<in> set (cp_role_limits c). 0 \<le> snd kv"
  shows "queue_ok st'"
proof -
  from run have new: "cp_id c \<notin> cp_id ` set (campaigns st)" and pos: "0 < cp_global_limit c"
    and st': "st' = st\<lparr>campaigns := campaigns st @ [c]\<rparr>"
    by (auto simp: insert_campaign_def has_key_def)
  have "0 \<le> role_limit c role" for role
    using pos limits by (auto simp: role_limit_def split: option.splits dest!: map_of_SomeD)
  with queue_ok_insert_campaign [OF ok new] pos show ?thesis unfolding st' by simp
qed

lemma insert_item_ok:
  assumes ok: "queue_ok st" and run: "insert_item i st = Inr st'"
    and idle: "\<not> is_active_state (it_state i)"
  shows "queue_ok st'"
  using run queue_ok_insert_item [OF ok _ _ idle] by (auto simp: insert_item_def has_key_def)

lemma insert_job_ok:
  assumes ok: "queue_ok st" and run: "insert_job j st = Inr st'" and row: "queued_row st j"
  shows "queue_ok st'"
  using run queue_ok_insert_job [OF ok row] by (auto simp: insert_job_def)

section \<open>Filling the queue\<close>

lemma create_campaign_ok:
  assumes ok: "queue_ok st"
    and run: "create_campaign name given status config g limits fresh now st = Inr (st', cid)"
  shows "queue_ok st'"
proof -
  from run obtain c st1 where ins: "insert_campaign c st = Inr st1"
    and st': "queue_ok st' = queue_ok st1" and limits: "list_all (\<lambda>kv. 1 \<le> snd kv) (cp_role_limits c)"
    unfolding create_campaign_def Let_def by auto
  have "\<forall>kv \<in> set (cp_role_limits c). 0 \<le> snd kv"
    using limits by (auto simp: list_all_iff)
  with insert_campaign_ok [OF ok ins] st' show ?thesis by simp
qed

lemma enqueue_job_rowD:
  assumes "enqueue_job_row item_id q fresh now st = Inr j"
  obtains item role where "item \<in> set (items st)" "it_id item = item_id"
    "item_state_value (it_state item) = jr_queued_state q"
    "worker_role_of (jr_role q) = Some role"
    "jr_queued_state q = item_state_value (queued_state role)"
    "jr_active_state q = item_state_value (active_state role)"
    "jb_item_id j = item_id" "jb_campaign_id j = it_campaign_id item" "jb_role j = role"
    "jb_queued_state j = queued_state role" "jb_active_state j = active_state role"
    "distinct (jb_required_resources j)" "jb_status j = JobPending" "unleased j"
    "jb_attempt_count j = 0"
proof -
  from assms obtain item campaign role kind resources where
    "item_with_campaign item_id st = Some (item, campaign)"
    "item_state_value (it_state item) = jr_queued_state q"
    "worker_role_of (jr_role q) = Some role"
    "jr_queued_state q = item_state_value (queued_state role)"
    "jr_active_state q = item_state_value (active_state role)"
    and resources: "request_resources (jr_required_resources q) (jr_managed_worktree_id q) = Inr resources"
    and j: "j = \<lparr>jb_id = given_or (jr_job_id q) fresh, jb_campaign_id = it_campaign_id item,
             jb_item_id = item_id, jb_role = role, jb_stage = jr_stage q, jb_status = JobPending,
             jb_priority = jr_priority q, jb_payload = JObj (jr_payload q), jb_result = None,
             jb_required_resources = resources, jb_queued_state = queued_state role,
             jb_active_state = active_state role,
             jb_required_approval_action = jr_required_approval_action q,
             jb_available_at = jr_available_at q, jb_lease_owner = None, jb_lease_token = None,
             jb_lease_expires_at = None, jb_heartbeat_at = None, jb_current_attempt_id = None,
             jb_attempt_count = 0, jb_last_error = None, jb_created_at = now,
             jb_updated_at = now, jb_workspace_kind = kind,
             jb_managed_worktree_id = jr_managed_worktree_id q\<rparr>"
    unfolding enqueue_job_row_def by auto
  moreover have "distinct resources"
    using resources by (auto simp: request_resources_def Let_def)
  moreover have "item \<in> set (items st) \<and> it_id item = item_id"
    using calculation(1) by (auto simp: item_with_campaign_def find_item_def
        dest: find_SomeD split: bind_splits)
  ultimately show ?thesis by (intro that [of item role]) (auto simp: unleased_def)
qed

lemma enqueue_job_ok:
  assumes ok: "queue_ok st" and run: "enqueue_job item_id q fresh now st = Inr (st', jid)"
  shows "queue_ok st'"
proof -
  from run obtain j st1 where row: "enqueue_job_row item_id q fresh now st = Inr j"
    and ins: "insert_job j st = Inr st1" and st': "queue_ok st' = queue_ok st1"
    unfolding enqueue_job_def by auto
  from ins have "jb_id j \<notin> jb_id ` set (jobs st)" by (auto simp: insert_job_def has_key_def)
  with row have "queued_row st j"
    by (elim enqueue_job_rowD) (force simp: queued_row_def running_def)
  with insert_job_ok [OF ok ins] st' show ?thesis by simp
qed

lemma creatable_idle: "creatable_state s \<Longrightarrow> \<not> is_active_state s"
  by (auto simp: creatable_state_def is_active_state_def)

lemma create_work_item_ok:
  assumes ok: "queue_ok st"
    and run: "create_work_item cid title given desc state prio gates meta init fresh fj now st
      = Inr (st', i)"
  shows "queue_ok st'"
proof -
  let ?event = "\<lambda>s. append_event ''work_item.created'' (Some cid) (Some (given_or given fresh))
    None None [(''state'', JStr (item_state_value s))] now"
  let ?item = "\<lambda>s ks. \<lparr>it_id = given_or given fresh, it_campaign_id = cid, it_title = title,
    it_description = desc, it_state = s, it_priority = prio, it_required_gates = ks,
    it_metadata = JObj meta, it_created_at = now, it_updated_at = now\<rparr>"
  from run obtain s ks st1 where s: "creatable_state s" and ins: "insert_item (?item s ks) st = Inr st1"
    and rest: "(case init of None \<Rightarrow> Inr (?event s st1, given_or given fresh)
     | Some n \<Rightarrow> bindR (enqueue_job (given_or given fresh)
          (next_job_request n (item_state_value s) (nj_workspace_kind n)
             (nj_managed_worktree_id n) prio now) fj now (?event s st1))
             (\<lambda>(st3, _). Inr (st3, given_or given fresh)))
       = (Inr (st', i) :: store_error + store \<times> string)"
    unfolding create_work_item_def Let_def by auto
  have "queue_ok st1" using insert_item_ok [OF ok ins] creatable_idle s by simp
  then have ok1: "queue_ok (?event s st1)" by simp
  show ?thesis
  proof (cases init)
    case None
    with rest ok1 show ?thesis by auto
  next
    case (Some n)
    with rest show ?thesis by (auto intro: enqueue_job_ok [OF ok1])
  qed
qed

section \<open>Operations that leave the queue's tables alone\<close>

lemma create_approval_ok:
  "queue_ok st \<Longrightarrow> create_approval c a r i s f n st = Inr st' \<Longrightarrow> queue_ok st'"
  by (erule queue_ok_cong) (rule same_queueI; auto simp: create_approval_def insert_approval_def)

lemma resolve_approval_ok:
  "queue_ok st \<Longrightarrow> resolve_approval a s r n st = Inr st' \<Longrightarrow> queue_ok st'"
  by (erule queue_ok_cong) (rule same_queueI; auto simp: resolve_approval_def Let_def)

lemma add_artifact_ok:
  "queue_ok st \<Longrightarrow> add_artifact i k u j m f n st = Inr st' \<Longrightarrow> queue_ok st'"
  by (erule queue_ok_cong) (rule same_queueI; auto simp: add_artifact_def insert_artifact_def)

lemma record_attempt_artifact_ok:
  assumes ok: "queue_ok st" and run: "record_attempt_artifact W j w t k u m f n st = Inr st'"
  shows "queue_ok st'"
proof -
  have insert: "queue_ok st1" if "insert_artifact r st = Inr st1" for r st1
    using that by (intro queue_ok_cong [OF ok] same_queueI) (auto simp: insert_artifact_def)
  have "wpR queue_ok (record_attempt_artifact W j w t k u m f n st)"
    unfolding record_attempt_artifact_def Let_def
    by (intro wp_intros) (simp_all add: ok insert)
  from this run show ?thesis by (rule wpD)
qed

lemma add_event_ok:
  "queue_ok st \<Longrightarrow> add_event k c i j a d n st = Inr st' \<Longrightarrow> queue_ok st'"
  by (auto simp: add_event_def)

lemma revoke_admission_ok:
  "queue_ok st \<Longrightarrow> revoke_focused_test_admission W a b c n st = Inr st' \<Longrightarrow> queue_ok st'"
  by (erule queue_ok_cong) (rule same_queueI;
    auto simp: revoke_focused_test_admission_def Let_def split: if_splits)

lemma quarantine_worktree_ok:
  "queue_ok st \<Longrightarrow> quarantine_claimed_managed_worktree j w t r n st = Inr st' \<Longrightarrow> queue_ok st'"
  by (erule queue_ok_cong) (rule same_queueI;
    auto simp: quarantine_claimed_managed_worktree_def Let_def split: if_splits)

end
