(* ===== verification/Lifecycle.thy ===== *)
theory Lifecycle
  imports Steps
begin

text \<open>
  The operations that move a job through its life, and those on its leases, processes and
  controls, keep the queue invariant.
\<close>

section \<open>Standalone leases\<close>

lemma job_held_del_standalone:
  "(\<And>l. l \<in> set t \<Longrightarrow> Q l \<Longrightarrow> standalone l) \<Longrightarrow> job_held (del_where Q t) = job_held t"
  unfolding job_held_def del_where_def filter_filter by (rule filter_cong) auto

lemma queue_ok_insert_standalone:
  assumes ok: "queue_ok st" and run: "insert_lease l st = Inr st'"
    and l: "standalone l" "ls_slot l = 1" "ls_definition_id l = None"
  shows "queue_ok st'"
proof -
  from run have new: "(ls_key l, ls_slot l) \<notin> (\<lambda>l. (ls_key l, ls_slot l)) ` set (leases st)"
    and st': "st' = st\<lparr>leases := leases st @ [l]\<rparr>"
    by (auto simp: insert_lease_def has_key_def)
  show ?thesis
  proof (rule queue_ok_standalone [OF ok])
    show "distinct (map (\<lambda>l. (ls_key l, ls_slot l)) (leases st'))"
      using key_lists(5) [OF ok] new by (simp add: st')
    show "job_held (leases st') = job_held (leases st)" using l by (simp add: st' job_held_def)
    fix k assume "k \<in> set (leases st')" "standalone k"
    then show "(ls_slot k = 1 \<and> ls_definition_id k = None) \<or> (\<exists>k' \<in> set (leases st). same_slot k k')"
      using l by (auto simp: st' same_slot_def)
  qed (simp_all add: st')
qed

lemma queue_ok_del_standalone:
  assumes ok: "queue_ok st" and Q: "\<And>l. l \<in> set (leases st) \<Longrightarrow> Q l \<Longrightarrow> standalone l"
  shows "queue_ok (st\<lparr>leases := del_where Q (leases st)\<rparr>)"
  by (rule queue_ok_del_leases [OF ok, where L = Q])
    (use Q in \<open>simp_all add: standalone_def\<close>)

lemma find_lease_unique:
  assumes ok: "queue_ok st" and found: "find_lease key slot st = Some l"
    and k: "k \<in> set (leases st)" "ls_key k = key" "ls_slot k = slot"
  shows "k = l"
proof -
  have "l \<in> set (leases st)" "ls_key l = key" "ls_slot l = slot"
    using found by (auto simp: find_lease_def dest: find_SomeD)
  with k show ?thesis using key_unique [OF key_lists(5) [OF ok], of k l] by simp
qed

lemma acquire_resource_ok:
  assumes ok: "queue_ok st"
    and run: "acquire_resource key owner secs job_id token now st = Inr (st', r)"
  shows "queue_ok st'"
proof -
  let ?l = "\<lparr>ls_key = key, ls_slot = 1, ls_definition_id = None, ls_owner = owner,
    ls_job_id = None, ls_token = token, ls_acquired_at = now, ls_heartbeat_at = now,
    ls_expires_at = now + secs, ls_identity_hash = None\<rparr>"
  have grant: "queue_ok st'" if "queue_ok st0" "bindR (insert_lease ?l st0) (\<lambda>st2.
      Inr (append_event ''resource.acquired'' None None None (Some owner)
        [(''resource_key'', JStr key), (''lease_slot'', JNum 1),
         (''expires_at'', JNum (now + secs))] now st2, Some token)) = Inr (st', r)" for st0
    using that queue_ok_insert_standalone [OF that(1), of ?l] by (auto simp: standalone_def)
  show ?thesis
  proof (cases "find_lease key 1 st")
    case None
    with run have "bindR (insert_lease ?l st) (\<lambda>st2.
      Inr (append_event ''resource.acquired'' None None None (Some owner)
        [(''resource_key'', JStr key), (''lease_slot'', JNum 1),
         (''expires_at'', JNum (now + secs))] now st2, Some token)) = Inr (st', r)"
      by (simp add: acquire_resource_def Let_def)
    then show ?thesis by (rule grant [OF ok])
  next
    case (Some l)
    let ?st1 = "append_event ''resource.lease_expired'' None None None (Some owner)
      [(''resource_key'', JStr key), (''lease_slot'', JNum 1)] now
      (st\<lparr>leases := del_where (\<lambda>l. ls_key l = key \<and> ls_slot l = 1) (leases st)\<rparr>)"
    show ?thesis
    proof (cases "ls_job_id l \<noteq> None \<or> now < ls_expires_at l")
      case True
      with run Some ok show ?thesis by (auto simp: acquire_resource_def Let_def split: if_splits)
    next
      case False
      have "standalone k" if "k \<in> set (leases st)" "ls_key k = key \<and> ls_slot k = 1" for k
        using find_lease_unique [OF ok Some that(1)] that(2) False by (simp add: standalone_def)
      then have "queue_ok ?st1" using queue_ok_del_standalone [OF ok] by simp
      moreover have "bindR (insert_lease ?l ?st1) (\<lambda>st2.
        Inr (append_event ''resource.acquired'' None None None (Some owner)
          [(''resource_key'', JStr key), (''lease_slot'', JNum 1),
           (''expires_at'', JNum (now + secs))] now st2, Some token)) = Inr (st', r)"
        using run Some False by (simp add: acquire_resource_def Let_def)
      ultimately show ?thesis by (rule grant)
    qed
  qed
qed

lemma job_bound_standalone:
  assumes ok: "queue_ok st" and free: "\<not> job_bound key st"
    and l: "l \<in> set (leases st)" "ls_key l = key" "ls_slot l = 1"
  shows "standalone l"
proof (cases "find_lease key 1 st")
  case None
  with l show ?thesis by (auto simp: find_lease_def find_None_iff)
next
  case (Some k)
  with find_lease_unique [OF ok Some l] free show ?thesis
    by (simp add: job_bound_def standalone_def)
qed

lemma heartbeat_resource_ok:
  assumes ok: "queue_ok st" and run: "heartbeat_resource key owner token secs now st = Inr (st', b)"
  shows "queue_ok st'"
proof -
  let ?mine = "\<lambda>l. ls_key l = key \<and> ls_slot l = 1 \<and> ls_owner l = owner \<and> ls_token l = token
    \<and> now < ls_expires_at l"
  obtain Q F where free: "\<not> job_bound key st"
    and tables: "campaigns st' = campaigns st" "items st' = items st" "jobs st' = jobs st"
      "attempts st' = attempts st" "definitions st' = definitions st"
      "processes st' = processes st" "controls st' = controls st"
    and leases: "leases st' = upd_where Q F (leases st)"
    and Q: "\<And>l. Q l \<Longrightarrow> ls_key l = key \<and> ls_slot l = 1"
    and F: "\<And>l. same_slot (F l) l \<and> ls_job_id (F l) = ls_job_id l"
  proof
    show "\<not> job_bound key st" using run by (simp add: heartbeat_resource_def)
    show "leases st' = upd_where ?mine (\<lambda>l. l\<lparr>ls_heartbeat_at := now, ls_expires_at := now + secs\<rparr>)
        (leases st)"
      using run by (auto simp: heartbeat_resource_def Let_def split: if_splits)
  qed (use run in \<open>auto simp: heartbeat_resource_def Let_def same_slot_def split: if_splits\<close>)
  show ?thesis
  proof (rule queue_ok_standalone [OF ok tables])
    have "(ls_key (F l), ls_slot (F l)) = (ls_key l, ls_slot l)" for l
      using F by (simp add: same_slot_def)
    then have "map (\<lambda>l. (ls_key l, ls_slot l)) (leases st') = map (\<lambda>l. (ls_key l, ls_slot l)) (leases st)"
      unfolding leases by (intro map_upd_where)
    then show "distinct (map (\<lambda>l. (ls_key l, ls_slot l)) (leases st'))"
      using key_lists(5) [OF ok] by simp
    have "job_held (upd_where Q F t) = job_held t" if "\<forall>l \<in> set t. Q l \<longrightarrow> standalone l" for t
      using that F by (induction t) (auto simp: job_held_def upd_where_def standalone_def)
    then show "job_held (leases st') = job_held (leases st)"
      unfolding leases using job_bound_standalone [OF ok free] Q by blast
    fix l assume "l \<in> set (leases st')" "standalone l"
    then obtain k where "k \<in> set (leases st)" "l = (if Q k then F k else k)"
      unfolding leases by (auto simp: set_upd_where)
    then show "(ls_slot l = 1 \<and> ls_definition_id l = None) \<or> (\<exists>k \<in> set (leases st). same_slot l k)"
      using F by (auto simp: same_slot_def split: if_splits)
  qed
qed

lemma release_resource_ok:
  assumes ok: "queue_ok st" and run: "release_resource key owner token now st = Inr (st', b)"
  shows "queue_ok st'"
proof -
  let ?mine = "\<lambda>l. ls_key l = key \<and> ls_slot l = 1 \<and> ls_owner l = owner \<and> ls_token l = token"
  have free: "\<not> job_bound key st" using run by (simp add: release_resource_def)
  have "queue_ok (st\<lparr>leases := del_where ?mine (leases st)\<rparr>)"
    by (rule queue_ok_del_standalone [OF ok]) (auto intro: job_bound_standalone [OF ok free])
  then show ?thesis using run by (auto simp: release_resource_def Let_def split: if_splits)
qed

section \<open>The registry\<close>

lemma define_resource_ok:
  assumes ok: "queue_ok st"
    and run: "define_resource W k l c a p cid m e g f n st = Inr (st', rid)"
  shows "queue_ok st'"
proof -
  from run obtain d st1 where ins: "insert_definition d st = Inr st1"
    and st': "queue_ok st' = queue_ok st1"
    unfolding define_resource_def Let_def by auto
  have "distinct (map rd_id (definitions st @ [d]))"
    using ins key_lists(8) [OF ok] by (auto simp: insert_definition_def has_key_def)
  then have "queue_ok (st\<lparr>definitions := definitions st @ [d]\<rparr>)"
    by (rule queue_ok_definitions [OF ok]) auto
  with ins st' show ?thesis by (auto simp: insert_definition_def)
qed

lemma set_resource_enabled_ok:
  assumes ok: "queue_ok st" and run: "set_resource_enabled W rid enabled actor now st = Inr st'"
  shows "queue_ok st'"
proof -
  let ?ds = "upd_where (\<lambda>r. rd_id r = rid \<and> rd_enabled r = (\<not> enabled))
    (\<lambda>r. r\<lparr>rd_enabled := enabled, rd_updated_at := now\<rparr>) (definitions st)"
  have "map rd_id ?ds = map rd_id (definitions st)" by (rule map_upd_where) simp
  then have ids: "distinct (map rd_id ?ds)" using key_lists(8) [OF ok] by simp
  have "queue_ok (st\<lparr>definitions := ?ds\<rparr>)"
  proof (rule queue_ok_definitions [OF ok ids])
    fix d assume d: "d \<in> set (definitions st)"
    let ?d = "if rd_id d = rid \<and> rd_enabled d = (\<not> enabled)
      then d\<lparr>rd_enabled := enabled, rd_updated_at := now\<rparr> else d"
    have "?d \<in> set ?ds" unfolding set_upd_where using d by (rule imageI)
    then show "\<exists>e \<in> set ?ds. rd_id e = rd_id d \<and> rp_limit (rd_policy e) = rp_limit (rd_policy d)"
      by (rule bexI [rotated]) simp
  qed
  with ok run show ?thesis
    by (auto simp: set_resource_enabled_def split: if_splits)
qed

end
