(* ===== verification/Turns.thy ===== *)
theory Turns
  imports Lifecycle
begin

text \<open>
  The operations on a claimed job, on its processes and on its controls keep the queue
  invariant.
\<close>

section \<open>The live lease\<close>

lemma assert_live_leaseD:
  assumes "queue_ok st" "assert_live_lease job_id worker token now st = Inr job"
  shows "find_job job_id st = Some job" "live_lease worker token now job"
    "job \<in> set (jobs st)" "jb_id job = job_id" "running job"
proof -
  show j: "find_job job_id st = Some job" and l: "live_lease worker token now job"
    using assms(2) by auto
  show "job \<in> set (jobs st)" "jb_id job = job_id" using find_job_in [OF assms(1) j] by auto
  show "running job" using live_leaseD [OF l] by simp
qed

section \<open>Claims and heartbeats\<close>

lemma claim_first_ok:
  assumes ok: "queue_ok st"
    and cand: "\<And>j. j \<in> set js \<Longrightarrow> j \<in> set (jobs st) \<and> claimable role now st j"
    and run: "claim_first W js worker attempt token secs now st = Inr (st', r)"
  shows "queue_ok st'"
  using claim_first_cases [OF run]
proof
  assume "\<exists>job \<in> set js. \<exists>c. r = Some c \<and> claimed W worker secs now st job st' c"
  then obtain job c where job: "job \<in> set js" "claimed W worker secs now st job st' c" by blast
  then obtain j' a rows where "opens st job j' a rows st'"
    using claimed_opens [OF ok] cand by blast
  then show ?thesis using queue_ok_opens [OF ok] cand job by blast
qed (simp add: ok)

lemma candidates_in:
  "j \<in> set (candidates role now st) \<longleftrightarrow> j \<in> set (jobs st) \<and> claimable role now st j"
  by (auto simp: candidates_def)

lemma claim_job_cases:
  assumes ok: "queue_ok st" and run: "claim_job W role worker secs attempt token now st = Inr (st', r)"
  obtains st1 rec js where "recover_expired W now st = Inr (st1, rec)" "queue_ok st1"
    "\<forall>j \<in> set js. \<exists>ro. worker_role_of (py_lower role) = Some ro \<and> j \<in> set (jobs st1)
       \<and> claimable ro now st1 j"
    "claim_first W js worker attempt token secs now st1 = Inr (st', r)"
proof -
  from run obtain st1 rec where rec: "recover_expired W now st = Inr (st1, rec)"
    and first: "claim_first W (case worker_role_of (py_lower role) of None \<Rightarrow> []
       | Some r \<Rightarrow> candidates r now st1) worker attempt token secs now st1 = Inr (st', r)"
    unfolding claim_job_def by auto
  have ok1: "queue_ok st1" using recover_expired_runs [OF ok, of W now] rec by auto
  let ?js = "case worker_role_of (py_lower role) of None \<Rightarrow> [] | Some r \<Rightarrow> candidates r now st1"
  have "\<exists>ro. worker_role_of (py_lower role) = Some ro \<and> j \<in> set (jobs st1) \<and> claimable ro now st1 j"
    if "j \<in> set ?js" for j
    using that by (cases "worker_role_of (py_lower role)") (simp_all add: candidates_in)
  then have "\<forall>j \<in> set ?js. \<exists>ro. worker_role_of (py_lower role) = Some ro \<and> j \<in> set (jobs st1)
      \<and> claimable ro now st1 j" by blast
  then show ?thesis by (rule that [OF rec ok1 _ first])
qed

lemma claim_job_ok:
  assumes ok: "queue_ok st" and run: "claim_job W role worker secs attempt token now st = Inr (st', r)"
  shows "queue_ok st'"
proof (cases "worker_role_of (py_lower role)")
  case None
  from run obtain st1 rec where rec: "recover_expired W now st = Inr (st1, rec)" and "st' = st1"
    unfolding claim_job_def using None by auto
  then show ?thesis using recover_expired_runs [OF ok, of W now] by auto
next
  case (Some ro)
  from ok run obtain st1 rec js where ok1: "queue_ok st1"
    and js: "\<forall>j \<in> set js. \<exists>ro. worker_role_of (py_lower role) = Some ro \<and> j \<in> set (jobs st1)
       \<and> claimable ro now st1 j"
    and first: "claim_first W js worker attempt token secs now st1 = Inr (st', r)"
    by (rule claim_job_cases)
  have cand: "j \<in> set (jobs st1) \<and> claimable ro now st1 j" if "j \<in> set js" for j
    using bspec [OF js that] Some by auto
  show ?thesis by (rule claim_first_ok [OF ok1 cand first])
qed

lemma heartbeat_job_ok:
  assumes ok: "queue_ok st" and run: "heartbeat_job W job_id worker token secs now st = Inr st'"
  shows "queue_ok st'"
proof -
  obtain j where j: "find_job job_id st = Some j" "live_lease worker token now j" "beats st j st'"
    using heartbeat_job_beats [OF ok run] by blast
  then show ?thesis
    using queue_ok_beats [OF ok _ _ j(3)] find_job_in [OF ok j(1)] live_leaseD [OF j(2)] by blast
qed

section \<open>Ends of an attempt\<close>

lemma closed_ok:
  assumes "queue_ok st" "\<exists>j. find_job i st = Some j \<and> live_lease worker token now j \<and> closes st j st'"
  shows "queue_ok st'"
proof -
  obtain j where j: "find_job i st = Some j" "live_lease worker token now j" "closes st j st'"
    using assms(2) by blast
  then show ?thesis
    using queue_ok_closes [OF assms(1) _ _ j(3)] find_job_in [OF assms(1) j(1)]
      live_leaseD [OF j(2)] by blast
qed

lemma interrupt_job_ok:
  "queue_ok st \<Longrightarrow> interrupt_job W i worker token reason rid now st = Inr st' \<Longrightarrow> queue_ok st'"
  by (rule closed_ok [OF _ interrupt_job_closes])

lemma release_job_ok:
  "queue_ok st \<Longrightarrow> release_job W i worker token reason now st = Inr st' \<Longrightarrow> queue_ok st'"
  unfolding release_job_def by (rule interrupt_job_ok)

lemma fail_job_ok:
  "queue_ok st \<Longrightarrow> \<not> is_active_state s \<Longrightarrow>
   fail_job W i worker token e res rq av mx s now st = Inr (st', b) \<Longrightarrow> queue_ok st'"
  by (rule closed_ok [OF _ fail_job_closes])

lemma recover_expired_leases_ok:
  "queue_ok st \<Longrightarrow> recover_expired_leases W now st = Inr (st', r) \<Longrightarrow> queue_ok st'"
  using recover_expired_runs [of st W now] by (auto simp: recover_expired_leases_def)

lemma stage_next_idle: "s \<in> set (stage_next_states role) \<Longrightarrow> \<not> is_active_state s"
  by (cases role) (auto simp: stage_next_states_def is_active_state_def)

lemma commit_stage_resultD:
  assumes ok: "queue_ok st"
    and run: "commit_stage_result W auth job_id worker token result expected next_text kind data
      next fresh now st = Inr (st', sid)"
  obtains job next_state validated st1 st2 where
    "find_job job_id st = Some job" "live_lease worker token now job"
    "assert_no_pending_operator_interrupt job_id st = Inr ()"
    "next_state \<in> set (stage_next_states (jb_role job))"
    "validate_stage_result W auth job result next_state st = Inr validated"
    "map_option (\<lambda>n. py_lower (nj_role n)) next = successor_role next_state"
    "move_item (jb_item_id job) (jb_active_state job) next_state now st = Inr st1"
    "finish_job W job worker token validated now st1 = Inr st2" "closes st job st2"
    "\<exists>d. let st3 = append_event kind (Some (jb_campaign_id job)) (Some (jb_item_id job))
                 (Some job_id) (Some worker) d now st2
     in (case next of None \<Rightarrow> st' = st3 \<and> sid = None
       | Some n \<Rightarrow> \<exists>i. sid = Some i \<and> enqueue_job (jb_item_id job)
           (successor_request job n next_state now) fresh now st3 = Inr (st', i))"
proof -
  let ?d = "\<lambda>job next_state. dict_of (data @
    [(''from_state'', JStr (item_state_value (jb_active_state job))),
     (''to_state'', JStr (item_state_value next_state))])"
  let ?event = "\<lambda>job next_state. append_event kind (Some (jb_campaign_id job))
    (Some (jb_item_id job)) (Some job_id) (Some worker) (?d job next_state) now"
  from run obtain ex next_state job u v validated st1 st2 where
    live: "assert_live_lease job_id worker token now st = Inr job"
    and pending: "assert_no_pending_operator_interrupt job_id st = Inr u"
    and "assert_attempt_focused_test_admission W job st = Inr v"
    and expected: "ex = jb_active_state job"
    and allowed: "next_state \<in> set (stage_next_states (jb_role job))"
    and valid: "validate_stage_result W auth job result next_state st = Inr validated"
    and succ: "map_option (\<lambda>n. py_lower (nj_role n)) next = successor_role next_state"
    and moved0: "move_item (jb_item_id job) ex next_state now st = Inr st1"
    and finish: "finish_job W job worker token validated now st1 = Inr st2"
    and rest0: "(case next of None \<Rightarrow> Inr (append_event kind (Some (jb_campaign_id job))
          (Some (jb_item_id job)) (Some job_id) (Some worker)
          (dict_of (data @ [(''from_state'', JStr (item_state_value ex)),
             (''to_state'', JStr (item_state_value next_state))])) now st2, None)
       | Some n \<Rightarrow> bindR (enqueue_job (jb_item_id job) (successor_request job n next_state now)
           fresh now (append_event kind (Some (jb_campaign_id job))
          (Some (jb_item_id job)) (Some job_id) (Some worker)
          (dict_of (data @ [(''from_state'', JStr (item_state_value ex)),
             (''to_state'', JStr (item_state_value next_state))])) now st2))
           (\<lambda>(st4, i). Inr (st4, Some i))) = (Inr (st', sid) :: store_error + store \<times> string option)"
    unfolding commit_stage_result_def Let_def bindR_Inr_iff check_Inr_iff require_Inr_iff
    by (elim exE conjE) (rule that)
  note moved = moved0 [unfolded expected]
  have rest: "let st3 = ?event job next_state st2
     in (case next of None \<Rightarrow> st' = st3 \<and> sid = None
       | Some n \<Rightarrow> \<exists>i. sid = Some i \<and> enqueue_job (jb_item_id job)
           (successor_request job n next_state now) fresh now st3 = Inr (st', i))"
    using rest0 [unfolded expected] by (auto simp: Let_def split: option.splits)
  note job = assert_live_leaseD [OF ok live]
  have "closes st job st2"
    using finish_job_closes [OF ok job(3,2) _ moved stage_next_idle [OF allowed] finish] pending job(4)
    by simp
  moreover have "\<exists>d. let st3 = append_event kind (Some (jb_campaign_id job))
       (Some (jb_item_id job)) (Some job_id) (Some worker) d now st2
     in (case next of None \<Rightarrow> st' = st3 \<and> sid = None
       | Some n \<Rightarrow> \<exists>i. sid = Some i \<and> enqueue_job (jb_item_id job)
           (successor_request job n next_state now) fresh now st3 = Inr (st', i))"
    by (rule exI, rule rest)
  moreover have "assert_no_pending_operator_interrupt job_id st = Inr ()" using pending by simp
  ultimately show ?thesis
    using job(1,2) allowed valid succ moved finish by (intro that)
qed

lemma commit_stage_result_ok:
  assumes ok: "queue_ok st"
    and run: "commit_stage_result W auth job_id worker token result expected next_text kind data
      next fresh now st = Inr (st', sid)"
  shows "queue_ok st'"
  using ok run
proof (rule commit_stage_resultD)
  fix job next_state st2
  assume job: "find_job job_id st = Some job" "live_lease worker token now job" "closes st job st2"
    and "\<exists>d. let st3 = append_event kind (Some (jb_campaign_id job)) (Some (jb_item_id job))
                 (Some job_id) (Some worker) d now st2
     in (case next of None \<Rightarrow> st' = st3 \<and> sid = None
       | Some n \<Rightarrow> \<exists>i. sid = Some i \<and> enqueue_job (jb_item_id job)
           (successor_request job n next_state now) fresh now st3 = Inr (st', i))"
  then obtain d where rest: "let st3 = append_event kind (Some (jb_campaign_id job))
       (Some (jb_item_id job)) (Some job_id) (Some worker) d now st2
     in (case next of None \<Rightarrow> st' = st3 \<and> sid = None
       | Some n \<Rightarrow> \<exists>i. sid = Some i \<and> enqueue_job (jb_item_id job)
           (successor_request job n next_state now) fresh now st3 = Inr (st', i))" by blast
  have "queue_ok st2" using closed_ok [OF ok] job by blast
  then have "queue_ok (append_event kind (Some (jb_campaign_id job))
       (Some (jb_item_id job)) (Some job_id) (Some worker) d now st2)" by simp
  with rest show ?thesis
    by (cases "next") (auto simp: Let_def dest: enqueue_job_ok [rotated])
qed

end
