(* ===== verification/Fencing.thy ===== *)
theory Fencing
  imports Turns
begin

text \<open>
  The operations on the sessions, processes and controls of a running attempt keep the queue
  invariant.
\<close>

text \<open>An \<open>except\<close> clause that only renames the exception lets every success through.\<close>

lemma renamed_Inr [simp]:
  "(case m of Inl x \<Rightarrow> Inl e | Inr y \<Rightarrow> Inr y) = Inr z \<longleftrightarrow> m = Inr z"
  by (cases m) auto

section \<open>Sessions and processes\<close>

lemma record_external_session_ok:
  assumes ok: "queue_ok st"
    and run: "record_external_session W job_id worker token provider session now st = Inr st'"
  shows "queue_ok st'"
proof -
  let ?F = "\<lambda>p s a. a\<lparr>at_external_provider := Some p, at_external_session_id := Some s\<rparr>"
  have "queue_ok (st\<lparr>attempts := upd_where Q (?F p s) (attempts st)\<rparr>)" for Q p s
    by (rule queue_ok_attempts [OF ok]) (simp add: attempt_core_def)
  then have "wpR queue_ok (record_external_session W job_id worker token provider session now st)"
    unfolding record_external_session_def Let_def
    by (intro wp_intros) (simp_all add: ok)
  from this run show ?thesis by (rule wpD)
qed

lemma unresolved_process_None:
  assumes "unresolved_process (Some i) st = None" "p \<in> set (processes st)" "unresolved p"
  shows "ep_attempt_id p \<noteq> i"
  using assms
  by (auto simp: unresolved_process_def newest_process_def attempt_processes_def unresolved_def
      filter_empty_conv)

lemma record_external_process_ok:
  assumes ok: "queue_ok st"
    and run: "record_external_process W job_id worker token provider given fresh now st = Inr st'"
  shows "queue_ok st'"
proof -
  let ?provider = "py_lower (py_strip provider)"
  let ?p = "given\<lparr>pi_kernel_executable := py_strip (pi_kernel_executable given),
    pi_target_executable := py_strip (pi_target_executable given)\<rparr>"
  let ?F = "\<lambda>a. a\<lparr>at_external_process_id := Some (pi_process_id given),
    at_external_process_group_id := Some (pi_process_group_id given),
    at_external_process_executable := Some (py_strip (pi_kernel_executable given)),
    at_external_process_started_at := Some now\<rparr>"
  from run obtain job attempt where live: "assert_live_lease job_id worker token now st = Inr job"
    and attempt: "find_attempt (jb_current_attempt_id job) st = Some attempt"
    unfolding record_external_process_def Let_def by auto
  note job = assert_live_leaseD [OF ok live]
  have a: "attempt \<in> set (attempts st)" "jb_current_attempt_id job = Some (at_id attempt)"
    using attempt by (auto simp: find_attempt_def dest: find_SomeD)
  have running: "at_status attempt = AttemptRunning" "at_job_id attempt = job_id"
  proof -
    obtain b where "b \<in> set (attempts st)" "attempt_of job b"
      using running_attempt [OF ok job(3,5)] .
    moreover from this have "b = attempt"
      using attempt_unique [OF ok _ a(1)] a(2) by (auto simp: attempt_of_def)
    ultimately show "at_status attempt = AttemptRunning" "at_job_id attempt = job_id"
      using job(4) by (auto simp: attempt_of_def)
  qed
  show ?thesis
  proof (cases "unresolved_process (jb_current_attempt_id job) st")
    case (Some p)
    then have "st' = st"
      using run live attempt unfolding record_external_process_def Let_def by auto
    with ok show ?thesis by simp
  next
    case None
    let ?row = "new_process_row fresh (at_id attempt) job_id ?provider ?p now"
    obtain st1 Q where ins: "insert_process ?row st = Inr st1"
      and st': "queue_ok st' = queue_ok (st1\<lparr>attempts := upd_where Q ?F (attempts st1)\<rparr>)"
    proof
      show "insert_process ?row st = Inr (st\<lparr>processes := processes st @ [?row]\<rparr>)"
        using run live attempt None unfolding record_external_process_def Let_def
        by (auto split: sum.splits simp: insert_process_def)
      show "queue_ok st' = queue_ok ((st\<lparr>processes := processes st @ [?row]\<rparr>)\<lparr>attempts :=
          upd_where (\<lambda>a. jb_current_attempt_id job = Some (at_id a) \<and> at_status a = AttemptRunning) ?F
          (attempts (st\<lparr>processes := processes st @ [?row]\<rparr>))\<rparr>)"
        using run live attempt None unfolding record_external_process_def Let_def
        by (auto split: sum.splits simp: insert_process_def)
    qed
    have st1: "st1 = st\<lparr>processes := processes st @ [?row]\<rparr>"
      and new: "ep_id ?row \<notin> ep_id ` set (processes st)"
      using ins by (auto simp: insert_process_def has_key_def)
    have "queue_ok st1"
      unfolding st1
    proof (rule queue_ok_insert_process [OF ok new])
      show "\<exists>a \<in> set (attempts st). at_id a = ep_attempt_id ?row \<and> at_status a = AttemptRunning
          \<and> at_job_id a = ep_job_id ?row"
        using a running by (auto simp: new_process_row_def)
      show "ep_attempt_id q \<noteq> ep_attempt_id ?row" if "q \<in> set (processes st)" "unresolved q" for q
        using unresolved_process_None [OF None [unfolded a(2)] that] by (simp add: new_process_row_def)
    qed
    then have "queue_ok (st1\<lparr>attempts := upd_where Q ?F (attempts st1)\<rparr>)"
      by (rule queue_ok_attempts) (simp add: attempt_core_def)
    with st' show ?thesis by simp
  qed
qed

lemma clear_external_process_ok:
  assumes ok: "queue_ok st" and run: "clear_external_process job_id worker token pid pgid now st = Inr st'"
  shows "queue_ok st'"
proof -
  let ?F = "\<lambda>p. p\<lparr>ep_state := ProcStopped, ep_stopped_at := Some now, ep_outcome := Some ''reaped'',
    ep_last_error := None, ep_updated_at := now\<rparr>"
  have "queue_ok (st\<lparr>processes := upd_where Q ?F (processes st)\<rparr>)" for Q
    by (rule queue_ok_process_update [OF ok]) (simp add: process_kept_def unresolved_def)
  with run show ?thesis by (auto simp: clear_external_process_def Let_def)
qed

section \<open>Controls\<close>

lemma insert_controlD:
  assumes "insert_control c st = Inr st1"
  shows "st1 = st\<lparr>controls := controls st @ [c]\<rparr>" "oc_id c \<notin> oc_id ` set (controls st)"
    "\<And>d. d \<in> set (controls st) \<Longrightarrow> pending_interrupt d \<Longrightarrow> pending_interrupt c \<Longrightarrow>
       oc_job_id d \<noteq> oc_job_id c"
  using assms by (auto simp: insert_control_def has_key_def pending_interrupt_def)

lemma request_job_interrupt_ok:
  assumes ok: "queue_ok st"
    and run: "request_job_interrupt W job_id token by_whom reason fresh now st = Inr (st', c)"
  shows "queue_ok st'"
proof -
  from run obtain job where job: "find_job job_id st = Some job" "interrupt_fence token now job"
    unfolding request_job_interrupt_def by auto
  show ?thesis
  proof (cases "find (pending_control ActInterrupt job_id) (controls st)")
    case (Some d)
    then have "st' = st" using run job unfolding request_job_interrupt_def by auto
    with ok show ?thesis by simp
  next
    case None
    then obtain attempt ext st1 where a: "jb_current_attempt_id job = Some (at_id attempt)"
      and ins: "insert_control (interrupt_row W fresh job attempt ext token by_whom reason now) st = Inr st1"
      and st': "queue_ok st' = queue_ok st1"
      using run job unfolding request_job_interrupt_def Let_def
      by (fastforce dest: find_SomeD)
    let ?c = "interrupt_row W fresh job attempt ext token by_whom reason now"
    have c: "oc_job_id ?c = jb_id job" "oc_source_attempt_id ?c = at_id attempt"
      by (simp_all add: interrupt_row_def)
    have j: "job \<in> set (jobs st)" "running job"
      using find_job_in [OF ok job(1)] job(2) by (auto simp: interrupt_fence_def running_def)
    note ins' = insert_controlD [OF ins]
    have "queue_ok st1"
      unfolding ins'(1)
      by (rule queue_ok_insert_control [OF ok ins'(2) _ ins'(3)]) (use j a c in auto)
    with st' show ?thesis by simp
  qed
qed

lemma request_job_resume_ok:
  assumes ok: "queue_ok st"
    and run: "request_job_resume W job_id src prov sess by_whom reason fresh now st = Inr (st', c)"
  shows "queue_ok st'"
proof -
  from run obtain st1 where ins: "insert_control c st = Inr st1" and st': "queue_ok st' = queue_ok st1"
    and c: "oc_action c = ActResume"
    unfolding request_job_resume_def Let_def by auto
  note ins' = insert_controlD [OF ins]
  have "queue_ok st1"
    unfolding ins'(1)
    by (rule queue_ok_insert_control [OF ok ins'(2) _ ins'(3)])
      (use c in \<open>auto simp: pending_interrupt_def\<close>)
  with st' show ?thesis by simp
qed

section \<open>Reconciliation\<close>

lemma claim_reconciliation_ok:
  assumes ok: "queue_ok st"
    and run: "claim_external_process_reconciliation owner secs q ex token now st = Inr (st', r)"
  shows "queue_ok st'"
proof -
  let ?F = "\<lambda>p. p\<lparr>ep_reconciliation_owner := Some (py_strip owner),
    ep_reconciliation_token := Some token, ep_reconciliation_expires_at := Some (now + secs),
    ep_updated_at := now\<rparr>"
  have "queue_ok (st\<lparr>processes := upd_where Q ?F (processes st)\<rparr>)" for Q
    by (rule queue_ok_process_update [OF ok]) (simp add: process_kept_def unresolved_def)
  with ok run show ?thesis
    by (auto simp: claim_external_process_reconciliation_def Let_def split: option.splits)
qed

lemma fenced_processD:
  assumes "fenced_process i owner token st = Some p"
  shows "p \<in> set (processes st)" "ep_attempt_id p = i" "ep_reconciliation_owner p = Some owner"
    "ep_reconciliation_token p = Some token"
  using assms
  by (auto simp: fenced_process_def newest_process_def attempt_processes_def dest!: latest_by_Some_in)


lemma complete_reconciliation_ok:
  assumes ok: "queue_ok st"
    and run: "complete_external_process_reconciliation W attempt_id owner token expected status_text
      reason_text observed now st = Inr (st', done_now)"
  shows "queue_ok st'"
proof -
  let ?status = "py_lower (py_strip status_text)"
  let ?reason = "py_strip reason_text"
  from run obtain p job where p: "fenced_process attempt_id owner token st = Some p"
    and job: "find_job (ep_job_id p) st = Some job" "lease_expired now job"
      "jb_current_attempt_id job = Some attempt_id"
    unfolding complete_external_process_reconciliation_def Let_def
    by (auto split: option.splits)
  note proc = fenced_processD [OF p]
  have j: "job \<in> set (jobs st)" "running job"
    using find_job_in [OF ok job(1)] job(2) by (auto simp: lease_expired_def running_def)
  show ?thesis
  proof (cases "?status = ''quarantined''")
    case True
    let ?F = "\<lambda>q. (release_fence_fields q)\<lparr>ep_state := ProcQuarantined,
      ep_outcome := Some ''quarantined'', ep_last_error := Some ?reason, ep_updated_at := now\<rparr>"
    obtain st1 where st1: "queue_ok st' = queue_ok (st1\<lparr>processes :=
        upd_where (\<lambda>q. ep_id q = ep_id p) ?F (processes st1)\<rparr>)"
      and same: "same_queue st st1" and live: "unresolved p"
    proof
      let ?st1 = "end_executions job ExQuarantined ?reason now (Some owner) st"
      show "queue_ok st' = queue_ok (?st1\<lparr>processes :=
        upd_where (\<lambda>q. ep_id q = ep_id p) ?F (processes ?st1)\<rparr>)" "unresolved p"
        using run p job True unfolding complete_external_process_reconciliation_def Let_def
        by (auto simp: unresolved_def)
      show "same_queue st ?st1" by (rule same_queueI) simp_all
    qed
    have ok1: "queue_ok st1" by (rule queue_ok_cong [OF ok same])
    have "queue_ok (st1\<lparr>processes := upd_where (\<lambda>q. ep_id q = ep_id p) ?F (processes st1)\<rparr>)"
    proof (rule queue_ok_process_update [OF ok1])
      fix q assume "q \<in> set (processes st1)" "ep_id q = ep_id p"
      moreover have "p \<in> set (processes st1)" using proc(1) same by (simp add: same_queue_def)
      ultimately have "q = p" using key_unique [OF key_lists(6) [OF ok1]] by blast
      with live show "process_kept q (?F q)"
        by (simp add: process_kept_def release_fence_fields_def)
    qed
    with st1 show ?thesis by simp
  next
    case False
    let ?mine = "\<lambda>q. ep_id q = ep_id p \<and> ep_state q \<noteq> ProcStopped"
    let ?F = "\<lambda>q. (release_fence_fields q)\<lparr>ep_state := ProcStopped, ep_stopped_at := Some now,
      ep_outcome := Some ?status, ep_last_error := None, ep_updated_at := now\<rparr>"
    let ?st0 = "append_event ''worker.external_process_reconciled'' (Some (jb_campaign_id job))
      (Some (jb_item_id job)) (Some (jb_id job)) (Some owner)
      (reconciliation_data p ?status ?reason observed) now
      (st\<lparr>processes := upd_where ?mine ?F (processes st)\<rparr>)"
    have one: "rowcount ?mine (processes st) = 1"
      and expire: "expire_job_after_lease W job ''lease expired after external process reconciliation''
        [(''external_process_status'', JStr ?status)] now ?st0 = Inr st'"
      using run p job False unfolding complete_external_process_reconciliation_def Let_def
      by auto
    have live: "unresolved p"
    proof -
      obtain q where "q \<in> set (processes st)" "?mine q"
        using one rowcount_pos_iff [of ?mine "processes st"] by auto
      moreover from this have "q = p" using key_unique [OF key_lists(6) [OF ok] _ proc(1)] by blast
      ultimately show ?thesis by (simp add: unresolved_def)
    qed
    have "resolves (jb_current_attempt_id job) (processes st) (processes ?st0)"
      unfolding resolves_def
    proof (intro exI conjI [of "_ = _"] conjI [of "All _"] ballI impI allI)
      show "processes ?st0 = upd_where ?mine ?F (processes st)" by simp
      show "resolved_process q (?F q)" for q
        by (simp add: resolved_process_def release_fence_fields_def unresolved_def)
      fix q assume q: "q \<in> set (processes st)" "unresolved q"
        "jb_current_attempt_id job = Some (ep_attempt_id q)"
      then have "q = p"
        using queue_okD(9) [OF ok] proc(1,2) live job(3) unfolding processes_ok_def by auto
      with q(2) show "?mine q" by (simp add: unresolved_def)
    qed
    then have "resolved_store st job ?st0" by (simp add: resolved_store_def)
    then have "closes st job st'"
      using expire_job_after_lease_closes [OF ok j, of ?st0 W
        "''lease expired after external process reconciliation''"
        "[(''external_process_status'', JStr ?status)]" now] expire by auto
    then show ?thesis by (rule queue_ok_closes [OF ok j])
  qed
qed

end
