(* ===== verification/Worktrees.thy ===== *)
theory Worktrees
  imports Enqueue
begin

text \<open>
  The life cycle of managed Git worktrees in \<^verbatim>\<open>storage.py\<close>.  A worktree is created and
  removed by numbered operations; each is started with its exact intent before Git runs,
  under a lease of its own, and completed, quarantined, or taken over by a reconciler.

  A path argument is the string of a normalised POSIX path.
\<close>

section \<open>Requesting a worktree\<close>

definition validate_worktree_path :: "world \<Rightarrow> string \<Rightarrow> store_error + string" where
  "validate_worktree_path W value =
     (let normalized = resolve W (expanduser W value)
      in check (is_absolute normalized \<and> length normalized \<le> 4096) ValueError (Inr normalized))"

record worktree_request =
  wq_id :: string
  wq_repository_path :: string
  wq_source_git_common_dir :: string
  wq_source_git_dir :: string
  wq_source_device :: int
  wq_source_inode :: int
  wq_source_owner_uid :: int
  wq_object_format :: string
  wq_worktree_path :: string
  wq_branch_ref :: string
  wq_base_revision :: string
  wq_base_tree :: string
  wq_lock_reason :: string
  wq_source_snapshot :: "(string \<times> json) list"

definition required_text :: "string \<Rightarrow> bool" where
  "required_text s \<longleftrightarrow> py_strip s \<noteq> [] \<and> length s \<le> 4096"

definition canonical_worktree_request ::
    "world \<Rightarrow> worktree_request \<Rightarrow> store_error + worktree_request" where
  "canonical_worktree_request W q =
     check (py_strip (wq_id q) \<noteq> [] \<and> length (wq_id q) \<le> 128) ValueError (
     bindR (validate_worktree_path W (wq_repository_path q)) (\<lambda>repository.
     bindR (validate_worktree_path W (wq_source_git_common_dir q)) (\<lambda>common.
     bindR (validate_worktree_path W (wq_source_git_dir q)) (\<lambda>git.
     bindR (validate_worktree_path W (wq_worktree_path q)) (\<lambda>path.
     check (0 \<le> wq_source_device q \<and> 0 \<le> wq_source_inode q \<and> 0 \<le> wq_source_owner_uid q)
       ValueError (
     check (list_all required_text [wq_object_format q, wq_branch_ref q, wq_base_revision q,
              wq_base_tree q, wq_lock_reason q]) ValueError (
     check (starts_with ''refs/heads/'' (wq_branch_ref q)) ValueError
       (Inr (q\<lparr>wq_repository_path := repository, wq_source_git_common_dir := common,
               wq_source_git_dir := git, wq_worktree_path := path\<rparr>)))))))))"

definition local_write_approved ::
    "world \<Rightarrow> campaign_row \<Rightarrow> item_row \<Rightarrow> string \<Rightarrow> store \<Rightarrow> store_error + bool" where
  "local_write_approved W campaign item repository st =
     any_of (\<lambda>a. approval_covers_repository W (cp_config campaign) repository (ap_scope a))
       (filter (\<lambda>a. ap_campaign_id a = cp_id campaign \<and> ap_action a = ''local_code_changes''
                  \<and> ap_status a = ApprovalApproved
                  \<and> (ap_item_id a = None \<or> ap_item_id a = Some (it_id item))) (approvals st))"

definition first_pending_fixer :: "string \<Rightarrow> store \<Rightarrow> job_row option" where
  "first_pending_fixer item st =
     earliest_by (\<lambda>j. (jb_created_at j, jb_id j))
       (filter (\<lambda>j. jb_item_id j = item \<and> jb_role j = Fixer \<and> jb_status j = JobPending) (jobs st))"

definition creation_identity :: "worktree_request \<Rightarrow> string \<Rightarrow> string \<Rightarrow> string \<Rightarrow> json" where
  "creation_identity q campaign item fixer = JObj
     [(''worktree_id'', JStr (wq_id q)), (''generation'', JNum 1),
      (''campaign_id'', JStr campaign), (''work_item_id'', JStr item),
      (''fixer_job_id'', JStr fixer), (''repository_path'', JStr (wq_repository_path q)),
      (''source_git_common_dir'', JStr (wq_source_git_common_dir q)),
      (''source_git_dir'', JStr (wq_source_git_dir q)),
      (''source_device'', JNum (wq_source_device q)), (''source_inode'', JNum (wq_source_inode q)),
      (''source_owner_uid'', JNum (wq_source_owner_uid q)),
      (''object_format'', JStr (wq_object_format q)), (''worktree_path'', JStr (wq_worktree_path q)),
      (''branch_ref'', JStr (wq_branch_ref q)), (''base_revision'', JStr (wq_base_revision q)),
      (''base_tree'', JStr (wq_base_tree q)), (''lock_reason'', JStr (wq_lock_reason q)),
      (''source_snapshot'', JObj (wq_source_snapshot q))]"

definition new_worktree :: "worktree_request \<Rightarrow> string \<Rightarrow> string \<Rightarrow> string \<Rightarrow> time \<Rightarrow> worktree_row" where
  "new_worktree q campaign item fixer now =
     \<lparr>wt_id = wq_id q, wt_generation = 1, wt_campaign_id = campaign, wt_item_id = item,
      wt_fixer_job_id = fixer, wt_repository_path = wq_repository_path q,
      wt_source_git_common_dir = wq_source_git_common_dir q,
      wt_source_git_dir = wq_source_git_dir q, wt_source_device = wq_source_device q,
      wt_source_inode = wq_source_inode q, wt_source_owner_uid = wq_source_owner_uid q,
      wt_object_format = wq_object_format q, wt_worktree_path = wq_worktree_path q,
      wt_worktree_git_dir = None, wt_worktree_device = None, wt_worktree_inode = None,
      wt_worktree_owner_uid = None, wt_branch_ref = wq_branch_ref q,
      wt_base_revision = wq_base_revision q, wt_base_tree = wq_base_tree q,
      wt_head_revision = None, wt_lock_reason = wq_lock_reason q,
      wt_source_snapshot = JObj (wq_source_snapshot q), wt_state = WtProvisioning,
      wt_last_error = None, wt_created_at = now, wt_ready_at = None,
      wt_cleanup_started_at = None, wt_removed_at = None, wt_updated_at = now\<rparr>"

definition new_operation ::
    "string \<Rightarrow> string \<Rightarrow> int \<Rightarrow> operation_kind \<Rightarrow> string \<Rightarrow> string \<Rightarrow> time \<Rightarrow> json \<Rightarrow> time
     \<Rightarrow> operation_row" where
  "new_operation i worktree number kind owner token expires identity now =
     \<lparr>wo_id = i, wo_worktree_id = worktree, wo_number = number, wo_kind = kind,
      wo_status = OpRunning, wo_owner = owner, wo_token = token, wo_lease_expires_at = expires,
      wo_expected_identity = identity, wo_observed_identity = None, wo_process_id = None,
      wo_process_group_id = None, wo_process_owner_uid = None, wo_process_start_seconds = None,
      wo_process_start_microseconds = None, wo_process_kernel_executable = None,
      wo_process_target_executable = None, wo_process_identity_version = None,
      wo_process_state = None, wo_process_stopped_at = None, wo_stdout_path = None,
      wo_stdout_sha256 = None, wo_stderr_path = None, wo_stderr_sha256 = None,
      wo_reconciliation_owner = None, wo_reconciliation_token = None,
      wo_reconciliation_expires_at = None, wo_error = None, wo_started_at = now,
      wo_finished_at = None, wo_updated_at = now\<rparr>"

definition find_worktree :: "string \<Rightarrow> store \<Rightarrow> worktree_row option" where
  "find_worktree i st = find (\<lambda>w. wt_id w = i) (worktrees st)"

definition find_operation :: "string \<Rightarrow> store \<Rightarrow> operation_row option" where
  "find_operation i st = find (\<lambda>o'. wo_id o' = i) (worktree_operations st)"

definition request_managed_worktree ::
    "world \<Rightarrow> string \<Rightarrow> string \<Rightarrow> worktree_request \<Rightarrow> string \<Rightarrow> int \<Rightarrow> string \<Rightarrow> string \<Rightarrow> time
     \<Rightarrow> store \<Rightarrow> store_error + (store \<times> string)" where
  "request_managed_worktree W campaign_id item_id given owner_text lease_seconds fresh token now st =
     (let owner = py_strip owner_text in
      check (owner \<noteq> [] \<and> length owner \<le> 256) ValueError (
      check (0 < lease_seconds) ValueError (
      bindR (canonical_worktree_request W given) (\<lambda>q.
      bindR (require (item_with_campaign item_id st) NotFoundError) (\<lambda>(item, campaign).
      check (it_campaign_id item = campaign_id) NotFoundError (
      check (cp_execution_mode campaign \<noteq> FocusedTestAdmissionMode) TransitionConflict (
      check (it_state item = ReadyForFix) TransitionConflict (
      bindR (canonical_repository_scope W (cp_config campaign)) (\<lambda>scope.
      check (wq_repository_path q \<in> set scope) TransitionConflict (
      bindR (local_write_approved W campaign item (wq_repository_path q) st) (\<lambda>approved.
      check approved TransitionConflict (
      bindR (require (first_pending_fixer item_id st) TransitionConflict) (\<lambda>fixer.
      check (jb_workspace_kind fixer = ManagedWorktree \<and> jb_managed_worktree_id fixer = None)
        TransitionConflict (
      check (\<not> list_ex (\<lambda>w. wt_item_id w = item_id) (worktrees st)) TransitionConflict (
      bindR (insert_worktree (new_worktree q campaign_id item_id (jb_id fixer) now) st) (\<lambda>st1.
      bindR (insert_worktree_operation
               (new_operation fresh (wq_id q) 1 OpCreate owner token (now + lease_seconds)
                  (creation_identity q campaign_id item_id (jb_id fixer)) now) st1) (\<lambda>st2.
        Inr (append_event ''worktree.provisioning_started'' (Some campaign_id) (Some item_id) None
               (Some owner)
               [(''worktree_id'', JStr (wq_id q)), (''operation_id'', JStr fresh),
                (''repository_path'', JStr (wq_repository_path q)),
                (''worktree_path'', JStr (wq_worktree_path q)),
                (''branch_ref'', JStr (wq_branch_ref q)),
                (''base_revision'', JStr (wq_base_revision q))] now st2, fresh))))))))))))))))))"

section \<open>The fence of an operation\<close>

definition operation_fence ::
    "bool \<Rightarrow> string \<Rightarrow> string \<Rightarrow> time \<Rightarrow> operation_row \<Rightarrow> bool" where
  "operation_fence reconciliation owner token now r \<longleftrightarrow>
     (if reconciliation then
        wo_reconciliation_owner r = Some owner \<and> wo_reconciliation_token r = Some token
        \<and> (case wo_reconciliation_expires_at r of None \<Rightarrow> False | Some e \<Rightarrow> now < e)
      else
        wo_status r = OpRunning \<and> wo_owner r = owner \<and> wo_token r = token
        \<and> now < wo_lease_expires_at r)"

definition assert_operation_fence ::
    "string \<Rightarrow> string \<Rightarrow> string \<Rightarrow> bool \<Rightarrow> time \<Rightarrow> store \<Rightarrow> store_error + operation_row" where
  "assert_operation_fence i owner token reconciliation now st =
     bindR (require (find_operation i st) NotFoundError) (\<lambda>r.
     check (operation_fence reconciliation owner token now r) LeaseConflict (Inr r))"

definition update_operation :: "string \<Rightarrow> (operation_row \<Rightarrow> operation_row) \<Rightarrow> store \<Rightarrow> store" where
  "update_operation i f st =
     st\<lparr>worktree_operations := upd_where (\<lambda>r. wo_id r = i) f (worktree_operations st)\<rparr>"

text \<open>The worktree of an operation; indexing \<open>None\<close> raises \<open>TypeError\<close>.\<close>

definition operation_worktree :: "operation_row \<Rightarrow> store \<Rightarrow> store_error + worktree_row" where
  "operation_worktree r st = require (find_worktree (wo_worktree_id r) st) TypeError"

definition worktree_event ::
    "string \<Rightarrow> worktree_row \<Rightarrow> string option \<Rightarrow> string \<Rightarrow> (string \<times> json) list \<Rightarrow> time \<Rightarrow> store
     \<Rightarrow> store" where
  "worktree_event kind w job actor data now st =
     append_event kind (Some (wt_campaign_id w)) (Some (wt_item_id w)) job (Some actor)
       ((''worktree_id'', JStr (wt_id w)) # data) now st"

section \<open>The Git process of an operation\<close>

record operation_process =
  op_process_id :: int
  op_process_group_id :: int
  op_owner_uid :: int
  op_start_seconds :: int
  op_start_microseconds :: int
  op_kernel_executable :: string
  op_target_executable :: string

definition record_worktree_operation_process ::
    "string \<Rightarrow> string \<Rightarrow> string \<Rightarrow> operation_process \<Rightarrow> time \<Rightarrow> store \<Rightarrow> store_error + store" where
  "record_worktree_operation_process i owner token p now st =
     check (1 < op_process_id p \<and> op_process_group_id p = op_process_id p) ValueError (
     check (0 \<le> op_owner_uid p \<and> 0 < op_start_seconds p) ValueError (
     check (0 \<le> op_start_microseconds p \<and> op_start_microseconds p < 1000000) ValueError (
     check (is_absolute (op_kernel_executable p) \<and> is_absolute (op_target_executable p)) ValueError (
     bindR (assert_operation_fence i owner token False now st) (\<lambda>r.
     check (wo_process_id r = None) LeaseConflict (
     bindR (operation_worktree r st) (\<lambda>w.
       Inr (worktree_event ''worktree.process_started'' w None owner
              [(''operation_id'', JStr i), (''process_id'', JNum (op_process_id p)),
               (''process_group_id'', JNum (op_process_group_id p)),
               (''target_executable'', JStr (op_target_executable p))] now
              (update_operation i
                 (\<lambda>r. r\<lparr>wo_process_id := Some (op_process_id p),
                       wo_process_group_id := Some (op_process_group_id p),
                       wo_process_owner_uid := Some (op_owner_uid p),
                       wo_process_start_seconds := Some (op_start_seconds p),
                       wo_process_start_microseconds := Some (op_start_microseconds p),
                       wo_process_kernel_executable := Some (op_kernel_executable p),
                       wo_process_target_executable := Some (op_target_executable p),
                       wo_process_identity_version := Some DarwinLibprocV1,
                       wo_process_state := Some OpProcActive, wo_updated_at := now\<rparr>) st)))))))))"

definition clear_worktree_operation_process ::
    "string \<Rightarrow> string \<Rightarrow> string \<Rightarrow> int \<Rightarrow> int \<Rightarrow> bool \<Rightarrow> time \<Rightarrow> store \<Rightarrow> store_error + store" where
  "clear_worktree_operation_process i owner token pid pgid reconciliation now st =
     bindR (assert_operation_fence i owner token reconciliation now st) (\<lambda>r.
     check (wo_process_state r = Some OpProcActive \<and> wo_process_id r = Some pid
            \<and> wo_process_group_id r = Some pgid) LeaseConflict (
     bindR (operation_worktree r st) (\<lambda>w.
       Inr (worktree_event ''worktree.process_stopped'' w None owner
              [(''operation_id'', JStr i), (''process_id'', JNum pid),
               (''process_group_id'', JNum pgid)] now
              (update_operation i
                 (\<lambda>r. r\<lparr>wo_process_state := Some OpProcStopped, wo_process_stopped_at := Some now,
                       wo_updated_at := now\<rparr>) st)))))"

section \<open>Its artifacts\<close>

text \<open>An absolute path of a regular file of the user that is no symbolic link.\<close>

definition own_regular_file :: "world \<Rightarrow> string \<Rightarrow> bool" where
  "own_regular_file W p \<longleftrightarrow> is_absolute p
     \<and> (case lstat W p of None \<Rightarrow> False
        | Some s \<Rightarrow> st_kind s = RegularFile \<and> st_uid s = own_uid W)"

definition sha256_hex :: "string \<Rightarrow> bool" where
  "sha256_hex v \<longleftrightarrow> length v = 64 \<and> list_all (\<lambda>c. c \<in> set ''0123456789abcdef'') v"

definition differs :: "string option \<Rightarrow> string \<Rightarrow> bool" where
  "differs persisted requested \<longleftrightarrow>
     (case persisted of None \<Rightarrow> False | Some p \<Rightarrow> p \<noteq> requested)"

definition record_worktree_operation_artifacts ::
    "world \<Rightarrow> string \<Rightarrow> string \<Rightarrow> string \<Rightarrow> string \<Rightarrow> string \<Rightarrow> string \<Rightarrow> string \<Rightarrow> bool \<Rightarrow> time
     \<Rightarrow> store \<Rightarrow> store_error + store" where
  "record_worktree_operation_artifacts W i owner token out out_hash err err_hash reconciliation
     now st =
     check (own_regular_file W out \<and> own_regular_file W err) ValueError (
     check (sha256_hex out_hash \<and> sha256_hex err_hash) ValueError (
     check (sha256 W (content W out) = out_hash \<and> sha256 W (content W err) = err_hash) ValueError (
     bindR (assert_operation_fence i owner token reconciliation now st) (\<lambda>r.
     check (\<not> differs (wo_stdout_path r) (resolve W out) \<and> \<not> differs (wo_stderr_path r) (resolve W err))
       LeaseConflict
       (Inr (update_operation i
          (\<lambda>r. r\<lparr>wo_stdout_path := Some (resolve W out), wo_stdout_sha256 := Some out_hash,
                wo_stderr_path := Some (resolve W err), wo_stderr_sha256 := Some err_hash,
                wo_updated_at := now\<rparr>) st))))))"

definition record_worktree_operation_artifact_intent ::
    "world \<Rightarrow> string \<Rightarrow> string \<Rightarrow> string \<Rightarrow> string \<Rightarrow> string \<Rightarrow> time \<Rightarrow> store \<Rightarrow> store_error + store" where
  "record_worktree_operation_artifact_intent W i owner token out err now st =
     check (is_absolute out \<and> is_absolute err \<and> out \<noteq> err) ValueError (
     bindR (assert_operation_fence i owner token False now st) (\<lambda>r.
     if wo_stdout_path r \<notin> {None, Some []} \<or> wo_stderr_path r \<notin> {None, Some []} then
       check (wo_stdout_path r = Some (resolve W out) \<and> wo_stderr_path r = Some (resolve W err))
         LeaseConflict (Inr st)
     else
       Inr (st\<lparr>worktree_operations :=
              upd_where (\<lambda>r. wo_id r = i \<and> wo_stdout_path r = None \<and> wo_stderr_path r = None)
                (\<lambda>r. r\<lparr>wo_stdout_path := Some (resolve W out), wo_stderr_path := Some (resolve W err),
                      wo_updated_at := now\<rparr>) (worktree_operations st)\<rparr>)))"

definition assert_operation_process_stopped :: "operation_row \<Rightarrow> store_error + unit" where
  "assert_operation_process_stopped r =
     check (wo_process_id r \<noteq> None) LeaseConflict (
     check (wo_process_state r = Some OpProcStopped) LeaseConflict (
     check (wo_stdout_path r \<noteq> None \<and> wo_stdout_sha256 r \<noteq> None
            \<and> wo_stderr_path r \<noteq> None \<and> wo_stderr_sha256 r \<noteq> None) LeaseConflict (Inr ())))"

section \<open>Completing a creation\<close>

definition observed_text :: "(string \<times> json) list \<Rightarrow> (string \<times> string) list \<Rightarrow> bool" where
  "observed_text observed required \<longleftrightarrow>
     list_all (\<lambda>(k, v). map_of observed k = Some (JStr v)) required"

definition required_observed :: "worktree_row \<Rightarrow> (string \<times> string) list" where
  "required_observed w =
     [(''worktree_id'', wt_id w), (''repository_path'', wt_repository_path w),
      (''source_git_common_dir'', wt_source_git_common_dir w),
      (''worktree_path'', wt_worktree_path w), (''branch_ref'', wt_branch_ref w),
      (''base_revision'', wt_base_revision w), (''head_revision'', wt_base_revision w),
      (''head_tree'', wt_base_tree w), (''object_format'', wt_object_format w),
      (''lock_reason'', wt_lock_reason w)]"

text \<open>
  The observed value of a text or integer column: \<open>ValueError\<close> when it is missing.  A value of
  another type than the column's, which no caller passes, is a \<open>TypeError\<close> here.
\<close>

definition observed_str :: "(string \<times> json) list \<Rightarrow> string \<Rightarrow> store_error + string" where
  "observed_str observed k =
     (case map_of observed k of
        None \<Rightarrow> Inl ValueError | Some JNull \<Rightarrow> Inl ValueError
      | Some (JStr s) \<Rightarrow> Inr s | Some _ \<Rightarrow> Inl TypeError)"

definition observed_int :: "(string \<times> json) list \<Rightarrow> string \<Rightarrow> store_error + int" where
  "observed_int observed k =
     (case map_of observed k of
        None \<Rightarrow> Inl ValueError | Some JNull \<Rightarrow> Inl ValueError
      | Some (JNum n) \<Rightarrow> Inr n | Some _ \<Rightarrow> Inl TypeError)"

definition release_operation_fence :: "operation_row \<Rightarrow> operation_row" where
  "release_operation_fence r = r\<lparr>wo_reconciliation_owner := None, wo_reconciliation_token := None,
     wo_reconciliation_expires_at := None\<rparr>"

definition succeed_operation :: "json \<Rightarrow> time \<Rightarrow> operation_row \<Rightarrow> operation_row" where
  "succeed_operation observed now r =
     (release_operation_fence r)\<lparr>wo_status := OpSucceeded, wo_observed_identity := Some observed,
        wo_error := None, wo_finished_at := Some now, wo_updated_at := now\<rparr>"

definition move_worktree ::
    "string \<Rightarrow> ManagedWorktreeState \<Rightarrow> (worktree_row \<Rightarrow> worktree_row) \<Rightarrow> store \<Rightarrow> store" where
  "move_worktree i from f st =
     st\<lparr>worktrees := upd_where (\<lambda>w. wt_id w = i \<and> wt_state w = from) f (worktrees st)\<rparr>"

definition worktree_resource :: "string \<Rightarrow> string" where
  "worktree_resource i = worktree_resource_prefix @ i"

definition awaits_worktree :: "string \<Rightarrow> job_row \<Rightarrow> bool" where
  "awaits_worktree i j \<longleftrightarrow> jb_id j = i \<and> jb_status j = JobPending
     \<and> jb_workspace_kind j = ManagedWorktree \<and> jb_managed_worktree_id j = None"

definition attach_worktree :: "job_row \<Rightarrow> worktree_row \<Rightarrow> time \<Rightarrow> store \<Rightarrow> store_error + store" where
  "attach_worktree fixer w now st =
     check (rowcount (awaits_worktree (jb_id fixer)) (jobs st) = 1) TransitionConflict
       (Inr (st\<lparr>jobs := upd_where (awaits_worktree (jb_id fixer))
          (\<lambda>j. j\<lparr>jb_managed_worktree_id := Some (wt_id w),
                jb_required_resources :=
                  sort (remdups (worktree_resource (wt_id w) # jb_required_resources fixer)),
                jb_updated_at := now\<rparr>) (jobs st)\<rparr>))"

definition complete_managed_worktree_creation ::
    "string \<Rightarrow> string \<Rightarrow> string \<Rightarrow> (string \<times> json) list \<Rightarrow> (string \<times> json) list
     \<Rightarrow> (string \<times> json) list \<Rightarrow> bool \<Rightarrow> time \<Rightarrow> store \<Rightarrow> store_error + store" where
  "complete_managed_worktree_creation i owner token expected observed snapshot_after reconciliation
     now st =
     bindR (assert_operation_fence i owner token reconciliation now st) (\<lambda>r.
     check (wo_kind r = OpCreate \<and> wo_status r = OpRunning) TransitionConflict (
     bindR (assert_operation_process_stopped r) (\<lambda>_.
     check (same_json (wo_expected_identity r) (JObj expected)) LeaseConflict (
     bindR (require (find_worktree (wo_worktree_id r) st) TransitionConflict) (\<lambda>w.
     check (wt_state w = WtProvisioning) TransitionConflict (
     check (same_json (wt_source_snapshot w) (JObj snapshot_after)) TransitionConflict (
     check (observed_text observed (required_observed w)) TransitionConflict (
     bindR (observed_str observed ''worktree_git_dir'') (\<lambda>git_dir.
     bindR (observed_int observed ''worktree_device'') (\<lambda>device.
     bindR (observed_int observed ''worktree_inode'') (\<lambda>inode.
     bindR (observed_int observed ''worktree_owner_uid'') (\<lambda>uid.
     check (0 \<le> device \<and> 0 \<le> inode \<and> 0 \<le> uid) IntegrityError (
     let st1 = move_worktree (wt_id w) WtProvisioning
                 (\<lambda>w. w\<lparr>wt_worktree_git_dir := Some git_dir, wt_worktree_device := Some device,
                       wt_worktree_inode := Some inode, wt_worktree_owner_uid := Some uid,
                       wt_head_revision := Some (wt_base_revision w), wt_state := WtReady,
                       wt_ready_at := Some now, wt_last_error := None, wt_updated_at := now\<rparr>) st;
         st2 = update_operation i (succeed_operation (JObj observed) now) st1
     in
     bindR (require (find (\<lambda>j. jb_id j = wt_fixer_job_id w \<and> jb_item_id j = wt_item_id w
              \<and> jb_role j = Fixer \<and> jb_status j = JobPending) (jobs st2)) TransitionConflict) (\<lambda>fixer.
     bindR (attach_worktree fixer w now st2) (\<lambda>st3.
       Inr (worktree_event ''worktree.ready'' w (Some (jb_id fixer)) owner
              [(''operation_id'', JStr i), (''worktree_path'', JStr (wt_worktree_path w)),
               (''branch_ref'', JStr (wt_branch_ref w)),
               (''base_revision'', JStr (wt_base_revision w)),
               (''resource_key'', JStr (worktree_resource (wt_id w)))] now st3))))))))))))))))"

section \<open>Quarantining an operation\<close>

definition quarantine_worktree_operation ::
    "string \<Rightarrow> string \<Rightarrow> string \<Rightarrow> (string \<times> json) list \<Rightarrow> string \<Rightarrow> (string \<times> json) list option
     \<Rightarrow> bool \<Rightarrow> bool \<Rightarrow> time \<Rightarrow> store \<Rightarrow> store_error + store" where
  "quarantine_worktree_operation i owner token expected reason_text observed reconciliation
     allow_active now st =
     (let reason = py_strip reason_text in
      check (reason \<noteq> [] \<and> length reason \<le> 4096) ValueError (
      bindR (assert_operation_fence i owner token reconciliation now st) (\<lambda>r.
      check (same_json (wo_expected_identity r) (JObj expected)) LeaseConflict (
      check (allow_active \<or> wo_process_state r \<noteq> Some OpProcActive) LeaseConflict (
      bindR (operation_worktree r st) (\<lambda>w.
        Inr (worktree_event ''worktree.quarantined'' w None owner
               [(''operation_id'', JStr i), (''reason'', JStr reason),
                (''process_still_active'', JBool (wo_process_state r = Some OpProcActive))] now
               (update_operation i
                  (\<lambda>r. (release_operation_fence r)\<lparr>wo_status := OpQuarantined,
                        wo_observed_identity := Some (JObj (or_default observed [])),
                        wo_error := Some reason, wo_finished_at := Some now,
                        wo_updated_at := now\<rparr>)
                  (st\<lparr>worktrees := upd_where (\<lambda>v. wt_id v = wt_id w \<and> wt_state v \<noteq> WtRemoved)
                     (\<lambda>v. v\<lparr>wt_state := WtQuarantined, wt_last_error := Some reason,
                           wt_updated_at := now\<rparr>) (worktrees st)\<rparr>)))))))))"

section \<open>Removing a worktree\<close>

definition removal_identity :: "worktree_row \<Rightarrow> json" where
  "removal_identity w = JObj
     [(''worktree_id'', JStr (wt_id w)), (''generation'', JNum (wt_generation w)),
      (''repository_path'', JStr (wt_repository_path w)),
      (''source_git_common_dir'', JStr (wt_source_git_common_dir w)),
      (''worktree_path'', JStr (wt_worktree_path w)),
      (''worktree_git_dir'', opt_str (wt_worktree_git_dir w)),
      (''worktree_device'', opt_num (wt_worktree_device w)),
      (''worktree_inode'', opt_num (wt_worktree_inode w)),
      (''worktree_owner_uid'', opt_num (wt_worktree_owner_uid w)),
      (''branch_ref'', JStr (wt_branch_ref w)), (''base_revision'', JStr (wt_base_revision w)),
      (''head_revision'', opt_str (wt_head_revision w)), (''lock_reason'', JStr (wt_lock_reason w)),
      (''source_snapshot'', wt_source_snapshot w)]"

text \<open>An unresolved worker process of an attempt that used the worktree.\<close>

definition live_worktree_process :: "string \<Rightarrow> store \<Rightarrow> bool" where
  "live_worktree_process i st \<longleftrightarrow>
     list_ex (\<lambda>p. ep_state p \<noteq> ProcStopped
        \<and> list_ex (\<lambda>a. at_id a = ep_attempt_id p \<and> at_managed_worktree_id a = Some i) (attempts st))
       (processes st)"

definition last_operation_number :: "string \<Rightarrow> store \<Rightarrow> int" where
  "last_operation_number i st =
     fold max (map wo_number (filter (\<lambda>r. wo_worktree_id r = i) (worktree_operations st))) 0"

definition request_managed_worktree_cleanup ::
    "string \<Rightarrow> string \<Rightarrow> int \<Rightarrow> string \<Rightarrow> string \<Rightarrow> time \<Rightarrow> store \<Rightarrow> store_error + (store \<times> string)" where
  "request_managed_worktree_cleanup i owner_text lease_seconds fresh token now st =
     (let owner = py_strip owner_text in
      check (owner \<noteq> [] \<and> 0 < lease_seconds) ValueError (
      bindR (require (find_worktree i st) NotFoundError) (\<lambda>w.
      check (wt_state w = WtReady) TransitionConflict (
      bindR (require (find_item (wt_item_id w) st) TypeError) (\<lambda>item.
      check (it_state item \<in> {VerifiedGreen, Blocked}) TransitionConflict (
      check (\<not> list_ex (\<lambda>j. jb_item_id j = wt_item_id w \<and> open_job j) (jobs st)) LeaseConflict (
      check (\<not> list_ex (\<lambda>l. ls_key l = worktree_resource i) (leases st)) LeaseConflict (
      check (\<not> live_worktree_process i st) LeaseConflict (
      bindR (insert_worktree_operation
               (new_operation fresh i (last_operation_number i st + 1) OpRemove owner token
                  (now + lease_seconds) (removal_identity w) now)
               (move_worktree i WtReady
                  (\<lambda>w. w\<lparr>wt_state := WtCleanupPending, wt_cleanup_started_at := Some now,
                        wt_last_error := None, wt_updated_at := now\<rparr>) st)) (\<lambda>st1.
        Inr (worktree_event ''worktree.cleanup_started'' w None owner
               [(''operation_id'', JStr fresh)] now st1, fresh)))))))))))"

text \<open>\<open>observed.get(key) != value\<close> for a column that may be \<open>NULL\<close>: a missing key is \<open>None\<close>.\<close>

definition observed_opt :: "(string \<times> json) list \<Rightarrow> string \<Rightarrow> string option \<Rightarrow> bool" where
  "observed_opt observed k v \<longleftrightarrow>
     (case v of None \<Rightarrow> map_of observed k \<in> {None, Some JNull}
      | Some s \<Rightarrow> map_of observed k = Some (JStr s))"

definition absence_proven :: "(string \<times> json) list \<Rightarrow> worktree_row \<Rightarrow> bool" where
  "absence_proven observed w \<longleftrightarrow>
     map_of observed ''worktree_id'' = Some (JStr (wt_id w))
     \<and> is_true (map_of observed ''path_absent'') \<and> is_true (map_of observed ''registry_absent'')
     \<and> map_of observed ''branch_ref'' = Some (JStr (wt_branch_ref w))
     \<and> observed_opt observed ''branch_head_revision'' (wt_head_revision w)"

definition complete_managed_worktree_removal ::
    "string \<Rightarrow> string \<Rightarrow> string \<Rightarrow> (string \<times> json) list \<Rightarrow> (string \<times> json) list
     \<Rightarrow> (string \<times> json) list \<Rightarrow> bool \<Rightarrow> time \<Rightarrow> store \<Rightarrow> store_error + store" where
  "complete_managed_worktree_removal i owner token expected observed snapshot_after reconciliation
     now st =
     bindR (assert_operation_fence i owner token reconciliation now st) (\<lambda>r.
     check (wo_kind r = OpRemove \<and> wo_status r = OpRunning) TransitionConflict (
     bindR (assert_operation_process_stopped r) (\<lambda>_.
     check (same_json (wo_expected_identity r) (JObj expected)) LeaseConflict (
     bindR (require (find_worktree (wo_worktree_id r) st) TransitionConflict) (\<lambda>w.
     check (wt_state w = WtCleanupPending) TransitionConflict (
     check (same_json (wt_source_snapshot w) (JObj snapshot_after)) TransitionConflict (
     check (absence_proven observed w) TransitionConflict
       (Inr (worktree_event ''worktree.removed'' w None owner
          [(''operation_id'', JStr i), (''branch_retained'', JStr (wt_branch_ref w))] now
          (update_operation i (succeed_operation (JObj observed) now)
             (move_worktree (wt_id w) WtCleanupPending
                (\<lambda>w. w\<lparr>wt_state := WtRemoved, wt_removed_at := Some now, wt_last_error := None,
                      wt_updated_at := now\<rparr>) st)))))))))))"

section \<open>Reads\<close>

definition get_managed_worktree :: "string \<Rightarrow> store \<Rightarrow> store_error + worktree_row" where
  "get_managed_worktree i st = require (find_worktree i st) NotFoundError"

definition given_is :: "'a option \<Rightarrow> 'a \<Rightarrow> bool" where
  "given_is filter_value v \<longleftrightarrow> (case filter_value of None \<Rightarrow> True | Some f \<Rightarrow> v = f)"

definition list_managed_worktrees ::
    "string option \<Rightarrow> string option \<Rightarrow> ManagedWorktreeState option \<Rightarrow> store \<Rightarrow> worktree_row list" where
  "list_managed_worktrees campaign item state st =
     order_by (\<lambda>w. (wt_created_at w, wt_id w))
       (filter (\<lambda>w. given_is campaign (wt_campaign_id w) \<and> given_is item (wt_item_id w)
                  \<and> given_is state (wt_state w)) (worktrees st))"

definition list_worktree_operations ::
    "string option \<Rightarrow> string option \<Rightarrow> store \<Rightarrow> operation_row list" where
  "list_worktree_operations worktree campaign st =
     order_by (\<lambda>r. (wo_started_at r, wo_number r))
       (filter (\<lambda>r. (case campaign of None \<Rightarrow> True
                     | Some c \<Rightarrow> list_ex (\<lambda>w. wt_id w = wo_worktree_id r \<and> wt_campaign_id w = c)
                                  (worktrees st))
                  \<and> given_is worktree (wo_worktree_id r)) (worktree_operations st))"

section \<open>Reconciling operations\<close>

definition fence_free :: "time \<Rightarrow> operation_row \<Rightarrow> bool" where
  "fence_free now r \<longleftrightarrow>
     (case wo_reconciliation_expires_at r of None \<Rightarrow> True | Some e \<Rightarrow> e \<le> now)"

definition expired_operation :: "time \<Rightarrow> operation_row \<Rightarrow> bool" where
  "expired_operation now r \<longleftrightarrow>
     wo_status r = OpRunning \<and> wo_lease_expires_at r \<le> now \<and> fence_free now r"

definition retryable_operation :: "time \<Rightarrow> operation_row \<Rightarrow> bool" where
  "retryable_operation now r \<longleftrightarrow>
     wo_status r = OpQuarantined \<and> wo_process_state r \<noteq> None \<and> fence_free now r"

text \<open>The loop of both claims: \<open>fresh n\<close> is the token drawn for the \<open>n\<close>-th candidate.\<close>

definition claim_operation ::
    "(time \<Rightarrow> operation_row \<Rightarrow> bool) \<Rightarrow> string \<Rightarrow> (worktree_row \<Rightarrow> operation_row \<Rightarrow> (string \<times> json) list)
     \<Rightarrow> string \<Rightarrow> int \<Rightarrow> time \<Rightarrow> string \<times> string
     \<Rightarrow> store \<times> (operation_row \<times> worktree_row) list
     \<Rightarrow> store_error + (store \<times> (operation_row \<times> worktree_row) list)" where
  "claim_operation claimable kind data owner lease_seconds now candidate acc =
     (case (candidate, acc) of ((i, token), (st, claimed)) \<Rightarrow>
      let this = (\<lambda>r. wo_id r = i \<and> claimable now r) in
      if rowcount this (worktree_operations st) \<noteq> 1 then Inr (st, claimed)
      else
        let st1 = st\<lparr>worktree_operations := upd_where this
                    (\<lambda>r. r\<lparr>wo_reconciliation_owner := Some owner,
                          wo_reconciliation_token := Some token,
                          wo_reconciliation_expires_at := Some (now + lease_seconds),
                          wo_updated_at := now\<rparr>) (worktree_operations st)\<rparr>
        in
        bindR (require (find_operation i st1) TypeError) (\<lambda>r.
        bindR (require (find_worktree (wo_worktree_id r) st1) LeaseConflict) (\<lambda>w.
          Inr (worktree_event kind w None owner (data w r) now st1, claimed @ [(r, w)]))))"

definition claim_operations ::
    "(time \<Rightarrow> operation_row \<Rightarrow> bool) \<Rightarrow> string \<Rightarrow> (worktree_row \<Rightarrow> operation_row \<Rightarrow> (string \<times> json) list)
     \<Rightarrow> string \<Rightarrow> int \<Rightarrow> int \<Rightarrow> (nat \<Rightarrow> string) \<Rightarrow> time \<Rightarrow> store
     \<Rightarrow> store_error + (store \<times> (operation_row \<times> worktree_row) list)" where
  "claim_operations claimable kind data owner_text lease_seconds limit fresh now st =
     (let owner = py_strip owner_text in
      check (owner \<noteq> [] \<and> length owner \<le> 256) ValueError (
      check (0 < lease_seconds) ValueError (
      check (1 \<le> limit) ValueError (
      let chosen = take (nat limit) (order_by (\<lambda>r. (wo_started_at r, wo_id r))
                     (filter (claimable now) (worktree_operations st)))
      in foldR (claim_operation claimable kind data owner lease_seconds now)
           (zip (map wo_id chosen) (map fresh [0..<length chosen])) (st, [])))))"

definition claim_expired_worktree_operations ::
    "string \<Rightarrow> int \<Rightarrow> int \<Rightarrow> (nat \<Rightarrow> string) \<Rightarrow> time \<Rightarrow> store
     \<Rightarrow> store_error + (store \<times> (operation_row \<times> worktree_row) list)" where
  "claim_expired_worktree_operations =
     claim_operations expired_operation ''worktree.reconciliation_claimed''
       (\<lambda>w r. [(''operation_id'', JStr (wo_id r)),
               (''operation_kind'', JStr (case wo_kind r of OpCreate \<Rightarrow> ''create''
                                                          | OpRemove \<Rightarrow> ''remove''))])"

definition claim_quarantined_worktree_processes ::
    "string \<Rightarrow> int \<Rightarrow> int \<Rightarrow> (nat \<Rightarrow> string) \<Rightarrow> time \<Rightarrow> store
     \<Rightarrow> store_error + (store \<times> (operation_row \<times> worktree_row) list)" where
  "claim_quarantined_worktree_processes =
     claim_operations retryable_operation ''worktree.quarantined_process_retry_claimed''
       (\<lambda>w r. [(''operation_id'', JStr (wo_id r))])"

definition finish_quarantined_worktree_process_retry ::
    "string \<Rightarrow> string \<Rightarrow> string \<Rightarrow> string \<Rightarrow> (string \<times> json) list option \<Rightarrow> time \<Rightarrow> store
     \<Rightarrow> store_error + store" where
  "finish_quarantined_worktree_process_retry i owner token reason_text observed now st =
     (let reason = py_strip reason_text in
      check (reason \<noteq> [] \<and> length reason \<le> 4096) ValueError (
      bindR (assert_operation_fence i owner token True now st) (\<lambda>r.
      check (wo_status r = OpQuarantined) TransitionConflict (
      bindR (operation_worktree r st) (\<lambda>w.
        Inr (worktree_event ''worktree.quarantined_process_reconciled'' w None owner
               [(''operation_id'', JStr i),
                (''process_state'', case wo_process_state r of None \<Rightarrow> JNull
                   | Some OpProcActive \<Rightarrow> JStr ''active'' | Some OpProcStopped \<Rightarrow> JStr ''stopped''),
                (''reason'', JStr reason),
                (''observed_identity'', JObj (or_default observed []))] now
               ((update_operation i
                   (\<lambda>r. (release_operation_fence r)\<lparr>wo_error := Some reason, wo_updated_at := now\<rparr>) st)
                 \<lparr>worktrees := upd_where (\<lambda>v. wt_id v = wt_id w)
                    (\<lambda>v. v\<lparr>wt_last_error := Some reason, wt_updated_at := now\<rparr>) (worktrees st)\<rparr>)))))))"

definition resume_quarantined_worktree_operation ::
    "string \<Rightarrow> string \<Rightarrow> string \<Rightarrow> time \<Rightarrow> store \<Rightarrow> store_error + store" where
  "resume_quarantined_worktree_operation i owner token now st =
     bindR (assert_operation_fence i owner token True now st) (\<lambda>r.
     check (wo_status r = OpQuarantined) TransitionConflict (
     check (wo_process_state r = Some OpProcStopped) LeaseConflict (
     bindR (require (find_worktree (wo_worktree_id r) st) TransitionConflict) (\<lambda>w.
     check (wt_state w = WtQuarantined) TransitionConflict (
     let resumed = (case wo_kind r of OpCreate \<Rightarrow> WtProvisioning | OpRemove \<Rightarrow> WtCleanupPending);
         st1 = st\<lparr>worktrees := upd_where (\<lambda>v. wt_id v = wt_id w)
                 (\<lambda>v. v\<lparr>wt_state := resumed, wt_updated_at := now\<rparr>) (worktrees st)\<rparr>
     in
     check (\<not> list_ex (running_operation (wo_worktree_id r)) (worktree_operations st)) IntegrityError
       (Inr (worktree_event ''worktree.quarantine_reconciliation_resumed'' w None owner
          [(''operation_id'', JStr i),
           (''operation_kind'', JStr (case wo_kind r of OpCreate \<Rightarrow> ''create'' | OpRemove \<Rightarrow> ''remove''))]
          now
          (update_operation i
             (\<lambda>r. r\<lparr>wo_status := OpRunning, wo_finished_at := None, wo_updated_at := now\<rparr>) st1))))))))"

end
