(* ===== verification/Provisioning.thy ===== *)
theory Provisioning
  imports Fencing Worktrees
begin

text \<open>
  The operations on managed worktrees keep the queue invariant: all of them leave the queue
  alone but the completion of a creation, which binds the worktree to a job that waits for it.
\<close>

section \<open>Jobs that do not run\<close>

text \<open>\<open>same_work j k\<close>: \<open>k\<close> is the job \<open>j\<close> with at most another workspace and other resources.\<close>

definition same_work :: "job_row \<Rightarrow> job_row \<Rightarrow> bool" where
  "same_work j k \<longleftrightarrow> jb_id k = jb_id j \<and> jb_campaign_id k = jb_campaign_id j
     \<and> jb_item_id k = jb_item_id j \<and> jb_role k = jb_role j \<and> jb_status k = jb_status j
     \<and> jb_queued_state k = jb_queued_state j \<and> jb_active_state k = jb_active_state j
     \<and> jb_attempt_count k = jb_attempt_count j \<and> distinct (jb_required_resources k)
     \<and> jb_lease_owner k = jb_lease_owner j \<and> jb_lease_token k = jb_lease_token j
     \<and> jb_lease_expires_at k = jb_lease_expires_at j
     \<and> jb_current_attempt_id k = jb_current_attempt_id j"

lemma same_workD:
  assumes "same_work j k"
  shows "jb_id k = jb_id j" "jb_campaign_id k = jb_campaign_id j" "jb_item_id k = jb_item_id j"
    "jb_role k = jb_role j" "jb_queued_state k = jb_queued_state j"
    "jb_active_state k = jb_active_state j" "jb_attempt_count k = jb_attempt_count j"
    "distinct (jb_required_resources k)" "running k = running j" "unleased k = unleased j"
    "running_in c k = running_in c j"
  using assms by (simp_all add: same_work_def running_def unleased_def running_in_def)

lemma queue_ok_idle_jobs:
  assumes ok: "queue_ok st"
    and F: "\<And>j. j \<in> set (jobs st) \<Longrightarrow> P j \<Longrightarrow> \<not> running j \<and> same_work j (F j)"
  shows "queue_ok (st\<lparr>jobs := upd_where P F (jobs st)\<rparr>)"
proof -
  let ?st = "st\<lparr>jobs := upd_where P F (jobs st)\<rparr>"
  let ?G = "\<lambda>j. if P j then F j else j"
  have G: "same_work j (?G j)" "running j \<Longrightarrow> ?G j = j" if "j \<in> set (jobs st)" for j
    using F [OF that] job_states(3) [OF ok that] by (auto simp: same_work_def)
  have js: "set (jobs ?st) = ?G ` set (jobs st)" by (simp add: set_upd_where)
  have iff: "j \<in> set (jobs ?st) \<and> running j \<longleftrightarrow> j \<in> set (jobs st) \<and> running j" for j
  proof
    assume "j \<in> set (jobs ?st) \<and> running j"
    then obtain k where k: "k \<in> set (jobs st)" "j = ?G k" "running (?G k)" unfolding js by blast
    then have "running k" using same_workD(9) [OF G(1)] by blast
    with k G(2) show "j \<in> set (jobs st) \<and> running j" by simp
  next
    assume j: "j \<in> set (jobs st) \<and> running j"
    then have "?G j = j" by (intro G(2)) simp_all
    then have "j = ?G j" by (rule sym)
    then have "j \<in> ?G ` set (jobs st)" by (rule image_eqI) (simp add: j)
    with j show "j \<in> set (jobs ?st) \<and> running j" unfolding js by simp
  qed
  have run: "(\<exists>j \<in> set (jobs ?st). running j \<and> Q j) \<longleftrightarrow> (\<exists>j \<in> set (jobs st). running j \<and> Q j)" for Q
    using iff by blast
  have run_all: "(\<forall>j \<in> set (jobs ?st). running j \<longrightarrow> Q j) \<longleftrightarrow> (\<forall>j \<in> set (jobs st). running j \<longrightarrow> Q j)" for Q
    using run [of "\<lambda>j. \<not> Q j"] by blast
  have "map f (jobs ?st) = map f (jobs st)"
    if "\<And>j. j \<in> set (jobs st) \<Longrightarrow> f (?G j) = f j" for f :: "job_row \<Rightarrow> string"
    using that by (auto simp: upd_where_def)
  from this [of jb_id] have "keys_ok ?st"
    using key_lists [OF ok] G(1) same_workD(1) unfolding keys_ok_def by auto
  moreover have "owners_ok ?st"
  proof -
    have "(jb_item_id k, jb_campaign_id k) \<in> (\<lambda>i. (it_id i, it_campaign_id i)) ` set (items st)"
      if k: "k \<in> set (jobs ?st)" for k
    proof -
      from k obtain j where j: "j \<in> set (jobs st)" "k = ?G j" unfolding js by blast
      show ?thesis
        using queue_okD(2) [OF ok] j(1) unfolding owners_ok_def j(2) same_workD(2,3) [OF G(1) [OF j(1)]]
        by blast
    qed
    then show ?thesis using queue_okD(2) [OF ok] unfolding owners_ok_def by simp
  qed
  moreover have "jobs_ok ?st"
    unfolding jobs_ok_def js
  proof (intro ballI)
    fix k assume "k \<in> ?G ` set (jobs st)"
    then obtain j where j: "j \<in> set (jobs st)" "k = ?G j" by blast
    note same = same_workD [OF G(1) [OF j(1)], folded j(2)]
    from queue_okD(3) [OF ok] j(1) show "jb_queued_state k = queued_state (jb_role k)
        \<and> jb_active_state k = active_state (jb_role k) \<and> distinct (jb_required_resources k)
        \<and> (\<not> running k \<longrightarrow> unleased k)"
      unfolding jobs_ok_def same(4-6) same(9,10) using same(8) by blast
  qed
  moreover have "running_ok ?st"
    using queue_okD(4) [OF ok] unfolding running_ok_def run_all by (simp add: job_leases_def)
  moreover have "exclusive_ok ?st"
  proof -
    have "\<forall>j \<in> set (jobs st). running j \<longrightarrow> (\<forall>k \<in> set (jobs st). running k \<longrightarrow>
        jb_item_id j = jb_item_id k \<longrightarrow> j = k)"
      using queue_okD(5) [OF ok] unfolding exclusive_ok_def by blast
    then have "\<forall>j \<in> set (jobs ?st). running j \<longrightarrow> (\<forall>k \<in> set (jobs ?st). running k \<longrightarrow>
        jb_item_id j = jb_item_id k \<longrightarrow> j = k)"
      unfolding run_all .
    then show ?thesis unfolding exclusive_ok_def by blast
  qed
  moreover have "items_ok ?st"
    using queue_okD(6) [OF ok] unfolding items_ok_def run by simp
  moreover have "attempts_ok ?st"
  proof -
    have "\<exists>j \<in> set (jobs ?st). jb_id j = i \<and> n \<le> jb_attempt_count j"
      if "\<exists>j \<in> set (jobs st). jb_id j = i \<and> n \<le> jb_attempt_count j" for i n
    proof -
      from that obtain j where j: "j \<in> set (jobs st)" "jb_id j = i \<and> n \<le> jb_attempt_count j" by blast
      then have "jb_id (?G j) = i \<and> n \<le> jb_attempt_count (?G j)"
        using same_workD(1,7) [OF G(1) [OF j(1)]] by presburger
      with j(1) show ?thesis unfolding js by blast
    qed
    then show ?thesis using queue_okD(7) [OF ok] unfolding attempts_ok_def run by simp
  qed
  moreover have "leases_ok ?st"
    using queue_okD(8) [OF ok] unfolding leases_ok_def run by (simp cong: option.case_cong)
  moreover have "controls_ok ?st"
    using queue_okD(10) [OF ok] unfolding controls_ok_def run by simp
  moreover have "limits_ok ?st"
  proof -
    have count: "rowcount R (jobs ?st) = rowcount R (jobs st)"
      if "\<And>j. j \<in> set (jobs st) \<Longrightarrow> R (?G j) = R j" for R
    proof -
      have "filter (R \<circ> ?G) (jobs st) = filter R (jobs st)"
        by (rule filter_cong [OF refl]) (simp only: o_apply that)
      moreover have "jobs ?st = map ?G (jobs st)" by (simp add: upd_where_def)
      ultimately show ?thesis by (simp only: rowcount_def filter_map length_map)
    qed
    have "rowcount (running_in c) (jobs ?st) = rowcount (running_in c) (jobs st)" for c
      by (rule count) (rule same_workD(11) [OF G(1)])
    moreover have "rowcount (\<lambda>j. running_in c j \<and> jb_role j = r) (jobs ?st)
        = rowcount (\<lambda>j. running_in c j \<and> jb_role j = r) (jobs st)" for c r
      by (rule count) (drule G(1), simp only: same_workD(4,11))
    ultimately show ?thesis using queue_okD(11) [OF ok] unfolding limits_ok_def by simp
  qed
  ultimately show ?thesis
    using queue_okD [OF ok] by (simp add: queue_ok_def processes_ok_def)
qed

section \<open>The operations\<close>

lemma queue_ok_worktree_tables [simp]:
  "queue_ok (st\<lparr>worktrees := x\<rparr>) = queue_ok st"
  "queue_ok (st\<lparr>worktree_operations := y\<rparr>) = queue_ok st"
  "queue_ok (update_operation i f st) = queue_ok st"
  "queue_ok (move_worktree i from g st) = queue_ok st"
  "queue_ok (worktree_event kind w job actor data now st) = queue_ok st"
  unfolding update_operation_def move_worktree_def worktree_event_def
  by (auto elim: queue_ok_cong simp: same_queue_def)

lemma request_worktree_ok:
  assumes ok: "queue_ok st"
    and run: "request_managed_worktree W cid iid q owner secs fresh token now st = Inr (st', i)"
  shows "queue_ok st'"
  using run ok
  by (auto simp: request_managed_worktree_def Let_def insert_worktree_def
      insert_worktree_operation_def)

lemma operation_process_ok:
  assumes ok: "queue_ok st"
  shows "record_worktree_operation_process i owner token p now st = Inr st' \<Longrightarrow> queue_ok st'"
    and "clear_worktree_operation_process i owner token pid pgid rec now st = Inr st' \<Longrightarrow> queue_ok st'"
    and "record_worktree_operation_artifacts W i owner token out oh err eh rec now st = Inr st'
      \<Longrightarrow> queue_ok st'"
    and "record_worktree_operation_artifact_intent W i owner token out err now st = Inr st'
      \<Longrightarrow> queue_ok st'"
  using ok
  by (auto simp: record_worktree_operation_process_def clear_worktree_operation_process_def
      record_worktree_operation_artifacts_def record_worktree_operation_artifact_intent_def
      split: if_splits)

lemma same_work_attached:
  "distinct rs \<Longrightarrow> same_work j (j\<lparr>jb_managed_worktree_id := w, jb_required_resources := rs,
     jb_updated_at := now\<rparr>)"
  by (simp add: same_work_def)

lemma attach_worktree_ok:
  assumes ok: "queue_ok st" and run: "attach_worktree fixer w now st = Inr st'"
  shows "queue_ok st'"
proof -
  from run have st': "st' = st\<lparr>jobs := upd_where (awaits_worktree (jb_id fixer))
        (\<lambda>j. j\<lparr>jb_managed_worktree_id := Some (wt_id w),
              jb_required_resources :=
                sort (remdups (worktree_resource (wt_id w) # jb_required_resources fixer)),
              jb_updated_at := now\<rparr>) (jobs st)\<rparr>"
    by (simp add: attach_worktree_def)
  show ?thesis
    unfolding st'
    by (rule queue_ok_idle_jobs [OF ok])
      (auto simp: awaits_worktree_def running_def intro!: same_work_attached simp del: remdups.simps)
qed

lemma complete_creation_ok:
  assumes ok: "queue_ok st"
    and run: "complete_managed_worktree_creation i owner token expected observed snapshot rec now st
      = Inr st'"
  shows "queue_ok st'"
  using run ok
  by (auto simp: complete_managed_worktree_creation_def Let_def dest: attach_worktree_ok [rotated])

lemma worktree_removal_ok:
  assumes ok: "queue_ok st"
  shows "quarantine_worktree_operation i owner token expected reason obs rec active now st = Inr st'
      \<Longrightarrow> queue_ok st'"
    and "request_managed_worktree_cleanup w owner secs fresh token now st = Inr (st', n) \<Longrightarrow> queue_ok st'"
    and "complete_managed_worktree_removal i owner token expected observed snapshot rec now st = Inr st'
      \<Longrightarrow> queue_ok st'"
  using ok
  by (auto simp: quarantine_worktree_operation_def request_managed_worktree_cleanup_def Let_def
      complete_managed_worktree_removal_def insert_worktree_operation_def)

lemma claim_operation_ok:
  assumes "claim_operation P kind data owner secs now c (st, rs) = Inr (st', rs')" "queue_ok st"
  shows "queue_ok st'"
  using assms by (cases c) (auto simp: claim_operation_def Let_def split: if_splits)

lemma claim_operations_ok:
  assumes ok: "queue_ok st"
    and run: "claim_operations P kind data owner secs limit fresh now st = Inr (st', rs)"
  shows "queue_ok st'"
proof -
  from run obtain owner' cs where
      loop: "foldR (claim_operation P kind data owner' secs now) cs (st, []) = Inr (st', rs)"
    unfolding claim_operations_def Let_def by auto
  have "queue_ok (fst (st', rs))"
    using loop
  proof (rule foldR_invariant)
    fix c s s' assume "queue_ok (fst s)" "claim_operation P kind data owner' secs now c s = Inr s'"
    then show "queue_ok (fst s')" by (cases s, cases s') (auto dest: claim_operation_ok)
  qed (simp add: ok)
  then show ?thesis by simp
qed

lemma worktree_reconciliation_ok:
  assumes ok: "queue_ok st"
  shows "claim_expired_worktree_operations owner secs limit fresh now st = Inr (st', rs) \<Longrightarrow> queue_ok st'"
    and "claim_quarantined_worktree_processes owner secs limit fresh now st = Inr (st', rs)
      \<Longrightarrow> queue_ok st'"
    and "finish_quarantined_worktree_process_retry i owner token reason obs now st = Inr st'
      \<Longrightarrow> queue_ok st'"
    and "resume_quarantined_worktree_operation i owner token now st = Inr st' \<Longrightarrow> queue_ok st'"
  using ok claim_operations_ok [OF ok]
  by (auto simp: claim_expired_worktree_operations_def claim_quarantined_worktree_processes_def
      finish_quarantined_worktree_process_retry_def resume_quarantined_worktree_operation_def Let_def)

lemmas worktree_ok =
  request_worktree_ok operation_process_ok complete_creation_ok worktree_removal_ok
  worktree_reconciliation_ok

end
