(* ===== verification/Sandbox.thy ===== *)
theory Sandbox
  imports Schema
begin

text \<open>
  \<^verbatim>\<open>focused_sandbox.py\<close>: the trusted Python runtime of a focused test and the Seatbelt profile
  that confines it.  \<open>FocusedSandboxError\<close> is a \<open>ValueError\<close>.  A path is the string of an
  absolute, normalised POSIX path.
\<close>

section \<open>Paths\<close>

fun split_on :: "char \<Rightarrow> string \<Rightarrow> string \<Rightarrow> string list" where
  "split_on c acc [] = [rev acc]"
| "split_on c acc (x # xs) = (if x = c then rev acc # split_on c [] xs else split_on c (x # acc) xs)"

definition path_parts :: "string \<Rightarrow> string list" where
  "path_parts p = filter (\<lambda>s. s \<noteq> []) (split_on CHR ''/'' [] p)"

definition path_of :: "string list \<Rightarrow> string" where
  "path_of parts = (if parts = [] then ''/'' else concat (map (\<lambda>s. CHR ''/'' # s) parts))"

definition path_join :: "string \<Rightarrow> string list \<Rightarrow> string" where
  "path_join p names = path_of (path_parts p @ names)"

definition path_parent :: "string \<Rightarrow> string" where
  "path_parent p = path_of (butlast (path_parts p))"

definition path_name :: "string \<Rightarrow> string" where
  "path_name p = (if path_parts p = [] then [] else last (path_parts p))"

text \<open>\<open>Path.parents\<close>: nearest first, the root last; none for the root itself.\<close>

definition path_parents :: "string \<Rightarrow> string list" where
  "path_parents p = map (\<lambda>n. path_of (take n (path_parts p))) (rev [0..<length (path_parts p)])"

definition is_prefix :: "string list \<Rightarrow> string list \<Rightarrow> bool" where
  "is_prefix xs ys \<longleftrightarrow> take (length xs) ys = xs"

text \<open>\<open>p.relative_to(q)\<close> succeeds.\<close>

definition relative_to :: "string \<Rightarrow> string \<Rightarrow> bool" where
  "relative_to p q \<longleftrightarrow> is_prefix (path_parts q) (path_parts p)"

definition paths_overlap :: "string \<Rightarrow> string \<Rightarrow> bool" where
  "paths_overlap p q \<longleftrightarrow> relative_to p q \<or> relative_to q p"

text \<open>\<open>encode("utf-8")\<close>; a HOL character is a code point up to U+00FF, so at most two bytes.\<close>

fun utf8_bytes :: "string \<Rightarrow> string" where
  "utf8_bytes [] = []"
| "utf8_bytes (c # cs) =
     (if code c < 128 then [c]
      else [char_of (192 + code c div 64), char_of (128 + code c mod 64)]) @ utf8_bytes cs"

definition validate_path_text :: "string \<Rightarrow> bool" where
  "validate_path_text p \<longleftrightarrow> int (length (utf8_bytes p)) \<le> 4096
     \<and> list_all (\<lambda>c. 32 \<le> code c \<and> code c \<noteq> 127) p"

definition canonical_existing_path :: "world \<Rightarrow> string \<Rightarrow> store_error + string" where
  "canonical_existing_path W p =
     (let supplied = expanduser W p in
      check (is_absolute supplied) ValueError (
      bindR (require (resolve_strict W supplied) ValueError) (\<lambda>resolved.
      check (validate_path_text resolved) ValueError (Inr resolved))))"

text \<open>\<open>lstat\<close> of a path that was just resolved: its \<open>OSError\<close> is not caught here.\<close>

definition stat_of :: "world \<Rightarrow> string \<Rightarrow> store_error + file_stat" where
  "stat_of W p = require (lstat W p) OSError"

definition canonical_existing_directory :: "world \<Rightarrow> string \<Rightarrow> store_error + string" where
  "canonical_existing_directory W p =
     bindR (canonical_existing_path W p) (\<lambda>resolved.
     bindR (stat_of W resolved) (\<lambda>details.
     check (st_kind details = Directory) ValueError (Inr resolved)))"

text \<open>The permission bits: \<open>mode & 0o022\<close>, \<open>mode & 0o077\<close>, \<open>stat.S_IMODE(mode)\<close>.\<close>

definition others_write :: "file_stat \<Rightarrow> bool" where
  "others_write s \<longleftrightarrow> bit (st_mode s) 4 \<or> bit (st_mode s) 1"

definition others_access :: "file_stat \<Rightarrow> bool" where
  "others_access s \<longleftrightarrow> st_mode s mod 64 \<noteq> 0"

definition permissions :: "file_stat \<Rightarrow> int" where
  "permissions s = st_mode s mod 4096"

section \<open>The Python runtime\<close>

definition framework_version_root :: "string \<Rightarrow> string option" where
  "framework_version_root p =
     find (\<lambda>c. path_name (path_parent c) = ''Versions'' \<and> path_name c \<noteq> []) (p # path_parents p)"

definition direct_python_executable :: "world \<Rightarrow> string \<Rightarrow> store_error + string" where
  "direct_python_executable W p =
     bindR (canonical_existing_path W p) (\<lambda>resolved.
     case framework_version_root resolved of
       None \<Rightarrow> Inr resolved
     | Some root \<Rightarrow>
         let direct = path_join root [''Resources'', ''Python.app'', ''Contents'', ''MacOS'', ''Python'']
         in if is_file W direct then require (resolve_strict W direct) OSError
            else Inr resolved)"

definition max_runtime_entries :: int where
  "max_runtime_entries = 25000"

definition max_runtime_bytes :: int where
  "max_runtime_bytes = 512 * 1024 * 1024"

definition trusted_entry :: "world \<Rightarrow> string \<Rightarrow> string \<Rightarrow> store_error + unit" where
  "trusted_entry W root p =
     bindR (stat_of W p) (\<lambda>details.
     check (st_uid details = 0 \<and> \<not> others_write details) ValueError (
     case st_kind details of
       SymbolicLink \<Rightarrow>
         check (case resolve_strict W p of None \<Rightarrow> False | Some q \<Rightarrow> relative_to q root) ValueError (Inr ())
     | OtherFile \<Rightarrow> Inl ValueError
     | _ \<Rightarrow> Inr ()))"

fun trusted_entries :: "world \<Rightarrow> string \<Rightarrow> string list \<Rightarrow> store_error + unit" where
  "trusted_entries W root [] = Inr ()"
| "trusted_entries W root (p # ps) =
     bindR (trusted_entry W root p) (\<lambda>_. trusted_entries W root ps)"

fun trusted_directories ::
    "world \<Rightarrow> string \<Rightarrow> int \<Rightarrow> (string \<times> string list \<times> string list) list \<Rightarrow> store_error + unit" where
  "trusted_directories W root seen [] = Inr ()"
| "trusted_directories W root seen ((current, dirs, files) # rest) =
     (let seen' = seen + int (length dirs) + int (length files) in
      check (seen' \<le> max_runtime_entries) ValueError (
      bindR (trusted_entries W root (map (\<lambda>n. path_join current [n]) (dirs @ files))) (\<lambda>_.
        trusted_directories W root seen' rest)))"

definition validate_trusted_runtime_tree :: "world \<Rightarrow> string \<Rightarrow> store_error + unit" where
  "validate_trusted_runtime_tree W p =
     bindR (canonical_existing_directory W p) (\<lambda>root.
     bindR (stat_of W root) (\<lambda>details.
     check (st_uid details = 0 \<and> \<not> others_write details) ValueError (
       trusted_directories W root 0 (walk W root))))"

definition python_runtime_root :: "world \<Rightarrow> string \<Rightarrow> store_error + string" where
  "python_runtime_root W p =
     bindR (canonical_existing_path W p) (\<lambda>resolved.
     case framework_version_root resolved of
       Some root \<Rightarrow> bindR (validate_trusted_runtime_tree W root) (\<lambda>_. Inr root)
     | None \<Rightarrow>
         let parent = path_parent resolved in
         check (path_name parent = ''bin'' \<and> path_parent parent \<noteq> ''/usr'') ValueError (
         bindR (validate_trusted_runtime_tree W (path_parent parent)) (\<lambda>_.
           Inr (path_parent parent))))"

text \<open>
  \<open>python_runtime_sha256\<close>: the fields it feeds to the digest, each preceded by its length in
  eight bytes, the contents of files without one.
\<close>

fun big_endian :: "nat \<Rightarrow> nat \<Rightarrow> string" where
  "big_endian 0 n = []"
| "big_endian (Suc k) n = big_endian k (n div 256) @ [char_of (n mod 256)]"

definition add_field :: "string \<Rightarrow> string" where
  "add_field v = big_endian 8 (length v) @ v"

fun decimal_digits :: "nat \<Rightarrow> nat \<Rightarrow> string" where
  "decimal_digits 0 n = []"
| "decimal_digits (Suc k) n =
     (if n < 10 then [char_of (48 + n)]
      else decimal_digits k (n div 10) @ [char_of (48 + n mod 10)])"

definition str_int :: "int \<Rightarrow> string" where
  "str_int n = (if n < 0 then CHR ''-'' # decimal_digits (nat (- n) + 1) (nat (- n))
                else decimal_digits (nat n + 1) (nat n))"

definition relative_text :: "string \<Rightarrow> string \<Rightarrow> string" where
  "relative_text root p =
     (let parts = drop (length (path_parts root)) (path_parts p)
      in if parts = [] then ''.'' else tl (path_of parts))"

definition runtime_entry ::
    "world \<Rightarrow> string \<Rightarrow> string \<Rightarrow> int \<times> int \<times> string \<Rightarrow> store_error + int \<times> int \<times> string" where
  "runtime_entry W root p acc =
     (case acc of (entries, used, fed) \<Rightarrow>
      bindR (stat_of W p) (\<lambda>details.
      check (entries + 1 \<le> max_runtime_entries) ValueError (
      let head = fed @ add_field (utf8_bytes (relative_text root p)) @ add_field (str_int (permissions details)) in
      case st_kind details of
        SymbolicLink \<Rightarrow> Inr (entries + 1, used, head @ add_field ''symlink''
            @ add_field (utf8_bytes (link_target W p)))
      | Directory \<Rightarrow> Inr (entries + 1, used, head @ add_field ''directory'')
      | _ \<Rightarrow>
          check (used + st_size details \<le> max_runtime_bytes) ValueError
            (Inr (entries + 1, used + st_size details,
                  head @ add_field ''file'' @ add_field (str_int (st_size details)) @ content W p)))))"

definition python_runtime_sha256 :: "world \<Rightarrow> string \<Rightarrow> store_error + string" where
  "python_runtime_sha256 W p =
     bindR (canonical_existing_directory W p) (\<lambda>root.
     bindR (validate_trusted_runtime_tree W root) (\<lambda>_.
     bindR (stat_of W root) (\<lambda>details.
     bindR (foldR (runtime_entry W root)
              (concat (map (\<lambda>(current, dirs, files).
                 map (\<lambda>n. path_join current [n]) (sort dirs @ sort files)) (walk W root)))
              (0, 0, add_field ''.'' @ add_field (str_int (permissions details)))) (\<lambda>(_, _, fed).
       Inr (sha256 W fed)))))"

definition sandbox_executable :: "world \<Rightarrow> store_error + string" where
  "sandbox_executable W =
     check (darwin W) ValueError (
     bindR (canonical_existing_path W ''/usr/bin/sandbox-exec'') (\<lambda>resolved.
     bindR (stat_of W resolved) (\<lambda>details.
     check (st_kind details = RegularFile \<and> st_uid details = 0 \<and> \<not> others_write details
            \<and> can_execute W resolved) ValueError (Inr resolved))))"

section \<open>The profile\<close>

text \<open>\<open>_quote\<close>: every backslash and every double quote is escaped.\<close>

fun escaped :: "string \<Rightarrow> string" where
  "escaped [] = []"
| "escaped (c # cs) =
     (if c = CHR 0x5C \<or> c = CHR 0x22 then [CHR 0x5C, c] else [c]) @ escaped cs"

definition quote :: "string \<Rightarrow> store_error + string" where
  "quote v = check (CHR 0x00 \<notin> set v) ValueError (Inr (CHR 0x22 # escaped v @ [CHR 0x22]))"

fun quote_lines :: "string \<Rightarrow> string list \<Rightarrow> store_error + string list" where
  "quote_lines word [] = Inr []"
| "quote_lines word (p # ps) =
     bindR (quote p) (\<lambda>q. bindR (quote_lines word ps) (\<lambda>rest.
       Inr ((''  ('' @ word @ '' '' @ q @ '')'') # rest)))"

text \<open>\<open>lines[-1] += ")"\<close>\<close>

definition close_last :: "string list \<Rightarrow> string list" where
  "close_last ls = butlast ls @ [last ls @ '')'']"

definition system_read_subpaths :: "string list" where
  "system_read_subpaths = [''/System'', ''/usr/lib'']"

definition device_read_literals :: "string list" where
  "device_read_literals = [''/dev/null'', ''/dev/random'', ''/dev/urandom'']"

definition sorted_set :: "string list \<Rightarrow> string list" where
  "sorted_set xs = sort (remdups xs)"

definition scratch_roots :: "string \<Rightarrow> string list" where
  "scratch_roots run_root =
     [path_join run_root [''environment'', ''home''], path_join run_root [''environment'', ''tmp'']]"

definition read_literals :: "string \<Rightarrow> string \<Rightarrow> string \<Rightarrow> string \<Rightarrow> string list" where
  "read_literals executable runtime worktree run_root =
     sorted_set (concat (map (\<lambda>p. p # path_parents p)
       ([executable, runtime, worktree, run_root] @ system_read_subpaths @ device_read_literals
        @ scratch_roots run_root)))"

definition private_ancestors :: "string \<Rightarrow> string \<Rightarrow> string list" where
  "private_ancestors worktree run_root =
     sorted_set (filter (\<lambda>p. p \<noteq> ''/'') (path_parents worktree @ path_parents run_root))"

definition write_lines :: "string \<Rightarrow> store_error + string list" where
  "write_lines run_root =
     bindR (quote ''/dev/null'') (\<lambda>null.
     bindR (quote_lines ''literal'' (sort (scratch_roots run_root))) (\<lambda>literals.
     bindR (quote_lines ''subpath'' (sort (scratch_roots run_root))) (\<lambda>subpaths.
       Inr (close_last (''(allow file-write*'' # (''  (literal '' @ null @ '')'')
         # concat (map (\<lambda>(l, s). [l, s]) (zip literals subpaths)))))))"

fun unlines :: "string list \<Rightarrow> string" where
  "unlines [] = []"
| "unlines (l # ls) = l @ CHR 0x0A # unlines ls"

definition profile_lines :: "string \<Rightarrow> string \<Rightarrow> string \<Rightarrow> string \<Rightarrow> store_error + string list" where
  "profile_lines executable runtime worktree run_root =
     (let ancestors = private_ancestors worktree run_root in
      bindR (quote executable) (\<lambda>exec.
      bindR (quote_lines ''literal'' ancestors) (\<lambda>denied.
      bindR (quote_lines ''literal'' (read_literals executable runtime worktree run_root)) (\<lambda>literals.
      bindR (quote_lines ''subpath''
               (sorted_set (system_read_subpaths @ [runtime, worktree, run_root]))) (\<lambda>subpaths.
      bindR (write_lines run_root) (\<lambda>writes.
        Inr ([''(version 1)'', ''(deny default)'', ''(allow process-exec'',
              ''  (literal '' @ exec @ ''))'']
             @ (if ancestors = [] then [] else close_last (''(deny file-read-data'' # denied))
             @ close_last (''(allow file-read*'' # literals @ subpaths)
             @ writes)))))))"

definition max_profile_bytes :: int where
  "max_profile_bytes = 32 * 1024"

definition build_profile ::
    "world \<Rightarrow> string \<Rightarrow> string \<Rightarrow> string \<Rightarrow> string \<Rightarrow> store_error + string" where
  "build_profile W test_executable runtime_read_root workspace run_parent =
     bindR (canonical_existing_path W test_executable) (\<lambda>executable.
     bindR (canonical_existing_directory W runtime_read_root) (\<lambda>runtime.
     bindR (canonical_existing_directory W workspace) (\<lambda>worktree.
     bindR (canonical_existing_directory W run_parent) (\<lambda>run_root.
     bindR (python_runtime_root W executable) (\<lambda>expected.
     check (runtime = expected) ValueError (
     check (\<not> paths_overlap runtime worktree \<and> \<not> paths_overlap runtime run_root) ValueError (
     bindR (profile_lines executable runtime worktree run_root) (\<lambda>ls.
     check (int (length (utf8_bytes (unlines ls))) \<le> max_profile_bytes) ValueError (Inr (unlines ls))))))))))"

definition build_command :: "world \<Rightarrow> string \<Rightarrow> string \<Rightarrow> string list \<Rightarrow> store_error + string list" where
  "build_command W sandbox profile test_command =
     bindR (canonical_existing_path W sandbox) (\<lambda>sandbox_path.
     check (test_command \<noteq> [] \<and> list_all (\<lambda>a. a \<noteq> [] \<and> CHR 0x00 \<notin> set a) test_command)
       ValueError (
     bindR (require (resolve_strict W (hd test_command)) OSError) (\<lambda>direct.
     check (hd test_command = direct) ValueError
       (Inr ([sandbox_path, ''-p'', profile] @ test_command)))))"

definition profile_sha256 :: "world \<Rightarrow> string \<Rightarrow> string" where
  "profile_sha256 W profile = sha256 W (utf8_bytes profile)"

section \<open>Quoting\<close>

text \<open>A reader of Seatbelt string literals: the string, and what follows the closing quote.\<close>

fun read_literal :: "string \<Rightarrow> string \<Rightarrow> (string \<times> string) option" where
  "read_literal acc [] = None"
| "read_literal acc [c] = (if c = CHR 0x22 then Some (rev acc, []) else None)"
| "read_literal acc (c # d # cs) =
     (if c = CHR 0x22 then Some (rev acc, d # cs)
      else if c = CHR 0x5C then read_literal (d # acc) cs
      else read_literal (c # acc) (d # cs))"

lemma read_escaped: "read_literal acc (escaped v @ CHR 0x22 # rest) = Some (rev acc @ v, rest)"
proof (induction v arbitrary: acc)
  case Nil
  then show ?case by (cases rest) simp_all
next
  case (Cons c v)
  obtain d ds where ds: "escaped v @ CHR 0x22 # rest = d # ds"
    by (cases "escaped v @ CHR 0x22 # rest") auto
  show ?case
  proof (cases "c = CHR 0x5C \<or> c = CHR 0x22")
    case True
    then have "read_literal acc (escaped (c # v) @ CHR 0x22 # rest)
        = read_literal (c # acc) (escaped v @ CHR 0x22 # rest)"
      by auto
    with Cons.IH show ?thesis by simp
  next
    case False
    then have "read_literal acc (escaped (c # v) @ CHR 0x22 # rest)
        = read_literal (c # acc) (escaped v @ CHR 0x22 # rest)"
      by (simp add: ds)
    with Cons.IH show ?thesis by simp
  qed
qed

text \<open>
  C37.  A path cannot break out of its literal.  Whatever characters a path holds, reading the
  quoted string back yields exactly that path, and what follows the literal in the profile is
  exactly what was written after it.
\<close>

theorem quote_round_trip:
  assumes "quote v = Inr q"
  shows "\<exists>body. q = CHR 0x22 # body \<and> read_literal [] (body @ rest) = Some (v, rest)"
  using assms read_escaped [of "[]" v rest] by (auto simp: quote_def)

lemma quote_round_trip_witness:
  "\<exists>q body. quote (CHR ''a'' # CHR 0x22 # ''(allow default)'') = Inr q \<and> q = CHR 0x22 # body
     \<and> read_literal [] (body @ ''))'') = Some (CHR ''a'' # CHR 0x22 # ''(allow default)'', ''))'')"
proof -
  have "\<exists>q. quote (CHR ''a'' # CHR 0x22 # ''(allow default)'') = Inr q"
    by (simp add: quote_def)
  then show ?thesis using quote_round_trip by blast
qed

section \<open>The trusted runtime\<close>

definition tree_entries :: "(string \<times> string list \<times> string list) list \<Rightarrow> string list" where
  "tree_entries tree =
     concat (map (\<lambda>(current, dirs, files). map (\<lambda>n. path_join current [n]) (dirs @ files)) tree)"

lemma trusted_entries_all:
  "trusted_entries W root ps = Inr u \<Longrightarrow> p \<in> set ps \<Longrightarrow> trusted_entry W root p = Inr ()"
  by (induction ps) auto

lemma trusted_entryD:
  assumes "trusted_entry W root e = Inr ()"
  shows "\<exists>s. lstat W e = Some s \<and> st_uid s = 0 \<and> \<not> others_write s \<and> st_kind s \<noteq> OtherFile
    \<and> (st_kind s = SymbolicLink \<longrightarrow> (\<exists>q. resolve_strict W e = Some q \<and> relative_to q root))"
proof -
  from assms obtain s where s: "lstat W e = Some s" "st_uid s = 0" "\<not> others_write s"
    by (auto simp: trusted_entry_def stat_of_def)
  with assms show ?thesis
    by (cases "st_kind s") (auto simp: trusted_entry_def stat_of_def split: option.splits)
qed

lemma trusted_directories_all:
  assumes "trusted_directories W root seen tree = Inr u" "seen \<le> max_runtime_entries"
  shows "(\<forall>p \<in> set (tree_entries tree). trusted_entry W root p = Inr ())
    \<and> seen + int (length (tree_entries tree)) \<le> max_runtime_entries"
  using assms
proof (induction W root seen tree rule: trusted_directories.induct)
  case (2 W root seen current dirs files rest)
  let ?ps = "map (\<lambda>n. path_join current [n]) (dirs @ files)"
  from 2 have here: "trusted_entries W root ?ps = Inr ()"
    and rest: "(\<forall>p \<in> set (tree_entries rest). trusted_entry W root p = Inr ())
      \<and> seen + int (length dirs) + int (length files) + int (length (tree_entries rest)) \<le> max_runtime_entries"
    by (auto simp: Let_def)
  from trusted_entries_all [OF here] rest show ?case by (auto simp: tree_entries_def)
qed (simp add: tree_entries_def)

text \<open>
  C36.  The trusted runtime is root-owned and immutable.  Whenever \<open>python_runtime_root\<close> accepts
  an interpreter, the root it returns is a real directory that root owns and that neither its
  group nor others may write, below which lie at most 25000 entries; every one of them is owned
  by root, writable neither by its group nor by others, a directory, a regular file or a
  symbolic link, and no link leads out of the tree.
\<close>

theorem runtime_tree_is_trusted:
  assumes "python_runtime_root W p = Inr root"
  shows "\<exists>tree. resolve_strict W (expanduser W root) = Some tree
    \<and> (\<exists>top. lstat W tree = Some top \<and> st_kind top = Directory \<and> st_uid top = 0 \<and> \<not> others_write top)
    \<and> int (length (tree_entries (walk W tree))) \<le> 25000
    \<and> (\<forall>e \<in> set (tree_entries (walk W tree)). \<exists>s. lstat W e = Some s \<and> st_uid s = 0
         \<and> \<not> others_write s \<and> st_kind s \<noteq> OtherFile
         \<and> (st_kind s = SymbolicLink \<longrightarrow> (\<exists>q. resolve_strict W e = Some q \<and> relative_to q tree)))"
proof -
  have "validate_trusted_runtime_tree W root = Inr ()"
    using assms by (auto simp: python_runtime_root_def Let_def split: option.splits)
  then obtain tree where tree: "resolve_strict W (expanduser W root) = Some tree"
    and top: "\<exists>top. lstat W tree = Some top \<and> st_kind top = Directory \<and> st_uid top = 0 \<and> \<not> others_write top"
    and dirs: "trusted_directories W tree 0 (walk W tree) = Inr ()"
    by (auto simp: stat_of_def validate_trusted_runtime_tree_def canonical_existing_directory_def
        canonical_existing_path_def Let_def)
  from trusted_directories_all [OF dirs] have all:
      "\<forall>e \<in> set (tree_entries (walk W tree)). trusted_entry W tree e = Inr ()"
    and few: "int (length (tree_entries (walk W tree))) \<le> 25000"
    by (simp_all add: max_runtime_entries_def)
  have "\<exists>s. lstat W e = Some s \<and> st_uid s = 0 \<and> \<not> others_write s \<and> st_kind s \<noteq> OtherFile
         \<and> (st_kind s = SymbolicLink \<longrightarrow> (\<exists>q. resolve_strict W e = Some q \<and> relative_to q tree))"
    if "e \<in> set (tree_entries (walk W tree))" for e
    by (rule trusted_entryD) (use all that in blast)
  with tree top few show ?thesis by blast
qed

definition runtime_world :: world where
  "runtime_world =
     \<lparr>digest = (\<lambda>_. []), dump = (\<lambda>_. []), expanduser = (\<lambda>p. p), resolve = (\<lambda>p. p), is_file = (\<lambda>_. True),
      directory = (\<lambda>_. None), str_of = (\<lambda>_. []), sha256 = (\<lambda>b. b), loads = (\<lambda>_. None), darwin = True,
      own_uid = 501,
      lstat = (\<lambda>p. Some \<lparr>st_kind = if path_name p = ''python3'' then RegularFile else Directory,
         st_dev = 1, st_ino = 1, st_uid = 0, st_mode = 493, st_nlink = 1, st_size = 4\<rparr>),
      resolve_strict = Some, can_execute = (\<lambda>_. True), content = (\<lambda>_. ''ELF''),
      link_target = (\<lambda>_. []),
      walk = (\<lambda>_. [(''/opt/py'', [''bin''], []), (''/opt/py/bin'', [], [''python3''])])\<rparr>"

lemma runtime_tree_is_trusted_witness:
  "python_runtime_root runtime_world ''/opt/py/bin/python3'' = Inr ''/opt/py''
   \<and> (\<exists>tree top. resolve_strict runtime_world ''/opt/py'' = Some tree
        \<and> lstat runtime_world tree = Some top \<and> st_uid top = 0
        \<and> int (length (tree_entries (walk runtime_world tree))) \<le> 25000)"
proof -
  have root: "python_runtime_root runtime_world ''/opt/py/bin/python3'' = Inr ''/opt/py''"
    and same: "expanduser runtime_world ''/opt/py'' = ''/opt/py''"
    by code_simp+
  from runtime_tree_is_trusted [OF root] root show ?thesis unfolding same by blast
qed

end
