(* ===== verification/Collectors.thy ===== *)
theory Collectors
  imports Fences Sandbox
begin

text \<open>
  Browser and database evidence in \<^verbatim>\<open>storage.py\<close>: the immutable plans a supervisor writes,
  their validation on every read, the binding of a collector to a live tester attempt, the
  verification of an artifact, and the operations that would prepare and complete executions.

  Timeouts are integers of seconds.
\<close>

section \<open>Routes and private directories\<close>

definition private_prefix :: string where
  "private_prefix = ''/private/tmp/agent-flow-''"

definition private_to_me :: "world \<Rightarrow> file_stat \<Rightarrow> bool" where
  "private_to_me W s \<longleftrightarrow> st_uid s = own_uid W \<and> \<not> others_access s"

definition private_collector_root :: "world \<Rightarrow> string \<Rightarrow> store_error + string" where
  "private_collector_root W text =
     check (collector_text False text) ValueError (
     let supplied = expanduser W text in
     check (is_absolute supplied) ValueError (
     check (supplied = resolve W supplied) ValueError (
     check (starts_with private_prefix supplied) ValueError (
     bindR (require (lstat W supplied) ValueError) (\<lambda>details.
     check (st_kind details = Directory \<and> private_to_me W details) ValueError (Inr supplied))))))"

text \<open>
  \<open>urlsplit\<close> of a text without control characters: its path when the scheme is \<^verbatim>\<open>file\<close>, the
  network location empty or \<^verbatim>\<open>localhost\<close>, and there is no query or fragment (an empty one is
  none).
\<close>

definition text_before :: "(char \<Rightarrow> bool) \<Rightarrow> string \<Rightarrow> string" where
  "text_before P s = takeWhile (\<lambda>c. \<not> P c) s"

definition text_after :: "(char \<Rightarrow> bool) \<Rightarrow> string \<Rightarrow> string" where
  "text_after P s = drop 1 (dropWhile (\<lambda>c. \<not> P c) s)"

definition split_location :: "string \<Rightarrow> string \<times> string" where
  "split_location rest =
     (if starts_with ''//'' rest
      then (text_before (\<lambda>c. c \<in> set ''/?#'') (drop 2 rest), dropWhile (\<lambda>c. c \<notin> set ''/?#'') (drop 2 rest))
      else ([], rest))"

definition file_route_path :: "string \<Rightarrow> string option" where
  "file_route_path route =
     (if py_lower (take 5 route) \<noteq> ''file:'' then None
      else case split_location (drop 5 route) of (netloc, rest) \<Rightarrow>
        let no_fragment = text_before (\<lambda>c. c = CHR ''#'') rest in
        if netloc \<in> {[], ''localhost''} \<and> text_after (\<lambda>c. c = CHR ''#'') rest = []
           \<and> text_after (\<lambda>c. c = CHR ''?'') no_fragment = []
        then Some (text_before (\<lambda>c. c = CHR ''?'') no_fragment) else None)"

definition hex_value :: "char \<Rightarrow> nat option" where
  "hex_value c =
     (if is_digit c then Some (code c - 48)
      else if c \<in> set ''abcdef'' then Some (code c - 87)
      else if c \<in> set ''ABCDEF'' then Some (code c - 55) else None)"

text \<open>\<open>unquote\<close>, on the bytes of the text.\<close>

fun unquote :: "string \<Rightarrow> string" where
  "unquote (p # a # b # cs) =
     (case (p = CHR ''%'', hex_value a, hex_value b) of
        (True, Some m, Some n) \<Rightarrow> char_of (16 * m + n) # unquote cs
      | _ \<Rightarrow> p # unquote (a # b # cs))"
| "unquote cs = cs"

text \<open>\<open>Path(unquote(urlsplit(route).path))\<close> of a route that was accepted.\<close>

definition route_path :: "string \<Rightarrow> string" where
  "route_path route =
     (let p = unquote (case file_route_path route of None \<Rightarrow> [] | Some p \<Rightarrow> p) in
      if is_absolute p then path_of (filter (\<lambda>s. s \<noteq> ''.'') (path_parts p)) else p)"

definition exact_disposable_file_route :: "world \<Rightarrow> string \<Rightarrow> store_error + string" where
  "exact_disposable_file_route W route =
     check (collector_text False route) ValueError (
     check (file_route_path route \<noteq> None) ValueError (
     check (starts_with private_prefix (resolve W (route_path route))) ValueError (Inr route)))"

text \<open>\<^verbatim>\<open>[A-Za-z_][A-Za-z0-9_]{0,127}\<close>, whole text.\<close>

definition safe_identifier :: "string \<Rightarrow> bool" where
  "safe_identifier s \<longleftrightarrow>
     (case s of [] \<Rightarrow> False
      | c # cs \<Rightarrow> (is_alpha c \<or> c = CHR ''_'') \<and> length cs \<le> 127
          \<and> list_all (\<lambda>d. is_alnum d \<or> d = CHR ''_'') cs)"

section \<open>What a plan is bound to\<close>

definition exact_collector_id :: "string \<Rightarrow> store_error + unit" where
  "exact_collector_id i = check (opaque_id i) ValueError (Inr ())"

definition simulation_allowed :: "campaign_row \<Rightarrow> bool" where
  "simulation_allowed c \<longleftrightarrow> is_true (jget ''allow_simulated_evidence'' (cp_config c))"

definition item_and_campaign :: "string \<Rightarrow> store \<Rightarrow> (item_row \<times> campaign_row) option" where
  "item_and_campaign i st =
     Option.bind (find_item i st) (\<lambda>item.
       map_option (\<lambda>c. (item, c)) (find_campaign (it_campaign_id item) st))"

definition collector_plan_binding ::
    "world \<Rightarrow> string \<Rightarrow> string \<Rightarrow> ResourceKind \<Rightarrow> GateKind \<Rightarrow> bool \<Rightarrow> store
     \<Rightarrow> store_error + (item_row \<times> definition_row)" where
  "collector_plan_binding W item_id resource_id kind gate require_ready st =
     bindR (exact_resource_definition_id resource_id) (\<lambda>_.
     bindR (require (item_and_campaign item_id st) NotFoundError) (\<lambda>(item, campaign).
     check (gate \<in> set (it_required_gates item)) TransitionConflict (
     check (\<not> (require_ready \<and> it_state item \<noteq> ReadyForTest)) TransitionConflict (
     check (\<not> simulation_allowed campaign) TransitionConflict (
     bindR (require (find_definition resource_id st) NotFoundError) (\<lambda>row.
     bindR (validated_resource_definition_row W row) (\<lambda>d.
     check (rd_enabled d) TransitionConflict (
     check (rd_kind d = kind) TransitionConflict (
     check (rd_campaign_id d = None \<or> rd_campaign_id d = Some (it_campaign_id item)) TransitionConflict
       (Inr (item, d)))))))))))"

text \<open>\<open>except (KeyError, OSError, TypeError, ValueError)\<close>.\<close>

definition invalid_plan :: "store_error + 'a \<Rightarrow> store_error + 'a" where
  "invalid_plan m =
     (case m of Inl e \<Rightarrow> Inl (if e \<in> {OSError, TypeError, ValueError} then StorageError else e)
      | Inr x \<Rightarrow> Inr x)"

section \<open>Browser plans\<close>

definition output_json :: "output_identity \<Rightarrow> json" where
  "output_json o' = JObj
     [(''device'', JNum (oi_device o')), (''inode'', JNum (oi_inode o')),
      (''owner_uid'', JNum (oi_owner_uid o')), (''mode'', JNum (oi_mode o')),
      (''nlink'', JNum (oi_nlink o')), (''bytes'', JNum (oi_bytes o')),
      (''sha256'', JStr (oi_sha256 o'))]"

text \<open>The identity of a regular file, its bytes hashed; \<open>_hash_file\<close> opens without following links.\<close>

definition output_of :: "world \<Rightarrow> string \<Rightarrow> file_stat \<Rightarrow> output_identity" where
  "output_of W p s =
     \<lparr>oi_device = st_dev s, oi_inode = st_ino s, oi_owner_uid = st_uid s, oi_mode = st_mode s,
      oi_nlink = st_nlink s, oi_bytes = st_size s, oi_sha256 = sha256 W (content W p)\<rparr>"

definition browser_plan_payload ::
    "string \<Rightarrow> string \<Rightarrow> string \<Rightarrow> string \<Rightarrow> output_identity \<Rightarrow> string \<Rightarrow> string \<Rightarrow> string \<Rightarrow> int \<Rightarrow> json" where
  "browser_plan_payload item resource identity_hash route route_identity title body runtime timeout = JObj
     [(''work_item_id'', JStr item), (''resource_definition_id'', JStr resource),
      (''resource_identity_hash'', JStr identity_hash), (''route'', JStr route),
      (''route_identity'', output_json route_identity), (''expected_title'', JStr title),
      (''expected_body_text'', JStr body), (''runtime_root'', JStr runtime),
      (''timeout_seconds'', JNum timeout)]"

definition validated_browser_plan_row ::
    "world \<Rightarrow> browser_plan_row \<Rightarrow> store \<Rightarrow> store_error + browser_plan_row" where
  "validated_browser_plan_row W r st =
     invalid_plan (
     bindR (exact_disposable_file_route W (bp_route r)) (\<lambda>route.
     check (collector_text False (bp_expected_title r)) ValueError (
     check (collector_text True (bp_expected_body_text r)) ValueError (
     bindR (private_collector_root W (bp_runtime_root r)) (\<lambda>runtime.
     check (0 < bp_timeout_seconds r \<and> bp_timeout_seconds r \<le> 120) ValueError (
     bindR (collector_plan_binding W (bp_item_id r) (bp_resource_definition_id r) ChromeProfile
              BrowserGate False st) (\<lambda>(item, d).
     check (rd_identity_hash d = bp_resource_identity_hash r) ValueError (
     bindR (require (lstat W (route_path route)) OSError) (\<lambda>details.
     let observed = output_of W (route_path route) details;
         persisted = bp_route_identity r
     in
     check (observed\<lparr>oi_sha256 := oi_sha256 persisted\<rparr> = persisted) ValueError (
     check (sha256_text (oi_sha256 persisted) \<and> oi_sha256 observed = oi_sha256 persisted) ValueError (
     check (sha256_text (bp_plan_sha256 r)
            \<and> digest W (browser_plan_payload (bp_item_id r) (bp_resource_definition_id r)
                 (bp_resource_identity_hash r) route observed (bp_expected_title r)
                 (bp_expected_body_text r) runtime (bp_timeout_seconds r)) = bp_plan_sha256 r) ValueError
       (Inr r))))))))))))"

definition next_number :: "('r \<Rightarrow> int) \<Rightarrow> 'r list \<Rightarrow> int" where
  "next_number number t = fold max (map number t) 0 + 1"

definition create_browser_evidence_plan ::
    "world \<Rightarrow> string \<Rightarrow> string \<Rightarrow> string \<Rightarrow> string \<Rightarrow> string \<Rightarrow> string \<Rightarrow> int \<Rightarrow> string \<Rightarrow> time
     \<Rightarrow> store \<Rightarrow> store_error + (store \<times> browser_plan_row)" where
  "create_browser_evidence_plan W item_id resource_id route title body runtime_root timeout fresh now st =
     bindR (exact_disposable_file_route W route) (\<lambda>_.
     check (collector_text False title) ValueError (
     check (collector_text True body) ValueError (
     bindR (private_collector_root W runtime_root) (\<lambda>runtime.
     check (0 < timeout \<and> timeout \<le> 120) ValueError (
     bindR (collector_plan_binding W item_id resource_id ChromeProfile BrowserGate True st) (\<lambda>(item, d).
     check (case rd_configuration d of ChromeConfig folder _ \<Rightarrow>
              starts_with private_prefix (resolve W folder) | _ \<Rightarrow> False) TransitionConflict (
     bindR (require (lstat W (route_path route)) ValueError) (\<lambda>details.
     check (st_kind details = RegularFile \<and> private_to_me W details \<and> st_nlink details = 1
            \<and> 0 < st_size details \<and> st_size details \<le> 1024 * 1024) ValueError (
     let identity = output_of W (route_path route) details;
         plan_hash = digest W (browser_plan_payload item_id resource_id (rd_identity_hash d) route
           identity title body runtime timeout)
     in
     (case find (\<lambda>p. bp_item_id p = item_id \<and> bp_plan_sha256 p = plan_hash) (browser_plans st) of
        Some existing \<Rightarrow> bindR (validated_browser_plan_row W existing st) (\<lambda>p. Inr (st, p))
      | None \<Rightarrow>
          let number = next_number bp_plan_number (filter (\<lambda>p. bp_item_id p = item_id) (browser_plans st));
              row = \<lparr>bp_id = fresh, bp_item_id = item_id, bp_plan_number = number,
                     bp_resource_definition_id = resource_id,
                     bp_resource_identity_hash = rd_identity_hash d, bp_route = route,
                     bp_route_identity = identity, bp_expected_title = title,
                     bp_expected_body_text = body, bp_runtime_root = runtime,
                     bp_timeout_seconds = timeout, bp_plan_sha256 = plan_hash, bp_created_at = now\<rparr>
          in
          bindR (insert_browser_plan row st) (\<lambda>st1.
            Inr (append_event ''browser_evidence.plan_created'' (Some (it_campaign_id item))
                   (Some item_id) None None
                   [(''plan_id'', JStr fresh), (''plan_number'', JNum number),
                    (''resource_id'', JStr resource_id),
                    (''resource_identity_hash'', JStr (rd_identity_hash d)), (''route'', JStr route),
                    (''plan_sha256'', JStr plan_hash)] now st1, row))))))))))))"

definition get_browser_evidence_plan ::
    "world \<Rightarrow> string \<Rightarrow> store \<Rightarrow> store_error + browser_plan_row" where
  "get_browser_evidence_plan W i st =
     bindR (exact_collector_id i) (\<lambda>_.
     bindR (require (find (\<lambda>p. bp_id p = i) (browser_plans st)) NotFoundError) (\<lambda>r.
       validated_browser_plan_row W r st))"

fun validated_rows :: "('r \<Rightarrow> store_error + 'r) \<Rightarrow> 'r list \<Rightarrow> store_error + 'r list" where
  "validated_rows f [] = Inr []"
| "validated_rows f (r # rs) = bindR (f r) (\<lambda>x. bindR (validated_rows f rs) (\<lambda>xs. Inr (x # xs)))"

definition chosen :: "string option \<Rightarrow> string \<Rightarrow> bool" where
  "chosen wanted v \<longleftrightarrow> (case wanted of None \<Rightarrow> True | Some w \<Rightarrow> v = w)"

definition list_browser_evidence_plans ::
    "world \<Rightarrow> string option \<Rightarrow> store \<Rightarrow> store_error + browser_plan_row list" where
  "list_browser_evidence_plans W item st =
     validated_rows (\<lambda>r. validated_browser_plan_row W r st)
       (order_by (\<lambda>p. (bp_item_id p, bp_plan_number p))
          (filter (\<lambda>p. chosen item (bp_item_id p)) (browser_plans st)))"

section \<open>Database plans\<close>

definition query_json :: "string \<Rightarrow> json list \<Rightarrow> json" where
  "query_json sql parameters = JObj [(''statement'', JStr sql), (''parameters'', JArr parameters)]"

definition database_plan_payload ::
    "string \<Rightarrow> string \<Rightarrow> string \<Rightarrow> string \<Rightarrow> string \<Rightarrow> json list \<Rightarrow> int option \<Rightarrow> int \<Rightarrow> int \<Rightarrow> int \<Rightarrow> string
     \<Rightarrow> json" where
  "database_plan_payload item resource identity_hash query_hash id_column expected_ids row_count
     max_rows max_bytes timeout runtime = JObj
     [(''work_item_id'', JStr item), (''resource_definition_id'', JStr resource),
      (''resource_identity_hash'', JStr identity_hash), (''query_sha256'', JStr query_hash),
      (''id_column'', JStr id_column), (''expected_ids'', JArr expected_ids),
      (''expected_row_count'', opt_num row_count), (''max_rows'', JNum max_rows),
      (''max_bytes'', JNum max_bytes), (''timeout_seconds'', JNum timeout),
      (''runtime_root'', JStr runtime)]"

definition database_bounds :: "int option \<Rightarrow> int \<Rightarrow> int \<Rightarrow> bool" where
  "database_bounds row_count max_rows max_bytes \<longleftrightarrow>
     1 \<le> max_rows \<and> max_rows \<le> 1000 \<and> 1024 \<le> max_bytes \<and> max_bytes \<le> 16 * 1024 * 1024
     \<and> (case row_count of None \<Rightarrow> True | Some n \<Rightarrow> 0 \<le> n \<and> n \<le> max_rows)"

definition validated_database_plan_row ::
    "world \<Rightarrow> database_plan_row \<Rightarrow> store \<Rightarrow> store_error + database_plan_row" where
  "validated_database_plan_row W r st =
     invalid_plan (
     check (read_only_statement (dp_statement r)) ValueError (
     check (bounded_query_parameters (dp_parameters r)) ValueError (
     check (collector_text False (dp_id_column r) \<and> safe_identifier (dp_id_column r)) ValueError (
     check (bounded_expected_ids (dp_expected_ids r)) ValueError (
     check (database_bounds (dp_expected_row_count r) (dp_max_rows r) (dp_max_bytes r)) ValueError (
     check (0 < dp_timeout_seconds r \<and> dp_timeout_seconds r \<le> 60) ValueError (
     check (int (length (dp_expected_ids r)) \<le> dp_max_rows r) ValueError (
     bindR (private_collector_root W (dp_runtime_root r)) (\<lambda>runtime.
     bindR (collector_plan_binding W (dp_item_id r) (dp_resource_definition_id r) TenantDatabase
              DatabaseGate False st) (\<lambda>(item, d).
     check (rd_identity_hash d = dp_resource_identity_hash r) ValueError (
     let query_hash = digest W (query_json (dp_statement r) (dp_parameters r)) in
     check (sha256_text (dp_query_sha256 r) \<and> query_hash = dp_query_sha256 r) ValueError (
     check (sha256_text (dp_plan_sha256 r)
            \<and> digest W (database_plan_payload (dp_item_id r) (dp_resource_definition_id r)
                 (dp_resource_identity_hash r) query_hash (dp_id_column r) (dp_expected_ids r)
                 (dp_expected_row_count r) (dp_max_rows r) (dp_max_bytes r) (dp_timeout_seconds r)
                 runtime) = dp_plan_sha256 r) ValueError
       (Inr r)))))))))))))"

record database_plan_request =
  dq_statement :: string
  dq_parameters :: "json list"
  dq_id_column :: string
  dq_expected_ids :: "json list"
  dq_expected_row_count :: "int option"
  dq_max_rows :: int
  dq_max_bytes :: int
  dq_timeout_seconds :: int
  dq_runtime_root :: string

definition create_database_query_plan ::
    "world \<Rightarrow> string \<Rightarrow> string \<Rightarrow> database_plan_request \<Rightarrow> string \<Rightarrow> time
     \<Rightarrow> store \<Rightarrow> store_error + (store \<times> database_plan_row)" where
  "create_database_query_plan W item_id resource_id q fresh now st =
     check (read_only_statement (dq_statement q)) ValueError (
     check (bounded_query_parameters (dq_parameters q)) ValueError (
     check (collector_text False (dq_id_column q) \<and> safe_identifier (dq_id_column q)) ValueError (
     check (bounded_expected_ids (dq_expected_ids q)) ValueError (
     check (database_bounds (dq_expected_row_count q) (dq_max_rows q) (dq_max_bytes q)) ValueError (
     check (int (length (dq_expected_ids q)) \<le> dq_max_rows q) ValueError (
     check (0 < dq_timeout_seconds q \<and> dq_timeout_seconds q \<le> 60) ValueError (
     bindR (private_collector_root W (dq_runtime_root q)) (\<lambda>runtime.
     let query_hash = digest W (query_json (dq_statement q) (dq_parameters q)) in
     bindR (collector_plan_binding W item_id resource_id TenantDatabase DatabaseGate True st) (\<lambda>(item, d).
     let plan_hash = digest W (database_plan_payload item_id resource_id (rd_identity_hash d) query_hash
           (dq_id_column q) (dq_expected_ids q) (dq_expected_row_count q) (dq_max_rows q)
           (dq_max_bytes q) (dq_timeout_seconds q) runtime)
     in
     (case find (\<lambda>p. dp_item_id p = item_id \<and> dp_plan_sha256 p = plan_hash) (database_plans st) of
        Some existing \<Rightarrow> bindR (validated_database_plan_row W existing st) (\<lambda>p. Inr (st, p))
      | None \<Rightarrow>
          let number = next_number dp_plan_number (filter (\<lambda>p. dp_item_id p = item_id) (database_plans st));
              row = \<lparr>dp_id = fresh, dp_item_id = item_id, dp_plan_number = number,
                     dp_resource_definition_id = resource_id,
                     dp_resource_identity_hash = rd_identity_hash d, dp_statement = dq_statement q,
                     dp_parameters = dq_parameters q, dp_query_sha256 = query_hash,
                     dp_id_column = dq_id_column q, dp_expected_ids = dq_expected_ids q,
                     dp_expected_row_count = dq_expected_row_count q, dp_max_rows = dq_max_rows q,
                     dp_max_bytes = dq_max_bytes q, dp_timeout_seconds = dq_timeout_seconds q,
                     dp_runtime_root = runtime, dp_plan_sha256 = plan_hash, dp_created_at = now\<rparr>
          in
          bindR (insert_database_plan row st) (\<lambda>st1.
            Inr (append_event ''database_evidence.plan_created'' (Some (it_campaign_id item))
                   (Some item_id) None None
                   [(''plan_id'', JStr fresh), (''plan_number'', JNum number),
                    (''resource_id'', JStr resource_id),
                    (''resource_identity_hash'', JStr (rd_identity_hash d)),
                    (''query_sha256'', JStr query_hash), (''plan_sha256'', JStr plan_hash)] now st1,
                 row))))))))))))"

definition get_database_query_plan ::
    "world \<Rightarrow> string \<Rightarrow> store \<Rightarrow> store_error + database_plan_row" where
  "get_database_query_plan W i st =
     bindR (exact_collector_id i) (\<lambda>_.
     bindR (require (find (\<lambda>p. dp_id p = i) (database_plans st)) NotFoundError) (\<lambda>r.
       validated_database_plan_row W r st))"

definition list_database_query_plans ::
    "world \<Rightarrow> string option \<Rightarrow> store \<Rightarrow> store_error + database_plan_row list" where
  "list_database_query_plans W item st =
     validated_rows (\<lambda>r. validated_database_plan_row W r st)
       (order_by (\<lambda>p. (dp_item_id p, dp_plan_number p))
          (filter (\<lambda>p. chosen item (dp_item_id p)) (database_plans st)))"

section \<open>A collector of a live attempt\<close>

definition collector_live_binding ::
    "string \<Rightarrow> string \<Rightarrow> string \<Rightarrow> string \<Rightarrow> string \<Rightarrow> time \<Rightarrow> store
     \<Rightarrow> store_error + (job_row \<times> attempt_row)" where
  "collector_live_binding job_id worker token item_id resource_id now st =
     bindR (assert_live_lease job_id worker token now st) (\<lambda>job.
     check (jb_role job = Tester \<and> jb_item_id job = item_id \<and> jb_current_attempt_id job \<noteq> None)
       LeaseConflict (
     bindR (require (find_attempt (jb_current_attempt_id job) st) LeaseConflict) (\<lambda>attempt.
     check (at_status attempt = AttemptRunning) LeaseConflict (
     check (list_ex (\<lambda>l. ls_job_id l = Some job_id \<and> ls_owner l = worker \<and> ls_token l = token
              \<and> ls_key l = resource_id \<and> ls_definition_id l = Some resource_id) (leases st)) LeaseConflict
       (Inr (job, attempt))))))"

definition assert_stopped_collector_process :: "string \<Rightarrow> string \<Rightarrow> store \<Rightarrow> store_error + unit" where
  "assert_stopped_collector_process attempt provider st =
     check (list_ex (\<lambda>p. ep_attempt_id p = attempt \<and> ep_provider p = provider
                       \<and> ep_state p = ProcStopped) (processes st)
            \<and> \<not> list_ex (\<lambda>p. ep_attempt_id p = attempt \<and> ep_state p \<noteq> ProcStopped) (processes st))
       LeaseConflict (Inr ())"

text \<open>
  \<open>_collector_artifact\<close>.  The file is opened without following links, so a link or a missing
  file is a \<open>LeaseConflict\<close>.
\<close>

definition collector_artifact ::
    "world \<Rightarrow> string option \<Rightarrow> string \<Rightarrow> string option \<Rightarrow> int
     \<Rightarrow> store_error + (output_identity \<times> string)" where
  "collector_artifact W supplied expected claimed max_bytes =
     check (supplied = Some expected) LeaseConflict (
     check (case claimed of None \<Rightarrow> False | Some h \<Rightarrow> sha256_text h) ValueError (
     bindR (require (lstat W expected) LeaseConflict) (\<lambda>details.
     check (st_kind details = RegularFile \<and> private_to_me W details \<and> st_nlink details = 1
            \<and> 0 < st_size details \<and> st_size details \<le> max_bytes) LeaseConflict (
     check (int (length (content W expected)) = st_size details) LeaseConflict (
     check (claimed = Some (oi_sha256 (output_of W expected details))) LeaseConflict
       (Inr (output_of W expected details, content W expected)))))))"

text \<open>
  \<open>prepare_browser_evidence_execution\<close>, \<open>complete_browser_evidence_execution\<close> and their database
  counterparts call \<open>_assert_attempt_collector_admission\<close> without its plan argument: the call
  raises \<open>TypeError\<close>, so nothing after it runs.
\<close>

definition prepare_browser_evidence_execution ::
    "world \<Rightarrow> string \<Rightarrow> string \<Rightarrow> string \<Rightarrow> string \<Rightarrow> time \<Rightarrow> store
     \<Rightarrow> store_error + (store \<times> browser_execution_row)" where
  "prepare_browser_evidence_execution W plan_id job_id worker token now st =
     bindR (exact_collector_id plan_id) (\<lambda>_.
     bindR (require (find (\<lambda>p. bp_id p = plan_id) (browser_plans st)) NotFoundError) (\<lambda>row.
     bindR (validated_browser_plan_row W row st) (\<lambda>plan.
     bindR (collector_live_binding job_id worker token (bp_item_id plan)
              (bp_resource_definition_id plan) now st) (\<lambda>_.
       Inl TypeError))))"

definition prepare_database_query_execution ::
    "world \<Rightarrow> string \<Rightarrow> string \<Rightarrow> string \<Rightarrow> string \<Rightarrow> time \<Rightarrow> store
     \<Rightarrow> store_error + (store \<times> database_execution_row)" where
  "prepare_database_query_execution W plan_id job_id worker token now st =
     bindR (exact_collector_id plan_id) (\<lambda>_.
     bindR (require (find (\<lambda>p. dp_id p = plan_id) (database_plans st)) NotFoundError) (\<lambda>row.
     bindR (validated_database_plan_row W row st) (\<lambda>plan.
     bindR (collector_live_binding job_id worker token (dp_item_id plan)
              (dp_resource_definition_id plan) now st) (\<lambda>_.
       Inl TypeError))))"

text \<open>The part of a browser result that is read before the call; a missing text is rejected.\<close>

definition complete_browser_evidence_execution ::
    "world \<Rightarrow> string \<Rightarrow> string \<Rightarrow> string \<Rightarrow> string \<Rightarrow> string option \<Rightarrow> string option \<Rightarrow> string option
     \<Rightarrow> time \<Rightarrow> store \<Rightarrow> store_error + (store \<times> browser_execution_row)" where
  "complete_browser_evidence_execution W job_id worker token execution_id route title body now st =
     bindR (exact_collector_id execution_id) (\<lambda>_.
     bindR (require route ValueError) (\<lambda>r. bindR (exact_disposable_file_route W r) (\<lambda>_.
     check (case title of None \<Rightarrow> False | Some t \<Rightarrow> collector_text False t) ValueError (
     check (case body of None \<Rightarrow> False | Some t \<Rightarrow> collector_text True t) ValueError (
     bindR (require (find (\<lambda>e. ex_id e = execution_id) (browser_executions st)) NotFoundError) (\<lambda>execution.
     bindR (require (find (\<lambda>p. bp_id p = ex_plan_id execution) (browser_plans st)) LeaseConflict) (\<lambda>row.
     bindR (validated_browser_plan_row W row st) (\<lambda>plan.
     bindR (collector_live_binding job_id worker token (bp_item_id plan)
              (bp_resource_definition_id plan) now st) (\<lambda>_.
       Inl TypeError)))))))))"

definition complete_database_query_execution ::
    "world \<Rightarrow> string \<Rightarrow> string \<Rightarrow> string \<Rightarrow> string \<Rightarrow> time \<Rightarrow> store
     \<Rightarrow> store_error + (store \<times> database_execution_row)" where
  "complete_database_query_execution W job_id worker token execution_id now st =
     bindR (exact_collector_id execution_id) (\<lambda>_.
     bindR (require (find (\<lambda>e. ex_id e = execution_id) (database_executions st)) NotFoundError) (\<lambda>execution.
     bindR (require (find (\<lambda>p. dp_id p = ex_plan_id execution) (database_plans st)) LeaseConflict) (\<lambda>row.
     bindR (validated_database_plan_row W row st) (\<lambda>plan.
     bindR (collector_live_binding job_id worker token (dp_item_id plan)
              (dp_resource_definition_id plan) now st) (\<lambda>_.
       Inl TypeError)))))"

definition get_browser_evidence_execution ::
    "string \<Rightarrow> store \<Rightarrow> store_error + browser_execution_row" where
  "get_browser_evidence_execution i st =
     bindR (exact_collector_id i) (\<lambda>_.
       require (find (\<lambda>e. ex_id e = i) (browser_executions st)) NotFoundError)"

definition list_browser_evidence_executions ::
    "string option \<Rightarrow> store \<Rightarrow> browser_execution_row list" where
  "list_browser_evidence_executions item st =
     order_by (\<lambda>e. (ex_item_id e, ex_prepared_at e, ex_id e))
       (filter (\<lambda>e. chosen item (ex_item_id e)) (browser_executions st))"

definition get_database_query_execution ::
    "string \<Rightarrow> store \<Rightarrow> store_error + database_execution_row" where
  "get_database_query_execution i st =
     bindR (exact_collector_id i) (\<lambda>_.
       require (find (\<lambda>e. ex_id e = i) (database_executions st)) NotFoundError)"

definition list_database_query_executions ::
    "string option \<Rightarrow> store \<Rightarrow> database_execution_row list" where
  "list_database_query_executions item st =
     order_by (\<lambda>e. (ex_item_id e, ex_prepared_at e, ex_id e))
       (filter (\<lambda>e. chosen item (ex_item_id e)) (database_executions st))"

end
