(* ===== verification/Admitting.thy ===== *)
theory Admitting
  imports Collectors
begin

text \<open>
  \<open>create_focused_test_admission\<close> of \<^verbatim>\<open>storage.py\<close>: one pending tester job is bound to the exact
  authority it will run under, and its campaign enters the admission mode.
\<close>

definition find_item_of :: "string \<Rightarrow> string \<Rightarrow> store \<Rightarrow> item_row option" where
  "find_item_of campaign i st = find (\<lambda>r. it_id r = i \<and> it_campaign_id r = campaign) (items st)"

definition find_job_of :: "string \<Rightarrow> string \<Rightarrow> string \<Rightarrow> store \<Rightarrow> job_row option" where
  "find_job_of campaign item i st =
     find (\<lambda>j. jb_id j = i \<and> jb_campaign_id j = campaign \<and> jb_item_id j = item) (jobs st)"

definition find_worktree_of :: "string \<Rightarrow> string \<Rightarrow> string \<Rightarrow> store \<Rightarrow> worktree_row option" where
  "find_worktree_of campaign item i st =
     find (\<lambda>w. wt_id w = i \<and> wt_campaign_id w = campaign \<and> wt_item_id w = item) (worktrees st)"

definition find_plan_of :: "string \<Rightarrow> string \<Rightarrow> store \<Rightarrow> focused_plan_row option" where
  "find_plan_of item i st = find (\<lambda>p. fp_id p = i \<and> fp_item_id p = item) (focused_plans st)"

definition exact_pending_tester :: "string \<Rightarrow> job_row \<Rightarrow> bool" where
  "exact_pending_tester worktree j \<longleftrightarrow>
     jb_role j = Tester \<and> jb_status j = JobPending \<and> jb_queued_state j = ReadyForTest
     \<and> jb_active_state j = Testing \<and> jb_workspace_kind j = ManagedWorktree
     \<and> jb_managed_worktree_id j = Some worktree"

text \<open>The pins of a three-gate item: identifier and hash of its latest browser and database plans.\<close>

definition latest_browser_plan :: "string \<Rightarrow> store \<Rightarrow> browser_plan_row option" where
  "latest_browser_plan item st =
     latest_by bp_plan_number (filter (\<lambda>p. bp_item_id p = item) (browser_plans st))"

definition latest_database_plan :: "string \<Rightarrow> store \<Rightarrow> database_plan_row option" where
  "latest_database_plan item st =
     latest_by dp_plan_number (filter (\<lambda>p. dp_item_id p = item) (database_plans st))"

definition collector_pins ::
    "world \<Rightarrow> item_row \<Rightarrow> store
     \<Rightarrow> store_error + ((string \<times> string) \<times> (string \<times> string)) option" where
  "collector_pins W item st =
     (if it_required_gates item \<noteq> default_required_gates then Inr None
      else
        bindR (require (latest_browser_plan (it_id item) st) TransitionConflict) (\<lambda>browser_row.
        bindR (require (latest_database_plan (it_id item) st) TransitionConflict) (\<lambda>database_row.
        bindR (validated_browser_plan_row W browser_row st) (\<lambda>browser.
        bindR (validated_database_plan_row W database_row st) (\<lambda>database.
          Inr (Some ((bp_id browser, bp_plan_sha256 browser),
                     (dp_id database, dp_plan_sha256 database))))))))"

definition new_admission ::
    "world \<Rightarrow> string \<Rightarrow> campaign_row \<Rightarrow> item_row \<Rightarrow> job_row \<Rightarrow> worktree_row \<Rightarrow> focused_plan_row
     \<Rightarrow> ((string \<times> string) \<times> (string \<times> string)) option \<Rightarrow> json \<Rightarrow> json \<Rightarrow> resource_binding list
     \<Rightarrow> string list \<Rightarrow> string \<Rightarrow> string \<Rightarrow> time \<Rightarrow> admission_row" where
  "new_admission W i campaign item job w plan pins worktree_identity authority bindings required
     admitted_by reason now =
     (let row = \<lparr>fa_id = i, fa_campaign_id = cp_id campaign, fa_item_id = it_id item,
            fa_tester_job_id = jb_id job, fa_managed_worktree_id = wt_id w,
            fa_managed_worktree_generation = wt_generation w, fa_focused_test_plan_id = fp_id plan,
            fa_focused_test_plan_sha256 = digest W authority,
            fa_campaign_config_sha256 = digest W (cp_config campaign),
            fa_job_payload_sha256 = digest W (jb_payload job),
            fa_required_gates_sha256 = digest W (str_list (map gate_value (it_required_gates item))),
            fa_repository_identity = repository_admission_identity w,
            fa_repository_identity_sha256 = digest W (repository_admission_identity w),
            fa_worktree_identity = worktree_identity,
            fa_worktree_identity_sha256 = digest W worktree_identity,
            fa_resource_definition_ids = map rb_id bindings, fa_resource_bindings = bindings,
            fa_resource_bindings_sha256 = digest W (bindings_json bindings),
            fa_required_resources_sha256 = digest W (str_list required), fa_authority_sha256 = [],
            fa_active = True, fa_admitted_by = admitted_by, fa_admission_reason = reason,
            fa_admitted_at = now, fa_revoked_by = None, fa_revocation_reason = None,
            fa_revoked_at = None, fa_updated_at = now,
            fa_browser_plan_id = map_option (fst \<circ> fst) pins,
            fa_browser_plan_sha256 = map_option (snd \<circ> fst) pins,
            fa_database_plan_id = map_option (fst \<circ> snd) pins,
            fa_database_plan_sha256 = map_option (snd \<circ> snd) pins\<rparr>
      in row\<lparr>fa_authority_sha256 := digest W (focused_test_admission_authority row)\<rparr>)"

definition create_focused_test_admission ::
    "world \<Rightarrow> string \<Rightarrow> string \<Rightarrow> string \<Rightarrow> string \<Rightarrow> string \<Rightarrow> string list \<Rightarrow> string \<Rightarrow> string
     \<Rightarrow> string option \<Rightarrow> string \<Rightarrow> time \<Rightarrow> store \<Rightarrow> store_error + (store \<times> string)" where
  "create_focused_test_admission W campaign_id item_id job_id worktree_id plan_id resource_ids
     admitted_by reason given fresh now st =
     check (list_all exact_record_id [campaign_id, item_id, job_id, worktree_id, plan_id]) ValueError (
     check (operator_text 256 admitted_by) ValueError (
     check (operator_text 1024 reason) ValueError (
     check (case given of None \<Rightarrow> True | Some i \<Rightarrow> focused_test_admission_id i) ValueError (
     let i = (case given of None \<Rightarrow> fresh | Some i \<Rightarrow> i) in
     bindR (require (find_campaign campaign_id st) NotFoundError) (\<lambda>campaign.
     bindR (require (find_item_of campaign_id item_id st) NotFoundError) (\<lambda>item.
     bindR (require (find_job_of campaign_id item_id job_id st) NotFoundError) (\<lambda>job.
     bindR (require (find_worktree_of campaign_id item_id worktree_id st) NotFoundError) (\<lambda>w.
     bindR (require (find_plan_of item_id plan_id st) NotFoundError) (\<lambda>plan.
     check (cp_status campaign = CampaignActive \<and> it_state item = ReadyForTest) TransitionConflict (
     check (exact_pending_tester worktree_id job) TransitionConflict (
     check (wt_state w = WtReady \<and> map_option fp_id (latest_plan item_id st) = Some plan_id
            \<and> fp_sandbox_policy_version plan = Some darwin_sandbox_policy_version) TransitionConflict (
     check (it_required_gates item \<in> {[FocusedTests], default_required_gates}) TransitionConflict (
     bindR (canonical_repository_scope W (cp_config campaign)) (\<lambda>scope.
     check (wt_repository_path w \<in> set scope) TransitionConflict (
     bindR (focused_test_admission_resource_bindings W campaign_id resource_ids True st) (\<lambda>bindings.
     bindR (worktree_admission_identity w) (\<lambda>worktree_identity.
     bindR (focused_plan_authority plan) (\<lambda>authority.
     bindR (collector_pins W item st) (\<lambda>pins.
     let required = sort (map rb_id bindings @ [worktree_resource_prefix @ worktree_id]);
         row = new_admission W i campaign item job w plan pins worktree_identity authority bindings
                 required admitted_by reason now;
         st1 = st\<lparr>campaigns := upd_where (\<lambda>c. cp_id c = campaign_id)
                 (\<lambda>c. c\<lparr>cp_execution_mode := FocusedTestAdmissionMode, cp_updated_at := now\<rparr>)
                 (campaigns st)\<rparr>
     in
     check (jb_required_resources job = required) TransitionConflict (
     bindR (case insert_admission row st1 of Inl _ \<Rightarrow> Inl TransitionConflict | Inr st2 \<Rightarrow> Inr st2) (\<lambda>st2.
     let st3 = append_event ''focused_test.admission_created'' (Some campaign_id) (Some item_id)
                 (Some job_id) (Some admitted_by)
                 [(''admission_id'', JStr i), (''managed_worktree_id'', JStr worktree_id),
                  (''managed_worktree_generation'', JNum (wt_generation w)),
                  (''focused_test_plan_id'', JStr plan_id),
                  (''resource_definition_ids'', str_list (map rb_id bindings)),
                  (''authority_sha256'', JStr (fa_authority_sha256 row)), (''reason'', JStr reason)]
                 now st2
     in
     bindR (assert_live_focused_test_admission W row job st3) (\<lambda>_.
       Inr (st3, i)))))))))))))))))))))))"

definition list_focused_test_admissions ::
    "world \<Rightarrow> string option \<Rightarrow> string option \<Rightarrow> string option \<Rightarrow> store
     \<Rightarrow> store_error + admission_row list" where
  "list_focused_test_admissions W campaign item status st =
     validated_rows (focused_test_admission_record W)
       (order_by (\<lambda>a. (fa_admitted_at a, fa_id a))
          (filter (\<lambda>a. chosen campaign (fa_campaign_id a) \<and> chosen item (fa_item_id a)
                     \<and> chosen status (if fa_active a then ''active'' else ''revoked'')) (admissions st)))"

end
