(* ===== verification/Focused.thy ===== *)
theory Focused
  imports Admitting External
begin

text \<open>
  Authoritative focused tests in \<^verbatim>\<open>storage.py\<close>: the supervisor's immutable plan, the execution
  prepared for an admitted attempt, and its completion from the verified output.

  Two file systems appear where directories are made: \<open>W\<close> before and \<open>W'\<close> after.  Making them,
  and removing them when the transaction fails, is an effect outside the store.  Timeouts are
  integers of seconds.
\<close>

section \<open>Paths and manifests\<close>

text \<open>
  \<open>_normalized_relative_test_path\<close>: \<open>PurePosixPath\<close> drops empty and \<^verbatim>\<open>.\<close> components, so a text
  is its own \<open>as_posix\<close> when it has none of them, or is \<^verbatim>\<open>.\<close> itself, whose parts are empty.
\<close>

definition normalized_relative_test_path :: "string \<Rightarrow> store_error + string" where
  "normalized_relative_test_path v =
     check (v \<noteq> [] \<and> CHR 0x5C \<notin> set v) ValueError (
     if v = ''.'' then Inl IndexError
     else
       let parts = split_on CHR ''/'' [] v in
       check (\<not> is_absolute v \<and> list_all (\<lambda>s. s \<notin> {[], ''.'', ''..''}) parts) ValueError (
       check (hd parts \<noteq> ''.git'') ValueError (Inr v)))"

text \<open>A normalised manifest: path, hash and mode of every file, sorted by path.\<close>

type_synonym manifest = "(string \<times> string \<times> int) list"

definition regular_mode :: "int \<Rightarrow> bool" where
  "regular_mode m \<longleftrightarrow> m div 4096 mod 16 = 8"

definition manifest_entry :: "string \<times> json \<Rightarrow> store_error + (string \<times> string \<times> int)" where
  "manifest_entry entry =
     bindR (normalized_relative_test_path (fst entry)) (\<lambda>path.
     check (case snd entry of JObj kvs \<Rightarrow> set (map fst kvs) = {''sha256'', ''mode''} | _ \<Rightarrow> False)
       ValueError (
     case (jget ''sha256'' (snd entry), jget ''mode'' (snd entry)) of
       (Some (JStr h), Some (JNum m)) \<Rightarrow> check (sha256_text h \<and> regular_mode m) ValueError (Inr (path, h, m))
     | _ \<Rightarrow> Inl ValueError))"

fun manifest_entries :: "(string \<times> json) list \<Rightarrow> store_error + manifest" where
  "manifest_entries [] = Inr []"
| "manifest_entries (e # es) =
     bindR (manifest_entry e) (\<lambda>x. bindR (manifest_entries es) (\<lambda>xs. Inr (x # xs)))"

definition normalize_focused_manifest :: "json \<Rightarrow> store_error + manifest" where
  "normalize_focused_manifest v =
     (case v of
        JObj kvs \<Rightarrow>
          check (kvs \<noteq> []) ValueError (
          bindR (manifest_entries kvs) (\<lambda>m.
          check (distinct (map fst m)) ValueError (Inr (sort_key fst m))))
      | _ \<Rightarrow> Inl ValueError)"

definition manifest_json :: "manifest \<Rightarrow> json" where
  "manifest_json m = JObj (map (\<lambda>(p, h, mode). (p, JObj [(''sha256'', JStr h), (''mode'', JNum mode)])) m)"

section \<open>Identities\<close>

definition os_stat :: "world \<Rightarrow> string \<Rightarrow> store_error + file_stat" where
  "os_stat W p = require (lstat W p) OSError"

definition exists_path :: "world \<Rightarrow> string \<Rightarrow> bool" where
  "exists_path W p \<longleftrightarrow> resolve_strict W p \<noteq> None"

definition identity_of :: "world \<Rightarrow> string \<Rightarrow> file_stat \<Rightarrow> file_identity" where
  "identity_of W p s =
     \<lparr>fi_path = p, fi_device = st_dev s, fi_inode = st_ino s, fi_owner_uid = st_uid s,
      fi_mode = st_mode s, fi_sha256 = sha256 W (content W p)\<rparr>"

text \<open>\<^verbatim>\<open>^python(?:3(?:\.\d+)?)?$\<close>, ignoring case.\<close>

definition python_name :: "string \<Rightarrow> bool" where
  "python_name name \<longleftrightarrow>
     (let s = py_lower name; version = drop 8 s in
      s = ''python'' \<or> s = ''python3''
      \<or> take 8 s = ''python3.'' \<and> version \<noteq> [] \<and> list_all is_digit version)"

definition focused_executable_identity :: "world \<Rightarrow> string \<Rightarrow> store_error + file_identity" where
  "focused_executable_identity W p =
     (let supplied = expanduser W p in
      check (is_absolute supplied) ValueError (
      check (resolve_strict W supplied = Some supplied) ValueError (
      bindR (direct_python_executable W supplied) (\<lambda>resolved.
      bindR (os_stat W resolved) (\<lambda>details.
      check (st_kind details = RegularFile \<and> 1 \<le> st_nlink details \<and> can_execute W resolved) ValueError (
      check (\<not> others_write details) ValueError (
      check (python_name (path_name resolved)) ValueError
        (Inr (identity_of W resolved details)))))))))"

definition focused_sandbox_executable_identity ::
    "world \<Rightarrow> string option \<Rightarrow> store_error + file_identity" where
  "focused_sandbox_executable_identity W p =
     bindR (sandbox_executable W) (\<lambda>resolved.
     check (p = None \<or> p = Some resolved) ValueError (
     bindR (os_stat W resolved) (\<lambda>details.
     check (st_kind details = RegularFile \<and> st_uid details = 0 \<and> \<not> others_write details
            \<and> can_execute W resolved) ValueError
       (Inr (identity_of W resolved details)))))"

section \<open>The workspace\<close>

text \<open>Below the worktree's own \<^verbatim>\<open>.git\<close>, which the walk prunes.\<close>

definition git_metadata :: "string \<Rightarrow> string \<Rightarrow> bool" where
  "git_metadata root p \<longleftrightarrow>
     (case drop (length (path_parts root)) (path_parts p) of [] \<Rightarrow> False | s # _ \<Rightarrow> s = ''.git'')"

definition own_directory :: "world \<Rightarrow> string \<Rightarrow> store_error + unit" where
  "own_directory W p =
     bindR (os_stat W p) (\<lambda>details.
     check (st_kind details = Directory) LeaseConflict (
     check (st_uid details = own_uid W) LeaseConflict (Inr ())))"

definition own_file :: "world \<Rightarrow> string \<Rightarrow> string \<Rightarrow> store_error + (string \<times> string \<times> int)" where
  "own_file W root p =
     bindR (os_stat W p) (\<lambda>details.
     check (st_kind details = RegularFile \<and> st_uid details = own_uid W \<and> st_nlink details = 1)
       LeaseConflict
       (Inr (relative_text root p, sha256 W (content W p), st_mode details)))"

definition visible :: "string \<Rightarrow> string \<Rightarrow> string list \<Rightarrow> string list" where
  "visible root current names =
     filter (\<lambda>p. \<not> git_metadata root p) (map (\<lambda>n. path_join current [n]) (sort names))"

fun own_files :: "world \<Rightarrow> string \<Rightarrow> string list \<Rightarrow> store_error + manifest" where
  "own_files W root [] = Inr []"
| "own_files W root (p # ps) =
     bindR (own_file W root p) (\<lambda>x. bindR (own_files W root ps) (\<lambda>xs. Inr (x # xs)))"

fun scan_directories ::
    "world \<Rightarrow> string \<Rightarrow> (string \<times> string list \<times> string list) list \<Rightarrow> store_error + manifest" where
  "scan_directories W root [] = Inr []"
| "scan_directories W root ((current, dirs, files) # rest) =
     (if git_metadata root current then scan_directories W root rest
      else
        bindR (foldR (\<lambda>p _. own_directory W p) (visible root current dirs) ()) (\<lambda>_.
        bindR (own_files W root (visible root current files)) (\<lambda>here.
        bindR (scan_directories W root rest) (\<lambda>below. Inr (here @ below)))))"

definition scan_focused_workspace :: "world \<Rightarrow> string \<Rightarrow> store_error + manifest" where
  "scan_focused_workspace W p =
     bindR (require (resolve_strict W p) LeaseConflict) (\<lambda>root.
     bindR (os_stat W root) (\<lambda>details.
     check (st_kind details = Directory \<and> st_uid details = own_uid W) LeaseConflict (
     bindR (scan_directories W root (walk W root)) (\<lambda>m. Inr (sort_key fst m)))))"

section \<open>Private directories and the environment\<close>

definition assert_private_directory :: "world \<Rightarrow> string \<Rightarrow> store_error + unit" where
  "assert_private_directory W p =
     bindR (os_stat W p) (\<lambda>details.
     check (st_kind details = Directory \<and> private_to_me W details) LeaseConflict (Inr ()))"

definition create_private_directory :: "world \<Rightarrow> world \<Rightarrow> string \<Rightarrow> store_error + unit" where
  "create_private_directory W W' p =
     check (lstat W p = None) OSError (assert_private_directory W' p)"

definition ensure_private_directory :: "world \<Rightarrow> world \<Rightarrow> string \<Rightarrow> store_error + unit" where
  "ensure_private_directory W W' p =
     (if exists_path W p then assert_private_directory W p else create_private_directory W W' p)"

definition focused_test_environment :: "(string \<times> string) list" where
  "focused_test_environment = [(''LANG'', ''C''), (''LC_ALL'', ''C''), (''PYTHONHASHSEED'', ''0'')]"

definition focused_environment :: "(string \<times> string) list option \<Rightarrow> store_error + (string \<times> string) list" where
  "focused_environment v =
     (let environment = (case v of None \<Rightarrow> focused_test_environment | Some e \<Rightarrow> e) in
      check (set (map fst environment) = set (map fst focused_test_environment)) ValueError (
      check (list_all (\<lambda>(_, x). x \<noteq> [] \<and> length x \<le> 256) environment) ValueError
        (Inr (sort_key fst environment))))"

definition environment_json :: "(string \<times> string) list \<Rightarrow> json" where
  "environment_json e = JObj (map (\<lambda>(k, v). (k, JStr v)) e)"

text \<open>The environment column of a plan, read back.\<close>

definition environment_of :: "json \<Rightarrow> (string \<times> string) list" where
  "environment_of v =
     (case v of JObj kvs \<Rightarrow> map (\<lambda>(k, x). (k, case x of JStr s \<Rightarrow> s | _ \<Rightarrow> [])) kvs | _ \<Rightarrow> [])"

section \<open>Plans\<close>

text \<open>\<^verbatim>\<open>^[A-Za-z_][A-Za-z0-9_]*\.[A-Za-z_][A-Za-z0-9_]*$\<close>, whole text.\<close>

definition plain_name :: "string \<Rightarrow> bool" where
  "plain_name s \<longleftrightarrow>
     (case s of [] \<Rightarrow> False
      | c # cs \<Rightarrow> (is_alpha c \<or> c = CHR ''_'') \<and> list_all (\<lambda>d. is_alnum d \<or> d = CHR ''_'') cs)"

definition test_selector :: "string \<Rightarrow> bool" where
  "test_selector s \<longleftrightarrow>
     (case split_on CHR ''.'' [] s of [a, b] \<Rightarrow> plain_name a \<and> plain_name b | _ \<Rightarrow> False)"

record focused_plan_request =
  fq_executable_path :: string
  fq_test_file :: string
  fq_selector :: string
  fq_workspace_manifest :: json
  fq_runtime_root :: string
  fq_timeout_seconds :: int
  fq_output_limit_bytes :: int
  fq_environment :: "(string \<times> string) list option"

definition new_focused_plan ::
    "world \<Rightarrow> string \<Rightarrow> string \<Rightarrow> int \<Rightarrow> focused_plan_request \<Rightarrow> file_identity \<Rightarrow> file_identity
     \<Rightarrow> string \<Rightarrow> string \<Rightarrow> (string \<times> string) list \<Rightarrow> manifest \<Rightarrow> string \<Rightarrow> time \<Rightarrow> focused_plan_row" where
  "new_focused_plan W i item number q executable sandbox runtime runtime_hash environment m root now =
     \<lparr>fp_id = i, fp_item_id = item, fp_plan_number = number,
      fp_executable_path = fi_path executable, fp_executable_device = fi_device executable,
      fp_executable_inode = fi_inode executable, fp_executable_owner_uid = fi_owner_uid executable,
      fp_executable_mode = fi_mode executable, fp_executable_sha256 = fi_sha256 executable,
      fp_sandbox_policy_version = Some darwin_sandbox_policy_version,
      fp_sandbox_executable_path = Some (fi_path sandbox),
      fp_sandbox_executable_device = Some (fi_device sandbox),
      fp_sandbox_executable_inode = Some (fi_inode sandbox),
      fp_sandbox_executable_owner_uid = Some (fi_owner_uid sandbox),
      fp_sandbox_executable_mode = Some (fi_mode sandbox),
      fp_sandbox_executable_sha256 = Some (fi_sha256 sandbox),
      fp_python_runtime_root = Some runtime, fp_python_runtime_sha256 = Some runtime_hash,
      fp_test_file = fq_test_file q, fp_selector = fq_selector q,
      fp_environment = environment_json environment,
      fp_environment_sha256 = digest W (environment_json environment),
      fp_workspace_manifest = manifest_json m, fp_workspace_manifest_sha256 = digest W (manifest_json m),
      fp_runtime_root = root, fp_timeout_seconds = fq_timeout_seconds q,
      fp_output_limit_bytes = fq_output_limit_bytes q, fp_created_at = now\<rparr>"

text \<open>
  The columns a later revision may not change; those of the interpreter and the sandbox may
  replace the empty ones of a plan from before the sandbox.
\<close>

definition same_test_authority :: "focused_plan_row \<Rightarrow> focused_plan_row \<Rightarrow> bool" where
  "same_test_authority p q \<longleftrightarrow>
     (fp_sandbox_policy_version p = None
      \<or> (fp_executable_path p, fp_executable_device p, fp_executable_inode p, fp_executable_owner_uid p,
          fp_executable_mode p, fp_executable_sha256 p)
        = (fp_executable_path q, fp_executable_device q, fp_executable_inode q, fp_executable_owner_uid q,
          fp_executable_mode q, fp_executable_sha256 q)
        \<and> (fp_sandbox_policy_version p, fp_sandbox_executable_path p, fp_sandbox_executable_device p,
            fp_sandbox_executable_inode p, fp_sandbox_executable_owner_uid p,
            fp_sandbox_executable_mode p, fp_sandbox_executable_sha256 p)
          = (fp_sandbox_policy_version q, fp_sandbox_executable_path q, fp_sandbox_executable_device q,
            fp_sandbox_executable_inode q, fp_sandbox_executable_owner_uid q,
            fp_sandbox_executable_mode q, fp_sandbox_executable_sha256 q)
        \<and> fp_python_runtime_root p = fp_python_runtime_root q
        \<and> fp_python_runtime_sha256 p = fp_python_runtime_sha256 q)
     \<and> (fp_test_file p, fp_selector p, fp_environment p, fp_environment_sha256 p, fp_runtime_root p,
        fp_timeout_seconds p, fp_output_limit_bytes p)
       = (fp_test_file q, fp_selector q, fp_environment q, fp_environment_sha256 q, fp_runtime_root q,
        fp_timeout_seconds q, fp_output_limit_bytes q)"

definition revision_of :: "focused_plan_row option \<Rightarrow> focused_plan_row \<Rightarrow> manifest \<Rightarrow> store_error + unit" where
  "revision_of previous row m =
     (case previous of
        None \<Rightarrow> Inr ()
      | Some p \<Rightarrow>
          check (same_test_authority p row) TransitionConflict (
          bindR (normalize_focused_manifest (fp_workspace_manifest p)) (\<lambda>before.
          check (map_of before (fp_test_file row) = map_of m (fp_test_file row)) TransitionConflict
            (Inr ()))))"

definition create_focused_test_plan ::
    "world \<Rightarrow> world \<Rightarrow> string \<Rightarrow> focused_plan_request \<Rightarrow> string \<Rightarrow> time
     \<Rightarrow> store \<Rightarrow> store_error + (store \<times> focused_plan_row)" where
  "create_focused_test_plan W W' item_id q fresh now st =
     bindR (normalized_relative_test_path (fq_test_file q)) (\<lambda>test_file.
     check (test_selector (fq_selector q)) ValueError (
     bindR (normalize_focused_manifest (fq_workspace_manifest q)) (\<lambda>m.
     check (map_of m test_file \<noteq> None) ValueError (
     check (0 < fq_timeout_seconds q \<and> fq_timeout_seconds q \<le> 3600) ValueError (
     check (1024 \<le> fq_output_limit_bytes q \<and> fq_output_limit_bytes q \<le> 16 * 1024 * 1024) ValueError (
     bindR (focused_executable_identity W (fq_executable_path q)) (\<lambda>executable.
     bindR (focused_sandbox_executable_identity W None) (\<lambda>sandbox.
     bindR (python_runtime_root W (fi_path executable)) (\<lambda>runtime.
     bindR (python_runtime_sha256 W runtime) (\<lambda>runtime_hash.
     bindR (os_stat W runtime) (\<lambda>details.
     check (st_kind details = Directory \<and> \<not> others_write details) ValueError (
     bindR (focused_environment (fq_environment q)) (\<lambda>environment.
     let root = expanduser W (fq_runtime_root q) in
     check (is_absolute root \<and> root = resolve W root) ValueError (
     bindR (ensure_private_directory W W' root) (\<lambda>_.
     bindR (require (item_and_campaign item_id st) NotFoundError) (\<lambda>(item, campaign).
     check (it_state item = ReadyForTest) TransitionConflict (
     check (it_required_gates item \<in> {[FocusedTests], default_required_gates}) ValueError (
     check (\<not> simulation_allowed campaign) ValueError (
     let previous = latest_plan item_id st;
         number = (case previous of None \<Rightarrow> 1 | Some p \<Rightarrow> fp_plan_number p + 1);
         row = new_focused_plan W fresh item_id number q executable sandbox runtime runtime_hash
                 environment m root now
     in
     bindR (revision_of previous row m) (\<lambda>_.
     bindR (insert_focused_plan row st) (\<lambda>st1.
       Inr (append_event ''focused_test.plan_created'' (Some (it_campaign_id item)) (Some item_id) None
              None
              [(''plan_id'', JStr fresh), (''plan_number'', JNum number),
               (''selector'', JStr (fq_selector q)), (''test_file'', JStr test_file),
               (''sandbox_policy_version'', JStr darwin_sandbox_policy_version)] now st1,
            row))))))))))))))))))))))"

definition get_focused_test_plan :: "string \<Rightarrow> store \<Rightarrow> store_error + focused_plan_row" where
  "get_focused_test_plan i st = require (find (\<lambda>p. fp_id p = i) (focused_plans st)) NotFoundError"

definition list_focused_test_plans :: "string option \<Rightarrow> store \<Rightarrow> focused_plan_row list" where
  "list_focused_test_plans item st =
     order_by (\<lambda>p. (fp_item_id p, fp_plan_number p))
       (filter (\<lambda>p. chosen item (fp_item_id p)) (focused_plans st))"

end
