(* ===== verification/Executing.thy ===== *)
theory Executing
  imports Focused
begin

text \<open>
  Executions of authoritative focused tests in \<^verbatim>\<open>storage.py\<close>: preparing one for an admitted
  attempt, judging its output, and completing it.
\<close>

section \<open>Preparing\<close>

definition text_or_none :: "string option \<Rightarrow> string" where
  "text_or_none v = (case v of None \<Rightarrow> ''None'' | Some s \<Rightarrow> s)"

definition planned_executable :: "focused_plan_row \<Rightarrow> file_identity" where
  "planned_executable p =
     \<lparr>fi_path = fp_executable_path p, fi_device = fp_executable_device p,
      fi_inode = fp_executable_inode p, fi_owner_uid = fp_executable_owner_uid p,
      fi_mode = fp_executable_mode p, fi_sha256 = fp_executable_sha256 p\<rparr>"

definition planned_sandbox :: "focused_plan_row \<Rightarrow> store_error + file_identity" where
  "planned_sandbox p =
     bindR (need_int (fp_sandbox_executable_device p)) (\<lambda>device.
     bindR (need_int (fp_sandbox_executable_inode p)) (\<lambda>inode.
     bindR (need_int (fp_sandbox_executable_owner_uid p)) (\<lambda>owner.
     bindR (need_int (fp_sandbox_executable_mode p)) (\<lambda>mode.
       Inr \<lparr>fi_path = text_or_none (fp_sandbox_executable_path p), fi_device = device,
            fi_inode = inode, fi_owner_uid = owner, fi_mode = mode,
            fi_sha256 = text_or_none (fp_sandbox_executable_sha256 p)\<rparr>))))"

definition test_command :: "string \<Rightarrow> string \<Rightarrow> string \<Rightarrow> string list" where
  "test_command executable test_path selector =
     [executable, ''-I'', ''-B'', test_path, selector, ''-v'']"

definition run_environment :: "string \<Rightarrow> (string \<times> string) list \<Rightarrow> (string \<times> string) list" where
  "run_environment run_parent base =
     sort_key fst (filter (\<lambda>(k, _). k \<notin> {''HOME'', ''TMPDIR''}) base
       @ [(''HOME'', path_join run_parent [''environment'', ''home'']),
          (''TMPDIR'', path_join run_parent [''environment'', ''tmp''])])"

definition new_focused_execution ::
    "world \<Rightarrow> string \<Rightarrow> job_row \<Rightarrow> string \<Rightarrow> focused_plan_row \<Rightarrow> worktree_row \<Rightarrow> file_identity
     \<Rightarrow> file_identity \<Rightarrow> string \<Rightarrow> string \<Rightarrow> string \<Rightarrow> string list \<Rightarrow> string list
     \<Rightarrow> (string \<times> string) list \<Rightarrow> string \<Rightarrow> file_stat \<Rightarrow> manifest \<Rightarrow> string \<Rightarrow> time
     \<Rightarrow> focused_execution_row" where
  "new_focused_execution W i job attempt plan w executable sandbox runtime runtime_hash profile tests
     command environment cwd details m run_parent now =
     \<lparr>ex_id = i, ex_plan_id = fp_id plan, ex_attempt_id = attempt, ex_job_id = jb_id job,
      ex_item_id = jb_item_id job, ex_status = ExPrepared, ex_outcome = None, ex_error = None,
      ex_prepared_at = now, ex_finished_at = None, ex_updated_at = now,
      fx_worktree_id = wt_id w, fx_worktree_generation = wt_generation w,
      fx_executable = executable, fx_sandbox_policy_version = Some darwin_sandbox_policy_version,
      fx_sandbox_executable = Some sandbox, fx_python_runtime_root = Some runtime,
      fx_python_runtime_sha256 = Some runtime_hash, fx_sandbox_profile = Some profile,
      fx_sandbox_profile_sha256 = Some (profile_sha256 W profile),
      fx_test_file = fp_test_file plan, fx_selector = fp_selector plan,
      fx_test_command = tests, fx_test_command_sha256 = digest W (str_list tests),
      fx_command = command, fx_command_sha256 = digest W (str_list command),
      fx_environment = environment, fx_environment_sha256 = digest W (environment_json environment),
      fx_cwd = cwd, fx_cwd_device = st_dev details, fx_cwd_inode = st_ino details,
      fx_cwd_owner_uid = st_uid details, fx_cwd_mode = st_mode details,
      fx_manifest_before = manifest_json m,
      fx_manifest_before_sha256 = fp_workspace_manifest_sha256 plan,
      fx_manifest_after = None, fx_manifest_after_sha256 = None, fx_run_parent = run_parent,
      fx_artifact_directory = path_join run_parent [''artifacts''],
      fx_stdout_path = path_join run_parent [''artifacts'', ''stdout.log''],
      fx_stderr_path = path_join run_parent [''artifacts'', ''stderr.log''],
      fx_timeout_seconds = fp_timeout_seconds plan, fx_output_limit_bytes = fp_output_limit_bytes plan,
      fx_stdout = None, fx_stderr = None, fx_stdout_artifact_id = None, fx_stderr_artifact_id = None,
      fx_exit_code = None, fx_semantic_summary = None, fx_canonical_handoff = None\<rparr>"

definition find_focused_execution :: "string option \<Rightarrow> store \<Rightarrow> focused_execution_row option" where
  "find_focused_execution attempt st =
     find (\<lambda>e. attempt = Some (ex_attempt_id e)) (focused_executions st)"

text \<open>The directories of a run; \<open>W'\<close> is the file system once they are made.\<close>

definition run_directories ::
    "world \<Rightarrow> world \<Rightarrow> string \<Rightarrow> string \<Rightarrow> string \<Rightarrow> store_error + string" where
  "run_directories W W' runtime_root item attempt =
     (let item_directory = path_join runtime_root [item]; run_parent = path_join item_directory [attempt] in
      bindR (ensure_private_directory W W' item_directory) (\<lambda>_.
      bindR (create_private_directory W W' run_parent) (\<lambda>_.
      check (\<not> exists_path W' (path_join run_parent [''artifacts''])) LeaseConflict (Inr run_parent))))"

definition prepare_focused_test_execution ::
    "world \<Rightarrow> world \<Rightarrow> string \<Rightarrow> string \<Rightarrow> string \<Rightarrow> string \<Rightarrow> time \<Rightarrow> store
     \<Rightarrow> store_error + (store \<times> focused_execution_row)" where
  "prepare_focused_test_execution W W' job_id worker token fresh now st =
     bindR (assert_live_lease job_id worker token now st) (\<lambda>job.
     check (jb_role job = Tester) LeaseConflict (
     check (jb_workspace_kind job = ManagedWorktree) LeaseConflict (
     bindR (assert_managed_worktree_binding job st) (\<lambda>_.
     bindR (assert_attempt_focused_test_admission W job st) (\<lambda>found.
     bindR (require found LeaseConflict) (\<lambda>admission.
     case find_focused_execution (jb_current_attempt_id job) st of
       Some existing \<Rightarrow> Inr (st, existing)
     | None \<Rightarrow>
     bindR (require (jb_current_attempt_id job) TypeError) (\<lambda>attempt.
     bindR (require (find_item (jb_item_id job) st) NotFoundError) (\<lambda>item.
     check (it_required_gates item \<in> {[FocusedTests], default_required_gates}) ValueError (
     bindR (require (find_plan_of (jb_item_id job) (fa_focused_test_plan_id admission) st) LeaseConflict)
       (\<lambda>plan.
     bindR (require (find (\<lambda>w. jb_managed_worktree_id job = Some (wt_id w) \<and> wt_state w = WtReady)
              (worktrees st)) LeaseConflict) (\<lambda>w.
     bindR (require (resolve_strict W (wt_worktree_path w)) OSError) (\<lambda>cwd.
     bindR (os_stat W cwd) (\<lambda>details.
     check (st_kind details = Directory \<and> Some (st_dev details) = wt_worktree_device w
            \<and> Some (st_ino details) = wt_worktree_inode w
            \<and> Some (st_uid details) = wt_worktree_owner_uid w) LeaseConflict (
     bindR (focused_executable_identity W (fp_executable_path plan)) (\<lambda>executable.
     check (executable = planned_executable plan) LeaseConflict (
     check (fp_sandbox_policy_version plan = Some darwin_sandbox_policy_version) LeaseConflict (
     bindR (focused_sandbox_executable_identity W (Some (text_or_none (fp_sandbox_executable_path plan))))
       (\<lambda>sandbox.
     bindR (planned_sandbox plan) (\<lambda>expected_sandbox.
     check (sandbox = expected_sandbox) LeaseConflict (
     bindR (python_runtime_root W (fi_path executable)) (\<lambda>runtime.
     bindR (python_runtime_sha256 W runtime) (\<lambda>runtime_hash.
     check (fp_python_runtime_root plan = Some runtime \<and> fp_python_runtime_sha256 plan = Some runtime_hash)
       LeaseConflict (
     bindR (normalize_focused_manifest (fp_workspace_manifest plan)) (\<lambda>expected.
     bindR (scan_focused_workspace W cwd) (\<lambda>observed.
     check (observed = expected) LeaseConflict (
     let test_path = path_join cwd (path_parts (fp_test_file plan)) in
     bindR (require (resolve_strict W test_path) OSError) (\<lambda>resolved_test.
     check (resolved_test = test_path \<and> is_file W test_path) LeaseConflict (
     bindR (require (resolve_strict W (fp_runtime_root plan)) OSError) (\<lambda>runtime_root.
     bindR (assert_private_directory W runtime_root) (\<lambda>_.
     bindR (require (resolve_strict W (wt_repository_path w)) OSError) (\<lambda>repository.
     check (\<not> paths_overlap runtime_root cwd \<and> \<not> paths_overlap runtime_root repository) LeaseConflict (
     check (\<not> paths_overlap runtime cwd \<and> \<not> paths_overlap runtime repository) LeaseConflict (
     bindR (run_directories W W' runtime_root (jb_item_id job) attempt) (\<lambda>run_parent.
     let tests = test_command (fi_path executable) test_path (fp_selector plan) in
     bindR (build_profile W' (fi_path executable) runtime cwd run_parent) (\<lambda>profile.
     bindR (build_command W' (fi_path sandbox) profile tests) (\<lambda>command.
     bindR (focused_environment (Some (environment_of (fp_environment plan)))) (\<lambda>base.
     let row = new_focused_execution W fresh job attempt plan w executable sandbox runtime runtime_hash
                 profile tests command (run_environment run_parent base) cwd details observed
                 run_parent now
     in
     bindR (insert_focused_execution row st) (\<lambda>st1.
       Inr (append_event ''focused_test.execution_prepared'' (Some (jb_campaign_id job))
              (Some (jb_item_id job)) (Some job_id) (Some worker)
              [(''execution_id'', JStr fresh), (''attempt_id'', JStr attempt),
               (''plan_id'', JStr (fp_id plan))] now st1,
            row)))))))))))))))))))))))))))))))))))))))"

section \<open>The output of a run\<close>

definition inspect_private_output ::
    "world \<Rightarrow> string \<Rightarrow> int \<Rightarrow> store_error + (output_identity \<times> string)" where
  "inspect_private_output W p limit =
     bindR (os_stat W p) (\<lambda>details.
     check (st_kind details = RegularFile \<and> private_to_me W details \<and> st_nlink details = 1) LeaseConflict (
     check (st_size details \<le> limit) LeaseConflict (
     check (int (length (content W p)) = st_size details) LeaseConflict
       (Inr (output_of W p details, content W p)))))"

text \<open>Strict UTF-8: the code points of a list of bytes.\<close>

definition tail_width :: "nat \<Rightarrow> nat" where
  "tail_width b = (if b < 128 then 0 else if b < 224 then 1 else if b < 240 then 2 else 3)"

definition continuation :: "nat \<Rightarrow> bool" where
  "continuation b \<longleftrightarrow> 128 \<le> b \<and> b < 192"

definition well_formed :: "nat \<Rightarrow> nat list \<Rightarrow> bool" where
  "well_formed b t \<longleftrightarrow> (b < 128 \<or> 194 \<le> b \<and> b \<le> 244) \<and> length t = tail_width b \<and> list_all continuation t
     \<and> (b = 224 \<longrightarrow> 160 \<le> hd t) \<and> (b = 237 \<longrightarrow> hd t < 160)
     \<and> (b = 240 \<longrightarrow> 144 \<le> hd t) \<and> (b = 244 \<longrightarrow> hd t < 144)"

definition code_point :: "nat \<Rightarrow> nat list \<Rightarrow> nat" where
  "code_point b t =
     foldl (\<lambda>n c. 64 * n + (c - 128))
       (if b < 128 then b else if b < 224 then b - 192 else if b < 240 then b - 224 else b - 240) t"

fun utf8 :: "nat list \<Rightarrow> nat list option" where
  "utf8 [] = Some []"
| "utf8 (b # bs) =
     (let t = take (tail_width b) bs in
      if well_formed b t then map_option (Cons (code_point b t)) (utf8 (drop (tail_width b) bs))
      else None)"

definition code_points :: "string \<Rightarrow> nat list" where
  "code_points s = map code s"

fun split_at :: "(nat \<Rightarrow> bool) \<Rightarrow> nat list \<Rightarrow> nat list \<Rightarrow> nat list list" where
  "split_at P acc [] = [rev acc]"
| "split_at P acc (x # xs) = (if P x then rev acc # split_at P [] xs else split_at P (x # acc) xs)"

definition line_boundary :: "nat \<Rightarrow> bool" where
  "line_boundary n \<longleftrightarrow> n \<in> {10, 11, 12, 13, 28, 29, 30, 133, 8232, 8233}"

definition unicode_space :: "nat \<Rightarrow> bool" where
  "unicode_space n \<longleftrightarrow> (9 \<le> n \<and> n \<le> 13) \<or> (28 \<le> n \<and> n \<le> 32) \<or> n \<in> {133, 160, 5760}
     \<or> (8192 \<le> n \<and> n \<le> 8202) \<or> n \<in> {8232, 8233, 8239, 8287, 12288}"

definition strip_space :: "nat list \<Rightarrow> nat list" where
  "strip_space s = rev (dropWhile unicode_space (rev (dropWhile unicode_space s)))"

text \<open>\<^verbatim>\<open>[0-9]+(?:\.[0-9]+)?s\<close>, to the end of the line.\<close>

definition decimal_seconds :: "nat list \<Rightarrow> bool" where
  "decimal_seconds s \<longleftrightarrow>
     (let digit = (\<lambda>n. 48 \<le> n \<and> n \<le> 57); whole = takeWhile digit s; rest = dropWhile digit s in
      whole \<noteq> []
      \<and> (rest = [115]
         \<or> (case rest of [] \<Rightarrow> False
            | c # cs \<Rightarrow> c = 46 \<and> takeWhile digit cs \<noteq> [] \<and> dropWhile digit cs = [115])))"

definition ran_one_test :: "nat list \<Rightarrow> bool" where
  "ran_one_test line \<longleftrightarrow>
     (let head = code_points ''Ran 1 test in '' in
      take (length head) line = head \<and> decimal_seconds (drop (length head) line))"

text \<open>\<^verbatim>\<open>^method \(__main__\.Class\) \.\.\. (ok|FAIL|ERROR)$\<close>\<close>

definition status_line :: "string \<Rightarrow> string \<Rightarrow> nat list" where
  "status_line selector status =
     (case split_on CHR ''.'' [] selector of
        cls # method # _ \<Rightarrow> code_points (method @ '' (__main__.'' @ cls @ '') ... '' @ status)
      | _ \<Rightarrow> [])"

definition reported_status :: "string \<Rightarrow> nat list \<Rightarrow> string option" where
  "reported_status selector line =
     find (\<lambda>s. line = status_line selector s) [''ok'', ''FAIL'', ''ERROR'']"

definition focused_semantic_outcome ::
    "string \<Rightarrow> int \<Rightarrow> string \<Rightarrow> string \<Rightarrow> store_error + (string \<times> string)" where
  "focused_semantic_outcome selector exit_code out err =
     bindR (require (utf8 (code_points (out @ CHR 0x0A # err))) ValueError) (\<lambda>text.
     let lines = split_at (\<lambda>n. n = 10) [] text;
         statuses = List.map_filter (reported_status selector) lines;
         shown = filter (\<lambda>s. s \<noteq> []) (map strip_space (split_at line_boundary [] text))
     in
     check (length statuses = 1 \<and> length (filter ran_one_test lines) = 1) ValueError (
     check (shown \<noteq> []) ValueError (
     let final = last shown; status = hd statuses in
     if exit_code = 0 \<and> status = ''ok'' \<and> final = code_points ''OK'' then
       Inr (''pass'', ''exactly one persisted focused unittest selector passed'')
     else if exit_code \<noteq> 0 \<and> status \<noteq> ''ok'' \<and> take 8 final = code_points ''FAILED ('' then
       Inr (''fail'', ''exactly one persisted focused unittest selector failed'')
     else Inl ValueError)))"

section \<open>What completion and every later use check again\<close>

definition assert_focused_sandbox_binding ::
    "world \<Rightarrow> focused_execution_row \<Rightarrow> store_error + unit" where
  "assert_focused_sandbox_binding W e =
     check (fx_sandbox_policy_version e = Some darwin_sandbox_policy_version) LeaseConflict (
     bindR (focused_sandbox_executable_identity W
              (Some (text_or_none (map_option fi_path (fx_sandbox_executable e))))) (\<lambda>sandbox.
     check (fx_sandbox_executable e = Some sandbox) LeaseConflict (
     bindR (focused_executable_identity W (fi_path (fx_executable e))) (\<lambda>executable.
     check (executable = fx_executable e) LeaseConflict (
     bindR (python_runtime_root W (fi_path executable)) (\<lambda>runtime.
     check (fx_python_runtime_root e = Some runtime) LeaseConflict (
     bindR (python_runtime_sha256 W runtime) (\<lambda>runtime_hash.
     check (fx_python_runtime_sha256 e = Some runtime_hash) LeaseConflict (
     bindR (build_profile W (fi_path executable) runtime (fx_cwd e) (fx_run_parent e)) (\<lambda>profile.
     check (fx_sandbox_profile e = Some profile
            \<and> fx_sandbox_profile_sha256 e = Some (profile_sha256 W profile)) LeaseConflict (
     let tests = test_command (fi_path executable)
                   (path_join (fx_cwd e) (path_parts (fx_test_file e))) (fx_selector e)
     in
     check (fx_test_command e = tests \<and> fx_test_command_sha256 e = digest W (str_list tests))
       LeaseConflict (
     bindR (build_command W (fi_path sandbox) profile tests) (\<lambda>command.
     check (fx_command e = command \<and> fx_command_sha256 e = digest W (str_list command)) LeaseConflict
       (Inr ()))))))))))))))"

definition assert_focused_runtime_layout ::
    "world \<Rightarrow> focused_execution_row \<Rightarrow> store_error + unit" where
  "assert_focused_runtime_layout W e =
     (let root = path_join (fx_run_parent e) [''environment''];
          home = path_join root [''home'']; temporary = path_join root [''tmp'']
      in
      bindR (assert_private_directory W (fx_run_parent e)) (\<lambda>_.
      check (map_of (fx_environment e) ''HOME'' = Some home
             \<and> map_of (fx_environment e) ''TMPDIR'' = Some temporary) LeaseConflict (
      bindR (assert_private_directory W root) (\<lambda>_.
      bindR (assert_private_directory W home) (\<lambda>_.
      bindR (assert_private_directory W temporary) (\<lambda>_.
      check (fx_artifact_directory e = path_join (fx_run_parent e) [''artifacts'']) LeaseConflict (
        assert_private_directory W (fx_artifact_directory e))))))))"

definition focused_process :: "job_row \<Rightarrow> store \<Rightarrow> process_row option" where
  "focused_process job st =
     newest_process (filter (\<lambda>p. ep_provider p = ''focused_test'')
       (attempt_processes (jb_current_attempt_id job) st))"

definition assert_focused_process_stopped ::
    "job_row \<Rightarrow> focused_execution_row \<Rightarrow> store \<Rightarrow> store_error + unit" where
  "assert_focused_process_stopped job e st =
     bindR (require (focused_process job st) LeaseConflict) (\<lambda>p.
     check (ep_state p = ProcStopped
            \<and> ep_target_executable p = map_option fi_path (fx_sandbox_executable e)) LeaseConflict
       (Inr ()))"

definition cwd_unchanged :: "focused_execution_row \<Rightarrow> file_stat \<Rightarrow> bool" where
  "cwd_unchanged e s \<longleftrightarrow> st_dev s = fx_cwd_device e \<and> st_ino s = fx_cwd_inode e
     \<and> st_uid s = fx_cwd_owner_uid e \<and> st_mode s = fx_cwd_mode e"

section \<open>The canonical handoff\<close>

definition output_evidence ::
    "focused_execution_row \<Rightarrow> EvidenceKind \<Rightarrow> string \<Rightarrow> artifact_row \<Rightarrow> output_identity option
     \<Rightarrow> evidence_ref" where
  "output_evidence e kind description a output =
     \<lparr>ev_id = ar_id a, ev_kind = kind, ev_location = ar_uri a, ev_description = description,
      ev_metadata = JObj
        [(''attempt_id'', JStr (ex_attempt_id e)), (''execution_id'', JStr (ex_id e)),
         (''sha256'', opt_str (map_option oi_sha256 output)),
         (''bytes'', opt_num (map_option oi_bytes output)),
         (''sandbox_policy_version'', opt_str (fx_sandbox_policy_version e)),
         (''sandbox_profile_sha256'', opt_str (fx_sandbox_profile_sha256 e))]\<rparr>"

definition canonical_focused_handoff ::
    "focused_execution_row \<Rightarrow> artifact_row \<Rightarrow> artifact_row \<Rightarrow> bool \<Rightarrow> test_handoff" where
  "canonical_focused_handoff e out err block_admitted_red =
     (let passed = (ex_outcome e = Some ''pass''); summary = text_or_none (fx_semantic_summary e);
          evidence =
            [output_evidence e EvTest ''Authoritative bounded stdout for the focused unittest run.''
               out (fx_stdout e),
             output_evidence e EvLog ''Authoritative bounded stderr for the focused unittest run.''
               err (fx_stderr e)]
      in
      if \<not> passed \<and> block_admitted_red then
        \<lparr>th_item_id = ex_item_id e, th_outcome = TestBlocked,
         th_summary = ''The admitted focused test failed; this tester-only authority ''
           @ ''cannot launch a fixer.'',
         th_gate_proofs = [], th_failure_summary = None,
         th_blocker = Some
           \<lparr>bl_kind = ExecutionBlocker,
            bl_summary = ''The admitted focused test failed and no authorized fixer ''
              @ ''path exists in this campaign mode.'',
            bl_next_action = ''Create a separately approved pre-launch campaign and ''
              @ ''repository admission before starting a new fix cycle.'',
            bl_evidence = evidence\<rparr>\<rparr>
      else
        \<lparr>th_item_id = ex_item_id e, th_outcome = (if passed then TestPass else TestRed),
         th_summary = summary,
         th_gate_proofs =
           [\<lparr>gp_gate = FocusedTests, gp_result = (if passed then GatePass else GateFail),
             gp_summary = summary, gp_evidence = evidence\<rparr>],
         th_failure_summary = (if passed then None else Some summary), th_blocker = None\<rparr>)"

definition bound_artifact :: "job_row \<Rightarrow> string option \<Rightarrow> store \<Rightarrow> artifact_row option" where
  "bound_artifact job i st =
     find (\<lambda>a. i = Some (ar_id a) \<and> ar_attempt_id a = jb_current_attempt_id job
             \<and> ar_job_id a = Some (jb_id job)) (artifacts st)"

definition assert_finished_focused_execution ::
    "world \<Rightarrow> job_row \<Rightarrow> focused_execution_row \<Rightarrow> store
     \<Rightarrow> store_error + (focused_execution_row \<times> artifact_row \<times> artifact_row)" where
  "assert_finished_focused_execution W job e st =
     check (ex_status e = ExFinished \<and> jb_current_attempt_id job = Some (ex_attempt_id e)
            \<and> ex_job_id e = jb_id job \<and> ex_item_id e = jb_item_id job
            \<and> jb_managed_worktree_id job = Some (fx_worktree_id e)) LeaseConflict (
     bindR (assert_managed_worktree_binding job st) (\<lambda>_.
     bindR (require (find_attempt (jb_current_attempt_id job) st) LeaseConflict) (\<lambda>attempt.
     check (at_managed_worktree_generation attempt = Some (fx_worktree_generation e)) LeaseConflict (
     bindR (assert_focused_process_stopped job e st) (\<lambda>_.
     bindR (assert_focused_sandbox_binding W e) (\<lambda>_.
     bindR (os_stat W (fx_cwd e)) (\<lambda>details.
     check (st_kind details = Directory \<and> cwd_unchanged e details) LeaseConflict (
     bindR (scan_focused_workspace W (fx_cwd e)) (\<lambda>m.
     bindR (normalize_focused_manifest (fx_manifest_before e)) (\<lambda>before.
     bindR (normalize_focused_manifest (or_default (fx_manifest_after e) (JObj []))) (\<lambda>afterwards.
     check (m = before \<and> m = afterwards) LeaseConflict (
     bindR (assert_focused_runtime_layout W e) (\<lambda>_.
     bindR (inspect_private_output W (fx_stdout_path e) (fx_output_limit_bytes e)) (\<lambda>(out, stdout).
     bindR (inspect_private_output W (fx_stderr_path e) (fx_output_limit_bytes e)) (\<lambda>(err, stderr).
     check (fx_stdout e = Some out \<and> fx_stderr e = Some err) LeaseConflict (
     bindR (require (fx_exit_code e) TypeError) (\<lambda>exit_code.
     bindR (focused_semantic_outcome (fx_selector e) exit_code stdout stderr) (\<lambda>(outcome, summary).
     check (ex_outcome e = Some outcome \<and> fx_semantic_summary e = Some summary) LeaseConflict (
     bindR (require (bound_artifact job (fx_stdout_artifact_id e) st) LeaseConflict) (\<lambda>out_artifact.
     bindR (require (bound_artifact job (fx_stderr_artifact_id e) st) LeaseConflict) (\<lambda>err_artifact.
     let canonical = canonical_focused_handoff e out_artifact err_artifact
                       (at_admission_id attempt \<noteq> None)
     in
     check (case fx_canonical_handoff e of None \<Rightarrow> True | Some h \<Rightarrow> h = canonical) LeaseConflict
       (Inr (e, out_artifact, err_artifact)))))))))))))))))))))))"

section \<open>Completing\<close>

text \<open>\<open>result.get(k) == v\<close> in Python's equality.\<close>

definition result_is :: "(string \<times> json) list \<Rightarrow> string \<Rightarrow> json \<Rightarrow> bool" where
  "result_is result k v \<longleftrightarrow> (case map_of result k of None \<Rightarrow> False | Some x \<Rightarrow> same_json x v)"

text \<open>\<open>list(observed or [])\<close> of a value that is not a string.\<close>

definition observed_command :: "json option \<Rightarrow> store_error + json" where
  "observed_command v =
     (case v of
        None \<Rightarrow> Inr (JArr []) | Some JNull \<Rightarrow> Inr (JArr [])
      | Some (JBool b) \<Rightarrow> if b then Inl TypeError else Inr (JArr [])
      | Some (JNum n) \<Rightarrow> if n \<noteq> 0 then Inl TypeError else Inr (JArr [])
      | Some (JStr s) \<Rightarrow> Inr (JStr s) | Some (JArr xs) \<Rightarrow> Inr (JArr xs)
      | Some (JObj kvs) \<Rightarrow> Inr (JArr (map (JStr \<circ> fst) kvs)))"

text \<open>One output stream: its path, hash and size as the result reports them.\<close>

definition verified_output ::
    "world \<Rightarrow> (string \<times> json) list \<Rightarrow> string \<Rightarrow> string \<Rightarrow> int
     \<Rightarrow> store_error + (output_identity \<times> string)" where
  "verified_output W result prefix path limit =
     check (result_is result (prefix @ ''_path'') (JStr path)) LeaseConflict (
     bindR (inspect_private_output W path limit) (\<lambda>(identity, bytes).
     check (result_is result (prefix @ ''_sha256'') (JStr (oi_sha256 identity))
            \<and> result_is result (prefix @ ''_bytes'') (JNum (oi_bytes identity))) LeaseConflict
       (Inr (identity, bytes))))"

definition output_artifact ::
    "focused_execution_row \<Rightarrow> job_row \<Rightarrow> string \<Rightarrow> string \<Rightarrow> string \<Rightarrow> output_identity \<Rightarrow> time \<Rightarrow> artifact_row" where
  "output_artifact e job i kind uri output now =
     \<lparr>ar_id = i, ar_item_id = jb_item_id job, ar_job_id = Some (jb_id job),
      ar_kind = kind, ar_uri = uri,
      ar_metadata = JObj
        [(''attempt_id'', opt_str (jb_current_attempt_id job)), (''execution_id'', JStr (ex_id e)),
         (''sha256'', JStr (oi_sha256 output)), (''bytes'', JNum (oi_bytes output)),
         (''sandbox_policy_version'', opt_str (fx_sandbox_policy_version e)),
         (''sandbox_profile_sha256'', opt_str (fx_sandbox_profile_sha256 e))],
      ar_created_at = now, ar_attempt_id = jb_current_attempt_id job\<rparr>"

definition artifact_added ::
    "focused_execution_row \<Rightarrow> job_row \<Rightarrow> string \<Rightarrow> string \<Rightarrow> string \<Rightarrow> string \<Rightarrow> time \<Rightarrow> store \<Rightarrow> store" where
  "artifact_added e job worker i kind uri now st =
     append_event ''artifact.added'' (Some (jb_campaign_id job)) (Some (jb_item_id job))
       (Some (jb_id job)) (Some worker)
       [(''artifact_id'', JStr i), (''attempt_id'', opt_str (jb_current_attempt_id job)),
        (''execution_id'', JStr (ex_id e)), (''kind'', JStr kind), (''uri'', JStr uri)] now st"

definition update_focused_execution ::
    "string \<Rightarrow> execution_status \<Rightarrow> (focused_execution_row \<Rightarrow> focused_execution_row) \<Rightarrow> store \<Rightarrow> store" where
  "update_focused_execution i status f st =
     st\<lparr>focused_executions :=
          upd_where (\<lambda>e. ex_id e = i \<and> ex_status e = status) f (focused_executions st)\<rparr>"

definition finish_focused_execution ::
    "world \<Rightarrow> string \<Rightarrow> string \<Rightarrow> manifest \<Rightarrow> output_identity \<Rightarrow> output_identity \<Rightarrow> string \<Rightarrow> string
     \<Rightarrow> int \<Rightarrow> time \<Rightarrow> focused_execution_row \<Rightarrow> focused_execution_row" where
  "finish_focused_execution W outcome summary m out err out_id err_id exit_code now e =
     e\<lparr>ex_status := ExFinished, ex_outcome := Some outcome,
       fx_manifest_after := Some (manifest_json m),
       fx_manifest_after_sha256 := Some (digest W (manifest_json m)),
       fx_stdout := Some out, fx_stderr := Some err, fx_stdout_artifact_id := Some out_id,
       fx_stderr_artifact_id := Some err_id, fx_exit_code := Some exit_code,
       fx_semantic_summary := Some summary, ex_finished_at := Some now, ex_updated_at := now\<rparr>"

text \<open>What is verified before anything is written.\<close>

definition verified_focused_result ::
    "world \<Rightarrow> job_row \<Rightarrow> focused_execution_row \<Rightarrow> (string \<times> json) list \<Rightarrow> store
     \<Rightarrow> store_error + (manifest \<times> int \<times> output_identity \<times> output_identity \<times> string \<times> string)" where
  "verified_focused_result W job e result st =
     check (ex_status e = ExPrepared) LeaseConflict (
     bindR (assert_focused_sandbox_binding W e) (\<lambda>_.
     check (result_is result ''execution_id'' (JStr (ex_id e))) LeaseConflict (
     bindR (observed_command (map_of result ''command'')) (\<lambda>command.
     check (same_json command (str_list (fx_command e))) LeaseConflict (
     check (result_is result ''cwd'' (JStr (fx_cwd e))) LeaseConflict (
     check (result_is result ''artifact_directory'' (JStr (fx_artifact_directory e))) LeaseConflict (
     bindR (normalize_focused_manifest (or_default (map_of result ''workspace_manifest'') (JObj []))) (\<lambda>reported.
     bindR (normalize_focused_manifest (fx_manifest_before e)) (\<lambda>expected.
     bindR (scan_focused_workspace W (fx_cwd e)) (\<lambda>observed.
     check (reported = expected \<and> observed = expected) LeaseConflict (
     check (map_of result ''stdout_truncated'' = Some (JBool False)
            \<and> map_of result ''stderr_truncated'' = Some (JBool False)) ValueError (
     bindR (case map_of result ''exit_code'' of Some (JNum n) \<Rightarrow> Inr n | _ \<Rightarrow> Inl ValueError) (\<lambda>exit_code.
     bindR (assert_external_process_stopped job st) (\<lambda>_.
     bindR (assert_focused_process_stopped job e st) (\<lambda>_.
     bindR (assert_focused_runtime_layout W e) (\<lambda>_.
     bindR (verified_output W result ''stdout'' (fx_stdout_path e) (fx_output_limit_bytes e)) (\<lambda>(out, stdout).
     bindR (verified_output W result ''stderr'' (fx_stderr_path e) (fx_output_limit_bytes e)) (\<lambda>(err, stderr).
     bindR (focused_executable_identity W (fi_path (fx_executable e))) (\<lambda>executable.
     check (executable = fx_executable e) LeaseConflict (
     bindR (os_stat W (fx_cwd e)) (\<lambda>details.
     check (cwd_unchanged e details) LeaseConflict (
     bindR (focused_semantic_outcome (fx_selector e) exit_code stdout stderr) (\<lambda>(outcome, summary).
       Inr (observed, exit_code, out, err, outcome, summary))))))))))))))))))))))))"

definition complete_focused_test_execution ::
    "world \<Rightarrow> string \<Rightarrow> string \<Rightarrow> string \<Rightarrow> (string \<times> json) list \<Rightarrow> string \<Rightarrow> string \<Rightarrow> time \<Rightarrow> store
     \<Rightarrow> store_error + (store \<times> test_handoff)" where
  "complete_focused_test_execution W job_id worker token result out_id err_id now st =
     bindR (assert_live_lease job_id worker token now st) (\<lambda>job.
     check (jb_role job = Tester) LeaseConflict (
     bindR (assert_managed_worktree_binding job st) (\<lambda>_.
     bindR (assert_attempt_focused_test_admission W job st) (\<lambda>admission.
     check (admission \<noteq> None) LeaseConflict (
     bindR (require (find_focused_execution (jb_current_attempt_id job) st) LeaseConflict) (\<lambda>e.
     bindR (verified_focused_result W job e result st) (\<lambda>(m, exit_code, out, err, outcome, summary).
     bindR (insert_artifact
              (output_artifact e job out_id ''focused_test_stdout'' (fx_stdout_path e) out now) st) (\<lambda>st1.
     bindR (insert_artifact
              (output_artifact e job err_id ''focused_test_stderr'' (fx_stderr_path e) err now) st1) (\<lambda>st2.
     let st3 = update_focused_execution (ex_id e) ExPrepared
                 (finish_focused_execution W outcome summary m out err out_id err_id exit_code now) st2;
         st4 = artifact_added e job worker err_id ''focused_test_stderr'' (fx_stderr_path e) now
                 (artifact_added e job worker out_id ''focused_test_stdout'' (fx_stdout_path e) now st3);
         st5 = append_event ''focused_test.execution_finished'' (Some (jb_campaign_id job))
                 (Some (jb_item_id job)) (Some job_id) (Some worker)
                 [(''execution_id'', JStr (ex_id e)),
                  (''attempt_id'', opt_str (jb_current_attempt_id job)), (''outcome'', JStr outcome),
                  (''exit_code'', JNum exit_code)] now st4
     in
     check (rowcount (\<lambda>r. ex_id r = ex_id e \<and> ex_status r = ExPrepared) (focused_executions st2) = 1)
       LeaseConflict (
     bindR (require (find (\<lambda>r. ex_id r = ex_id e) (focused_executions st5)) TypeError) (\<lambda>finished.
     bindR (assert_finished_focused_execution W job finished st5) (\<lambda>(data, out_artifact, err_artifact).
     let canonical = canonical_focused_handoff data out_artifact err_artifact True in
       Inr (update_focused_execution (ex_id e) ExFinished
              (\<lambda>r. r\<lparr>fx_canonical_handoff := Some canonical, ex_updated_at := now\<rparr>) st5,
            canonical)))))))))))))"

definition get_focused_test_execution :: "string \<Rightarrow> store \<Rightarrow> store_error + focused_execution_row" where
  "get_focused_test_execution i st =
     require (find (\<lambda>e. ex_id e = i) (focused_executions st)) NotFoundError"

definition list_focused_test_executions ::
    "string option \<Rightarrow> string option \<Rightarrow> string option \<Rightarrow> store \<Rightarrow> focused_execution_row list" where
  "list_focused_test_executions item job attempt st =
     order_by (\<lambda>e. (ex_prepared_at e, ex_id e))
       (filter (\<lambda>e. chosen item (ex_item_id e) \<and> chosen job (ex_job_id e)
                  \<and> chosen attempt (ex_attempt_id e)) (focused_executions st))"

end
