(* ===== verification/Canonical.thy ===== *)
theory Canonical
  imports Executing Finish
begin

text \<open>
  What a tester's commit is judged on in a campaign without simulated evidence: the finished
  executions of the attempt's own collectors, verified again at the commit
  (\<^verbatim>\<open>storage.py\<close>, \<open>_assert_finished_browser_execution\<close>,
  \<open>_assert_finished_database_execution\<close>, \<open>_validated_database_result\<close>,
  \<open>_canonical_pipeline_handoff\<close>), and the canonical handoff made of them.
\<close>

section \<open>A finished browser execution\<close>

definition browser_outcome :: "bool \<times> bool \<times> bool \<Rightarrow> string" where
  "browser_outcome a = (case a of (route, title, body) \<Rightarrow>
     if route \<and> title \<and> body then ''pass'' else ''fail'')"

text \<open>The execution of this attempt and job that is finished, of a table of executions.\<close>

definition finished_execution ::
    "job_row \<Rightarrow> 'a execution_row_scheme list \<Rightarrow> store_error + 'a execution_row_scheme" where
  "finished_execution job t =
     bindR (require (find (\<lambda>e. jb_current_attempt_id job = Some (ex_attempt_id e)
                             \<and> ex_job_id e = jb_id job) t) LeaseConflict) (\<lambda>e.
     check (ex_status e = ExFinished \<and> ex_item_id e = jb_item_id job) LeaseConflict (Inr e))"

definition collector_evidence ::
    "job_row \<Rightarrow> string option \<Rightarrow> string \<Rightarrow> string \<Rightarrow> store \<Rightarrow> store_error + artifact_row" where
  "collector_evidence job i kind uri st =
     require (find (\<lambda>a. i = Some (ar_id a) \<and> ar_attempt_id a = jb_current_attempt_id job
                      \<and> ar_job_id a = Some (jb_id job) \<and> ar_kind a = kind \<and> ar_uri a = uri)
                (artifacts st)) LeaseConflict"

definition assert_finished_browser_execution ::
    "world \<Rightarrow> job_row \<Rightarrow> store \<Rightarrow> store_error + (browser_execution_row \<times> artifact_row)" where
  "assert_finished_browser_execution W job st =
     bindR (finished_execution job (browser_executions st)) (\<lambda>e.
     bindR (assert_stopped_collector_process (ex_attempt_id e) ''browser_evidence'' st) (\<lambda>_.
     bindR (require (find (\<lambda>p. bp_id p = ex_plan_id e) (browser_plans st)) LeaseConflict) (\<lambda>row.
     bindR (validated_browser_plan_row W row st) (\<lambda>plan.
     check (bx_resource_definition_id e = bp_resource_definition_id plan
            \<and> bx_resource_identity_hash e = bp_resource_identity_hash plan
            \<and> bx_requested_route e = bp_route plan) LeaseConflict (
     bindR (collector_artifact W (Some (bx_screenshot_path e)) (bx_screenshot_path e)
              (map_option oi_sha256 (bx_screenshot e)) (16 * 1024 * 1024)) (\<lambda>(observed, _).
     check (bx_screenshot e = Some observed) LeaseConflict (
     let expected = (bx_observed_route e = Some (bp_route plan),
                     bx_observed_title e = Some (bp_expected_title plan),
                     bx_observed_body_sha256 e = Some (sha256 W (utf8_bytes (bp_expected_body_text plan))))
     in
     check (bx_assertions e = Some expected \<and> ex_outcome e = Some (browser_outcome expected))
       LeaseConflict (
     bindR (collector_evidence job (bx_artifact_id e) ''browser_screenshot'' (bx_screenshot_path e) st)
       (\<lambda>artifact. Inr (e, artifact))))))))))"

section \<open>A finished database execution\<close>

definition scalar_value_ok :: "json \<Rightarrow> store_error + unit" where
  "scalar_value_ok v =
     (case v of
        JObj _ \<Rightarrow> Inl LeaseConflict | JArr _ \<Rightarrow> Inl LeaseConflict
      | JStr s \<Rightarrow> check (collector_text True s) ValueError (Inr ())
      | _ \<Rightarrow> Inr ())"

text \<open>The rows one after the other: the exception raised is that of the first bad one.\<close>

definition observed_id :: "nat \<Rightarrow> nat \<Rightarrow> json \<Rightarrow> store_error + json" where
  "observed_id width i row =
     (case row of
        JArr vs \<Rightarrow>
          check (length vs = width) LeaseConflict (
          bindR (foldR (\<lambda>v _. scalar_value_ok v) vs ()) (\<lambda>_.
          case vs ! i of JStr s \<Rightarrow> Inr (JStr s) | JNum n \<Rightarrow> Inr (JNum n) | _ \<Rightarrow> Inl LeaseConflict))
      | _ \<Rightarrow> Inl LeaseConflict)"

fun observed_ids_of :: "nat \<Rightarrow> nat \<Rightarrow> json list \<Rightarrow> store_error + json list" where
  "observed_ids_of width i [] = Inr []"
| "observed_ids_of width i (r # rs) =
     bindR (observed_id width i r) (\<lambda>x. bindR (observed_ids_of width i rs) (\<lambda>xs. Inr (x # xs)))"

definition position :: "'a \<Rightarrow> 'a list \<Rightarrow> nat" where
  "position x xs = length (takeWhile (\<lambda>y. y \<noteq> x) xs)"

definition column_names :: "json \<Rightarrow> store_error + string list" where
  "column_names columns =
     (case columns of
        JArr cs \<Rightarrow>
          check (cs \<noteq> [] \<and> length cs \<le> 64
                 \<and> list_all (\<lambda>c. case c of JStr s \<Rightarrow> safe_identifier s | _ \<Rightarrow> False) cs
                 \<and> distinct cs) LeaseConflict
            (Inr (List.map_filter (\<lambda>c. case c of JStr s \<Rightarrow> Some s | _ \<Rightarrow> None) cs))
      | _ \<Rightarrow> Inl LeaseConflict)"

definition key_set :: "(string \<times> json) list \<Rightarrow> string set" where
  "key_set kvs = set (map fst kvs)"

definition read_only_proof_ok :: "json \<Rightarrow> bool" where
  "read_only_proof_ok proof \<longleftrightarrow>
     (case proof of
        JObj kvs \<Rightarrow>
          key_set kvs = {''authorizer'', ''foreign_key_violations'', ''query_only'', ''uri_mode''}
          \<and> map_of kvs ''authorizer'' = Some (JStr ''deny_non_read'')
          \<and> is_true (map_of kvs ''query_only'')
          \<and> map_of kvs ''uri_mode'' = Some (JStr ''ro'')
          \<and> (case map_of kvs ''foreign_key_violations'' of Some (JNum n) \<Rightarrow> 0 \<le> n | _ \<Rightarrow> False)
      | _ \<Rightarrow> False)"

record database_payload =
  pl_columns :: "string list"
  pl_rows :: "json list"
  pl_proof :: json

definition validated_database_result ::
    "world \<Rightarrow> string \<Rightarrow> int \<Rightarrow> int \<Rightarrow> string \<Rightarrow> store_error + (database_payload \<times> json list)" where
  "validated_database_result W raw max_rows max_bytes id_column =
     check (int (length raw) \<le> max_bytes) LeaseConflict (
     bindR (require (loads W raw) LeaseConflict) (\<lambda>payload.
     case payload of
       JObj kvs \<Rightarrow>
         check (key_set kvs = {''columns'', ''rows'', ''read_only_proof''}) LeaseConflict (
         check (raw = dump W payload) LeaseConflict (
         bindR (require (map_of kvs ''columns'') LeaseConflict) (\<lambda>cs.
         bindR (column_names cs) (\<lambda>columns.
         check (id_column \<in> set columns) LeaseConflict (
         bindR (case map_of kvs ''rows'' of Some (JArr rs) \<Rightarrow> Inr rs | _ \<Rightarrow> Inl LeaseConflict) (\<lambda>rows.
         check (int (length rows) \<le> max_rows) LeaseConflict (
         bindR (observed_ids_of (length columns) (position id_column columns) rows) (\<lambda>ids.
         bindR (require (map_of kvs ''read_only_proof'') LeaseConflict) (\<lambda>proof.
         check (read_only_proof_ok proof) LeaseConflict
           (Inr (\<lparr>pl_columns = columns, pl_rows = rows, pl_proof = proof\<rparr>, ids)))))))))))
     | _ \<Rightarrow> Inl LeaseConflict))"

definition database_outcome :: "database_plan_row \<Rightarrow> database_payload \<Rightarrow> json list \<Rightarrow> string" where
  "database_outcome plan payload ids =
     (if (case dp_expected_row_count plan of None \<Rightarrow> True | Some n \<Rightarrow> int (length (pl_rows payload)) = n)
         \<and> ids = dp_expected_ids plan
         \<and> jget ''foreign_key_violations'' (pl_proof payload) = Some (JNum 0)
      then ''pass'' else ''fail'')"

definition assert_finished_database_execution ::
    "world \<Rightarrow> job_row \<Rightarrow> store \<Rightarrow> store_error + (database_execution_row \<times> artifact_row)" where
  "assert_finished_database_execution W job st =
     bindR (finished_execution job (database_executions st)) (\<lambda>e.
     bindR (require (find (\<lambda>p. dp_id p = ex_plan_id e) (database_plans st)) LeaseConflict) (\<lambda>row.
     bindR (validated_database_plan_row W row st) (\<lambda>plan.
     check (dx_resource_definition_id e = dp_resource_definition_id plan
            \<and> dx_resource_identity_hash e = dp_resource_identity_hash plan
            \<and> dx_query_sha256 e = dp_query_sha256 plan) LeaseConflict (
     bindR (collector_artifact W (Some (dx_result_path e)) (dx_result_path e)
              (map_option oi_sha256 (dx_result e)) (dp_max_bytes plan)) (\<lambda>(observed, raw).
     bindR (validated_database_result W raw (dp_max_rows plan) (dp_max_bytes plan) (dp_id_column plan))
       (\<lambda>(payload, ids).
     check (dx_result e = Some observed
            \<and> dx_row_count e = Some (int (length (pl_rows payload)))
            \<and> dx_column_count e = Some (int (length (pl_columns payload)))
            \<and> ex_outcome e = Some (database_outcome plan payload ids)) LeaseConflict (
     check (or_default (dx_observed_ids e) [] = ids
            \<and> same_json (or_default (dx_read_only_proof e) (JObj [])) (pl_proof payload)) LeaseConflict (
     bindR (collector_evidence job (dx_artifact_id e) ''database_result'' (dx_result_path e) st)
       (\<lambda>artifact. Inr (e, artifact))))))))))"

section \<open>The canonical handoff of a pipeline\<close>

definition gate_proof_of ::
    "GateKind \<Rightarrow> EvidenceKind \<Rightarrow> string \<Rightarrow> bool \<Rightarrow> string \<Rightarrow> json \<Rightarrow> artifact_row \<Rightarrow> gate_proof" where
  "gate_proof_of gate kind description passed summary metadata artifact =
     \<lparr>gp_gate = gate, gp_result = (if passed then GatePass else GateFail), gp_summary = summary,
      gp_evidence = [\<lparr>ev_id = ar_id artifact, ev_kind = kind, ev_location = ar_uri artifact,
                      ev_description = description, ev_metadata = metadata\<rparr>]\<rparr>"

definition execution_passed :: "'a execution_row_scheme \<Rightarrow> bool" where
  "execution_passed e \<longleftrightarrow> ex_outcome e = Some ''pass''"

definition browser_summary :: "bool \<Rightarrow> string" where
  "browser_summary passed =
     (if passed then ''exact visible route, title, and body assertions passed''
      else ''one or more exact visible browser assertions failed'')"

definition browser_proof :: "browser_execution_row \<Rightarrow> artifact_row \<Rightarrow> gate_proof" where
  "browser_proof e artifact =
     gate_proof_of BrowserGate EvScreenshot ''Visible Chrome screenshot for the fixed route.''
       (execution_passed e) (browser_summary (execution_passed e))
       (JObj [(''attempt_id'', JStr (ex_attempt_id e)), (''execution_id'', JStr (ex_id e)),
              (''resource_id'', JStr (bx_resource_definition_id e)),
              (''route'', opt_str (bx_observed_route e)),
              (''sha256'', opt_str (map_option oi_sha256 (bx_screenshot e))),
              (''bytes'', opt_num (map_option oi_bytes (bx_screenshot e)))]) artifact"

definition database_summary :: "bool \<Rightarrow> string" where
  "database_summary passed =
     (if passed then ''fixed read-only query, expected IDs, row count, and foreign keys passed''
      else ''one or more fixed database assertions failed'')"

definition database_proof :: "database_execution_row \<Rightarrow> artifact_row \<Rightarrow> gate_proof" where
  "database_proof e artifact =
     gate_proof_of DatabaseGate EvDatabase ''Bounded canonical result from the fixed read-only query.''
       (execution_passed e) (database_summary (execution_passed e))
       (JObj [(''attempt_id'', JStr (ex_attempt_id e)), (''execution_id'', JStr (ex_id e)),
              (''resource_id'', JStr (dx_resource_definition_id e)),
              (''query_sha256'', JStr (dx_query_sha256 e)),
              (''result_sha256'', opt_str (map_option oi_sha256 (dx_result e))),
              (''row_count'', opt_num (dx_row_count e)),
              (''read_only_proof'', or_default (dx_read_only_proof e) JNull)]) artifact"

fun join_with :: "string \<Rightarrow> string list \<Rightarrow> string" where
  "join_with sep [] = []"
| "join_with sep [s] = s"
| "join_with sep (s # t # ts) = s @ sep @ join_with sep (t # ts)"

definition canonical_pipeline_handoff ::
    "test_handoff \<Rightarrow> (browser_execution_row \<times> artifact_row) option
     \<Rightarrow> (database_execution_row \<times> artifact_row) option \<Rightarrow> test_handoff" where
  "canonical_pipeline_handoff focused browser database =
     (if th_outcome focused = TestBlocked then focused
      else
        let proofs = th_gate_proofs focused
              @ (case browser of None \<Rightarrow> [] | Some (e, a) \<Rightarrow> [browser_proof e a])
              @ (case database of None \<Rightarrow> [] | Some (e, a) \<Rightarrow> [database_proof e a]);
            failures = (if th_outcome focused \<noteq> TestPass then [th_summary focused] else [])
              @ (case browser of None \<Rightarrow> []
                 | Some (e, _) \<Rightarrow> if execution_passed e then [] else [browser_summary False])
              @ (case database of None \<Rightarrow> []
                 | Some (e, _) \<Rightarrow> if execution_passed e then [] else [database_summary False])
        in
        if failures \<noteq> [] then
          focused\<lparr>th_outcome := TestRed, th_summary := join_with ''; '' failures,
                  th_gate_proofs := proofs,
                  th_failure_summary := Some (join_with ''; '' failures), th_blocker := None\<rparr>
        else
          focused\<lparr>th_outcome := TestPass,
                  th_summary :=
                    ''focused test, visible browser, and read-only database collectors passed'',
                  th_gate_proofs := proofs, th_failure_summary := None, th_blocker := None\<rparr>)"

section \<open>The handoff a commit is judged on\<close>

text \<open>
  The browser is read only when the focused test passed, the database only when the browser
  passed too.
\<close>

definition pipeline_handoff :: "world \<Rightarrow> job_row \<Rightarrow> test_handoff \<Rightarrow> store \<Rightarrow> store_error + test_handoff" where
  "pipeline_handoff W job focused st =
     (if th_outcome focused \<noteq> TestPass then Inr (canonical_pipeline_handoff focused None None)
      else
        bindR (assert_finished_browser_execution W job st) (\<lambda>browser.
        if \<not> execution_passed (fst browser)
        then Inr (canonical_pipeline_handoff focused (Some browser) None)
        else
          bindR (assert_finished_database_execution W job st) (\<lambda>database.
            Inr (canonical_pipeline_handoff focused (Some browser) (Some database)))))"

definition attempt_execution :: "job_row \<Rightarrow> store \<Rightarrow> focused_execution_row option" where
  "attempt_execution job st =
     find (\<lambda>e. jb_current_attempt_id job = Some (ex_attempt_id e) \<and> ex_job_id e = jb_id job)
       (focused_executions st)"

definition attempt_handoff ::
    "world \<Rightarrow> job_row \<Rightarrow> GateKind list \<Rightarrow> store \<Rightarrow> store_error + test_handoff" where
  "attempt_handoff W job gates st =
     bindR (require (attempt_execution job st) ValueError) (\<lambda>e.
     bindR (require (fx_canonical_handoff e) ValueError) (\<lambda>focused.
     bindR (assert_finished_focused_execution W job e st) (\<lambda>_.
     if gates = default_required_gates then pipeline_handoff W job focused st else Inr focused)))"

end
