(* ===== verification/Gathering.thy ===== *)
theory Gathering
  imports Canonical Queue
begin

text \<open>
  The calls that plan, admit, start and finish the collectors of evidence, and what all of them
  leave alone: no item, job, attempt, lease, process, control or worktree changes, a campaign
  changes in its execution mode only, and no finished execution is touched.
\<close>

section \<open>The calls\<close>

datatype collector_call =
    CreateFocusedPlan world string focused_plan_request string
  | CreateBrowserPlan string string string string string string int string
  | CreateDatabasePlan string string database_plan_request string
  | CreateAdmission string string string string string "string list" string string "string option" string
  | PrepareFocused world string string string string
  | CompleteFocused string string string "(string \<times> json) list" string string
  | PrepareBrowser string string string string
  | CompleteBrowser string string string string "string option" "string option" "string option"
  | PrepareDatabase string string string string
  | CompleteDatabase string string string string

definition only_store :: "store_error + (store \<times> 'a) \<Rightarrow> store_error + store" where
  "only_store m = bindR m (\<lambda>(st, _). Inr st)"

lemma only_store_Inr [simp]: "only_store m = Inr st \<longleftrightarrow> (\<exists>x. m = Inr (st, x))"
  by (auto simp: only_store_def)

lemma only_store_wp [wp_intros]: "wpR (\<lambda>(st, _). P st) m \<Longrightarrow> wpR P (only_store m)"
  by (auto simp: wpR_def)

fun exec_collector :: "world \<Rightarrow> time \<Rightarrow> collector_call \<Rightarrow> store \<Rightarrow> store_error + store" where
  "exec_collector W now (CreateFocusedPlan W' i q f) st =
     only_store (create_focused_test_plan W W' i q f now st)"
| "exec_collector W now (CreateBrowserPlan i r route title body root secs f) st =
     only_store (create_browser_evidence_plan W i r route title body root secs f now st)"
| "exec_collector W now (CreateDatabasePlan i r q f) st =
     only_store (create_database_query_plan W i r q f now st)"
| "exec_collector W now (CreateAdmission c i j w p rs by_whom reason g f) st =
     only_store (create_focused_test_admission W c i j w p rs by_whom reason g f now st)"
| "exec_collector W now (PrepareFocused W' j w t f) st =
     only_store (prepare_focused_test_execution W W' j w t f now st)"
| "exec_collector W now (CompleteFocused j w t r f g) st =
     only_store (complete_focused_test_execution W j w t r f g now st)"
| "exec_collector W now (PrepareBrowser p j w t) st =
     only_store (prepare_browser_evidence_execution W p j w t now st)"
| "exec_collector W now (CompleteBrowser j w t e route title body) st =
     only_store (complete_browser_evidence_execution W j w t e route title body now st)"
| "exec_collector W now (PrepareDatabase p j w t) st =
     only_store (prepare_database_query_execution W p j w t now st)"
| "exec_collector W now (CompleteDatabase j w t e) st =
     only_store (complete_database_query_execution W j w t e now st)"

section \<open>Executions\<close>

text \<open>
  \<open>runs_kept s t\<close>: the executions of \<open>t\<close> continue those of \<open>s\<close>.  Identifiers stay distinct, a
  finished execution with its canonical handoff stays as it is, and the tables of browser and
  database executions stay empty.
\<close>

definition sealed :: "focused_execution_row \<Rightarrow> bool" where
  "sealed e \<longleftrightarrow> ex_status e = ExFinished"

definition runs_ok :: "store \<Rightarrow> bool" where
  "runs_ok st \<longleftrightarrow> distinct (map ex_id (focused_executions st))
     \<and> browser_executions st = [] \<and> database_executions st = []"

definition runs_kept :: "store \<Rightarrow> store \<Rightarrow> bool" where
  "runs_kept s t \<longleftrightarrow> (runs_ok s \<longrightarrow> runs_ok t
     \<and> (\<forall>e \<in> set (focused_executions s). sealed e \<longrightarrow> e \<in> set (focused_executions t)))"

lemma runs_refl [simp]: "runs_kept s s"
  by (simp add: runs_kept_def)

lemma runs_trans: "runs_kept s t \<Longrightarrow> runs_kept t u \<Longrightarrow> runs_kept s u"
  unfolding runs_kept_def by blast

lemma runs_tables:
  "focused_executions t' = focused_executions t \<Longrightarrow> browser_executions t' = browser_executions t
   \<Longrightarrow> database_executions t' = database_executions t \<Longrightarrow> runs_kept s t \<Longrightarrow> runs_kept s t'"
  unfolding runs_kept_def runs_ok_def by simp

lemma runs_frame [simp]:
  "runs_kept s (t\<lparr>campaigns := x1\<rparr>) = runs_kept s t" "runs_kept s (t\<lparr>items := x2\<rparr>) = runs_kept s t"
  "runs_kept s (t\<lparr>jobs := x3\<rparr>) = runs_kept s t" "runs_kept s (t\<lparr>attempts := x4\<rparr>) = runs_kept s t"
  "runs_kept s (t\<lparr>events := x5\<rparr>) = runs_kept s t" "runs_kept s (t\<lparr>approvals := x6\<rparr>) = runs_kept s t"
  "runs_kept s (t\<lparr>artifacts := x7\<rparr>) = runs_kept s t" "runs_kept s (t\<lparr>leases := x8\<rparr>) = runs_kept s t"
  "runs_kept s (t\<lparr>definitions := x9\<rparr>) = runs_kept s t" "runs_kept s (t\<lparr>processes := y1\<rparr>) = runs_kept s t"
  "runs_kept s (t\<lparr>controls := y2\<rparr>) = runs_kept s t" "runs_kept s (t\<lparr>worktrees := y3\<rparr>) = runs_kept s t"
  "runs_kept s (t\<lparr>worktree_operations := y4\<rparr>) = runs_kept s t"
  "runs_kept s (t\<lparr>focused_plans := y5\<rparr>) = runs_kept s t"
  "runs_kept s (t\<lparr>browser_plans := y6\<rparr>) = runs_kept s t"
  "runs_kept s (t\<lparr>database_plans := y7\<rparr>) = runs_kept s t"
  "runs_kept s (t\<lparr>admissions := y8\<rparr>) = runs_kept s t"
  "runs_kept s (append_event k c i j a d n t) = runs_kept s t"
  by (simp_all add: runs_kept_def runs_ok_def append_event_def)

text \<open>Every row but those of one identifier stays as it is.\<close>

lemma runs_one:
  assumes e: "e \<in> set (focused_executions s)" "\<not> sealed e"
    and t: "focused_executions t = map H (focused_executions s)"
      "browser_executions t = browser_executions s" "database_executions t = database_executions s"
    and H: "\<And>r. ex_id (H r) = ex_id r" "\<And>r. ex_id r \<noteq> ex_id e \<Longrightarrow> H r = r"
  shows "runs_kept s t"
  unfolding runs_kept_def
proof (intro impI conjI ballI)
  assume ok: "runs_ok s"
  have "map ex_id (map H (focused_executions s)) = map ex_id (focused_executions s)"
    using H(1) by simp
  with ok show "runs_ok t" unfolding runs_ok_def t by metis
  fix r assume r: "r \<in> set (focused_executions s)" "sealed r"
  have "ex_id r \<noteq> ex_id e"
    using key_unique [of ex_id "focused_executions s" r e] ok r e by (auto simp: runs_ok_def)
  then have "H r = r" by (rule H(2))
  with r(1) show "r \<in> set (focused_executions t)" unfolding t by (metis image_eqI list.set_map)
qed

lemma runs_update:
  assumes "runs_kept s t" "focused_executions t = E" "\<And>e. e \<in> set E \<Longrightarrow> P e \<Longrightarrow> \<not> sealed e"
    and "\<And>e. ex_id (F e) = ex_id e"
  shows "runs_kept s (t\<lparr>focused_executions := upd_where P F E\<rparr>)"
proof -
  have "map ex_id (upd_where P F E) = map ex_id E"
    using assms(4) by (simp add: upd_where_def)
  moreover have "e \<in> set (upd_where P F E)" if "e \<in> set E" "sealed e" for e
    using that assms(3) by (auto simp: set_upd_where image_iff)
  ultimately show ?thesis using assms(1,2) unfolding runs_kept_def runs_ok_def by simp
qed

lemma runs_other_update:
  "runs_kept s t \<Longrightarrow> browser_executions t = E \<Longrightarrow>
     runs_kept s (t\<lparr>browser_executions := upd_where P F E\<rparr>)"
  "runs_kept s t \<Longrightarrow> database_executions t = E' \<Longrightarrow>
     runs_kept s (t\<lparr>database_executions := upd_where P' F' E'\<rparr>)"
  by (simp_all add: runs_kept_def runs_ok_def upd_where_def)

section \<open>What a call leaves alone\<close>

definition same_campaign :: "campaign_row \<Rightarrow> campaign_row \<Rightarrow> bool" where
  "same_campaign c d \<longleftrightarrow> cp_id d = cp_id c \<and> cp_config d = cp_config c
     \<and> cp_global_limit d = cp_global_limit c \<and> cp_role_limits d = cp_role_limits c"

definition gathered :: "store \<Rightarrow> store \<Rightarrow> bool" where
  "gathered s t \<longleftrightarrow> list_all2 same_campaign (campaigns s) (campaigns t)
     \<and> items t = items s \<and> jobs t = jobs s \<and> attempts t = attempts s \<and> leases t = leases s
     \<and> definitions t = definitions s \<and> processes t = processes s \<and> controls t = controls s
     \<and> worktrees t = worktrees s \<and> worktree_operations t = worktree_operations s
     \<and> approvals t = approvals s \<and> (\<exists>es. events t = events s @ es)
     \<and> (\<exists>as. artifacts t = artifacts s @ as) \<and> runs_kept s t"

named_theorems gathered_intros \<open>updates a call may make\<close>

lemma gathered_refl [gathered_intros]: "gathered s s"
  by (auto simp: gathered_def same_campaign_def intro: list_all2_refl)

lemma gathered_event [gathered_intros]:
  "gathered s t \<Longrightarrow> gathered s (append_event k c i j a d n t)"
  unfolding gathered_def append_event_def by (auto intro: runs_tables)

lemma gathered_tables [gathered_intros]:
  "gathered s t \<Longrightarrow> gathered s (t\<lparr>focused_plans := x1\<rparr>)"
  "gathered s t \<Longrightarrow> gathered s (t\<lparr>browser_plans := x2\<rparr>)"
  "gathered s t \<Longrightarrow> gathered s (t\<lparr>database_plans := x3\<rparr>)"
  "gathered s t \<Longrightarrow> gathered s (t\<lparr>admissions := x4\<rparr>)"
  "gathered s t \<Longrightarrow> artifacts t = A \<Longrightarrow> gathered s (t\<lparr>artifacts := A @ [a]\<rparr>)"
  unfolding gathered_def by (auto intro: runs_tables)

lemma gathered_campaigns [gathered_intros]:
  assumes "gathered s t" "campaigns t = C" "\<And>c. same_campaign c (F c)"
  shows "gathered s (t\<lparr>campaigns := upd_where P F C\<rparr>)"
proof -
  have "list_all2 same_campaign C (upd_where P F C)"
    using assms(3) by (simp add: upd_where_def list_all2_map2 list_all2_same same_campaign_def)
  then have "list_all2 same_campaign (campaigns s) (upd_where P F C)"
    using assms(1,2) list_all2_trans [of same_campaign same_campaign same_campaign]
    unfolding gathered_def by (metis (mono_tags, lifting) same_campaign_def)
  then show ?thesis using assms(1) unfolding gathered_def by (auto intro: runs_tables)
qed

text \<open>Inserts.\<close>

lemma gathered_inserts:
  "insert_focused_plan r1 t = Inr t' \<Longrightarrow> gathered s t \<Longrightarrow> gathered s t'"
  "insert_browser_plan r2 t = Inr t' \<Longrightarrow> gathered s t \<Longrightarrow> gathered s t'"
  "insert_database_plan r3 t = Inr t' \<Longrightarrow> gathered s t \<Longrightarrow> gathered s t'"
  "insert_admission r4 t = Inr t' \<Longrightarrow> gathered s t \<Longrightarrow> gathered s t'"
  "insert_artifact r5 t = Inr t' \<Longrightarrow> gathered s t \<Longrightarrow> gathered s t'"
  unfolding insert_focused_plan_def insert_browser_plan_def insert_database_plan_def
    insert_admission_def insert_artifact_def
  by (auto intro: gathered_intros)

lemma gathered_new_execution:
  assumes "insert_focused_execution r t = Inr t'" "gathered s t"
  shows "gathered s t'"
proof -
  have t': "t' = t\<lparr>focused_executions := focused_executions t @ [r]\<rparr>"
    and new: "ex_id r \<notin> ex_id ` set (focused_executions t)"
    using assms(1) by (auto simp: insert_focused_execution_def has_key_def)
  have "runs_kept t t'" unfolding t' using new by (simp add: runs_kept_def runs_ok_def)
  then have "runs_kept s t'" using assms(2) by (auto simp: gathered_def intro: runs_trans)
  then show ?thesis using assms(2) unfolding t' gathered_def by simp
qed

section \<open>Every call\<close>

lemma plans_gathered:
  "wpR (\<lambda>(t, _). gathered st t) (create_focused_test_plan W W' i q f now st)"
  "wpR (\<lambda>(t, _). gathered st t) (create_browser_evidence_plan W i r route title body root secs f now st)"
  "wpR (\<lambda>(t, _). gathered st t) (create_database_query_plan W i r dq f now st)"
  unfolding create_focused_test_plan_def create_browser_evidence_plan_def
    create_database_query_plan_def Let_def
  by (intro wp_intros case_prodI gathered_intros; (elim gathered_inserts)?; intro gathered_intros)+

lemma admission_gathered:
  "wpR (\<lambda>(t, _). gathered st t)
     (create_focused_test_admission W c i j w p rs by_whom reason given f now st)"
  unfolding create_focused_test_admission_def Let_def
  by (intro wp_intros case_prodI gathered_event)
    (auto split: sum.splits simp: same_campaign_def elim!: gathered_inserts intro!: gathered_campaigns gathered_refl)

lemma prepare_gathered:
  "wpR (\<lambda>(t, _). gathered st t) (prepare_focused_test_execution W W' j w t' f now st)"
  unfolding prepare_focused_test_execution_def Let_def
  by (intro wp_intros case_prodI gathered_intros) (elim gathered_new_execution, rule gathered_refl)

lemma unsupported_collectors:
  "wpR (\<lambda>_. False) (prepare_browser_evidence_execution W p j w t now st)"
  "wpR (\<lambda>_. False) (prepare_database_query_execution W p j w t now st)"
  "wpR (\<lambda>_. False) (complete_browser_evidence_execution W j w t e route title body now st)"
  "wpR (\<lambda>_. False) (complete_database_query_execution W j w t e now st)"
  unfolding prepare_browser_evidence_execution_def prepare_database_query_execution_def
    complete_browser_evidence_execution_def complete_database_query_execution_def
  by (intro wp_intros)+

lemma verified_prepared: "verified_focused_result W job e r st = Inr x \<Longrightarrow> ex_status e = ExPrepared"
  by (auto simp: verified_focused_result_def)

lemma found_execution: "find_focused_execution a st = Some e \<Longrightarrow> e \<in> set (focused_executions st)"
  by (auto simp: find_focused_execution_def dest: find_SomeD)

lemma finished_gathered:
  assumes e: "e \<in> set (focused_executions st)" "ex_status e = ExPrepared"
    and st1: "insert_artifact x st = Inr st1" and st2: "insert_artifact y st1 = Inr st2"
    and F: "\<And>r. ex_id (F r) = ex_id r" and G: "\<And>r. ex_id (G r) = ex_id r"
  shows "gathered st (update_focused_execution (ex_id e) ExFinished G
    (append_event k c i j a d n (artifact_added e job w g k1 u1 n (artifact_added e job w f k2 u2 n
      (update_focused_execution (ex_id e) ExPrepared F st2)))))"
    (is "gathered st ?t")
proof -
  have both: "gathered st st2"
    using gathered_refl gathered_inserts(5) [OF st1] gathered_inserts(5) [OF st2] by blast
  have same: "focused_executions st2 = focused_executions st"
    "browser_executions st2 = browser_executions st" "database_executions st2 = database_executions st"
    using st1 st2 by (auto simp: insert_artifact_def)
  let ?P = "\<lambda>s r. ex_id r = ex_id e \<and> ex_status r = s"
  let ?H = "\<lambda>r. let r' = (if ?P ExPrepared r then F r else r) in if ?P ExFinished r' then G r' else r'"
  have "runs_kept st ?t"
  proof (rule runs_one [OF e(1)])
    show "\<not> sealed e" using e(2) by (simp add: sealed_def)
    show "focused_executions ?t = map ?H (focused_executions st)"
      by (simp add: same update_focused_execution_def artifact_added_def append_event_def upd_where_def
          Let_def)
    show "browser_executions ?t = browser_executions st" "database_executions ?t = database_executions st"
      by (simp_all add: same update_focused_execution_def artifact_added_def append_event_def)
    show "ex_id (?H r) = ex_id r" for r using F G by (simp add: Let_def)
    show "?H r = r" if "ex_id r \<noteq> ex_id e" for r using that F by (simp add: Let_def)
  qed
  with both show ?thesis
    by (auto simp: gathered_def update_focused_execution_def artifact_added_def append_event_def)
qed

lemma complete_gathered:
  "wpR (\<lambda>(t, _). gathered st t) (complete_focused_test_execution W j w t' r f g now st)"
  unfolding complete_focused_test_execution_def Let_def
  by (intro wp_intros case_prodI, rule finished_gathered)
    (auto dest: found_execution verified_prepared simp: finish_focused_execution_def)

lemma collector_gathered: "wpR (gathered st) (exec_collector W now c st)"
proof (cases c)
  case (CreateFocusedPlan W' i q f)
  then show ?thesis using plans_gathered(1) by (simp add: only_store_wp)
next
  case (CreateBrowserPlan i r route title body root secs f)
  then show ?thesis using plans_gathered(2) by (simp add: only_store_wp)
next
  case (CreateDatabasePlan i r q f)
  then show ?thesis using plans_gathered(3) by (simp add: only_store_wp)
next
  case (CreateAdmission c i j w p rs by_whom reason g f)
  then show ?thesis using admission_gathered by (simp add: only_store_wp)
next
  case (PrepareFocused W' j w t f)
  then show ?thesis using prepare_gathered by (simp add: only_store_wp)
next
  case (CompleteFocused j w t r f g)
  then show ?thesis using complete_gathered by (simp add: only_store_wp)
qed (use unsupported_collectors in \<open>auto simp: wpR_def\<close>)

section \<open>The queue\<close>

lemma gathered_campaigns_in:
  assumes "list_all2 same_campaign cs ds"
  shows "map cp_id ds = map cp_id cs" and "c \<in> set cs \<Longrightarrow> \<exists>d \<in> set ds. same_campaign c d"
    and "d \<in> set ds \<Longrightarrow> \<exists>c \<in> set cs. same_campaign c d"
proof -
  show "map cp_id ds = map cp_id cs"
    using assms by (induction rule: list_all2_induct) (simp_all add: same_campaign_def)
  show "c \<in> set cs \<Longrightarrow> \<exists>d \<in> set ds. same_campaign c d"
    using assms by (induction rule: list_all2_induct) auto
  show "d \<in> set ds \<Longrightarrow> \<exists>c \<in> set cs. same_campaign c d"
    using assms by (induction rule: list_all2_induct) auto
qed

lemma queue_ok_gathered:
  assumes ok: "queue_ok s" and gathered: "gathered s t"
  shows "queue_ok t"
proof -
  have same: "items t = items s" "jobs t = jobs s" "attempts t = attempts s" "leases t = leases s"
    "definitions t = definitions s" "processes t = processes s" "controls t = controls s"
    and cs: "list_all2 same_campaign (campaigns s) (campaigns t)"
    using gathered by (simp_all add: gathered_def)
  note ids = gathered_campaigns_in [OF cs]
  have image: "cp_id ` set (campaigns t) = cp_id ` set (campaigns s)" using ids(1) by (metis set_map)
  have "keys_ok t" using key_lists [OF ok] ids(1) by (simp add: keys_ok_def same)
  moreover have "owners_ok t" using queue_okD(2) [OF ok] unfolding owners_ok_def image same .
  moreover have "limits_ok t"
    unfolding limits_ok_def same
  proof
    fix d assume "d \<in> set (campaigns t)"
    from ids(3) [OF this] obtain c where c: "c \<in> set (campaigns s)" "same_campaign c d" by blast
    from c(2) have eq: "cp_id d = cp_id c" "cp_global_limit d = cp_global_limit c"
      "\<And>r. role_limit d r = role_limit c r"
      by (simp_all add: same_campaign_def role_limit_def cong: option.case_cong)
    show "0 \<le> cp_global_limit d
        \<and> int (rowcount (running_in (cp_id d)) (jobs s)) \<le> cp_global_limit d
        \<and> (\<forall>role. 0 \<le> role_limit d role
             \<and> int (rowcount (\<lambda>j. running_in (cp_id d) j \<and> jb_role j = role) (jobs s)) \<le> role_limit d role)"
      using queue_okD(11) [OF ok] c(1) unfolding limits_ok_def eq by blast
  qed
  ultimately show ?thesis
    using queue_okD [OF ok]
    by (simp add: queue_ok_def jobs_ok_def running_ok_def job_leases_def exclusive_ok_def
        items_ok_def attempts_ok_def leases_ok_def processes_ok_def controls_ok_def same
        cong: option.case_cong)
qed

lemma exec_collector_ok: "queue_ok st \<Longrightarrow> exec_collector W now c st = Inr st' \<Longrightarrow> queue_ok st'"
  using queue_ok_gathered wpD [OF collector_gathered] by blast

end
