(* ===== verification/Reach.thy ===== *)
theory Reach
  imports Provisioning Gathering
begin

text \<open>
  The store as a state machine.  A \<open>request\<close> is one call of a mutating method of
  \<open>SQLiteStore\<close> with its arguments, the identifiers it draws and, as a separate argument of
  \<open>exec\<close>, the clock it reads; \<open>exec\<close> is the transaction: the new store, or the exception that
  rolls it back.  \<open>reachable\<close> are the stores that any sequence of requests builds from an
  empty database; nothing is assumed about the clock, the order of the requests or the
  identifiers, so two workers' calls may interleave in every way a serialised database allows.

  \<open>fail_job\<close> is called with its default \<open>blocked_item_state\<close>: no caller passes another.
\<close>

text \<open>The calls on the life cycle of managed worktrees.\<close>

datatype worktree_call =
    RequestWorktree string string worktree_request string int string string
  | RecordOperationProcess string string string operation_process
  | ClearOperationProcess string string string int int bool
  | RecordOperationArtifacts string string string string string string string bool
  | RecordOperationIntent string string string string string
  | CompleteCreation string string string "(string \<times> json) list" "(string \<times> json) list"
      "(string \<times> json) list" bool
  | QuarantineOperation string string string "(string \<times> json) list" string
      "(string \<times> json) list option" bool bool
  | RequestCleanup string string int string string
  | CompleteRemoval string string string "(string \<times> json) list" "(string \<times> json) list"
      "(string \<times> json) list" bool
  | ClaimExpiredOperations string int int "nat \<Rightarrow> string"
  | ClaimQuarantinedOperations string int int "nat \<Rightarrow> string"
  | FinishQuarantinedRetry string string string string "(string \<times> json) list option"
  | ResumeQuarantinedOperation string string string

datatype request =
    CreateCampaign string "string option" string "(string \<times> json) list" int "(string \<times> int) list" string
  | CreateWorkItem string string "string option" string string int "string list"
      "(string \<times> json) list" "next_job option" string string
  | EnqueueJob string job_request string
  | ClaimJob string string int string string
  | HeartbeatJob string string string int
  | CommitStageResult string string string handoff string string string "(string \<times> json) list"
      "next_job option" string
  | FailJob string string string string "(string \<times> json) list" bool "time option" int
  | InterruptJob string string string string "string option"
  | ReleaseJob string string string string
  | RecoverExpiredLeases
  | RequestInterrupt string string string string string
  | RequestResume string string string string string string string
  | RecordSession string string string string string
  | RecordProcess string string string string process_identity string
  | ClearProcess string string string int int
  | ClaimReconciliation string int bool "string list" string
  | CompleteReconciliation string string string recorded_identity string string "(string \<times> json) list"
  | DefineResource string string resource_configuration string "resource_policy option"
      "string option" "(string \<times> json) list" bool "string option" string
  | SetResourceEnabled string bool string
  | AcquireResource string string int "string option" string
  | HeartbeatResource string string string int
  | ReleaseResource string string string
  | CreateApproval string string string "string option" "(string \<times> json) list" string
  | ResolveApproval string string string
  | AddArtifact string string string "string option" "(string \<times> json) list" string
  | RecordAttemptArtifact string string string string string "(string \<times> json) list" string
  | AddEvent string "string option" "string option" "string option" "string option"
      "(string \<times> json) list"
  | RevokeAdmission string string string
  | QuarantineWorktree string string string string
  | OnWorktree worktree_call
  | OnCollector collector_call

fun exec_worktree :: "world \<Rightarrow> time \<Rightarrow> worktree_call \<Rightarrow> store \<Rightarrow> store_error + store" where
  "exec_worktree W now (RequestWorktree c i q ow secs f t) st =
     only_store (request_managed_worktree W c i q ow secs f t now st)"
| "exec_worktree W now (RecordOperationProcess i ow t p) st =
     record_worktree_operation_process i ow t p now st"
| "exec_worktree W now (ClearOperationProcess i ow t pid pgid rec) st =
     clear_worktree_operation_process i ow t pid pgid rec now st"
| "exec_worktree W now (RecordOperationArtifacts i ow t out oh err eh rec) st =
     record_worktree_operation_artifacts W i ow t out oh err eh rec now st"
| "exec_worktree W now (RecordOperationIntent i ow t out err) st =
     record_worktree_operation_artifact_intent W i ow t out err now st"
| "exec_worktree W now (CompleteCreation i ow t e ob sn rec) st =
     complete_managed_worktree_creation i ow t e ob sn rec now st"
| "exec_worktree W now (QuarantineOperation i ow t e reason ob rec act) st =
     quarantine_worktree_operation i ow t e reason ob rec act now st"
| "exec_worktree W now (RequestCleanup i ow secs f t) st =
     only_store (request_managed_worktree_cleanup i ow secs f t now st)"
| "exec_worktree W now (CompleteRemoval i ow t e ob sn rec) st =
     complete_managed_worktree_removal i ow t e ob sn rec now st"
| "exec_worktree W now (ClaimExpiredOperations ow secs limit f) st =
     only_store (claim_expired_worktree_operations ow secs limit f now st)"
| "exec_worktree W now (ClaimQuarantinedOperations ow secs limit f) st =
     only_store (claim_quarantined_worktree_processes ow secs limit f now st)"
| "exec_worktree W now (FinishQuarantinedRetry i ow t reason ob) st =
     finish_quarantined_worktree_process_retry i ow t reason ob now st"
| "exec_worktree W now (ResumeQuarantinedOperation i ow t) st =
     resume_quarantined_worktree_operation i ow t now st"

fun exec :: "world \<Rightarrow> time \<Rightarrow> request \<Rightarrow> store \<Rightarrow> store_error + store" where
  "exec W now (CreateCampaign n g s c gl rl f) st =
     only_store (create_campaign n g s c gl rl f now st)"
| "exec W now (CreateWorkItem c t g d s p gates m j f fj) st =
     only_store (create_work_item c t g d s p gates m j f fj now st)"
| "exec W now (EnqueueJob i q f) st = only_store (enqueue_job i q f now st)"
| "exec W now (ClaimJob role worker secs a t) st =
     only_store (claim_job W role worker secs a t now st)"
| "exec W now (HeartbeatJob j w t secs) st = heartbeat_job W j w t secs now st"
| "exec W now (CommitStageResult j w t r e n k d next f) st =
     only_store (commit_stage_result W (attempt_handoff W) j w t r e n k d next f now st)"
| "exec W now (FailJob j w t e r rq av mx) st =
     only_store (fail_job W j w t e r rq av mx Blocked now st)"
| "exec W now (InterruptJob j w t reason rid) st = interrupt_job W j w t reason rid now st"
| "exec W now (ReleaseJob j w t reason) st = release_job W j w t reason now st"
| "exec W now RecoverExpiredLeases st = only_store (recover_expired_leases W now st)"
| "exec W now (RequestInterrupt j t by_whom reason f) st =
     only_store (request_job_interrupt W j t by_whom reason f now st)"
| "exec W now (RequestResume j src p s by_whom reason f) st =
     only_store (request_job_resume W j src p s by_whom reason f now st)"
| "exec W now (RecordSession j w t p s) st = record_external_session W j w t p s now st"
| "exec W now (RecordProcess j w t p i f) st = record_external_process W j w t p i f now st"
| "exec W now (ClearProcess j w t pid pgid) st = clear_external_process j w t pid pgid now st"
| "exec W now (ClaimReconciliation ow secs q ex t) st =
     only_store (claim_external_process_reconciliation ow secs q ex t now st)"
| "exec W now (CompleteReconciliation a ow t i s reason ob) st =
     only_store (complete_external_process_reconciliation W a ow t i s reason ob now st)"
| "exec W now (DefineResource k l c a p cid m e g f) st =
     only_store (define_resource W k l c a p cid m e g f now st)"
| "exec W now (SetResourceEnabled i e a) st = set_resource_enabled W i e a now st"
| "exec W now (AcquireResource k ow secs j t) st = only_store (acquire_resource k ow secs j t now st)"
| "exec W now (HeartbeatResource k ow t secs) st = only_store (heartbeat_resource k ow t secs now st)"
| "exec W now (ReleaseResource k ow t) st = only_store (release_resource k ow t now st)"
| "exec W now (CreateApproval c a r i s f) st = create_approval c a r i s f now st"
| "exec W now (ResolveApproval a s r) st = resolve_approval a s r now st"
| "exec W now (AddArtifact i k u j m f) st = add_artifact i k u j m f now st"
| "exec W now (RecordAttemptArtifact j w t k u m f) st =
     record_attempt_artifact W j w t k u m f now st"
| "exec W now (AddEvent k c i j a d) st = add_event k c i j a d now st"
| "exec W now (RevokeAdmission i r reason) st = revoke_focused_test_admission W i r reason now st"
| "exec W now (QuarantineWorktree j w t reason) st =
     quarantine_claimed_managed_worktree j w t reason now st"
| "exec W now (OnWorktree c) st = exec_worktree W now c st"
| "exec W now (OnCollector c) st = exec_collector W now c st"

text \<open>The file system may be another at every request.\<close>

inductive reachable :: "store \<Rightarrow> bool" where
  initial: "reachable empty_store"
| request: "reachable st \<Longrightarrow> exec W now r st = Inr st' \<Longrightarrow> reachable st'"

lemma exec_worktree_ok: "queue_ok st \<Longrightarrow> exec_worktree W now c st = Inr st' \<Longrightarrow> queue_ok st'"
  by (cases c) (auto intro: worktree_ok)

lemmas operation_ok =
  create_campaign_ok create_work_item_ok enqueue_job_ok claim_job_ok heartbeat_job_ok
  commit_stage_result_ok interrupt_job_ok release_job_ok recover_expired_leases_ok
  request_job_interrupt_ok request_job_resume_ok record_external_session_ok
  record_external_process_ok clear_external_process_ok claim_reconciliation_ok
  complete_reconciliation_ok define_resource_ok set_resource_enabled_ok acquire_resource_ok
  heartbeat_resource_ok release_resource_ok create_approval_ok resolve_approval_ok
  add_artifact_ok record_attempt_artifact_ok add_event_ok revoke_admission_ok
  quarantine_worktree_ok exec_worktree_ok exec_collector_ok

lemma blocked_idle [simp]: "\<not> is_active_state Blocked"
  by (simp add: is_active_state_def)

lemma exec_ok: "queue_ok st \<Longrightarrow> exec W now r st = Inr st' \<Longrightarrow> queue_ok st'"
  by (cases r) (auto intro: operation_ok fail_job_ok [OF _ blocked_idle])

lemma reachable_ok: "reachable st \<Longrightarrow> queue_ok st"
  by (induction rule: reachable.induct) (auto simp: queue_ok_empty intro: exec_ok)

text \<open>
  Several requests in turn: one that fails leaves the store as it was, which is what the
  rollback of its transaction does.
\<close>

fun serve :: "world \<Rightarrow> (time \<times> request) list \<Rightarrow> store \<Rightarrow> store" where
  "serve W [] st = st"
| "serve W ((now, r) # rs) st =
     serve W rs (case exec W now r st of Inl _ \<Rightarrow> st | Inr st' \<Rightarrow> st')"

lemma reachable_serve: "reachable st \<Longrightarrow> reachable (serve W rs st)"
proof (induction W rs st rule: serve.induct)
  case (2 W now r rs st)
  show ?case
  proof (cases "exec W now r st")
    case (Inl e)
    with 2 show ?thesis by simp
  next
    case (Inr st')
    with 2 show ?thesis by (auto intro: reachable.request)
  qed
qed simp

end
