(* ===== verification/Scenario.thy ===== *)
theory Scenario
  imports Reach
begin

text \<open>
  A small campaign on which the properties are exercised: one campaign that allows simulated
  evidence, two items, an investigation queued on each that needs the same resource.
\<close>

text \<open>A run of requests is evaluated with only the operations it calls.\<close>

lemma serve_let:
  "serve W ((now, r) # rs) st =
     (let s = st in let m = exec W now r s in serve W rs (case m of Inl _ \<Rightarrow> s | Inr t \<Rightarrow> t))"
  by (simp add: Let_def)

lemmas served = serve_let serve.simps(1) exec.simps exec_worktree.simps exec_collector.simps append.simps

definition queued_stage :: "string \<Rightarrow> string \<Rightarrow> string \<Rightarrow> string list \<Rightarrow> next_job" where
  "queued_stage role active_text job_id resources =
     \<lparr>nj_role = role, nj_stage = role, nj_queued_state = None, nj_active_state = active_text,
      nj_payload = [], nj_required_resources = resources, nj_required_approval_action = None,
      nj_workspace_kind = None, nj_managed_worktree_id = None, nj_priority = None,
      nj_available_at = None, nj_job_id = Some job_id\<rparr>"

definition open_campaign :: "(time \<times> request) list" where
  "open_campaign =
     [(0, CreateCampaign ''demo'' (Some ''c'') ''active''
            [(''allow_simulated_evidence'', JBool True)] 4 [] ''x''),
      (1, CreateWorkItem ''c'' ''first'' (Some ''i1'') ''first'' ''backlog'' 0 [''focused_tests''] []
            (Some (queued_stage ''investigator'' ''investigating'' ''j1'' [''db''])) ''x'' ''y''),
      (2, CreateWorkItem ''c'' ''second'' (Some ''i2'') ''second'' ''backlog'' 0 [''focused_tests''] []
            (Some (queued_stage ''investigator'' ''investigating'' ''j2'' [''db''])) ''x'' ''y'')]"

definition claim_one :: "(time \<times> request) list" where
  "claim_one = open_campaign @ [(10, ClaimJob ''investigator'' ''w1'' 60 ''a1'' ''t1'')]"

abbreviation run_on :: "(time \<times> request) list \<Rightarrow> store" where
  "run_on rs \<equiv> serve example_world rs empty_store"

lemma reachable_run_on: "reachable (run_on rs)"
  by (rule reachable_serve [OF reachable.initial])

text \<open>The store after the first claim, written out.\<close>

definition claimed_store :: store where
  "claimed_store =
   \<lparr>campaigns =
    [\<lparr>cp_id = ''c'', cp_name = ''demo'', cp_status = CampaignActive,
        cp_config = JObj [(''allow_simulated_evidence'', JBool True)],
        cp_global_limit = 4,
        cp_role_limits =
          [(''investigator'', 2), (''fixer'', 2), (''tester'', 2)],
        cp_created_at = 0, cp_updated_at = 0,
        cp_execution_mode = LegacyMode\<rparr>],
    items =
      [\<lparr>it_id = ''i1'', it_campaign_id = ''c'', it_title = ''first'',
          it_description = ''first'', it_state = Investigating,
          it_priority = 0, it_required_gates = [FocusedTests],
          it_metadata = JObj [], it_created_at = 1, it_updated_at = 10\<rparr>,
       \<lparr>it_id = ''i2'', it_campaign_id = ''c'', it_title = ''second'',
          it_description = ''second'', it_state = Backlog, it_priority = 0,
          it_required_gates = [FocusedTests], it_metadata = JObj [],
          it_created_at = 2, it_updated_at = 2\<rparr>],
    jobs =
      [\<lparr>jb_id = ''j1'', jb_campaign_id = ''c'', jb_item_id = ''i1'',
          jb_role = Investigator, jb_stage = ''investigator'',
          jb_status = JobRunning, jb_priority = 0, jb_payload = JObj [],
          jb_result = None, jb_required_resources = [''db''],
          jb_queued_state = Backlog, jb_active_state = Investigating,
          jb_required_approval_action = None, jb_available_at = 1,
          jb_lease_owner = Some ''w1'', jb_lease_token = Some ''t1'',
          jb_lease_expires_at = Some 70, jb_heartbeat_at = Some 10,
          jb_current_attempt_id = Some ''a1'', jb_attempt_count = 1,
          jb_last_error = None, jb_created_at = 1, jb_updated_at = 10,
          jb_workspace_kind = SourceReadOnly,
          jb_managed_worktree_id = None\<rparr>,
       \<lparr>jb_id = ''j2'', jb_campaign_id = ''c'', jb_item_id = ''i2'',
          jb_role = Investigator, jb_stage = ''investigator'',
          jb_status = JobPending, jb_priority = 0, jb_payload = JObj [],
          jb_result = None, jb_required_resources = [''db''],
          jb_queued_state = Backlog, jb_active_state = Investigating,
          jb_required_approval_action = None, jb_available_at = 2,
          jb_lease_owner = None, jb_lease_token = None,
          jb_lease_expires_at = None, jb_heartbeat_at = None,
          jb_current_attempt_id = None, jb_attempt_count = 0,
          jb_last_error = None, jb_created_at = 2, jb_updated_at = 2,
          jb_workspace_kind = SourceReadOnly,
          jb_managed_worktree_id = None\<rparr>],
    attempts =
      [\<lparr>at_id = ''a1'', at_job_id = ''j1'', at_number = 1,
          at_worker_id = ''w1'', at_lease_token = ''t1'',
          at_status = AttemptRunning, at_result = None, at_error = None,
          at_started_at = 10, at_heartbeat_at = 10,
          at_lease_expires_at = 70, at_finished_at = None,
          at_external_provider = None, at_external_session_id = None,
          at_external_process_id = None,
          at_external_process_group_id = None,
          at_external_process_executable = None,
          at_external_process_started_at = None,
          at_managed_worktree_id = None,
          at_managed_worktree_generation = None, at_admission_id = None\<rparr>],
    events =
      [\<lparr>en_campaign_id = Some ''c'', en_item_id = None, en_job_id = None,
          en_kind = ''campaign.created'', en_actor = None,
          en_data = JObj [(''status'', JStr ''active'')],
          en_created_at = 0\<rparr>,
       \<lparr>en_campaign_id = Some ''c'', en_item_id = Some ''i1'',
          en_job_id = None, en_kind = ''work_item.created'',
          en_actor = None, en_data = JObj [(''state'', JStr ''backlog'')],
          en_created_at = 1\<rparr>,
       \<lparr>en_campaign_id = Some ''c'', en_item_id = Some ''i1'',
          en_job_id = Some ''j1'', en_kind = ''job.enqueued'',
          en_actor = None,
          en_data =
            JObj
             [(''role'', JStr ''investigator''),
              (''stage'', JStr ''investigator'')],
          en_created_at = 1\<rparr>,
       \<lparr>en_campaign_id = Some ''c'', en_item_id = Some ''i2'',
          en_job_id = None, en_kind = ''work_item.created'',
          en_actor = None, en_data = JObj [(''state'', JStr ''backlog'')],
          en_created_at = 2\<rparr>,
       \<lparr>en_campaign_id = Some ''c'', en_item_id = Some ''i2'',
          en_job_id = Some ''j2'', en_kind = ''job.enqueued'',
          en_actor = None,
          en_data =
            JObj
             [(''role'', JStr ''investigator''),
              (''stage'', JStr ''investigator'')],
          en_created_at = 2\<rparr>,
       \<lparr>en_campaign_id = Some ''c'', en_item_id = Some ''i1'',
          en_job_id = Some ''j1'', en_kind = ''job.claimed'',
          en_actor = Some ''w1'',
          en_data =
            JObj
             [(''attempt_id'', JStr ''a1''), (''attempt_number'', JNum 1),
              (''lease_token'', JStr ''t1''),
              (''resources'', JArr [JStr ''db'']),
              (''focused_test_admission_id'', JNull),
              (''from_state'', JStr ''backlog''),
              (''to_state'', JStr ''investigating'')],
          en_created_at = 10\<rparr>],
    approvals = [], artifacts = [],
    leases =
      [\<lparr>ls_key = ''db'', ls_slot = 1, ls_definition_id = None,
          ls_owner = ''w1'', ls_job_id = Some ''j1'', ls_token = ''t1'',
          ls_acquired_at = 10, ls_heartbeat_at = 10, ls_expires_at = 70,
          ls_identity_hash = None\<rparr>],
    definitions = [], processes = [], controls = [], worktrees = [],
    worktree_operations = [], focused_plans = [], focused_executions = [], browser_plans = [], browser_executions = [],
    database_plans = [], database_executions = [], admissions = []\<rparr>"

lemma run_on_claim_one: "run_on claim_one = claimed_store"
  unfolding served claim_one_def open_campaign_def by code_simp

lemma reachable_claimed: "reachable claimed_store"
  using reachable_run_on [of claim_one] unfolding run_on_claim_one .

abbreviation after_claim :: "(time \<times> request) list \<Rightarrow> store" where
  "after_claim rs \<equiv> serve example_world rs claimed_store"

lemma reachable_after_claim: "reachable (after_claim rs)"
  by (rule reachable_serve [OF reachable_claimed])

end
