(* ===== verification/Safety.thy ===== *)
theory Safety
  imports Scenario
begin

text \<open>
  What holds in every reachable store: the exclusion and the limits that the queue promises
  its workers, whatever they call, in whatever order and with whatever clock.
\<close>

section \<open>Exclusion\<close>

text \<open>
  C23.  One worker per item.  In every reachable store the item of a running job is in the
  active state of the job's role, and no other running job works on that item.
\<close>

theorem one_running_job_per_item:
  assumes "reachable st" "j \<in> set (jobs st)" "jb_status j = JobRunning"
  shows "(\<exists>i \<in> set (items st). it_id i = jb_item_id j \<and> it_state i = active_state (jb_role j))
    \<and> (\<forall>k \<in> set (jobs st). jb_status k = JobRunning \<and> jb_item_id k = jb_item_id j \<longrightarrow> k = j)"
proof -
  have ok: "queue_ok st" using assms(1) by (rule reachable_ok)
  have "running j" using assms(3) by (simp add: running_def)
  with running_item [OF ok assms(2)] job_states(2) [OF ok assms(2)]
  have "\<exists>i \<in> set (items st). it_id i = jb_item_id j \<and> it_state i = active_state (jb_role j)"
    by metis
  moreover have "\<forall>k \<in> set (jobs st). jb_status k = JobRunning \<and> jb_item_id k = jb_item_id j \<longrightarrow> k = j"
    using queue_okD(5) [OF ok] assms(2,3) unfolding exclusive_ok_def running_def by metis
  ultimately show ?thesis by blast
qed

lemma one_running_job_per_item_witness:
  "jb_status (hd (jobs (claimed_store))) = JobRunning
   \<and> (\<exists>i \<in> set (items (claimed_store)). it_id i = jb_item_id (hd (jobs (claimed_store)))
        \<and> it_state i = active_state (jb_role (hd (jobs (claimed_store)))))"
proof -
  have run: "jb_status (hd (jobs (claimed_store))) = JobRunning"
    and some: "jobs (claimed_store) \<noteq> []"
    by code_simp+
  with one_running_job_per_item [OF reachable_claimed hd_in_set run] show ?thesis by blast
qed

text \<open>
  C24.  An item is in an active state (investigating, fixing, testing) exactly when a job runs
  on it, and then in the state of that job's role: no crash, failure, interruption or recovery
  leaves an item active with no worker, and no claim leaves one waiting while it is worked on.
\<close>

theorem active_item_has_running_job:
  assumes "reachable st" "i \<in> set (items st)"
  shows "(it_state i \<in> {Investigating, Fixing, Testing}
      \<longleftrightarrow> (\<exists>j \<in> set (jobs st). jb_status j = JobRunning \<and> jb_item_id j = it_id i))
    \<and> (\<forall>j \<in> set (jobs st). jb_status j = JobRunning \<and> jb_item_id j = it_id i
        \<longrightarrow> it_state i = active_state (jb_role j))"
proof -
  have ok: "queue_ok st" using assms(1) by (rule reachable_ok)
  have state: "it_state i = active_state (jb_role j)"
    if j: "j \<in> set (jobs st)" "jb_status j = JobRunning" "jb_item_id j = it_id i" for j
  proof -
    have "running j" using j(2) by (simp add: running_def)
    then obtain i' where "i' \<in> set (items st)" "it_id i' = it_id i" "it_state i' = jb_active_state j"
      using running_item [OF ok j(1)] j(3) by metis
    then show ?thesis using item_unique [OF ok _ assms(2)] job_states(2) [OF ok j(1)] by metis
  qed
  have active: "active_state r \<in> {Investigating, Fixing, Testing}" for r by (cases r) simp_all
  have worked: "\<exists>j \<in> set (jobs st). jb_status j = JobRunning \<and> jb_item_id j = it_id i"
    if "it_state i \<in> {Investigating, Fixing, Testing}"
  proof -
    have "is_active_state (it_state i)" using that by (auto simp: is_active_state_def)
    then show ?thesis
      using queue_okD(6) [OF ok] assms(2) unfolding items_ok_def running_def by blast
  qed
  have "it_state i \<in> {Investigating, Fixing, Testing}"
    if "\<exists>j \<in> set (jobs st). jb_status j = JobRunning \<and> jb_item_id j = it_id i"
  proof -
    obtain j where "j \<in> set (jobs st)" "jb_status j = JobRunning" "jb_item_id j = it_id i"
      using \<open>\<exists>j \<in> set (jobs st). jb_status j = JobRunning \<and> jb_item_id j = it_id i\<close> by blast
    from state [OF this] show ?thesis by (simp only: active)
  qed
  with worked state show ?thesis by blast
qed

lemma active_item_has_running_job_witness:
  "it_state (hd (items claimed_store)) \<in> {Investigating, Fixing, Testing}
   \<and> (\<exists>j \<in> set (jobs claimed_store). jb_status j = JobRunning \<and> jb_item_id j = ''i1'')"
proof -
  have j: "\<exists>j \<in> set (jobs claimed_store). jb_status j = JobRunning \<and> jb_item_id j = ''i1''"
    by code_simp
  have i: "it_id (hd (items claimed_store)) = ''i1''" "items claimed_store \<noteq> []"
    by code_simp+
  show ?thesis
    using active_item_has_running_job [OF reachable_claimed hd_in_set [OF i(2)]] i(1) j by simp
qed

section \<open>Resources\<close>

definition holders :: "string \<Rightarrow> store \<Rightarrow> lease_row list" where
  "holders key st = filter (\<lambda>l. ls_key l = key) (leases st)"

definition capacity :: "string \<Rightarrow> store \<Rightarrow> nat" where
  "capacity key st = (case find_definition key st of None \<Rightarrow> 1
     | Some d \<Rightarrow> max 1 (nat (rp_limit (rd_policy d))))"

lemma lease_slot_capacity:
  assumes ok: "queue_ok st" and l: "l \<in> set (leases st)"
  shows "1 \<le> ls_slot l \<and> ls_slot l \<le> capacity (ls_key l) st"
proof -
  note l' = bspec [OF queue_okD(8) [OF ok, unfolded leases_ok_def] l]
  show ?thesis
  proof (cases "ls_definition_id l")
    case None
    with l' show ?thesis by (simp add: capacity_def split: option.splits)
  next
    case (Some i)
    with l' obtain d where d: "d \<in> set (definitions st)" "rd_id d = ls_key l"
        "int (ls_slot l) \<le> rp_limit (rd_policy d)" by auto
    have "find_definition (ls_key l) st = Some d"
      using find_by_key [OF key_lists(8) [OF ok] d(1)] d(2) by (simp add: find_definition_def)
    with l' d(3) show ?thesis by (simp add: capacity_def)
  qed
qed

text \<open>
  C25.  Resource capacity.  In every reachable store a registered resource is held at most as
  many times as its concurrency policy allows, and every other resource key at most once,
  whether jobs or standalone owners hold it.
\<close>

theorem resource_capacity:
  assumes "reachable st"
  shows "length (holders key st) \<le> capacity key st"
proof -
  have ok: "queue_ok st" using assms by (rule reachable_ok)
  let ?slots = "map ls_slot (holders key st)"
  have "distinct (map (\<lambda>l. (ls_key l, ls_slot l)) (holders key st))"
    unfolding holders_def by (rule distinct_map_filter [OF key_lists(5) [OF ok]])
  moreover have "map (\<lambda>l. (ls_key l, ls_slot l)) (holders key st) = map (Pair key) ?slots"
    by (auto simp: holders_def)
  ultimately have "distinct ?slots" by (simp add: distinct_map inj_on_def)
  moreover have "set ?slots \<subseteq> {1..capacity key st}"
    using lease_slot_capacity [OF ok] by (auto simp: holders_def)
  ultimately have "card (set ?slots) \<le> capacity key st" and "card (set ?slots) = length ?slots"
    using card_mono [of "{1..capacity key st}" "set ?slots"] distinct_card [of ?slots] by auto
  then show ?thesis by simp
qed

lemma resource_capacity_witness:
  "map ls_owner (holders ''db'' (after_claim [(11, ClaimJob ''investigator'' ''w2'' 60 ''a2'' ''t2'')]))
     = [''w1''] \<and> length (holders ''db'' (claimed_store)) \<le> 1"
proof -
  have "capacity ''db'' (claimed_store) = 1" by code_simp
  with resource_capacity [OF reachable_claimed, of "''db''"]
  have "length (holders ''db'' (claimed_store)) \<le> 1" by simp
  moreover have "map ls_owner (holders ''db''
      (after_claim [(11, ClaimJob ''investigator'' ''w2'' 60 ''a2'' ''t2'')])) = [''w1'']"
    unfolding served by code_simp
  ultimately show ?thesis by blast
qed

text \<open>
  C26.  A running job holds all it asked for.  Its leases are on exactly the resources it
  requires, one on each, and every one carries the job's owner, token and expiry; a job that
  does not run holds none.
\<close>

theorem job_holds_exactly_its_resources:
  assumes "reachable st" "j \<in> set (jobs st)"
  shows "if jb_status j = JobRunning
    then set (map ls_key (job_leases (jb_id j) st)) = set (jb_required_resources j)
      \<and> distinct (map ls_key (job_leases (jb_id j) st))
      \<and> (\<forall>l \<in> set (job_leases (jb_id j) st). Some (ls_owner l) = jb_lease_owner j
           \<and> Some (ls_token l) = jb_lease_token j \<and> Some (ls_expires_at l) = jb_lease_expires_at j)
    else job_leases (jb_id j) st = [] \<and> jb_lease_owner j = None \<and> jb_lease_token j = None
      \<and> jb_lease_expires_at j = None \<and> jb_current_attempt_id j = None"
proof -
  have ok: "queue_ok st" using assms(1) by (rule reachable_ok)
  show ?thesis
  proof (cases "running j")
    case True
    have "\<forall>l \<in> set (job_leases (jb_id j) st). lease_of j l"
      using running_lease [OF ok assms(2) True] by (simp add: job_leases_def)
    with running_resources [OF ok assms(2) True] True show ?thesis
      by (simp add: running_def lease_of_def)
  next
    case False
    have "ls_job_id l \<noteq> Some (jb_id j)" if l: "l \<in> set (leases st)" for l
    proof
      assume "ls_job_id l = Some (jb_id j)"
      then obtain k where "k \<in> set (jobs st)" "running k" "jb_id k = jb_id j"
        using bspec [OF queue_okD(8) [OF ok, unfolded leases_ok_def] l] by auto
      with job_unique [OF ok _ assms(2)] False show False by blast
    qed
    then have "job_leases (jb_id j) st = []" by (simp add: job_leases_def filter_empty_conv)
    with not_running_unleased [OF ok assms(2) False] False show ?thesis
      by (simp add: running_def unleased_def)
  qed
qed

lemma job_holds_exactly_its_resources_witness:
  "map ls_key (job_leases ''j1'' (claimed_store)) = [''db''] \<and> job_leases ''j2'' (claimed_store) = []"
proof -
  have j: "jb_status (last (jobs (claimed_store))) = JobPending" "jobs (claimed_store) \<noteq> []"
      "jb_id (last (jobs (claimed_store))) = ''j2''"
      "map ls_key (job_leases ''j1'' (claimed_store)) = [''db'']"
    by code_simp+
  from job_holds_exactly_its_resources [OF reachable_claimed last_in_set [OF j(2)]] j(1,3)
  have "job_leases ''j2'' (claimed_store) = []" by simp
  with j(4) show ?thesis by simp
qed

section \<open>Limits\<close>

text \<open>
  C27.  Concurrency limits.  In every reachable store a campaign has at most \<open>global_limit\<close>
  running jobs, and at most \<open>role_limits[role]\<close> of each role.
\<close>

theorem concurrency_limits:
  assumes "reachable st" "c \<in> set (campaigns st)"
  shows "int (rowcount (running_in (cp_id c)) (jobs st)) \<le> cp_global_limit c
    \<and> int (rowcount (\<lambda>j. running_in (cp_id c) j \<and> jb_role j = role) (jobs st)) \<le> role_limit c role"
  using queue_okD(11) [OF reachable_ok [OF assms(1)]] assms(2) unfolding limits_ok_def by blast

lemma concurrency_limits_witness:
  "int (rowcount (running_in ''c'') (jobs (claimed_store))) \<le> 4"
proof -
  have c: "campaigns (claimed_store) \<noteq> []" "cp_id (hd (campaigns (claimed_store))) = ''c''"
      "cp_global_limit (hd (campaigns (claimed_store))) = 4"
    by code_simp+
  from concurrency_limits [OF reachable_claimed hd_in_set [OF c(1)]] c(2,3) show ?thesis by simp
qed

section \<open>Attempts and processes\<close>

text \<open>
  C28.  Running attempts and running jobs are paired.  A running attempt is the one its running
  job names, with the job's own owner, token and expiry, and no attempt number exceeds the job's
  count; and a running job has such an attempt, and only one.
\<close>

theorem running_attempts_match_jobs:
  assumes "reachable st"
  shows "(\<forall>a \<in> set (attempts st). \<exists>j \<in> set (jobs st). jb_id j = at_job_id a
      \<and> at_number a \<le> jb_attempt_count j
      \<and> (at_status a = AttemptRunning \<longrightarrow> jb_status j = JobRunning
           \<and> jb_current_attempt_id j = Some (at_id a) \<and> jb_lease_owner j = Some (at_worker_id a)
           \<and> jb_lease_token j = Some (at_lease_token a)
           \<and> jb_lease_expires_at j = Some (at_lease_expires_at a)))
    \<and> (\<forall>j \<in> set (jobs st). jb_status j = JobRunning \<longrightarrow>
        (\<exists>a \<in> set (attempts st). at_status a = AttemptRunning \<and> at_job_id a = jb_id j
           \<and> jb_current_attempt_id j = Some (at_id a) \<and> jb_lease_owner j = Some (at_worker_id a)
           \<and> jb_lease_token j = Some (at_lease_token a)
           \<and> jb_lease_expires_at j = Some (at_lease_expires_at a)
           \<and> (\<forall>b \<in> set (attempts st). at_status b = AttemptRunning \<and> at_job_id b = jb_id j \<longrightarrow> b = a)))"
proof (intro conjI ballI impI)
  have ok: "queue_ok st" using assms by (rule reachable_ok)
  have named: "attempt_of j a \<and> running j"
    if a: "a \<in> set (attempts st)" "at_status a = AttemptRunning"
      and j: "j \<in> set (jobs st)" "jb_id j = at_job_id a" for a j
  proof -
    note row = bspec [OF queue_okD(7) [OF ok, unfolded attempts_ok_def] a(1)]
    obtain k where k: "k \<in> set (jobs st)" "running k" "attempt_of k a"
      using row [THEN conjunct1, rule_format, OF a(2)] by (elim bexE conjE)
    have "jb_id k = jb_id j" using k(3) j(2) by (simp add: attempt_of_def)
    then have "k = j" by (rule job_unique [OF ok k(1) j(1)])
    with k show ?thesis by simp
  qed
  fix a assume a: "a \<in> set (attempts st)"
  obtain j where j: "j \<in> set (jobs st)" "jb_id j = at_job_id a" "at_number a \<le> jb_attempt_count j"
    using bspec [OF queue_okD(7) [OF ok, unfolded attempts_ok_def] a] by blast
  show "\<exists>j \<in> set (jobs st). jb_id j = at_job_id a \<and> at_number a \<le> jb_attempt_count j
      \<and> (at_status a = AttemptRunning \<longrightarrow> jb_status j = JobRunning
           \<and> jb_current_attempt_id j = Some (at_id a) \<and> jb_lease_owner j = Some (at_worker_id a)
           \<and> jb_lease_token j = Some (at_lease_token a)
           \<and> jb_lease_expires_at j = Some (at_lease_expires_at a))"
    using j named [OF a _ j(1,2)] by (auto simp: attempt_of_def running_def)
next
  have ok: "queue_ok st" using assms by (rule reachable_ok)
  fix j assume j: "j \<in> set (jobs st)" "jb_status j = JobRunning"
  then obtain a where a: "a \<in> set (attempts st)" "attempt_of j a"
    using running_attempt [OF ok] by (metis running_def)
  have "b = a"
    if b: "b \<in> set (attempts st)" "at_status b = AttemptRunning" "at_job_id b = jb_id j" for b
  proof -
    note row = bspec [OF queue_okD(7) [OF ok, unfolded attempts_ok_def] b(1)]
    obtain k where k: "k \<in> set (jobs st)" "running k" "attempt_of k b"
      using row [THEN conjunct1, rule_format, OF b(2)] by (elim bexE conjE)
    have "jb_id k = jb_id j" using k(3) b(3) by (simp add: attempt_of_def)
    then have "k = j" by (rule job_unique [OF ok k(1) j(1)])
    then have "at_id b = at_id a" using k(3) a(2) by (simp add: attempt_of_def)
    then show "b = a" by (rule attempt_unique [OF ok b(1) a(1)])
  qed
  then have only: "\<forall>b \<in> set (attempts st). at_status b = AttemptRunning \<and> at_job_id b = jb_id j \<longrightarrow> b = a"
    by (intro ballI impI) (elim conjE)
  have its: "at_status a = AttemptRunning" "at_job_id a = jb_id j" "jb_current_attempt_id j = Some (at_id a)"
    "jb_lease_owner j = Some (at_worker_id a)" "jb_lease_token j = Some (at_lease_token a)"
    "jb_lease_expires_at j = Some (at_lease_expires_at a)"
    using a(2) by (simp_all add: attempt_of_def)
  show "\<exists>a \<in> set (attempts st). at_status a = AttemptRunning \<and> at_job_id a = jb_id j
           \<and> jb_current_attempt_id j = Some (at_id a) \<and> jb_lease_owner j = Some (at_worker_id a)
           \<and> jb_lease_token j = Some (at_lease_token a)
           \<and> jb_lease_expires_at j = Some (at_lease_expires_at a)
           \<and> (\<forall>b \<in> set (attempts st). at_status b = AttemptRunning \<and> at_job_id b = jb_id j \<longrightarrow> b = a)"
    by (intro bexI [OF _ a(1)] conjI its only)
qed

lemma running_attempts_match_jobs_witness:
  "\<exists>j \<in> set (jobs claimed_store). \<exists>a \<in> set (attempts claimed_store).
     jb_status j = JobRunning \<and> at_job_id a = jb_id j \<and> jb_lease_token j = Some (at_lease_token a)"
proof -
  have "\<exists>j \<in> set (jobs claimed_store). jb_status j = JobRunning" by code_simp
  with running_attempts_match_jobs [OF reachable_claimed] show ?thesis by blast
qed

text \<open>
  C29.  An unresolved external process belongs to the running attempt of a running job, and an
  attempt has at most one: no attempt can be ended or replaced while its process may live.
\<close>

theorem unresolved_process_pins_its_attempt:
  assumes "reachable st" "p \<in> set (processes st)" "ep_state p \<noteq> ProcStopped"
  shows "(\<exists>j \<in> set (jobs st). jb_status j = JobRunning \<and> jb_id j = ep_job_id p
      \<and> jb_current_attempt_id j = Some (ep_attempt_id p))
    \<and> (\<forall>q \<in> set (processes st). ep_state q \<noteq> ProcStopped \<and> ep_attempt_id q = ep_attempt_id p \<longrightarrow> q = p)"
proof -
  have ok: "queue_ok st" using assms(1) by (rule reachable_ok)
  have p: "unresolved p" using assms(3) by (simp add: unresolved_def)
  then obtain a where a: "a \<in> set (attempts st)" "at_id a = ep_attempt_id p"
      "at_status a = AttemptRunning" "at_job_id a = ep_job_id p"
    using queue_okD(9) [OF ok] assms(2) unfolding processes_ok_def by blast
  then obtain j where "j \<in> set (jobs st)" "running j" "attempt_of j a"
    using queue_okD(7) [OF ok] unfolding attempts_ok_def by blast
  with a have "\<exists>j \<in> set (jobs st). jb_status j = JobRunning \<and> jb_id j = ep_job_id p
      \<and> jb_current_attempt_id j = Some (ep_attempt_id p)"
    by (auto simp: attempt_of_def running_def)
  moreover have "\<forall>q \<in> set (processes st). ep_state q \<noteq> ProcStopped
      \<and> ep_attempt_id q = ep_attempt_id p \<longrightarrow> q = p"
    using queue_okD(9) [OF ok] assms(2) p unfolding processes_ok_def unresolved_def by metis
  ultimately show ?thesis by blast
qed

definition example_process :: process_identity where
  "example_process = \<lparr>pi_process_id = 42, pi_process_group_id = 42, pi_owner_uid = 501,
     pi_kernel_executable = ''/bin/codex'', pi_start_seconds = 9, pi_start_microseconds = 0,
     pi_target_executable = ''/bin/codex''\<rparr>"

definition start_process :: "(time \<times> request) list" where
  "start_process = [(12, RecordProcess ''j1'' ''w1'' ''t1'' ''codex'' example_process ''p1'')]"

lemma unresolved_process_pins_its_attempt_witness:
  "\<exists>j \<in> set (jobs (after_claim start_process)). jb_current_attempt_id j = Some ''a1''"
proof -
  have p: "processes (after_claim start_process) \<noteq> []"
      "ep_state (hd (processes (after_claim start_process))) \<noteq> ProcStopped"
      "ep_attempt_id (hd (processes (after_claim start_process))) = ''a1''"
    unfolding served start_process_def by code_simp+
  from unresolved_process_pins_its_attempt [OF reachable_after_claim hd_in_set [OF p(1)] p(2)] p(3)
  show ?thesis by auto
qed

end
