(* ===== verification/History.thy ===== *)
theory History
  imports Scenario
begin

text \<open>
  History: what is over stays as it was.  No operation rewrites the event log, an ended
  attempt, a finished job, a resolved approval or an artifact, and no operation but the commit
  of a tester's result makes an item green.
\<close>

named_theorems kept_intros \<open>updates that keep the history\<close>

section \<open>Keeping the history\<close>

definition finished :: "job_row \<Rightarrow> bool" where
  "finished j \<longleftrightarrow> jb_status j = JobCompleted \<or> jb_status j = JobFailed"

text \<open>
  \<open>chronicle G s t\<close>: \<open>t\<close> continues the history of \<open>s\<close>, and an item that is green only in \<open>t\<close>
  satisfies \<open>G\<close>; a campaign keeps its configuration.
\<close>

definition chronicle :: "(item_row \<Rightarrow> bool) \<Rightarrow> store \<Rightarrow> store \<Rightarrow> bool" where
  "chronicle G s t \<longleftrightarrow> (\<exists>es. events t = events s @ es)
     \<and> (\<forall>j \<in> set (jobs s). finished j \<longrightarrow> j \<in> set (jobs t))
     \<and> (\<forall>a \<in> set (attempts s). at_status a \<noteq> AttemptRunning \<longrightarrow> a \<in> set (attempts t))
     \<and> (\<forall>a \<in> set (approvals s). ap_status a \<noteq> ApprovalPending \<longrightarrow> a \<in> set (approvals t))
     \<and> set (artifacts s) \<subseteq> set (artifacts t)
     \<and> (\<forall>c \<in> set (campaigns s). \<exists>d \<in> set (campaigns t). same_campaign c d)
     \<and> (\<forall>i \<in> set (items t). it_state i = VerifiedGreen \<longrightarrow> i \<in> set (items s) \<or> G i)
     \<and> runs_kept s t"

text \<open>
  \<open>settled s t\<close>: the worktrees and their operations are those of \<open>s\<close>; a job keeps its item and
  its worktree, a new one has no worktree or a ready one of its item; closed items stay closed.
\<close>

definition closed_item :: "item_row \<Rightarrow> bool" where
  "closed_item i \<longleftrightarrow> it_state i = VerifiedGreen \<or> it_state i = Blocked"

definition same_home :: "job_row \<Rightarrow> job_row \<Rightarrow> bool" where
  "same_home j k \<longleftrightarrow> jb_item_id k = jb_item_id j \<and> jb_managed_worktree_id k = jb_managed_worktree_id j"

definition fits :: "worktree_row list \<Rightarrow> job_row \<Rightarrow> bool" where
  "fits ws j \<longleftrightarrow> (case jb_managed_worktree_id j of None \<Rightarrow> True
     | Some i \<Rightarrow> (\<exists>w \<in> set ws. wt_id w = i \<and> wt_item_id w = jb_item_id j \<and> wt_state w = WtReady))"

definition settled :: "store \<Rightarrow> store \<Rightarrow> bool" where
  "settled s t \<longleftrightarrow> worktrees t = worktrees s \<and> worktree_operations t = worktree_operations s
     \<and> (\<forall>k \<in> set (jobs t). (\<exists>j \<in> set (jobs s). same_home j k) \<or> fits (worktrees s) k)
     \<and> (\<forall>i \<in> set (items s). closed_item i \<longrightarrow> i \<in> set (items t))"

definition kept :: "(item_row \<Rightarrow> bool) \<Rightarrow> store \<Rightarrow> store \<Rightarrow> bool" where
  "kept G s t \<longleftrightarrow> chronicle G s t \<and> settled s t"

abbreviation quietly :: "store \<Rightarrow> store \<Rightarrow> bool" where
  "quietly \<equiv> kept (\<lambda>_. False)"

lemma same_home_refl [simp]: "same_home j j"
  by (simp add: same_home_def)

lemma same_home_trans: "same_home j k \<Longrightarrow> same_home k l \<Longrightarrow> same_home j l"
  by (simp add: same_home_def)

lemmas home_simps = same_home_def closed_item_def in_state_def

lemma same_home_fits: "same_home j k \<Longrightarrow> fits ws j \<Longrightarrow> fits ws k"
  by (auto simp: same_home_def fits_def split: option.splits)

lemma same_campaign_refl [simp]: "same_campaign c c"
  by (simp add: same_campaign_def)

lemma same_campaign_trans: "same_campaign c d \<Longrightarrow> same_campaign d e \<Longrightarrow> same_campaign c e"
  by (simp add: same_campaign_def)

lemma chronicle_refl: "chronicle G s s"
  unfolding chronicle_def using same_campaign_refl runs_refl by blast

lemma settled_refl: "settled s s"
  unfolding settled_def using same_home_refl by blast

lemma kept_refl [kept_intros]: "kept G s s"
  by (simp add: kept_def chronicle_refl settled_refl)

lemma chronicle_trans: "chronicle G s t \<Longrightarrow> chronicle G t u \<Longrightarrow> chronicle G s u"
proof -
  assume s: "chronicle G s t" and t: "chronicle G t u"
  from s t obtain es fs where "events t = events s @ es" "events u = events t @ fs"
    unfolding chronicle_def by (elim conjE exE) (rule that)
  then have log: "\<exists>es. events u = events s @ es" by simp
  note s' = s [unfolded chronicle_def, THEN conjunct2]
    and t' = t [unfolded chronicle_def, THEN conjunct2]
  show ?thesis
    unfolding chronicle_def
  proof (intro conjI log)
    show "\<forall>j \<in> set (jobs s). finished j \<longrightarrow> j \<in> set (jobs u)" using s' t' by blast
    show "\<forall>a \<in> set (attempts s). at_status a \<noteq> AttemptRunning \<longrightarrow> a \<in> set (attempts u)"
      using s' t' by blast
    show "\<forall>a \<in> set (approvals s). ap_status a \<noteq> ApprovalPending \<longrightarrow> a \<in> set (approvals u)"
      using s' t' by blast
    show "set (artifacts s) \<subseteq> set (artifacts u)" using s' t' by blast
    show "\<forall>c \<in> set (campaigns s). \<exists>d \<in> set (campaigns u). same_campaign c d"
    proof
      fix c assume "c \<in> set (campaigns s)"
      then obtain d where d: "d \<in> set (campaigns t)" "same_campaign c d" using s' by blast
      then obtain e where e: "e \<in> set (campaigns u)" "same_campaign d e" using t' by blast
      from same_campaign_trans [OF d(2) e(2)] e(1) show "\<exists>d \<in> set (campaigns u). same_campaign c d" ..
    qed
    show "runs_kept s u" using s t runs_trans [of s t u] by (simp add: chronicle_def)
    show "\<forall>i \<in> set (items u). it_state i = VerifiedGreen \<longrightarrow> i \<in> set (items s) \<or> G i"
      using s' t' by blast
  qed
qed

lemma settled_trans:
  assumes "settled s t" "settled t u"
  shows "settled s u"
proof -
  have "(\<exists>j \<in> set (jobs s). same_home j k) \<or> fits (worktrees s) k" if "k \<in> set (jobs u)" for k
    using assms that unfolding settled_def by (metis same_home_trans same_home_fits)
  with assms show ?thesis unfolding settled_def by auto
qed

lemma kept_trans: "kept G s t \<Longrightarrow> kept G t u \<Longrightarrow> kept G s u"
  unfolding kept_def by (blast intro: chronicle_trans settled_trans)

lemma chronicle_mono: "chronicle (\<lambda>_. False) s t \<Longrightarrow> chronicle G s t"
  by (auto simp: chronicle_def)

lemma kept_mono: "quietly s t \<Longrightarrow> kept G s t"
  by (simp add: kept_def chronicle_mono)

lemma chronicle_tables:
  "jobs t' = jobs t \<Longrightarrow> attempts t' = attempts t \<Longrightarrow> approvals t' = approvals t
   \<Longrightarrow> artifacts t' = artifacts t \<Longrightarrow> campaigns t' = campaigns t \<Longrightarrow> items t' = items t
   \<Longrightarrow> (\<exists>es. events t' = events t @ es) \<Longrightarrow> runs_kept t t' \<Longrightarrow> chronicle G s t \<Longrightarrow> chronicle G s t'"
  unfolding chronicle_def using runs_trans by auto

lemma kept_tables:
  "jobs t' = jobs t \<Longrightarrow> attempts t' = attempts t \<Longrightarrow> approvals t' = approvals t
   \<Longrightarrow> artifacts t' = artifacts t \<Longrightarrow> campaigns t' = campaigns t \<Longrightarrow> items t' = items t
   \<Longrightarrow> (\<exists>es. events t' = events t @ es) \<Longrightarrow> runs_kept t t' \<Longrightarrow> worktrees t' = worktrees t
   \<Longrightarrow> worktree_operations t' = worktree_operations t \<Longrightarrow> kept G s t \<Longrightarrow> kept G s t'"
  unfolding kept_def settled_def by (simp add: chronicle_tables)

lemma kept_event [kept_intros]: "kept G s t \<Longrightarrow> kept G s (append_event k c i j a d n t)"
  by (rule kept_tables) (simp_all add: append_event_def)

lemma kept_lease_events [kept_intros]:
  "kept G s t \<Longrightarrow> kept G s (append_resource_lease_events W k ls c i j a n t)"
  by (induction W k ls c i j a n t rule: append_resource_lease_events.induct)
    (simp_all add: kept_event)

lemma kept_other_tables [kept_intros]:
  "kept G s t \<Longrightarrow> kept G s (t\<lparr>leases := x1\<rparr>)"
  "kept G s t \<Longrightarrow> kept G s (t\<lparr>definitions := x3\<rparr>)"
  "kept G s t \<Longrightarrow> kept G s (t\<lparr>processes := x4\<rparr>)"
  "kept G s t \<Longrightarrow> kept G s (t\<lparr>controls := x5\<rparr>)"
  "kept G s t \<Longrightarrow> kept G s (t\<lparr>admissions := x9\<rparr>)"
  by (rule kept_tables; simp)+

lemma kept_jobs [kept_intros]:
  assumes "kept G s t" "jobs t = J" "\<And>j. j \<in> set J \<Longrightarrow> P j \<Longrightarrow> \<not> finished j"
    and "\<And>j. same_home j (F j)"
  shows "kept G s (t\<lparr>jobs := upd_where P F J\<rparr>)"
proof -
  have "chronicle G s (t\<lparr>jobs := upd_where P F J\<rparr>)"
    using assms(1-3) unfolding kept_def chronicle_def by (auto simp: set_upd_where image_iff)
  moreover have "settled t (t\<lparr>jobs := upd_where P F J\<rparr>)"
    using assms(2,4) same_home_refl unfolding settled_def
    by (auto simp: set_upd_where image_iff) (meson same_home_refl)+
  ultimately show ?thesis
    using assms(1) unfolding kept_def by (blast intro: settled_trans)
qed

lemma kept_new_job [kept_intros]:
  assumes "kept G s t" "jobs t = J" "fits (worktrees t) j"
  shows "kept G s (t\<lparr>jobs := J @ [j]\<rparr>)"
  using assms unfolding kept_def chronicle_def settled_def by auto

lemma kept_attempts [kept_intros]:
  "kept G s t \<Longrightarrow> attempts t = J \<Longrightarrow> (\<And>a. a \<in> set J \<Longrightarrow> P a \<Longrightarrow> at_status a = AttemptRunning) \<Longrightarrow>
     kept G s (t\<lparr>attempts := upd_where P F J\<rparr>)"
  unfolding kept_def settled_def chronicle_def by (auto simp: set_upd_where image_iff)

lemma kept_new_attempt [kept_intros]:
  "kept G s t \<Longrightarrow> attempts t = J \<Longrightarrow> kept G s (t\<lparr>attempts := J @ [a]\<rparr>)"
  unfolding kept_def settled_def chronicle_def by auto

lemma kept_approvals [kept_intros]:
  "kept G s t \<Longrightarrow> approvals t = J \<Longrightarrow> (\<And>a. a \<in> set J \<Longrightarrow> P a \<Longrightarrow> ap_status a = ApprovalPending) \<Longrightarrow>
     kept G s (t\<lparr>approvals := upd_where P F J\<rparr>)"
  unfolding kept_def settled_def chronicle_def by (auto simp: set_upd_where image_iff)

lemma kept_new_approval [kept_intros]:
  "kept G s t \<Longrightarrow> approvals t = J \<Longrightarrow> kept G s (t\<lparr>approvals := J @ [a]\<rparr>)"
  unfolding kept_def settled_def chronicle_def by auto

lemma kept_new_artifact [kept_intros]:
  "kept G s t \<Longrightarrow> artifacts t = J \<Longrightarrow> kept G s (t\<lparr>artifacts := J @ [a]\<rparr>)"
  unfolding kept_def settled_def chronicle_def by auto

lemma kept_new_campaign [kept_intros]:
  "kept G s t \<Longrightarrow> campaigns t = J \<Longrightarrow> kept G s (t\<lparr>campaigns := J @ [c]\<rparr>)"
  unfolding kept_def settled_def chronicle_def by auto

lemma kept_items [kept_intros]:
  "kept G s t \<Longrightarrow> items t = J
   \<Longrightarrow> (\<And>i. i \<in> set J \<Longrightarrow> P i \<Longrightarrow> it_state (F i) = VerifiedGreen \<Longrightarrow> G (F i))
   \<Longrightarrow> (\<And>i. i \<in> set J \<Longrightarrow> P i \<Longrightarrow> \<not> closed_item i)
   \<Longrightarrow> kept G s (t\<lparr>items := upd_where P F J\<rparr>)"
  unfolding kept_def chronicle_def settled_def by (auto simp: set_upd_where image_iff split: if_splits)

lemma kept_new_item [kept_intros]:
  "kept G s t \<Longrightarrow> items t = J \<Longrightarrow> it_state i \<noteq> VerifiedGreen \<Longrightarrow> kept G s (t\<lparr>items := J @ [i]\<rparr>)"
  unfolding kept_def chronicle_def settled_def by auto

lemma kept_if: "kept G s t \<Longrightarrow> kept G s u \<Longrightarrow> kept G s (if b then t else u)"
  by simp

lemma end_executions_log:
  "\<exists>es. events (end_executions j st r n a t) = events t @ es"
  "worktree_operations (end_executions j st r n a t) = worktree_operations t"
  by (simp_all add: end_executions_def end_prepared_focused_execution_def
      end_prepared_evidence_executions_def execution_ended_event_def append_event_def Let_def)

lemma end_executions_runs: "runs_kept t (end_executions j st r n a t)"
proof -
  let ?F = "\<lambda>e. e\<lparr>ex_status := st, ex_error := Some r, ex_finished_at := Some n, ex_updated_at := n\<rparr>"
  have focused: "focused_executions (end_executions j st r n a t)
      = upd_where (prepared_for (jb_current_attempt_id j)) ?F (focused_executions t)"
    by (simp add: end_executions_def end_prepared_focused_execution_def end_prepared_def Let_def
        end_prepared_evidence_executions_def execution_ended_event_def append_event_def)
  have idle: "browser_executions t = [] \<Longrightarrow> browser_executions (end_executions j st r n a t) = []"
    "database_executions t = [] \<Longrightarrow> database_executions (end_executions j st r n a t) = []"
    by (simp_all add: end_executions_def end_prepared_focused_execution_def end_prepared_def Let_def
        end_prepared_evidence_executions_def execution_ended_event_def append_event_def upd_where_def)
  have "runs_kept t (t\<lparr>focused_executions := upd_where (prepared_for (jb_current_attempt_id j)) ?F
      (focused_executions t)\<rparr>)"
    by (rule runs_update [OF runs_refl refl])
      (auto simp: prepared_for_def sealed_def split: option.splits)
  with focused idle show ?thesis by (simp add: runs_kept_def runs_ok_def)
qed

lemma kept_end_executions [kept_intros]:
  "kept G s t \<Longrightarrow> kept G s (end_executions j st r n a t)"
  by (rule kept_tables) (simp_all add: end_executions_runs end_executions_log)

section \<open>Ends of an attempt\<close>

lemma running_unfinished:
  assumes "queue_ok st" "job \<in> set (jobs st)" "running job" "j \<in> set (jobs st)" "jb_id j = jb_id job"
  shows "\<not> finished j"
  using job_unique [OF assms(1,4,2,5)] assms(3) by (simp add: finished_def running_def)

lemma queued_not_green: "queued_state r \<noteq> VerifiedGreen" "active_state r \<noteq> VerifiedGreen"
  by (cases r; simp)+

lemma open_states: "queued_state r \<noteq> Blocked" "active_state r \<noteq> Blocked"
  by (cases r; simp)+

lemma unlease_home [simp]:
  "jb_item_id (unlease s n k) = jb_item_id k"
  "jb_managed_worktree_id (unlease s n k) = jb_managed_worktree_id k"
  by (simp_all add: unlease_def)

lemma interrupt_job_kept:
  assumes ok: "queue_ok st" and run: "interrupt_job W i worker token reason rid now st = Inr st'"
  shows "quietly st st'"
proof -
  from run obtain job where job: "find_job i st = Some job" "live_lease worker token now job"
    unfolding interrupt_job_def Let_def by auto
  have j: "job \<in> set (jobs st)" "jb_id job = i" "running job"
    using find_job_in [OF ok job(1)] live_leaseD [OF job(2)] by auto
  note side = running_unfinished [OF ok j(1,3), unfolded j(2)] job_states(1) [OF ok j(1)]
    job_states(2) [OF ok j(1)]
    queued_not_green open_states
  from run job side show ?thesis
    by (cases rid) (auto simp: home_simps interrupt_job_def Let_def move_item_def finish_attempt_def is_running_attempt_def
        intro!: kept_intros)
qed

lemma fail_job_kept:
  assumes ok: "queue_ok st"
    and run: "fail_job W i worker token error result rq av mx Blocked now st = Inr (st', b)"
  shows "quietly st st'"
proof -
  from run obtain job where job: "find_job i st = Some job" "live_lease worker token now job"
    unfolding fail_job_def Let_def by auto
  have j: "job \<in> set (jobs st)" "jb_id job = i" "running job"
    using find_job_in [OF ok job(1)] live_leaseD [OF job(2)] by auto
  note side = running_unfinished [OF ok j(1,3), unfolded j(2)] job_states(1) [OF ok j(1)]
    job_states(2) [OF ok j(1)]
    queued_not_green open_states
  have "wpR (\<lambda>(st', b). quietly st st') (fail_job W i worker token error result rq av mx Blocked now st)"
    unfolding fail_job_def Let_def
    by (intro wp_intros)
      (use job side in \<open>auto simp: home_simps move_item_def finish_attempt_def is_running_attempt_def
        intro!: kept_intros\<close>)
  from wpD [OF this run] show ?thesis by simp
qed

lemma expire_job_kept:
  assumes ok: "queue_ok st" and j: "job \<in> set (jobs st)" and st0: "quietly st st0" "jobs st0 = jobs st"
    and run: "expire_job_after_lease W job error data now st0 = Inr st'"
  shows "quietly st st'"
proof -
  from run obtain st1 where reject: "reject_pending_interrupt job error now st0 = Inr st1"
    unfolding expire_job_after_lease_def by auto
  have st1: "quietly st st1"
    using reject st0(1)
    by (auto simp: reject_pending_interrupt_def Let_def split: option.splits intro!: kept_intros)
  from run reject st1 job_states [OF ok j] queued_not_green open_states show ?thesis
    by (auto simp: home_simps expire_job_after_lease_def Let_def move_item_def finish_attempt_def
        is_running_attempt_def finished_def intro!: kept_intros)
qed

section \<open>Recovery, claims and heartbeats\<close>

lemma recover_jobs_kept:
  assumes "queue_ok st" "\<forall>j \<in> set js. j \<in> set (jobs st) \<and> running j" "distinct js"
    and "recover_jobs W now js (st, ids, pending) = Inr (st', ids', pending')"
  shows "quietly st st'"
  using assms
proof (induction js arbitrary: st ids pending)
  case Nil
  then show ?case by (simp add: kept_refl)
next
  case (Cons j js)
  have j: "j \<in> set (jobs st)" "running j" using Cons.prems(2) by simp_all
  show ?case
  proof (cases "blocked_by_process st j")
    case True
    then obtain p where "has_unresolved_process (jb_current_attempt_id j) st = Some p"
      using has_unresolved_process_None by (metis not_Some_eq)
    with Cons.prems(4) have "recover_jobs W now js (st, ids, pending @ [(jb_id j, p)])
        = Inr (st', ids', pending')" by simp
    then show ?thesis by (rule Cons.IH [OF Cons.prems(1), rotated 2]) (use Cons.prems in auto)
  next
    case False
    obtain st1 where st1: "expire_job_after_lease W j ''lease expired'' [] now st = Inr st1"
        "closes st j st1"
      using expire_unblocked [OF Cons.prems(1) j False] by blast
    have ok1: "queue_ok st1" by (rule queue_ok_closes [OF Cons.prems(1) j st1(2)])
    obtain j' where j': "set (jobs st1) = insert j' (set (jobs st) - {j})"
      using Cons.prems(1) j(1) st1(2) by (rule closes_jobs)
    have "recover_jobs W now js (st1, ids @ [jb_id j], pending) = Inr (st', ids', pending')"
      using False Cons.prems(4) st1(1) by (simp add: has_unresolved_process_None [symmetric])
    then have "quietly st1 st'"
      by (rule Cons.IH [OF ok1, rotated 2]) (use Cons.prems(2,3) j' in auto)
    moreover have "quietly st st1"
      by (rule expire_job_kept [OF Cons.prems(1) j(1) kept_refl refl st1(1)])
    ultimately show ?thesis by (blast intro: kept_trans)
  qed
qed

lemma release_orphans_kept: "kept G s t \<Longrightarrow> kept G s (release_orphans W now ls t)"
proof (induction ls arbitrary: t)
  case (Cons l ls)
  have "kept G s (release_orphan W now l t)"
    using Cons.prems by (auto simp: release_orphan_def Let_def split: option.splits intro!: kept_intros)
  then show ?case by (simp add: Cons.IH)
qed simp

lemma recover_expired_kept:
  assumes ok: "queue_ok st" and run: "recover_expired W now st = Inr (st', r)"
  shows "quietly st st'"
proof -
  let ?js = "order_by jb_id (filter (lease_expired now) (jobs st))"
  from run obtain st1 ids pending where
      loop: "recover_jobs W now ?js (st, [], []) = Inr (st1, ids, pending)"
    and st': "st' = release_orphans W now (filter (orphaned_lease now st1) (leases st1)) st1"
    unfolding recover_expired_def Let_def by auto
  have "distinct (jobs st)" using key_lists(3) [OF ok] by (simp add: distinct_map)
  then have "distinct ?js" by (simp add: order_by_def)
  moreover have "\<forall>j \<in> set ?js. j \<in> set (jobs st) \<and> running j"
    by (simp add: lease_expired_def running_def)
  ultimately have "quietly st st1" using recover_jobs_kept [OF ok _ _ loop] by blast
  then show ?thesis unfolding st' by (rule release_orphans_kept)
qed

lemma insert_leases_kept: "foldR insert_lease rows t = Inr t' \<Longrightarrow> kept G s t \<Longrightarrow> kept G s t'"
proof (induction rows arbitrary: t)
  case (Cons l rows)
  then show ?case by (auto simp: insert_lease_def intro: kept_intros)
qed simp

lemma claimed_kept:
  assumes run: "claimed W worker secs now st job st' c" and job: "jb_active_state job \<noteq> VerifiedGreen"
    and queued: "jb_queued_state job \<notin> {VerifiedGreen, Blocked}"
  shows "quietly st st'"
proof -
  from run obtain grant st1 attempt token st2 st3 resume where
      "move_item (jb_item_id job) (jb_queued_state job) (jb_active_state job) now st = Inr st1"
    and "insert_attempt (claimed_attempt job grant worker token attempt (now + secs) now)
       (st1\<lparr>jobs := upd_where (\<lambda>j. jb_id j = jb_id job \<and> jb_status j = JobPending)
         (leased_job worker token attempt (now + secs) now (jb_attempt_count job + 1)) (jobs st1)\<rparr>) = Inr st2"
    and leases: "foldR insert_lease (map (claimed_lease job worker token (now + secs) now) (cg_plan grant)) st2
       = Inr st3"
    and resume: "consume_resume W job attempt now (claim_events W job grant worker attempt token now st3)
       = Inr (st', resume)"
    unfolding claimed_def take_claim_def Let_def by auto
  then have "quietly st st2"
    using job queued by (auto simp: home_simps leased_job_def move_item_def insert_attempt_def finished_def intro!: kept_intros)
  with leases have "quietly st st3" by (rule insert_leases_kept)
  with resume show ?thesis
    by (auto simp: consume_resume_def claim_events_def Let_def split: option.splits intro!: kept_intros)
qed

lemma claim_job_kept:
  assumes ok: "queue_ok st" and run: "claim_job W role worker secs attempt token now st = Inr (st', r)"
  shows "quietly st st'"
  using ok run
proof (rule claim_job_cases)
  fix st1 rec js
  assume rec: "recover_expired W now st = Inr (st1, rec)" and ok1: "queue_ok st1"
    and js: "\<forall>j \<in> set js. \<exists>ro. worker_role_of (py_lower role) = Some ro \<and> j \<in> set (jobs st1)
      \<and> claimable ro now st1 j"
    and first: "claim_first W js worker attempt token secs now st1 = Inr (st', r)"
  have recovered: "quietly st st1" by (rule recover_expired_kept [OF ok rec])
  show ?thesis
    using claim_first_cases [OF first]
  proof
    assume "\<exists>job \<in> set js. \<exists>c. r = Some c \<and> claimed W worker secs now st1 job st' c"
    then obtain job c where job: "job \<in> set js" "claimed W worker secs now st1 job st' c" by blast
    then have "job \<in> set (jobs st1)" using js by blast
    then have "jb_active_state job \<noteq> VerifiedGreen" "jb_queued_state job \<notin> {VerifiedGreen, Blocked}"
      using job_states(1,2) [OF ok1] queued_not_green open_states by auto
    with job(2) have "quietly st1 st'" by (rule claimed_kept)
    with recovered show ?thesis by (rule kept_trans)
  qed (use recovered in simp)
qed

lemma heartbeat_job_kept:
  assumes ok: "queue_ok st" and run: "heartbeat_job W i worker token secs now st = Inr st'"
  shows "quietly st st'"
proof -
  from run obtain job where job: "find_job i st = Some job" "live_lease worker token now job"
    unfolding heartbeat_job_def Let_def by auto
  have j: "job \<in> set (jobs st)" "jb_id job = i" "running job"
    using find_job_in [OF ok job(1)] live_leaseD [OF job(2)] by auto
  from run running_unfinished [OF ok j(1,3), unfolded j(2)] show ?thesis
    by (auto simp: home_simps heartbeat_job_def Let_def is_running_attempt_def intro!: kept_intros)
qed

end
