(* ===== verification/Passing.thy ===== *)
theory Passing
  imports History
begin

text \<open>
  What a passing canonical handoff rests on: a finished focused execution of the attempt's job
  whose test passed with exit code zero.  The three-gate pipeline never yields one, since no
  browser execution can be recorded.
\<close>

lemma checked_outcome: "validate_test_outcome t = Inr h \<Longrightarrow> h = t"
  by (cases "th_outcome t") (auto simp: validate_test_outcome_def Let_def)

lemma validated_outcome: "validate_test_handoff raw = Inr h \<Longrightarrow> th_outcome h = th_outcome raw"
  by (auto simp: validate_test_handoff_def dest!: checked_outcome)

lemma semantic_pass:
  "focused_semantic_outcome selector exit_code out err = Inr (''pass'', summary) \<Longrightarrow> exit_code = 0"
  by (auto simp: focused_semantic_outcome_def Let_def split: if_splits)

lemma canonical_pass:
  "th_outcome (canonical_focused_handoff e out err b) = TestPass \<longleftrightarrow> ex_outcome e = Some ''pass''"
  by (simp add: canonical_focused_handoff_def Let_def)

lemma finished_focusedD:
  assumes "assert_finished_focused_execution W job e st = Inr x"
  shows "sealed e" "ex_job_id e = jb_id job" "ex_item_id e = jb_item_id job"
    and "\<exists>n out err summary. fx_exit_code e = Some n
      \<and> focused_semantic_outcome (fx_selector e) n out err = Inr (the (ex_outcome e), summary)"
    and "\<forall>h. fx_canonical_handoff e = Some h \<longrightarrow> (\<exists>a b r. h = canonical_focused_handoff e a b r)"
  using assms by (auto simp: assert_finished_focused_execution_def sealed_def Let_def) blast+

lemma pipeline_never_passes:
  assumes "pipeline_handoff W job focused st = Inr raw" "browser_executions st = []"
  shows "th_outcome raw \<noteq> TestPass"
  using assms
  by (cases "th_outcome focused")
    (auto simp: pipeline_handoff_def canonical_pipeline_handoff_def assert_finished_browser_execution_def
      finished_execution_def Let_def)

lemma attempt_handoff_pass:
  assumes run: "attempt_handoff W job gates st = Inr raw" and pass: "th_outcome raw = TestPass"
    and gates: "authoritative_gates gates" and runs: "runs_ok st"
  obtains e where "gates = [FocusedTests]" "e \<in> set (focused_executions st)" "sealed e"
    "ex_job_id e = jb_id job" "ex_item_id e = jb_item_id job" "ex_outcome e = Some ''pass''"
    "fx_exit_code e = Some 0" "fx_canonical_handoff e = Some raw"
proof -
  from run obtain e focused x where e: "attempt_execution job st = Some e"
    and handoff: "fx_canonical_handoff e = Some focused"
    and ok: "assert_finished_focused_execution W job e st = Inr x"
    and last: "(if gates = default_required_gates then pipeline_handoff W job focused st
               else Inr focused) = Inr raw"
    by (auto simp: attempt_handoff_def)
  have "gates \<noteq> default_required_gates"
    using last pipeline_never_passes pass runs by (auto simp: runs_ok_def)
  with last gates have only: "gates = [FocusedTests]" "raw = focused"
    by (auto simp: authoritative_gates_def)
  note fin = finished_focusedD [OF ok]
  have outcome: "ex_outcome e = Some ''pass''"
    using fin(5) handoff only(2) pass canonical_pass by metis
  with fin(4) semantic_pass have "fx_exit_code e = Some 0" by fastforce
  moreover have "e \<in> set (focused_executions st)"
    using e by (auto simp: attempt_execution_def dest: find_SomeD)
  ultimately show ?thesis using that only fin(1-3) outcome handoff by blast
qed

end
