(* ===== verification/Lasting.thy ===== *)
theory Lasting
  imports Passing
begin

text \<open>
  Every request keeps the history, and what follows from it: ended attempts, finished jobs,
  resolved approvals and the event log never change, and an item is green only on the evidence
  of a completed tester job.
\<close>

section \<open>The remaining operations\<close>

lemma insert_job_kept:
  "insert_job j t = Inr t' \<Longrightarrow> fits (worktrees t) j \<Longrightarrow> kept G s t \<Longrightarrow> kept G s t'"
  by (auto simp: insert_job_def intro!: kept_intros)

lemma check_request_fits:
  "check_request_worktree role kind given item st = Inr u \<Longrightarrow> jb_managed_worktree_id j = given
   \<Longrightarrow> jb_item_id j = it_id item \<Longrightarrow> fits (worktrees st) j"
  by (auto simp: check_request_worktree_def fits_def list_ex_iff split: option.splits)

lemma enqueue_job_row_fits:
  assumes "enqueue_job_row i q f now t = Inr j"
  shows "fits (worktrees t) j"
proof -
  from assms obtain item role kind where "find_item i t = Some item"
      "check_request_worktree role kind (jr_managed_worktree_id q) item t = Inr ()"
      "jb_managed_worktree_id j = jr_managed_worktree_id q" "jb_item_id j = i"
    unfolding enqueue_job_row_def item_with_campaign_def
    by (elim bindR_Inr_iff [THEN iffD1, elim_format] exE conjE)
      (auto simp: bind_eq_Some_conv)
  moreover from this(1) have "it_id item = i" by (auto dest: find_itemD)
  ultimately show ?thesis by (auto intro: check_request_fits)
qed

lemma enqueue_job_kept: "enqueue_job i q f now t = Inr (t', jid) \<Longrightarrow> kept G s t \<Longrightarrow> kept G s t'"
  by (auto simp: enqueue_job_def intro!: kept_intros dest: insert_job_kept enqueue_job_row_fits)

lemma create_campaign_kept:
  "create_campaign n g s c gl rl f now st = Inr (st', i) \<Longrightarrow> quietly st st'"
  by (auto simp: create_campaign_def insert_campaign_def Let_def intro!: kept_intros)

lemma create_work_item_kept:
  assumes "create_work_item cid title given desc state prio gates meta init fresh fj now st = Inr (st', i)"
  shows "quietly st st'"
proof -
  let ?event = "\<lambda>s. append_event ''work_item.created'' (Some cid) (Some (given_or given fresh))
    None None [(''state'', JStr (item_state_value s))] now"
  let ?item = "\<lambda>s ks. \<lparr>it_id = given_or given fresh, it_campaign_id = cid, it_title = title,
    it_description = desc, it_state = s, it_priority = prio, it_required_gates = ks,
    it_metadata = JObj meta, it_created_at = now, it_updated_at = now\<rparr>"
  from assms obtain s ks st1 where s: "creatable_state s" and ins: "insert_item (?item s ks) st = Inr st1"
    and rest: "(case init of None \<Rightarrow> Inr (?event s st1, given_or given fresh)
     | Some n \<Rightarrow> bindR (enqueue_job (given_or given fresh)
          (next_job_request n (item_state_value s) (nj_workspace_kind n)
             (nj_managed_worktree_id n) prio now) fj now (?event s st1))
             (\<lambda>(st3, _). Inr (st3, given_or given fresh)))
       = (Inr (st', i) :: store_error + store \<times> string)"
    unfolding create_work_item_def Let_def by auto
  have "quietly st st1"
    using ins s by (auto simp: insert_item_def creatable_state_def intro!: kept_intros)
  then have "quietly st (?event s st1)" by (rule kept_event)
  with rest show ?thesis by (cases init) (auto dest: enqueue_job_kept)
qed

lemma operator_kept:
  "request_job_interrupt W j t by_whom reason f now st = Inr (st', c) \<Longrightarrow> quietly st st'"
  "request_job_resume W j src p s by_whom reason f now st = Inr (st', c) \<Longrightarrow> quietly st st'"
  by (auto simp: request_job_interrupt_def request_job_resume_def insert_control_def Let_def
      split: option.splits sum.splits intro!: kept_intros)

lemma session_kept:
  "record_external_session W j w t p s now st = Inr st' \<Longrightarrow> quietly st st'"
  by (auto simp: record_external_session_def Let_def is_running_attempt_def split: if_splits
      intro!: kept_intros)

lemma process_kept:
  "record_external_process W j w t p i f now st = Inr st' \<Longrightarrow> quietly st st'"
  "clear_external_process j w t pid pgid now st = Inr st' \<Longrightarrow> quietly st st'"
  by (auto simp: record_external_process_def clear_external_process_def insert_process_def Let_def
      is_running_attempt_def split: if_splits option.splits sum.splits intro!: kept_intros)

lemma claim_reconciliation_kept:
  "claim_external_process_reconciliation ow secs q ex t now st = Inr (st', r) \<Longrightarrow> quietly st st'"
  by (auto simp: claim_external_process_reconciliation_def Let_def split: option.splits
      intro!: kept_intros)

lemma registry_kept:
  "define_resource W k l c a p cid m e g f now st = Inr (st', i) \<Longrightarrow> quietly st st'"
  "set_resource_enabled W i' en a' now st = Inr st' \<Longrightarrow> quietly st st'"
  by (auto simp: define_resource_def insert_definition_def set_resource_enabled_def Let_def
      split: if_splits intro!: kept_intros)

lemma standalone_kept:
  "acquire_resource k ow secs j t now st = Inr (st', r) \<Longrightarrow> quietly st st'"
  "heartbeat_resource k ow t secs now st = Inr (st', b) \<Longrightarrow> quietly st st'"
  "release_resource k ow t now st = Inr (st', b) \<Longrightarrow> quietly st st'"
  by (auto simp: acquire_resource_def heartbeat_resource_def release_resource_def insert_lease_def
      Let_def split: if_splits option.splits intro!: kept_intros)

lemma approval_kept:
  "create_approval c a r i sc f now st = Inr st' \<Longrightarrow> quietly st st'"
  "resolve_approval ap s r now st = Inr st' \<Longrightarrow> quietly st st'"
  by (auto simp: create_approval_def insert_approval_def resolve_approval_def Let_def
      intro!: kept_intros)

lemma record_kept:
  "add_artifact i k u j m f now st = Inr st' \<Longrightarrow> quietly st st'"
  "record_attempt_artifact W jb w t k u m f now st = Inr st' \<Longrightarrow> quietly st st'"
  "add_event k c i' jo a d now st = Inr st' \<Longrightarrow> quietly st st'"
  "revoke_focused_test_admission W ad r reason now st = Inr st' \<Longrightarrow> quietly st st'"
  by (auto simp: add_artifact_def insert_artifact_def record_attempt_artifact_def add_event_def
      revoke_focused_test_admission_def Let_def
      split: if_splits option.splits intro!: kept_intros)

lemma complete_reconciliation_kept:
  assumes ok: "queue_ok st"
    and run: "complete_external_process_reconciliation W i owner token expected status_text
      reason_text observed now st = Inr (st', b)"
  shows "quietly st st'"
proof -
  let ?status = "py_lower (py_strip status_text)"
  let ?reason = "py_strip reason_text"
  from run obtain p job where p: "fenced_process i owner token st = Some p"
    and job: "find_job (ep_job_id p) st = Some job"
    unfolding complete_external_process_reconciliation_def Let_def
    by (auto split: option.splits)
  have j: "job \<in> set (jobs st)" using find_job_in [OF ok job] by simp
  show ?thesis
  proof (cases "?status = ''quarantined''")
    case True
    with run p job show ?thesis
      unfolding complete_external_process_reconciliation_def Let_def
      by (auto intro!: kept_intros)
  next
    case False
    let ?mine = "\<lambda>q. ep_id q = ep_id p \<and> ep_state q \<noteq> ProcStopped"
    let ?F = "\<lambda>q. (release_fence_fields q)\<lparr>ep_state := ProcStopped, ep_stopped_at := Some now,
      ep_outcome := Some ?status, ep_last_error := None, ep_updated_at := now\<rparr>"
    let ?st0 = "append_event ''worker.external_process_reconciled'' (Some (jb_campaign_id job))
      (Some (jb_item_id job)) (Some (jb_id job)) (Some owner)
      (reconciliation_data p ?status ?reason observed) now
      (st\<lparr>processes := upd_where ?mine ?F (processes st)\<rparr>)"
    have expire: "expire_job_after_lease W job ''lease expired after external process reconciliation''
        [(''external_process_status'', JStr ?status)] now ?st0 = Inr st'"
      using run p job False unfolding complete_external_process_reconciliation_def Let_def
      by auto
    show ?thesis
      by (rule expire_job_kept [OF ok j _ _ expire]) (auto intro: kept_intros)
  qed
qed

section \<open>The commit\<close>

text \<open>
  \<open>green_proof st i\<close>: a completed tester job of the item submitted a passing handoff in which
  every required gate has a passing proof with evidence of the gate's kinds, and none of whose
  evidence is simulated unless the campaign allows it.
\<close>

definition may_simulate :: "store \<Rightarrow> item_row \<Rightarrow> bool" where
  "may_simulate st i \<longleftrightarrow> (\<exists>c \<in> set (campaigns st). cp_id c = it_campaign_id i \<and> allow_simulated c)"

definition passing_handoff :: "bool \<Rightarrow> item_row \<Rightarrow> test_handoff \<Rightarrow> bool" where
  "passing_handoff may_sim i h \<longleftrightarrow> th_item_id h = it_id i \<and> th_outcome h = TestPass
     \<and> (\<forall>g \<in> set (it_required_gates i). \<exists>p \<in> set (th_gate_proofs h).
          gp_gate p = g \<and> gp_result p = GatePass \<and> gp_evidence p \<noteq> []
          \<and> (\<forall>e \<in> set (gp_evidence p). ev_kind e \<in> set (gate_evidence_kinds g)
               \<and> (simulated e \<longrightarrow> may_sim)))"

definition completed_with :: "item_row \<Rightarrow> test_handoff \<Rightarrow> job_row \<Rightarrow> bool" where
  "completed_with i h j \<longleftrightarrow> jb_item_id j = it_id i \<and> jb_role j = Tester
     \<and> jb_status j = JobCompleted \<and> jb_result j = Some (ResultHandoff (HTest h))"

text \<open>
  \<open>ran i h j e\<close>: the finished execution \<open>e\<close> of the job \<open>j\<close> passed with exit code zero, and \<open>h\<close> is
  its canonical handoff, validated.
\<close>

definition ran :: "item_row \<Rightarrow> test_handoff \<Rightarrow> job_row \<Rightarrow> focused_execution_row \<Rightarrow> bool" where
  "ran i h j e \<longleftrightarrow> sealed e \<and> ex_job_id e = jb_id j \<and> ex_item_id e = it_id i
     \<and> ex_outcome e = Some ''pass'' \<and> fx_exit_code e = Some 0
     \<and> (case fx_canonical_handoff e of None \<Rightarrow> False | Some raw \<Rightarrow> validate_test_handoff raw = Inr h)"

definition exactly_run :: "store \<Rightarrow> item_row \<Rightarrow> test_handoff \<Rightarrow> job_row \<Rightarrow> bool" where
  "exactly_run st i h j \<longleftrightarrow> it_required_gates i = [FocusedTests]
     \<and> (\<exists>e \<in> set (focused_executions st). ran i h j e)"

definition green_proof :: "store \<Rightarrow> item_row \<Rightarrow> bool" where
  "green_proof st i \<longleftrightarrow>
     (\<exists>h. \<exists>j \<in> set (jobs st). completed_with i h j \<and> passing_handoff (may_simulate st i) i h
        \<and> (may_simulate st i \<or> exactly_run st i h j))"

lemma passing_handoff_mono:
  "passing_handoff a i h \<Longrightarrow> (a \<longrightarrow> b) \<Longrightarrow> passing_handoff b i h"
  unfolding passing_handoff_def by meson

lemma green_proof_kept:
  assumes "chronicle G st st'" "runs_ok st" "green_proof st i"
  shows "green_proof st' i"
proof -
  obtain j h where j: "j \<in> set (jobs st)" "completed_with i h j"
      "passing_handoff (may_simulate st i) i h" "may_simulate st i \<or> exactly_run st i h j"
    using assms(3) unfolding green_proof_def by blast
  have "j \<in> set (jobs st')"
    using assms(1) j(1,2) by (auto simp: chronicle_def finished_def completed_with_def)
  moreover have sim: "may_simulate st i \<longrightarrow> may_simulate st' i"
    using assms(1) by (fastforce simp: chronicle_def may_simulate_def same_campaign_def allow_simulated_def)
  moreover have "exactly_run st i h j \<longrightarrow> exactly_run st' i h j"
    using assms(1,2) unfolding chronicle_def runs_kept_def exactly_run_def ran_def by blast
  ultimately show ?thesis
    using j(2,4) passing_handoff_mono [OF j(3) sim] unfolding green_proof_def by blast
qed

lemma stage_green: "VerifiedGreen \<in> set (stage_next_states r) \<Longrightarrow> r = Tester"
  by (cases r) (simp_all add: stage_next_states_def)

lemma validate_stage_result_green:
  assumes "validate_stage_result W auth job result VerifiedGreen st = Inr validated" "jb_role job = Tester"
  obtains h raw item campaign e where "validated = HTest h" "validate_test_handoff raw = Inr h"
    "th_item_id h = jb_item_id job" "find_item (jb_item_id job) st = Some item"
    "evaluate_test_handoff (it_required_gates item) h = Inr e" "ge_next_state e = Some VerifiedGreen"
    "find_campaign (jb_campaign_id job) st = Some campaign"
    "\<forall>ev \<in> set (handoff_evidence (HTest h)). simulated ev \<longrightarrow> allow_simulated campaign"
    "allow_simulated campaign \<or> (authoritative_gates (it_required_gates item)
       \<and> auth job (it_required_gates item) st = Inr raw)"
proof -
  from assms obtain campaign where
      c: "find_campaign (jb_campaign_id job) st = Some campaign"
    and v: "validate_tester_result auth job result (allow_simulated campaign) st
        = Inr (validated, VerifiedGreen)"
    and i: "handoff_item_id validated = jb_item_id job"
    and ev: "list_all (evidence_attached W (allow_simulated campaign)) (handoff_evidence validated)"
    by (auto simp: validate_stage_result_def)
  from v obtain item h e where
      h: "validated = HTest h" "find_item (jb_item_id job) st = Some item"
        "evaluate_test_handoff (it_required_gates item) h = Inr e" "ge_next_state e = Some VerifiedGreen"
    and src: "(if allow_simulated campaign then
              bindR (model_validate (validate_handoff Tester result)) (\<lambda>h.
              case h of HTest t \<Rightarrow> Inr t | _ \<Rightarrow> Inl ValueError)
            else
              check (authoritative_gates (it_required_gates item)) ValueError (
              bindR (auth job (it_required_gates item) st) (\<lambda>raw.
                model_validate (validate_test_handoff raw)))) = Inr h"
    by (auto simp: validate_tester_result_def model_validate_def Let_def split: sum.splits)
  have "\<exists>raw. validate_test_handoff raw = Inr h \<and> (allow_simulated campaign
      \<or> (authoritative_gates (it_required_gates item) \<and> auth job (it_required_gates item) st = Inr raw))"
    using src by (auto simp: model_validate_def validate_handoff_def
        split: if_splits sum.splits handoff.splits) (metis handoff.exhaust)
  then obtain raw where raw: "validate_test_handoff raw = Inr h"
    and auth: "allow_simulated campaign \<or> (authoritative_gates (it_required_gates item)
       \<and> auth job (it_required_gates item) st = Inr raw)" by blast
  have ev': "\<forall>e \<in> set (handoff_evidence (HTest h)). simulated e \<longrightarrow> allow_simulated campaign"
    using ev by (auto simp: h(1) list_all_iff evidence_attached_def split: if_splits)
  from i h(1) have "th_item_id h = jb_item_id job" by (simp add: handoff_item_id_def)
  from that [OF h(1) raw this h(2-4) c ev' auth] show ?thesis .
qed

lemma validated_passes:
  assumes "validate_test_handoff raw = Inr h" "th_item_id h = it_id i"
    and "evaluate_test_handoff (it_required_gates i) h = Inr e" "ge_next_state e = Some VerifiedGreen"
    and "\<forall>ev \<in> set (handoff_evidence (HTest h)). simulated ev \<longrightarrow> may_sim"
  shows "passing_handoff may_sim i h"
proof -
  have "th_outcome h = TestPass
      \<and> (\<forall>g \<in> set (it_required_gates i). \<exists>p \<in> set (th_gate_proofs h).
            gp_gate p = g \<and> gp_result p = GatePass \<and> gp_evidence p \<noteq> []
            \<and> (\<forall>e \<in> set (gp_evidence p). ev_kind e \<in> set (gate_evidence_kinds g)))"
    using evaluate_green [OF assms(1), of "it_required_gates i"] assms(3,4) by auto
  moreover have "simulated ev \<longrightarrow> may_sim" if "p \<in> set (th_gate_proofs h)" "ev \<in> set (gp_evidence p)" for p ev
    using assms(5) that by (auto simp: handoff_evidence_def)
  ultimately show ?thesis using assms(2) unfolding passing_handoff_def by metis
qed

lemma finish_job_kept:
  assumes "finish_job W job worker token result now t = Inr t'" "kept G s t"
  shows "kept G s t'"
  using assms
  by (auto simp: home_simps finish_job_def Let_def finish_attempt_def is_running_attempt_def
      finished_def
      intro!: kept_intros)

lemma finish_job_completes:
  assumes "finish_job W job worker token result now t = Inr t'" "job \<in> set (jobs t)"
    and "live_lease worker token now job"
  shows "(unlease JobCompleted now job)\<lparr>jb_result := Some (ResultHandoff result)\<rparr> \<in> set (jobs t')"
proof -
  have eq: "jobs t' = upd_where (\<lambda>j. jb_id j = jb_id job \<and> jb_status j = JobRunning
                   \<and> jb_lease_owner j = Some worker \<and> jb_lease_token j = Some token)
      (\<lambda>j. (unlease JobCompleted now j)\<lparr>jb_result := Some (ResultHandoff result)\<rparr>) (jobs t)"
    using assms(1) by (auto simp: finish_job_def Let_def finish_attempt_def)
  show ?thesis
    unfolding eq set_upd_where
    by (rule image_eqI [OF _ assms(2)]) (use assms(3) in \<open>simp add: live_lease_def\<close>)
qed

lemma job_owner:
  assumes "queue_ok st" "j \<in> set (jobs st)" "i \<in> set (items st)" "it_id i = jb_item_id j"
  shows "it_campaign_id i = jb_campaign_id j"
proof -
  have "(jb_item_id j, jb_campaign_id j) \<in> (\<lambda>i. (it_id i, it_campaign_id i)) ` set (items st)"
    using queue_okD(2) [OF assms(1)] assms(2) unfolding owners_ok_def by blast
  then obtain k where "k \<in> set (items st)" "it_id k = jb_item_id j" "it_campaign_id k = jb_campaign_id j"
    by auto
  with item_unique [OF assms(1,3)] assms(4) show ?thesis by metis
qed

lemma kept_green: "kept G s t \<Longrightarrow> (\<And>i. G i \<Longrightarrow> H i) \<Longrightarrow> kept H s t"
  by (auto simp: kept_def chronicle_def)

lemma commit_stage_result_kept:
  assumes ok: "queue_ok st" and runs: "runs_ok st"
    and run: "commit_stage_result W (attempt_handoff W) job_id worker token result expected next_text kind data
      next fresh now st = Inr (st', sid)"
  shows "kept (green_proof st') st st'"
proof -
  from ok run obtain job s validated st1 st2 where
      job: "find_job job_id st = Some job" "live_lease worker token now job"
    and s: "s \<in> set (stage_next_states (jb_role job))"
    and valid: "validate_stage_result W (attempt_handoff W) job result s st = Inr validated"
    and moved: "move_item (jb_item_id job) (jb_active_state job) s now st = Inr st1"
    and fin: "finish_job W job worker token validated now st1 = Inr st2"
    and rest: "\<exists>d. let st3 = append_event kind (Some (jb_campaign_id job)) (Some (jb_item_id job))
                 (Some job_id) (Some worker) d now st2
     in (case next of None \<Rightarrow> st' = st3 \<and> sid = None
       | Some n \<Rightarrow> \<exists>i. sid = Some i \<and> enqueue_job (jb_item_id job)
           (successor_request job n s now) fresh now st3 = Inr (st', i))"
    by (rule commit_stage_resultD)
  have j: "job \<in> set (jobs st)" using find_job_in [OF ok job(1)] by simp
  let ?F = "\<lambda>i. i\<lparr>it_state := s, it_updated_at := now\<rparr>"
  let ?G = "\<lambda>i. s = VerifiedGreen \<and> (\<exists>i0 \<in> set (items st). it_id i0 = jb_item_id job \<and> i = ?F i0)"
  have st1: "items st1 = upd_where (in_state (jb_item_id job) (jb_active_state job)) ?F (items st)"
      "jobs st1 = jobs st"
    using moved by (auto simp: move_item_def)
  have "kept ?G st st1"
    using moved job_states(2) [OF ok j] queued_not_green(2) open_states(2)
    by (auto simp: move_item_def home_simps intro!: kept_intros)
  with fin have "kept ?G st st2" by (rule finish_job_kept)
  have into: "kept H t st2 \<Longrightarrow> kept H t st'" for H t
    using rest by (auto simp: Let_def split: option.splits dest: enqueue_job_kept intro: kept_event)
  have all: "kept ?G st st'" by (rule into) fact
  have last: "quietly st2 st'" by (rule into [OF kept_refl])
  have "green_proof st' i" if i: "s = VerifiedGreen" "i0 \<in> set (items st)" "it_id i0 = jb_item_id job"
      "i = ?F i0" for i i0
  proof -
    have tester: "jb_role job = Tester" using s i(1) stage_green by simp
    obtain h raw item campaign e where h: "validated = HTest h" "validate_test_handoff raw = Inr h"
        "th_item_id h = jb_item_id job" "find_item (jb_item_id job) st = Some item"
        "evaluate_test_handoff (it_required_gates item) h = Inr e" "ge_next_state e = Some VerifiedGreen"
        "find_campaign (jb_campaign_id job) st = Some campaign"
        "\<forall>ev \<in> set (handoff_evidence (HTest h)). simulated ev \<longrightarrow> allow_simulated campaign"
      and auth: "allow_simulated campaign \<or> (authoritative_gates (it_required_gates item)
        \<and> attempt_handoff W job (it_required_gates item) st = Inr raw)"
      using valid [unfolded i(1)] tester by (rule validate_stage_result_green)
    have "item \<in> set (items st)" "it_id item = jb_item_id job" using h(4) by (auto dest: find_itemD)
    then have item: "item = i0" using item_unique [OF ok _ i(2)] i(3) by simp
    have owner: "it_campaign_id i0 = jb_campaign_id job" by (rule job_owner [OF ok j i(2,3)])
    have "campaign \<in> set (campaigns st)" "cp_id campaign = jb_campaign_id job"
      using h(7) by (auto simp: find_campaign_def dest: find_SomeD)
    then have may: "allow_simulated campaign \<longrightarrow> may_simulate st' i"
      using all owner i(4)
      by (fastforce simp: kept_def chronicle_def may_simulate_def same_campaign_def allow_simulated_def)
    then have sim: "\<forall>ev \<in> set (handoff_evidence (HTest h)). simulated ev \<longrightarrow> may_simulate st' i"
      using h(8) by blast
    have "passing_handoff (may_simulate st' i) i h"
      by (rule validated_passes [OF h(2) _ _ h(6) sim]) (use h(3,5) item i(3,4) in auto)
    moreover have "completed_with i h ((unlease JobCompleted now job)\<lparr>jb_result := Some (ResultHandoff validated)\<rparr>)"
      using h(1) tester i(3,4) by (simp add: completed_with_def unlease_def)
    moreover have "(unlease JobCompleted now job)\<lparr>jb_result := Some (ResultHandoff validated)\<rparr> \<in> set (jobs st')"
    proof -
      have "(unlease JobCompleted now job)\<lparr>jb_result := Some (ResultHandoff validated)\<rparr> \<in> set (jobs st2)"
        using finish_job_completes [OF fin _ job(2)] j st1(2) by simp
      with last show ?thesis by (simp add: kept_def chronicle_def finished_def unlease_def)
    qed
    moreover have "may_simulate st' i
        \<or> exactly_run st' i h ((unlease JobCompleted now job)\<lparr>jb_result := Some (ResultHandoff validated)\<rparr>)"
      using auth
    proof
      assume run: "authoritative_gates (it_required_gates item)
        \<and> attempt_handoff W job (it_required_gates item) st = Inr raw"
      have "th_outcome raw = TestPass"
        using evaluate_green [OF h(2)] h(5,6) validated_outcome [OF h(2)] by metis
      with run runs obtain e where e: "it_required_gates item = [FocusedTests]"
          "e \<in> set (focused_executions st)" "sealed e" "ex_job_id e = jb_id job"
          "ex_item_id e = jb_item_id job" "ex_outcome e = Some ''pass''" "fx_exit_code e = Some 0"
          "fx_canonical_handoff e = Some raw"
        by (blast elim: attempt_handoff_pass)
      have "e \<in> set (focused_executions st')"
        using all runs e(2,3) by (simp add: kept_def chronicle_def runs_kept_def)
      then have "exactly_run st' i h
          ((unlease JobCompleted now job)\<lparr>jb_result := Some (ResultHandoff validated)\<rparr>)"
        using e h(2) item i(3,4) unfolding exactly_run_def ran_def
        by (intro conjI bexI [of _ e]) (simp_all add: unlease_def)
      then show ?thesis ..
    qed (use may in blast)
    ultimately show ?thesis unfolding green_proof_def by blast
  qed
  then have "\<And>i. ?G i \<Longrightarrow> green_proof st' i" by blast
  with all show ?thesis by (rule kept_green)
qed

section \<open>Worktrees\<close>

named_theorems chronicle_intros \<open>updates of the worktree tables that keep the history\<close>

lemma chronicle_worktrees [chronicle_intros]:
  "chronicle G s s"
  "chronicle G s t \<Longrightarrow> chronicle G s (append_event k c i j a d n t)"
  "chronicle G s t \<Longrightarrow> chronicle G s (t\<lparr>worktrees := x1\<rparr>)"
  "chronicle G s t \<Longrightarrow> chronicle G s (t\<lparr>worktree_operations := x2\<rparr>)"
  "chronicle G s t \<Longrightarrow> chronicle G s (update_operation o' f t)"
  "chronicle G s t \<Longrightarrow> chronicle G s (move_worktree o' from g t)"
  "chronicle G s t \<Longrightarrow> chronicle G s (worktree_event k' w j a' d n t)"
  unfolding update_operation_def move_worktree_def worktree_event_def append_event_def
  by (auto simp: chronicle_refl elim!: chronicle_tables [rotated 8])

lemma attach_worktree_chronicle:
  "attach_worktree fixer w now t = Inr t' \<Longrightarrow> chronicle G s t \<Longrightarrow> chronicle G s t'"
  by (auto simp: attach_worktree_def awaits_worktree_def chronicle_def finished_def set_upd_where
      image_iff)

lemma claim_operations_chronicle:
  assumes "claim_operations P kind data owner secs limit fresh now st = Inr (st', rs)"
  shows "chronicle G st st'"
proof -
  from assms obtain owner' cs where
      loop: "foldR (claim_operation P kind data owner' secs now) cs (st, []) = Inr (st', rs)"
    unfolding claim_operations_def Let_def by auto
  have "chronicle G st (fst (st', rs))"
    using loop
  proof (rule foldR_invariant)
    fix c s s' assume "chronicle G st (fst s)" "claim_operation P kind data owner' secs now c s = Inr s'"
    then show "chronicle G st (fst s')"
      by (cases s, cases s', cases c)
        (auto simp: claim_operation_def Let_def split: if_splits intro!: chronicle_intros)
  qed (simp add: chronicle_refl)
  then show ?thesis by simp
qed

lemma insert_worktree_chronicle:
  "insert_worktree w t = Inr t' \<Longrightarrow> chronicle G s t \<Longrightarrow> chronicle G s t'"
  "insert_worktree_operation r t = Inr t' \<Longrightarrow> chronicle G s t \<Longrightarrow> chronicle G s t'"
  unfolding insert_worktree_def insert_worktree_operation_def by (auto intro: chronicle_intros)

lemma exec_worktree_chronicle: "wpR (chronicle G st) (exec_worktree W now c st)"
proof (cases c)
  case (RequestWorktree cid iid q owner secs fresh token)
  show ?thesis
    unfolding RequestWorktree exec_worktree.simps request_managed_worktree_def Let_def
    by (intro wp_intros case_prodI chronicle_intros)
      (elim insert_worktree_chronicle, rule chronicle_refl)
next
  case (CompleteCreation i owner token expected observed snapshot rec)
  show ?thesis
    unfolding CompleteCreation exec_worktree.simps complete_managed_worktree_creation_def Let_def
    by (intro wp_intros chronicle_intros) (erule attach_worktree_chronicle; intro chronicle_intros)
next
  case (RequestCleanup i owner secs fresh token)
  show ?thesis
    unfolding RequestCleanup exec_worktree.simps request_managed_worktree_cleanup_def Let_def
    by (intro wp_intros case_prodI chronicle_intros)
      (elim insert_worktree_chronicle, intro chronicle_intros)
next
  case (ClaimExpiredOperations owner secs limit draw)
  then show ?thesis
    by (auto simp: wpR_def claim_expired_worktree_operations_def intro: claim_operations_chronicle)
next
  case (ClaimQuarantinedOperations owner secs limit draw)
  then show ?thesis
    by (auto simp: wpR_def claim_quarantined_worktree_processes_def intro: claim_operations_chronicle)
qed (simp only: exec_worktree.simps record_worktree_operation_process_def
    clear_worktree_operation_process_def record_worktree_operation_artifacts_def
    record_worktree_operation_artifact_intent_def quarantine_worktree_operation_def
    complete_managed_worktree_removal_def finish_quarantined_worktree_process_retry_def
    resume_quarantined_worktree_operation_def Let_def,
    intro wp_intros chronicle_intros)+

lemma quarantine_claimed_chronicle:
  "wpR (chronicle G st) (quarantine_claimed_managed_worktree jb worker token reason now st)"
  unfolding quarantine_claimed_managed_worktree_def Let_def
  by (intro wp_intros chronicle_intros)

section \<open>Every request\<close>

definition commits :: "request \<Rightarrow> bool" where
  "commits r \<longleftrightarrow> (\<exists>j w t h e n k d x f. r = CommitStageResult j w t h e n k d x f)"

text \<open>The requests on the worktree tables.\<close>

fun houses :: "request \<Rightarrow> bool" where
  "houses (QuarantineWorktree _ _ _ _) = True"
| "houses (OnWorktree _) = True"
| "houses _ = False"

lemmas operation_kept =
  create_campaign_kept create_work_item_kept enqueue_job_kept [OF _ kept_refl] claim_job_kept
  heartbeat_job_kept fail_job_kept interrupt_job_kept recover_expired_kept operator_kept
  session_kept process_kept claim_reconciliation_kept complete_reconciliation_kept registry_kept
  standalone_kept approval_kept record_kept

lemma gathered_kept:
  assumes "gathered s t"
  shows "kept G s t"
proof -
  have same: "items t = items s" "jobs t = jobs s" "attempts t = attempts s" "worktrees t = worktrees s"
    "worktree_operations t = worktree_operations s" "approvals t = approvals s"
    and cs: "list_all2 same_campaign (campaigns s) (campaigns t)" and runs: "runs_kept s t"
    and log: "\<exists>es. events t = events s @ es" and "\<exists>as. artifacts t = artifacts s @ as"
    using assms by (simp_all add: gathered_def)
  then have artifacts: "set (artifacts s) \<subseteq> set (artifacts t)" by auto
  have "chronicle G s t"
    unfolding chronicle_def same using log artifacts runs gathered_campaigns_in(2) [OF cs] by simp
  moreover have "settled s t"
    unfolding settled_def same using same_home_refl by blast
  ultimately show ?thesis by (simp add: kept_def)
qed

lemma exec_quiet:
  assumes "queue_ok st" "exec W now r st = Inr st'" "\<not> commits r" "\<not> houses r"
  shows "quietly st st'"
proof (cases r)
  case (CommitStageResult j w t h e n k d x f)
  with assms(3) show ?thesis by (simp add: commits_def)
next
  case (OnCollector c)
  with assms(2) show ?thesis by (auto intro: gathered_kept wpD [OF collector_gathered])
qed (use assms in \<open>auto simp: recover_expired_leases_def release_job_def intro: operation_kept\<close>)

lemma exec_kept:
  assumes "queue_ok st" "runs_ok st" "exec W now r st = Inr st'" "\<not> houses r"
  shows "kept (green_proof st') st st'"
proof (cases "commits r")
  case True
  with assms show ?thesis by (auto simp: commits_def dest: commit_stage_result_kept)
next
  case False
  from kept_mono [OF exec_quiet [OF assms(1,3) False assms(4)]] show ?thesis .
qed

lemma exec_chronicle:
  assumes "queue_ok st" "runs_ok st" "exec W now r st = Inr st'"
  shows "chronicle (green_proof st') st st'"
proof (cases "houses r")
  case True
  with assms(3) show ?thesis
    by (cases r) (auto dest: wpD [OF exec_worktree_chronicle] wpD [OF quarantine_claimed_chronicle])
next
  case False
  with exec_kept [OF assms] show ?thesis by (simp add: kept_def)
qed

lemma reachable_runs: "reachable st \<Longrightarrow> runs_ok st"
proof (induction rule: reachable.induct)
  case initial
  then show ?case by (simp add: runs_ok_def empty_store_def)
next
  case (request st W now r st')
  from exec_chronicle [OF reachable_ok [OF request.hyps(1)] request.IH request.hyps(2)] request.IH
  show ?case by (simp add: chronicle_def runs_kept_def)
qed

text \<open>
  C16.  History is never rewritten.  Whatever request is executed on a reachable store, the
  event log only grows at its end, and every ended attempt, completed or failed job and
  resolved approval is still there, unchanged in every column; no artifact disappears.
\<close>

theorem history_is_never_rewritten:
  assumes "reachable st" "exec W now r st = Inr st'"
  shows "(\<exists>es. events st' = events st @ es)
    \<and> (\<forall>a \<in> set (attempts st). at_status a \<noteq> AttemptRunning \<longrightarrow> a \<in> set (attempts st'))
    \<and> (\<forall>j \<in> set (jobs st). jb_status j \<in> {JobCompleted, JobFailed} \<longrightarrow> j \<in> set (jobs st'))
    \<and> (\<forall>a \<in> set (approvals st). ap_status a \<noteq> ApprovalPending \<longrightarrow> a \<in> set (approvals st'))
    \<and> set (artifacts st) \<subseteq> set (artifacts st')"
  using exec_chronicle [OF reachable_ok [OF assms(1)] reachable_runs [OF assms(1)] assms(2)]
  unfolding chronicle_def finished_def by blast

lemma history_is_never_rewritten_witness:
  "\<exists>st'. exec example_world 20 (FailJob ''j1'' ''w1'' ''t1'' ''boom'' [] True None 2)
      claimed_store = Inr st' \<and> (\<exists>es. events st' = events claimed_store @ es)"
proof -
  have "holdsR (\<lambda>_. True) (exec example_world 20
      (FailJob ''j1'' ''w1'' ''t1'' ''boom'' [] True None 2) claimed_store)" unfolding served by code_simp
  then obtain st' where run: "exec example_world 20
      (FailJob ''j1'' ''w1'' ''t1'' ''boom'' [] True None 2) claimed_store = Inr st'" by (rule holdsRE)
  from history_is_never_rewritten [OF reachable_claimed run] run show ?thesis by blast
qed

lemma green_ok_step:
  assumes "chronicle (green_proof st') st st'" "runs_ok st"
    and "\<forall>i \<in> set (items st). it_state i = VerifiedGreen \<longrightarrow> green_proof st i"
  shows "\<forall>i \<in> set (items st'). it_state i = VerifiedGreen \<longrightarrow> green_proof st' i"
  using assms(1,3) green_proof_kept [OF assms(1,2)] unfolding chronicle_def by blast

lemma reachable_green:
  "reachable st \<Longrightarrow> \<forall>i \<in> set (items st). it_state i = VerifiedGreen \<longrightarrow> green_proof st i"
proof (induction rule: reachable.induct)
  case initial
  then show ?case by (simp add: empty_store_def)
next
  case (request st W now r st')
  note runs = reachable_runs [OF request.hyps(1)]
  from exec_chronicle [OF reachable_ok [OF request.hyps(1)] runs request.hyps(2)] runs request.IH
  show ?case by (rule green_ok_step)
qed

text \<open>
  C1.  Green means proved.  In every reachable store an item in the state \<open>verified_green\<close> has
  a completed tester job whose recorded result is a passing handoff for that item, with a
  passing proof for every gate the item requires and, on each of them, evidence of the kinds
  that gate admits; simulated evidence counts only in a campaign that allows it.  In any other
  campaign the item requires the focused tests alone, and the result is the canonical handoff of
  a finished focused execution of that very job that passed with exit code zero.
\<close>

theorem green_means_proved:
  assumes "reachable st" "i \<in> set (items st)" "it_state i = VerifiedGreen"
  shows "\<exists>h. \<exists>j \<in> set (jobs st). completed_with i h j \<and> passing_handoff (may_simulate st i) i h
    \<and> (may_simulate st i
       \<or> it_required_gates i = [FocusedTests] \<and> (\<exists>e \<in> set (focused_executions st). ran i h j e))"
  using reachable_green [OF assms(1)] assms(2,3) unfolding green_proof_def exactly_run_def by blast

definition passing_test :: test_handoff where
  "passing_test = \<lparr>th_item_id = ''g1'', th_outcome = TestPass, th_summary = ''passed'',
     th_gate_proofs = [\<lparr>gp_gate = FocusedTests, gp_result = GatePass, gp_summary = ''ok'',
       gp_evidence = [\<lparr>ev_id = ''e1'', ev_kind = EvTest, ev_location = ''log'', ev_description = ''log'',
          ev_metadata = JObj [(''simulated'', JBool True)]\<rparr>]\<rparr>],
     th_failure_summary = None, th_blocker = None\<rparr>"

definition to_green :: "(time \<times> request) list" where
  "to_green =
     [(20, CreateWorkItem ''c'' ''third'' (Some ''g1'') ''third'' ''ready_for_test'' 0
          [''focused_tests''] [] (Some (queued_stage ''tester'' ''testing'' ''j3'' [])) ''x'' ''y''),
      (21, ClaimJob ''tester'' ''w3'' 60 ''a3'' ''t3''),
      (22, CommitStageResult ''j3'' ''w3'' ''t3'' (HTest passing_test) ''testing'' ''verified_green''
          ''stage.committed'' [] None ''x'')]"

lemma green_means_proved_witness:
  "\<exists>h. \<exists>j \<in> set (jobs (after_claim to_green)). jb_item_id j = ''g1''
     \<and> jb_result j = Some (ResultHandoff (HTest h))"
proof -
  have "(\<lambda>is. is \<noteq> [] \<and> it_id (last is) = ''g1'' \<and> it_state (last is) = VerifiedGreen)
      (items (after_claim to_green))"
    unfolding served to_green_def queued_stage_def by code_simp
  then have i: "items (after_claim to_green) \<noteq> []" "it_id (last (items (after_claim to_green))) = ''g1''"
      "it_state (last (items (after_claim to_green))) = VerifiedGreen"
    by simp_all
  from green_means_proved [OF reachable_after_claim last_in_set [OF i(1)] i(3)] i(2)
  show ?thesis unfolding completed_with_def by auto
qed

end
