(* ===== verification/Fenced.thy ===== *)
theory Fenced
  imports Lasting
begin

text \<open>
  Fencing: what a worker may do depends on the lease it presents, and on nothing it remembers
  from an earlier one; what a pending interrupt and an unresolved process hold back.
\<close>

section \<open>The lease a call presents\<close>

text \<open>
  Every method of the store that takes a job, a worker and a lease token: the mutating ones are
  requests, the collectors of evidence included, the others only read or, like the release fences
  of the guardians, hold the transaction open for their caller.
\<close>

datatype lease_read =
    AskWorktree string string string
  | AskInterrupt string string string
  | AskFocusedRelease string string string process_identity
  | AskBrowserRelease string string string process_identity
  | AskQuery string string string string

datatype worker_call = Writes request | Reads lease_read

fun collector_presents :: "collector_call \<Rightarrow> (string \<times> string \<times> string) option" where
  "collector_presents (PrepareFocused _ j w t _) = Some (j, w, t)"
| "collector_presents (CompleteFocused j w t _ _ _) = Some (j, w, t)"
| "collector_presents (PrepareBrowser _ j w t) = Some (j, w, t)"
| "collector_presents (CompleteBrowser j w t _ _ _ _) = Some (j, w, t)"
| "collector_presents (PrepareDatabase _ j w t) = Some (j, w, t)"
| "collector_presents (CompleteDatabase j w t _) = Some (j, w, t)"
| "collector_presents _ = None"

fun request_presents :: "request \<Rightarrow> (string \<times> string \<times> string) option" where
  "request_presents (HeartbeatJob j w t _) = Some (j, w, t)"
| "request_presents (CommitStageResult j w t _ _ _ _ _ _ _) = Some (j, w, t)"
| "request_presents (FailJob j w t _ _ _ _ _) = Some (j, w, t)"
| "request_presents (InterruptJob j w t _ _) = Some (j, w, t)"
| "request_presents (ReleaseJob j w t _) = Some (j, w, t)"
| "request_presents (RecordSession j w t _ _) = Some (j, w, t)"
| "request_presents (RecordProcess j w t _ _ _) = Some (j, w, t)"
| "request_presents (ClearProcess j w t _ _) = Some (j, w, t)"
| "request_presents (RecordAttemptArtifact j w t _ _ _ _) = Some (j, w, t)"
| "request_presents (QuarantineWorktree j w t _) = Some (j, w, t)"
| "request_presents (OnCollector c) = collector_presents c"
| "request_presents _ = None"

fun presents :: "worker_call \<Rightarrow> (string \<times> string \<times> string) option" where
  "presents (Writes r) = request_presents r"
| "presents (Reads (AskWorktree j w t)) = Some (j, w, t)"
| "presents (Reads (AskInterrupt j w t)) = Some (j, w, t)"
| "presents (Reads (AskFocusedRelease j w t _)) = Some (j, w, t)"
| "presents (Reads (AskBrowserRelease j w t _)) = Some (j, w, t)"
| "presents (Reads (AskQuery _ j w t)) = Some (j, w, t)"

text \<open>The call returns; otherwise it raises and its transaction is rolled back.\<close>

fun answered :: "world \<Rightarrow> time \<Rightarrow> worker_call \<Rightarrow> store \<Rightarrow> bool" where
  "answered W now (Writes r) st \<longleftrightarrow> holdsR (\<lambda>_. True) (exec W now r st)"
| "answered W now (Reads (AskWorktree j w t)) st \<longleftrightarrow>
     holdsR (\<lambda>_. True) (claimed_managed_worktree j w t now st)"
| "answered W now (Reads (AskInterrupt j w t)) st \<longleftrightarrow>
     holdsR (\<lambda>_. True) (poll_operator_interrupt W j w t now st)"
| "answered W now (Reads (AskFocusedRelease j w t p)) st \<longleftrightarrow>
     holdsR (\<lambda>_. True) (focused_test_guardian_release_fence W j w t p now st)"
| "answered W now (Reads (AskBrowserRelease j w t p)) st \<longleftrightarrow>
     holdsR (\<lambda>_. True) (browser_guardian_release_fence j w t p now st)"
| "answered W now (Reads (AskQuery e j w t)) st \<longleftrightarrow>
     holdsR (\<lambda>_. True) (authorize_database_query_execution e j w t now st)"

definition heard_by :: "string \<Rightarrow> string \<Rightarrow> string \<Rightarrow> time \<Rightarrow> store \<Rightarrow> bool" where
  "heard_by i worker token now st \<longleftrightarrow> (\<exists>job. find_job i st = Some job \<and> live_lease worker token now job)"

lemma live_first: "bindR (assert_live_lease i worker token now st) k = Inr x \<Longrightarrow> heard_by i worker token now st"
  by (auto simp: heard_by_def)

lemma collector_live:
  assumes "collector_presents c = Some (i, worker, token)" "exec_collector W now c st = Inr st'"
  shows "heard_by i worker token now st"
proof (cases c)
  case (PrepareFocused W' j w t f)
  with assms obtain x where "prepare_focused_test_execution W W' i worker token f now st = Inr (st', x)"
    by auto
  then show ?thesis unfolding prepare_focused_test_execution_def by (rule live_first)
next
  case (CompleteFocused j w t r f g)
  with assms obtain x where "complete_focused_test_execution W i worker token r f g now st = Inr (st', x)"
    by auto
  then show ?thesis unfolding complete_focused_test_execution_def by (rule live_first)
qed (use assms unsupported_collectors in \<open>auto simp: wpR_def\<close>)

lemma request_live:
  assumes "request_presents r = Some (i, worker, token)" "exec W now r st = Inr st'"
  shows "heard_by i worker token now st"
proof (cases r)
  case (HeartbeatJob)
  with assms show ?thesis by (auto simp: heard_by_def heartbeat_job_def Let_def)
next
  case (CommitStageResult)
  with assms show ?thesis by (auto simp: heard_by_def commit_stage_result_def Let_def)
next
  case (FailJob)
  with assms show ?thesis by (auto simp: heard_by_def fail_job_def Let_def)
next
  case (InterruptJob)
  with assms show ?thesis by (auto simp: heard_by_def interrupt_job_def Let_def)
next
  case (ReleaseJob)
  with assms show ?thesis by (auto simp: heard_by_def release_job_def interrupt_job_def Let_def)
next
  case (RecordSession)
  with assms show ?thesis by (auto simp: heard_by_def record_external_session_def Let_def)
next
  case (RecordProcess)
  with assms show ?thesis by (auto simp: heard_by_def record_external_process_def Let_def)
next
  case (ClearProcess)
  with assms show ?thesis by (auto simp: heard_by_def clear_external_process_def Let_def)
next
  case (RecordAttemptArtifact)
  with assms show ?thesis by (auto simp: heard_by_def record_attempt_artifact_def Let_def)
next
  case (QuarantineWorktree)
  with assms show ?thesis by (auto simp: heard_by_def quarantine_claimed_managed_worktree_def Let_def)
next
  case (OnCollector c)
  with assms show ?thesis by (auto intro: collector_live)
qed (use assms in simp_all)

lemma answered_live:
  assumes "presents call = Some (i, worker, token)" "answered W now call st"
  shows "heard_by i worker token now st"
proof (cases call)
  case (Writes r)
  with assms show ?thesis by (auto elim!: holdsRE intro: request_live)
next
  case (Reads q)
  with assms show ?thesis
    by (cases q)
      (auto simp: claimed_managed_worktree_def poll_operator_interrupt_def
        focused_test_guardian_release_fence_def browser_guardian_release_fence_def
        authorize_database_query_execution_def elim!: holdsRE dest: live_first)
qed

lemma heard_attempt:
  assumes ok: "queue_ok st" and heard: "heard_by i worker token now st"
  shows "\<exists>job \<in> set (jobs st). \<exists>a \<in> set (attempts st). jb_id job = i \<and> jb_status job = JobRunning
    \<and> jb_current_attempt_id job = Some (at_id a) \<and> at_job_id a = i \<and> at_status a = AttemptRunning
    \<and> at_worker_id a = worker \<and> at_lease_token a = token \<and> now < at_lease_expires_at a"
proof -
  obtain job where job: "find_job i st = Some job" "live_lease worker token now job"
    using heard unfolding heard_by_def by blast
  have j: "job \<in> set (jobs st)" "jb_id job = i" "running job"
    using find_job_in [OF ok job(1)] live_leaseD [OF job(2)] by auto
  obtain a where a: "a \<in> set (attempts st)" "attempt_of job a"
    using running_attempt [OF ok j(1,3)] .
  with j job(2) show ?thesis by (auto simp: attempt_of_def live_lease_def running_def)
qed

text \<open>
  C4.  Only the lease holder is heard.  In every reachable store, a call that presents a lease,
  whether it writes, collects evidence, reads or asks to release a guardian, succeeds only when
  the job runs, the lease has not expired, and the worker and token are those of the job's own
  running attempt; any other call fails and, being rolled back, changes nothing.
\<close>

theorem only_the_lease_holder_is_heard:
  assumes "reachable st" "presents call = Some (i, worker, token)" "answered W now call st"
  shows "\<exists>job \<in> set (jobs st). \<exists>a \<in> set (attempts st). jb_id job = i \<and> jb_status job = JobRunning
    \<and> jb_current_attempt_id job = Some (at_id a) \<and> at_job_id a = i \<and> at_status a = AttemptRunning
    \<and> at_worker_id a = worker \<and> at_lease_token a = token \<and> now < at_lease_expires_at a"
  by (rule heard_attempt [OF reachable_ok [OF assms(1)] answered_live [OF assms(2,3)]])

lemma only_the_lease_holder_is_heard_witness:
  "\<exists>a \<in> set (attempts claimed_store). at_worker_id a = ''w1'' \<and> at_lease_token a = ''t1''"
proof -
  have "answered example_world 20 (Writes (HeartbeatJob ''j1'' ''w1'' ''t1'' 60)) claimed_store"
    unfolding answered.simps served by code_simp
  from only_the_lease_holder_is_heard [OF reachable_claimed _ this] show ?thesis by auto
qed

section \<open>Claims\<close>

lemma claim_job_claimed:
  assumes ok: "queue_ok st"
    and run: "claim_job W role worker secs attempt token now st = Inr (st', Some c)"
  shows "\<exists>st1 ro job j' a rows. queue_ok st1 \<and> worker_role_of (py_lower role) = Some ro
    \<and> job \<in> set (jobs st1) \<and> claimable ro now st1 job \<and> claimed W worker secs now st1 job st' c
    \<and> opens st1 job j' a rows st' \<and> jb_lease_owner j' = Some worker
    \<and> jb_lease_token j' = Some (cr_lease_token c) \<and> jb_current_attempt_id j' = Some (cr_attempt_id c)
    \<and> jb_lease_expires_at j' = Some (now + secs) \<and> cr_job_id c = jb_id job
    \<and> cr_attempt_number c = jb_attempt_count job + 1"
  using ok run
proof (rule claim_job_cases)
  fix st1 js
  assume ok1: "queue_ok st1"
    and js: "\<forall>j \<in> set js. \<exists>ro. worker_role_of (py_lower role) = Some ro \<and> j \<in> set (jobs st1)
      \<and> claimable ro now st1 j"
    and first: "claim_first W js worker attempt token secs now st1 = Inr (st', Some c)"
  obtain job where job: "job \<in> set js" "claimed W worker secs now st1 job st' c"
    using claim_first_cases [OF first] by auto
  obtain ro where ro: "worker_role_of (py_lower role) = Some ro" "job \<in> set (jobs st1)"
      "claimable ro now st1 job"
    using js job(1) by blast
  with claimed_opens [OF ok1 ro(3,2) job(2)] ok1 job(2) show ?thesis by blast
qed

lemma claim_first_token:
  "claim_first W js worker attempt token secs now st = Inr (st', Some c) \<Longrightarrow>
     cr_lease_token c = token \<and> cr_attempt_id c = attempt"
proof (induction js)
  case Nil
  then show ?case by simp
next
  case (Cons job js)
  from Cons.prems obtain granted where g: "claim_conditions W job st = Inr granted" by auto
  show ?case
  proof (cases granted)
    case None
    with Cons.prems g show ?thesis by (intro Cons.IH) simp
  next
    case (Some grant)
    show ?thesis
    proof (cases "move_item (jb_item_id job) (jb_queued_state job) (jb_active_state job) now st")
      case (Inl e)
      with Cons.prems g Some show ?thesis by (intro Cons.IH) simp
    next
      case (Inr st1)
      with Cons.prems g Some
      have "take_claim W job grant worker attempt token secs now st1 = Inr (st', c)" by auto
      then show ?thesis by (auto simp: take_claim_def Let_def)
    qed
  qed
qed

lemma claim_job_token:
  "claim_job W role worker secs attempt token now st = Inr (st', Some c) \<Longrightarrow>
     cr_lease_token c = token \<and> cr_attempt_id c = attempt"
  by (auto simp: claim_job_def dest: claim_first_token)

text \<open>
  C30.  A claim is a lease.  When \<open>claim_job\<close> returns a job, that job now runs under a live
  lease of exactly the claiming worker and the new token, in the requested role, with its next
  attempt number, its item active, and one lease on each resource it requires.
\<close>

theorem claim_grants_a_live_lease:
  assumes "reachable st"
    and "claim_job W role worker secs attempt token now st = Inr (st', Some c)"
  shows "\<exists>job \<in> set (jobs st'). jb_id job = cr_job_id c
    \<and> worker_role_of (py_lower role) = Some (jb_role job)
    \<and> live_lease worker token now job \<and> jb_current_attempt_id job = Some attempt
    \<and> (\<exists>i \<in> set (items st'). it_id i = jb_item_id job \<and> it_state i = active_state (jb_role job))
    \<and> (\<exists>a \<in> set (attempts st'). at_id a = attempt \<and> at_status a = AttemptRunning
         \<and> at_number a = cr_attempt_number c)
    \<and> set (map ls_key (job_leases (jb_id job) st')) = set (jb_required_resources job)"
proof -
  have ok: "queue_ok st" using assms(1) by (rule reachable_ok)
  obtain st1 ro job j' a rows where ok1: "queue_ok st1" and ro: "worker_role_of (py_lower role) = Some ro"
    and job: "job \<in> set (jobs st1)" "claimable ro now st1 job" "claimed W worker secs now st1 job st' c"
    and opens: "opens st1 job j' a rows st'"
    and j': "jb_lease_owner j' = Some worker" "jb_lease_token j' = Some (cr_lease_token c)"
      "jb_current_attempt_id j' = Some (cr_attempt_id c)" "jb_lease_expires_at j' = Some (now + secs)"
      "cr_job_id c = jb_id job" "cr_attempt_number c = jb_attempt_count job + 1"
    using claim_job_claimed [OF ok assms(2)] by blast
  have ok': "queue_ok st'" using ok assms(2) by (rule claim_job_ok)
  have secs: "0 < secs" using assms(2) by (simp add: claim_job_def)
  have in': "j' \<in> set (jobs st')" using opens_jobs(1) [OF ok1 job(1) opens] by simp
  have row: "opened_row job j'" and number: "attempts st' = attempts st1 @ [a]" "attempt_of j' a"
    using opens unfolding opens_def by blast+
  have run: "running j'" "jb_id j' = jb_id job" "jb_role j' = ro"
    using row job(2) by (auto simp: opened_row_def claimable_def)
  have tok: "cr_lease_token c = token" "cr_attempt_id c = attempt"
    using claim_job_token [OF assms(2)] by auto
  have num: "at_number a = cr_attempt_number c"
  proof -
    obtain grant st2 at' tk where take: "take_claim W job grant worker at' tk secs now st2 = Inr (st', c)"
      and st2: "attempts st2 = attempts st1" "leases st2 = leases st1"
      using job(3) unfolding claimed_def move_item_def by auto
    have "attempts st' = attempts st1 @ [claimed_attempt job grant worker tk at' (now + secs) now]"
      using take_claim_effect(6) [OF take] key_lists(5) [OF ok1] st2 by simp
    then have "a = claimed_attempt job grant worker tk at' (now + secs) now" using number(1) by simp
    then show ?thesis using j'(6) by (simp add: claimed_attempt_def)
  qed
  obtain i where "i \<in> set (items st')" "it_id i = jb_item_id j'" "it_state i = jb_active_state j'"
    using running_item [OF ok' in' run(1)] .
  then have item: "\<exists>i \<in> set (items st'). it_id i = jb_item_id j' \<and> it_state i = active_state (jb_role j')"
    using job_states(2) [OF ok' in'] by metis
  have live: "live_lease worker token now j'"
    using j' run(1) secs tok by (simp add: live_lease_def running_def)
  have att: "\<exists>a \<in> set (attempts st'). at_id a = attempt \<and> at_status a = AttemptRunning
      \<and> at_number a = cr_attempt_number c"
    using number num j'(3) tok by (auto simp: attempt_of_def)
  show ?thesis
    by (rule bexI [OF _ in'])
      (use j' run ro tok live item att running_resources(1) [OF ok' in' run(1)] in auto)
qed

lemma claim_grants_a_live_lease_witness:
  "\<exists>st' c. claim_job example_world ''investigator'' ''w2'' 60 ''a2'' ''t2'' 80 claimed_store
       = Inr (st', Some c)
     \<and> (\<exists>job \<in> set (jobs st'). live_lease ''w2'' ''t2'' 80 job)"
proof -
  have "holdsR (\<lambda>(_, c). c \<noteq> None)
      (claim_job example_world ''investigator'' ''w2'' 60 ''a2'' ''t2'' 80 claimed_store)"
    by code_simp
  then obtain st' c where run:
      "claim_job example_world ''investigator'' ''w2'' 60 ''a2'' ''t2'' 80 claimed_store = Inr (st', Some c)"
    by (auto elim!: holdsRE)
  from claim_grants_a_live_lease [OF reachable_claimed run] run show ?thesis by blast
qed

section \<open>What follows a claim\<close>

lemma attempt_job:
  assumes "queue_ok st" "a \<in> set (attempts st)" "at_status a = AttemptRunning"
  shows "\<exists>k \<in> set (jobs st). running k \<and> attempt_of k a"
proof -
  note row = bspec [OF queue_okD(7) [OF assms(1), unfolded attempts_ok_def] assms(2)]
  show ?thesis by (rule row [THEN conjunct1, rule_format, OF assms(3)])
qed

text \<open>The stores any further requests lead to, each with its own file system and clock.\<close>

inductive leads_to :: "store \<Rightarrow> store \<Rightarrow> bool" for s :: store where
  here: "leads_to s s"
| onward: "leads_to s t \<Longrightarrow> exec W now r t = Inr u \<Longrightarrow> leads_to s u"

lemma leads_to_reachable: "leads_to s t \<Longrightarrow> reachable s \<Longrightarrow> reachable t"
  by (induction rule: leads_to.induct) (auto intro: reachable.request)

lemma ended_stays_ended:
  assumes "leads_to s t" "reachable s" "a \<in> set (attempts s)" "at_status a \<noteq> AttemptRunning"
  shows "a \<in> set (attempts t)"
  using assms
proof (induction rule: leads_to.induct)
  case (onward t W now r u)
  have "reachable t" using leads_to_reachable onward by blast
  from exec_chronicle [OF reachable_ok [OF this] reachable_runs [OF this] onward.hyps(2)] onward
  show ?case unfolding chronicle_def by blast
qed

lemma ended_is_unheard:
  assumes "reachable s" "leads_to s t" "a \<in> set (attempts s)" "at_status a \<noteq> AttemptRunning"
    and fresh: "\<forall>b \<in> set (attempts t). at_lease_token b = at_lease_token a \<longrightarrow> at_id b = at_id a"
  shows "\<not> heard_by i worker (at_lease_token a) now t"
proof
  assume heard: "heard_by i worker (at_lease_token a) now t"
  have ok: "queue_ok t" using reachable_ok leads_to_reachable [OF assms(2,1)] by blast
  obtain b where b: "b \<in> set (attempts t)" "at_status b = AttemptRunning"
      "at_lease_token b = at_lease_token a"
    using heard_attempt [OF ok heard] by blast
  have "a \<in> set (attempts t)" by (rule ended_stays_ended [OF assms(2,1,3,4)])
  then have "b = a" using attempt_unique [OF ok b(1)] fresh b(1,3) by blast
  with b(2) assms(4) show False by simp
qed

text \<open>
  C3.  A new claim fences every older lease.  Once a job is claimed with a new token, a
  call that presents any other token, or comes from another worker, fails at every reading of
  the clock; and the leases of all earlier attempts of the job stay dead: whatever requests
  follow, and whoever claims the job then, no call that presents the token of one of them is
  ever answered again, as long as no later claim draws that same random token.  A worker that
  lost its lease can no longer heartbeat, commit, fail, interrupt, collect evidence, release a
  guardian or record anything on the job.
\<close>

theorem claim_fences_every_older_lease:
  assumes "reachable st"
    and "claim_job W role worker secs attempt token now st = Inr (st', Some c)"
  shows "(\<forall>call worker' token' W' later. presents call = Some (cr_job_id c, worker', token')
        \<and> (worker', token') \<noteq> (worker, token) \<longrightarrow> \<not> answered W' later call st')
    \<and> (\<forall>a t call worker' W' later. a \<in> set (attempts st') \<and> at_job_id a = cr_job_id c
          \<and> at_id a \<noteq> attempt \<and> leads_to st' t
          \<and> (\<forall>b \<in> set (attempts t). at_lease_token b = at_lease_token a \<longrightarrow> at_id b = at_id a)
          \<and> presents call = Some (cr_job_id c, worker', at_lease_token a)
        \<longrightarrow> \<not> answered W' later call t)"
proof -
  have ok: "queue_ok st" using assms(1) by (rule reachable_ok)
  have ok': "queue_ok st'" using ok assms(2) by (rule claim_job_ok)
  have "exec W now (ClaimJob role worker secs attempt token) st = Inr st'" using assms(2) by auto
  then have reach: "reachable st'" by (rule reachable.request [OF assms(1)])
  obtain st1 job j' a rows where ok1: "queue_ok st1" and job: "job \<in> set (jobs st1)"
    and opens: "opens st1 job j' a rows st'"
    and j': "jb_lease_owner j' = Some worker" "jb_lease_token j' = Some (cr_lease_token c)"
      "jb_current_attempt_id j' = Some (cr_attempt_id c)" "cr_job_id c = jb_id job"
    using claim_job_claimed [OF ok assms(2)] by blast
  note drawn = claim_job_token [OF assms(2)]
  have in': "j' \<in> set (jobs st')" "jb_id j' = cr_job_id c"
    using opens_jobs(1) [OF ok1 job opens] opens j'(4) unfolding opens_def opened_row_def by auto
  have first: "\<not> answered W' later call st'"
    if "presents call = Some (cr_job_id c, worker', token')" "(worker', token') \<noteq> (worker, token)"
    for call worker' token' W' later
  proof
    assume "answered W' later call st'"
    then have "heard_by (cr_job_id c) worker' token' later st'" by (rule answered_live [OF that(1)])
    then obtain k where k: "find_job (cr_job_id c) st' = Some k" "live_lease worker' token' later k"
      unfolding heard_by_def by blast
    have "k = j'"
      by (rule job_unique [OF ok' _ in'(1)]) (use find_job_in [OF ok' k(1)] in'(2) in auto)
    then have "jb_lease_owner j' = Some worker'" "jb_lease_token j' = Some token'"
      using k(2) by (auto simp: live_lease_def)
    with j'(1,2) drawn that(2) show False by auto
  qed
  have ended: "at_status b \<noteq> AttemptRunning"
    if b: "b \<in> set (attempts st')" "at_job_id b = cr_job_id c" "at_id b \<noteq> attempt" for b
  proof
    assume run: "at_status b = AttemptRunning"
    obtain k where k: "k \<in> set (jobs st')" "running k" "attempt_of k b"
      using attempt_job [OF ok' b(1) run] by (elim bexE conjE)
    have "at_job_id b = jb_id k" using k(3) by (simp add: attempt_of_def)
    then have "jb_id k = jb_id j'" using b(2) in'(2) by metis
    then have "k = j'" by (rule job_unique [OF ok' k(1) in'(1)])
    then have "Some (at_id b) = Some attempt" using k(3) j'(3) drawn by (metis attempt_of_def)
    then show False using b(3) by simp
  qed
  show ?thesis
  proof (intro conjI allI impI; elim conjE)
    fix call worker' token' W' later
    assume "presents call = Some (cr_job_id c, worker', token')" "(worker', token') \<noteq> (worker, token)"
    then show "\<not> answered W' later call st'" by (rule first)
  next
    fix b t call worker' W' later
    assume b: "b \<in> set (attempts st')" "at_job_id b = cr_job_id c" "at_id b \<noteq> attempt"
      and t: "leads_to st' t"
      and fresh: "\<forall>b' \<in> set (attempts t). at_lease_token b' = at_lease_token b \<longrightarrow> at_id b' = at_id b"
      and call: "presents call = Some (cr_job_id c, worker', at_lease_token b)"
    show "\<not> answered W' later call t"
      using ended_is_unheard [OF reach t b(1) ended [OF b] fresh] answered_live [OF call] by blast
  qed
qed

text \<open>The first worker of the example loses its lease to a second one, whose job then fails.\<close>

lemma claim_fences_every_older_lease_witness:
  "\<exists>st' c t a. claim_job example_world ''investigator'' ''w2'' 60 ''a2'' ''t2'' 80 claimed_store
      = Inr (st', Some c)
    \<and> \<not> answered example_world 81 (Writes (HeartbeatJob ''j1'' ''w1'' ''t1'' 60)) st'
    \<and> exec example_world 82 (FailJob ''j1'' ''w2'' ''t2'' ''boom'' [] True None 3) st' = Inr t
    \<and> a \<in> set (attempts st') \<and> at_lease_token a = ''t1''
    \<and> \<not> answered example_world 83 (Writes (HeartbeatJob ''j1'' ''w1'' ''t1'' 60)) t"
proof -
  let ?claim = "claim_job example_world ''investigator'' ''w2'' 60 ''a2'' ''t2'' 80 claimed_store"
  let ?fail = "exec example_world 82 (FailJob ''j1'' ''w2'' ''t2'' ''boom'' [] True None 3)"
  have "holdsR (\<lambda>(st', c). (case c of None \<Rightarrow> False | Some r \<Rightarrow> cr_job_id r = ''j1'')
      \<and> map (\<lambda>a. (at_id a, at_job_id a, at_lease_token a)) (attempts st')
        = [(''a1'', ''j1'', ''t1''), (''a2'', ''j1'', ''t2'')]
      \<and> holdsR (\<lambda>t. map (\<lambda>a. (at_id a, at_lease_token a)) (attempts t)
          = [(''a1'', ''t1''), (''a2'', ''t2'')]) (?fail st')) ?claim"
    unfolding served by code_simp
  then obtain st' c t where run: "?claim = Inr (st', Some c)" and c: "cr_job_id c = ''j1''"
    and as: "map (\<lambda>a. (at_id a, at_job_id a, at_lease_token a)) (attempts st')
        = [(''a1'', ''j1'', ''t1''), (''a2'', ''j1'', ''t2'')]"
    and fail: "?fail st' = Inr t"
    and bs: "map (\<lambda>a. (at_id a, at_lease_token a)) (attempts t) = [(''a1'', ''t1''), (''a2'', ''t2'')]"
    by (auto elim!: holdsRE split: option.splits)
  obtain a where a: "a \<in> set (attempts st')" "at_id a = ''a1''" "at_job_id a = ''j1''" "at_lease_token a = ''t1''"
    using as by (cases "attempts st'") auto
  have fresh: "\<forall>b \<in> set (attempts t). at_lease_token b = at_lease_token a \<longrightarrow> at_id b = at_id a"
  proof
    fix b assume "b \<in> set (attempts t)"
    then have "(at_id b, at_lease_token b) \<in> set [(''a1'', ''t1''), (''a2'', ''t2'')]"
      unfolding bs [symmetric] by simp
    then show "at_lease_token b = at_lease_token a \<longrightarrow> at_id b = at_id a" using a by auto
  qed
  have onward: "leads_to st' t" by (rule leads_to.onward [OF leads_to.here fail])
  note fenced = claim_fences_every_older_lease [OF reachable_claimed run]
  have "\<not> answered example_world 81 (Writes (HeartbeatJob ''j1'' ''w1'' ''t1'' 60)) st'"
    using fenced [THEN conjunct1] by (auto simp del: answered.simps simp: c)
  moreover have "\<not> answered example_world 83 (Writes (HeartbeatJob ''j1'' ''w1'' ''t1'' 60)) t"
    by (rule fenced [THEN conjunct2, rule_format, where a = a and worker' = "''w1''"])
      (use a fresh onward in \<open>simp add: c\<close>)
  ultimately show ?thesis using run fail a by blast
qed

end
