(* ===== verification/Outcomes.thy ===== *)
theory Outcomes
  imports Scenario
begin

text \<open>
  What the ends of an attempt leave behind: a failure with its bounded retries, a clean
  interruption, the expiry of leases.
\<close>

section \<open>The rows an end leaves\<close>

lemma ended_rows:
  assumes ok: "queue_ok st" "job \<in> set (jobs st)" "running job"
    and items: "items st' = upd_where (in_state (jb_item_id job) (jb_active_state job))
        (\<lambda>i. i\<lparr>it_state := s, it_updated_at := now\<rparr>) (items st)"
    and jobs: "jobs st' = upd_where (\<lambda>k. jb_id k = jb_id job) G (jobs st)"
    and attempts: "attempts st'
        = upd_where (is_running_attempt (jb_current_attempt_id job)) H (attempts st)"
  shows "set (jobs st') = insert (G job) (set (jobs st) - {job})"
    and "\<exists>i \<in> set (items st'). it_id i = jb_item_id job \<and> it_state i = s"
    and "\<exists>a \<in> set (attempts st). attempt_of job a
        \<and> attempts st' = upd_where (\<lambda>b. at_id b = at_id a) H (attempts st)"
proof -
  show "set (jobs st') = insert (G job) (set (jobs st) - {job})"
    unfolding jobs by (rule set_upd_key [OF key_lists(3) [OF ok(1)] ok(2)])
  obtain i where i: "i \<in> set (items st)" "it_id i = jb_item_id job"
      "it_state i = jb_active_state job"
    using ok by (rule running_item)
  then have "i\<lparr>it_state := s, it_updated_at := now\<rparr> \<in> set (items st')"
    unfolding items set_upd_where by (force simp: in_state_def)
  with i(2) show "\<exists>i \<in> set (items st'). it_id i = jb_item_id job \<and> it_state i = s"
    by (intro bexI) auto
  obtain a where a: "a \<in> set (attempts st)" "attempt_of job a"
    using ok by (rule running_attempt)
  have "attempts st' = upd_where (\<lambda>b. at_id b = at_id a) H (attempts st)"
    unfolding attempts
    by (rule upd_where_cong)
      (use is_running_attempt_iff [OF ok] a(2) in \<open>simp add: attempt_of_def\<close>)
  with a show "\<exists>a \<in> set (attempts st). attempt_of job a
        \<and> attempts st' = upd_where (\<lambda>b. at_id b = at_id a) H (attempts st)"
    by blast
qed

lemma failed_count:
  assumes ok: "queue_ok st" and a: "a \<in> set (attempts st)" "attempt_of job a"
    and H: "\<And>b. at_job_id (H b) = at_job_id b"
  shows "rowcount (\<lambda>b. at_job_id b = jb_id job \<and> at_status b = AttemptFailed)
      (upd_where (\<lambda>b. at_id b = at_id a) H (attempts st))
    = failed_attempts (jb_id job) st + (if at_status (H a) = AttemptFailed then 1 else 0)"
  using rowcount_upd_key [OF key_lists(4) [OF ok] a(1),
      of "\<lambda>b. at_job_id b = jb_id job \<and> at_status b = AttemptFailed" H] a(2)
  by (simp add: attempt_of_def failed_attempts_def H split: if_splits)

lemma released_leases:
  assumes "leases st' = del_where L (leases st)"
    and "\<And>l. l \<in> set (leases st) \<Longrightarrow> L l \<longleftrightarrow> ls_job_id l = Some i"
  shows "job_leases i st' = []"
  using assms(2) by (auto simp: job_leases_def assms(1) del_where_def filter_empty_conv)

section \<open>Failure\<close>

text \<open>
  C7.  Bounded retries.  A failed job goes back to its queue exactly when a retry was asked
  for, fewer than \<open>max_attempts\<close> of its attempts have failed counting this one, and its
  worktree is not quarantined; otherwise it is failed for good and its item blocked.  Either
  way the attempt is recorded as failed and the job holds no lease any more.
\<close>

theorem fail_job_outcome:
  assumes "reachable st"
    and "fail_job W i worker token error result requeue available max_attempts Blocked now st
      = Inr (st', requeued)"
  shows "\<exists>job \<in> set (jobs st). jb_id job = i \<and> jb_status job = JobRunning
    \<and> (requeued \<longleftrightarrow> requeue \<and> int (failed_attempts i st) + 1 < max_attempts
          \<and> \<not> worktree_quarantined job st)
    \<and> failed_attempts i st' = failed_attempts i st + 1
    \<and> (\<exists>j \<in> set (jobs st'). jb_id j = i \<and> jb_lease_owner j = None
          \<and> jb_status j = (if requeued then JobPending else JobFailed)
          \<and> jb_available_at j = or_default available now \<and> jb_last_error j = Some error
          \<and> jb_attempt_count j = jb_attempt_count job)
    \<and> (\<exists>w \<in> set (items st'). it_id w = jb_item_id job
          \<and> it_state w = (if requeued then queued_state (jb_role job) else Blocked))
    \<and> job_leases i st' = []"
proof -
  have ok: "queue_ok st" using assms(1) by (rule reachable_ok)
  let ?G = "\<lambda>j. (unlease (if requeued then JobPending else JobFailed) now j)
    \<lparr>jb_result := Some (ResultJson (JObj result)), jb_last_error := Some error,
     jb_available_at := or_default available now\<rparr>"
  let ?H = "\<lambda>a. a\<lparr>at_result := Some (ResultJson (JObj result)), at_error := Some error,
     at_status := AttemptFailed, at_finished_at := Some now\<rparr>"
  from assms(2) obtain job where job: "find_job i st = Some job" "live_lease worker token now job"
    and tables: "items st' = upd_where (in_state (jb_item_id job) (jb_active_state job))
      (\<lambda>i. i\<lparr>it_state := if requeued then jb_queued_state job else Blocked,
            it_updated_at := now\<rparr>) (items st)"
    "jobs st' = upd_where (\<lambda>j. jb_id j = i) ?G (jobs st)"
    "attempts st' = upd_where (is_running_attempt (jb_current_attempt_id job)) ?H (attempts st)"
    "leases st' = del_where (\<lambda>l. ls_job_id l = Some i \<and> ls_token l = token) (leases st)"
    and requeued: "requeued = (requeue
      \<and> int (failed_attempts i (st\<lparr>attempts := attempts st'\<rparr>)) < max_attempts
      \<and> \<not> worktree_quarantined job st)"
    by (rule fail_job_tables)
  have j: "job \<in> set (jobs st)" "jb_id job = i" "running job"
    using find_job_in [OF ok job(1)] live_leaseD [OF job(2)] by auto
  note rows = ended_rows [OF ok j(1,3) tables(1) tables(2) [folded j(2)] tables(3)]
  have failed: "failed_attempts i st' = failed_attempts i st + 1"
  proof -
    obtain a where a: "a \<in> set (attempts st)" "attempt_of job a"
      and eq: "attempts st' = upd_where (\<lambda>b. at_id b = at_id a) ?H (attempts st)"
      using rows(3) by blast
    from failed_count [OF ok a, of ?H] show ?thesis by (simp add: failed_attempts_def eq j(2))
  qed
  have "job_leases i st' = []"
    using tables(4) token_lease_iff(1) [OF ok j(1) job(2)] unfolding j(2) by (rule released_leases)
  moreover have "?G job \<in> set (jobs st')" using rows(1) by simp
  then have "\<exists>k \<in> set (jobs st'). jb_id k = i \<and> jb_lease_owner k = None
      \<and> jb_status k = (if requeued then JobPending else JobFailed)
      \<and> jb_available_at k = or_default available now \<and> jb_last_error k = Some error
      \<and> jb_attempt_count k = jb_attempt_count job"
    by (rule bexI [rotated]) (simp add: unlease_def j(2))
  moreover have "requeued \<longleftrightarrow> requeue \<and> int (failed_attempts i st) + 1 < max_attempts
      \<and> \<not> worktree_quarantined job st"
    using requeued failed by (simp add: failed_attempts_def add.commute)
  moreover have "\<exists>w \<in> set (items st'). it_id w = jb_item_id job
      \<and> it_state w = (if requeued then queued_state (jb_role job) else Blocked)"
    unfolding job_states(1) [OF ok j(1), symmetric] by (rule rows(2))
  moreover have "jb_status job = JobRunning" using j(3) by (simp add: running_def)
  ultimately show ?thesis using j(1,2) failed by blast
qed

lemma fail_job_outcome_witness:
  "\<exists>st'. fail_job example_world ''j1'' ''w1'' ''t1'' ''boom'' [] True None 2 Blocked 20 claimed_store
       = Inr (st', True)
     \<and> failed_attempts ''j1'' st' = 1"
proof -
  have "holdsR (\<lambda>(_, requeued). requeued) (fail_job example_world ''j1'' ''w1'' ''t1'' ''boom'' []
      True None 2 Blocked 20 claimed_store)" by code_simp
  then obtain st' where run: "fail_job example_world ''j1'' ''w1'' ''t1'' ''boom'' [] True None 2
      Blocked 20 claimed_store = Inr (st', True)" by (auto elim!: holdsRE)
  have "failed_attempts ''j1'' claimed_store = 0" by code_simp
  with fail_job_outcome [OF reachable_claimed run] run show ?thesis by auto
qed

section \<open>Interruption\<close>

text \<open>
  C21.  A clean interruption costs no retry.  The job is pending again and claimable at once,
  its item back in its queue, its leases released; the attempt ends as interrupted, so the
  failures that bound the retries are as many as before.
\<close>

theorem interrupt_job_outcome:
  assumes "reachable st" "interrupt_job W i worker token reason request now st = Inr st'"
  shows "failed_attempts i st' = failed_attempts i st \<and> job_leases i st' = []
    \<and> (\<exists>job \<in> set (jobs st). jb_id job = i \<and> jb_status job = JobRunning
        \<and> (\<exists>j \<in> set (jobs st'). jb_id j = i \<and> jb_status j = JobPending \<and> jb_lease_owner j = None
              \<and> jb_available_at j = now \<and> jb_attempt_count j = jb_attempt_count job)
        \<and> (\<exists>w \<in> set (items st'). it_id w = jb_item_id job \<and> it_state w = queued_state (jb_role job))
        \<and> (\<exists>a \<in> set (attempts st'). jb_current_attempt_id job = Some (at_id a)
              \<and> at_status a = AttemptInterrupted \<and> at_error a = Some reason))"
proof -
  have ok: "queue_ok st" using assms(1) by (rule reachable_ok)
  let ?G = "\<lambda>k. (unlease JobPending now k)\<lparr>jb_last_error := Some reason, jb_available_at := now\<rparr>"
  let ?H = "\<lambda>a. a\<lparr>at_error := Some reason, at_status := AttemptInterrupted, at_finished_at := Some now\<rparr>"
  from assms(2) obtain job where job: "find_job i st = Some job" "live_lease worker token now job"
    and tables: "items st' = upd_where (in_state (jb_item_id job) (jb_active_state job))
      (\<lambda>i. i\<lparr>it_state := jb_queued_state job, it_updated_at := now\<rparr>) (items st)"
    "jobs st' = upd_where (\<lambda>k. jb_id k = i) ?G (jobs st)"
    "attempts st' = upd_where (is_running_attempt (jb_current_attempt_id job)) ?H (attempts st)"
    "leases st' = del_where (\<lambda>l. ls_job_id l = Some i \<and> ls_token l = token) (leases st)"
    by (rule interrupt_job_tables)
  have j: "job \<in> set (jobs st)" "jb_id job = i" "running job"
    using find_job_in [OF ok job(1)] live_leaseD [OF job(2)] by auto
  note rows = ended_rows [OF ok j(1,3) tables(1) tables(2) [folded j(2)] tables(3)]
  obtain a where a: "a \<in> set (attempts st)" "attempt_of job a"
    and eq: "attempts st' = upd_where (\<lambda>b. at_id b = at_id a) ?H (attempts st)"
    using rows(3) by blast
  have "failed_attempts i st' = failed_attempts i st"
    using failed_count [OF ok a, of ?H] by (simp add: failed_attempts_def eq j(2))
  moreover have "job_leases i st' = []"
    using tables(4) token_lease_iff(1) [OF ok j(1) job(2)] unfolding j(2) by (rule released_leases)
  moreover have "?G job \<in> set (jobs st')" using rows(1) by simp
  then have "\<exists>k \<in> set (jobs st'). jb_id k = i \<and> jb_status k = JobPending \<and> jb_lease_owner k = None
      \<and> jb_available_at k = now \<and> jb_attempt_count k = jb_attempt_count job"
    by (rule bexI [rotated]) (simp add: unlease_def j(2))
  moreover have "?H a \<in> set (attempts st')"
    using set_upd_key [OF key_lists(4) [OF ok] a(1)] by (simp add: eq)
  then have "\<exists>b \<in> set (attempts st'). jb_current_attempt_id job = Some (at_id b)
      \<and> at_status b = AttemptInterrupted \<and> at_error b = Some reason"
    by (rule bexI [rotated]) (use a(2) in \<open>simp add: attempt_of_def\<close>)
  moreover have "\<exists>w \<in> set (items st'). it_id w = jb_item_id job
      \<and> it_state w = queued_state (jb_role job)"
    unfolding job_states(1) [OF ok j(1), symmetric] by (rule rows(2))
  moreover have "jb_status job = JobRunning" using j(3) by (simp add: running_def)
  ultimately show ?thesis using j(1,2) by blast
qed

lemma interrupt_job_outcome_witness:
  "\<exists>st'. interrupt_job example_world ''j1'' ''w1'' ''t1'' ''stop'' None 20 claimed_store = Inr st'
     \<and> failed_attempts ''j1'' st' = 0 \<and> job_leases ''j1'' st' = []"
proof -
  have "holdsR (\<lambda>_. True) (interrupt_job example_world ''j1'' ''w1'' ''t1'' ''stop'' None 20
      claimed_store)" by code_simp
  then obtain st' where run: "interrupt_job example_world ''j1'' ''w1'' ''t1'' ''stop'' None 20
      claimed_store = Inr st'" by (rule holdsRE)
  have "failed_attempts ''j1'' claimed_store = 0" by code_simp
  with interrupt_job_outcome [OF reachable_claimed run] run show ?thesis by auto
qed

section \<open>Recovery\<close>

text \<open>
  C6.  Recovery is total and exact.  In every reachable store \<open>recover_expired_leases\<close>
  succeeds.  It reports exactly the running jobs whose lease has expired and whose attempt has
  no unresolved process, and none of them runs any more; every other job is untouched, every
  expired standalone lease is gone, and no process row changed.
\<close>

theorem recovery_is_total_and_exact:
  assumes "reachable st"
  shows "\<exists>st' r. recover_expired_leases W now st = Inr (st', r)
    \<and> set (rc_job_ids r) = jb_id ` {j \<in> set (jobs st). lease_expired now j
         \<and> has_unresolved_process (jb_current_attempt_id j) st = None}
    \<and> (\<forall>j \<in> set (jobs st'). lease_expired now j
         \<longrightarrow> has_unresolved_process (jb_current_attempt_id j) st' \<noteq> None)
    \<and> (\<forall>j \<in> set (jobs st). \<not> lease_expired now j
         \<or> has_unresolved_process (jb_current_attempt_id j) st \<noteq> None \<longrightarrow> j \<in> set (jobs st'))
    \<and> (\<forall>l \<in> set (leases st'). ls_job_id l = None \<longrightarrow> now < ls_expires_at l)
    \<and> processes st' = processes st"
proof -
  obtain st' r where "recover_expired W now st = Inr (st', r)" "processes st' = processes st"
    and "\<forall>j \<in> set (jobs st'). lease_expired now j
        \<longrightarrow> has_unresolved_process (jb_current_attempt_id j) st' \<noteq> None"
    and "\<forall>j \<in> set (jobs st). \<not> lease_expired now j
        \<or> has_unresolved_process (jb_current_attempt_id j) st \<noteq> None \<longrightarrow> j \<in> set (jobs st')"
    and "\<forall>l \<in> set (leases st'). ls_job_id l = None \<longrightarrow> now < ls_expires_at l"
    and "set (rc_job_ids r) = jb_id ` {j \<in> set (jobs st). lease_expired now j
        \<and> has_unresolved_process (jb_current_attempt_id j) st = None}"
    using recover_expired_runs [OF reachable_ok [OF assms], of W now]
    unfolding has_unresolved_process_None not_not by blast
  then show ?thesis unfolding recover_expired_leases_def by blast
qed

lemma recovery_is_total_and_exact_witness:
  "\<exists>st' r. recover_expired_leases example_world 70 claimed_store = Inr (st', r)
     \<and> set (rc_job_ids r) = {''j1''}"
proof -
  have "filter (\<lambda>j. lease_expired 70 j \<and> has_unresolved_process (jb_current_attempt_id j) claimed_store
      = None) (jobs claimed_store) = [hd (jobs claimed_store)]"
    and id: "jb_id (hd (jobs claimed_store)) = ''j1''"
    by code_simp+
  then have "{j \<in> set (jobs claimed_store). lease_expired 70 j
      \<and> has_unresolved_process (jb_current_attempt_id j) claimed_store = None}
      = {hd (jobs claimed_store)}"
    by (metis list.set(1) list.simps(15) set_filter)
  with recovery_is_total_and_exact [OF reachable_claimed, where now = 70 and W = example_world] id
  show ?thesis by auto
qed

end
