(* ===== verification/Holding.thy ===== *)
theory Holding
  imports Scenario
begin

text \<open>
  What holds an attempt: a pending operator interrupt and an unresolved external process keep
  its worker from ending it, and the reconciliation that frees an expired attempt acts only on
  the exact process that was recorded.
\<close>

section \<open>Requests that end an attempt\<close>

text \<open>
  \<open>ends_attempt r\<close>: the job whose attempt its worker ends with \<open>r\<close>, and the operator request
  that \<open>r\<close> answers.
\<close>

fun ends_attempt :: "request \<Rightarrow> (string \<times> string option) option" where
  "ends_attempt (CommitStageResult j _ _ _ _ _ _ _ _ _) = Some (j, None)"
| "ends_attempt (FailJob j _ _ _ _ _ _ _) = Some (j, None)"
| "ends_attempt (InterruptJob j _ _ _ answered) = Some (j, answered)"
| "ends_attempt (ReleaseJob j _ _ _) = Some (j, None)"
| "ends_attempt _ = None"

lemma external_process_stopped_cong:
  "processes st' = processes st \<Longrightarrow> attempts st' = attempts st \<Longrightarrow>
     assert_external_process_stopped job st' = assert_external_process_stopped job st"
  by (simp add: assert_external_process_stopped_def unresolved_process_def attempt_processes_def
      find_attempt_def)

lemma find_append_None: "find P xs = None \<Longrightarrow> find P (xs @ ys) = find P ys"
  by (induction xs) (auto split: if_splits)

lemma ends_attempt_stopped:
  assumes "ends_attempt r = Some (i, answered)" "exec W now r st = Inr st'"
  shows "\<exists>job. find_job i st = Some job \<and> assert_external_process_stopped job st = Inr ()"
proof (cases r)
  case (CommitStageResult)
  with assms obtain job s st1 where "find_job i st = Some job"
      "move_item (jb_item_id job) (jb_active_state job) s now st = Inr st1"
      "assert_external_process_stopped job st1 = Inr ()"
    by (auto simp: commit_stage_result_def finish_job_def)
  then show ?thesis
    using external_process_stopped_cong [of st1 st job] by (auto simp: move_item_def)
next
  case (FailJob)
  with assms show ?thesis by (auto simp: fail_job_def Let_def)
next
  case (InterruptJob)
  with assms show ?thesis by (auto simp: interrupt_job_def Let_def)
next
  case (ReleaseJob)
  with assms show ?thesis by (auto simp: release_job_def interrupt_job_def Let_def)
qed (use assms in simp_all)

lemma ends_attempt_answers:
  assumes "ends_attempt r = Some (i, answered)" "exec W now r st = Inr st'"
  shows "case answered of
      None \<Rightarrow> assert_no_pending_operator_interrupt i st = Inr ()
    | Some k \<Rightarrow> \<exists>job c worker token. find_job i st = Some job
        \<and> assert_operator_interrupt_request W k job worker token True st = Inr c"
proof (cases r)
  case (CommitStageResult)
  with assms show ?thesis by (auto simp: commit_stage_result_def)
next
  case (FailJob)
  with assms show ?thesis by (auto simp: fail_job_def Let_def)
next
  case (InterruptJob j w t reason rid)
  with assms have "interrupt_job W i w t reason answered now st = Inr st'" by simp
  then show ?thesis by (rule interrupt_job_tables) (auto split: option.splits)
next
  case (ReleaseJob j w t reason)
  with assms have "interrupt_job W i w t reason None now st = Inr st'" "answered = None"
    by (simp_all add: release_job_def)
  then show ?thesis by (auto elim!: interrupt_job_tables)
qed (use assms in simp_all)

text \<open>
  C14.  A pending interrupt holds the attempt for the operator.  While a job has a pending
  interrupt request, its worker can end the attempt only by answering exactly that request:
  committing a result, failing the job, releasing it or interrupting it for any other reason
  fails.
\<close>

theorem pending_interrupt_holds_the_attempt:
  assumes "reachable st" "c \<in> set (controls st)"
    and "oc_action c = ActInterrupt" "oc_status c = CtlPending"
    and "ends_attempt r = Some (oc_job_id c, answered)" "answered \<noteq> Some (oc_id c)"
  shows "\<exists>e. exec W now r st = Inl e"
proof (cases "exec W now r st")
  case (Inr st')
  have ok: "queue_ok st" using assms(1) by (rule reachable_ok)
  have c: "pending_interrupt c" using assms(3,4) by (simp add: pending_interrupt_def)
  show ?thesis
  proof (cases answered)
    case None
    with ends_attempt_answers [OF assms(5) Inr]
    have "assert_no_pending_operator_interrupt (oc_job_id c) st = Inr ()" by simp
    with assms(2-4) show ?thesis
      by (auto simp: assert_no_pending_operator_interrupt_def list_ex_iff)
  next
    case (Some k)
    with ends_attempt_answers [OF assms(5) Inr] obtain job d worker token where
        job: "find_job (oc_job_id c) st = Some job"
      and d: "assert_operator_interrupt_request W k job worker token True st = Inr d" by auto
    from d have d': "d \<in> set (controls st)" "oc_id d = k" "pending_interrupt d" "oc_job_id d = jb_id job"
      by (auto simp: assert_operator_interrupt_request_def pending_interrupt_def dest: find_SomeD)
    have "jb_id job = oc_job_id c" using find_job_in [OF ok job] by simp
    with d' c assms(2) queue_okD(10) [OF ok] have "d = c" unfolding controls_ok_def by metis
    with d'(2) Some assms(6) show ?thesis by simp
  qed
qed blast

definition ask_interrupt :: "(time \<times> request) list" where
  "ask_interrupt = [(15, RequestInterrupt ''j1'' ''t1'' ''ops'' ''stop it'' ''k1'')]"

lemma pending_interrupt_holds_the_attempt_witness:
  "\<exists>e. exec example_world 20 (FailJob ''j1'' ''w1'' ''t1'' ''boom'' [] True None 2)
     (after_claim ask_interrupt) = Inl e"
proof -
  have c: "controls (after_claim ask_interrupt) \<noteq> []"
      "oc_action (hd (controls (after_claim ask_interrupt))) = ActInterrupt"
      "oc_status (hd (controls (after_claim ask_interrupt))) = CtlPending"
      "oc_job_id (hd (controls (after_claim ask_interrupt))) = ''j1''"
    unfolding served ask_interrupt_def by code_simp+
  show ?thesis
    by (rule pending_interrupt_holds_the_attempt
        [OF reachable_after_claim hd_in_set [OF c(1)] c(2,3), where answered = None])
      (simp_all add: c(4))
qed

lemma unresolved_job:
  assumes "queue_ok st" "p \<in> set (processes st)" "unresolved p"
  obtains j where "j \<in> set (jobs st)" "running j" "jb_id j = ep_job_id p"
    "jb_current_attempt_id j = Some (ep_attempt_id p)"
proof -
  obtain a where a: "a \<in> set (attempts st)" "at_id a = ep_attempt_id p"
      "at_status a = AttemptRunning" "at_job_id a = ep_job_id p"
    using queue_okD(9) [OF assms(1)] assms(2,3) unfolding processes_ok_def by blast
  then obtain j where "j \<in> set (jobs st)" "running j" "attempt_of j a"
    using queue_okD(7) [OF assms(1)] unfolding attempts_ok_def by blast
  with a that show ?thesis by (auto simp: attempt_of_def)
qed

text \<open>
  C15.  A live process holds the attempt.  While the external process of a running attempt is
  not recorded as stopped, no worker can end that attempt, not even by answering an operator:
  every commit, failure, release or interruption of the job fails.
\<close>

theorem unresolved_process_holds_the_attempt:
  assumes "reachable st" "p \<in> set (processes st)" "ep_state p \<noteq> ProcStopped"
    and "ends_attempt r = Some (ep_job_id p, answered)"
  shows "\<exists>e. exec W now r st = Inl e"
proof (cases "exec W now r st")
  case (Inr st')
  have ok: "queue_ok st" using assms(1) by (rule reachable_ok)
  have p: "unresolved p" using assms(3) by (simp add: unresolved_def)
  obtain j where j: "j \<in> set (jobs st)" "jb_id j = ep_job_id p"
      "jb_current_attempt_id j = Some (ep_attempt_id p)"
    using ok assms(2) p by (rule unresolved_job)
  obtain job where job: "find_job (ep_job_id p) st = Some job"
      "assert_external_process_stopped job st = Inr ()"
    using ends_attempt_stopped [OF assms(4) Inr] by blast
  have "job = j"
    by (rule job_unique [OF ok _ j(1)]) (use find_job_in [OF ok job(1)] j(2) in auto)
  with assert_external_process_stopped_Inr [OF job(2)] assms(2,3) j(3) show ?thesis by auto
qed blast

definition held_process :: process_identity where
  "held_process = \<lparr>pi_process_id = 42, pi_process_group_id = 42, pi_owner_uid = 501,
     pi_kernel_executable = ''/bin/codex'', pi_start_seconds = 9, pi_start_microseconds = 0,
     pi_target_executable = ''/bin/codex''\<rparr>"

definition with_process :: "(time \<times> request) list" where
  "with_process = [(12, RecordProcess ''j1'' ''w1'' ''t1'' ''codex'' held_process ''p1'')]"

lemma unresolved_process_holds_the_attempt_witness:
  "\<exists>e. exec example_world 20 (ReleaseJob ''j1'' ''w1'' ''t1'' ''done'')
     (after_claim with_process) = Inl e"
proof -
  have p: "processes (after_claim with_process) \<noteq> []"
      "ep_state (hd (processes (after_claim with_process))) \<noteq> ProcStopped"
      "ep_job_id (hd (processes (after_claim with_process))) = ''j1''"
    unfolding served with_process_def by code_simp+
  show ?thesis
    by (rule unresolved_process_holds_the_attempt
        [OF reachable_after_claim hd_in_set [OF p(1)] p(2), where answered = None])
      (simp_all add: p(3))
qed

section \<open>Asking twice\<close>

text \<open>
  C22.  Asking for an interrupt is idempotent.  Repeating the same request, at any time the
  lease is still live and whatever new identifier it would draw, returns the request already
  pending and writes nothing.
\<close>

theorem request_interrupt_idempotent:
  assumes "request_job_interrupt W i token by_whom reason fresh now st = Inr (st1, c)"
    and "find_job i st = Some job" "jb_lease_expires_at job = Some e" "later < e"
  shows "request_job_interrupt W i token by_whom reason fresh' later st1 = Inr (st1, c)"
proof (cases "find (pending_control ActInterrupt i) (controls st)")
  case (Some existing)
  with assms show ?thesis
    by (auto simp: request_job_interrupt_def interrupt_fence_def)
next
  case None
  from assms None obtain attempt st0 where
      texts: "operator_text 256 by_whom" "operator_text 4096 reason" "i = py_strip i" "i \<noteq> []"
        "token = py_strip token" "token \<noteq> []"
    and fence: "interrupt_fence token now job"
    and attempt: "jb_current_attempt_id job = Some (at_id attempt)"
    and c: "c = interrupt_row W fresh job attempt (unresolved_process (Some (at_id attempt)) st)
          token by_whom reason now"
    and ins: "insert_control c st = Inr st0" and st1: "jobs st1 = jobs st0" "controls st1 = controls st0"
    unfolding request_job_interrupt_def Let_def by (auto dest: find_SomeD)
  have same: "find_job i st1 = Some job"
    using assms(2) insert_controlD(1) [OF ins] st1(1) by (simp add: find_job_def)
  have id: "jb_id job = i" using assms(2) by (auto dest: find_jobD)
  have "pending_control ActInterrupt i c" by (simp add: c id interrupt_row_def pending_control_def)
  then have found: "find (pending_control ActInterrupt i) (controls st1) = Some c"
    using None insert_controlD(1) [OF ins] st1(2) by (simp add: find_append_None)
  have "interrupt_fence token later job"
    using fence assms(3,4) by (simp add: interrupt_fence_def)
  with texts same found attempt show ?thesis
    by (simp add: request_job_interrupt_def c interrupt_row_def)
qed

lemma request_interrupt_idempotent_witness:
  "\<exists>st1 c. request_job_interrupt example_world ''j1'' ''t1'' ''ops'' ''stop it'' ''k1'' 15 claimed_store
       = Inr (st1, c)
     \<and> request_job_interrupt example_world ''j1'' ''t1'' ''ops'' ''stop it'' ''k2'' 69 st1 = Inr (st1, c)"
proof -
  have "holdsR (\<lambda>_. True) (request_job_interrupt example_world ''j1'' ''t1'' ''ops'' ''stop it''
      ''k1'' 15 claimed_store)" by code_simp
  then obtain st1 c where run: "request_job_interrupt example_world ''j1'' ''t1'' ''ops'' ''stop it''
      ''k1'' 15 claimed_store = Inr (st1, c)" by (auto elim: holdsRE)
  have j: "find_job ''j1'' claimed_store = Some (hd (jobs claimed_store))"
      "jb_lease_expires_at (hd (jobs claimed_store)) = Some 70" by code_simp+
  from request_interrupt_idempotent [OF run j] run show ?thesis by auto
qed

end
