(* ===== verification/Reconciled.thy ===== *)
theory Reconciled
  imports Scenario
begin

text \<open>
  What fenced reconciliation does to an expired attempt: it frees the job only for the exact
  process that was recorded and only when its identity can be verified; otherwise it
  quarantines the process and keeps everything the attempt holds.
\<close>

section \<open>Expiry, table by table\<close>

lemma reject_pending_interrupt_tables:
  assumes "reject_pending_interrupt job error now st = Inr st'"
  shows "items st' = items st" "jobs st' = jobs st" "attempts st' = attempts st"
    "leases st' = leases st" "processes st' = processes st"
  using assms by (auto simp: reject_pending_interrupt_def Let_def split: option.splits)

lemma expire_job_after_lease_tables:
  assumes "expire_job_after_lease W job error data now st = Inr st'"
  shows "items st' = upd_where (in_state (jb_item_id job) (jb_active_state job))
      (\<lambda>i. i\<lparr>it_state := jb_queued_state job, it_updated_at := now\<rparr>) (items st)"
    and "jobs st' = upd_where (\<lambda>k. jb_id k = jb_id job \<and> jb_status k = JobRunning
        \<and> jb_current_attempt_id k \<noteq> None \<and> jb_current_attempt_id k = jb_current_attempt_id job)
      (\<lambda>k. (unlease JobPending now k)\<lparr>jb_available_at := now, jb_last_error := Some error\<rparr>) (jobs st)"
    and "leases st' = del_where (fenced_lease job) (leases st)"
    and "processes st' = processes st"
proof -
  from assms obtain st1 where reject: "reject_pending_interrupt job error now st = Inr st1"
    by (auto simp: expire_job_after_lease_def)
  note st1 = reject_pending_interrupt_tables [OF reject]
  show "items st' = upd_where (in_state (jb_item_id job) (jb_active_state job))
      (\<lambda>i. i\<lparr>it_state := jb_queued_state job, it_updated_at := now\<rparr>) (items st)"
    "jobs st' = upd_where (\<lambda>k. jb_id k = jb_id job \<and> jb_status k = JobRunning
        \<and> jb_current_attempt_id k \<noteq> None \<and> jb_current_attempt_id k = jb_current_attempt_id job)
      (\<lambda>k. (unlease JobPending now k)\<lparr>jb_available_at := now, jb_last_error := Some error\<rparr>) (jobs st)"
    "leases st' = del_where (fenced_lease job) (leases st)"
    "processes st' = processes st"
    using assms st1 unfolding expire_job_after_lease_def reject
    by (auto simp: Let_def move_item_def finish_attempt_def)
qed

section \<open>Completing a reconciliation\<close>

definition acts_on ::
    "store \<Rightarrow> string \<Rightarrow> string \<Rightarrow> string \<Rightarrow> recorded_identity \<Rightarrow> time \<Rightarrow> process_row \<Rightarrow> job_row \<Rightarrow> bool" where
  "acts_on st attempt owner token expected now p job \<longleftrightarrow>
     p \<in> set (processes st) \<and> ep_attempt_id p = attempt \<and> recorded_identity p = expected
     \<and> ep_state p \<noteq> ProcStopped \<and> ep_reconciliation_owner p = Some owner
     \<and> ep_reconciliation_token p = Some token
     \<and> (\<exists>e. ep_reconciliation_expires_at p = Some e \<and> now < e)
     \<and> job \<in> set (jobs st) \<and> jb_id job = ep_job_id p \<and> jb_current_attempt_id job = Some attempt
     \<and> lease_expired now job"

lemma complete_reconciliation_cases:
  assumes ok: "queue_ok st"
    and run: "complete_external_process_reconciliation W attempt owner token expected status_text
      reason_text observed now st = Inr (st', released)"
  obtains p job where "acts_on st attempt owner token expected now p job"
    "released \<longrightarrow> verifiable p"
    "\<not> released \<longrightarrow> jobs st' = jobs st \<and> leases st' = leases st \<and> attempts st' = attempts st
       \<and> items st' = items st \<and> (\<exists>q \<in> set (processes st'). ep_id q = ep_id p \<and> ep_state q = ProcQuarantined)"
    "released \<longrightarrow> (\<exists>st0 error data. jobs st0 = jobs st \<and> items st0 = items st \<and> leases st0 = leases st
       \<and> (\<forall>q \<in> set (processes st0). ep_id q = ep_id p \<longrightarrow> ep_state q = ProcStopped)
       \<and> (\<forall>q \<in> set (processes st0). ep_id q \<noteq> ep_id p \<longrightarrow> q \<in> set (processes st))
       \<and> expire_job_after_lease W job error data now st0 = Inr st')"
proof -
  let ?status = "py_lower (py_strip status_text)"
  let ?reason = "py_strip reason_text"
  let ?mine = "\<lambda>q. ep_id q = ep_id p \<and> ep_state q \<noteq> ProcStopped"
  from run obtain p job where p: "fenced_process attempt owner token st = Some p"
    and job: "find_job (ep_job_id p) st = Some job" "lease_expired now job"
      "jb_current_attempt_id job = Some attempt"
    and fence: "case ep_reconciliation_expires_at p of None \<Rightarrow> False | Some e \<Rightarrow> now < e"
    and exact: "expected = recorded_identity p"
    and verified: "?status = ''quarantined'' \<or> verifiable p"
    unfolding complete_external_process_reconciliation_def Let_def
    by (auto split: option.splits)
  note proc = fenced_processD [OF p]
  have j: "job \<in> set (jobs st)" "jb_id job = ep_job_id p"
    using find_job_in [OF ok job(1)] by auto
  have acts: "acts_on st attempt owner token expected now p job" if "ep_state p \<noteq> ProcStopped"
    using proc j job(2,3) fence exact that by (auto simp: acts_on_def split: option.splits)
  show ?thesis
  proof (cases "?status = ''quarantined''")
    case True
    let ?F = "\<lambda>q. (release_fence_fields q)\<lparr>ep_state := ProcQuarantined,
      ep_outcome := Some ''quarantined'', ep_last_error := Some ?reason, ep_updated_at := now\<rparr>"
    have effect: "\<not> released" "ep_state p \<noteq> ProcStopped" "jobs st' = jobs st" "leases st' = leases st"
      "attempts st' = attempts st" "items st' = items st"
      "processes st' = upd_where (\<lambda>q. ep_id q = ep_id p) ?F (processes st)"
      using run p job True unfolding complete_external_process_reconciliation_def Let_def
      by auto
    have "?F p \<in> set (processes st')" using proc(1) by (auto simp: effect(7) set_upd_where)
    then have "\<exists>q \<in> set (processes st'). ep_id q = ep_id p \<and> ep_state q = ProcQuarantined"
      by (rule bexI [rotated]) (simp add: release_fence_fields_def)
    with effect acts show ?thesis by (intro that [of p job]) auto
  next
    case False
    let ?mine = "\<lambda>q. ep_id q = ep_id p \<and> ep_state q \<noteq> ProcStopped"
    let ?F = "\<lambda>q. (release_fence_fields q)\<lparr>ep_state := ProcStopped, ep_stopped_at := Some now,
      ep_outcome := Some ?status, ep_last_error := None, ep_updated_at := now\<rparr>"
    let ?st0 = "append_event ''worker.external_process_reconciled'' (Some (jb_campaign_id job))
      (Some (jb_item_id job)) (Some (jb_id job)) (Some owner)
      (reconciliation_data p ?status ?reason observed) now
      (st\<lparr>processes := upd_where ?mine ?F (processes st)\<rparr>)"
    have released: "released" and one: "rowcount ?mine (processes st) = 1"
      and expire: "expire_job_after_lease W job ''lease expired after external process reconciliation''
        [(''external_process_status'', JStr ?status)] now ?st0 = Inr st'"
      using run p job False unfolding complete_external_process_reconciliation_def Let_def
      by auto
    obtain q where q: "q \<in> set (processes st)" "?mine q"
      using one rowcount_pos_iff [of ?mine "processes st"] by auto
    then have "q = p" using key_unique [OF key_lists(6) [OF ok] _ proc(1)] by blast
    with q have "ep_state p \<noteq> ProcStopped" by simp
    then have "acts_on st attempt owner token expected now p job" by (rule acts)
    moreover have "\<exists>st0 error data. jobs st0 = jobs st \<and> items st0 = items st \<and> leases st0 = leases st
       \<and> (\<forall>q \<in> set (processes st0). ep_id q = ep_id p \<longrightarrow> ep_state q = ProcStopped)
       \<and> (\<forall>q \<in> set (processes st0). ep_id q \<noteq> ep_id p \<longrightarrow> q \<in> set (processes st))
       \<and> expire_job_after_lease W job error data now st0 = Inr st'"
      by (rule exI [of _ ?st0], intro exI conjI)
        (rule_tac [6] expire, auto simp: set_upd_where release_fence_fields_def split: if_splits)
    ultimately show ?thesis using released verified False by (intro that [of p job]) auto
  qed
qed

text \<open>What a committed completion is, in a store that satisfies the invariant.\<close>

lemma reconciliation_outcome:
  assumes ok: "queue_ok st"
    and "complete_external_process_reconciliation W attempt owner token expected status reason
      observed now st = Inr (st', released)"
  shows "\<exists>p job. acts_on st attempt owner token expected now p job
    \<and> (if released
       then verifiable p \<and> job_leases (jb_id job) st' = []
         \<and> (\<exists>j \<in> set (jobs st'). jb_id j = jb_id job \<and> jb_status j = JobPending)
         \<and> (\<exists>i \<in> set (items st'). it_id i = jb_item_id job \<and> it_state i = queued_state (jb_role job))
         \<and> (\<forall>q \<in> set (processes st'). ep_attempt_id q = attempt \<longrightarrow> ep_state q = ProcStopped)
       else jobs st' = jobs st \<and> leases st' = leases st \<and> attempts st' = attempts st
         \<and> (\<exists>q \<in> set (processes st'). ep_id q = ep_id p \<and> ep_state q = ProcQuarantined))"
proof -
  from ok assms(2) obtain p job where acts: "acts_on st attempt owner token expected now p job"
    and verified: "released \<longrightarrow> verifiable p"
    and kept: "\<not> released \<longrightarrow> jobs st' = jobs st \<and> leases st' = leases st \<and> attempts st' = attempts st
       \<and> items st' = items st \<and> (\<exists>q \<in> set (processes st'). ep_id q = ep_id p \<and> ep_state q = ProcQuarantined)"
    and freed: "released \<longrightarrow> (\<exists>st0 error data. jobs st0 = jobs st \<and> items st0 = items st \<and> leases st0 = leases st
       \<and> (\<forall>q \<in> set (processes st0). ep_id q = ep_id p \<longrightarrow> ep_state q = ProcStopped)
       \<and> (\<forall>q \<in> set (processes st0). ep_id q \<noteq> ep_id p \<longrightarrow> q \<in> set (processes st))
       \<and> expire_job_after_lease W job error data now st0 = Inr st')"
    by (rule complete_reconciliation_cases)
  have p: "p \<in> set (processes st)" "unresolved p" "ep_attempt_id p = attempt"
    and j: "job \<in> set (jobs st)" "running job" "jb_current_attempt_id job = Some attempt"
    using acts by (auto simp: acts_on_def unresolved_def lease_expired_def running_def)
  show ?thesis
  proof (cases released)
    case False
    with acts kept show ?thesis by auto
  next
    case True
    with freed obtain st0 error data where st0: "jobs st0 = jobs st" "items st0 = items st"
        "leases st0 = leases st"
      and procs: "\<forall>q \<in> set (processes st0). ep_id q = ep_id p \<longrightarrow> ep_state q = ProcStopped"
        "\<forall>q \<in> set (processes st0). ep_id q \<noteq> ep_id p \<longrightarrow> q \<in> set (processes st)"
      and expire: "expire_job_after_lease W job error data now st0 = Inr st'"
      by blast
    note tables = expire_job_after_lease_tables [OF expire, unfolded st0]
    have "job_leases (jb_id job) st' = []"
      using fenced_lease_iff [OF ok j(1,2)]
      by (auto simp: job_leases_def tables(3) del_where_def filter_empty_conv)
    moreover have "\<exists>k \<in> set (jobs st'). jb_id k = jb_id job \<and> jb_status k = JobPending"
    proof -
      let ?k = "(unlease JobPending now job)\<lparr>jb_available_at := now, jb_last_error := Some error\<rparr>"
      have "?k \<in> set (jobs st')"
        unfolding tables(2) set_upd_where using j by (force simp: running_def)
      then show ?thesis by (rule bexI [rotated]) (simp add: unlease_def)
    qed
    moreover have "\<exists>i \<in> set (items st'). it_id i = jb_item_id job \<and> it_state i = queued_state (jb_role job)"
    proof -
      obtain i where i: "i \<in> set (items st)" "it_id i = jb_item_id job"
          "it_state i = jb_active_state job"
        using ok j(1,2) by (rule running_item)
      then have "i\<lparr>it_state := jb_queued_state job, it_updated_at := now\<rparr> \<in> set (items st')"
        unfolding tables(1) set_upd_where by (force simp: in_state_def)
      with i(2) show ?thesis by (rule_tac bexI) (simp_all add: job_states(1) [OF ok j(1)])
    qed
    moreover have "ep_state q = ProcStopped"
      if q: "q \<in> set (processes st')" "ep_attempt_id q = attempt" for q
    proof (cases "ep_id q = ep_id p")
      case True
      with procs(1) q(1) tables(4) show ?thesis by simp
    next
      case False
      with procs(2) q(1) tables(4) have "q \<in> set (processes st)" by simp
      with q(2) p False queue_okD(9) [OF ok] show ?thesis
        unfolding processes_ok_def unresolved_def by metis
    qed
    ultimately show ?thesis using acts verified True by auto
  qed
qed

text \<open>
  C8.  Reconciliation acts on the exact process.  Completing a reconciliation succeeds only
  under a live reconciliation lease on an unresolved process of the expired attempt its job
  still names, and only when the caller states that process's recorded identity in full.  It
  then either releases (only a verifiable identity: the process is recorded as stopped, the
  job pending again, its item queued, its leases gone) or quarantines (the job, its attempt
  and its leases stay exactly as they were).
\<close>

theorem reconciliation_acts_on_the_exact_process:
  assumes "reachable st"
    and "complete_external_process_reconciliation W attempt owner token expected status reason
      observed now st = Inr (st', released)"
  shows "\<exists>p job. acts_on st attempt owner token expected now p job
    \<and> (if released
       then verifiable p \<and> job_leases (jb_id job) st' = []
         \<and> (\<exists>j \<in> set (jobs st'). jb_id j = jb_id job \<and> jb_status j = JobPending)
         \<and> (\<exists>i \<in> set (items st'). it_id i = jb_item_id job \<and> it_state i = queued_state (jb_role job))
         \<and> (\<forall>q \<in> set (processes st'). ep_attempt_id q = attempt \<longrightarrow> ep_state q = ProcStopped)
       else jobs st' = jobs st \<and> leases st' = leases st \<and> attempts st' = attempts st
         \<and> (\<exists>q \<in> set (processes st'). ep_id q = ep_id p \<and> ep_state q = ProcQuarantined))"
  by (rule reconciliation_outcome [OF reachable_ok [OF assms(1)] assms(2)])

definition reconciling :: "(time \<times> request) list" where
  "reconciling =
     [(12, RecordProcess ''j1'' ''w1'' ''t1'' ''codex''
         \<lparr>pi_process_id = 42, pi_process_group_id = 42, pi_owner_uid = 501,
          pi_kernel_executable = ''/bin/codex'', pi_start_seconds = 9, pi_start_microseconds = 0,
          pi_target_executable = ''/bin/codex''\<rparr> ''p1''),
      (80, ClaimReconciliation ''sweeper'' 30 False [] ''r1'')]"

lemma reconciliation_acts_on_the_exact_process_witness:
  "\<exists>st' released. complete_external_process_reconciliation example_world ''a1'' ''sweeper'' ''r1''
       (42, 42, Some 501, Some ''/bin/codex'', Some 9, Some 0, Some ''/bin/codex'', DarwinLibprocV1)
       ''gone'' ''no such process'' [] 90 (after_claim reconciling) = Inr (st', released)
     \<and> (\<exists>p \<in> set (processes (after_claim reconciling)). ep_attempt_id p = ''a1'')"
proof -
  have "holdsR (\<lambda>_. True) (complete_external_process_reconciliation example_world ''a1'' ''sweeper''
       ''r1'' (42, 42, Some 501, Some ''/bin/codex'', Some 9, Some 0, Some ''/bin/codex'',
       DarwinLibprocV1) ''gone'' ''no such process'' [] 90 (after_claim reconciling))"
    unfolding served reconciling_def by code_simp
  then obtain st' released where run: "complete_external_process_reconciliation example_world ''a1''
       ''sweeper'' ''r1'' (42, 42, Some 501, Some ''/bin/codex'', Some 9, Some 0, Some ''/bin/codex'',
       DarwinLibprocV1) ''gone'' ''no such process'' [] 90 (after_claim reconciling) = Inr (st', released)"
    by (auto elim: holdsRE)
  from reconciliation_acts_on_the_exact_process [OF reachable_after_claim run] run show ?thesis
    unfolding acts_on_def by blast
qed

end
