(* ===== verification/Choice.thy ===== *)
theory Choice
  imports Scenario
begin

text \<open>
  Which job a claim takes: the first candidate in the order of the queue that meets every
  condition, and none only when no candidate meets them.
\<close>

definition queue_key :: "job_row \<Rightarrow> int \<times> int \<times> string" where
  "queue_key j = (- jb_priority j, jb_created_at j, jb_id j)"

text \<open>Under the queue invariant a candidate's item always moves.\<close>

lemma claimable_moves:
  assumes ok: "queue_ok st" and j: "claimable role now st j"
  shows "\<exists>st'. move_item (jb_item_id j) (jb_queued_state j) (jb_active_state j) now st = Inr st'"
proof -
  obtain i where i: "find_item (jb_item_id j) st = Some i" "it_state i = jb_queued_state j"
    using j by (auto simp: claimable_def split: option.splits)
  then have "i \<in> set (items st)" "it_id i = jb_item_id j" by (auto dest: find_itemD)
  with i(2) rowcount_key_eq_1 [OF key_lists(2) [OF ok], of i "\<lambda>k. it_state k = jb_queued_state j"]
  have "rowcount (in_state (jb_item_id j) (jb_queued_state j)) (items st) = 1"
    by (simp add: in_state_def [abs_def])
  then show ?thesis by (simp add: move_item_def)
qed

lemma claim_first_None:
  assumes "queue_ok st" "\<forall>j \<in> set js. claimable role now st j"
    and "claim_first W js worker attempt token secs now st = Inr (st', None)"
  shows "st' = st \<and> (\<forall>j \<in> set js. claim_conditions W j st = Inr None)"
  using assms(2,3)
proof (induction js)
  case (Cons j js)
  obtain st1 where "move_item (jb_item_id j) (jb_queued_state j) (jb_active_state j) now st = Inr st1"
    using claimable_moves [OF assms(1), of role now j] Cons.prems(1) by auto
  with Cons.prems have "claim_conditions W j st = Inr None"
    by (auto split: option.splits)
  with Cons show ?case by simp
qed simp

lemma claim_first_Some:
  assumes "queue_ok st" "\<forall>j \<in> set js. claimable role now st j"
    and "claim_first W js worker attempt token secs now st = Inr (st', Some c)"
  shows "\<exists>before job after. js = before @ job # after
    \<and> (\<forall>j \<in> set before. claim_conditions W j st = Inr None)
    \<and> (\<exists>grant. claim_conditions W job st = Inr (Some grant)) \<and> cr_job_id c = jb_id job"
  using assms(2,3)
proof (induction js)
  case (Cons j js)
  obtain granted where g: "claim_conditions W j st = Inr granted" using Cons.prems(2) by auto
  obtain st1 where moved:
      "move_item (jb_item_id j) (jb_queued_state j) (jb_active_state j) now st = Inr st1"
    using claimable_moves [OF assms(1), of role now j] Cons.prems(1) by auto
  show ?case
  proof (cases granted)
    case None
    with Cons g obtain before job after where "js = before @ job # after"
        "\<forall>j \<in> set before. claim_conditions W j st = Inr None"
        "\<exists>grant. claim_conditions W job st = Inr (Some grant)" "cr_job_id c = jb_id job"
      by auto
    with None g show ?thesis by (intro exI [of _ "j # before"]) auto
  next
    case (Some grant)
    with Cons.prems(2) g moved
    have "take_claim W j grant worker attempt token secs now st1 = Inr (st', c)" by auto
    then have "cr_job_id c = jb_id j" by (auto simp: take_claim_def Let_def)
    with Some g show ?thesis by (intro exI [of _ "[]"]) auto
  qed
qed simp

lemma sorted_prefix:
  assumes "sorted (map key (before @ x # after))" "y \<in> set (before @ x # after)" "key y < key x"
  shows "y \<in> set before"
  using assms by (auto simp: sorted_append)

text \<open>
  C5.  A claim takes the first job it can.  After recovering expired leases, \<open>claim_job\<close> takes
  the eligible job that comes first by descending priority, then age, then identifier: every
  pending, available job of the role that comes before it fails some condition (admission,
  workspace, approval, limits or resources).  It returns nothing only when no job is eligible.
\<close>

theorem claim_takes_the_first_eligible:
  assumes "reachable st"
    and "claim_job W role_name worker secs attempt token now st = Inr (st', r)"
    and "worker_role_of (py_lower role_name) = Some role"
    and "recover_expired W now st = Inr (st1, rec)"
  shows "case r of
      None \<Rightarrow> st' = st1
        \<and> (\<forall>j \<in> set (jobs st1). claimable role now st1 j \<longrightarrow> claim_conditions W j st1 = Inr None)
    | Some c \<Rightarrow> \<exists>job \<in> set (jobs st1). cr_job_id c = jb_id job \<and> claimable role now st1 job
        \<and> (\<exists>grant. claim_conditions W job st1 = Inr (Some grant))
        \<and> (\<forall>j \<in> set (jobs st1). claimable role now st1 j \<and> queue_key j < queue_key job
             \<longrightarrow> claim_conditions W j st1 = Inr None)"
proof -
  have ok: "queue_ok st" using assms(1) by (rule reachable_ok)
  have ok1: "queue_ok st1" using recover_expired_runs [OF ok, of W now] assms(4) by auto
  have first: "claim_first W (candidates role now st1) worker attempt token secs now st1 = Inr (st', r)"
    using assms(2-4) by (auto simp: claim_job_def)
  have cand: "\<forall>j \<in> set (candidates role now st1). claimable role now st1 j"
    by (simp add: candidates_in)
  show ?thesis
  proof (cases r)
    case None
    with claim_first_None [OF ok1 cand first [unfolded None]] show ?thesis by (auto simp: candidates_in)
  next
    case (Some c)
    from claim_first_Some [OF ok1 cand first [unfolded Some]] obtain before job after grant where
        split: "candidates role now st1 = before @ job # after"
      and before: "\<forall>j \<in> set before. claim_conditions W j st1 = Inr None"
      and grant: "claim_conditions W job st1 = Inr (Some grant)" and c: "cr_job_id c = jb_id job"
      by blast
    have job: "job \<in> set (jobs st1)" "claimable role now st1 job"
      using candidates_in [of job role now st1] by (simp_all add: split)
    have sorted: "sorted (map queue_key (before @ job # after))"
      using sorted_order_by [of queue_key "filter (claimable role now st1) (jobs st1)"]
      by (simp add: split [symmetric] candidates_def queue_key_def [abs_def])
    have "claim_conditions W j st1 = Inr None"
      if "j \<in> set (jobs st1)" "claimable role now st1 j" "queue_key j < queue_key job" for j
    proof -
      have "j \<in> set (before @ job # after)"
        using that(1,2) candidates_in [of j role now st1] by (simp add: split)
      from sorted_prefix [OF sorted this that(3)] before show ?thesis by blast
    qed
    with Some c grant job show ?thesis by auto
  qed
qed

lemma claim_takes_the_first_eligible_witness:
  "\<exists>st'. claim_job example_world ''investigator'' ''w2'' 60 ''a2'' ''t2'' 11 claimed_store
       = Inr (st', None)
     \<and> (\<forall>j \<in> set (jobs claimed_store). claimable Investigator 11 claimed_store j
          \<longrightarrow> claim_conditions example_world j claimed_store = Inr None)"
proof -
  have "holdsR (\<lambda>(_, r). r = None)
      (claim_job example_world ''investigator'' ''w2'' 60 ''a2'' ''t2'' 11 claimed_store)"
    by code_simp
  then obtain st' where run:
      "claim_job example_world ''investigator'' ''w2'' 60 ''a2'' ''t2'' 11 claimed_store = Inr (st', None)"
    by (auto elim!: holdsRE)
  have rec: "recover_expired example_world 11 claimed_store
      = Inr (claimed_store, \<lparr>rc_job_ids = [], rc_resources = 0, rc_pending = []\<rparr>)" by code_simp
  have "worker_role_of (py_lower ''investigator'') = Some Investigator" by code_simp
  from claim_takes_the_first_eligible [OF reachable_claimed run this rec] run show ?thesis by auto
qed

end
