(* ===== verification/Housing.thy ===== *)
theory Housing
  imports Lasting
begin

text \<open>
  The life cycle of managed worktrees, stated first as an abstract state machine and then as
  the invariant that makes every request of the store a step of it: an operation under way
  and the state of its worktree go together, and no job runs in a worktree that is being
  created or removed.
\<close>

section \<open>The abstract life cycle\<close>

inductive life_step :: "ManagedWorktreeState \<Rightarrow> ManagedWorktreeState \<Rightarrow> bool" where
  built: "life_step WtProvisioning WtReady"
| cleanup: "life_step WtReady WtCleanupPending"
| removed: "life_step WtCleanupPending WtRemoved"
| quarantined: "s \<noteq> WtRemoved \<Longrightarrow> life_step s WtQuarantined"
| resume_building: "life_step WtQuarantined WtProvisioning"
| resume_cleanup: "life_step WtQuarantined WtCleanupPending"

inductive_simps life_step_from [simp]:
  "life_step WtRemoved s" "life_step WtReady s" "life_step WtProvisioning s"
  "life_step WtCleanupPending s" "life_step WtQuarantined s"

section \<open>The invariant\<close>

definition under_way :: "operation_row \<Rightarrow> bool" where
  "under_way r \<longleftrightarrow> wo_status r \<noteq> OpSucceeded"

text \<open>The state of a worktree while an operation on it is under way.\<close>

definition expected_state :: "operation_row \<Rightarrow> ManagedWorktreeState" where
  "expected_state r =
     (if wo_status r = OpQuarantined then WtQuarantined
      else case wo_kind r of OpCreate \<Rightarrow> WtProvisioning | OpRemove \<Rightarrow> WtCleanupPending)"

definition finished_cleanly :: "operation_row \<Rightarrow> bool" where
  "finished_cleanly r \<longleftrightarrow> wo_process_state r = Some OpProcStopped \<and> wo_stdout_sha256 r \<noteq> None
     \<and> wo_stderr_sha256 r \<noteq> None"

definition fence_open :: "operation_row \<Rightarrow> bool" where
  "fence_open r \<longleftrightarrow> wo_reconciliation_owner r = None"

text \<open>An operation under way and its worktree go together; a finished one was reaped and recorded.\<close>

definition ops_ok :: "worktree_row list \<Rightarrow> operation_row list \<Rightarrow> bool" where
  "ops_ok ws rs \<longleftrightarrow> distinct (map wt_id ws) \<and> distinct (map wo_id rs)
     \<and> (\<forall>r \<in> set rs. \<exists>w \<in> set ws. wt_id w = wo_worktree_id r
          \<and> (under_way r \<longrightarrow> wt_state w = expected_state r))
     \<and> (\<forall>r \<in> set rs. \<forall>s \<in> set rs. under_way r \<longrightarrow> under_way s \<longrightarrow>
          wo_worktree_id r = wo_worktree_id s \<longrightarrow> r = s)
     \<and> (\<forall>r \<in> set rs. \<not> under_way r \<longrightarrow> finished_cleanly r \<and> fence_open r)
     \<and> (\<forall>w \<in> set ws. wt_state w \<in> {WtProvisioning, WtCleanupPending} \<longrightarrow>
          (\<exists>r \<in> set rs. wo_worktree_id r = wt_id w \<and> wo_status r = OpRunning))"

text \<open>A worktree is removed only for an item that is closed.\<close>

definition removals_ok :: "worktree_row list \<Rightarrow> operation_row list \<Rightarrow> item_row list \<Rightarrow> bool" where
  "removals_ok ws rs is \<longleftrightarrow>
     (\<forall>r \<in> set rs. \<forall>w \<in> set ws. under_way r \<longrightarrow> wo_kind r = OpRemove \<longrightarrow>
        wt_id w = wo_worktree_id r \<longrightarrow> (\<exists>i \<in> set is. it_id i = wt_item_id w \<and> closed_item i))
     \<and> (\<forall>w \<in> set ws. wt_state w = WtRemoved \<longrightarrow> (\<exists>i \<in> set is. it_id i = wt_item_id w \<and> closed_item i))"

text \<open>A job's worktree exists, belongs to the job's item and is not being created.\<close>

definition tenants_ok :: "worktree_row list \<Rightarrow> operation_row list \<Rightarrow> job_row list \<Rightarrow> bool" where
  "tenants_ok ws rs js \<longleftrightarrow>
     (\<forall>j \<in> set js. \<forall>i. jb_managed_worktree_id j = Some i \<longrightarrow>
        (\<exists>w \<in> set ws. wt_id w = i \<and> wt_item_id w = jb_item_id j)
        \<and> (\<forall>r \<in> set rs. wo_worktree_id r = i \<longrightarrow> under_way r \<longrightarrow> wo_kind r = OpRemove))"

definition housing_ok :: "store \<Rightarrow> bool" where
  "housing_ok st \<longleftrightarrow> ops_ok (worktrees st) (worktree_operations st)
     \<and> removals_ok (worktrees st) (worktree_operations st) (items st)
     \<and> tenants_ok (worktrees st) (worktree_operations st) (jobs st)"

lemma ops_okD:
  assumes "ops_ok ws rs"
  shows "distinct (map wt_id ws)" "distinct (map wo_id rs)"
    "r \<in> set rs \<Longrightarrow> \<exists>w \<in> set ws. wt_id w = wo_worktree_id r
      \<and> (under_way r \<longrightarrow> wt_state w = expected_state r)"
    "r \<in> set rs \<Longrightarrow> s \<in> set rs \<Longrightarrow> under_way r \<Longrightarrow> under_way s \<Longrightarrow>
      wo_worktree_id r = wo_worktree_id s \<Longrightarrow> r = s"
    "r \<in> set rs \<Longrightarrow> \<not> under_way r \<Longrightarrow> finished_cleanly r \<and> fence_open r"
    "w \<in> set ws \<Longrightarrow> wt_state w \<in> {WtProvisioning, WtCleanupPending} \<Longrightarrow>
      \<exists>r \<in> set rs. wo_worktree_id r = wt_id w \<and> wo_status r = OpRunning"
  using assms unfolding ops_ok_def by blast+

lemma worktree_state:
  assumes "ops_ok ws rs" "r \<in> set rs" "under_way r" "w \<in> set ws" "wt_id w = wo_worktree_id r"
  shows "wt_state w = expected_state r"
proof -
  obtain v where v: "v \<in> set ws" "wt_id v = wo_worktree_id r" "wt_state v = expected_state r"
    using ops_okD(3) [OF assms(1,2)] assms(3) by blast
  with key_unique [OF ops_okD(1) [OF assms(1)] v(1) assms(4)] assms(5) show ?thesis by simp
qed

lemma ready_idle:
  assumes "ops_ok ws rs" "w \<in> set ws" "wt_state w \<in> {WtReady, WtRemoved}" "r \<in> set rs"
    "wo_worktree_id r = wt_id w"
  shows "\<not> under_way r"
proof
  assume "under_way r"
  with worktree_state [OF assms(1,4) _ assms(2)] assms(3,5) show False
    by (auto simp: expected_state_def split: if_splits operation_kind.splits)
qed

lemma housing_empty: "housing_ok empty_store"
  by (simp add: housing_ok_def ops_ok_def removals_ok_def tenants_ok_def empty_store_def)

section \<open>A step of an operation under way\<close>

text \<open>
  \<open>works_on r r' w w'\<close>: the operation \<open>r\<close> becomes \<open>r'\<close> and its worktree \<open>w\<close> becomes \<open>w'\<close>.
\<close>

definition same_intent :: "worktree_row \<Rightarrow> worktree_row \<Rightarrow> bool" where
  "same_intent w v \<longleftrightarrow> wt_id v = wt_id w \<and> wt_generation v = wt_generation w
     \<and> wt_campaign_id v = wt_campaign_id w \<and> wt_item_id v = wt_item_id w
     \<and> wt_fixer_job_id v = wt_fixer_job_id w \<and> wt_repository_path v = wt_repository_path w
     \<and> wt_source_git_common_dir v = wt_source_git_common_dir w
     \<and> wt_source_git_dir v = wt_source_git_dir w \<and> wt_source_device v = wt_source_device w
     \<and> wt_source_inode v = wt_source_inode w \<and> wt_source_owner_uid v = wt_source_owner_uid w
     \<and> wt_object_format v = wt_object_format w
     \<and> wt_worktree_path v = wt_worktree_path w \<and> wt_branch_ref v = wt_branch_ref w
     \<and> wt_base_revision v = wt_base_revision w \<and> wt_base_tree v = wt_base_tree w
     \<and> wt_lock_reason v = wt_lock_reason w \<and> wt_source_snapshot v = wt_source_snapshot w
     \<and> wt_created_at v = wt_created_at w"

definition works_on ::
    "operation_row \<Rightarrow> operation_row \<Rightarrow> worktree_row \<Rightarrow> worktree_row \<Rightarrow> bool" where
  "works_on r r' w w' \<longleftrightarrow> under_way r \<and> wt_id w = wo_worktree_id r
     \<and> wo_id r' = wo_id r \<and> wo_worktree_id r' = wo_worktree_id r \<and> wo_kind r' = wo_kind r
     \<and> same_intent w w' \<and> life_step\<^sup>=\<^sup>= (wt_state w) (wt_state w')
     \<and> (if under_way r' then wt_state w' = expected_state r'
        else finished_cleanly r' \<and> fence_open r'
          \<and> (wt_state w' = WtReady \<or> wt_state w' = WtRemoved \<and> wo_kind r = OpRemove))"

definition steps_to :: "store \<Rightarrow> operation_row \<Rightarrow> operation_row \<Rightarrow> worktree_row \<Rightarrow> worktree_row \<Rightarrow> store \<Rightarrow> bool" where
  "steps_to s r r' w w' t \<longleftrightarrow> r \<in> set (worktree_operations s) \<and> w \<in> set (worktrees s)
     \<and> map wo_id (worktree_operations t) = map wo_id (worktree_operations s)
     \<and> map wt_id (worktrees t) = map wt_id (worktrees s)
     \<and> set (worktree_operations t) = insert r' (set (worktree_operations s) - {r})
     \<and> set (worktrees t) = insert w' (set (worktrees s) - {w})
     \<and> items t = items s \<and> jobs t = jobs s"

lemma housing_step:
  assumes ok: "housing_ok s" and step: "steps_to s r r' w w' t" and works: "works_on r r' w w'"
  shows "housing_ok t"
proof -
  let ?ws = "worktrees s" and ?rs = "worktree_operations s"
  have ops: "ops_ok ?ws ?rs" and removals: "removals_ok ?ws ?rs (items s)"
    and tenants: "tenants_ok ?ws ?rs (jobs s)"
    using ok by (simp_all add: housing_ok_def)
  have r: "r \<in> set ?rs" and w: "w \<in> set ?ws"
    and rs: "set (worktree_operations t) = insert r' (set ?rs - {r})"
    and ws: "set (worktrees t) = insert w' (set ?ws - {w})"
    and keys: "map wo_id (worktree_operations t) = map wo_id ?rs" "map wt_id (worktrees t) = map wt_id ?ws"
    and same: "items t = items s" "jobs t = jobs s"
    using step by (simp_all add: steps_to_def)
  have way: "under_way r" and id: "wt_id w = wo_worktree_id r" "wo_worktree_id r' = wo_worktree_id r"
      "wo_kind r' = wo_kind r" "wt_id w' = wt_id w" "wt_item_id w' = wt_item_id w"
    and on: "under_way r' \<Longrightarrow> wt_state w' = expected_state r'"
    and off: "\<not> under_way r' \<Longrightarrow> finished_cleanly r' \<and> fence_open r'
      \<and> (wt_state w' = WtReady \<or> wt_state w' = WtRemoved \<and> wo_kind r = OpRemove)"
    using works by (auto simp: works_on_def same_intent_def split: if_splits)
  have other: "v \<in> set (worktrees t)" if "v \<in> set ?ws" "wt_id v \<noteq> wt_id w" for v
    using that ws by auto
  have busy: "q = r" if "q \<in> set ?rs" "under_way q" "wo_worktree_id q = wo_worktree_id r" for q
    using ops_okD(4) [OF ops that(1) r that(2) way that(3)] .
  have "ops_ok (worktrees t) (worktree_operations t)"
    unfolding ops_ok_def keys
  proof (intro conjI ballI impI)
    show "distinct (map wt_id ?ws)" "distinct (map wo_id ?rs)" using ops_okD(1,2) [OF ops] .
  next
    fix q assume q: "q \<in> set (worktree_operations t)"
    show "\<exists>v \<in> set (worktrees t). wt_id v = wo_worktree_id q \<and> (under_way q \<longrightarrow> wt_state v = expected_state q)"
    proof (cases "wo_worktree_id q = wt_id w")
      case True
      have "under_way q \<longrightarrow> q = r'"
        using q rs busy True id by auto
      then show ?thesis using ws on id True by auto
    next
      case False
      then have "q \<in> set ?rs" using q rs id by auto
      from ops_okD(3) [OF ops this] other False show ?thesis by metis
    qed
    show "finished_cleanly q" "fence_open q" if "\<not> under_way q"
      using q rs off that ops_okD(5) [OF ops] by auto
    fix p assume p: "p \<in> set (worktree_operations t)" "under_way q" "under_way p"
      "wo_worktree_id q = wo_worktree_id p"
    show "q = p"
      using q p rs busy id ops_okD(4) [OF ops] by auto
  next
    fix v assume v: "v \<in> set (worktrees t)" "wt_state v \<in> {WtProvisioning, WtCleanupPending}"
    show "\<exists>q \<in> set (worktree_operations t). wo_worktree_id q = wt_id v \<and> wo_status q = OpRunning"
    proof (cases "wt_id v = wt_id w")
      case True
      then have "v = w'"
        using v(1) ws key_unique [OF ops_okD(1) [OF ops] _ w] id by auto
      then have "under_way r'" "wo_status r' = OpRunning"
        using off on v(2) by (auto simp: expected_state_def under_way_def split: if_splits
            intro: operation_status.exhaust)
      with True rs id show ?thesis by auto
    next
      case False
      then have "v \<in> set ?ws" using v(1) ws id by auto
      from ops_okD(6) [OF ops this v(2)] obtain q where "q \<in> set ?rs" "wo_worktree_id q = wt_id v"
        "wo_status q = OpRunning" by blast
      with False rs id show ?thesis by auto
    qed
  qed
  moreover have "removals_ok (worktrees t) (worktree_operations t) (items t)"
  proof -
    have "wt_state w' = WtRemoved \<Longrightarrow> wo_kind r = OpRemove"
      using on off by (cases "under_way r'") (auto simp: expected_state_def split: if_splits operation_kind.splits)
    then show ?thesis
      using removals r w way id unfolding removals_ok_def rs ws same by auto
  qed
  moreover have "tenants_ok (worktrees t) (worktree_operations t) (jobs t)"
  proof -
    have home: "\<exists>v \<in> set (worktrees t). wt_id v = i \<and> wt_item_id v = k"
      if "\<exists>v \<in> set ?ws. wt_id v = i \<and> wt_item_id v = k" for i k
      using that id w unfolding ws by auto
    have kind: "wo_kind q = OpRemove"
      if "q \<in> set (worktree_operations t)" "wo_worktree_id q = i" "under_way q"
        "\<forall>q \<in> set ?rs. wo_worktree_id q = i \<longrightarrow> under_way q \<longrightarrow> wo_kind q = OpRemove" for q i
      using that way r id rs by (cases "q = r'") auto
    show ?thesis
      unfolding tenants_ok_def same
    proof (intro ballI allI impI)
      fix j i assume "j \<in> set (jobs s)" "jb_managed_worktree_id j = Some i"
      with tenants have "\<exists>v \<in> set ?ws. wt_id v = i \<and> wt_item_id v = jb_item_id j"
        "\<forall>q \<in> set ?rs. wo_worktree_id q = i \<longrightarrow> under_way q \<longrightarrow> wo_kind q = OpRemove"
        unfolding tenants_ok_def by simp_all
      from home [OF this(1)] kind [OF _ _ _ this(2)]
      show "(\<exists>v \<in> set (worktrees t). wt_id v = i \<and> wt_item_id v = jb_item_id j)
          \<and> (\<forall>q \<in> set (worktree_operations t). wo_worktree_id q = i \<longrightarrow> under_way q \<longrightarrow>
              wo_kind q = OpRemove)" by simp
    qed
  qed
  ultimately show ?thesis by (simp add: housing_ok_def)
qed


section \<open>Progress\<close>

text \<open>
  \<open>lived s t\<close>: each worktree of \<open>s\<close> is in \<open>t\<close> with its intent unchanged, in the same state or
  one step on in its life; one that is new in \<open>t\<close> is being provisioned.
\<close>

definition lived :: "store \<Rightarrow> store \<Rightarrow> bool" where
  "lived s t \<longleftrightarrow>
     (\<forall>w \<in> set (worktrees s). \<exists>v \<in> set (worktrees t).
        same_intent w v \<and> life_step\<^sup>=\<^sup>= (wt_state w) (wt_state v))
     \<and> (\<forall>v \<in> set (worktrees t). (\<exists>w \<in> set (worktrees s). same_intent w v)
          \<or> wt_state v = WtProvisioning)"

definition progress :: "store \<Rightarrow> store \<Rightarrow> bool" where
  "progress s t \<longleftrightarrow> housing_ok t \<and> lived s t"

lemma same_intent_refl [simp]: "same_intent w w"
  by (simp add: same_intent_def)

lemma lived_same: "worktrees t = worktrees s \<Longrightarrow> lived s t"
  unfolding lived_def using same_intent_refl by (metis sup2CI)

lemma lived_one:
  assumes "w \<in> set (worktrees s)" "set (worktrees t) = insert v (set (worktrees s) - {w})"
    and "same_intent w v" "life_step\<^sup>=\<^sup>= (wt_state w) (wt_state v)"
  shows "lived s t"
  unfolding lived_def
proof (intro conjI ballI)
  fix u assume "u \<in> set (worktrees s)"
  then show "\<exists>v \<in> set (worktrees t). same_intent u v \<and> life_step\<^sup>=\<^sup>= (wt_state u) (wt_state v)"
    using assms same_intent_refl by (metis insertCI Diff_iff empty_iff insert_iff sup2CI)
next
  fix u assume "u \<in> set (worktrees t)"
  with assms have "(u = v \<and> same_intent w u) \<or> u \<in> set (worktrees s)" by auto
  with assms(1) show "(\<exists>w \<in> set (worktrees s). same_intent w u) \<or> wt_state u = WtProvisioning"
    using same_intent_refl by blast
qed

lemma lived_new:
  assumes "worktrees t = worktrees s @ [v]" "wt_state v = WtProvisioning"
  shows "lived s t"
proof -
  have "w \<in> set (worktrees t)" if "w \<in> set (worktrees s)" for w using that assms(1) by simp
  moreover have "v' \<in> set (worktrees s) \<or> wt_state v' = WtProvisioning" if "v' \<in> set (worktrees t)" for v'
    using that assms by auto
  ultimately show ?thesis unfolding lived_def using same_intent_refl by (metis sup2CI)
qed

lemma housing_tables:
  "worktrees t' = worktrees t \<Longrightarrow> worktree_operations t' = worktree_operations t
   \<Longrightarrow> items t' = items t \<Longrightarrow> jobs t' = jobs t \<Longrightarrow> progress s t' = progress s t"
  by (simp add: progress_def housing_ok_def lived_def)

lemma progress_events [simp]:
  "progress s (append_event k c i j a d n t) = progress s t"
  "progress s (worktree_event k' w j a' d n t) = progress s t"
  unfolding worktree_event_def by (rule housing_tables; simp add: append_event_def)+

lemma set_upd_one:
  assumes "r \<in> set rs" "P r" "\<And>q. q \<in> set rs \<Longrightarrow> P q \<Longrightarrow> q = r"
  shows "set (upd_where P f rs) = insert (f r) (set rs - {r})"
proof -
  have "set (upd_where P f rs) = (\<lambda>q. if q = r then f r else q) ` set rs"
    unfolding set_upd_where
  proof (rule image_cong [OF refl])
    fix q assume "q \<in> set rs"
    from assms(3) [OF this] assms(2) have "P q \<longleftrightarrow> q = r" by blast
    then show "(if P q then f q else q) = (if q = r then f r else q)" by simp
  qed
  with assms(1) show ?thesis by auto
qed

lemma map_upd_one:
  assumes "k (f r) = k r" "\<And>q. q \<in> set rs \<Longrightarrow> P q \<Longrightarrow> q = r"
  shows "map k (upd_where P f rs) = map k rs"
proof -
  have "k (if P q then f q else q) = k q" if "q \<in> set rs" for q
  proof (cases "P q")
    case True
    from assms(2) [OF that True] assms(1) show ?thesis by simp
  qed simp
  then show ?thesis by (simp add: upd_where_def)
qed

text \<open>One row of each table changes.\<close>

lemma progress_step:
  assumes ok: "housing_ok s" and r: "r \<in> set (worktree_operations s)" and w: "w \<in> set (worktrees s)"
    and works: "works_on r (f r) w (g w)"
    and P: "P r" "\<And>q. P q \<Longrightarrow> wo_id q = wo_id r" and Q: "Q w" "\<And>v. Q v \<Longrightarrow> wt_id v = wt_id w"
    and t: "worktrees t = upd_where Q g (worktrees s)"
      "worktree_operations t = upd_where P f (worktree_operations s)" "items t = items s" "jobs t = jobs s"
  shows "progress s t"
proof -
  have ops: "ops_ok (worktrees s) (worktree_operations s)" using ok by (simp add: housing_ok_def)
  have one: "\<And>q. q \<in> set (worktree_operations s) \<Longrightarrow> P q \<Longrightarrow> q = r"
    using key_unique [OF ops_okD(2) [OF ops] _ r] P(2) by blast
  have two: "\<And>v. v \<in> set (worktrees s) \<Longrightarrow> Q v \<Longrightarrow> v = w"
    using key_unique [OF ops_okD(1) [OF ops] _ w] Q(2) by blast
  have ids: "wo_id (f r) = wo_id r" "wt_id (g w) = wt_id w" and same: "same_intent w (g w)"
    and life: "life_step\<^sup>=\<^sup>= (wt_state w) (wt_state (g w))"
    using works by (simp_all add: works_on_def same_intent_def)
  have "steps_to s r (f r) w (g w) t"
    unfolding steps_to_def t
    using r w set_upd_one [of r _ P, OF r P(1) one] set_upd_one [of w _ Q, OF w Q(1) two]
      map_upd_one [of wo_id f r _ P, OF ids(1) one] map_upd_one [of wt_id g w _ Q, OF ids(2) two]
    by simp
  with works ok have "housing_ok t" by (blast intro: housing_step)
  moreover have "lived s t"
    by (rule lived_one [OF w _ same life]) (simp add: t(1) set_upd_one [of w _ Q, OF w Q(1) two])
  ultimately show ?thesis by (simp add: progress_def)
qed


section \<open>The operations\<close>

lemma fence_under_way:
  assumes "ops_ok ws rs" "r \<in> set rs" "operation_fence rec owner token now r"
  shows "under_way r"
proof (cases rec)
  case True
  with assms(3) have "\<not> fence_open r" by (simp add: operation_fence_def fence_open_def)
  with ops_okD(5) [OF assms(1,2)] show ?thesis by blast
qed (use assms(3) in \<open>auto simp: operation_fence_def under_way_def\<close>)

lemma fenced_operation:
  assumes ok: "housing_ok s" and fence: "assert_operation_fence i owner token rec now s = Inr r"
  shows "r \<in> set (worktree_operations s)" "wo_id r = i" "under_way r"
    "\<exists>w \<in> set (worktrees s). find_worktree (wo_worktree_id r) s = Some w \<and> wt_id w = wo_worktree_id r
       \<and> wt_state w = expected_state r"
    "\<And>w. find_worktree (wo_worktree_id r) s = Some w \<Longrightarrow> w \<in> set (worktrees s)
       \<and> wt_id w = wo_worktree_id r \<and> wt_state w = expected_state r"
proof -
  have ops: "ops_ok (worktrees s) (worktree_operations s)" using ok by (simp add: housing_ok_def)
  from fence have found: "find_operation i s = Some r" and open_fence: "operation_fence rec owner token now r"
    by (simp_all add: assert_operation_fence_def)
  then show r: "r \<in> set (worktree_operations s)" "wo_id r = i"
    by (auto simp: find_operation_def dest: find_SomeD)
  show way: "under_way r" by (rule fence_under_way [OF ops r(1) open_fence])
  show one: "w \<in> set (worktrees s) \<and> wt_id w = wo_worktree_id r \<and> wt_state w = expected_state r"
    if "find_worktree (wo_worktree_id r) s = Some w" for w
  proof -
    from that have w: "w \<in> set (worktrees s)" "wt_id w = wo_worktree_id r"
      by (auto simp: find_worktree_def dest: find_SomeD)
    with worktree_state [OF ops r(1) way w] show ?thesis by simp
  qed
  from ops_okD(3) [OF ops r(1)] obtain w where "w \<in> set (worktrees s)" "wt_id w = wo_worktree_id r"
    by blast
  then have "find_worktree (wo_worktree_id r) s \<noteq> None"
    by (auto simp: find_worktree_def find_None_iff)
  with one show "\<exists>w \<in> set (worktrees s). find_worktree (wo_worktree_id r) s = Some w
      \<and> wt_id w = wo_worktree_id r \<and> wt_state w = expected_state r" by blast
qed

lemma progress_refl: "housing_ok s \<Longrightarrow> progress s s"
  by (simp add: progress_def lived_same)

text \<open>A step that leaves the worktree, the kind and the status alone.\<close>

lemma progress_touch:
  assumes ok: "housing_ok s" and fence: "assert_operation_fence i owner token rec now s = Inr r"
    and f: "wo_id (f r) = wo_id r" "wo_worktree_id (f r) = wo_worktree_id r" "wo_kind (f r) = wo_kind r"
      "wo_status (f r) = wo_status r" and P: "\<And>q. P q \<Longrightarrow> wo_id q = i"
  shows "progress s (s\<lparr>worktree_operations := upd_where P f (worktree_operations s)\<rparr>)"
proof (cases "P r")
  case True
  note r = fenced_operation [OF ok fence]
  from r(4) obtain w where w: "w \<in> set (worktrees s)" "wt_id w = wo_worktree_id r"
    "wt_state w = expected_state r" by blast
  have "works_on r (f r) w (id w)"
    using r(3) w(2,3) f by (simp add: works_on_def under_way_def expected_state_def)
  then show ?thesis
    by (rule progress_step [where P = P and Q = "\<lambda>v. wt_id v = wt_id w", OF ok r(1) w(1)])
      (use True P r(2) in \<open>auto simp: upd_where_def\<close>)
next
  case False
  have ops: "ops_ok (worktrees s) (worktree_operations s)" using ok by (simp add: housing_ok_def)
  note r = fenced_operation [OF ok fence]
  have "\<not> P q" if "q \<in> set (worktree_operations s)" for q
    using key_unique [OF ops_okD(2) [OF ops] that r(1)] P r(2) False by blast
  then have "upd_where P f (worktree_operations s) = worktree_operations s" by (rule upd_where_id)
  with progress_refl [OF ok] show ?thesis by simp
qed

lemma progress_update:
  assumes "housing_ok s" "assert_operation_fence i owner token rec now s = Inr r"
    "wo_id (f r) = wo_id r" "wo_worktree_id (f r) = wo_worktree_id r" "wo_kind (f r) = wo_kind r"
    "wo_status (f r) = wo_status r"
  shows "progress s (update_operation i f s)"
  unfolding update_operation_def using assms by (rule progress_touch) simp

lemma process_progress:
  assumes ok: "housing_ok s"
  shows "wpR (progress s) (record_worktree_operation_process i owner token p now s)"
    and "wpR (progress s) (clear_worktree_operation_process i owner token pid pgid rec now s)"
    and "wpR (progress s) (record_worktree_operation_artifacts W i owner token out oh err eh rec now s)"
    and "wpR (progress s) (record_worktree_operation_artifact_intent W i owner token out err now s)"
  unfolding record_worktree_operation_process_def clear_worktree_operation_process_def
    record_worktree_operation_artifacts_def record_worktree_operation_artifact_intent_def
  by (intro wp_intros; (unfold progress_events)?;
      auto intro: progress_update progress_touch progress_refl ok)+


lemma succeed_works:
  assumes "under_way r" "wt_id w = wo_worktree_id r" "assert_operation_process_stopped r = Inr ()"
    "same_intent w w'" "life_step (wt_state w) (wt_state w')"
    "wt_state w' = WtReady \<or> wt_state w' = WtRemoved \<and> wo_kind r = OpRemove"
  shows "works_on r (succeed_operation observed now r) w w'"
  using assms
  by (auto simp: works_on_def succeed_operation_def release_operation_fence_def under_way_def
      assert_operation_process_stopped_def finished_cleanly_def fence_open_def)

lemma removal_progress:
  assumes ok: "housing_ok s"
  shows "wpR (progress s)
    (complete_managed_worktree_removal i owner token expected observed snapshot rec now s)"
  unfolding complete_managed_worktree_removal_def
proof (intro wp_intros, unfold progress_events)
  fix r u w
  assume fence: "assert_operation_fence i owner token rec now s = Inr r"
    and "assert_operation_process_stopped r = Inr u"
    and "require (find_worktree (wo_worktree_id r) s) TransitionConflict = Inr w"
    and pending: "wt_state w = WtCleanupPending" and "wo_kind r = OpRemove \<and> wo_status r = OpRunning"
  then have stopped: "assert_operation_process_stopped r = Inr ()"
    and w: "find_worktree (wo_worktree_id r) s = Some w" and kind: "wo_kind r = OpRemove" by simp_all
  note r = fenced_operation [OF ok fence] and w = fenced_operation(5) [OF ok fence w]
  let ?g = "\<lambda>w. w\<lparr>wt_state := WtRemoved, wt_removed_at := Some now, wt_last_error := None,
    wt_updated_at := now\<rparr>"
  have works: "works_on r (succeed_operation (JObj observed) now r) w (?g w)"
    using r(3) w stopped pending kind by (intro succeed_works) (simp_all add: same_intent_def removed)
  show "progress s (update_operation i (succeed_operation (JObj observed) now)
      (move_worktree (wt_id w) WtCleanupPending ?g s))"
    by (rule progress_step [where f = "succeed_operation (JObj observed) now" and P = "\<lambda>q. wo_id q = i"
          and g = ?g and Q = "\<lambda>v. wt_id v = wt_id w \<and> wt_state v = WtCleanupPending"])
      (use ok r(1,2) w works pending in \<open>auto simp: update_operation_def move_worktree_def\<close>)
qed

lemma quarantine_progress:
  assumes ok: "housing_ok s"
  shows "wpR (progress s)
    (quarantine_worktree_operation i owner token expected reason observed rec active now s)"
  unfolding quarantine_worktree_operation_def
proof (intro wp_intros, unfold progress_events)
  fix r w
  assume fence: "assert_operation_fence i owner token rec now s = Inr r"
    and "operation_worktree r s = Inr w"
  then have w: "find_worktree (wo_worktree_id r) s = Some w" by (simp add: operation_worktree_def)
  note r = fenced_operation [OF ok fence] and w = fenced_operation(5) [OF ok fence w]
  have here: "wt_state w \<noteq> WtRemoved"
    using w by (simp add: expected_state_def split: operation_kind.splits)
  let ?g = "\<lambda>v. v\<lparr>wt_state := WtQuarantined, wt_last_error := Some (py_strip reason),
    wt_updated_at := now\<rparr>"
  let ?f = "\<lambda>r. (release_operation_fence r)\<lparr>wo_status := OpQuarantined,
    wo_observed_identity := Some (JObj (or_default observed [])), wo_error := Some (py_strip reason),
    wo_finished_at := Some now, wo_updated_at := now\<rparr>"
  have works: "works_on r (?f r) w (?g w)"
    using r(3) w here
    by (simp add: works_on_def release_operation_fence_def same_intent_def under_way_def
        expected_state_def quarantined)
  show "progress s (update_operation i ?f (s\<lparr>worktrees :=
      upd_where (\<lambda>v. wt_id v = wt_id w \<and> wt_state v \<noteq> WtRemoved) ?g (worktrees s)\<rparr>))"
    by (rule progress_step [where f = ?f and P = "\<lambda>q. wo_id q = i"
          and g = ?g and Q = "\<lambda>v. wt_id v = wt_id w \<and> wt_state v \<noteq> WtRemoved"])
      (use ok r(1,2) w works here in \<open>auto simp: update_operation_def\<close>)
qed


lemma progress_trans_jobs:
  assumes "progress s t" "housing_ok u" "worktrees u = worktrees t"
  shows "progress s u"
  using assms by (simp add: progress_def lived_def)

text \<open>A job that waits for its worktree gets a ready one of its item.\<close>

lemma attach_housing:
  assumes ok: "housing_ok s" and run: "attach_worktree fixer w now s = Inr t"
    and jobs: "distinct (map jb_id (jobs s))" "fixer \<in> set (jobs s)"
    and v: "v \<in> set (worktrees s)" "wt_id v = wt_id w" "wt_item_id v = jb_item_id fixer" "wt_state v = WtReady"
  shows "housing_ok t" "worktrees t = worktrees s"
proof -
  let ?P = "awaits_worktree (jb_id fixer)"
  let ?F = "\<lambda>j. j\<lparr>jb_managed_worktree_id := Some (wt_id w), jb_required_resources :=
    sort (remdups (worktree_resource (wt_id w) # jb_required_resources fixer)), jb_updated_at := now\<rparr>"
  from run have t: "t = s\<lparr>jobs := upd_where ?P ?F (jobs s)\<rparr>" by (simp add: attach_worktree_def)
  then show "worktrees t = worktrees s" by simp
  have ops: "ops_ok (worktrees s) (worktree_operations s)"
    and tenants: "tenants_ok (worktrees s) (worktree_operations s) (jobs s)"
    using ok by (simp_all add: housing_ok_def)
  have idle: "\<not> under_way r" if "r \<in> set (worktree_operations s)" "wo_worktree_id r = wt_id w" for r
    using ready_idle [OF ops v(1) _ that(1)] v(2,4) that(2) by simp
  have "tenants_ok (worktrees s) (worktree_operations s) (jobs t)"
    unfolding tenants_ok_def
  proof (intro ballI allI impI)
    fix k i assume k: "k \<in> set (jobs t)" "jb_managed_worktree_id k = Some i"
    then obtain j where j: "j \<in> set (jobs s)" "k = (if ?P j then ?F j else j)"
      unfolding t by (auto simp: set_upd_where)
    show "(\<exists>w \<in> set (worktrees s). wt_id w = i \<and> wt_item_id w = jb_item_id k)
        \<and> (\<forall>r \<in> set (worktree_operations s). wo_worktree_id r = i \<longrightarrow> under_way r \<longrightarrow> wo_kind r = OpRemove)"
    proof (cases "?P j")
      case True
      then have "j = fixer"
        using key_unique [OF jobs(1) j(1) jobs(2)] by (simp add: awaits_worktree_def)
      with True j(2) k(2) v idle show ?thesis by auto
    next
      case False
      with j k(2) tenants show ?thesis unfolding tenants_ok_def by simp
    qed
  qed
  with ok show "housing_ok t" by (simp add: housing_ok_def t)
qed

lemma creation_progress:
  assumes ok: "housing_ok s" and jobs: "distinct (map jb_id (jobs s))"
  shows "wpR (progress s)
    (complete_managed_worktree_creation i owner token expected observed snapshot rec now s)"
  unfolding complete_managed_worktree_creation_def Let_def
proof (intro wp_intros, unfold progress_events)
  fix r u and w :: worktree_row and git_dir device inode uid fixer st3
  let ?g = "\<lambda>w. w\<lparr>wt_worktree_git_dir := Some git_dir, wt_worktree_device := Some device,
    wt_worktree_inode := Some inode, wt_worktree_owner_uid := Some uid,
    wt_head_revision := Some (wt_base_revision w), wt_state := WtReady,
    wt_ready_at := Some now, wt_last_error := None, wt_updated_at := now\<rparr>"
  let ?st2 = "update_operation i (succeed_operation (JObj observed) now)
    (move_worktree (wt_id w) WtProvisioning ?g s)"
  assume fence: "assert_operation_fence i owner token rec now s = Inr r"
    and "assert_operation_process_stopped r = Inr u"
    and "require (find_worktree (wo_worktree_id r) s) TransitionConflict = Inr w"
    and building: "wt_state w = WtProvisioning"
    and "require (find (\<lambda>j. jb_id j = wt_fixer_job_id w \<and> jb_item_id j = wt_item_id w
      \<and> jb_role j = Fixer \<and> jb_status j = JobPending) (jobs ?st2)) TransitionConflict = Inr fixer"
    and attach: "attach_worktree fixer w now ?st2 = Inr st3"
  then have stopped: "assert_operation_process_stopped r = Inr ()"
    and w: "find_worktree (wo_worktree_id r) s = Some w"
    and fixer: "fixer \<in> set (jobs ?st2)" "jb_item_id fixer = wt_item_id w"
    by (auto dest: find_SomeD)
  note r = fenced_operation [OF ok fence] and w = fenced_operation(5) [OF ok fence w]
  have works: "works_on r (succeed_operation (JObj observed) now r) w (?g w)"
    using r(3) w stopped building by (intro succeed_works) (simp_all add: same_intent_def built)
  have step: "progress s ?st2"
    by (rule progress_step [where f = "succeed_operation (JObj observed) now" and P = "\<lambda>q. wo_id q = i"
          and g = ?g and Q = "\<lambda>v. wt_id v = wt_id w \<and> wt_state v = WtProvisioning"])
      (use ok r(1,2) w works building in \<open>auto simp: update_operation_def move_worktree_def\<close>)
  have "?g w \<in> set (worktrees ?st2)"
    using w building by (auto simp: update_operation_def move_worktree_def set_upd_where)
  moreover have "housing_ok ?st2" "distinct (map jb_id (jobs ?st2))"
    using step jobs by (simp_all add: progress_def update_operation_def move_worktree_def)
  ultimately have "housing_ok st3" "worktrees st3 = worktrees ?st2"
    using attach_housing [OF _ attach _ fixer(1), of "?g w"] fixer(2) by auto
  with step show "progress s st3" by (rule progress_trans_jobs)
qed


section \<open>A new operation\<close>

lemma start_housing:
  assumes ok: "housing_ok s"
    and ws: "set (worktrees t) = insert v {w \<in> set (worktrees s). wt_id w \<noteq> wt_id v}"
      "distinct (map wt_id (worktrees t))"
    and rs: "worktree_operations t = worktree_operations s @ [p]" "wo_id p \<notin> wo_id ` set (worktree_operations s)"
      "wo_worktree_id p = wt_id v" "wo_status p = OpRunning" "wt_state v = expected_state p"
    and idle: "\<And>r. r \<in> set (worktree_operations s) \<Longrightarrow> wo_worktree_id r = wt_id v \<Longrightarrow> \<not> under_way r"
    and item: "\<And>w. w \<in> set (worktrees s) \<Longrightarrow> wt_id w = wt_id v \<Longrightarrow> wt_item_id w = wt_item_id v"
    and kind: "wo_kind p = OpRemove \<and> (\<exists>i \<in> set (items s). it_id i = wt_item_id v \<and> closed_item i)
      \<or> wt_id v \<notin> wt_id ` set (worktrees s) \<and> wo_kind p = OpCreate"
    and same: "items t = items s" "jobs t = jobs s"
  shows "housing_ok t"
proof -
  have ops: "ops_ok (worktrees s) (worktree_operations s)"
    and removals: "removals_ok (worktrees s) (worktree_operations s) (items s)"
    and tenants: "tenants_ok (worktrees s) (worktree_operations s) (jobs s)"
    using ok by (simp_all add: housing_ok_def)
  have way: "under_way p" using rs(4) by (simp add: under_way_def)
  have old: "r \<in> set (worktree_operations s) \<and> wo_worktree_id r \<noteq> wt_id v \<or> r = p"
    if "r \<in> set (worktree_operations t)" "under_way r" for r
    using that rs(1) idle by auto
  have one: "w = v \<longleftrightarrow> wt_id w = wt_id v" if "w \<in> set (worktrees t)" for w
    using that ws(1) by auto
  have "ops_ok (worktrees t) (worktree_operations t)"
    unfolding ops_ok_def
  proof (intro conjI ballI impI)
    show "distinct (map wo_id (worktree_operations t))" using ops_okD(2) [OF ops] rs(1,2) by simp
    fix q assume q: "q \<in> set (worktree_operations t)"
    show "\<exists>w \<in> set (worktrees t). wt_id w = wo_worktree_id q \<and> (under_way q \<longrightarrow> wt_state w = expected_state q)"
    proof (cases "wo_worktree_id q = wt_id v")
      case True
      with old [OF q] rs(5) ws(1) show ?thesis by auto
    next
      case False
      with q rs(1,3) have "q \<in> set (worktree_operations s)" by auto
      from ops_okD(3) [OF ops this] False ws(1) show ?thesis by auto
    qed
    show "finished_cleanly q" "fence_open q" if "\<not> under_way q"
      using q that rs(1) way ops_okD(5) [OF ops] by auto
    show "q = r" if "r \<in> set (worktree_operations t)" "under_way q" "under_way r"
      "wo_worktree_id q = wo_worktree_id r" for r
      using old [OF q that(2)] old [OF that(1,3)] that(2-4) rs(3) ops_okD(4) [OF ops] by metis
  next
    fix w assume w: "w \<in> set (worktrees t)" "wt_state w \<in> {WtProvisioning, WtCleanupPending}"
    show "\<exists>r \<in> set (worktree_operations t). wo_worktree_id r = wt_id w \<and> wo_status r = OpRunning"
    proof (cases "wt_id w = wt_id v")
      case True
      with rs(1,3,4) show ?thesis by auto
    next
      case False
      with w(1) ws(1) have "w \<in> set (worktrees s)" by auto
      from ops_okD(6) [OF ops this w(2)] rs(1) show ?thesis by auto
    qed
  qed (rule ws(2))
  moreover have "removals_ok (worktrees t) (worktree_operations t) (items t)"
    unfolding removals_ok_def same
  proof (intro conjI ballI impI)
    fix r w assume r: "r \<in> set (worktree_operations t)" "under_way r" "wo_kind r = OpRemove"
      and w: "w \<in> set (worktrees t)" "wt_id w = wo_worktree_id r"
    from old [OF r(1,2)] show "\<exists>i \<in> set (items s). it_id i = wt_item_id w \<and> closed_item i"
    proof
      assume old: "r \<in> set (worktree_operations s) \<and> wo_worktree_id r \<noteq> wt_id v"
      with w ws(1) have "w \<in> set (worktrees s)" by auto
      with old r w(2) removals show ?thesis unfolding removals_ok_def by blast
    next
      assume "r = p"
      with one [OF w(1)] w(2) rs(3) kind r(3) show ?thesis by auto
    qed
  next
    fix w assume w: "w \<in> set (worktrees t)" "wt_state w = WtRemoved"
    have "wt_state v \<noteq> WtRemoved"
      using rs(4,5) by (simp add: expected_state_def split: operation_kind.splits)
    with w ws(1) have "w \<in> set (worktrees s)" by auto
    with w(2) removals show "\<exists>i \<in> set (items s). it_id i = wt_item_id w \<and> closed_item i"
      unfolding removals_ok_def by blast
  qed
  moreover have "tenants_ok (worktrees t) (worktree_operations t) (jobs t)"
    unfolding tenants_ok_def same
  proof (intro ballI allI impI)
    fix j i assume j: "j \<in> set (jobs s)" "jb_managed_worktree_id j = Some i"
    with tenants obtain w where w: "w \<in> set (worktrees s)" "wt_id w = i" "wt_item_id w = jb_item_id j"
      and old_kind: "\<forall>r \<in> set (worktree_operations s). wo_worktree_id r = i \<longrightarrow> under_way r \<longrightarrow> wo_kind r = OpRemove"
      unfolding tenants_ok_def by blast
    have "\<exists>w \<in> set (worktrees t). wt_id w = i \<and> wt_item_id w = jb_item_id j"
      using w ws(1) item [OF w(1)] by (cases "wt_id w = wt_id v") auto
    moreover have "wo_kind r = OpRemove"
      if "r \<in> set (worktree_operations t)" "wo_worktree_id r = i" "under_way r" for r
    proof (cases "r = p")
      case True
      with that(2) rs(3) w(2) imageI [OF w(1), of wt_id] have "wt_id v \<in> wt_id ` set (worktrees s)"
        by simp
      with True kind show ?thesis by blast
    next
      case False
      with that old_kind rs(1) show ?thesis by auto
    qed
    ultimately show "(\<exists>w \<in> set (worktrees t). wt_id w = i \<and> wt_item_id w = jb_item_id j)
        \<and> (\<forall>r \<in> set (worktree_operations t). wo_worktree_id r = i \<longrightarrow> under_way r \<longrightarrow> wo_kind r = OpRemove)"
      by blast
  qed
  ultimately show ?thesis by (simp add: housing_ok_def)
qed


lemma has_key_image: "has_key f x t \<longleftrightarrow> x \<in> f ` set t"
  by (auto simp: has_key_def list_ex_iff)

lemma request_progress:
  assumes ok: "housing_ok s"
  shows "wpR (\<lambda>(t, _). progress s t) (request_managed_worktree W cid iid q owner secs fresh token now s)"
  unfolding request_managed_worktree_def Let_def
proof (intro wp_intros case_prodI, unfold progress_events)
  fix q' :: worktree_request and item :: item_row and campaign :: campaign_row and fixer :: job_row
    and st1 st2
  let ?v = "new_worktree q' cid iid (jb_id fixer) now"
  let ?p = "new_operation fresh (wq_id q') 1 OpCreate (py_strip owner) token (now + secs)
    (creation_identity q' cid iid (jb_id fixer)) now"
  assume "insert_worktree ?v s = Inr st1"
  then have st1: "st1 = s\<lparr>worktrees := worktrees s @ [?v]\<rparr>" and new: "wt_id ?v \<notin> wt_id ` set (worktrees s)"
    by (auto simp: insert_worktree_def has_key_image)
  assume "insert_worktree_operation ?p st1 = Inr st2"
  then have st2: "st2 = st1\<lparr>worktree_operations := worktree_operations st1 @ [?p]\<rparr>"
    and fresh: "wo_id ?p \<notin> wo_id ` set (worktree_operations s)"
    by (auto simp: insert_worktree_operation_def has_key_image st1)
  have ops: "ops_ok (worktrees s) (worktree_operations s)" using ok by (simp add: housing_ok_def)
  have v: "wt_id ?v = wq_id q'" "wt_state ?v = WtProvisioning" by (simp_all add: new_worktree_def)
  have p: "wo_worktree_id ?p = wq_id q'" "wo_kind ?p = OpCreate" "wo_status ?p = OpRunning"
    by (simp_all add: new_operation_def)
  have others: "wt_id w \<noteq> wt_id ?v" if "w \<in> set (worktrees s)" for w using new that by (metis imageI)
  have none: "wo_worktree_id r \<noteq> wt_id ?v" if "r \<in> set (worktree_operations s)" for r
    using ops_okD(3) [OF ops that] others by auto
  have "housing_ok st2"
  proof (rule start_housing [OF ok, where v = ?v and p = ?p])
    show "set (worktrees st2) = insert ?v {w \<in> set (worktrees s). wt_id w \<noteq> wt_id ?v}"
      using others by (auto simp: st1 st2)
    show "distinct (map wt_id (worktrees st2))"
      using ops_okD(1) [OF ops] new by (simp add: st1 st2)
    show "wt_state ?v = expected_state ?p" using p v by (simp add: expected_state_def)
  qed (use st1 st2 fresh new p v none others in auto)
  moreover have "lived s st2"
    by (rule lived_new [of _ _ ?v]) (simp_all add: st1 st2 v)
  ultimately show "progress s st2" by (simp add: progress_def)
qed

lemma cleanup_progress:
  assumes ok: "housing_ok s"
  shows "wpR (\<lambda>(t, _). progress s t) (request_managed_worktree_cleanup i owner secs fresh token now s)"
  unfolding request_managed_worktree_cleanup_def Let_def
proof (intro wp_intros case_prodI, unfold progress_events)
  fix w :: worktree_row and item :: item_row and st1
  let ?g = "\<lambda>w. w\<lparr>wt_state := WtCleanupPending, wt_cleanup_started_at := Some now,
    wt_last_error := None, wt_updated_at := now\<rparr>"
  let ?s = "move_worktree i WtReady ?g s"
  let ?p = "new_operation fresh i (last_operation_number i s + 1) OpRemove (py_strip owner) token
    (now + secs) (removal_identity w) now"
  assume "require (find_worktree i s) NotFoundError = Inr w"
    and ready: "wt_state w = WtReady"
    and "require (find_item (wt_item_id w) s) TypeError = Inr item"
    and "it_state item \<in> {VerifiedGreen, Blocked}"
    and "insert_worktree_operation ?p ?s = Inr st1"
  then have w: "w \<in> set (worktrees s)" "wt_id w = i"
    and item: "item \<in> set (items s)" "it_id item = wt_item_id w" "closed_item item"
    and st1: "st1 = ?s\<lparr>worktree_operations := worktree_operations s @ [?p]\<rparr>"
    and fresh: "wo_id ?p \<notin> wo_id ` set (worktree_operations s)"
    by (auto simp: find_worktree_def closed_item_def insert_worktree_operation_def has_key_image
        move_worktree_def dest!: find_SomeD find_itemD)
  have ops: "ops_ok (worktrees s) (worktree_operations s)" using ok by (simp add: housing_ok_def)
  have p: "wo_worktree_id ?p = i" "wo_kind ?p = OpRemove" "wo_status ?p = OpRunning"
    by (simp_all add: new_operation_def)
  have one: "v = w" if "v \<in> set (worktrees s)" "wt_id v = i \<and> wt_state v = WtReady" for v
    using key_unique [OF ops_okD(1) [OF ops] that(1) w(1)] that(2) w(2) by simp
  have ws: "set (worktrees st1) = insert (?g w) (set (worktrees s) - {w})"
    unfolding st1 move_worktree_def using set_upd_one [OF w(1) _ one] w(2) ready by simp
  have ids: "map wt_id (worktrees st1) = map wt_id (worktrees s)"
    unfolding st1 move_worktree_def using map_upd_one [of wt_id ?g w, OF _ one] by simp
  have others: "wt_id v \<noteq> i \<longleftrightarrow> v \<noteq> w" if "v \<in> set (worktrees s)" for v
    using key_unique [OF ops_okD(1) [OF ops] that w(1)] w(2) by auto
  have "housing_ok st1"
  proof (rule start_housing [OF ok, where v = "?g w" and p = ?p])
    show "set (worktrees st1) = insert (?g w) {v \<in> set (worktrees s). wt_id v \<noteq> wt_id (?g w)}"
      unfolding ws using others w(2) by auto
    show "distinct (map wt_id (worktrees st1))" using ids ops_okD(1) [OF ops] by simp
    show "wt_state (?g w) = expected_state ?p" using p by (simp add: expected_state_def)
    show "\<not> under_way r" if "r \<in> set (worktree_operations s)" "wo_worktree_id r = wt_id (?g w)" for r
      using ready_idle [OF ops w(1) _ that(1)] that(2) ready by simp
    show "wt_item_id v = wt_item_id (?g w)" if "v \<in> set (worktrees s)" "wt_id v = wt_id (?g w)" for v
      using others [OF that(1)] that(2) w(2) by simp
  qed (use st1 fresh p w item in \<open>auto simp: move_worktree_def\<close>)
  moreover have "lived s st1"
    by (rule lived_one [OF w(1) ws]) (simp_all add: same_intent_def ready cleanup)
  ultimately show "progress s st1" by (simp add: progress_def)
qed


section \<open>Reconciliation\<close>

lemma lived_trans_same: "progress s t \<Longrightarrow> progress t u \<Longrightarrow> worktrees u = worktrees t \<Longrightarrow> progress s u"
  by (simp add: progress_def lived_def)

lemma claim_progress:
  assumes ok: "housing_ok s"
    and way: "\<And>r. due now r \<Longrightarrow> under_way r"
    and run: "claim_operation due kind data owner secs now c (s, rs) = Inr (t, rs')"
  shows "progress s t \<and> worktrees t = worktrees s"
proof -
  obtain i token where c: "c = (i, token)" by force
  let ?P = "\<lambda>r. wo_id r = i \<and> due now r"
  let ?f = "\<lambda>r. r\<lparr>wo_reconciliation_owner := Some owner, wo_reconciliation_token := Some token,
    wo_reconciliation_expires_at := Some (now + secs), wo_updated_at := now\<rparr>"
  let ?t = "s\<lparr>worktree_operations := upd_where ?P ?f (worktree_operations s)\<rparr>"
  show ?thesis
  proof (cases "rowcount ?P (worktree_operations s) = 1")
    case False
    with run c progress_refl [OF ok] show ?thesis by (simp add: claim_operation_def)
  next
    case True
    then obtain r where r: "r \<in> set (worktree_operations s)" "wo_id r = i" "due now r"
      using rowcount_pos_iff [of ?P "worktree_operations s"] by auto
    have ops: "ops_ok (worktrees s) (worktree_operations s)" using ok by (simp add: housing_ok_def)
    from ops_okD(3) [OF ops r(1)] way [OF r(3)] obtain w where w: "w \<in> set (worktrees s)"
      "wt_id w = wo_worktree_id r" "wt_state w = expected_state r" by blast
    have "works_on r (?f r) w (id w)"
      using way [OF r(3)] w(2,3) by (simp add: works_on_def under_way_def expected_state_def)
    then have step: "progress s ?t"
      by (rule progress_step [where P = ?P and Q = "\<lambda>v. wt_id v = wt_id w", OF ok r(1) w(1)])
        (use r in \<open>auto simp: upd_where_def\<close>)
    from run True obtain k w' j a d where t: "t = worktree_event k w' j a d now ?t"
      by (auto simp: claim_operation_def c Let_def)
    have "progress s t" unfolding t progress_events by (rule step)
    then show ?thesis by (simp add: t worktree_event_def append_event_def)
  qed
qed

lemma claims_progress:
  assumes ok: "housing_ok s" and way: "\<And>r. due now r \<Longrightarrow> under_way r"
    and run: "claim_operations due kind data owner secs limit fresh now s = Inr (t, rs)"
  shows "progress s t"
proof -
  from run obtain owner' cs where
      loop: "foldR (claim_operation due kind data owner' secs now) cs (s, []) = Inr (t, rs)"
    unfolding claim_operations_def Let_def by auto
  let ?I = "\<lambda>u. progress s (fst u) \<and> worktrees (fst u) = worktrees s"
  have "?I (t, rs)"
    using loop
  proof (rule foldR_invariant [where P = ?I])
    fix c u u' assume u: "?I u" "claim_operation due kind data owner' secs now c u = Inr u'"
    obtain a b a' b' where p: "u = (a, b)" "u' = (a', b')" by (metis surj_pair)
    with u have "housing_ok a" by (simp add: progress_def)
    from claim_progress [OF this way u(2) [unfolded p]] u(1) p show "?I u'"
      by (auto intro: lived_trans_same)
  qed (simp add: progress_refl [OF ok])
  then show ?thesis by simp
qed

lemma retry_progress:
  assumes ok: "housing_ok s"
  shows "wpR (progress s) (finish_quarantined_worktree_process_retry i owner token reason obs now s)"
  unfolding finish_quarantined_worktree_process_retry_def
proof (intro wp_intros, unfold progress_events)
  fix r w
  assume fence: "assert_operation_fence i owner token True now s = Inr r"
    and held: "wo_status r = OpQuarantined" and "operation_worktree r s = Inr w"
  then have w: "find_worktree (wo_worktree_id r) s = Some w" by (simp add: operation_worktree_def)
  note r = fenced_operation [OF ok fence] and w = fenced_operation(5) [OF ok fence w]
  let ?g = "\<lambda>v. v\<lparr>wt_last_error := Some (py_strip reason), wt_updated_at := now\<rparr>"
  let ?f = "\<lambda>r. (release_operation_fence r)\<lparr>wo_error := Some (py_strip reason), wo_updated_at := now\<rparr>"
  have works: "works_on r (?f r) w (?g w)"
    using r(3) w
    by (simp add: works_on_def release_operation_fence_def same_intent_def under_way_def
        expected_state_def)
  show "progress s ((update_operation i ?f s)\<lparr>worktrees := upd_where (\<lambda>v. wt_id v = wt_id w) ?g (worktrees s)\<rparr>)"
    by (rule progress_step [where f = ?f and P = "\<lambda>q. wo_id q = i" and g = ?g
          and Q = "\<lambda>v. wt_id v = wt_id w"])
      (use ok r(1,2) w works in \<open>auto simp: update_operation_def\<close>)
qed

lemma resume_progress:
  assumes ok: "housing_ok s"
  shows "wpR (progress s) (resume_quarantined_worktree_operation i owner token now s)"
  unfolding resume_quarantined_worktree_operation_def Let_def
proof (intro wp_intros, unfold progress_events)
  fix r :: operation_row and w :: worktree_row
  let ?state = "case wo_kind r of OpCreate \<Rightarrow> WtProvisioning | OpRemove \<Rightarrow> WtCleanupPending"
  let ?g = "\<lambda>v. v\<lparr>wt_state := ?state, wt_updated_at := now\<rparr>"
  let ?f = "\<lambda>r. r\<lparr>wo_status := OpRunning, wo_finished_at := None, wo_updated_at := now\<rparr>"
  assume fence: "assert_operation_fence i owner token True now s = Inr r"
    and "require (find_worktree (wo_worktree_id r) s) TransitionConflict = Inr w"
    and held: "wt_state w = WtQuarantined"
  then have w: "find_worktree (wo_worktree_id r) s = Some w" by simp
  note r = fenced_operation [OF ok fence] and w = fenced_operation(5) [OF ok fence w]
  have works: "works_on r (?f r) w (?g w)"
    using r(3) w held
    by (cases "wo_kind r") (simp_all add: works_on_def same_intent_def under_way_def expected_state_def)
  show "progress s (update_operation i ?f
      (s\<lparr>worktrees := upd_where (\<lambda>v. wt_id v = wt_id w) ?g (worktrees s)\<rparr>))"
    by (rule progress_step [where f = ?f and P = "\<lambda>q. wo_id q = i" and g = ?g
          and Q = "\<lambda>v. wt_id v = wt_id w"])
      (use ok r(1,2) w works in \<open>auto simp: update_operation_def\<close>)
qed


lemma exec_worktree_progress:
  assumes ok: "housing_ok s" and jobs: "distinct (map jb_id (jobs s))"
  shows "wpR (progress s) (exec_worktree W now c s)"
proof (cases c)
  case (ClaimExpiredOperations owner secs limit fresh)
  then show ?thesis
    by (auto simp: wpR_def claim_expired_worktree_operations_def expired_operation_def under_way_def
        dest!: claims_progress [OF ok, rotated])
next
  case (ClaimQuarantinedOperations owner secs limit fresh)
  then show ?thesis
    by (auto simp: wpR_def claim_quarantined_worktree_processes_def retryable_operation_def
        under_way_def dest!: claims_progress [OF ok, rotated])
qed (use process_progress [OF ok] creation_progress [OF ok jobs] removal_progress [OF ok]
    quarantine_progress [OF ok] request_progress [OF ok] cleanup_progress [OF ok]
    retry_progress [OF ok] resume_progress [OF ok] in \<open>auto intro: only_store_wp\<close>)

section \<open>A worker that quarantines its worktree\<close>

lemma quarantine_claimed_progress:
  assumes ok: "housing_ok s"
  shows "wpR (progress s) (quarantine_claimed_managed_worktree j worker token reason now s)"
  unfolding quarantine_claimed_managed_worktree_def Let_def
proof (intro wp_intros, unfold progress_events)
  fix job :: job_row
  let ?mine = "\<lambda>w. jb_managed_worktree_id job = Some (wt_id w) \<and> wt_state w = WtReady"
  let ?g = "\<lambda>w. w\<lparr>wt_state := WtQuarantined, wt_last_error := Some reason, wt_updated_at := now\<rparr>"
  let ?t = "s\<lparr>worktrees := upd_where ?mine ?g (worktrees s)\<rparr>"
  assume "rowcount ?mine (worktrees s) = 1"
  then obtain w where w: "w \<in> set (worktrees s)" "?mine w"
    using rowcount_pos_iff [of ?mine "worktrees s"] by auto
  have ops: "ops_ok (worktrees s) (worktree_operations s)"
    and removals: "removals_ok (worktrees s) (worktree_operations s) (items s)"
    and tenants: "tenants_ok (worktrees s) (worktree_operations s) (jobs s)"
    using ok by (simp_all add: housing_ok_def)
  have one: "v = w" if "v \<in> set (worktrees s)" "?mine v" for v
    using key_unique [OF ops_okD(1) [OF ops] that(1) w(1)] that(2) w(2) by simp
  have t: "worktrees ?t = upd_where ?mine ?g (worktrees s)" by simp
  have ws: "set (worktrees ?t) = insert (?g w) (set (worktrees s) - {w})"
    unfolding t by (rule set_upd_one [of w "worktrees s" ?mine ?g, OF w one])
  have ids: "map wt_id (worktrees ?t) = map wt_id (worktrees s)"
    unfolding t by (rule map_upd_one [of wt_id ?g w "worktrees s" ?mine, OF _ one]) simp_all
  have idle: "\<not> under_way r" if "r \<in> set (worktree_operations s)" "wo_worktree_id r = wt_id w" for r
    using ready_idle [OF ops w(1) _ that] w(2) by simp
  have origin: "\<exists>v \<in> set (worktrees s). wt_id v = wt_id u \<and> wt_item_id v = wt_item_id u \<and> (v = u \<or> v = w \<and> u = ?g w)"
    if "u \<in> set (worktrees ?t)" for u
    using that w(1) unfolding ws by auto
  have forth: "\<exists>u \<in> set (worktrees ?t). wt_id u = wt_id v \<and> wt_item_id u = wt_item_id v \<and> (u = v \<or> v = w)"
    if "v \<in> set (worktrees s)" for v
    using that unfolding ws by (cases "v = w") auto
  have "ops_ok (worktrees ?t) (worktree_operations s)"
    unfolding ops_ok_def ids
  proof (intro conjI ballI impI)
    show "distinct (map wt_id (worktrees s))" "distinct (map wo_id (worktree_operations s))"
      using ops_okD(1,2) [OF ops] .
    fix r assume r: "r \<in> set (worktree_operations s)"
    from ops_okD(3) [OF ops r] obtain v where v: "v \<in> set (worktrees s)" "wt_id v = wo_worktree_id r"
      "under_way r \<longrightarrow> wt_state v = expected_state r" by blast
    from forth [OF v(1)] obtain u where u: "u \<in> set (worktrees ?t)" "wt_id u = wt_id v" "u = v \<or> v = w"
      by blast
    have "under_way r \<longrightarrow> wt_state u = expected_state r"
      using u(3) by (elim disjE) (use idle [OF r] v(2,3) in auto)
    with u(2) v(2) have "wt_id u = wo_worktree_id r \<and> (under_way r \<longrightarrow> wt_state u = expected_state r)"
      by (simp only: simp_thms)
    then show "\<exists>v \<in> set (worktrees ?t). wt_id v = wo_worktree_id r \<and> (under_way r \<longrightarrow> wt_state v = expected_state r)"
      by (rule bexI [OF _ u(1)])
    show "finished_cleanly r" "fence_open r" if "\<not> under_way r"
      using that ops_okD(5) [OF ops r] by auto
    show "r = q" if "q \<in> set (worktree_operations s)" "under_way r" "under_way q"
      "wo_worktree_id r = wo_worktree_id q" for q
      using ops_okD(4) [OF ops r that] .
  next
    fix u assume u: "u \<in> set (worktrees ?t)" "wt_state u \<in> {WtProvisioning, WtCleanupPending}"
    have "wt_state (?g w) \<notin> {WtProvisioning, WtCleanupPending}" by simp
    with u(2) have "u \<noteq> ?g w" by blast
    with u(1) have "u \<in> set (worktrees s)" unfolding ws by blast
    from ops_okD(6) [OF ops this u(2)]
    show "\<exists>r \<in> set (worktree_operations s). wo_worktree_id r = wt_id u \<and> wo_status r = OpRunning" .
  qed
  moreover have "removals_ok (worktrees ?t) (worktree_operations s) (items s)"
    unfolding removals_ok_def
  proof (intro conjI ballI impI)
    fix r u assume r: "r \<in> set (worktree_operations s)" "under_way r" "wo_kind r = OpRemove"
      and u: "u \<in> set (worktrees ?t)" "wt_id u = wo_worktree_id r"
    from origin [OF u(1)] obtain v where "v \<in> set (worktrees s)" "wt_id v = wt_id u"
      "wt_item_id v = wt_item_id u" by blast
    with removals r u(2) show "\<exists>i \<in> set (items s). it_id i = wt_item_id u \<and> closed_item i"
      unfolding removals_ok_def by metis
  next
    fix u assume u: "u \<in> set (worktrees ?t)" "wt_state u = WtRemoved"
    have "wt_state (?g w) \<noteq> WtRemoved" by simp
    with u(2) have "u \<noteq> ?g w" by blast
    with u(1) have "u \<in> set (worktrees s)" unfolding ws by blast
    with u(2) removals show "\<exists>i \<in> set (items s). it_id i = wt_item_id u \<and> closed_item i"
      unfolding removals_ok_def by blast
  qed
  moreover have "tenants_ok (worktrees ?t) (worktree_operations s) (jobs s)"
    unfolding tenants_ok_def
  proof (intro ballI allI impI conjI)
    fix k i assume k: "k \<in> set (jobs s)" "jb_managed_worktree_id k = Some i"
    with tenants obtain v where v: "v \<in> set (worktrees s)" "wt_id v = i" "wt_item_id v = jb_item_id k"
      and kinds: "\<forall>r \<in> set (worktree_operations s). wo_worktree_id r = i \<longrightarrow> under_way r \<longrightarrow> wo_kind r = OpRemove"
      unfolding tenants_ok_def by blast
    from forth [OF v(1)] v(2,3) show "\<exists>u \<in> set (worktrees ?t). wt_id u = i \<and> wt_item_id u = jb_item_id k"
      by auto
    show "wo_kind r = OpRemove" if "r \<in> set (worktree_operations s)" "wo_worktree_id r = i" "under_way r" for r
      using kinds that by blast
  qed
  ultimately have "housing_ok ?t" by (simp add: housing_ok_def)
  moreover have "lived s ?t"
    by (rule lived_one [OF w(1) ws]) (use w(2) in \<open>simp_all add: same_intent_def quarantined\<close>)
  ultimately show "progress s ?t" by (simp add: progress_def)
qed

section \<open>Every request\<close>

lemma settled_progress:
  assumes ok: "housing_ok s" and settled: "settled s t"
  shows "progress s t"
proof -
  have ops: "ops_ok (worktrees s) (worktree_operations s)"
    and removals: "removals_ok (worktrees s) (worktree_operations s) (items s)"
    and tenants: "tenants_ok (worktrees s) (worktree_operations s) (jobs s)"
    using ok by (simp_all add: housing_ok_def)
  have same: "worktrees t = worktrees s" "worktree_operations t = worktree_operations s"
    and jobs: "\<forall>k \<in> set (jobs t). (\<exists>j \<in> set (jobs s). same_home j k) \<or> fits (worktrees s) k"
    and closed: "\<forall>i \<in> set (items s). closed_item i \<longrightarrow> i \<in> set (items t)"
    using settled by (simp_all add: settled_def)
  have "removals_ok (worktrees s) (worktree_operations s) (items t)"
    using removals closed unfolding removals_ok_def by blast
  moreover have "tenants_ok (worktrees s) (worktree_operations s) (jobs t)"
    unfolding tenants_ok_def
  proof (intro ballI allI impI)
    fix k i assume k: "k \<in> set (jobs t)" "jb_managed_worktree_id k = Some i"
    with jobs consider j where "j \<in> set (jobs s)" "same_home j k" | "fits (worktrees s) k" by blast
    then show "(\<exists>w \<in> set (worktrees s). wt_id w = i \<and> wt_item_id w = jb_item_id k)
        \<and> (\<forall>r \<in> set (worktree_operations s). wo_worktree_id r = i \<longrightarrow> under_way r \<longrightarrow> wo_kind r = OpRemove)"
    proof cases
      case 1
      with tenants k(2) show ?thesis unfolding tenants_ok_def same_home_def by simp
    next
      case 2
      with k(2) obtain w where w: "w \<in> set (worktrees s)" "wt_id w = i" "wt_item_id w = jb_item_id k"
        "wt_state w = WtReady" by (auto simp: fits_def)
      with ready_idle [OF ops w(1)] show ?thesis by auto
    qed
  qed
  ultimately have "housing_ok t" using ops by (simp add: housing_ok_def same)
  then show ?thesis by (simp add: progress_def lived_same same)
qed

lemma exec_progress:
  assumes ok: "queue_ok s" "housing_ok s" and runs: "runs_ok s" and run: "exec W now r s = Inr t"
  shows "progress s t"
proof (cases "houses r")
  case True
  with run show ?thesis
    by (cases r) (auto dest: wpD [OF quarantine_claimed_progress [OF ok(2)]]
        wpD [OF exec_worktree_progress [OF ok(2) key_lists(3) [OF ok(1)]]])
next
  case False
  with exec_kept [OF ok(1) runs run] have "settled s t" by (simp add: kept_def)
  with ok(2) show ?thesis by (rule settled_progress)
qed

lemma reachable_housing: "reachable st \<Longrightarrow> housing_ok st"
proof (induction rule: reachable.induct)
  case initial
  then show ?case by (rule housing_empty)
next
  case (request st W now r st')
  from exec_progress [OF reachable_ok [OF request.hyps(1)] request.IH reachable_runs [OF request.hyps(1)]
      request.hyps(2)]
  show ?case by (simp add: progress_def)
qed

end
