(* ===== verification/Homestead.thy ===== *)
theory Homestead
  imports Housing
begin

text \<open>
  The life of a managed worktree on a concrete store, and the properties of the life cycle.
\<close>

section \<open>A worktree built and used\<close>

definition disk_world :: world where
  "disk_world = example_world\<lparr>lstat := (\<lambda>_. Some \<lparr>st_kind = RegularFile, st_dev = 1, st_ino = 2,
     st_uid = 501, st_mode = 420, st_nlink = 1, st_size = 0\<rparr>)\<rparr>"

definition wanted :: worktree_request where
  "wanted = \<lparr>wq_id = ''w'', wq_repository_path = ''/repo'', wq_source_git_common_dir = ''/repo/.git'',
     wq_source_git_dir = ''/repo/.git'', wq_source_device = 1, wq_source_inode = 2,
     wq_source_owner_uid = 501, wq_object_format = ''sha1'', wq_worktree_path = ''/wt'',
     wq_branch_ref = ''refs/heads/fix'', wq_base_revision = ''abc'', wq_base_tree = ''def'',
     wq_lock_reason = ''agent'', wq_source_snapshot = []\<rparr>"

definition git_process :: operation_process where
  "git_process = \<lparr>op_process_id = 77, op_process_group_id = 77, op_owner_uid = 501,
     op_start_seconds = 5, op_start_microseconds = 0, op_kernel_executable = ''/usr/bin/git'',
     op_target_executable = ''/usr/bin/git''\<rparr>"

definition intent :: "(string \<times> json) list" where
  "intent = (case creation_identity wanted ''c'' ''i1'' ''j1'' of JObj kvs \<Rightarrow> kvs | _ \<Rightarrow> [])"

definition seen :: "(string \<times> json) list" where
  "seen = [(''worktree_id'', JStr ''w''), (''repository_path'', JStr ''/repo''),
     (''source_git_common_dir'', JStr ''/repo/.git''), (''worktree_path'', JStr ''/wt''),
     (''branch_ref'', JStr ''refs/heads/fix''), (''base_revision'', JStr ''abc''),
     (''head_revision'', JStr ''abc''), (''head_tree'', JStr ''def''), (''object_format'', JStr ''sha1''),
     (''lock_reason'', JStr ''agent''), (''worktree_git_dir'', JStr ''/repo/.git/worktrees/w''),
     (''worktree_device'', JNum 1), (''worktree_inode'', JNum 9), (''worktree_owner_uid'', JNum 501)]"

abbreviation no_hash :: string where
  "no_hash \<equiv> replicate 64 CHR ''0''"

definition plan_fix :: "(time \<times> request) list" where
  "plan_fix =
     [(0, CreateCampaign ''demo'' (Some ''c'') ''active'' [(''repositories'', JArr [JStr ''/repo''])] 4 [] ''x''),
      (1, CreateWorkItem ''c'' ''fix'' (Some ''i1'') ''fix'' ''ready_for_fix'' 0 [''focused_tests''] []
            (Some ((queued_stage ''fixer'' ''fixing'' ''j1'' [])\<lparr>nj_workspace_kind := Some ''managed_worktree''\<rparr>))
            ''x'' ''y''),
      (2, CreateApproval ''c'' ''local_code_changes'' ''op'' (Some ''i1'')
            [(''repositories'', JArr [JStr ''/repo''])] ''ap1''),
      (3, ResolveApproval ''ap1'' ''approved'' ''boss''),
      (4, OnWorktree (RequestWorktree ''c'' ''i1'' wanted ''prov'' 60 ''o1'' ''t1''))]"

definition build :: "(time \<times> request) list" where
  "build =
     [(5, OnWorktree (RecordOperationProcess ''o1'' ''prov'' ''t1'' git_process)),
      (6, OnWorktree (RecordOperationIntent ''o1'' ''prov'' ''t1'' ''/out'' ''/err'')),
      (7, OnWorktree (ClearOperationProcess ''o1'' ''prov'' ''t1'' 77 77 False)),
      (8, OnWorktree (RecordOperationArtifacts ''o1'' ''prov'' ''t1'' ''/out'' no_hash ''/err'' no_hash False)),
      (9, OnWorktree (CompleteCreation ''o1'' ''prov'' ''t1'' intent seen [] False))]"

definition claim_fix :: "(time \<times> request) list" where
  "claim_fix = [(10, ClaimJob ''fixer'' ''w1'' 60 ''a1'' ''t2'')]"

abbreviation on_disk :: "(time \<times> request) list \<Rightarrow> store" where
  "on_disk rs \<equiv> serve disk_world rs empty_store"

lemma reachable_on_disk: "reachable (on_disk rs)"
  by (rule reachable_serve [OF reachable.initial])

lemma after_building:
  "(\<lambda>st. map (\<lambda>j. (jb_managed_worktree_id j, jb_status j)) (jobs st) = [(Some ''w'', JobRunning)]
     \<and> map (\<lambda>r. (wo_worktree_id r, wo_status r)) (worktree_operations st) = [(''w'', OpSucceeded)])
   (on_disk (plan_fix @ build @ claim_fix))"
  unfolding served plan_fix_def build_def claim_fix_def by code_simp

lemma while_planning:
  "(\<lambda>st. map (\<lambda>w. (wt_id w, wt_state w)) (worktrees st) = [(''w'', WtProvisioning)]
     \<and> holdsR (\<lambda>t. map (\<lambda>w. (wt_id w, wt_state w)) (worktrees t) = [(''w'', WtQuarantined)])
         (exec disk_world 5
            (OnWorktree (QuarantineOperation ''o1'' ''prov'' ''t1'' intent ''lost'' None False True)) st))
   (on_disk plan_fix)"
  unfolding served plan_fix_def by code_simp

lemma map_single:
  assumes "map f xs = [y]"
  shows "\<exists>x \<in> set xs. f x = y"
  using assms by auto

section \<open>The life cycle\<close>

text \<open>
  C17.  The store refines the life cycle of worktrees.  Whatever request is executed on a reachable
  store, every worktree is still there with what was asked for unchanged, in the same state or
  one step on in the abstract life cycle, and a worktree that is new is being provisioned.
\<close>

theorem worktrees_follow_their_life_cycle:
  assumes "reachable st" "exec W now r st = Inr st'"
  shows "(\<forall>w \<in> set (worktrees st). \<exists>v \<in> set (worktrees st').
      same_intent w v \<and> (wt_state v = wt_state w \<or> life_step (wt_state w) (wt_state v)))
    \<and> (\<forall>v \<in> set (worktrees st'). (\<exists>w \<in> set (worktrees st). same_intent w v)
        \<or> wt_state v = WtProvisioning)"
  using exec_progress [OF reachable_ok [OF assms(1)] reachable_housing [OF assms(1)]
      reachable_runs [OF assms(1)] assms(2)]
  unfolding progress_def lived_def by simp metis

lemma worktrees_follow_their_life_cycle_witness:
  "\<exists>st'. exec disk_world 5
        (OnWorktree (QuarantineOperation ''o1'' ''prov'' ''t1'' intent ''lost'' None False True))
        (on_disk plan_fix) = Inr st'
      \<and> map wt_state (worktrees (on_disk plan_fix)) = [WtProvisioning]
      \<and> map wt_state (worktrees st') = [WtQuarantined]
      \<and> (\<forall>w \<in> set (worktrees (on_disk plan_fix)). \<exists>v \<in> set (worktrees st').
          same_intent w v \<and> (wt_state v = wt_state w \<or> life_step (wt_state w) (wt_state v)))"
proof -
  obtain st' where st': "exec disk_world 5
        (OnWorktree (QuarantineOperation ''o1'' ''prov'' ''t1'' intent ''lost'' None False True))
        (on_disk plan_fix) = Inr st'"
      "map (\<lambda>w. (wt_id w, wt_state w)) (worktrees st') = [(''w'', WtQuarantined)]"
    using conjunct2 [OF while_planning] by (rule holdsRE) (rule that)
  have before: "map wt_state (worktrees (on_disk plan_fix)) = [WtProvisioning]"
    using arg_cong [OF conjunct1 [OF while_planning], of "map snd"] by (simp add: comp_def)
  have afterwards: "map wt_state (worktrees st') = [WtQuarantined]"
    using arg_cong [OF st'(2), of "map snd"] by (simp add: comp_def)
  show ?thesis
    by (intro exI conjI, rule st'(1), rule before, rule afterwards,
        rule conjunct1 [OF worktrees_follow_their_life_cycle [OF reachable_on_disk st'(1)]])
qed

text \<open>
  C19.  One operation at a time.  In every reachable store a worktree has at most one operation
  that has not succeeded, and it is being created or removed exactly while a running operation
  of that kind works on it.
\<close>

theorem one_worktree_operation_at_a_time:
  assumes "reachable st"
  shows "(\<forall>r \<in> set (worktree_operations st). \<forall>s \<in> set (worktree_operations st).
      wo_status r \<noteq> OpSucceeded \<and> wo_status s \<noteq> OpSucceeded \<and> wo_worktree_id r = wo_worktree_id s
      \<longrightarrow> r = s)
    \<and> (\<forall>w \<in> set (worktrees st). \<forall>k.
      wt_state w = (case k of OpCreate \<Rightarrow> WtProvisioning | OpRemove \<Rightarrow> WtCleanupPending)
      \<longleftrightarrow> (\<exists>r \<in> set (worktree_operations st). wo_worktree_id r = wt_id w \<and> wo_kind r = k
            \<and> wo_status r = OpRunning))"
proof -
  have ops: "ops_ok (worktrees st) (worktree_operations st)"
    using reachable_housing [OF assms] by (simp add: housing_ok_def)
  have "wt_state w = (case k of OpCreate \<Rightarrow> WtProvisioning | OpRemove \<Rightarrow> WtCleanupPending)
      \<longleftrightarrow> (\<exists>r \<in> set (worktree_operations st). wo_worktree_id r = wt_id w \<and> wo_kind r = k
            \<and> wo_status r = OpRunning)" if w: "w \<in> set (worktrees st)" for w k
  proof
    assume at: "wt_state w = (case k of OpCreate \<Rightarrow> WtProvisioning | OpRemove \<Rightarrow> WtCleanupPending)"
    then have "wt_state w \<in> {WtProvisioning, WtCleanupPending}" by (cases k) simp_all
    from ops_okD(6) [OF ops w this] obtain r where r: "r \<in> set (worktree_operations st)"
      "wo_worktree_id r = wt_id w" "wo_status r = OpRunning" by blast
    then have "wt_state w = expected_state r"
      using worktree_state [OF ops r(1) _ w] by (simp add: under_way_def)
    with at r(3) have "wo_kind r = k"
      by (cases "wo_kind r"; cases k) (simp_all add: expected_state_def)
    with r show "\<exists>r \<in> set (worktree_operations st). wo_worktree_id r = wt_id w \<and> wo_kind r = k
        \<and> wo_status r = OpRunning" by blast
  next
    assume "\<exists>r \<in> set (worktree_operations st). wo_worktree_id r = wt_id w \<and> wo_kind r = k
        \<and> wo_status r = OpRunning"
    then obtain r where r: "r \<in> set (worktree_operations st)" "wo_worktree_id r = wt_id w"
      "wo_kind r = k" "wo_status r = OpRunning" by blast
    then show "wt_state w = (case k of OpCreate \<Rightarrow> WtProvisioning | OpRemove \<Rightarrow> WtCleanupPending)"
      using worktree_state [OF ops r(1) _ w] by (simp add: under_way_def expected_state_def)
  qed
  then show ?thesis using ops_okD(4) [OF ops] unfolding under_way_def by blast
qed

lemma one_worktree_operation_at_a_time_witness:
  "\<exists>w \<in> set (worktrees (on_disk plan_fix)). \<exists>r \<in> set (worktree_operations (on_disk plan_fix)).
     wo_worktree_id r = wt_id w \<and> wo_kind r = OpCreate \<and> wo_status r = OpRunning"
proof -
  from map_single [OF conjunct1 [OF while_planning]] obtain w where
    "w \<in> set (worktrees (on_disk plan_fix))" "wt_state w = WtProvisioning" by blast
  with one_worktree_operation_at_a_time [OF reachable_on_disk, of plan_fix] show ?thesis
    by (metis operation_kind.simps(3))
qed

text \<open>
  C18.  No worker runs in a worktree that is being created, being removed or gone.  In every
  reachable store a managed worktree that a running job works in exists, was made for the job's
  work item, and is ready or quarantined.
\<close>

theorem running_job_has_its_worktree:
  assumes "reachable st" "j \<in> set (jobs st)" "jb_status j = JobRunning"
    and "jb_managed_worktree_id j = Some i"
  shows "\<exists>w \<in> set (worktrees st). wt_id w = i \<and> wt_item_id w = jb_item_id j
    \<and> wt_state w \<in> {WtReady, WtQuarantined}"
proof -
  have queue: "queue_ok st" and house: "housing_ok st"
    using assms(1) by (rule reachable_ok, rule reachable_housing)
  have ops: "ops_ok (worktrees st) (worktree_operations st)"
    and removals: "removals_ok (worktrees st) (worktree_operations st) (items st)"
    and tenants: "tenants_ok (worktrees st) (worktree_operations st) (jobs st)"
    using house by (simp_all add: housing_ok_def)
  from tenants assms(2,4) obtain w where w: "w \<in> set (worktrees st)" "wt_id w = i"
      "wt_item_id w = jb_item_id j"
    and kinds: "\<forall>r \<in> set (worktree_operations st). wo_worktree_id r = i \<longrightarrow> under_way r \<longrightarrow> wo_kind r = OpRemove"
    unfolding tenants_ok_def by blast
  have active: "\<not> closed_item k" if "k \<in> set (items st)" "it_id k = jb_item_id j" for k
  proof -
    obtain l where l: "l \<in> set (items st)" "it_id l = jb_item_id j" "it_state l = jb_active_state j"
      using queue_okD(4) [OF queue] assms(2,3) unfolding running_ok_def running_def by blast
    moreover have "jb_active_state j = active_state (jb_role j)" by (rule job_states(2) [OF queue assms(2)])
    ultimately show ?thesis
      using item_unique [OF queue that(1) l(1)] that(2) queued_not_green(2) open_states(2)
      by (simp add: closed_item_def)
  qed
  have "wt_state w \<noteq> WtRemoved"
    using removals w(1,3) active unfolding removals_ok_def by metis
  moreover have "wt_state w \<notin> {WtProvisioning, WtCleanupPending}"
  proof
    assume "wt_state w \<in> {WtProvisioning, WtCleanupPending}"
    from ops_okD(6) [OF ops w(1) this] obtain r where r: "r \<in> set (worktree_operations st)"
      "wo_worktree_id r = wt_id w" "wo_status r = OpRunning" by blast
    then have "under_way r" "wo_kind r = OpRemove" using kinds w(2) by (simp_all add: under_way_def)
    with removals r(1,2) w(1,3) active show False unfolding removals_ok_def by metis
  qed
  ultimately show ?thesis using w by (cases "wt_state w") auto
qed

lemma running_job_has_its_worktree_witness:
  "\<exists>w \<in> set (worktrees (on_disk (plan_fix @ build @ claim_fix))). wt_id w = ''w''
     \<and> wt_state w \<in> {WtReady, WtQuarantined}"
proof -
  from map_single [OF conjunct1 [OF after_building]] obtain j where
    "j \<in> set (jobs (on_disk (plan_fix @ build @ claim_fix)))" "jb_status j = JobRunning"
    "jb_managed_worktree_id j = Some ''w''" by blast
  from running_job_has_its_worktree [OF reachable_on_disk this] show ?thesis by blast
qed

text \<open>
  C20.  An operation on a worktree succeeds only with evidence.  In every reachable store a
  succeeded operation has a process that was recorded stopped and hashes of both its output
  files, and no reconciler holds it any more.
\<close>

theorem succeeded_operation_is_proved:
  assumes "reachable st" "r \<in> set (worktree_operations st)" "wo_status r = OpSucceeded"
  shows "wo_process_state r = Some OpProcStopped \<and> wo_stdout_sha256 r \<noteq> None
    \<and> wo_stderr_sha256 r \<noteq> None \<and> wo_reconciliation_owner r = None"
  using ops_okD(5) [OF conjunct1 [OF reachable_housing [OF assms(1), unfolded housing_ok_def]] assms(2)]
    assms(3) by (simp add: under_way_def finished_cleanly_def fence_open_def)

lemma succeeded_operation_is_proved_witness:
  "\<exists>r \<in> set (worktree_operations (on_disk (plan_fix @ build @ claim_fix))).
     wo_status r = OpSucceeded \<and> wo_process_state r = Some OpProcStopped"
proof -
  from map_single [OF conjunct2 [OF after_building]] obtain r where
    "r \<in> set (worktree_operations (on_disk (plan_fix @ build @ claim_fix)))" "wo_status r = OpSucceeded"
    by blast
  with succeeded_operation_is_proved [OF reachable_on_disk this] show ?thesis by blast
qed

end
