(* ===== verification/Evidence.thy ===== *)
theory Evidence
  imports Lasting
begin

text \<open>
  What the collectors of evidence yield: a browser or database execution cannot be recorded, so
  without simulated evidence a three-gate item is never green; a finished focused execution
  hands off a pass or a block and nothing else.
\<close>

section \<open>Browser and database evidence\<close>

text \<open>
  C2.  Without simulated evidence the three-gate pipeline never ends green.  In every reachable
  store, an item of a campaign that does not allow simulated evidence is not
  \<open>verified_green\<close> unless the focused tests are all it requires, and there is no browser or
  database execution for it or any other item.
\<close>

theorem three_gate_items_never_green:
  assumes "reachable st" "i \<in> set (items st)" "\<not> may_simulate st i"
    and "it_required_gates i \<noteq> [FocusedTests]"
  shows "it_state i \<noteq> VerifiedGreen \<and> browser_executions st = [] \<and> database_executions st = []"
  using reachable_green [OF assms(1)] reachable_runs [OF assms(1)] assms(2-4)
  unfolding green_proof_def exactly_run_def runs_ok_def by blast

definition strict_campaign :: "(time \<times> request) list" where
  "strict_campaign =
     [(0, CreateCampaign ''strict'' (Some ''s'') ''active'' [] 4 [] ''x''),
      (1, CreateWorkItem ''s'' ''third'' (Some ''i3'') ''third'' ''ready_for_test'' 0
            [''focused_tests'', ''browser'', ''database''] [] None ''x'' ''y'')]"

lemma three_gate_items_never_green_witness:
  "\<exists>i \<in> set (items (run_on strict_campaign)). it_id i = ''i3'' \<and> it_state i \<noteq> VerifiedGreen"
proof -
  have "(\<lambda>st. items st \<noteq> [] \<and> it_id (hd (items st)) = ''i3''
        \<and> it_required_gates (hd (items st)) = default_required_gates
        \<and> list_all (\<lambda>c. \<not> allow_simulated c) (campaigns st)) (run_on strict_campaign)"
    unfolding served strict_campaign_def by code_simp
  then have i: "items (run_on strict_campaign) \<noteq> []" "it_id (hd (items (run_on strict_campaign))) = ''i3''"
      "it_required_gates (hd (items (run_on strict_campaign))) \<noteq> [FocusedTests]"
      "\<not> may_simulate (run_on strict_campaign) (hd (items (run_on strict_campaign)))"
    by (auto simp: may_simulate_def list_all_iff default_required_gates_def)
  from three_gate_items_never_green [OF reachable_run_on hd_in_set [OF i(1)] i(4,3)] i(1,2)
  show ?thesis by (metis hd_in_set)
qed

end
