(* ===== verification/Processes.thy ===== *)
theory Processes
  imports Recovery "HOL-Library.Word"
begin

text \<open>
  The operating system boundary of \<^verbatim>\<open>process_reconciler.py\<close>: the identity of a process, the
  binding a claim of the store hands over, the Darwin runtime over the calls of \<^verbatim>\<open>libproc\<close>, the
  runtime of every other platform, and the contract both offer to the reconciler.

  The operating system is not under the source tree.  Its calls are the fields of \<open>kernel\<close>, functions
  on an arbitrary state \<open>'k\<close> of the machine, which goes on changing between two calls.  A
  method that talks to it is a function of that state which returns or raises, with the state
  it leaves.
\<close>

section \<open>Errors and calls\<close>

text \<open>
  What \<open>ProcessInspectionError\<close> says, and the exceptions of Python's \<open>os\<close> wrappers, of
  \<open>bytes.decode\<close> and of \<open>Path.resolve\<close>.
\<close>

datatype inspection_failure =
    CannotInspect int int | CannotReadExecutable int int | IdentityChanged int
  | CannotListGroup int int | GroupTooLarge int | PlatformUnsupported string | NoLibproc

datatype runtime_error =
    ProcessLookupError | PermissionError | OtherOSError int
  | ProcessInspectionError inspection_failure
  | InvalidValue
  | IntegerTooLarge
  | SymlinkLoop

fun os_error :: "runtime_error \<Rightarrow> bool" where
  "os_error ProcessLookupError = True"
| "os_error PermissionError = True"
| "os_error (OtherOSError _) = True"
| "os_error _ = False"

fun inspection_error :: "runtime_error \<Rightarrow> bool" where
  "inspection_error (ProcessInspectionError _) = True"
| "inspection_error _ = False"

type_synonym ('k, 'a) call = "'k \<Rightarrow> (runtime_error + 'a) \<times> 'k"

definition give :: "'a \<Rightarrow> ('k, 'a) call" where "give x k = (Inr x, k)"

definition raise :: "runtime_error \<Rightarrow> ('k, 'a) call" where "raise e k = (Inl e, k)"

definition andthen :: "('k, 'a) call \<Rightarrow> ('a \<Rightarrow> ('k, 'b) call) \<Rightarrow> ('k, 'b) call" where
  "andthen m f k = (case m k of (Inl e, k') \<Rightarrow> (Inl e, k') | (Inr x, k') \<Rightarrow> f x k')"

lemma call_simps [simp]:
  "give x k = (Inr x, k)" "raise e k = (Inl e, k)" "andthen (give x) f = f x"
  "andthen (raise e) f = raise e"
  by (simp_all add: give_def raise_def andthen_def fun_eq_iff)

lemma andthen_Inr:
  "andthen m f k = (Inr y, k2) \<longleftrightarrow> (\<exists>x k1. m k = (Inr x, k1) \<and> f x k1 = (Inr y, k2))"
  by (auto simp: andthen_def split: prod.splits sum.splits)

section \<open>Identities and bindings\<close>

record kernel_identity =
  ki_process_id :: int
  ki_process_group_id :: int
  ki_user_id :: int
  ki_executable :: string
  ki_start_seconds :: int
  ki_start_microseconds :: int

definition fingerprint :: "kernel_identity \<Rightarrow> int \<times> int \<times> int \<times> string \<times> int \<times> int" where
  "fingerprint i = (ki_process_id i, ki_process_group_id i, ki_user_id i, ki_executable i,
     ki_start_seconds i, ki_start_microseconds i)"

record process_binding =
  pb_job_id :: string
  pb_attempt_id :: string
  pb_process_id :: int
  pb_process_group_id :: int
  pb_user_id :: "int option"
  pb_executable :: "string option"
  pb_start_seconds :: "int option"
  pb_start_microseconds :: "int option"
  pb_target_executable :: "string option"
  pb_identity_version :: identity_version

text \<open>
  \<open>from_mapping\<close> is only given the row a claim of the store returns, which spells the user
  \<open>owner_uid\<close> and the executable \<open>kernel_executable\<close>.
\<close>

definition from_mapping :: "process_row \<Rightarrow> process_binding" where
  "from_mapping p =
     \<lparr>pb_job_id = ep_job_id p, pb_attempt_id = ep_attempt_id p,
      pb_process_id = ep_process_id p, pb_process_group_id = ep_process_group_id p,
      pb_user_id = ep_owner_uid p, pb_executable = ep_kernel_executable p,
      pb_start_seconds = ep_start_seconds p, pb_start_microseconds = ep_start_microseconds p,
      pb_target_executable = ep_target_executable p,
      pb_identity_version = ep_identity_version p\<rparr>"

definition persistence_identity :: "process_binding \<Rightarrow> recorded_identity" where
  "persistence_identity b =
     (pb_process_id b, pb_process_group_id b, pb_user_id b, pb_executable b,
      pb_start_seconds b, pb_start_microseconds b, pb_target_executable b,
      pb_identity_version b)"

definition expected_identity :: "process_binding \<Rightarrow> kernel_identity option" where
  "expected_identity b =
     (case (pb_user_id b, pb_executable b, pb_start_seconds b, pb_start_microseconds b) of
        (Some user, Some executable, Some seconds, Some microseconds) \<Rightarrow>
          if executable = [] then None
          else Some \<lparr>ki_process_id = pb_process_id b,
                     ki_process_group_id = pb_process_group_id b, ki_user_id = user,
                     ki_executable = executable, ki_start_seconds = seconds,
                     ki_start_microseconds = microseconds\<rparr>
      | _ \<Rightarrow> None)"

lemma fingerprint_inject [simp]: "fingerprint i = fingerprint j \<longleftrightarrow> i = j"
  by (cases i; cases j) (simp add: fingerprint_def)

text \<open>What the store will ask of a completion is what the claimed row says.\<close>

lemma persistence_round_trip: "persistence_identity (from_mapping p) = recorded_identity p"
  by (simp add: persistence_identity_def from_mapping_def recorded_identity_def)

lemma expected_identity_group:
  "expected_identity b = Some i \<Longrightarrow>
     ki_process_id i = pb_process_id b \<and> ki_process_group_id i = pb_process_group_id b"
  by (auto simp: expected_identity_def split: option.splits if_splits)

lemma verifiable_binding:
  "verifiable p \<longleftrightarrow> pb_identity_version (from_mapping p) = DarwinLibprocV1
     \<and> expected_identity (from_mapping p) \<noteq> None
     \<and> pb_target_executable (from_mapping p) \<notin> {None, Some []}"
  by (auto simp: verifiable_def from_mapping_def expected_identity_def split: option.splits)

section \<open>The kernel\<close>

text \<open>\<open>struct proc_bsdinfo\<close>, with its character arrays as strings.\<close>

record proc_bsd_info =
  pbi_flags :: "32 word"
  pbi_status :: "32 word"
  pbi_xstatus :: "32 word"
  pbi_pid :: "32 word"
  pbi_ppid :: "32 word"
  pbi_uid :: "32 word"
  pbi_gid :: "32 word"
  pbi_ruid :: "32 word"
  pbi_rgid :: "32 word"
  pbi_svuid :: "32 word"
  pbi_svgid :: "32 word"
  rfu_1 :: "32 word"
  pbi_comm :: string
  pbi_name :: string
  pbi_nfiles :: "32 word"
  pbi_pgid :: "32 word"
  pbi_pjobc :: "32 word"
  e_tdev :: "32 word"
  e_tpgid :: "32 word"
  pbi_nice :: "32 word"
  pbi_start_tvsec :: "64 word"
  pbi_start_tvusec :: "64 word"

definition bsd_info_size :: int where "bsd_info_size = 12 * 4 + 16 + 32 + 6 * 4 + 2 * 8"

text \<open>
  Each call of \<^verbatim>\<open>libproc\<close> is given its C arguments and answers its return value, the \<open>errno\<close> it
  leaves and what it wrote to the buffer: the structure, the path (\<open>None\<close> for bytes that are not
  UTF-8) and the list of process ids.  \<open>kernel_kill\<close> and \<open>kernel_killpg\<close> raise or not.
\<close>

record 'k kernel =
  proc_pidinfo :: "int \<Rightarrow> int \<Rightarrow> int \<Rightarrow> int \<Rightarrow> 'k \<Rightarrow> (int \<times> int \<times> proc_bsd_info) \<times> 'k"
  proc_pidpath :: "int \<Rightarrow> int \<Rightarrow> 'k \<Rightarrow> (int \<times> int \<times> string option) \<times> 'k"
  proc_listpgrppids :: "int \<Rightarrow> int \<Rightarrow> 'k \<Rightarrow> (int \<times> int \<times> int list) \<times> 'k"
  kernel_kill :: "int \<Rightarrow> int \<Rightarrow> ('k, unit) call"
  kernel_killpg :: "int \<Rightarrow> int \<Rightarrow> ('k, unit) call"
  resolve_path :: "string \<Rightarrow> ('k, string) call"

text \<open>
  \<^verbatim>\<open>ctypes\<close> converts an argument declared \<open>c_int\<close> by dropping the bits that do not fit; the
  wrappers of \<open>os\<close> raise \<open>OverflowError\<close> for an integer that is no C \<open>int\<close>.
\<close>

definition c_int :: "int \<Rightarrow> int" where "c_int n = sint (word_of_int n :: 32 word)"

definition os_kill :: "'k kernel \<Rightarrow> int \<Rightarrow> int \<Rightarrow> ('k, unit) call" where
  "os_kill K pid number =
     (if c_int pid = pid then kernel_kill K pid number else raise IntegerTooLarge)"

definition os_killpg :: "'k kernel \<Rightarrow> int \<Rightarrow> int \<Rightarrow> ('k, unit) call" where
  "os_killpg K pgid number =
     (if c_int pgid = pgid then kernel_killpg K pgid number else raise IntegerTooLarge)"

section \<open>The Darwin runtime\<close>

definition absent :: "('k, unit) call \<Rightarrow> ('k, bool) call" where
  "absent probe k =
     (case probe k of
        (Inr _, k') \<Rightarrow> (Inr False, k')
      | (Inl e, k') \<Rightarrow>
          if e = ProcessLookupError then (Inr True, k')
          else if e = PermissionError then (Inr False, k') else (Inl e, k'))"

definition pid_is_absent :: "'k kernel \<Rightarrow> int \<Rightarrow> ('k, bool) call" where
  "pid_is_absent K pid = absent (os_kill K pid 0)"

definition group_is_absent :: "'k kernel \<Rightarrow> int \<Rightarrow> ('k, bool) call" where
  "group_is_absent K pgid = absent (os_killpg K pgid 0)"

definition read_bsd_info :: "'k kernel \<Rightarrow> int \<Rightarrow> ('k, proc_bsd_info option) call" where
  "read_bsd_info K pid k =
     (case proc_pidinfo K (c_int pid) 3 0 bsd_info_size k of ((returned, errno, info), k1) \<Rightarrow>
        if returned = bsd_info_size then (Inr (Some info), k1)
        else if returned = 0 then
          andthen (pid_is_absent K pid) (\<lambda>gone.
            if gone then give None
            else raise (ProcessInspectionError (CannotInspect pid errno))) k1
        else (Inl (ProcessInspectionError (CannotInspect pid errno)), k1))"

definition bsd_fingerprint :: "proc_bsd_info \<Rightarrow> int \<times> int \<times> int \<times> int \<times> int" where
  "bsd_fingerprint i = (uint (pbi_pid i), uint (pbi_pgid i), uint (pbi_uid i),
     uint (pbi_start_tvsec i), uint (pbi_start_tvusec i))"

definition identity_of_info :: "proc_bsd_info \<Rightarrow> string \<Rightarrow> kernel_identity" where
  "identity_of_info i executable =
     \<lparr>ki_process_id = uint (pbi_pid i), ki_process_group_id = uint (pbi_pgid i),
      ki_user_id = uint (pbi_uid i), ki_executable = executable,
      ki_start_seconds = uint (pbi_start_tvsec i),
      ki_start_microseconds = uint (pbi_start_tvusec i)\<rparr>"

definition darwin_inspect :: "'k kernel \<Rightarrow> int \<Rightarrow> ('k, kernel_identity option) call" where
  "darwin_inspect K pid =
     (if pid < 1 then raise InvalidValue
      else andthen (read_bsd_info K pid) (\<lambda>before.
        case before of
          None \<Rightarrow> give None
        | Some b \<Rightarrow> (\<lambda>k.
            case proc_pidpath K (c_int pid) 4096 k of ((len, errno, path), k1) \<Rightarrow>
              if len \<le> 0 then
                andthen (pid_is_absent K pid) (\<lambda>gone.
                  if gone then give None
                  else raise (ProcessInspectionError (CannotReadExecutable pid errno))) k1
              else
                andthen (read_bsd_info K pid) (\<lambda>after.
                  case after of
                    None \<Rightarrow> give None
                  | Some a \<Rightarrow>
                      if bsd_fingerprint b \<noteq> bsd_fingerprint a
                      then raise (ProcessInspectionError (IdentityChanged pid))
                      else (case path of
                              None \<Rightarrow> raise InvalidValue
                            | Some p \<Rightarrow> andthen (resolve_path K p) (\<lambda>executable.
                                give (Some (identity_of_info a executable))))) k1)))"

fun inspect_members ::
    "'k kernel \<Rightarrow> int \<Rightarrow> int list \<Rightarrow> ('k, kernel_identity list) call" where
  "inspect_members K pgid [] = give []"
| "inspect_members K pgid (pid # pids) =
     andthen (darwin_inspect K pid) (\<lambda>found.
     andthen (inspect_members K pgid pids) (\<lambda>rest.
       give (case found of
               None \<Rightarrow> rest
             | Some i \<Rightarrow> if ki_process_group_id i = pgid then i # rest else rest)))"

text \<open>
  The loop that doubles the capacity of the buffer.  It starts at 64, is never 0 and
  ends after 65536, so its measure is what is left up to there; \<open>sizeof(pids)\<close> is four bytes for each.
\<close>

function list_with :: "'k kernel \<Rightarrow> int \<Rightarrow> int \<Rightarrow> ('k, kernel_identity list) call" where
  "list_with K pgid capacity k =
     (if capacity \<le> 0 \<or> 65536 < capacity
      then (Inl (ProcessInspectionError (GroupTooLarge pgid)), k)
      else (case proc_listpgrppids K (c_int pgid) (4 * capacity) k of
              ((returned, errno, pids), k1) \<Rightarrow>
                if returned \<le> 0 then
                  andthen (group_is_absent K pgid) (\<lambda>gone.
                    if gone then give []
                    else raise (ProcessInspectionError (CannotListGroup pgid errno))) k1
                else if returned < capacity then
                  inspect_members K pgid
                    (sort (remdups (filter (\<lambda>pid. 0 < pid) (take (nat returned) pids)))) k1
                else list_with K pgid (2 * capacity) k1))"
  by auto
termination by (relation "measure (\<lambda>(K, pgid, capacity, k). nat (65537 - capacity))") auto

text \<open>Unfolded one capacity at a time, and only on demand.\<close>

declare list_with.simps [simp del]

definition darwin_list_group :: "'k kernel \<Rightarrow> int \<Rightarrow> ('k, kernel_identity list) call" where
  "darwin_list_group K pgid =
     (if pgid < 1 then raise InvalidValue else list_with K pgid 64)"

section \<open>Runtimes\<close>

record 'k process_runtime =
  inspect :: "int \<Rightarrow> ('k, kernel_identity option) call"
  list_group :: "int \<Rightarrow> ('k, kernel_identity list) call"
  signal_group :: "int \<Rightarrow> int \<Rightarrow> ('k, unit) call"

definition darwin_runtime :: "'k kernel \<Rightarrow> 'k process_runtime" where
  "darwin_runtime K =
     \<lparr>inspect = darwin_inspect K, list_group = darwin_list_group K, signal_group = os_killpg K\<rparr>"

definition unsupported_runtime :: "string \<Rightarrow> 'k process_runtime" where
  "unsupported_runtime platform =
     (let fail = ProcessInspectionError (PlatformUnsupported platform) in
      \<lparr>inspect = (\<lambda>_. raise fail), list_group = (\<lambda>_. raise fail), signal_group = (\<lambda>_ _. raise fail)\<rparr>)"

text \<open>\<open>libproc\<close> is the library, when \<open>ctypes.CDLL\<close> finds it.\<close>

definition local_process_runtime ::
    "string \<Rightarrow> 'k kernel option \<Rightarrow> runtime_error + 'k process_runtime" where
  "local_process_runtime platform libproc =
     (if platform = ''darwin''
      then (case libproc of
              None \<Rightarrow> Inl (ProcessInspectionError NoLibproc)
            | Some K \<Rightarrow> Inr (darwin_runtime K))
      else Inr (unsupported_runtime platform))"

end
