(* ===== verification/Reconciling.thy ===== *)
theory Reconciling
  imports Processes
begin

text \<open>
  \<open>ExternalProcessReconciler\<close> of \<^verbatim>\<open>process_reconciler.py\<close>: how one expired binding is
  terminated or quarantined.  The loop that waits for a group to exit may go on for ever when
  the clock does not move, so a run is a partial function of the machine's state.
\<close>

section \<open>Runs\<close>

type_synonym ('k, 'a) run = "'k \<Rightarrow> ((runtime_error + 'a) \<times> 'k) option"

definition return :: "'a \<Rightarrow> ('k, 'a) run" where "return x k = Some (Inr x, k)"

definition perform :: "('k, 'a) call \<Rightarrow> ('a \<Rightarrow> ('k, 'b) run) \<Rightarrow> ('k, 'b) run" where
  "perform m f k = (case m k of (Inl e, k') \<Rightarrow> Some (Inl e, k') | (Inr x, k') \<Rightarrow> f x k')"

definition upon :: "('k, 'a) run \<Rightarrow> ('a \<Rightarrow> ('k, 'b) run) \<Rightarrow> ('k, 'b) run" where
  "upon m f k =
     (case m k of
        None \<Rightarrow> None
      | Some (Inl e, k') \<Rightarrow> Some (Inl e, k')
      | Some (Inr x, k') \<Rightarrow> f x k')"

section \<open>Results\<close>

datatype reconciliation_status = Gone | Terminated | Quarantined

fun status_value :: "reconciliation_status \<Rightarrow> string" where
  "status_value Gone = ''gone''"
| "status_value Terminated = ''terminated''"
| "status_value Quarantined = ''quarantined''"

record reconciliation_result =
  rr_binding :: process_binding
  rr_status :: reconciliation_status
  rr_reason :: string
  rr_observed :: "(string \<times> json) list"

definition can_release :: "reconciliation_result \<Rightarrow> bool" where
  "can_release r \<longleftrightarrow> rr_status r \<in> {Gone, Terminated}"

definition identity_summary :: "kernel_identity \<Rightarrow> (string \<times> json) list" where
  "identity_summary i =
     [(''process_id'', JNum (ki_process_id i)),
      (''process_group_id'', JNum (ki_process_group_id i)), (''user_id'', JNum (ki_user_id i)),
      (''executable'', JStr (ki_executable i)), (''start_seconds'', JNum (ki_start_seconds i)),
      (''start_microseconds'', JNum (ki_start_microseconds i))]"

definition member_summary :: "kernel_identity list \<Rightarrow> (string \<times> json) list" where
  "member_summary members = [(''members'', JArr (map (\<lambda>i. JObj (identity_summary i)) members))]"

definition quarantine ::
    "process_binding \<Rightarrow> string \<Rightarrow> (string \<times> json) list \<Rightarrow> reconciliation_result" where
  "quarantine b reason observed =
     \<lparr>rr_binding = b, rr_status = Quarantined, rr_reason = reason, rr_observed = observed\<rparr>"

definition released ::
    "process_binding \<Rightarrow> reconciliation_status \<Rightarrow> string \<Rightarrow> (string \<times> json) list
     \<Rightarrow> reconciliation_result" where
  "released b status reason observed =
     \<lparr>rr_binding = b, rr_status = status, rr_reason = reason, rr_observed = observed\<rparr>"

section \<open>The reconciler\<close>

text \<open>
  Its runtime, its two settings, the clock and the sleeper it is given, what \<open>os.getpid\<close>,
  \<open>os.getpgrp\<close> and \<open>os.getuid\<close> say of the supervisor, and \<open>str\<close> on an exception.
\<close>

record 'k reconciler =
  runtime :: "'k process_runtime"
  terminate_grace_seconds :: int
  poll_interval_seconds :: int
  sleeper :: "int \<Rightarrow> 'k \<Rightarrow> 'k"
  monotonic :: "'k \<Rightarrow> int \<times> 'k"
  own_process_id :: int
  own_process_group_id :: int
  own_user_id :: int
  error_text :: "runtime_error \<Rightarrow> string"

definition external_process_reconciler :: "'k reconciler \<Rightarrow> runtime_error + 'k reconciler" where
  "external_process_reconciler R =
     (if terminate_grace_seconds R \<le> 0 \<or> poll_interval_seconds R \<le> 0
      then Inl InvalidValue else Inr R)"

partial_function (option) await_exit ::
    "'k reconciler \<Rightarrow> int \<Rightarrow> int \<Rightarrow> 'k \<Rightarrow> ((runtime_error + bool) \<times> 'k) option" where
  "await_exit R pgid deadline k =
     (case list_group (runtime R) pgid k of
        (Inl e, k1) \<Rightarrow>
          if os_error e \<or> inspection_error e then
            (case monotonic R k1 of (now, k2) \<Rightarrow>
               if deadline - now \<le> 0 then Some (Inl e, k2)
               else await_exit R pgid deadline
                      (sleeper R (min (poll_interval_seconds R) (deadline - now)) k2))
          else Some (Inl e, k1)
      | (Inr members, k1) \<Rightarrow>
          if members = [] then Some (Inr True, k1)
          else
            (case monotonic R k1 of (now, k2) \<Rightarrow>
               if deadline - now \<le> 0 then Some (Inr False, k2)
               else await_exit R pgid deadline
                      (sleeper R (min (poll_interval_seconds R) (deadline - now)) k2)))"

declare await_exit.simps [code]

text \<open>How a wait that returns got there, one listing after another.\<close>

lemma await_exit_induct [consumes 1, case_names failed gone timed_out remained again]:
  assumes run: "await_exit R g d k = Some p"
    and failed: "\<And>k e k1. list_group (runtime R) g k = (Inl e, k1)
        \<Longrightarrow> \<not> (os_error e \<or> inspection_error e) \<Longrightarrow> P k (Inl e, k1)"
    and gone: "\<And>k k1. list_group (runtime R) g k = (Inr [], k1) \<Longrightarrow> P k (Inr True, k1)"
    and timed_out: "\<And>k e k1 now k2. list_group (runtime R) g k = (Inl e, k1)
        \<Longrightarrow> os_error e \<or> inspection_error e \<Longrightarrow> monotonic R k1 = (now, k2) \<Longrightarrow> d \<le> now
        \<Longrightarrow> P k (Inl e, k2)"
    and remained: "\<And>k ms k1 now k2. list_group (runtime R) g k = (Inr ms, k1) \<Longrightarrow> ms \<noteq> []
        \<Longrightarrow> monotonic R k1 = (now, k2) \<Longrightarrow> d \<le> now \<Longrightarrow> P k (Inr False, k2)"
    and again: "\<And>k x k1 now k2 p. list_group (runtime R) g k = (x, k1)
        \<Longrightarrow> (case x of Inl e \<Rightarrow> os_error e \<or> inspection_error e | Inr ms \<Rightarrow> ms \<noteq> [])
        \<Longrightarrow> monotonic R k1 = (now, k2) \<Longrightarrow> now < d
        \<Longrightarrow> await_exit R g d (sleeper R (min (poll_interval_seconds R) (d - now)) k2) = Some p
        \<Longrightarrow> P (sleeper R (min (poll_interval_seconds R) (d - now)) k2) p \<Longrightarrow> P k p"
  shows "P k p"
proof -
  let ?hyp = "\<lambda>S h e k p. S = R \<longrightarrow> h = g \<longrightarrow> e = d \<longrightarrow> await_exit R g d k = Some p \<and> P k p"
  have "?hyp R g d k p"
  proof (rule await_exit.raw_induct [where P = ?hyp, OF _ run])
    fix f S h e k p
    assume IH: "\<And>S h e k p. f S h e k = Some p \<Longrightarrow> ?hyp S h e k p"
      and eq: "(case list_group (runtime S) h k of
        (Inl x, k1) \<Rightarrow>
          if os_error x \<or> inspection_error x then
            (case monotonic S k1 of (now, k2) \<Rightarrow>
               if e - now \<le> 0 then Some (Inl x, k2)
               else f S h e (sleeper S (min (poll_interval_seconds S) (e - now)) k2))
          else Some (Inl x, k1)
      | (Inr members, k1) \<Rightarrow>
          if members = [] then Some (Inr True, k1)
          else
            (case monotonic S k1 of (now, k2) \<Rightarrow>
               if e - now \<le> 0 then Some (Inr False, k2)
               else f S h e (sleeper S (min (poll_interval_seconds S) (e - now)) k2))) = Some p"
    have IH': "await_exit R g d k = Some p \<and> P k p" if "f R g d k = Some p" for k p
      using IH [OF that] by simp
    show "?hyp S h e k p"
    proof (intro impI)
      assume [simp]: "S = R" "h = g" "e = d"
      have "await_exit R g d k = Some p"
        using eq by (subst await_exit.simps)
          (auto split: prod.splits sum.splits if_splits dest!: IH')
      moreover have "P k p"
        using eq
        by (auto split: prod.splits sum.splits if_splits dest!: IH'
            intro: failed gone timed_out remained again)
      ultimately show "await_exit R g d k = Some p \<and> P k p" ..
    qed
  qed
  then show ?thesis by simp
qed

definition wait_for_group_exit :: "'k reconciler \<Rightarrow> int \<Rightarrow> ('k, bool) run" where
  "wait_for_group_exit R pgid k =
     (case monotonic R k of (now, k1) \<Rightarrow>
        await_exit R pgid (now + terminate_grace_seconds R) k1)"

text \<open>The dictionary of the members by their process id: a later member replaces an earlier one.\<close>

definition by_pid :: "kernel_identity list \<Rightarrow> int \<Rightarrow> kernel_identity option" where
  "by_pid members = map_of (rev (map (\<lambda>i. (ki_process_id i, i)) members))"

definition is_verified_subset ::
    "kernel_identity list \<Rightarrow> (int \<Rightarrow> kernel_identity option) \<Rightarrow> bool" where
  "is_verified_subset remaining original \<longleftrightarrow>
     remaining \<noteq> [] \<and> list_all (\<lambda>i. original (ki_process_id i) = Some i) remaining"

definition changed_to :: "kernel_identity option \<Rightarrow> (string \<times> json) list" where
  "changed_to i = (case i of None \<Rightarrow> [] | Some j \<Rightarrow> [(''observed'', JObj (identity_summary j))])"

text \<open>\<open>try: signal_group(...)  except ProcessLookupError: pass\<close>.\<close>

definition signal_unless_gone :: "'k reconciler \<Rightarrow> int \<Rightarrow> int \<Rightarrow> ('k, unit) call" where
  "signal_unless_gone R pgid number k =
     (case signal_group (runtime R) pgid number k of
        (Inl e, k') \<Rightarrow> if e = ProcessLookupError then (Inr (), k') else (Inl e, k')
      | (Inr u, k') \<Rightarrow> (Inr u, k'))"

definition sigterm :: int where "sigterm = 15"
definition sigkill :: int where "sigkill = 9"

text \<open>From the listing before \<open>SIGKILL\<close> on.\<close>

definition kill_group ::
    "'k reconciler \<Rightarrow> process_binding \<Rightarrow> kernel_identity \<Rightarrow> kernel_identity list
     \<Rightarrow> ('k, reconciliation_result) run" where
  "kill_group R b expected original =
     perform (list_group (runtime R) (pb_process_group_id b)) (\<lambda>remaining.
     if \<not> is_verified_subset remaining (by_pid original)
     then return (quarantine b ''process group membership changed before SIGKILL''
                 (member_summary remaining))
     else perform (inspect (runtime R) (pb_process_id b)) (\<lambda>before_kill.
     if before_kill \<noteq> Some expected
     then return (quarantine b ''launcher identity changed or vanished before SIGKILL''
                 (changed_to before_kill))
     else perform (signal_unless_gone R (pb_process_group_id b) sigkill) (\<lambda>_.
     upon (wait_for_group_exit R (pb_process_group_id b)) (\<lambda>gone.
     if gone
     then return (released b Terminated ''verified process group exited after SIGKILL'' [])
     else perform (list_group (runtime R) (pb_process_group_id b)) (\<lambda>members.
       return (quarantine b ''verified process group remained after SIGKILL''
         (member_summary members)))))))"

text \<open>From the listing of the verified launcher's group on.\<close>

definition terminate_group ::
    "'k reconciler \<Rightarrow> process_binding \<Rightarrow> kernel_identity \<Rightarrow> ('k, reconciliation_result) run" where
  "terminate_group R b expected =
     perform (list_group (runtime R) (pb_process_group_id b)) (\<lambda>original.
     if by_pid original (pb_process_id b) \<noteq> Some expected
     then return (quarantine b ''verified launcher is not present in its persisted process group''
                 (member_summary original))
     else perform (inspect (runtime R) (pb_process_id b)) (\<lambda>before_term.
     if before_term \<noteq> Some expected
     then return (quarantine b ''launcher identity changed immediately before SIGTERM''
                 (changed_to before_term))
     else perform (signal_unless_gone R (pb_process_group_id b) sigterm) (\<lambda>_.
     upon (wait_for_group_exit R (pb_process_group_id b)) (\<lambda>gone.
     if gone
     then return (released b Terminated ''verified process group exited after SIGTERM'' [])
     else kill_group R b expected original))))"

text \<open>The body of the \<open>try\<close>.\<close>

definition reconcile_observed ::
    "'k reconciler \<Rightarrow> process_binding \<Rightarrow> kernel_identity \<Rightarrow> ('k, reconciliation_result) run" where
  "reconcile_observed R b expected =
     perform (inspect (runtime R) (pb_process_id b)) (\<lambda>observed.
     case observed of
       None \<Rightarrow>
         perform (list_group (runtime R) (pb_process_group_id b)) (\<lambda>members.
         if members \<noteq> []
         then return (quarantine b
                ''launcher is gone but its persisted process group is still populated''
                (member_summary members))
         else return (released b Gone ''persisted launcher and process group are gone'' []))
     | Some found \<Rightarrow>
         if fingerprint found \<noteq> fingerprint expected
         then
           perform (list_group (runtime R) (pb_process_group_id b)) (\<lambda>members.
           if members = []
           then return (released b Gone
                  ''persisted process group is gone; PID now belongs to another process''
                  [(''observed'', JObj (identity_summary found))])
           else return (quarantine b
                  ''PID, PGID, owner, executable, or start identity no longer matches''
                  [(''expected'', JObj (identity_summary expected)),
                   (''observed'', JObj (identity_summary found))]))
         else terminate_group R b expected)"

definition fail_closed ::
    "'k reconciler \<Rightarrow> process_binding \<Rightarrow> ('k, reconciliation_result) run
     \<Rightarrow> ('k, reconciliation_result) run" where
  "fail_closed R b m k =
     (case m k of
        Some (Inl e, k') \<Rightarrow>
          if os_error e \<or> inspection_error e \<or> e = InvalidValue
          then Some (Inr (quarantine b
                 (''process inspection or signaling failed: '' @ error_text R e) []), k')
          else Some (Inl e, k')
      | r \<Rightarrow> r)"

definition protected :: "'k reconciler \<Rightarrow> process_binding \<Rightarrow> bool" where
  "protected R b \<longleftrightarrow> pb_process_id b \<le> 1 \<or> pb_process_group_id b \<le> 1
     \<or> pb_process_id b = own_process_id R \<or> pb_process_group_id b = own_process_group_id R"

definition reconcile ::
    "'k reconciler \<Rightarrow> process_binding \<Rightarrow> ('k, reconciliation_result) run" where
  "reconcile R b =
     (if protected R b
      then return (quarantine b ''persisted process identity targets a protected supervisor process'' [])
      else
        case expected_identity b of
          None \<Rightarrow> return (quarantine b
            ''persisted process identity is incomplete; migrated binding is unverifiable'' [])
        | Some expected \<Rightarrow>
            if pb_identity_version b \<noteq> DarwinLibprocV1 \<or> pb_target_executable b \<in> {None, Some []}
            then return (quarantine b
              ''persisted process identity is incomplete; migrated binding is unverifiable'' [])
            else if ki_user_id expected \<noteq> own_user_id R
            then return (quarantine b
              ''persisted process owner does not match the supervisor user''
              [(''expected_user_id'', JNum (ki_user_id expected)),
               (''supervisor_user_id'', JNum (own_user_id R))])
            else fail_closed R b (reconcile_observed R b expected))"

end
