(* ===== verification/Watching.thy ===== *)
theory Watching
  imports Reconciling
begin

text \<open>
  What the reconciler does to the machine.  \<open>traced R\<close> is the reconciler \<open>R\<close> with a runtime that
  notes every call and its answer and every reading of the monotonic clock; \<open>traced_same\<close> says that noting them changes nothing.  The rules
  \<open>watch_intros\<close> take a traced run apart call by call, and the contract \<open>group_runtime\<close> is what both
  runtimes of the program promise about the groups they list.
\<close>

section \<open>Noting the calls\<close>

datatype os_event =
    Inspected int "runtime_error + kernel_identity option"
  | Listed int "runtime_error + kernel_identity list"
  | Signalled int int "runtime_error + unit"
  | Clock int

definition noting ::
    "(runtime_error + 'a \<Rightarrow> os_event) \<Rightarrow> ('k, 'a) call \<Rightarrow> ('k \<times> os_event list, 'a) call" where
  "noting event m s = (case m (fst s) of (r, k) \<Rightarrow> (r, (k, snd s @ [event r])))"

definition traced_runtime :: "'k process_runtime \<Rightarrow> ('k \<times> os_event list) process_runtime" where
  "traced_runtime rt =
     \<lparr>inspect = (\<lambda>p. noting (Inspected p) (inspect rt p)),
      list_group = (\<lambda>g. noting (Listed g) (list_group rt g)),
      signal_group = (\<lambda>g n. noting (Signalled g n) (signal_group rt g n))\<rparr>"

definition traced :: "'k reconciler \<Rightarrow> ('k \<times> os_event list) reconciler" where
  "traced R =
     \<lparr>runtime = traced_runtime (runtime R),
      terminate_grace_seconds = terminate_grace_seconds R,
      poll_interval_seconds = poll_interval_seconds R,
      sleeper = (\<lambda>d s. (sleeper R d (fst s), snd s)),
      monotonic = (\<lambda>s. case monotonic R (fst s) of (now, k) \<Rightarrow> (now, (k, snd s @ [Clock now]))),
      own_process_id = own_process_id R, own_process_group_id = own_process_group_id R,
      own_user_id = own_user_id R, error_text = error_text R\<rparr>"

lemma traced_simps [simp]:
  "list_group (runtime (traced R)) g = noting (Listed g) (list_group (runtime R) g)"
  "inspect (runtime (traced R)) p = noting (Inspected p) (inspect (runtime R) p)"
  "signal_group (runtime (traced R)) g n = noting (Signalled g n) (signal_group (runtime R) g n)"
  "terminate_grace_seconds (traced R) = terminate_grace_seconds R"
  "poll_interval_seconds (traced R) = poll_interval_seconds R"
  "own_process_id (traced R) = own_process_id R"
  "own_process_group_id (traced R) = own_process_group_id R"
  "own_user_id (traced R) = own_user_id R" "error_text (traced R) = error_text R"
  "sleeper (traced R) d (k, l) = (sleeper R d k, l)"
  "monotonic (traced R) (k, l) = (fst (monotonic R k), (snd (monotonic R k), l @ [Clock (fst (monotonic R k))]))"
  "protected (traced R) b = protected R b"
  by (simp_all add: traced_def traced_runtime_def protected_def split: prod.split)

lemma noting_pair [simp]:
  "noting event m (k, l) = (fst (m k), (snd (m k), l @ [event (fst (m k))]))"
  by (simp add: noting_def split: prod.split)

section \<open>Noting changes nothing\<close>

text \<open>\<open>shadows n m\<close>: the run \<open>n\<close> is \<open>m\<close> with a log on the side.\<close>

definition shadows :: "('k \<times> os_event list, 'a) run \<Rightarrow> ('k, 'a) run \<Rightarrow> bool" where
  "shadows n m \<longleftrightarrow>
     (\<forall>k l. map_option (\<lambda>(r, s). (r, fst s)) (n (k, l)) = m k)"

lemma shadowsI: "(\<And>k l. map_option (\<lambda>(r, s). (r, fst s)) (n (k, l)) = m k) \<Longrightarrow> shadows n m"
  by (simp add: shadows_def)

lemma shadows_return: "shadows (return x) (return x)"
  by (simp add: shadows_def return_def)

lemma shadows_perform:
  "(\<And>x. shadows (f x) (g x)) \<Longrightarrow> shadows (perform (noting event m) f) (perform m g)"
  by (simp add: shadows_def perform_def split: prod.splits sum.splits)

lemma shadows_signal:
  "(\<And>x. shadows (f x) (g x))
   \<Longrightarrow> shadows (perform (signal_unless_gone (traced R) pgid n) f)
         (perform (signal_unless_gone R pgid n) g)"
  by (auto simp: shadows_def perform_def signal_unless_gone_def split: prod.splits sum.splits)

lemma shadows_if:
  "shadows n m \<Longrightarrow> shadows n' m' \<Longrightarrow> shadows (if c then n else n') (if c then m else m')"
  by simp

lemma shadows_option:
  "shadows n m \<Longrightarrow> (\<And>x. shadows (n' x) (m' x))
   \<Longrightarrow> shadows (case v of None \<Rightarrow> n | Some x \<Rightarrow> n' x) (case v of None \<Rightarrow> m | Some x \<Rightarrow> m' x)"
  by (cases v) simp_all

lemma shadows_upon:
  assumes n: "shadows n m" and f: "\<And>x. shadows (f x) (g x)"
  shows "shadows (upon n f) (upon m g)"
proof (rule shadowsI)
  fix k l
  show "map_option (\<lambda>(r, s). (r, fst s)) (upon n f (k, l)) = upon m g k"
  proof (cases "n (k, l)")
    case None
    with n have "m k = None" unfolding shadows_def by (metis option.map_disc_iff)
    with None show ?thesis by (simp add: upon_def)
  next
    case (Some p)
    obtain r k' l' where p: "n (k, l) = Some (r, (k', l'))" using Some by (cases p) auto
    have "map_option (\<lambda>(r, s). (r, fst s)) (n (k, l)) = m k" using n by (simp add: shadows_def)
    then have m: "m k = Some (r, k')" by (simp add: p)
    show ?thesis
      using f by (cases r) (simp_all add: upon_def p m shadows_def)
  qed
qed

lemma await_exit_traced:
  assumes "await_exit (traced R) g d s = Some p"
  shows "await_exit R g d (fst s) = Some (fst p, fst (snd p))"
  using assms
proof (induction rule: await_exit_induct)
  case (again s x s1 now s2 p)
  obtain k l where "s = (k, l)" by (cases s)
  with again show ?case by (subst await_exit.simps) (auto split: prod.splits sum.splits)
qed (subst await_exit.simps; auto simp: noting_def split: prod.splits)+

lemma traced_await_exit:
  assumes "await_exit R g d k = Some p"
  shows "\<exists>l'. await_exit (traced R) g d (k, l) = Some (fst p, (snd p, l'))"
  using assms
proof (induction arbitrary: l rule: await_exit_induct)
  case (again k x k1 now k2 p)
  then show ?case by (subst await_exit.simps) (auto split: sum.splits)
qed (subst await_exit.simps; auto)+

lemma shadows_wait: "shadows (wait_for_group_exit (traced R) g) (wait_for_group_exit R g)"
proof (rule shadowsI)
  fix k l
  obtain now k1 where k1: "monotonic R k = (now, k1)" by (cases "monotonic R k")
  let ?d = "now + terminate_grace_seconds R"
  show "map_option (\<lambda>(r, s). (r, fst s)) (wait_for_group_exit (traced R) g (k, l))
      = wait_for_group_exit R g k"
  proof (cases "await_exit R g ?d k1")
    case None
    then have "await_exit (traced R) g ?d (k1, l @ [Clock now]) = None"
      using await_exit_traced [of R g ?d "(k1, l @ [Clock now])"]
      by (cases "await_exit (traced R) g ?d (k1, l @ [Clock now])") auto
    with None show ?thesis by (simp add: wait_for_group_exit_def k1)
  next
    case (Some p)
    then show ?thesis
      using traced_await_exit [OF Some, of "l @ [Clock now]"] by (auto simp: wait_for_group_exit_def k1)
  qed
qed

lemmas shadow_intros =
  shadows_return shadows_perform shadows_signal shadows_upon shadows_wait

lemma shadows_reconcile: "shadows (reconcile (traced R) b) (reconcile R b)"
proof -
  have kill: "shadows (kill_group (traced R) b i ms) (kill_group R b i ms)" for i ms
    unfolding kill_group_def traced_simps by (intro shadow_intros shadows_if)
  have term_: "shadows (terminate_group (traced R) b i) (terminate_group R b i)" for i
    unfolding terminate_group_def traced_simps by (intro shadow_intros shadows_if kill)
  have all: "shadows (reconcile_observed (traced R) b i) (reconcile_observed R b i)" for i
    unfolding reconcile_observed_def traced_simps
    by (intro shadow_intros shadows_if shadows_option term_)
  have closed: "shadows (fail_closed (traced R) b n) (fail_closed R b m)" if "shadows n m" for n m
  proof (rule shadowsI)
    fix k l
    have m: "m k = map_option (\<lambda>(r, s). (r, fst s)) (n (k, l))"
      using that by (simp add: shadows_def)
    show "map_option (\<lambda>(r, s). (r, fst s)) (fail_closed (traced R) b n (k, l)) = fail_closed R b m k"
      unfolding fail_closed_def m by (auto split: option.splits sum.splits)
  qed
  show ?thesis
    unfolding reconcile_def traced_simps
    by (intro shadow_intros shadows_if shadows_option closed all)
qed

text \<open>So whatever a traced run shows of its calls is true of the run without the log.\<close>

lemma traced_same:
  assumes "reconcile R b k = Some (r, k')"
  shows "\<exists>log. reconcile (traced R) b (k, []) = Some (r, (k', log))"
proof -
  have "map_option (\<lambda>(r, s). (r, fst s)) (reconcile (traced R) b (k, [])) = Some (r, k')"
    using shadows_reconcile [of R b] assms by (simp add: shadows_def)
  then show ?thesis by auto
qed

section \<open>Taking a traced run apart\<close>

text \<open>\<open>shows_run Q m s\<close>: when the run returns, its outcome and its log satisfy \<open>Q\<close>.\<close>

definition shows_run ::
    "(runtime_error + 'a \<Rightarrow> os_event list \<Rightarrow> bool) \<Rightarrow> ('k \<times> os_event list, 'a) run
     \<Rightarrow> 'k \<times> os_event list \<Rightarrow> bool" where
  "shows_run Q m s \<longleftrightarrow> (\<forall>r k' l'. m s = Some (r, (k', l')) \<longrightarrow> Q r l')"

lemma shows_runD: "shows_run Q m s \<Longrightarrow> m s = Some (r, (k', l')) \<Longrightarrow> Q r l'"
  by (simp add: shows_run_def)

text \<open>The calls of a wait: listings of the group and readings of the clock.\<close>

fun is_watch :: "int \<Rightarrow> os_event \<Rightarrow> bool" where
  "is_watch g (Listed h _) \<longleftrightarrow> h = g"
| "is_watch g (Clock _) \<longleftrightarrow> True"
| "is_watch g _ \<longleftrightarrow> False"

definition watches :: "int \<Rightarrow> os_event list \<Rightarrow> bool" where
  "watches g l \<longleftrightarrow> (\<forall>e \<in> set l. is_watch g e)"

fun is_signal :: "os_event \<Rightarrow> bool" where
  "is_signal (Signalled _ _ _) = True"
| "is_signal _ = False"

definition no_signal :: "os_event list \<Rightarrow> bool" where
  "no_signal l \<longleftrightarrow> (\<forall>e \<in> set l. \<not> is_signal e)"

lemma watches_simps [simp]:
  "watches g []" "watches g (e # l) \<longleftrightarrow> is_watch g e \<and> watches g l"
  "watches g (l @ l') \<longleftrightarrow> watches g l \<and> watches g l'"
  by (auto simp: watches_def)

lemma watch_no_signal: "is_watch g e \<Longrightarrow> \<not> is_signal e"
  by (cases e) simp_all

lemma no_signal_simps [simp]:
  "no_signal []" "no_signal (e # l) \<longleftrightarrow> \<not> is_signal e \<and> no_signal l"
  "no_signal (l @ l') \<longleftrightarrow> no_signal l \<and> no_signal l'" "watches g l \<Longrightarrow> no_signal l"
  by (auto simp: no_signal_def watches_def dest: watch_no_signal)

definition observed_empty :: "int \<Rightarrow> os_event list \<Rightarrow> bool" where
  "observed_empty g l \<longleftrightarrow> (\<exists>l'. l = l' @ [Listed g (Inr [])])"

text \<open>
  A wait that ran out: the clock was read, the group was watched, and the last listing showed a
  member, after which the clock had moved by the whole grace period.
\<close>

definition seen_until :: "int \<Rightarrow> int \<Rightarrow> os_event list \<Rightarrow> bool" where
  "seen_until deadline g w \<longleftrightarrow>
     (\<exists>u ms stop. w = u @ [Listed g (Inr ms), Clock stop] \<and> watches g u \<and> ms \<noteq> [] \<and> deadline \<le> stop)"

definition waited_out :: "int \<Rightarrow> int \<Rightarrow> os_event list \<Rightarrow> bool" where
  "waited_out grace g w \<longleftrightarrow> (\<exists>start w'. w = Clock start # w' \<and> seen_until (start + grace) g w')"

lemma seen_until_Cons: "is_watch g e \<Longrightarrow> seen_until d g w \<Longrightarrow> seen_until d g (e # w)"
  unfolding seen_until_def by (metis append_Cons watches_simps(2))

lemma await_exit_shows:
  assumes "await_exit (traced R) g d s = Some p"
  shows "\<exists>w. snd (snd p) = snd s @ w \<and> watches g w \<and> (fst p = Inr True \<longrightarrow> observed_empty g w)
    \<and> (fst p = Inr False \<longrightarrow> seen_until d g w)"
  using assms
proof (induction rule: await_exit_induct)
  case (again s x s1 now s2 p)
  obtain k l where s: "s = (k, l)" by (cases s)
  have s1: "snd s1 = l @ [Listed g x]" "snd s2 = snd s1 @ [Clock now]"
    using again(1,3) unfolding s by (cases s1; auto)+
  obtain w where w: "snd (snd p) = (l @ [Listed g x, Clock now]) @ w" "watches g w"
      "fst p = Inr True \<longrightarrow> observed_empty g w" "fst p = Inr False \<longrightarrow> seen_until d g w"
    using again.IH s1 by (cases s2) auto
  then show ?case
    by (intro exI [of _ "Listed g x # Clock now # w"])
      (auto simp: s observed_empty_def intro!: seen_until_Cons)
next
  case (remained s ms s1 now s2)
  then show ?case
    by (cases s; cases s1) (auto simp: seen_until_def)
qed (auto simp: noting_def observed_empty_def split: prod.splits)

lemma shows_return: "Q (Inr x) l \<Longrightarrow> shows_run Q (return x) (k, l)"
  by (simp add: shows_run_def return_def)

lemma shows_perform:
  assumes "\<And>e. Q (Inl e) (l @ [event (Inl e)])"
    and "\<And>x k'. shows_run Q (f x) (k', l @ [event (Inr x)])"
  shows "shows_run Q (perform (noting event m) f) (k, l)"
  using assms by (auto simp: shows_run_def perform_def split: prod.splits sum.splits)

lemma shows_signal:
  assumes "\<And>e. Q (Inl e) (l @ [Signalled g n (Inl e)])"
    and "\<And>x k'. shows_run Q (f ()) (k', l @ [Signalled g n x])"
  shows "shows_run Q (perform (signal_unless_gone (traced R) g n) f) (k, l)"
  using assms
  by (auto simp: shows_run_def perform_def signal_unless_gone_def
      split: prod.splits sum.splits if_splits)

lemma shows_wait:
  assumes e: "\<And>e w. watches g w \<Longrightarrow> Q (Inl e) (l @ w)"
    and gone: "\<And>w k'. watches g w \<Longrightarrow> observed_empty g w \<Longrightarrow> shows_run Q (f True) (k', l @ w)"
    and out: "\<And>w k'. watches g w \<Longrightarrow> waited_out (terminate_grace_seconds R) g w
        \<Longrightarrow> shows_run Q (f False) (k', l @ w)"
  shows "shows_run Q (upon (wait_for_group_exit (traced R) g) f) (k, l)"
  unfolding shows_run_def
proof (intro allI impI)
  fix r k' l'
  assume run: "upon (wait_for_group_exit (traced R) g) f (k, l) = Some (r, (k', l'))"
  then obtain p where p: "wait_for_group_exit (traced R) g (k, l) = Some p"
    by (auto simp: upon_def split: option.splits)
  let ?start = "fst (monotonic R k)"
  obtain w' where w': "snd (snd p) = (l @ [Clock ?start]) @ w'" "watches g w'"
      "fst p = Inr True \<longrightarrow> observed_empty g w'"
      "fst p = Inr False \<longrightarrow> seen_until (?start + terminate_grace_seconds R) g w'"
    using await_exit_shows [OF p [unfolded wait_for_group_exit_def traced_simps prod.case]]
    by auto
  define w where "w = Clock ?start # w'"
  have w: "snd (snd p) = l @ w" "watches g w" "fst p = Inr True \<longrightarrow> observed_empty g w"
      "fst p = Inr False \<longrightarrow> waited_out (terminate_grace_seconds R) g w"
    using w' unfolding w_def waited_out_def observed_empty_def by auto
  show "Q r l'"
  proof (cases "fst p")
    case (Inl err)
    then show ?thesis
      using run e [OF w(2)] w(1) by (cases p) (auto simp: upon_def p)
  next
    case (Inr x)
    have "shows_run Q (f x) (fst (snd p), l @ w)"
      using Inr w(3,4) gone [OF w(2)] out [OF w(2)] by (cases x) simp_all
    with Inr run w(1) show ?thesis
      by (cases p) (auto simp: upon_def p shows_run_def)
  qed
qed

lemma shows_if:
  "(c \<Longrightarrow> shows_run Q m s) \<Longrightarrow> (\<not> c \<Longrightarrow> shows_run Q n s) \<Longrightarrow> shows_run Q (if c then m else n) s"
  by simp

lemma shows_fail_closed:
  assumes "shows_run (\<lambda>r l. Q (case r of Inl e \<Rightarrow>
      if os_error e \<or> inspection_error e \<or> e = InvalidValue
      then Inr (quarantine b (''process inspection or signaling failed: '' @ error_text R e) [])
      else Inl e | Inr x \<Rightarrow> Inr x) l) m s"
  shows "shows_run Q (fail_closed (traced R) b m) s"
  using assms by (fastforce simp: shows_run_def fail_closed_def split: option.splits sum.splits if_splits)

lemmas shows_intros = shows_return shows_perform shows_signal shows_wait shows_if

end
