(* ===== verification/Signalling.thy ===== *)
theory Signalling
  imports Watching
begin

text \<open>
  What the reconciler promises: which processes it may signal and in which order, when it may
  report a group as gone or terminated, and that it fails closed.  The laws of a runtime that
  these rest on are the locale \<open>group_runtime\<close>, interpreted on both runtimes of the program.
\<close>

section \<open>Lawful logs\<close>

text \<open>
  After a \<open>SIGTERM\<close> that was not enough: nothing is signalled, or the group is listed once more,
  every member of it is one of \<open>original\<close>, the launcher is found unchanged and only then the group
  is sent \<open>SIGKILL\<close>.  Between the two signals stands the wait \<open>waited_out\<close>: the clock moved by the
  whole grace period while the group was watched, and its last listing still showed a member.
\<close>

definition lawful_kill ::
    "process_binding \<Rightarrow> kernel_identity \<Rightarrow> kernel_identity list \<Rightarrow> os_event list \<Rightarrow> bool" where
  "lawful_kill b expected original l \<longleftrightarrow> no_signal l
     \<or> (\<exists>remaining y w.
          l = [Listed (pb_process_group_id b) (Inr remaining),
               Inspected (pb_process_id b) (Inr (Some expected)),
               Signalled (pb_process_group_id b) sigkill y] @ w
          \<and> remaining \<noteq> [] \<and> set remaining \<subseteq> set original \<and> no_signal w)"

definition lawful_term ::
    "int \<Rightarrow> process_binding \<Rightarrow> kernel_identity \<Rightarrow> os_event list \<Rightarrow> bool" where
  "lawful_term grace b expected l \<longleftrightarrow> no_signal l
     \<or> (\<exists>original x l'.
          l = [Listed (pb_process_group_id b) (Inr original),
               Inspected (pb_process_id b) (Inr (Some expected)),
               Signalled (pb_process_group_id b) sigterm x] @ l'
          \<and> expected \<in> set original
          \<and> (no_signal l'
             \<or> (\<exists>w l''. l' = w @ l'' \<and> waited_out grace (pb_process_group_id b) w
                   \<and> lawful_kill b expected original l'')))"

definition lawful :: "'k reconciler \<Rightarrow> process_binding \<Rightarrow> os_event list \<Rightarrow> bool" where
  "lawful R b l \<longleftrightarrow> no_signal l
     \<or> (\<exists>expected l'.
          expected_identity b = Some expected \<and> ki_user_id expected = own_user_id R
          \<and> \<not> protected R b \<and> pb_identity_version b = DarwinLibprocV1
          \<and> l = Inspected (pb_process_id b) (Inr (Some expected)) # l'
          \<and> lawful_term (terminate_grace_seconds R) b expected l')"

text \<open>
  \<open>outcome b l r\<close>: the result is about \<open>b\<close>; a group that is reported as gone was never signalled, one
  that is reported as terminated was, and of both the last thing seen was an empty listing.
\<close>

definition outcome :: "process_binding \<Rightarrow> os_event list \<Rightarrow> reconciliation_result \<Rightarrow> bool" where
  "outcome b l r \<longleftrightarrow> rr_binding r = b
     \<and> (can_release r \<longrightarrow> observed_empty (pb_process_group_id b) l)
     \<and> (rr_status r = Gone \<longrightarrow> no_signal l)
     \<and> (rr_status r = Terminated \<longrightarrow> (\<exists>x. Signalled (pb_process_group_id b) sigterm x \<in> set l))"

lemma by_pid_SomeD: "by_pid ms p = Some i \<Longrightarrow> i \<in> set ms"
  by (auto simp: by_pid_def dest!: map_of_SomeD)

lemma verified_subset: "is_verified_subset ms (by_pid original) \<Longrightarrow> ms \<noteq> [] \<and> set ms \<subseteq> set original"
  by (auto simp: is_verified_subset_def list_all_iff dest!: by_pid_SomeD)

lemma outcome_quarantine [simp]: "outcome b l (quarantine b reason observed)"
  by (simp add: outcome_def quarantine_def can_release_def)

lemma outcome_released:
  "outcome b l (released b status reason observed) \<longleftrightarrow>
     (status \<noteq> Quarantined \<longrightarrow> observed_empty (pb_process_group_id b) l)
     \<and> (status = Gone \<longrightarrow> no_signal l)
     \<and> (status = Terminated \<longrightarrow> (\<exists>x. Signalled (pb_process_group_id b) sigterm x \<in> set l))"
  by (cases status) (simp_all add: outcome_def released_def can_release_def)

lemma observed_empty_append [simp]:
  "observed_empty g w \<Longrightarrow> observed_empty g (l @ w)"
  "observed_empty g w \<Longrightarrow> observed_empty g (e # w)"
  by (force simp: observed_empty_def)+

lemma observed_empty_listed [simp]:
  "observed_empty g [Listed g (Inr [])]" "observed_empty g (l @ [Listed g (Inr [])])"
  by (auto simp: observed_empty_def)

lemma kill_group_shows:
  assumes "Signalled (pb_process_group_id b) sigterm x \<in> set l"
  shows "shows_run (\<lambda>r l'. (\<exists>d. l' = l @ d \<and> lawful_kill b i original d)
      \<and> (\<forall>res. r = Inr res \<longrightarrow> outcome b l' res)) (kill_group (traced R) b i original) (k, l)"
  unfolding kill_group_def traced_simps
  using assms
  by (intro shows_intros conjI; (auto simp: lawful_kill_def outcome_released dest: verified_subset)?)

lemma shows_mono:
  "shows_run Q m s \<Longrightarrow> (\<And>r l. Q r l \<Longrightarrow> Q' r l) \<Longrightarrow> shows_run Q' m s"
  by (simp add: shows_run_def)

lemma lawful_termI:
  assumes "i \<in> set original" "waited_out grace (pb_process_group_id b) w" "lawful_kill b i original l"
  shows "lawful_term grace b i (Listed (pb_process_group_id b) (Inr original)
      # Inspected (pb_process_id b) (Inr (Some i))
      # Signalled (pb_process_group_id b) sigterm x # w @ l)"
  using assms unfolding lawful_term_def by auto

lemma lawful_term_quiet:
  assumes "i \<in> set original" "no_signal l"
  shows "lawful_term grace b i (Listed (pb_process_group_id b) (Inr original)
      # Inspected (pb_process_id b) (Inr (Some i))
      # Signalled (pb_process_group_id b) sigterm x # l)"
  using assms unfolding lawful_term_def by auto

lemma lawful_kill_none [simp]: "no_signal l \<Longrightarrow> lawful_kill b i original l"
  by (simp add: lawful_kill_def)

lemma lawful_term_none [simp]: "no_signal l \<Longrightarrow> lawful_term grace b i l"
  by (simp add: lawful_term_def)

lemma terminate_group_shows:
  "shows_run (\<lambda>r l'. (\<exists>d. l' = l @ d \<and> lawful_term (terminate_grace_seconds R) b i d)
      \<and> (\<forall>res. r = Inr res \<longrightarrow> outcome b l' res)) (terminate_group (traced R) b i) (k, l)"
  (is "shows_run ?Q _ _")
proof -
  have kill: "shows_run ?Q (kill_group (traced R) b i original) (k', (((l
      @ [Listed (pb_process_group_id b) (Inr original)])
      @ [Inspected (pb_process_id b) (Inr found)])
      @ [Signalled (pb_process_group_id b) sigterm y]) @ w)"
    if "\<not> by_pid original (pb_process_id b) \<noteq> Some i" "\<not> found \<noteq> Some i"
      "waited_out (terminate_grace_seconds R) (pb_process_group_id b) w" for original found k' y w
    by (rule shows_mono, rule kill_group_shows [where x = y])
      (use that in \<open>auto intro!: lawful_termI dest: by_pid_SomeD\<close>)
  show ?thesis
    unfolding terminate_group_def traced_simps
    by (intro shows_intros conjI; (rule kill; assumption)?;
        (auto intro!: lawful_term_quiet
           simp: outcome_released dest: by_pid_SomeD)?)
qed

lemma reconcile_shows:
  "shows_run (\<lambda>r l. lawful R b l \<and> (\<forall>res. r = Inr res \<longrightarrow> outcome b l res))
     (reconcile (traced R) b) (k, [])"
  (is "shows_run ?Q _ _")
proof -
  have none: "?Q (Inr (quarantine b reason observed)) []" for reason observed
    by (simp add: lawful_def)
  have terminate: "shows_run (\<lambda>r l. (no_signal l \<or> (\<exists>l'. l = Inspected (pb_process_id b) (Inr (Some i)) # l'
        \<and> lawful_term (terminate_grace_seconds R) b i l')) \<and> (\<forall>res. r = Inr res \<longrightarrow> outcome b l res))
      (reconcile_observed (traced R) b i) (k, [])" (is "shows_run ?P _ _") for i
  proof -
    have "shows_run ?P (terminate_group (traced R) b i)
        (k', [] @ [Inspected (pb_process_id b) (Inr (Some i))])" for k'
      by (rule shows_mono, rule terminate_group_shows) auto
    then show ?thesis
      unfolding reconcile_observed_def traced_simps fingerprint_inject
      by (intro shows_perform) (auto split: option.split intro!: shows_intros simp: outcome_released)
  qed
  show ?thesis
    unfolding reconcile_def traced_simps
  proof (rule shows_if, rule shows_return, rule none,
      split option.split, intro conjI allI impI; (rule shows_return, rule none)?;
      intro shows_if; (rule shows_return, rule none)?)
    fix expected
    assume *: "\<not> protected R b" "expected_identity b = Some expected"
      "\<not> (pb_identity_version b \<noteq> DarwinLibprocV1 \<or> pb_target_executable b \<in> {None, Some []})"
      "\<not> ki_user_id expected \<noteq> own_user_id R"
    show "shows_run ?Q (fail_closed (traced R) b (reconcile_observed (traced R) b expected)) (k, [])"
      by (rule shows_fail_closed, rule shows_mono, rule terminate [of expected])
        (use * in \<open>auto simp: lawful_def split: sum.split\<close>)
  qed
qed

section \<open>The log is what the runtime answered\<close>

fun genuine :: "'k process_runtime \<Rightarrow> os_event \<Rightarrow> bool" where
  "genuine rt (Inspected p x) \<longleftrightarrow> x \<in> range (\<lambda>k. fst (inspect rt p k))"
| "genuine rt (Listed g x) \<longleftrightarrow> x \<in> range (\<lambda>k. fst (list_group rt g k))"
| "genuine rt (Signalled g n x) \<longleftrightarrow> x \<in> range (\<lambda>k. fst (signal_group rt g n k))"
| "genuine rt (Clock _) \<longleftrightarrow> True"

lemma listed_range:
  "list_group rt g k = (x, k') \<Longrightarrow> x \<in> range (\<lambda>k. fst (list_group rt g k))"
  by (rule range_eqI [of _ _ k]) simp

definition notes_genuine ::
    "'k process_runtime \<Rightarrow> ('k \<times> os_event list, 'a) run \<Rightarrow> bool" where
  "notes_genuine rt m \<longleftrightarrow>
     (\<forall>s r s'. (\<forall>e \<in> set (snd s). genuine rt e) \<longrightarrow> m s = Some (r, s')
        \<longrightarrow> (\<forall>e \<in> set (snd s'). genuine rt e))"

lemma genuine_return: "notes_genuine rt (return x)"
  by (simp add: notes_genuine_def return_def)

lemma genuine_perform:
  assumes e: "\<And>k. genuine rt (event (fst (m k)))" and f: "\<And>x. notes_genuine rt (f x)"
  shows "notes_genuine rt (perform (noting event m) f)"
  unfolding notes_genuine_def
proof (intro allI impI)
  fix s r s'
  assume s: "\<forall>e \<in> set (snd s). genuine rt e" and run: "perform (noting event m) f s = Some (r, s')"
  let ?s = "(snd (m (fst s)), snd s @ [event (fst (m (fst s)))])"
  have "s' = ?s \<or> (\<exists>x. f x ?s = Some (r, s'))"
    using run by (cases s) (auto simp: perform_def split: prod.splits sum.splits)
  moreover have "\<forall>e \<in> set (snd ?s). genuine rt e" using s e by auto
  ultimately show "\<forall>e \<in> set (snd s'). genuine rt e"
    using f [unfolded notes_genuine_def] by blast
qed

lemma genuine_signal:
  assumes "\<And>x. notes_genuine (runtime R) (f x)"
  shows "notes_genuine (runtime R) (perform (signal_unless_gone (traced R) g n) f)"
  unfolding notes_genuine_def
proof (intro allI impI)
  fix s r s'
  assume s: "\<forall>e \<in> set (snd s). genuine (runtime R) e"
    and run: "perform (signal_unless_gone (traced R) g n) f s = Some (r, s')"
  obtain k l where kl: "s = (k, l)" by (cases s)
  obtain x k1 where x: "signal_group (runtime R) g n k = (x, k1)" by (cases "signal_group (runtime R) g n k")
  let ?s = "(k1, l @ [Signalled g n x])"
  have "genuine (runtime R) (Signalled g n (fst (signal_group (runtime R) g n k)))" by simp
  then have here: "\<forall>e \<in> set (snd ?s). genuine (runtime R) e"
    using s unfolding kl x by auto
  have "s' = ?s \<or> f () ?s = Some (r, s')"
    using run unfolding kl
    by (cases x) (auto simp: perform_def signal_unless_gone_def x split: if_splits)
  then show "\<forall>e \<in> set (snd s'). genuine (runtime R) e"
    using here assms [unfolded notes_genuine_def] by blast
qed

lemma genuine_upon:
  assumes m: "notes_genuine rt m" and f: "\<And>x. notes_genuine rt (f x)"
  shows "notes_genuine rt (upon m f)"
  unfolding notes_genuine_def
proof (intro allI impI)
  fix s r s'
  assume s: "\<forall>e \<in> set (snd s). genuine rt e" and run: "upon m f s = Some (r, s')"
  then obtain r1 s1 where m1: "m s = Some (r1, s1)" by (auto simp: upon_def split: option.splits)
  have s1: "\<forall>e \<in> set (snd s1). genuine rt e" using m s m1 unfolding notes_genuine_def by blast
  have "s' = s1 \<or> (\<exists>x. f x s1 = Some (r, s'))"
    using run by (cases r1) (auto simp: upon_def m1)
  then show "\<forall>e \<in> set (snd s'). genuine rt e" using s1 f [unfolded notes_genuine_def] by blast
qed

lemma genuine_await:
  assumes "await_exit (traced R) g d s = Some p" "\<forall>e \<in> set (snd s). genuine (runtime R) e"
  shows "\<forall>e \<in> set (snd (snd p)). genuine (runtime R) e"
  using assms
proof (induction rule: await_exit_induct)
  case (again s x s1 now s2 p)
  obtain k l where s: "s = (k, l)" by (cases s)
  have "snd s2 = l @ [Listed g (fst (list_group (runtime R) g k)), Clock now]"
    using again(1,3) unfolding s by (cases s1) auto
  then have "\<forall>e \<in> set (snd s2). genuine (runtime R) e" using again.prems unfolding s by auto
  then show ?case by (intro again.IH) (cases s2; simp)
qed (auto simp: noting_def intro!: listed_range split: prod.splits)

lemma genuine_wait: "notes_genuine (runtime R) (wait_for_group_exit (traced R) g)"
  unfolding notes_genuine_def wait_for_group_exit_def
proof (intro allI impI)
  fix s r s'
  assume s: "\<forall>e \<in> set (snd s). genuine (runtime R) e"
    and run: "(case monotonic (traced R) s of (now, k1) \<Rightarrow>
        await_exit (traced R) g (now + terminate_grace_seconds (traced R)) k1) = Some (r, s')"
  obtain k l where kl: "s = (k, l)" by (cases s)
  have "await_exit (traced R) g (fst (monotonic R k) + terminate_grace_seconds R)
      (snd (monotonic R k), l @ [Clock (fst (monotonic R k))]) = Some (r, s')"
    using run by (simp add: kl)
  from genuine_await [OF this] s show "\<forall>e \<in> set (snd s'). genuine (runtime R) e"
    by (simp add: kl)
qed

lemma genuine_if:
  "notes_genuine rt m \<Longrightarrow> notes_genuine rt n \<Longrightarrow> notes_genuine rt (if c then m else n)"
  by simp

lemma genuine_option:
  "notes_genuine rt m \<Longrightarrow> (\<And>x. notes_genuine rt (n x))
   \<Longrightarrow> notes_genuine rt (case v of None \<Rightarrow> m | Some x \<Rightarrow> n x)"
  by (cases v) simp_all

lemma genuine_call [simp]:
  "genuine rt (Inspected p (fst (inspect rt p k)))" "genuine rt (Listed g (fst (list_group rt g k)))"
  by simp_all

lemmas genuine_intros =
  genuine_return genuine_perform genuine_signal genuine_upon genuine_wait genuine_if genuine_option
  genuine_call

lemma reconcile_genuine: "notes_genuine (runtime R) (reconcile (traced R) b)"
proof -
  have kill: "notes_genuine (runtime R) (kill_group (traced R) b i ms)" for i ms
    unfolding kill_group_def traced_simps by (intro genuine_intros)
  have terminate: "notes_genuine (runtime R) (terminate_group (traced R) b i)" for i
    unfolding terminate_group_def traced_simps by (intro genuine_intros kill)
  have all: "notes_genuine (runtime R) (reconcile_observed (traced R) b i)" for i
    unfolding reconcile_observed_def traced_simps by (intro genuine_intros terminate)
  have closed: "notes_genuine (runtime R) (fail_closed (traced R) b m)"
    if "notes_genuine (runtime R) m" for m
    using that unfolding notes_genuine_def fail_closed_def
    by (fastforce split: option.splits sum.splits if_splits)
  show ?thesis
    unfolding reconcile_def traced_simps by (intro genuine_intros closed all)
qed

end
