(* ===== verification/Launcher.thy ===== *)
theory Launcher
  imports Reconciling
begin

text \<open>
  One machine to run the reconciler on: a launcher with process id and group 500 that ignores
  \<open>SIGTERM\<close> and dies of \<open>SIGKILL\<close>.  Its state is whether the launcher lives and what time it is.
\<close>

definition launcher_info :: proc_bsd_info where
  "launcher_info =
     \<lparr>pbi_flags = 0, pbi_status = 2, pbi_xstatus = 0, pbi_pid = 500, pbi_ppid = 1, pbi_uid = 501,
      pbi_gid = 20, pbi_ruid = 501, pbi_rgid = 20, pbi_svuid = 501, pbi_svgid = 20, rfu_1 = 0,
      pbi_comm = ''sh'', pbi_name = ''sh'', pbi_nfiles = 3, pbi_pgid = 500, pbi_pjobc = 0,
      e_tdev = 0, e_tpgid = 0, pbi_nice = 0, pbi_start_tvsec = 1000, pbi_start_tvusec = 5\<rparr>"

definition stubborn_kernel :: "(bool \<times> int) kernel" where
  "stubborn_kernel =
     \<lparr>proc_pidinfo = (\<lambda>pid flavor arg bytes k.
        (if fst k \<and> pid = 500 then (136, 0, launcher_info) else (0, 3, launcher_info), k)),
      proc_pidpath = (\<lambda>pid bytes k. (if fst k then (7, 0, Some ''/bin/sh'') else (0, 3, None), k)),
      proc_listpgrppids = (\<lambda>pgid bytes k. (if fst k then (1, 0, [500]) else (0, 3, []), k)),
      kernel_kill = (\<lambda>pid number k. (if fst k \<and> pid = 500 then Inr () else Inl ProcessLookupError, k)),
      kernel_killpg = (\<lambda>pgid number k.
        if fst k then (Inr (), (number \<noteq> 9, snd k)) else (Inl ProcessLookupError, k)),
      resolve_path = (\<lambda>path k. (Inr path, k))\<rparr>"

definition supervisor :: "(bool \<times> int) reconciler" where
  "supervisor =
     \<lparr>runtime = darwin_runtime stubborn_kernel, terminate_grace_seconds = 36,
      poll_interval_seconds = 18, sleeper = (\<lambda>d k. (fst k, snd k + d)), monotonic = (\<lambda>k. (snd k, k)),
      own_process_id = 77, own_process_group_id = 77, own_user_id = 501,
      error_text = (\<lambda>_. ''error'')\<rparr>"

definition launcher_binding :: process_binding where
  "launcher_binding =
     \<lparr>pb_job_id = ''j1'', pb_attempt_id = ''a1'', pb_process_id = 500, pb_process_group_id = 500,
      pb_user_id = Some 501, pb_executable = Some ''/bin/sh'', pb_start_seconds = Some 1000,
      pb_start_microseconds = Some 5, pb_target_executable = Some ''/bin/run'',
      pb_identity_version = DarwinLibprocV1\<rparr>"

lemma supervisor_kills:
  "reconcile supervisor launcher_binding (True, 0)
     = Some (Inr (released launcher_binding Terminated
         ''verified process group exited after SIGKILL'' []), (False, 36))"
  by code_simp

lemma supervisor_valid: "external_process_reconciler supervisor = Inr supervisor"
  by (simp add: external_process_reconciler_def supervisor_def)

text \<open>A process id that is no C \<open>int\<close> is looked up by its low bits, and its absence cannot be probed.\<close>

definition wide_binding :: process_binding where
  "wide_binding = launcher_binding\<lparr>pb_process_id := 2 ^ 32 + 7, pb_process_group_id := 2 ^ 32 + 7\<rparr>"

lemma supervisor_overflows:
  "reconcile supervisor wide_binding (True, 0) = Some (Inl IntegerTooLarge, (True, 0))"
  by code_simp

end
