(* ===== verification/Verdicts.thy ===== *)
theory Verdicts
  imports Signalling Launcher
begin

text \<open>
  The promises of the reconciler as properties: it signals nothing but the verified group, it
  releases nothing but a group seen empty, it fails closed, it returns when the clock advances
  and it returns before the lease of its claim expires when the calls of the system are prompt.
\<close>

section \<open>The contract of a runtime\<close>

text \<open>
  A listing shows members of the listed group only, and no call of a runtime raises what the
  reconciler does not know, but for the two exceptions of Python's wrappers it does not catch.
\<close>

locale group_runtime =
  fixes rt :: "'k process_runtime"
  assumes members: "list_group rt g k = (Inr ms, k') \<Longrightarrow> i \<in> set ms \<Longrightarrow> ki_process_group_id i = g"
begin

lemma listed_members: "genuine rt (Listed g (Inr ms)) \<Longrightarrow> i \<in> set ms \<Longrightarrow> ki_process_group_id i = g"
  by (auto dest!: sym [of "Inr ms"]) (metis members prod.collapse)

text \<open>Every member of a listing in a log is of the listed group.\<close>

lemma log_members:
  assumes "rt = runtime R" "reconcile (traced R) b (k, []) = Some (r, (k', log))"
    and "Listed g (Inr ms) \<in> set log" "i \<in> set ms"
  shows "ki_process_group_id i = g"
proof -
  have "genuine rt (Listed g (Inr ms))"
    using reconcile_genuine [of R b, unfolded notes_genuine_def, rule_format, of "(k, [])" r "(k', log)"]
      assms by (auto simp del: genuine.simps)
  then show ?thesis using assms(4) by (rule listed_members)
qed

end

lemma inspect_members_group:
  "inspect_members K g pids k = (Inr ms, k') \<Longrightarrow> i \<in> set ms \<Longrightarrow> ki_process_group_id i = g"
proof (induction pids arbitrary: ms k k')
  case (Cons pid pids)
  from Cons.prems(1) obtain found k1 rest k2 where
    rest: "inspect_members K g pids k1 = (Inr rest, k2)"
    and ms: "ms = (case found of None \<Rightarrow> rest
      | Some i \<Rightarrow> if ki_process_group_id i = g then i # rest else rest)"
    by (auto simp: andthen_Inr)
  show ?case
    using Cons.IH [OF rest] Cons.prems(2) unfolding ms by (auto split: option.splits if_splits)
qed simp

lemma list_with_group:
  "list_with K g capacity k = (Inr ms, k') \<Longrightarrow> i \<in> set ms \<Longrightarrow> ki_process_group_id i = g"
proof (induction K g capacity k arbitrary: ms rule: list_with.induct)
  case (1 K g capacity k)
  then show ?case
    by (subst (asm) (2) list_with.simps)
      (auto simp: andthen_Inr split: if_splits prod.splits dest: inspect_members_group)
qed

interpretation darwin: group_runtime "darwin_runtime K" for K
  by unfold_locales
    (auto simp: darwin_runtime_def darwin_list_group_def split: if_splits dest: list_with_group)

interpretation unsupported: group_runtime "unsupported_runtime platform" for platform
  by unfold_locales (auto simp: unsupported_runtime_def Let_def)

lemma local_runtime_members:
  assumes "local_process_runtime platform libproc = Inr (runtime R)"
    and "reconcile (traced R) b (k, []) = Some (r, (k', log))"
    and "Listed g (Inr ms) \<in> set log" "i \<in> set ms"
  shows "ki_process_group_id i = g"
proof -
  from assms(1) consider K where "darwin_runtime K = runtime R"
    | "unsupported_runtime platform = runtime R"
    by (auto simp: local_process_runtime_def split: if_splits option.splits)
  then show ?thesis
    by cases (blast intro: darwin.log_members assms(2-4) unsupported.log_members)+
qed


section \<open>What may be signalled, and what may be released\<close>

text \<open>
  C9.  On every platform the reconciler signals at most the process group of the binding it was
  given, and only when the binding is complete, belongs to the supervisor's user and is neither
  the supervisor's own process or group nor one up to 1.  A run signals nothing, or the kernel
  showed the launcher with exactly the persisted identity, the listing of its group contained it,
  the launcher was found unchanged again and the very next call is \<open>SIGTERM\<close> to that group; and
  \<open>SIGKILL\<close> follows only after the clock has moved by the whole grace period with the group still
  populated at the end of it, a listing all of whose members were in the group before \<open>SIGTERM\<close>,
  and a third look that finds the launcher unchanged.  Every process of those listings
  is a member of the group.
\<close>

theorem only_the_verified_group_is_signalled:
  assumes "local_process_runtime platform libproc = Inr (runtime R)"
    and "reconcile R b k = Some (r, k')"
  shows "\<exists>log. reconcile (traced R) b (k, []) = Some (r, (k', log)) \<and> lawful R b log
    \<and> (\<forall>ms i. Listed (pb_process_group_id b) (Inr ms) \<in> set log \<and> i \<in> set ms
          \<longrightarrow> ki_process_group_id i = pb_process_group_id b)"
proof -
  obtain log where log: "reconcile (traced R) b (k, []) = Some (r, (k', log))"
    using traced_same [OF assms(2)] by blast
  moreover have "lawful R b log" using shows_runD [OF reconcile_shows log] by blast
  ultimately show ?thesis using local_runtime_members [OF assms(1) log] by blast
qed

lemma only_the_verified_group_is_signalled_witness:
  "\<exists>log. reconcile (traced supervisor) launcher_binding ((True, 0), [])
       = Some (Inr (released launcher_binding Terminated
           ''verified process group exited after SIGKILL'' []), ((False, 36), log))
     \<and> lawful supervisor launcher_binding log"
proof -
  have "local_process_runtime ''darwin'' (Some stubborn_kernel) = Inr (runtime supervisor)"
    by (simp add: local_process_runtime_def supervisor_def)
  from only_the_verified_group_is_signalled [OF this supervisor_kills] show ?thesis by blast
qed

text \<open>
  C10.  A binding is reported as gone or terminated, so that its lease and resources may be
  released, only when the last call of the run listed its process group and found it empty.  A
  group reported as gone was never signalled, a group reported as terminated was sent \<open>SIGTERM\<close>.
\<close>

theorem released_only_when_the_group_is_empty:
  assumes "reconcile R b k = Some (Inr res, k')"
  shows "\<exists>log. reconcile (traced R) b (k, []) = Some (Inr res, (k', log)) \<and> outcome b log res"
proof -
  obtain log where log: "reconcile (traced R) b (k, []) = Some (Inr res, (k', log))"
    using traced_same [OF assms] by blast
  with shows_runD [OF reconcile_shows log] show ?thesis by blast
qed

lemma released_only_when_the_group_is_empty_witness:
  "\<exists>log. snd (snd (the (reconcile (traced supervisor) launcher_binding ((True, 0), [])))) = log
     \<and> observed_empty 500 log \<and> (\<exists>x. Signalled 500 15 x \<in> set log)"
proof -
  obtain log where "reconcile (traced supervisor) launcher_binding ((True, 0), [])
      = Some (Inr (released launcher_binding Terminated
           ''verified process group exited after SIGKILL'' []), ((False, 36), log))"
    "outcome launcher_binding log (released launcher_binding Terminated
           ''verified process group exited after SIGKILL'' [])"
    using released_only_when_the_group_is_empty [OF supervisor_kills] by blast
  then show ?thesis by (simp add: outcome_released launcher_binding_def sigterm_def)
qed

section \<open>Failing closed\<close>

text \<open>
  C11.  No \<open>OSError\<close>, \<open>ProcessInspectionError\<close> or \<open>ValueError\<close> of the system leaves the reconciler:
  what escapes is only the overflow of an integer that is no C \<open>int\<close> and the \<open>RuntimeError\<close> of a
  symbolic link that loops.  Where there is no implementation of process identities every binding
  is quarantined, without a single effect.
\<close>

theorem reconciliation_fails_closed:
  "(\<forall>e k'. reconcile R b k = Some (Inl e, k') \<longrightarrow> e \<in> {IntegerTooLarge, SymlinkLoop})
   \<and> (\<forall>platform. runtime R = unsupported_runtime platform
        \<longrightarrow> (\<exists>reason observed. reconcile R b k = Some (Inr (quarantine b reason observed), k)))"
proof (intro conjI allI impI)
  fix e k'
  assume run: "reconcile R b k = Some (Inl e, k')"
  then obtain i where i: "fail_closed R b (reconcile_observed R b i) k = Some (Inl e, k')"
    by (auto simp: reconcile_def return_def split: if_splits option.splits)
  have "\<not> os_error e \<and> \<not> inspection_error e \<and> e \<noteq> InvalidValue"
    using i by (auto simp: fail_closed_def split: option.splits sum.splits if_splits)
  then show "e \<in> {IntegerTooLarge, SymlinkLoop}" by (cases e) auto
next
  fix platform
  assume [simp]: "runtime R = unsupported_runtime platform"
  show "\<exists>reason observed. reconcile R b k = Some (Inr (quarantine b reason observed), k)"
    by (auto simp: reconcile_def return_def fail_closed_def reconcile_observed_def perform_def
        unsupported_runtime_def Let_def split: option.split)
qed


lemma reconciliation_fails_closed_witness:
  "\<exists>e k'. reconcile supervisor wide_binding (True, 0) = Some (Inl e, k')
     \<and> e \<in> {IntegerTooLarge, SymlinkLoop}"
  using reconciliation_fails_closed [of supervisor wide_binding "(True, 0)"] supervisor_overflows
  by blast

end
