(* ===== verification/Deadlines.thy ===== *)
theory Deadlines
  imports Verdicts
begin

text \<open>
  How long a reconciliation takes.  \<open>time k\<close> is what a clock on the wall would show in the state
  \<open>k\<close> of the machine; a reading of the monotonic clock lies between the times at which it starts
  and ends, a sleep lasts at least as long as asked and no call turns the clock back.
\<close>

definition advancing :: "'k reconciler \<Rightarrow> ('k \<Rightarrow> int) \<Rightarrow> bool" where
  "advancing R time \<longleftrightarrow>
     (\<forall>k. time k \<le> fst (monotonic R k) \<and> fst (monotonic R k) \<le> time (snd (monotonic R k)))
     \<and> (\<forall>d k. 0 < d \<longrightarrow> time k + d \<le> time (sleeper R d k))
     \<and> (\<forall>p k. time k \<le> time (snd (inspect (runtime R) p k)))
     \<and> (\<forall>g k. time k \<le> time (snd (list_group (runtime R) g k)))
     \<and> (\<forall>g n k. time k \<le> time (snd (signal_group (runtime R) g n k)))"

text \<open>Every call takes at most \<open>c\<close>, and a sleep is at most \<open>c\<close> longer than asked.\<close>

definition prompt :: "'k reconciler \<Rightarrow> ('k \<Rightarrow> int) \<Rightarrow> int \<Rightarrow> bool" where
  "prompt R time c \<longleftrightarrow>
     (\<forall>k. time (snd (monotonic R k)) \<le> time k + c)
     \<and> (\<forall>d k. 0 < d \<longrightarrow> time (sleeper R d k) \<le> time k + d + c)
     \<and> (\<forall>p k. time (snd (inspect (runtime R) p k)) \<le> time k + c)
     \<and> (\<forall>g k. time (snd (list_group (runtime R) g k)) \<le> time k + c)
     \<and> (\<forall>g n k. time (snd (signal_group (runtime R) g n k)) \<le> time k + c)"

lemma advancingD:
  assumes "advancing R time"
  shows "time k \<le> fst (monotonic R k)" "fst (monotonic R k) \<le> time (snd (monotonic R k))"
    "0 < d \<Longrightarrow> time k + d \<le> time (sleeper R d k)"
    "time k \<le> time (snd (list_group (runtime R) g k))"
    "time k \<le> time (snd (inspect (runtime R) p k))"
    "time k \<le> time (snd (signal_group (runtime R) g n k))"
  using assms unfolding advancing_def by blast+

lemma promptD:
  assumes "prompt R time c"
  shows "time (snd (monotonic R k)) \<le> time k + c"
    "0 < d \<Longrightarrow> time (sleeper R d k) \<le> time k + d + c"
    "time (snd (inspect (runtime R) p k)) \<le> time k + c"
    "time (snd (list_group (runtime R) g k)) \<le> time k + c"
    "time (snd (signal_group (runtime R) g n k)) \<le> time k + c"
  using assms unfolding prompt_def by blast+

text \<open>The wait ends: each round brings the clock nearer to the deadline by a whole tick.\<close>

lemma await_exit_returns:
  assumes adv: "advancing R time" and poll: "0 < poll_interval_seconds R"
  shows "\<exists>r k'. await_exit R g d k = Some (r, k') \<and> time k \<le> time k'
    \<and> (prompt R time c \<longrightarrow> time k \<le> d + 2 * c \<longrightarrow> time k' \<le> d + 4 * c)"
proof (induction "nat (d - time k)" arbitrary: k rule: less_induct)
  case less
  obtain x k1 where x: "list_group (runtime R) g k = (x, k1)" by (cases "list_group (runtime R) g k")
  obtain now k2 where now: "monotonic R k1 = (now, k2)" by (cases "monotonic R k1")
  note adv1 = advancingD(4) [OF adv, of k g, unfolded x snd_conv]
    advancingD(1) [OF adv, of k1, unfolded now fst_conv]
    advancingD(2) [OF adv, of k1, unfolded now fst_conv snd_conv]
  let ?s = "sleeper R (min (poll_interval_seconds R) (d - now)) k2"
  have pr: "time k1 \<le> time k + c \<and> time k2 \<le> time k1 + c
      \<and> (now < d \<longrightarrow> time ?s \<le> time k2 + (d - now) + c)" if "prompt R time c"
  proof -
    have "time ?s \<le> time k2 + min (poll_interval_seconds R) (d - now) + c" if "now < d"
      using promptD(2) [OF \<open>prompt R time c\<close>] poll that by simp
    then show ?thesis
      using promptD(4) [OF that, of g k] promptD(1) [OF that, of k1] unfolding x now by force
  qed
  have stop: "time k' \<le> d + 4 * c" if "prompt R time c" "time k \<le> d + 2 * c" "k' \<in> {k1, k2}" for k'
    using pr [OF that(1)] that adv1 by auto
  have again: "\<exists>r k'. await_exit R g d ?s = Some (r, k') \<and> time k \<le> time k'
      \<and> (prompt R time c \<longrightarrow> time k' \<le> d + 4 * c)" if "now < d"
  proof -
    have "time k2 + min (poll_interval_seconds R) (d - now) \<le> time ?s"
      using advancingD(3) [OF adv] poll that by simp
    then have s: "time k \<le> time ?s" using adv1 poll that by simp
    have "time k2 + min (poll_interval_seconds R) (d - now) \<le> time ?s"
      using advancingD(3) [OF adv] poll that by simp
    then have later: "nat (d - time ?s) < nat (d - time k)" using adv1 poll that by simp
    obtain r k' where r: "await_exit R g d ?s = Some (r, k')" and s': "time ?s \<le> time k'"
      and t: "prompt R time c \<longrightarrow> time ?s \<le> d + 2 * c \<longrightarrow> time k' \<le> d + 4 * c"
      using less.hyps [OF later] by blast
    have "time ?s \<le> d + 2 * c" if p: "prompt R time c"
      using pr [OF p] \<open>now < d\<close> adv1 by simp
    with r t s s' show ?thesis by (meson order_trans)
  qed
  have moved: "time k \<le> time k1" "time k \<le> time k2" using adv1 by simp_all
  show ?case
    using stop again moved
    by (subst (1) await_exit.simps) (auto simp: x now split: sum.splits)
qed

text \<open>\<open>within R time c n m\<close>: the run \<open>m\<close> returns, and takes at most \<open>n\<close> when the calls are prompt.\<close>

definition within ::
    "'k reconciler \<Rightarrow> ('k \<Rightarrow> int) \<Rightarrow> int \<Rightarrow> int \<Rightarrow> ('k, 'a) run \<Rightarrow> bool" where
  "within R time c n m \<longleftrightarrow>
     (\<forall>k. \<exists>r k'. m k = Some (r, k') \<and> time k \<le> time k'
        \<and> (prompt R time c \<longrightarrow> time k' \<le> time k + n))"

lemma within_return: "0 \<le> n \<Longrightarrow> within R time c n (return x)"
  by (simp add: within_def return_def)

lemma within_step:
  assumes m: "\<And>k. prompt R time c \<Longrightarrow> time (snd (m k)) \<le> time k + c"
    and later: "\<And>k. time k \<le> time (snd (m k))"
    and f: "\<And>x. within R time c n (f x)" and n: "0 \<le> n"
  shows "within R time c (c + n) (perform m f)"
  unfolding within_def
proof
  fix k
  obtain x k1 where x: "m k = (x, k1)" by (cases "m k")
  have k1: "time k1 \<le> time k + c" if "prompt R time c" using m [OF that, of k] by (simp add: x)
  have k: "time k \<le> time k1" using later [of k] by (simp add: x)
  show "\<exists>r k'. perform m f k = Some (r, k') \<and> time k \<le> time k'
      \<and> (prompt R time c \<longrightarrow> time k' \<le> time k + (c + n))"
  proof (cases x)
    case (Inl e)
    with k1 n k show ?thesis by (fastforce simp: perform_def x)
  next
    case (Inr y)
    obtain r k' where "f y k1 = Some (r, k')" "time k1 \<le> time k'" "prompt R time c \<longrightarrow> time k' \<le> time k1 + n"
      using f [unfolded within_def] by blast
    with Inr k1 k show ?thesis by (fastforce simp: perform_def x)
  qed
qed

lemma within_inspect:
  assumes adv: "advancing R time" and f: "\<And>x. within R time c n (f x)" and n: "0 \<le> n"
  shows "within R time c (c + n) (perform (inspect (runtime R) p) f)"
  by (rule within_step [OF _ advancingD(5) [OF adv] f n]) (rule promptD(3))

lemma within_list:
  assumes adv: "advancing R time" and f: "\<And>x. within R time c n (f x)" and n: "0 \<le> n"
  shows "within R time c (c + n) (perform (list_group (runtime R) g) f)"
  by (rule within_step [OF _ advancingD(4) [OF adv] f n]) (rule promptD(4))

lemma within_signal:
  assumes adv: "advancing R time" and f: "\<And>x. within R time c n (f x)" and n: "0 \<le> n"
  shows "within R time c (c + n) (perform (signal_unless_gone R g s) f)"
proof (rule within_step [OF _ _ f n])
  fix k
  show "time k \<le> time (snd (signal_unless_gone R g s k))"
    using advancingD(6) [OF adv, of k g s]
    by (auto simp: signal_unless_gone_def split: prod.splits sum.splits)
  assume "prompt R time c"
  then show "time (snd (signal_unless_gone R g s k)) \<le> time k + c"
    using promptD(5) [of R time c g s k]
    by (auto simp: signal_unless_gone_def split: prod.splits sum.splits)
qed

lemma within_wait:
  assumes adv: "advancing R time" and poll: "0 < poll_interval_seconds R"
    and grace: "0 < terminate_grace_seconds R"
    and c: "0 \<le> c" and f: "\<And>x. within R time c n (f x)" and n: "0 \<le> n"
  shows "within R time c (terminate_grace_seconds R + 5 * c + n) (upon (wait_for_group_exit R g) f)"
  unfolding within_def
proof
  fix k
  obtain now k1 where now: "monotonic R k = (now, k1)" by (cases "monotonic R k")
  let ?d = "now + terminate_grace_seconds R"
  obtain r k2 where r: "await_exit R g ?d k1 = Some (r, k2)" and k1: "time k1 \<le> time k2"
    and t: "prompt R time c \<longrightarrow> time k1 \<le> ?d + 2 * c \<longrightarrow> time k2 \<le> ?d + 4 * c"
    using await_exit_returns [OF adv poll] by blast
  have k2: "time k2 \<le> time k + terminate_grace_seconds R + 5 * c" if "prompt R time c"
    using t that promptD(1) [OF that, of k] advancingD(1,2) [OF adv, of k] grace c
    unfolding now fst_conv snd_conv by auto
  have k: "time k \<le> time k2"
    using k1 advancingD(1,2) [OF adv, of k] unfolding now by simp
  show "\<exists>r k'. upon (wait_for_group_exit R g) f k = Some (r, k') \<and> time k \<le> time k'
      \<and> (prompt R time c \<longrightarrow> time k' \<le> time k + (terminate_grace_seconds R + 5 * c + n))"
  proof (cases r)
    case (Inl e)
    with k2 n k show ?thesis by (fastforce simp: upon_def wait_for_group_exit_def now r)
  next
    case (Inr y)
    obtain r' k' where "f y k2 = Some (r', k')" "time k2 \<le> time k'" "prompt R time c \<longrightarrow> time k' \<le> time k2 + n"
      using f [unfolded within_def] by blast
    with Inr k2 k show ?thesis by (fastforce simp: upon_def wait_for_group_exit_def now r)
  qed
qed

lemma within_weaken: "within R time c a m \<Longrightarrow> a \<le> n \<Longrightarrow> within R time c n m"
  unfolding within_def by (meson add_left_mono order_trans)

lemma within_if:
  "within R time c n a \<Longrightarrow> within R time c n b \<Longrightarrow> within R time c n (if p then a else b)"
  by simp

lemma reconcile_within:
  assumes adv: "advancing R time" and poll: "0 < poll_interval_seconds R"
    and grace: "0 < terminate_grace_seconds R" and c: "0 \<le> c"
  shows "within R time c (2 * terminate_grace_seconds R + 18 * c) (reconcile R b)"
proof -
  let ?g = "terminate_grace_seconds R"
  note wait = within_wait [OF adv poll grace c]
  note calls = within_inspect [OF adv] within_list [OF adv] within_signal [OF adv]
  have stop: "within R time c n (return x)" if "0 \<le> n" for n and x :: reconciliation_result
    using that by (rule within_return)
  have kill: "within R time c (c + (c + (c + (?g + 5 * c + (c + 0))))) (kill_group R b i original)"
    for i original
    unfolding kill_group_def
    by (intro calls wait within_if stop) (use c grace in simp_all)
  have terminate: "within R time c (c + (c + (c + (?g + 5 * c
      + (c + (c + (c + (?g + 5 * c + (c + 0))))))))) (terminate_group R b i)" for i
    unfolding terminate_group_def
    by (intro calls wait within_if stop kill) (use c grace in simp_all)
  have listed: "within R time c (c + (c + (c + (?g + 5 * c
      + (c + (c + (c + (?g + 5 * c + (c + 0)))))))))
      (perform (list_group (runtime R) (pb_process_group_id b)) f)"
    if "\<And>x. within R time c 0 (f x)" for f
    by (rule within_weaken [where a = "c + 0"], rule calls(2), rule that) (use c grace in simp_all)
  have observed: "within R time c (c + (c + (c + (c + (?g + 5 * c
      + (c + (c + (c + (?g + 5 * c + (c + 0)))))))))) (reconcile_observed R b i)" for i
    unfolding reconcile_observed_def
    by (rule calls(1); (split option.split, intro conjI allI impI)?;
        (intro listed within_if stop terminate)?)
      (use c grace in simp_all)
  have closed: "within R time c n (fail_closed R b m)" if "within R time c n m" for n m
    unfolding within_def
  proof
    fix k
    from that obtain r k' where "m k = Some (r, k')" "time k \<le> time k'"
      "prompt R time c \<longrightarrow> time k' \<le> time k + n"
      unfolding within_def by blast
    then show "\<exists>r k'. fail_closed R b m k = Some (r, k') \<and> time k \<le> time k' \<and> (prompt R time c \<longrightarrow> time k' \<le> time k + n)"
      by (cases r) (auto simp: fail_closed_def)
  qed
  have closed_observed: "within R time c (2 * ?g + 18 * c) (fail_closed R b (reconcile_observed R b i))" for i
    by (rule closed, rule within_weaken, rule observed) simp
  show ?thesis
    unfolding reconcile_def
    by (intro within_if; (split option.split, intro conjI allI impI within_if)?;
        (intro closed_observed stop)?) (use c grace in simp_all)
qed

lemma reconcile_total:
  assumes "external_process_reconciler R = Inr R" and "advancing R time"
  shows "\<exists>r k'. reconcile R b k = Some (r, k')"
proof -
  have "within R time 0 (2 * terminate_grace_seconds R + 18 * 0) (reconcile R b)"
    by (rule reconcile_within [OF assms(2)])
      (use assms(1) in \<open>auto simp: external_process_reconciler_def split: if_splits\<close>)
  then show ?thesis unfolding within_def by blast
qed

section \<open>The example machine\<close>

text \<open>Its calls take no time and its sleeps are exact.\<close>

definition timeless :: "(bool \<times> int, 'a) call \<Rightarrow> bool" where
  "timeless m \<longleftrightarrow> (\<forall>k. snd (snd (m k)) = snd k)"

lemma timelessD: "timeless m \<Longrightarrow> snd (snd (m k)) = snd k"
  unfolding timeless_def by (rule spec)

lemma timeless_give: "timeless (give x)" "timeless (raise e)"
  by (simp_all add: timeless_def)

lemma timeless_andthen: "timeless m \<Longrightarrow> (\<And>x. timeless (f x)) \<Longrightarrow> timeless (andthen m f)"
  by (auto simp: timeless_def andthen_def split: prod.splits sum.splits; metis snd_conv)

lemma timeless_probes:
  "timeless (pid_is_absent stubborn_kernel p)" "timeless (group_is_absent stubborn_kernel g)"
  "timeless (os_killpg stubborn_kernel g n)"
  by (auto simp: timeless_def pid_is_absent_def group_is_absent_def absent_def os_kill_def
      os_killpg_def stubborn_kernel_def)

lemma timeless_branches:
  "timeless m \<Longrightarrow> timeless n \<Longrightarrow> timeless (if c then m else n)"
  "timeless m \<Longrightarrow> timeless n \<Longrightarrow> timeless (\<lambda>k. if c then m k else n k)"
  "timeless m \<Longrightarrow> (\<And>x. timeless (q x)) \<Longrightarrow> timeless (case v of None \<Rightarrow> m | Some x \<Rightarrow> q x)"
  by (simp_all add: timeless_def split: option.split)

lemmas timeless_intros = timeless_give timeless_andthen timeless_probes timeless_branches

lemma timeless_read: "timeless (read_bsd_info stubborn_kernel p)"
proof -
  have "timeless (andthen (pid_is_absent stubborn_kernel p) (\<lambda>gone. if gone then give None
      else raise (ProcessInspectionError (CannotInspect p 3))) :: (_, proc_bsd_info option) call)"
    by (intro timeless_intros)
  moreover have "proc_pidinfo stubborn_kernel p' 3 0 bsd_info_size k
      = (if fst k \<and> p' = 500 then (136, 0, launcher_info) else (0, 3, launcher_info), k)" for p' k
    by (simp add: stubborn_kernel_def)
  ultimately show ?thesis
    unfolding timeless_def read_bsd_info_def by (simp add: bsd_info_size_def)
qed

lemma timeless_inspect: "timeless (darwin_inspect stubborn_kernel p)"
proof -
  have path: "timeless (\<lambda>k. case proc_pidpath stubborn_kernel a b k of
      ((len, errno, path), k1) \<Rightarrow> m len errno path k1)"
    if "\<And>len errno path. timeless (m len errno path)" for a b
      and m :: "_ \<Rightarrow> _ \<Rightarrow> _ \<Rightarrow> (bool \<times> int, kernel_identity option) call"
    using that by (auto simp: timeless_def stubborn_kernel_def)
  have resolve: "timeless (resolve_path stubborn_kernel q)" for q
    by (simp add: timeless_def stubborn_kernel_def)
  show ?thesis
    unfolding darwin_inspect_def by (intro timeless_intros timeless_read resolve path)
qed

lemma timeless_members: "timeless (inspect_members stubborn_kernel g pids)"
  by (induction pids) (simp_all only: inspect_members.simps, (intro timeless_intros timeless_inspect)+)

lemma timeless_list: "timeless (darwin_list_group stubborn_kernel g)"
proof -
  have absent: "timeless (andthen (group_is_absent stubborn_kernel g) (\<lambda>gone.
      if gone then give [] else raise (ProcessInspectionError (CannotListGroup g 3)))
      :: (_, kernel_identity list) call)"
    by (intro timeless_intros)
  have pids: "proc_listpgrppids stubborn_kernel g' n k
      = (if fst k then (1, 0, [500]) else (0, 3, []), k)" for g' n k
    by (simp add: stubborn_kernel_def)
  have "timeless (list_with stubborn_kernel g 64)"
    unfolding timeless_def
  proof
    fix k
    show "snd (snd (list_with stubborn_kernel g 64 k)) = snd k"
      using timelessD [OF absent, of k] timelessD [OF timeless_members [of g "[500]"], of k]
      by (subst list_with.simps) (cases "fst k"; simp add: pids del: inspect_members.simps)
  qed
  then show ?thesis unfolding darwin_list_group_def by (intro timeless_intros)
qed

lemma supervisor_clock: "advancing supervisor snd \<and> prompt supervisor snd 1"
  using timeless_inspect timeless_list timeless_probes(3)
  by (simp add: advancing_def prompt_def supervisor_def darwin_runtime_def timeless_def)

section \<open>Returning, and in time\<close>

text \<open>
  C12.  A reconciliation returns: whatever the system answers, and however long its processes
  live, the loop that polls a group ends, as soon as sleeping moves the clock forward and
  the two settings have passed the check of the constructor.
\<close>

theorem reconciliation_returns:
  assumes "external_process_reconciler R = Inr R" and "advancing R time"
  shows "\<exists>r k'. reconcile R b k = Some (r, k')"
  by (rule reconcile_total [OF assms])

lemma reconciliation_returns_witness: "\<exists>r k'. reconcile supervisor launcher_binding (True, 0) = Some (r, k')"
  by (rule reconciliation_returns [OF supervisor_valid conjunct1 [OF supervisor_clock]])

text \<open>
  C13.  The lease of a claim outlives the reconciliation it was taken for.  A scheduler adapter
  refuses a lease that is not longer than twice the grace period plus one poll interval; if
  each call of the system takes at most an eighteenth of the poll interval, the run is over,
  with both grace periods exhausted, strictly before a lease taken at its start expires.
\<close>

theorem reconciliation_ends_before_its_lease:
  assumes "external_process_reconciler R = Inr R" and "advancing R time" and "prompt R time c"
    and "0 \<le> c" and "18 * c \<le> poll_interval_seconds R"
    and "2 * terminate_grace_seconds R + poll_interval_seconds R < lease"
    and "reconcile R b k = Some (r, k')"
  shows "time k' < time k + lease"
proof -
  have "within R time c (2 * terminate_grace_seconds R + 18 * c) (reconcile R b)"
    using reconcile_within [OF assms(2)] assms(1,4)
    by (auto simp: external_process_reconciler_def split: if_splits)
  then obtain r' k2 where "reconcile R b k = Some (r', k2)"
    "time k2 \<le> time k + (2 * terminate_grace_seconds R + 18 * c)"
    using assms(3) unfolding within_def by blast
  with assms(7) have "time k' \<le> time k + (2 * terminate_grace_seconds R + 18 * c)" by simp
  with assms(5,6) show ?thesis by simp
qed

lemma reconciliation_ends_before_its_lease_witness: "snd (False, 36 :: int) < snd (True, 0 :: int) + 91"
  by (rule reconciliation_ends_before_its_lease
        [OF supervisor_valid conjunct1 [OF supervisor_clock] conjunct2 [OF supervisor_clock]
          _ _ _ supervisor_kills])
    (simp_all add: supervisor_def)

end
