(* ===== verification/Sweeping.thy ===== *)
theory Sweeping
  imports Deadlines Reconciled Scenario
begin

text \<open>
  The recovery side of \<open>SQLiteSchedulerStorage\<close> in \<^verbatim>\<open>sqlite_scheduler.py\<close>: it recovers what the store
  can recover by itself, then claims expired processes one after another, has the reconciler
  look at each and reports its verdict to the store.  Between two transactions other
  connections may commit anything: \<open>committed\<close> is the database as a transaction finds it.
\<close>

section \<open>The adapter\<close>

record 'k adapter =
  process_reconciler :: "'k reconciler"
  reconciliation_owner :: string
  reconciliation_lease_seconds :: int
  wall_clock :: "'k \<Rightarrow> time \<times> 'k"
  new_token :: "'k \<Rightarrow> string \<times> 'k"
  committed :: "'k \<Rightarrow> store \<Rightarrow> store"


datatype sweep_error = StoreFails store_error | SystemFails runtime_error

text \<open>
  The machine, the database, \<open>last_reconciliation_results\<close>, and the two local collections of the
  sweep: the jobs recovered so far and the attempts already looked at.
\<close>

record 'k sweep =
  machine :: 'k
  database :: store
  last_results :: "reconciliation_result list"
  recovered_job_ids :: "string list"
  processed_attempt_ids :: "string list"

text \<open>\<open>str\<close> of a text column.\<close>

definition text_of :: "string option \<Rightarrow> string" where
  "text_of v = (case v of None \<Rightarrow> ''None'' | Some t \<Rightarrow> t)"

text \<open>One round of the loop; \<open>False\<close> when there was nothing left to claim.\<close>

definition sweep_round ::
    "world \<Rightarrow> 'k adapter \<Rightarrow> bool \<Rightarrow> 'k sweep \<Rightarrow> ((sweep_error + bool) \<times> 'k sweep) option" where
  "sweep_round W A retry_quarantined s =
     (case new_token A (machine s) of (token, k1) \<Rightarrow>
     (case wall_clock A k1 of (now, k2) \<Rightarrow>
     (case claim_external_process_reconciliation (reconciliation_owner A)
             (reconciliation_lease_seconds A) retry_quarantined (processed_attempt_ids s) token now
             (committed A k2 (database s)) of
        Inl e \<Rightarrow> Some (Inl (StoreFails e), s\<lparr>machine := k2\<rparr>)
      | Inr (st1, None) \<Rightarrow> Some (Inr False, s\<lparr>machine := k2, database := st1\<rparr>)
      | Inr (st1, Some claim) \<Rightarrow>
          let b = from_mapping claim;
              s1 = s\<lparr>database := st1,
                     processed_attempt_ids := pb_attempt_id b # processed_attempt_ids s\<rparr>
          in
          (case reconcile (process_reconciler A) b k2 of
             None \<Rightarrow> None
           | Some (Inl e, k3) \<Rightarrow> Some (Inl (SystemFails e), s1\<lparr>machine := k3\<rparr>)
           | Some (Inr res, k3) \<Rightarrow>
               (case wall_clock A k3 of (later, k4) \<Rightarrow>
               (case complete_external_process_reconciliation W (pb_attempt_id b)
                       (reconciliation_owner A) (text_of (ep_reconciliation_token claim))
                       (persistence_identity b) (status_value (rr_status res)) (rr_reason res)
                       (rr_observed res) later (committed A k4 st1) of
                  Inl e \<Rightarrow> Some (Inl (StoreFails e), s1\<lparr>machine := k4\<rparr>)
                | Inr (st2, freed) \<Rightarrow>
                    Some (Inr True, s1\<lparr>machine := k4, database := st2,
                      last_results := last_results s @ [res],
                      recovered_job_ids := recovered_job_ids s
                        @ (if freed then [pb_job_id b] else [])\<rparr>)))))))"

partial_function (option) sweep_loop ::
    "world \<Rightarrow> 'k adapter \<Rightarrow> int option \<Rightarrow> bool \<Rightarrow> 'k sweep
     \<Rightarrow> ((sweep_error + unit) \<times> 'k sweep) option" where
  "sweep_loop W A max_processes retry_quarantined s =
     (if (case max_processes of None \<Rightarrow> True | Some n \<Rightarrow> int (length (last_results s)) < n)
      then
        (case sweep_round W A retry_quarantined s of
           None \<Rightarrow> None
         | Some (r, s') \<Rightarrow>
             (case r of
                Inl e \<Rightarrow> Some (Inl e, s')
              | Inr worked \<Rightarrow>
                  if worked then sweep_loop W A max_processes retry_quarantined s'
                  else Some (Inr (), s')))
      else Some (Inr (), s))"

declare sweep_loop.simps [code]

text \<open>\<open>dict.fromkeys\<close>: the first occurrence of each.\<close>

definition first_occurrences :: "string list \<Rightarrow> string list" where
  "first_occurrences xs = rev (remdups (rev xs))"

definition reconcile_expired_processes ::
    "world \<Rightarrow> 'k adapter \<Rightarrow> int option \<Rightarrow> bool \<Rightarrow> 'k sweep
     \<Rightarrow> ((sweep_error + string list) \<times> 'k sweep) option" where
  "reconcile_expired_processes W A max_processes retry_quarantined s =
     (if (case max_processes of None \<Rightarrow> False | Some n \<Rightarrow> n < 1)
      then Some (Inl (StoreFails ValueError), s)
      else
        (case wall_clock A (machine s) of (now, k1) \<Rightarrow>
        (case recover_expired_leases W now (committed A k1 (database s)) of
           Inl e \<Rightarrow> Some (Inl (StoreFails e), s\<lparr>machine := k1\<rparr>)
         | Inr (st1, summary) \<Rightarrow>
             (case sweep_loop W A max_processes retry_quarantined
                     (s\<lparr>machine := k1, database := st1, last_results := [],
                        recovered_job_ids := rc_job_ids summary, processed_attempt_ids := []\<rparr>) of
                None \<Rightarrow> None
              | Some (Inl e, s') \<Rightarrow> Some (Inl e, s')
              | Some (Inr _, s') \<Rightarrow> Some (Inr (first_occurrences (recovered_job_ids s')), s')))))"

text \<open>The scheduler's tick: at most one process, and how many were looked at.\<close>

record lease_recovery_batch =
  lb_recovered_job_ids :: "string list"
  lb_reconciliation_count :: nat

definition recover_one_expired ::
    "world \<Rightarrow> 'k adapter \<Rightarrow> 'k sweep \<Rightarrow> ((sweep_error + lease_recovery_batch) \<times> 'k sweep) option" where
  "recover_one_expired W A s =
     (case reconcile_expired_processes W A (Some 1) False s of
        None \<Rightarrow> None
      | Some (Inl e, s') \<Rightarrow> Some (Inl e, s')
      | Some (Inr ids, s') \<Rightarrow>
          Some (Inr \<lparr>lb_recovered_job_ids = ids,
                     lb_reconciliation_count = length (last_results s')\<rparr>, s'))"

section \<open>A completion that nothing disturbs succeeds\<close>




section \<open>What a claim hands over\<close>

lemma find_job_event [simp]:
  "find_job i (append_event k a b c d e n st) = find_job i st"
  "find_job i (st\<lparr>processes := ps\<rparr>) = find_job i st"
  by (simp_all add: find_job_def)


section \<open>What a verdict says\<close>












section \<open>An undisturbed round\<close>






section \<open>A sweep on the example machine\<close>

definition launcher_recorded :: "(time \<times> request) list" where
  "launcher_recorded =
     [(12, RecordProcess ''j1'' ''w1'' ''t1'' ''codex''
        \<lparr>pi_process_id = 500, pi_process_group_id = 500, pi_owner_uid = 501,
         pi_kernel_executable = ''/bin/sh'', pi_start_seconds = 1000, pi_start_microseconds = 5,
         pi_target_executable = ''/bin/run''\<rparr> ''p1'')]"

definition sweeper :: "(bool \<times> int) adapter" where
  "sweeper =
     \<lparr>process_reconciler = supervisor, reconciliation_owner = ''sweeper'',
      reconciliation_lease_seconds = 91, wall_clock = (\<lambda>k. (snd k, k)), new_token = (\<lambda>k. (''r1'', k)),
      committed = (\<lambda>_ db. db)\<rparr>"

definition sweep_at_80 :: "(bool \<times> int) sweep" where
  "sweep_at_80 =
     \<lparr>machine = (True, 80), database = after_claim launcher_recorded, last_results = [],
      recovered_job_ids = [], processed_attempt_ids = []\<rparr>"









section \<open>The sweep ends\<close>

lemma sweep_round_works:
  assumes "external_process_reconciler (process_reconciler A) = Inr (process_reconciler A)"
    and "advancing (process_reconciler A) time"
  shows "\<exists>r s'. sweep_round W A retry s = Some (r, s')
    \<and> (r = Inr True \<longrightarrow> length (last_results s') = Suc (length (last_results s)))
    \<and> (r \<noteq> Inr True \<longrightarrow> last_results s' = last_results s)"
proof -
  obtain token k1 where token: "new_token A (machine s) = (token, k1)" by (cases "new_token A (machine s)")
  obtain now k2 where now: "wall_clock A k1 = (now, k2)" by (cases "wall_clock A k1")
  let ?claim = "claim_external_process_reconciliation (reconciliation_owner A)
    (reconciliation_lease_seconds A) retry (processed_attempt_ids s) token now
    (committed A k2 (database s))"
  show ?thesis
  proof (cases "\<exists>st1 p. ?claim = Inr (st1, Some p)")
    case True
    then obtain st1 p where claim: "?claim = Inr (st1, Some p)" by blast
    obtain r k3 where "reconcile (process_reconciler A) (from_mapping p) k2 = Some (r, k3)"
      using reconcile_total [OF assms] by blast
    then show ?thesis
      by (auto simp: sweep_round_def token now claim Let_def split: sum.split prod.split)
  next
    case False
    then show ?thesis
      by (auto simp: sweep_round_def token now Let_def split: sum.split prod.split option.split)
  qed
qed

lemma sweep_loop_returns:
  assumes "external_process_reconciler (process_reconciler A) = Inr (process_reconciler A)"
    and "advancing (process_reconciler A) time" and "int (length (last_results s)) \<le> n"
  shows "\<exists>r s'. sweep_loop W A (Some n) retry s = Some (r, s') \<and> int (length (last_results s')) \<le> n"
  using assms(3)
proof (induction "nat (n - int (length (last_results s)))" arbitrary: s rule: less_induct)
  case less
  obtain r s' where r: "sweep_round W A retry s = Some (r, s')"
    and worked: "r = Inr True \<longrightarrow> length (last_results s') = Suc (length (last_results s))"
    and stopped: "r \<noteq> Inr True \<longrightarrow> last_results s' = last_results s"
    using sweep_round_works [OF assms(1,2)] by blast
  show ?case
  proof (cases "int (length (last_results s)) < n \<and> r = Inr True")
    case True
    then have "\<exists>r s2. sweep_loop W A (Some n) retry s' = Some (r, s2) \<and> int (length (last_results s2)) \<le> n"
      using worked by (intro less.hyps) simp_all
    with True show ?thesis by (subst sweep_loop.simps) (simp add: r)
  next
    case False
    with stopped less.prems show ?thesis
      by (subst sweep_loop.simps) (auto simp: r split: sum.split)
  qed
qed

text \<open>
  A sweep with a limit returns after at most that many reconciliations, whatever other
  connections commit in the meantime and however the processes behave, and a limit below 1 is
  rejected before anything is read.
\<close>

lemma limited_sweep_returns:
  assumes "external_process_reconciler (process_reconciler A) = Inr (process_reconciler A)"
    and "advancing (process_reconciler A) time"
  shows "\<exists>r s'. reconcile_expired_processes W A (Some n) retry s = Some (r, s')
    \<and> (if n < 1 then r = Inl (StoreFails ValueError) \<and> s' = s
       else \<forall>ids. r = Inr ids \<longrightarrow> int (length (last_results s')) \<le> n)"
proof (cases "n < 1")
  case False
  obtain now k1 where now: "wall_clock A (machine s) = (now, k1)" by (cases "wall_clock A (machine s)")
  show ?thesis
  proof (cases "recover_expired_leases W now (committed A k1 (database s))")
    case (Inr p)
    obtain st1 summary where p: "p = (st1, summary)" by (cases p)
    let ?s = "s\<lparr>machine := k1, database := st1, last_results := [],
        recovered_job_ids := rc_job_ids summary, processed_attempt_ids := []\<rparr>"
    have "int (length (last_results ?s)) \<le> n" using False by simp
    then obtain r s' where "sweep_loop W A (Some n) retry ?s = Some (r, s')"
        "int (length (last_results s')) \<le> n"
      using sweep_loop_returns [OF assms] by blast
    with False show ?thesis
      by (auto simp: reconcile_expired_processes_def now Inr p split: sum.split)
  qed (use False in \<open>simp add: reconcile_expired_processes_def now\<close>)
qed (simp add: reconcile_expired_processes_def)

lemma limited_sweep_returns_witness:
  "\<exists>r s'. reconcile_expired_processes example_world sweeper (Some 1) False sweep_at_80 = Some (r, s')"
proof -
  have "external_process_reconciler (process_reconciler sweeper) = Inr (process_reconciler sweeper)"
    "advancing (process_reconciler sweeper) snd"
    using supervisor_valid supervisor_clock by (simp_all add: sweeper_def)
  from limited_sweep_returns [OF this, of example_world 1 False sweep_at_80] show ?thesis by auto
qed

end
