(* ===== verification/Adapting.thy ===== *)
theory Adapting
  imports Sweeping
begin

text \<open>
  The rest of \<open>SQLiteSchedulerStorage\<close> in \<^verbatim>\<open>sqlite_scheduler.py\<close>: the storage protocol the scheduler
  runs on.  Each method is one transaction of the store at the time the clock shows, in which a
  lost lease is an answer and not an exception.
\<close>

section \<open>Actions on the store\<close>

text \<open>What the scheduler raises and catches.\<close>

datatype scheduler_error =
    StorageRaised store_error
  | LeaseLost
  | HeartbeatStorageFailure
  | OperatorInterruption string string
  | InvalidWorkerOutput
  | RuntimeFailure

type_synonym ('k, 'a) action = "'k \<times> store \<Rightarrow> (scheduler_error + 'a) \<times> ('k \<times> store)"

definition yield :: "'a \<Rightarrow> ('k, 'a) action" where "yield x s = (Inr x, s)"

definition throw :: "scheduler_error \<Rightarrow> ('k, 'a) action" where "throw e s = (Inl e, s)"

definition sequel :: "('k, 'a) action \<Rightarrow> ('a \<Rightarrow> ('k, 'b) action) \<Rightarrow> ('k, 'b) action" where
  "sequel m f s = (case m s of (Inl e, s') \<Rightarrow> (Inl e, s') | (Inr x, s') \<Rightarrow> f x s')"

definition handle :: "('k, 'a) action \<Rightarrow> (scheduler_error \<Rightarrow> ('k, 'a) action) \<Rightarrow> ('k, 'a) action" where
  "handle m h s = (case m s of (Inl e, s') \<Rightarrow> h e s' | (Inr x, s') \<Rightarrow> (Inr x, s'))"

text \<open>One transaction; an exception rolls it back to the database it found.\<close>

definition transaction ::
    "'k adapter \<Rightarrow> (time \<Rightarrow> store \<Rightarrow> store_error + (store \<times> 'a)) \<Rightarrow> ('k, 'a) action" where
  "transaction A body s =
     (case wall_clock A (fst s) of (now, k) \<Rightarrow>
       let db = committed A k (snd s) in
       (case body now db of
          Inl e \<Rightarrow> (Inl (StorageRaised e), (k, db))
        | Inr (db', x) \<Rightarrow> (Inr x, (k, db'))))"

definition mutation :: "'k adapter \<Rightarrow> (time \<Rightarrow> store \<Rightarrow> store_error + store) \<Rightarrow> ('k, unit) action" where
  "mutation A body = transaction A (\<lambda>now db. bindR (body now db) (\<lambda>db'. Inr (db', ())))"

definition reading :: "'k adapter \<Rightarrow> (time \<Rightarrow> store \<Rightarrow> store_error + 'a) \<Rightarrow> ('k, 'a) action" where
  "reading A body = transaction A (\<lambda>now db. bindR (body now db) (\<lambda>x. Inr (db, x)))"

definition draw :: "'k adapter \<Rightarrow> ('k, string) action" where
  "draw A s = (case new_token A (fst s) of (token, k) \<Rightarrow> (Inr token, (k, snd s)))"

text \<open>\<open>except LeaseConflict: return False\<close> and \<open>return None\<close>.\<close>

definition accepted :: "('k, 'a) action \<Rightarrow> ('k, bool) action" where
  "accepted m = handle (sequel m (\<lambda>_. yield True))
     (\<lambda>e. if e = StorageRaised LeaseConflict then yield False else throw e)"

definition unless_stale :: "('k, 'a option) action \<Rightarrow> ('k, 'a option) action" where
  "unless_stale m = handle m
     (\<lambda>e. if e = StorageRaised LeaseConflict then yield None else throw e)"

section \<open>Claims and reads\<close>

text \<open>\<open>_job\<close> copies the columns of the row; the row is the job.\<close>

definition adapter_claim_job ::
    "world \<Rightarrow> 'k adapter \<Rightarrow> WorkerRole \<Rightarrow> string \<Rightarrow> int \<Rightarrow> ('k, job_row option) action" where
  "adapter_claim_job W A role worker lease_seconds =
     sequel (draw A) (\<lambda>attempt_id.
     sequel (draw A) (\<lambda>token.
     transaction A (\<lambda>now db.
       bindR (claim_job W (worker_role_value role) worker lease_seconds attempt_id token now db)
         (\<lambda>(db', claim). Inr (db', Option.bind claim (\<lambda>c. find_job (cr_job_id c) db'))))))"

definition adapter_get_campaign :: "'k adapter \<Rightarrow> string \<Rightarrow> ('k, campaign_row) action" where
  "adapter_get_campaign A i = reading A (\<lambda>_ db. require (find_campaign i db) NotFoundError)"

definition adapter_get_work_item :: "'k adapter \<Rightarrow> string \<Rightarrow> ('k, item_row) action" where
  "adapter_get_work_item A i = reading A (\<lambda>_ db. require (find_item i db) NotFoundError)"

definition adapter_get_job :: "'k adapter \<Rightarrow> string \<Rightarrow> ('k, job_row) action" where
  "adapter_get_job A i = reading A (\<lambda>_ db. require (find_job i db) NotFoundError)"

definition adapter_get_claimed_managed_worktree ::
    "'k adapter \<Rightarrow> string \<Rightarrow> string \<Rightarrow> string \<Rightarrow> ('k, worktree_row option) action" where
  "adapter_get_claimed_managed_worktree A job_id worker token =
     unless_stale (reading A (claimed_managed_worktree job_id worker token))"

definition adapter_poll_operator_interrupt ::
    "world \<Rightarrow> 'k adapter \<Rightarrow> string \<Rightarrow> string \<Rightarrow> string \<Rightarrow> ('k, control_row option) action" where
  "adapter_poll_operator_interrupt W A job_id worker token =
     unless_stale (reading A (poll_operator_interrupt W job_id worker token))"

section \<open>Fenced writes\<close>

definition adapter_quarantine_claimed_managed_worktree ::
    "world \<Rightarrow> 'k adapter \<Rightarrow> string \<Rightarrow> string \<Rightarrow> string \<Rightarrow> string \<Rightarrow> ('k, bool) action" where
  "adapter_quarantine_claimed_managed_worktree W A job_id worker token reason =
     accepted (mutation A (\<lambda>now. exec W now (QuarantineWorktree job_id worker token reason)))"

definition adapter_heartbeat_job ::
    "world \<Rightarrow> 'k adapter \<Rightarrow> string \<Rightarrow> string \<Rightarrow> string \<Rightarrow> int \<Rightarrow> ('k, bool) action" where
  "adapter_heartbeat_job W A job_id worker token lease_seconds =
     accepted (mutation A (\<lambda>now. exec W now (HeartbeatJob job_id worker token lease_seconds)))"

definition adapter_complete_operator_interrupt ::
    "world \<Rightarrow> 'k adapter \<Rightarrow> string \<Rightarrow> string \<Rightarrow> string \<Rightarrow> string \<Rightarrow> string \<Rightarrow> ('k, bool) action" where
  "adapter_complete_operator_interrupt W A request_id job_id worker token reason =
     accepted (mutation A (\<lambda>now.
       exec W now (InterruptJob job_id worker token reason (Some request_id))))"

definition adapter_record_external_session ::
    "world \<Rightarrow> 'k adapter \<Rightarrow> string \<Rightarrow> string \<Rightarrow> string \<Rightarrow> string \<Rightarrow> string \<Rightarrow> ('k, bool) action" where
  "adapter_record_external_session W A job_id worker token provider session_id =
     accepted (mutation A (\<lambda>now.
       exec W now (RecordSession job_id worker token provider session_id)))"

text \<open>The kernel's identity and the target executable are the store's process identity.\<close>

definition recorded_as :: "kernel_identity \<Rightarrow> string \<Rightarrow> process_identity" where
  "recorded_as i target =
     \<lparr>pi_process_id = ki_process_id i, pi_process_group_id = ki_process_group_id i,
      pi_owner_uid = ki_user_id i, pi_kernel_executable = ki_executable i,
      pi_start_seconds = ki_start_seconds i, pi_start_microseconds = ki_start_microseconds i,
      pi_target_executable = target\<rparr>"

definition adapter_record_external_process ::
    "world \<Rightarrow> 'k adapter \<Rightarrow> string \<Rightarrow> string \<Rightarrow> string \<Rightarrow> string \<Rightarrow> process_identity \<Rightarrow> ('k, bool) action" where
  "adapter_record_external_process W A job_id worker token provider identity =
     accepted (sequel (draw A) (\<lambda>fresh. mutation A (\<lambda>now.
       exec W now (RecordProcess job_id worker token provider identity fresh))))"

definition adapter_clear_external_process ::
    "world \<Rightarrow> 'k adapter \<Rightarrow> string \<Rightarrow> string \<Rightarrow> string \<Rightarrow> int \<Rightarrow> int \<Rightarrow> ('k, bool) action" where
  "adapter_clear_external_process W A job_id worker token pid pgid =
     accepted (mutation A (\<lambda>now. exec W now (ClearProcess job_id worker token pid pgid)))"

definition adapter_record_attempt_artifact ::
    "world \<Rightarrow> 'k adapter \<Rightarrow> string \<Rightarrow> string \<Rightarrow> string \<Rightarrow> string \<Rightarrow> string \<Rightarrow> (string \<times> json) list
     \<Rightarrow> ('k, bool) action" where
  "adapter_record_attempt_artifact W A job_id worker token kind uri metadata =
     accepted (sequel (draw A) (\<lambda>fresh. mutation A (\<lambda>now.
       exec W now (RecordAttemptArtifact job_id worker token kind uri metadata fresh))))"

text \<open>The store requeues a failed job until \<open>max_attempts\<close>; the other arguments have their defaults.\<close>

definition adapter_fail_job ::
    "world \<Rightarrow> 'k adapter \<Rightarrow> string \<Rightarrow> string \<Rightarrow> string \<Rightarrow> string \<Rightarrow> int \<Rightarrow> ('k, bool) action" where
  "adapter_fail_job W A job_id worker token error max_attempts =
     accepted (mutation A (\<lambda>now.
       exec W now (FailJob job_id worker token error [] True None max_attempts)))"

definition adapter_interrupt_job ::
    "world \<Rightarrow> 'k adapter \<Rightarrow> string \<Rightarrow> string \<Rightarrow> string \<Rightarrow> string \<Rightarrow> ('k, bool) action" where
  "adapter_interrupt_job W A job_id worker token reason =
     accepted (mutation A (\<lambda>now. exec W now (InterruptJob job_id worker token reason None)))"

section \<open>Collected evidence\<close>

definition adapter_prepare_focused_test_execution ::
    "world \<Rightarrow> world \<Rightarrow> 'k adapter \<Rightarrow> string \<Rightarrow> string \<Rightarrow> string
     \<Rightarrow> ('k, focused_execution_row option) action" where
  "adapter_prepare_focused_test_execution W W' A job_id worker token =
     unless_stale (sequel (draw A) (\<lambda>fresh. transaction A (\<lambda>now db.
       bindR (prepare_focused_test_execution W W' job_id worker token fresh now db)
         (\<lambda>(db', e). Inr (db', Some e)))))"

definition adapter_complete_focused_test_execution ::
    "world \<Rightarrow> 'k adapter \<Rightarrow> string \<Rightarrow> string \<Rightarrow> string \<Rightarrow> (string \<times> json) list
     \<Rightarrow> ('k, test_handoff option) action" where
  "adapter_complete_focused_test_execution W A job_id worker token result =
     unless_stale (sequel (draw A) (\<lambda>out_id. sequel (draw A) (\<lambda>err_id. transaction A (\<lambda>now db.
       bindR (complete_focused_test_execution W job_id worker token result out_id err_id now db)
         (\<lambda>(db', h). Inr (db', Some h))))))"

text \<open>The newest plan of the job's item, if it has one.\<close>

definition adapter_prepare_browser_evidence_execution ::
    "world \<Rightarrow> 'k adapter \<Rightarrow> string \<Rightarrow> string \<Rightarrow> string \<Rightarrow> ('k, browser_execution_row option) action" where
  "adapter_prepare_browser_evidence_execution W A job_id worker token =
     unless_stale (
     sequel (adapter_get_job A job_id) (\<lambda>job.
     sequel (reading A (\<lambda>_. list_browser_evidence_plans W (Some (jb_item_id job)))) (\<lambda>plans.
     if plans = [] then yield None
     else transaction A (\<lambda>now db.
       bindR (prepare_browser_evidence_execution W (bp_id (last plans)) job_id worker token now db)
         (\<lambda>(db', e). Inr (db', Some e))))))"

definition adapter_prepare_database_query_execution ::
    "world \<Rightarrow> 'k adapter \<Rightarrow> string \<Rightarrow> string \<Rightarrow> string \<Rightarrow> ('k, database_execution_row option) action" where
  "adapter_prepare_database_query_execution W A job_id worker token =
     unless_stale (
     sequel (adapter_get_job A job_id) (\<lambda>job.
     sequel (reading A (\<lambda>_. list_database_query_plans W (Some (jb_item_id job)))) (\<lambda>plans.
     if plans = [] then yield None
     else transaction A (\<lambda>now db.
       bindR (prepare_database_query_execution W (dp_id (last plans)) job_id worker token now db)
         (\<lambda>(db', e). Inr (db', Some e))))))"

text \<open>The contract's or the result's fields are the arguments; an absent field is \<open>None\<close>.\<close>

definition adapter_complete_browser_evidence_execution ::
    "world \<Rightarrow> 'k adapter \<Rightarrow> string \<Rightarrow> string \<Rightarrow> string \<Rightarrow> string \<Rightarrow> string option \<Rightarrow> string option
     \<Rightarrow> string option \<Rightarrow> ('k, browser_execution_row option) action" where
  "adapter_complete_browser_evidence_execution W A job_id worker token execution_id route title body =
     unless_stale (transaction A (\<lambda>now db.
       bindR (complete_browser_evidence_execution W job_id worker token execution_id route title body now db)
         (\<lambda>(db', e). Inr (db', Some e))))"

definition adapter_authorize_database_query_execution ::
    "'k adapter \<Rightarrow> string \<Rightarrow> string \<Rightarrow> string \<Rightarrow> string option
     \<Rightarrow> ('k, database_execution_row option) action" where
  "adapter_authorize_database_query_execution A job_id worker token contract_id =
     unless_stale (reading A (\<lambda>now db.
       bindR (authorize_database_query_execution (case contract_id of None \<Rightarrow> [] | Some i \<Rightarrow> i)
                job_id worker token now db) (\<lambda>e. Inr (Some e))))"

definition adapter_complete_database_query_execution ::
    "world \<Rightarrow> 'k adapter \<Rightarrow> string \<Rightarrow> string \<Rightarrow> string \<Rightarrow> string
     \<Rightarrow> ('k, database_execution_row option) action" where
  "adapter_complete_database_query_execution W A job_id worker token execution_id =
     unless_stale (transaction A (\<lambda>now db.
       bindR (complete_database_query_execution W job_id worker token execution_id now db)
         (\<lambda>(db', e). Inr (db', Some e))))"

section \<open>Committing a stage\<close>

text \<open>\<open>_ROLE_STATES\<close>.\<close>

fun role_states :: "WorkerRole \<Rightarrow> ItemState \<times> ItemState" where
  "role_states Investigator = (Backlog, Investigating)"
| "role_states Fixer = (ReadyForFix, Fixing)"
| "role_states Tester = (ReadyForTest, Testing)"

definition local_write_approval_action :: string where
  "local_write_approval_action = ''local_code_changes''"

definition next_job_of :: "WorkerRole \<Rightarrow> (string \<times> json) list \<Rightarrow> next_job" where
  "next_job_of role payload =
     \<lparr>nj_role = worker_role_value role, nj_stage = worker_role_value role,
      nj_queued_state = Some (item_state_value (fst (role_states role))),
      nj_active_state = item_state_value (snd (role_states role)), nj_payload = payload,
      nj_required_resources = [],
      nj_required_approval_action =
        (if role = Fixer then Some local_write_approval_action else None),
      nj_workspace_kind = None, nj_managed_worktree_id = None, nj_priority = None,
      nj_available_at = None, nj_job_id = None\<rparr>"

definition adapter_commit_stage_result ::
    "world \<Rightarrow> 'k adapter \<Rightarrow> string \<Rightarrow> string \<Rightarrow> string \<Rightarrow> handoff \<Rightarrow> ItemState \<Rightarrow> string
     \<Rightarrow> (WorkerRole \<times> (string \<times> json) list) option \<Rightarrow> ('k, bool) action" where
  "adapter_commit_stage_result W A job_id worker token result next_state event_type next_job =
     sequel (adapter_get_job A job_id) (\<lambda>current.
     accepted (sequel (draw A) (\<lambda>fresh. mutation A (\<lambda>now.
       exec W now (CommitStageResult job_id worker token result
         (item_state_value (jb_active_state current)) (item_state_value next_state) event_type
         [(''role'', JStr (worker_role_value (jb_role current)))]
         (map_option (\<lambda>(role, payload). next_job_of role payload) next_job) fresh)))))"

end
