(* ===== verification/Scheduling.thy ===== *)
theory Scheduling
  imports Adapting
begin

text \<open>
  The scheduler of \<^verbatim>\<open>scheduler.py\<close>: what a worker's output becomes, how one claimed job is
  executed and ended on every path, and one tick that recovers, reaps and claims.  A worker's run
  between the claim and the end of its job is an arbitrary action on the store, its heartbeats
  included; the tasks of the event loop are the states of the slots.
\<close>

section \<open>Dumping a handoff\<close>

fun evidence_kind_value :: "EvidenceKind \<Rightarrow> string" where
  "evidence_kind_value EvBrowser = ''browser''"
| "evidence_kind_value EvScreenshot = ''screenshot''"
| "evidence_kind_value EvDatabase = ''database''"
| "evidence_kind_value EvTest = ''test''"
| "evidence_kind_value EvGl = ''gl''"
| "evidence_kind_value EvApi = ''api''"
| "evidence_kind_value EvLog = ''log''"
| "evidence_kind_value EvExport = ''export''"
| "evidence_kind_value EvDocument = ''document''"
| "evidence_kind_value EvOther = ''other''"

fun gate_result_value :: "GateResult \<Rightarrow> string" where
  "gate_result_value GatePass = ''pass''"
| "gate_result_value GateFail = ''fail''"
| "gate_result_value GateNotApplicable = ''not_applicable''"

fun investigation_outcome_value :: "InvestigationOutcome \<Rightarrow> string" where
  "investigation_outcome_value InvestigationReadyForFix = ''ready_for_fix''"
| "investigation_outcome_value InvestigationBlocked = ''blocked''"

fun fix_outcome_value :: "FixOutcome \<Rightarrow> string" where
  "fix_outcome_value FixReadyForTest = ''ready_for_test''"
| "fix_outcome_value FixBlocked = ''blocked''"

fun test_outcome_value :: "TestOutcome \<Rightarrow> string" where
  "test_outcome_value TestPass = ''pass''"
| "test_outcome_value TestRed = ''red''"
| "test_outcome_value TestBlocked = ''blocked''"

fun blocker_kind_value :: "BlockerKind \<Rightarrow> string" where
  "blocker_kind_value ExecutionBlocker = ''execution''"
| "blocker_kind_value ProductDecision = ''product_decision''"

fun gate_decision_value :: "GateDecision \<Rightarrow> string" where
  "gate_decision_value DecideGreen = ''verified_green''"
| "gate_decision_value ReturnToFix = ''return_to_fix''"
| "gate_decision_value DecideBlocked = ''blocked''"
| "gate_decision_value Rejected = ''rejected''"

definition texts_json :: "string list \<Rightarrow> json" where
  "texts_json ts = JArr (map JStr ts)"

definition evidence_json :: "evidence_ref \<Rightarrow> json" where
  "evidence_json e =
     JObj [(''id'', JStr (ev_id e)), (''kind'', JStr (evidence_kind_value (ev_kind e))),
       (''location'', JStr (ev_location e)), (''description'', JStr (ev_description e)),
       (''metadata'', ev_metadata e)]"

definition evidences_json :: "evidence_ref list \<Rightarrow> json" where
  "evidences_json es = JArr (map evidence_json es)"

definition blocker_json :: "blocker option \<Rightarrow> json" where
  "blocker_json v =
     (case v of
        None \<Rightarrow> JNull
      | Some b \<Rightarrow> JObj [(''kind'', JStr (blocker_kind_value (bl_kind b))),
          (''summary'', JStr (bl_summary b)), (''next_action'', JStr (bl_next_action b)),
          (''evidence'', evidences_json (bl_evidence b))])"

definition proof_json :: "gate_proof \<Rightarrow> json" where
  "proof_json p =
     JObj [(''gate'', JStr (gate_value (gp_gate p))),
       (''result'', JStr (gate_result_value (gp_result p))), (''summary'', JStr (gp_summary p)),
       (''evidence'', evidences_json (gp_evidence p))]"

definition handoff_json :: "handoff \<Rightarrow> json" where
  "handoff_json h =
     (case h of
        HInvestigation i \<Rightarrow>
          JObj [(''schema_version'', JNum 1), (''item_id'', JStr (ih_item_id i)),
            (''outcome'', JStr (investigation_outcome_value (ih_outcome i))),
            (''synopsis'', JStr (ih_synopsis i)),
            (''reproduction_steps'', texts_json (ih_reproduction_steps i)),
            (''root_cause'', JStr (ih_root_cause i)), (''proposed_fix'', JStr (ih_proposed_fix i)),
            (''acceptance_criteria'', texts_json (ih_acceptance_criteria i)),
            (''evidence'', evidences_json (ih_evidence i)), (''blocker'', blocker_json (ih_blocker i))]
      | HFix f \<Rightarrow>
          JObj [(''schema_version'', JNum 1), (''item_id'', JStr (fh_item_id f)),
            (''outcome'', JStr (fix_outcome_value (fh_outcome f))), (''summary'', JStr (fh_summary f)),
            (''changed_files'', texts_json (fh_changed_files f)),
            (''tests_run'', texts_json (fh_tests_run f)),
            (''tester_instructions'', texts_json (fh_tester_instructions f)),
            (''evidence'', evidences_json (fh_evidence f)), (''blocker'', blocker_json (fh_blocker f))]
      | HTest t \<Rightarrow>
          JObj [(''schema_version'', JNum 1), (''item_id'', JStr (th_item_id t)),
            (''outcome'', JStr (test_outcome_value (th_outcome t))), (''summary'', JStr (th_summary t)),
            (''gate_proofs'', JArr (map proof_json (th_gate_proofs t))),
            (''failure_summary'', opt_str (th_failure_summary t)),
            (''blocker'', blocker_json (th_blocker t))])"

definition gates_json :: "GateKind list \<Rightarrow> json" where
  "gates_json gs = JArr (map (\<lambda>g. JStr (gate_value g)) gs)"

definition evaluation_json :: "gate_evaluation \<Rightarrow> json" where
  "evaluation_json e =
     JObj [(''decision'', JStr (gate_decision_value (ge_decision e))),
       (''next_state'', opt_str (map_option item_state_value (ge_next_state e))),
       (''missing_gates'', gates_json (ge_missing_gates e)),
       (''failed_gates'', gates_json (ge_failed_gates e)),
       (''inapplicable_required_gates'', gates_json (ge_inapplicable_required_gates e)),
       (''reasons'', texts_json (ge_reasons e))]"

section \<open>What an output becomes\<close>

text \<open>A worker returns a handoff, with whatever item it names, or something else.\<close>

datatype worker_output = Returned handoff | NotAHandoff

fun bound_to :: "string \<Rightarrow> handoff \<Rightarrow> handoff" where
  "bound_to item (HInvestigation i) = HInvestigation (i\<lparr>ih_item_id := item\<rparr>)"
| "bound_to item (HFix f) = HFix (f\<lparr>fh_item_id := item\<rparr>)"
| "bound_to item (HTest t) = HTest (t\<lparr>th_item_id := item\<rparr>)"

definition validate_and_bind_output ::
    "WorkerRole \<Rightarrow> string \<Rightarrow> worker_output \<Rightarrow> scheduler_error + handoff" where
  "validate_and_bind_output role item_id output =
     (case output of
        NotAHandoff \<Rightarrow> Inl InvalidWorkerOutput
      | Returned h \<Rightarrow>
          (case validate_handoff role (bound_to item_id h) of
             Inl _ \<Rightarrow> Inl InvalidWorkerOutput
           | Inr v \<Rightarrow> Inr v))"

definition validate_evidence_attachments :: "world \<Rightarrow> bool \<Rightarrow> handoff \<Rightarrow> scheduler_error + unit" where
  "validate_evidence_attachments W allow h =
     (if list_all (evidence_attached W allow) (handoff_evidence h) then Inr ()
      else Inl InvalidWorkerOutput)"

text \<open>What \<open>_finalize_handoff\<close> asks the store for: the next state, the event and the next job.\<close>

type_synonym stage_decision =
  "ItemState \<times> string \<times> (WorkerRole \<times> (string \<times> json) list) option"

definition decide_stage :: "GateKind list \<Rightarrow> handoff \<Rightarrow> scheduler_error + stage_decision" where
  "decide_stage required_gates h =
     (case h of
        HInvestigation i \<Rightarrow>
          Inr (if ih_outcome i = InvestigationBlocked
               then (Blocked, ''investigation_blocked'', None)
               else (ReadyForFix, ''investigation_completed'',
                     Some (Fixer, [(''investigation_handoff'', handoff_json h)])))
      | HFix f \<Rightarrow>
          Inr (if fh_outcome f = FixBlocked then (Blocked, ''fix_blocked'', None)
               else (ReadyForTest, ''fix_completed'',
                     Some (Tester, [(''fix_handoff'', handoff_json h)])))
      | HTest t \<Rightarrow>
          (case evaluate_test_handoff required_gates t of
             Inl _ \<Rightarrow> Inl RuntimeFailure
           | Inr evaluation \<Rightarrow>
               (case ge_next_state evaluation of
                  None \<Rightarrow> Inl InvalidWorkerOutput
                | Some next_state \<Rightarrow>
                    if next_state = VerifiedGreen
                    then Inr (VerifiedGreen, ''test_verified_green'', None)
                    else if next_state = ReadyForFix
                    then Inr (ReadyForFix, ''test_returned_to_fix'',
                      Some (Fixer, [(''test_failure'', handoff_json h),
                                    (''gate_evaluation'', evaluation_json evaluation)]))
                    else if next_state = Blocked then Inr (Blocked, ''test_blocked'', None)
                    else Inl RuntimeFailure)))"

section \<open>Ending a claimed job\<close>

definition lease_token_of :: "job_row \<Rightarrow> ('k, string) action" where
  "lease_token_of job =
     (case jb_lease_token job of None \<Rightarrow> throw LeaseLost | Some t \<Rightarrow> yield t)"

definition poll_interrupt ::
    "world \<Rightarrow> 'k adapter \<Rightarrow> string \<Rightarrow> job_row \<Rightarrow> ('k, scheduler_error option) action" where
  "poll_interrupt W A worker job =
     sequel (lease_token_of job) (\<lambda>token.
     sequel (adapter_poll_operator_interrupt W A (jb_id job) worker token) (\<lambda>found.
       yield (map_option (\<lambda>c. OperatorInterruption (oc_id c) (oc_reason c)) found)))"

definition raise_pending ::
    "world \<Rightarrow> 'k adapter \<Rightarrow> string \<Rightarrow> job_row \<Rightarrow> ('k, 'a) action \<Rightarrow> ('k, 'a) action" where
  "raise_pending W A worker job otherwise =
     sequel (poll_interrupt W A worker job) (\<lambda>found.
       case found of None \<Rightarrow> otherwise | Some e \<Rightarrow> throw e)"

definition finalize_handoff ::
    "world \<Rightarrow> 'k adapter \<Rightarrow> string \<Rightarrow> job_row \<Rightarrow> handoff \<Rightarrow> ('k, unit) action" where
  "finalize_handoff W A worker job h =
     sequel (lease_token_of job) (\<lambda>token.
     sequel (case h of
               HTest _ \<Rightarrow> sequel (adapter_get_work_item A (jb_item_id job))
                            (\<lambda>item. yield (it_required_gates item))
             | _ \<Rightarrow> yield []) (\<lambda>gates.
     case decide_stage gates h of
       Inl e \<Rightarrow> throw e
     | Inr (next_state, event_type, next_job) \<Rightarrow>
         sequel (adapter_commit_stage_result W A (jb_id job) worker token h next_state event_type
                   next_job) (\<lambda>ok.
         if ok then yield () else raise_pending W A worker job (throw LeaseLost))))"

text \<open>How a claim ended for the scheduler: what becomes of its list of stale jobs and its errors.\<close>

datatype claim_note = Kept | Stale | Recovered "string list"

type_synonym claim_end = "claim_note \<times> scheduler_error list"

definition stale_unless :: "bool \<Rightarrow> claim_end" where
  "stale_unless ok = (if ok then Kept else Stale, [])"

text \<open>
  The \<open>except\<close> clauses of \<open>_execute_claim\<close>; \<open>recover\<close> is \<open>recover_expired_leases\<close> of the storage
  and \<open>message\<close> the text of an exception.
\<close>

definition end_on_error ::
    "world \<Rightarrow> 'k adapter \<Rightarrow> ('k, string list) action \<Rightarrow> (scheduler_error \<Rightarrow> string) \<Rightarrow> int \<Rightarrow> string
     \<Rightarrow> job_row \<Rightarrow> string \<Rightarrow> scheduler_error \<Rightarrow> ('k, claim_end) action" where
  "end_on_error W A recover message max_attempts worker job token e =
     (case e of
        OperatorInterruption request reason \<Rightarrow>
          sequel (adapter_complete_operator_interrupt W A request (jb_id job) worker token reason)
            (\<lambda>ok. yield (stale_unless ok))
      | LeaseLost \<Rightarrow> yield (Stale, [])
      | HeartbeatStorageFailure \<Rightarrow>
          handle
            (sequel (adapter_interrupt_job W A (jb_id job) worker token
                       ''heartbeat storage failure interrupted active work'') (\<lambda>ok.
             if ok then yield (Kept, [e])
             else sequel recover (\<lambda>ids. yield (Recovered ids, [e]))))
            (\<lambda>again. yield (Kept, [e, again]))
      | _ \<Rightarrow>
          sequel (adapter_fail_job W A (jb_id job) worker token (message e) max_attempts) (\<lambda>ok.
          if ok then yield (Kept, [])
          else
            sequel (poll_interrupt W A worker job) (\<lambda>found.
            case found of
              Some (OperatorInterruption request reason) \<Rightarrow>
                sequel (adapter_complete_operator_interrupt W A request (jb_id job) worker token reason)
                  (\<lambda>completed. yield (stale_unless completed))
            | _ \<Rightarrow> yield (Stale, []))))"

text \<open>\<open>_execute_claim\<close>.  \<open>run\<close> is the worker with its heartbeat.\<close>

definition execute_claim ::
    "world \<Rightarrow> 'k adapter \<Rightarrow> ('k, string list) action \<Rightarrow> (scheduler_error \<Rightarrow> string) \<Rightarrow> int \<Rightarrow> bool
     \<Rightarrow> string \<Rightarrow> job_row \<Rightarrow> ('k, worker_output) action \<Rightarrow> ('k, claim_end) action" where
  "execute_claim W A recover message max_attempts allow worker job run =
     (case jb_lease_token job of
        None \<Rightarrow> throw RuntimeFailure
      | Some token \<Rightarrow>
          handle
            (sequel (adapter_get_campaign A (jb_campaign_id job)) (\<lambda>_.
             sequel (adapter_get_work_item A (jb_item_id job)) (\<lambda>_.
             sequel run (\<lambda>output.
             raise_pending W A worker job (
             case validate_and_bind_output (jb_role job) (jb_item_id job) output of
               Inl e \<Rightarrow> throw e
             | Inr h \<Rightarrow>
                 (case validate_evidence_attachments W allow h of
                    Inl e \<Rightarrow> throw e
                  | Inr _ \<Rightarrow>
                      sequel (finalize_handoff W A worker job h) (\<lambda>_. yield (Kept, []))))))))
            (end_on_error W A recover message max_attempts worker job token))"

section \<open>The scheduler and the store agree\<close>

text \<open>Validation keeps the item a handoff is bound to, up to the blanks around its name.\<close>

lemma validated_item:
  "validate_handoff role h = Inr h' \<Longrightarrow> handoff_item_id h' = py_strip (handoff_item_id h)"
  by (auto simp: validate_handoff_def handoff_item_id_def validate_investigation_handoff_def
      validate_fix_handoff_def validate_test_handoff_def Let_def
      split: WorkerRole.splits handoff.splits if_splits dest!: validate_test_outcome_Inr)

lemma bound_item: "handoff_item_id (bound_to i h) = i"
  by (cases h) (simp_all add: handoff_item_id_def)

lemma bound_output:
  assumes "validate_and_bind_output role i output = Inr h"
  shows bound_output_valid: "validate_handoff role h = Inr h"
    and bound_output_item: "handoff_item_id h = py_strip i"
proof -
  obtain raw where raw: "validate_handoff role (bound_to i raw) = Inr h"
    using assms by (auto simp: validate_and_bind_output_def split: worker_output.splits sum.splits)
  then show "validate_handoff role h = Inr h" by (rule validate_handoff_idem)
  show "handoff_item_id h = py_strip i" using validated_item [OF raw] by (simp add: bound_item)
qed

text \<open>The decision on a tester's handoff is the state of the gate evaluation.\<close>

lemma decide_test:
  assumes "decide_stage gates (HTest t) = Inr (next_state, event, next_job)"
  obtains e where "evaluate_test_handoff gates t = Inr e" "ge_next_state e = Some next_state"
    "next_state \<in> {VerifiedGreen, ReadyForFix, Blocked}"
    "map_option fst next_job = (if next_state = ReadyForFix then Some Fixer else None)"
  using assms by (auto simp: decide_stage_def split: sum.splits option.splits if_splits)

lemma decided_stage:
  assumes valid: "validate_handoff role h = Inr h"
    and decided: "decide_stage gates h = Inr (next_state, event, next_job)"
  shows decided_allowed: "next_state \<in> set (stage_next_states role)"
    and decided_successor:
      "map_option (\<lambda>(r, _). worker_role_value r) next_job = successor_role next_state"
    and decided_expected: "role \<noteq> Tester \<Longrightarrow> expected_next_state h = next_state"
proof -
  have "next_state \<in> set (stage_next_states role)
      \<and> map_option (\<lambda>(r, _). worker_role_value r) next_job = successor_role next_state
      \<and> (role \<noteq> Tester \<longrightarrow> expected_next_state h = next_state)"
  proof (cases h)
    case (HInvestigation i)
    with valid have "role = Investigator"
      by (cases role) (simp_all add: validate_handoff_def)
    with HInvestigation decided show ?thesis
      by (auto simp: decide_stage_def stage_next_states_def successor_role_def
          expected_next_state_def split: if_splits)
  next
    case (HFix f)
    with valid have "role = Fixer" by (cases role) (simp_all add: validate_handoff_def)
    with HFix decided show ?thesis
      by (auto simp: decide_stage_def stage_next_states_def successor_role_def
          expected_next_state_def split: if_splits)
  next
    case (HTest t)
    with valid have role: "role = Tester" by (cases role) (simp_all add: validate_handoff_def)
    obtain e where "next_state \<in> {VerifiedGreen, ReadyForFix, Blocked}"
      "map_option fst next_job = (if next_state = ReadyForFix then Some Fixer else None)"
      using decided unfolding HTest by (rule decide_test)
    with role show ?thesis
      by (auto simp: stage_next_states_def successor_role_def split: if_splits)
  qed
  then show "next_state \<in> set (stage_next_states role)"
    "map_option (\<lambda>(r, _). worker_role_value r) next_job = successor_role next_state"
    "role \<noteq> Tester \<Longrightarrow> expected_next_state h = next_state" by blast+
qed




section \<open>A claim always ends\<close>

text \<open>\<open>raises P m\<close>: every exception of the action satisfies \<open>P\<close>.\<close>

definition raises :: "(scheduler_error \<Rightarrow> bool) \<Rightarrow> ('k, 'a) action \<Rightarrow> bool" where
  "raises P m \<longleftrightarrow> (\<forall>s e s'. m s = (Inl e, s') \<longrightarrow> P e)"

definition by_the_store :: "scheduler_error \<Rightarrow> bool" where
  "by_the_store e \<longleftrightarrow> (\<exists>x. e = StorageRaised x \<and> x \<noteq> LeaseConflict)"

named_theorems raises_intros

lemma raises_yield [raises_intros]: "raises P (yield x)"
  by (simp add: raises_def yield_def)

lemma raises_throw: "P e \<Longrightarrow> raises P (throw e)"
  by (simp add: raises_def throw_def)

lemma raises_sequel [raises_intros]:
  "raises P m \<Longrightarrow> (\<And>x. raises P (f x)) \<Longrightarrow> raises P (sequel m f)"
  unfolding raises_def sequel_def by (simp split: prod.split sum.split) blast

lemma raises_handle: "(\<And>e. raises P (h e)) \<Longrightarrow> raises P (handle m h)"
  unfolding raises_def handle_def by (auto split: prod.splits sum.splits)

lemma raises_handled:
  "raises Q m \<Longrightarrow> (\<And>e. Q e \<Longrightarrow> raises P (h e)) \<Longrightarrow> raises P (handle m h)"
  unfolding raises_def handle_def by (simp split: prod.split sum.split) blast

lemma raises_transaction: "raises (\<lambda>e. \<exists>x. e = StorageRaised x) (transaction A body)"
  by (auto simp: raises_def transaction_def Let_def split: prod.splits sum.splits)

lemma raises_accepted [raises_intros]: "raises by_the_store (accepted (mutation A body))"
proof -
  have "raises (\<lambda>e. \<exists>x. e = StorageRaised x) (sequel (mutation A body) (\<lambda>_. yield True))"
    unfolding mutation_def by (intro raises_sequel raises_transaction raises_yield)
  then show ?thesis
    unfolding accepted_def
    by (rule raises_handled) (auto simp: by_the_store_def intro: raises_yield raises_throw)
qed

lemma raises_unless_stale [raises_intros]: "raises by_the_store (unless_stale (reading A body))"
proof -
  have "raises (\<lambda>e. \<exists>x. e = StorageRaised x) (reading A body)"
    unfolding reading_def by (rule raises_transaction)
  then show ?thesis
    unfolding unless_stale_def
    by (rule raises_handled) (auto simp: by_the_store_def intro: raises_yield raises_throw)
qed

lemma raises_ends [raises_intros]:
  "raises by_the_store (adapter_complete_operator_interrupt W A r i w t reason)"
  "raises by_the_store (adapter_interrupt_job W A i w t reason)"
  "raises by_the_store (adapter_fail_job W A i w t error n)"
  unfolding adapter_complete_operator_interrupt_def adapter_interrupt_job_def adapter_fail_job_def
  by (rule raises_accepted)+

lemma raises_poll: "jb_lease_token job = Some t \<Longrightarrow> raises by_the_store (poll_interrupt W A w job)"
  unfolding poll_interrupt_def lease_token_of_def adapter_poll_operator_interrupt_def
  by (simp, intro raises_intros)

lemma raises_end_on_error:
  assumes "jb_lease_token job = Some t"
  shows "raises by_the_store (end_on_error W A recover message n w job t e)"
proof -
  have failed: "raises by_the_store
     (sequel (adapter_fail_job W A (jb_id job) w t what n) (\<lambda>ok.
        if ok then yield (Kept, [])
        else sequel (poll_interrupt W A w job) (\<lambda>found.
          case found of
            Some (OperatorInterruption request reason) \<Rightarrow>
              sequel (adapter_complete_operator_interrupt W A request (jb_id job) w t reason)
                (\<lambda>completed. yield (stale_unless completed))
          | _ \<Rightarrow> yield (Stale, []))))" for what
    by (intro raises_intros raises_poll [OF assms])
      (auto split: option.split scheduler_error.split intro!: raises_intros raises_poll [OF assms])
  show ?thesis
    using failed by (cases e) (auto simp: end_on_error_def intro!: raises_intros raises_handle)
qed

text \<open>
  A claim always ends where the scheduler can see it.  Whatever the worker returned or raised,
  whatever its heartbeat met and however its lease or an operator stopped it, an exception leaves
  \<open>_execute_claim\<close> only when the store itself raised one, other than a lease conflict, while the end
  of the job was being recorded.
\<close>

lemma claim_ends_quietly:
  assumes "jb_lease_token job = Some token"
    and "execute_claim W A recover message max_attempts allow worker job run s = (Inl e, s')"
  shows "\<exists>x. e = StorageRaised x \<and> x \<noteq> LeaseConflict"
proof -
  have "raises by_the_store (execute_claim W A recover message max_attempts allow worker job run)"
    using assms(1) by (simp add: execute_claim_def raises_handle raises_end_on_error)
  with assms(2) show ?thesis unfolding raises_def by_the_store_def by blast
qed

end
