(* ===== verification/Dispatching.thy ===== *)
theory Dispatching
  imports Scheduling
begin

text \<open>
  The scheduler object of \<^verbatim>\<open>scheduler.py\<close>: its worker slots, the order in which free slots claim,
  one turn of \<open>run_once\<close>, the heartbeat, the fenced calls a worker makes, how a claim's end is kept
  and the shutdown.  Each definition is a stretch of code that the event loop does not interrupt;
  the relation \<open>dispatched\<close> interleaves them.
\<close>

section \<open>Slots\<close>

text \<open>A task of the event loop; \<open>Cancelling\<close> is a pending task whose cancellation is requested.\<close>

datatype task_state = Pending | Cancelling | Done | Cancelled | Failed scheduler_error

fun task_done :: "task_state \<Rightarrow> bool" where
  "task_done Pending = False"
| "task_done Cancelling = False"
| "task_done Done = True"
| "task_done Cancelled = True"
| "task_done (Failed _) = True"

fun task_cancel :: "task_state \<Rightarrow> task_state" where
  "task_cancel Pending = Cancelling"
| "task_cancel t = t"

text \<open>A slot's \<open>job_id\<close> is the identifier of its \<open>job\<close>: both are set and cleared together.\<close>

record worker_slot =
  ws_role :: WorkerRole
  ws_worker_id :: string
  ws_task :: "task_state option"
  ws_job :: "job_row option"

definition is_free :: "worker_slot \<Rightarrow> bool" where "is_free w \<longleftrightarrow> ws_task w = None"

text \<open>A heartbeat interval of \<open>None\<close> is a third of the lease.\<close>

record scheduler =
  sc_slots :: "worker_slot list"
  sc_limit :: int
  sc_lease_seconds :: int
  sc_heartbeat_interval :: "int option"
  sc_max_attempts :: int
  sc_heartbeat_retries :: int
  sc_allow_simulated :: bool
  sc_errors :: "scheduler_error list"
  sc_stale_job_ids :: "string list"
  sc_role_cursor :: nat
  sc_recovery_progressed :: bool

definition worker_name :: "string \<Rightarrow> WorkerRole \<Rightarrow> nat \<Rightarrow> string" where
  "worker_name prefix role index =
     prefix @ ''-'' @ worker_role_value role @ ''-'' @ str_int (int index + 1)"

text \<open>A pool is given as the roles of its workers.\<close>

definition pool_slots :: "string \<Rightarrow> WorkerRole \<Rightarrow> WorkerRole list \<Rightarrow> worker_slot list" where
  "pool_slots prefix role workers =
     map (\<lambda>i. \<lparr>ws_role = role, ws_worker_id = worker_name prefix role i, ws_task = None, ws_job = None\<rparr>)
       [0..<length workers]"

definition scheduler_init ::
    "(WorkerRole \<Rightarrow> WorkerRole list) \<Rightarrow> int \<Rightarrow> int \<Rightarrow> int option \<Rightarrow> int \<Rightarrow> int \<Rightarrow> string \<Rightarrow> bool
     \<Rightarrow> store_error + scheduler" where
  "scheduler_init pools limit lease_seconds heartbeat max_attempts retries prefix allow =
     check (1 \<le> limit) ValueError (
     check (0 < lease_seconds) ValueError (
     check (1 \<le> max_attempts) ValueError (
     check (0 \<le> retries) ValueError (
     check (case heartbeat of None \<Rightarrow> True | Some h \<Rightarrow> 0 < h \<and> h < lease_seconds) ValueError (
     check (list_all (\<lambda>role. list_all (\<lambda>w. w = role) (pools role)) all_worker_roles) ValueError (
     Inr \<lparr>sc_slots = concat (map (\<lambda>role. pool_slots prefix role (pools role)) all_worker_roles),
          sc_limit = limit, sc_lease_seconds = lease_seconds, sc_heartbeat_interval = heartbeat,
          sc_max_attempts = max_attempts, sc_heartbeat_retries = retries, sc_allow_simulated = allow,
          sc_errors = [], sc_stale_job_ids = [], sc_role_cursor = 0,
          sc_recovery_progressed = False\<rparr>))))))"

definition active_count :: "scheduler \<Rightarrow> nat" where
  "active_count sc = length (filter (\<lambda>w. \<not> is_free w) (sc_slots sc))"

definition active_job_ids :: "scheduler \<Rightarrow> string list" where
  "active_job_ids sc = map jb_id (List.map_filter ws_job (sc_slots sc))"

section \<open>Recovered and finished work\<close>

definition note_stale :: "string \<Rightarrow> scheduler \<Rightarrow> scheduler" where
  "note_stale i sc =
     (if i \<in> set (sc_stale_job_ids sc) then sc
      else sc\<lparr>sc_stale_job_ids := sc_stale_job_ids sc @ [i]\<rparr>)"

definition record_recovered_job_ids :: "string list \<Rightarrow> scheduler \<Rightarrow> scheduler" where
  "record_recovered_job_ids ids sc = fold note_stale (sort (remdups ids)) sc"

definition cancel_recovered_jobs :: "string list \<Rightarrow> scheduler \<Rightarrow> scheduler" where
  "cancel_recovered_jobs ids sc =
     (let sc' = record_recovered_job_ids ids sc
      in sc'\<lparr>sc_slots := map (\<lambda>w.
           if (case ws_job w of None \<Rightarrow> False | Some j \<Rightarrow> jb_id j \<in> set ids)
           then w\<lparr>ws_task := map_option task_cancel (ws_task w)\<rparr> else w) (sc_slots sc')\<rparr>)"

definition finished_slot :: "worker_slot \<Rightarrow> bool" where
  "finished_slot w \<longleftrightarrow> (case ws_task w of None \<Rightarrow> False | Some t \<Rightarrow> task_done t)"

fun task_errors :: "task_state option \<Rightarrow> scheduler_error list" where
  "task_errors (Some (Failed e)) = [e]"
| "task_errors _ = []"

definition reap_finished_slots :: "scheduler \<Rightarrow> scheduler" where
  "reap_finished_slots sc =
     sc\<lparr>sc_errors := sc_errors sc @ concat (map (\<lambda>w. task_errors (ws_task w)) (sc_slots sc)),
        sc_slots := map (\<lambda>w. if finished_slot w then w\<lparr>ws_task := None, ws_job := None\<rparr> else w)
          (sc_slots sc)\<rparr>"

section \<open>Claiming\<close>

text \<open>The slots are named by their index.\<close>

definition slots_by_role :: "worker_slot list \<Rightarrow> WorkerRole \<Rightarrow> nat list" where
  "slots_by_role slots role = filter (\<lambda>i. ws_role (slots ! i) = role) [0..<length slots]"

definition ordered_roles :: "nat \<Rightarrow> WorkerRole list" where
  "ordered_roles cursor = drop cursor all_worker_roles @ take cursor all_worker_roles"

definition max_lanes :: "worker_slot list \<Rightarrow> nat" where
  "max_lanes slots = fold max (map (\<lambda>r. length (slots_by_role slots r)) all_worker_roles) 0"

definition claim_order :: "nat \<Rightarrow> worker_slot list \<Rightarrow> nat list" where
  "claim_order cursor slots =
     concat (map (\<lambda>lane. concat (map (\<lambda>role.
         if lane < length (slots_by_role slots role) then [slots_by_role slots role ! lane] else [])
       (ordered_roles cursor))) [0..<max_lanes slots])"

definition validate_claim :: "job_row \<Rightarrow> worker_slot \<Rightarrow> scheduler_error + unit" where
  "validate_claim job w =
     check (jb_role job = ws_role w) RuntimeFailure (
     check (jb_lease_token job \<noteq> None \<and> jb_lease_token job \<noteq> Some []
            \<and> jb_lease_owner job = Some (ws_worker_id w)) RuntimeFailure (Inr ()))"

definition occupy :: "nat \<Rightarrow> job_row \<Rightarrow> scheduler \<Rightarrow> scheduler" where
  "occupy i job sc =
     sc\<lparr>sc_slots := (sc_slots sc)[i := (sc_slots sc ! i)\<lparr>ws_task := Some Pending, ws_job := Some job\<rparr>]\<rparr>"

text \<open>
  The loop of \<open>run_once\<close> over the claim order: how many jobs it claimed, the role of the last one,
  and the scheduler it leaves, also when it ends in an exception.
\<close>

type_synonym turn_end = "scheduler_error + (nat \<times> WorkerRole option)"

primrec fill_slots ::
    "world \<Rightarrow> 'k adapter \<Rightarrow> nat list \<Rightarrow> nat \<times> WorkerRole option \<Rightarrow> scheduler \<Rightarrow> 'k \<times> store
     \<Rightarrow> turn_end \<times> scheduler \<times> 'k \<times> store" where
  "fill_slots W A [] acc sc s = (Inr acc, sc, s)"
| "fill_slots W A (i # is) acc sc s =
     (let w = sc_slots sc ! i
      in if sc_limit sc \<le> int (active_count sc) then (Inr acc, sc, s)
         else if \<not> is_free w then fill_slots W A is acc sc s
         else
           (case adapter_claim_job W A (ws_role w) (ws_worker_id w) (sc_lease_seconds sc) s of
              (Inl e, s') \<Rightarrow> (Inl e, sc, s')
            | (Inr None, s') \<Rightarrow> fill_slots W A is acc sc s'
            | (Inr (Some job), s') \<Rightarrow>
                (case validate_claim job w of
                   Inl e \<Rightarrow> (Inl e, sc, s')
                 | Inr _ \<Rightarrow> fill_slots W A is (Suc (fst acc), Some (ws_role w)) (occupy i job sc) s')))"

definition role_index :: "WorkerRole \<Rightarrow> nat" where
  "role_index role = (case role of Investigator \<Rightarrow> 0 | Fixer \<Rightarrow> 1 | Tester \<Rightarrow> 2)"

definition advance_cursor :: "turn_end \<Rightarrow> scheduler \<Rightarrow> scheduler" where
  "advance_cursor r sc =
     (case r of
        Inr (_, Some role) \<Rightarrow> sc\<lparr>sc_role_cursor := (role_index role + 1) mod 3\<rparr>
      | _ \<Rightarrow> sc)"

text \<open>\<open>run_once\<close> from the end of the recovery thread to the claims it counts.\<close>

definition run_once ::
    "world \<Rightarrow> 'k adapter \<Rightarrow> lease_recovery_batch \<Rightarrow> scheduler \<Rightarrow> 'k \<times> store
     \<Rightarrow> (scheduler_error + nat) \<times> scheduler \<times> 'k \<times> store" where
  "run_once W A recovery sc s =
     (let recovered = lb_recovered_job_ids recovery;
          sc1 = sc\<lparr>sc_recovery_progressed :=
            recovered \<noteq> [] \<or> lb_reconciliation_count recovery \<noteq> 0\<rparr>;
          sc2 = reap_finished_slots (cancel_recovered_jobs recovered sc1)
      in (case fill_slots W A (claim_order (sc_role_cursor sc2) (sc_slots sc2)) (0, None) sc2 s of
            (r, sc3, s') \<Rightarrow> (map_sum id fst r, advance_cursor r sc3, s')))"

text \<open>What \<open>run_until_quiescent\<close> does after a turn that made this many claims.\<close>

datatype after_turn = WaitForTask | TurnAgain | Quiescent

definition after_claims :: "nat \<Rightarrow> scheduler \<Rightarrow> after_turn" where
  "after_claims claims sc =
     (if \<not> list_all is_free (sc_slots sc) then WaitForTask
      else if claims = 0 \<and> \<not> sc_recovery_progressed sc then Quiescent else TurnAgain)"

section \<open>The worker's side of a claim\<close>

text \<open>The fenced calls of a worker: a call the store rejects as stale is a lost lease.\<close>

definition holding :: "job_row \<Rightarrow> (string \<Rightarrow> ('k, bool) action) \<Rightarrow> ('k, unit) action" where
  "holding job call =
     sequel (lease_token_of job) (\<lambda>token.
     sequel (call token) (\<lambda>ok. if ok then yield () else throw LeaseLost))"

definition holding_result :: "job_row \<Rightarrow> (string \<Rightarrow> ('k, 'a option) action) \<Rightarrow> ('k, 'a) action" where
  "holding_result job call =
     sequel (lease_token_of job) (\<lambda>token.
     sequel (call token) (\<lambda>found. case found of None \<Rightarrow> throw LeaseLost | Some x \<Rightarrow> yield x))"

definition scheduler_record_external_session ::
    "world \<Rightarrow> 'k adapter \<Rightarrow> string \<Rightarrow> job_row \<Rightarrow> string \<Rightarrow> string \<Rightarrow> ('k, unit) action" where
  "scheduler_record_external_session W A worker job provider session_id =
     holding job (\<lambda>token. adapter_record_external_session W A (jb_id job) worker token provider session_id)"

definition scheduler_record_external_process ::
    "world \<Rightarrow> 'k adapter \<Rightarrow> string \<Rightarrow> job_row \<Rightarrow> string \<Rightarrow> kernel_identity \<Rightarrow> string \<Rightarrow> ('k, unit) action" where
  "scheduler_record_external_process W A worker job provider identity target =
     holding job (\<lambda>token.
       adapter_record_external_process W A (jb_id job) worker token provider (recorded_as identity target))"

definition scheduler_clear_external_process ::
    "world \<Rightarrow> 'k adapter \<Rightarrow> string \<Rightarrow> job_row \<Rightarrow> int \<Rightarrow> int \<Rightarrow> ('k, unit) action" where
  "scheduler_clear_external_process W A worker job pid pgid =
     holding job (\<lambda>token. adapter_clear_external_process W A (jb_id job) worker token pid pgid)"

definition scheduler_record_attempt_artifact ::
    "world \<Rightarrow> 'k adapter \<Rightarrow> string \<Rightarrow> job_row \<Rightarrow> string \<Rightarrow> string \<Rightarrow> (string \<times> json) list
     \<Rightarrow> ('k, unit) action" where
  "scheduler_record_attempt_artifact W A worker job kind uri metadata =
     holding job (\<lambda>token. adapter_record_attempt_artifact W A (jb_id job) worker token kind uri metadata)"

definition scheduler_prepare_focused_test_execution ::
    "world \<Rightarrow> world \<Rightarrow> 'k adapter \<Rightarrow> string \<Rightarrow> job_row \<Rightarrow> ('k, focused_execution_row) action" where
  "scheduler_prepare_focused_test_execution W W' A worker job =
     holding_result job (\<lambda>token. adapter_prepare_focused_test_execution W W' A (jb_id job) worker token)"

definition scheduler_complete_focused_test_execution ::
    "world \<Rightarrow> 'k adapter \<Rightarrow> string \<Rightarrow> job_row \<Rightarrow> (string \<times> json) list \<Rightarrow> ('k, test_handoff) action" where
  "scheduler_complete_focused_test_execution W A worker job result =
     holding_result job (\<lambda>token.
       adapter_complete_focused_test_execution W A (jb_id job) worker token result)"

definition scheduler_prepare_browser_evidence_execution ::
    "world \<Rightarrow> 'k adapter \<Rightarrow> string \<Rightarrow> job_row \<Rightarrow> ('k, browser_execution_row) action" where
  "scheduler_prepare_browser_evidence_execution W A worker job =
     holding_result job (\<lambda>token.
       adapter_prepare_browser_evidence_execution W A (jb_id job) worker token)"

definition scheduler_prepare_database_query_execution ::
    "world \<Rightarrow> 'k adapter \<Rightarrow> string \<Rightarrow> job_row \<Rightarrow> ('k, database_execution_row) action" where
  "scheduler_prepare_database_query_execution W A worker job =
     holding_result job (\<lambda>token.
       adapter_prepare_database_query_execution W A (jb_id job) worker token)"

definition scheduler_complete_browser_evidence_execution ::
    "world \<Rightarrow> 'k adapter \<Rightarrow> string \<Rightarrow> job_row \<Rightarrow> string \<Rightarrow> string option \<Rightarrow> string option \<Rightarrow> string option
     \<Rightarrow> ('k, browser_execution_row) action" where
  "scheduler_complete_browser_evidence_execution W A worker job execution_id route title body =
     holding_result job (\<lambda>token. adapter_complete_browser_evidence_execution W A (jb_id job) worker token
       execution_id route title body)"

definition scheduler_authorize_database_query_execution ::
    "'k adapter \<Rightarrow> string \<Rightarrow> job_row \<Rightarrow> string option \<Rightarrow> ('k, database_execution_row) action" where
  "scheduler_authorize_database_query_execution A worker job contract_id =
     holding_result job (\<lambda>token.
       adapter_authorize_database_query_execution A (jb_id job) worker token contract_id)"

definition scheduler_complete_database_query_execution ::
    "world \<Rightarrow> 'k adapter \<Rightarrow> string \<Rightarrow> job_row \<Rightarrow> string \<Rightarrow> ('k, database_execution_row) action" where
  "scheduler_complete_database_query_execution W A worker job execution_id =
     holding_result job (\<lambda>token.
       adapter_complete_database_query_execution W A (jb_id job) worker token execution_id)"

text \<open>\<open>require_managed_worktree\<close>: a job bound to a worktree must find it.\<close>

definition require_managed_worktree ::
    "'k adapter \<Rightarrow> string \<Rightarrow> job_row \<Rightarrow> string \<Rightarrow> ('k, worktree_row option) action" where
  "require_managed_worktree A worker job token =
     sequel (adapter_get_claimed_managed_worktree A (jb_id job) worker token) (\<lambda>worktree.
       if worktree = None \<and> jb_managed_worktree_id job \<noteq> None then throw LeaseLost
       else yield worktree)"

text \<open>One beat with its retries; \<open>pause\<close> is what happens while the beat sleeps.\<close>

primrec beat ::
    "world \<Rightarrow> 'k adapter \<Rightarrow> ('k, unit) action \<Rightarrow> int \<Rightarrow> string \<Rightarrow> string \<Rightarrow> string \<Rightarrow> nat
     \<Rightarrow> ('k, bool) action" where
  "beat W A pause lease_seconds worker i token 0 =
     handle (adapter_heartbeat_job W A i worker token lease_seconds)
       (\<lambda>_. throw HeartbeatStorageFailure)"
| "beat W A pause lease_seconds worker i token (Suc n) =
     handle (adapter_heartbeat_job W A i worker token lease_seconds)
       (\<lambda>_. sequel pause (\<lambda>_. beat W A pause lease_seconds worker i token n))"

definition heartbeat_turn ::
    "world \<Rightarrow> 'k adapter \<Rightarrow> ('k, unit) action \<Rightarrow> scheduler \<Rightarrow> string \<Rightarrow> job_row \<Rightarrow> bool
     \<Rightarrow> ('k, unit) action" where
  "heartbeat_turn W A pause sc worker job poll =
     sequel (lease_token_of job) (\<lambda>token.
     sequel (beat W A pause (sc_lease_seconds sc) worker (jb_id job) token
               (nat (sc_heartbeat_retries sc))) (\<lambda>ok.
       if \<not> ok then throw LeaseLost
       else if poll then raise_pending W A worker job (yield ())
       else yield ()))"

section \<open>The end of a claim and of the scheduler\<close>

definition set_task :: "nat \<Rightarrow> task_state \<Rightarrow> scheduler \<Rightarrow> scheduler" where
  "set_task i t sc = sc\<lparr>sc_slots := (sc_slots sc)[i := (sc_slots sc ! i)\<lparr>ws_task := Some t\<rparr>]\<rparr>"

text \<open>What \<open>_execute_claim\<close> leaves on the scheduler and in its slot.\<close>

fun note_claim :: "string \<Rightarrow> claim_note \<Rightarrow> scheduler \<Rightarrow> scheduler" where
  "note_claim job_id Kept sc = sc"
| "note_claim job_id Stale sc = sc\<lparr>sc_stale_job_ids := sc_stale_job_ids sc @ [job_id]\<rparr>"
| "note_claim job_id (Recovered ids) sc = note_stale job_id (record_recovered_job_ids ids sc)"

definition conclude :: "nat \<Rightarrow> string \<Rightarrow> scheduler_error + claim_end \<Rightarrow> scheduler \<Rightarrow> scheduler" where
  "conclude i job_id r sc =
     (case r of
        Inl e \<Rightarrow> set_task i (Failed e) sc
      | Inr (note, errors) \<Rightarrow>
          set_task i Done (note_claim job_id note (sc\<lparr>sc_errors := sc_errors sc @ errors\<rparr>)))"

definition shutdown_cancel :: "scheduler \<Rightarrow> scheduler" where
  "shutdown_cancel sc =
     sc\<lparr>sc_slots := map (\<lambda>w. w\<lparr>ws_task := map_option task_cancel (ws_task w)\<rparr>) (sc_slots sc)\<rparr>"

text \<open>
  The interrupts of \<open>shutdown\<close>: a job whose interrupt is not accepted, or raises, is rejected; an
  exception is kept.
\<close>

primrec interrupt_slots ::
    "world \<Rightarrow> 'k adapter \<Rightarrow> worker_slot list \<Rightarrow> 'k \<times> store
     \<Rightarrow> (string list \<times> scheduler_error list) \<times> 'k \<times> store" where
  "interrupt_slots W A [] s = (([], []), s)"
| "interrupt_slots W A (w # ws) s =
     (case (ws_task w, Option.bind (ws_job w) (\<lambda>j. map_option (Pair j) (jb_lease_token j))) of
        (Some _, Some (job, token)) \<Rightarrow>
          (case adapter_interrupt_job W A (jb_id job) (ws_worker_id w) token
                  ''scheduler shutdown interrupted active work'' s of
             (r, s') \<Rightarrow>
               (case interrupt_slots W A ws s' of
                  ((rejected, errors), s2) \<Rightarrow>
                    ((if r = Inr True then rejected else jb_id job # rejected,
                      (case r of Inl e \<Rightarrow> e # errors | Inr _ \<Rightarrow> errors)), s2)))
      | _ \<Rightarrow> interrupt_slots W A ws s)"

text \<open>
  \<open>shutdown\<close> once its tasks are gathered; \<open>recover\<close> is the recovery of the storage and the jobs it
  recovered.
\<close>

definition shutdown_gathered ::
    "world \<Rightarrow> 'k adapter \<Rightarrow> ('k, string list) action \<Rightarrow> scheduler \<Rightarrow> 'k \<times> store
     \<Rightarrow> scheduler \<times> 'k \<times> store" where
  "shutdown_gathered W A recover sc s =
     (case interrupt_slots W A (sc_slots sc) s of
        ((rejected, errors), s1) \<Rightarrow>
          (let sc1 = sc\<lparr>sc_errors := sc_errors sc @ errors\<rparr>
           in (case recover s1 of
                 (r, s2) \<Rightarrow>
                   (let sc2 = (case r of
                          Inl e \<Rightarrow> sc1\<lparr>sc_errors := sc_errors sc1 @ [e]\<rparr>
                        | Inr ids \<Rightarrow> record_recovered_job_ids ids sc1)
                    in (reap_finished_slots (fold note_stale rejected sc2), s2)))))"

section \<open>The order of the claims\<close>

lemma filter_upt_nth:
  assumes "P i" "i < n"
  shows "length (filter P [0..<i]) < length (filter P [0..<n])
    \<and> filter P [0..<n] ! length (filter P [0..<i]) = i"
proof -
  have "[0..<n] = [0..<i] @ i # [Suc i..<n]"
    using assms(2) upt_add_eq_append [of 0 i "n - i"] by (simp add: upt_conv_Cons)
  with assms(1) show ?thesis by (simp add: nth_append)
qed

text \<open>The lane of a slot: how many slots of its role stand before it.\<close>

definition lane_of :: "worker_slot list \<Rightarrow> nat \<Rightarrow> nat" where
  "lane_of slots i = length (filter (\<lambda>j. ws_role (slots ! j) = ws_role (slots ! i)) [0..<i])"

lemma slots_by_role_lane:
  assumes "i < length slots"
  shows "lane_of slots i < length (slots_by_role slots (ws_role (slots ! i)))
    \<and> slots_by_role slots (ws_role (slots ! i)) ! lane_of slots i = i"
  unfolding slots_by_role_def lane_of_def by (rule filter_upt_nth) (simp_all add: assms)

lemma lane_slot:
  assumes "lane < length (slots_by_role slots role)"
  defines "i \<equiv> slots_by_role slots role ! lane"
  shows "i < length slots \<and> ws_role (slots ! i) = role \<and> lane_of slots i = lane"
proof -
  have "i \<in> set (slots_by_role slots role)" using assms by simp
  then have i: "i < length slots" "ws_role (slots ! i) = role" by (auto simp: slots_by_role_def)
  have "slots_by_role slots role ! lane_of slots i = slots_by_role slots role ! lane"
    "lane_of slots i < length (slots_by_role slots role)"
    using slots_by_role_lane [OF i(1)] i(2) i_def by simp_all
  moreover have "distinct (slots_by_role slots role)" by (simp add: slots_by_role_def)
  ultimately have "lane_of slots i = lane" using assms(1) nth_eq_iff_index_eq by metis
  with i show ?thesis by simp
qed

lemma concat_lanes:
  assumes "\<And>l. l < m \<Longrightarrow> distinct (f l) \<and> (\<forall>i \<in> set (f l). g i = l)"
  shows "distinct (concat (map f [0..<m])) \<and> sorted (map g (concat (map f [0..<m])))
    \<and> (\<forall>i \<in> set (concat (map f [0..<m])). g i < m)"
  using assms
proof (induction m)
  case (Suc m)
  then have "distinct (concat (map f [0..<m])) \<and> sorted (map g (concat (map f [0..<m])))
    \<and> (\<forall>i \<in> set (concat (map f [0..<m])). g i < m)" by simp
  moreover have last: "distinct (f m)" "\<forall>i \<in> set (f m). g i = m" using Suc.prems by simp_all
  moreover have "map g (f m) = replicate (length (f m)) m" using last(2) by (simp add: map_idI list_eq_iff_nth_eq)
  ultimately show ?case by (fastforce simp: sorted_append)
qed simp

lemma concat_picks:
  assumes "distinct rs" "\<And>r. r \<in> set rs \<Longrightarrow> p r \<Longrightarrow> g (h r) = r"
  shows "distinct (concat (map (\<lambda>r. if p r then [h r] else []) rs))"
  using assms
proof (induction rs)
  case (Cons r rs)
  have "h r \<notin> set (concat (map (\<lambda>r. if p r then [h r] else []) rs))" if "p r"
  proof
    assume "h r \<in> set (concat (map (\<lambda>r. if p r then [h r] else []) rs))"
    then obtain q where "q \<in> set rs" "p q" "h r = h q" by (auto split: if_splits)
    with Cons.prems that show False by (metis distinct.simps(2) list.set_intros(1,2))
  qed
  with Cons show ?case by simp
qed simp

lemma ordered_roles: "distinct (ordered_roles c)" "set (ordered_roles c) = UNIV"
proof -
  have "distinct all_worker_roles" by (simp add: all_worker_roles_def)
  then show "distinct (ordered_roles c)"
    using set_take_disj_set_drop_if_distinct [of all_worker_roles c c]
    by (simp add: ordered_roles_def Int_commute)
  have "set (ordered_roles c) = set (take c all_worker_roles @ drop c all_worker_roles)"
    by (simp only: ordered_roles_def set_append Un_commute)
  also have "\<dots> = set all_worker_roles" by (simp only: append_take_drop_id)
  also have "\<dots> = UNIV" using WorkerRole.exhaust by (auto simp: all_worker_roles_def)
  finally show "set (ordered_roles c) = UNIV" .
qed

lemma max_lanes: "length (slots_by_role slots role) \<le> max_lanes slots"
  by (cases role) (simp_all add: max_lanes_def all_worker_roles_def)

lemma claim_order_lanes:
  shows claim_order_distinct: "distinct (claim_order c slots)"
    and claim_order_sorted: "sorted (map (lane_of slots) (claim_order c slots))"
    and claim_order_set: "set (claim_order c slots) = {..<length slots}"
proof -
  let ?f = "\<lambda>lane. concat (map (\<lambda>role. if lane < length (slots_by_role slots role)
      then [slots_by_role slots role ! lane] else []) (ordered_roles c))"
  have f: "distinct (?f l) \<and> (\<forall>i \<in> set (?f l). lane_of slots i = l)" for l
  proof
    show "distinct (?f l)"
      by (rule concat_picks [where g = "\<lambda>i. ws_role (slots ! i)"]) (use ordered_roles lane_slot in blast)+
    show "\<forall>i \<in> set (?f l). lane_of slots i = l"
      using lane_slot by (auto split: if_splits)
  qed
  note all = concat_lanes [of "max_lanes slots" ?f "lane_of slots", OF f]
  then show "distinct (claim_order c slots)" "sorted (map (lane_of slots) (claim_order c slots))"
    by (simp_all add: claim_order_def)
  show "set (claim_order c slots) = {..<length slots}"
  proof
    show "set (claim_order c slots) \<subseteq> {..<length slots}"
      using lane_slot by (fastforce simp: claim_order_def split: if_splits)
    show "{..<length slots} \<subseteq> set (claim_order c slots)"
    proof
      fix i assume "i \<in> {..<length slots}"
      then have i: "lane_of slots i < length (slots_by_role slots (ws_role (slots ! i)))"
        "slots_by_role slots (ws_role (slots ! i)) ! lane_of slots i = i"
        using slots_by_role_lane by simp_all
      have "i \<in> set (?f (lane_of slots i))"
        using i ordered_roles(2) [of c] by force
      moreover have "lane_of slots i < max_lanes slots" using i(1) max_lanes less_le_trans by blast
      ultimately show "i \<in> set (claim_order c slots)" unfolding claim_order_def by auto
    qed
  qed
qed

text \<open>
  No slot starves and no role does.  Whatever the role cursor, the order in which a turn offers
  slots a claim contains every slot of every pool exactly once, and never a slot of a higher lane
  before one of a lower: every role's first worker is asked for before any role's second.
\<close>

lemma claim_order_fair:
  "distinct (claim_order cursor slots) \<and> set (claim_order cursor slots) = {..<length slots}
   \<and> sorted (map (lane_of slots) (claim_order cursor slots))"
  using claim_order_distinct claim_order_sorted claim_order_set by blast

section \<open>What every scheduler keeps\<close>

text \<open>
  The runs of a scheduler.  Between two stretches of its code anything may happen to the store and
  to the operating system; what the store answers is not constrained either.
\<close>

inductive dispatched :: "world \<Rightarrow> 'k adapter \<Rightarrow> scheduler \<Rightarrow> bool" for W :: world and A :: "'k adapter" where
  created: "scheduler_init pools limit lease_seconds heartbeat max_attempts retries prefix allow = Inr sc
    \<Longrightarrow> dispatched W A sc"
| turned: "dispatched W A sc \<Longrightarrow> run_once W A recovery sc s = (r, sc', s') \<Longrightarrow> dispatched W A sc'"
| concluded: "dispatched W A sc \<Longrightarrow> i < length (sc_slots sc)
    \<Longrightarrow> ws_task (sc_slots sc ! i) \<in> {Some Pending, Some Cancelling}
    \<Longrightarrow> dispatched W A (conclude i job_id r sc)"
| cancelled: "dispatched W A sc \<Longrightarrow> i < length (sc_slots sc)
    \<Longrightarrow> ws_task (sc_slots sc ! i) = Some Cancelling \<Longrightarrow> dispatched W A (set_task i Cancelled sc)"
| stopping: "dispatched W A sc \<Longrightarrow> dispatched W A (shutdown_cancel sc)"
| stopped: "dispatched W A sc \<Longrightarrow> shutdown_gathered W A recover sc s = (sc', s') \<Longrightarrow> dispatched W A sc'"

text \<open>A slot's task runs the job the slot was given, under a lease of the slot's own worker.\<close>

definition slot_sound :: "worker_slot \<Rightarrow> bool" where
  "slot_sound w \<longleftrightarrow> (ws_task w = None \<longleftrightarrow> ws_job w = None)
     \<and> (\<forall>job. ws_job w = Some job \<longrightarrow> validate_claim job w = Inr ())"

definition scheduler_sound :: "scheduler \<Rightarrow> bool" where
  "scheduler_sound sc \<longleftrightarrow> 1 \<le> sc_limit sc \<and> int (active_count sc) \<le> sc_limit sc
     \<and> distinct (map ws_worker_id (sc_slots sc)) \<and> list_all slot_sound (sc_slots sc)"

lemma note_stale_frame [simp]:
  "sc_slots (note_stale i sc) = sc_slots sc" "sc_limit (note_stale i sc) = sc_limit sc"
  by (simp_all add: note_stale_def)

lemma fold_note_stale_frame [simp]:
  "sc_slots (fold note_stale ids sc) = sc_slots sc" "sc_limit (fold note_stale ids sc) = sc_limit sc"
  by (induction ids arbitrary: sc) simp_all

lemma record_recovered_frame [simp]:
  "sc_slots (record_recovered_job_ids ids sc) = sc_slots sc"
  "sc_limit (record_recovered_job_ids ids sc) = sc_limit sc"
  by (simp_all add: record_recovered_job_ids_def)

lemma note_claim_frame [simp]:
  "sc_slots (note_claim i n sc) = sc_slots sc" "sc_limit (note_claim i n sc) = sc_limit sc"
  by (cases n; simp)+

lemma advance_cursor_frame [simp]:
  "sc_slots (advance_cursor r sc) = sc_slots sc" "sc_limit (advance_cursor r sc) = sc_limit sc"
  by (simp_all add: advance_cursor_def split: sum.splits prod.splits option.splits)

lemma sound_same:
  "scheduler_sound sc \<Longrightarrow> sc_slots sc' = sc_slots sc \<Longrightarrow> sc_limit sc' = sc_limit sc \<Longrightarrow> scheduler_sound sc'"
  by (simp add: scheduler_sound_def active_count_def)

lemma filter_map_le:
  "(\<And>x. x \<in> set xs \<Longrightarrow> P (f x) \<Longrightarrow> P x) \<Longrightarrow> length (filter P (map f xs)) \<le> length (filter P xs)"
  by (induction xs) (auto simp: le_SucI)

lemma filter_update:
  "i < length xs \<Longrightarrow> length (filter P (xs[i := y])) + (if P (xs ! i) then 1 else 0)
     = length (filter P xs) + (if P y then 1 else 0)"
proof (induction xs arbitrary: i)
  case (Cons x xs)
  then show ?case by (cases i) fastforce+
qed simp

lemma sound_mapped:
  assumes "scheduler_sound sc" "sc_slots sc' = map f (sc_slots sc)" "sc_limit sc' = sc_limit sc"
    and f: "\<And>w. slot_sound w \<Longrightarrow> slot_sound (f w)" "\<And>w. ws_worker_id (f w) = ws_worker_id w"
      "\<And>w. is_free w \<Longrightarrow> is_free (f w)"
  shows "scheduler_sound sc'"
proof -
  have "active_count sc' \<le> active_count sc"
    unfolding active_count_def assms(2) by (rule filter_map_le) (use f(3) in blast)
  moreover have "map ws_worker_id (sc_slots sc') = map ws_worker_id (sc_slots sc)"
    by (simp add: assms(2) f(2))
  moreover have "list_all slot_sound (sc_slots sc')"
    using assms(1) f(1) by (simp add: scheduler_sound_def assms(2) list_all_iff)
  ultimately show ?thesis using assms(1,3) by (simp add: scheduler_sound_def)
qed

lemma sound_updated:
  assumes "scheduler_sound sc" "i < length (sc_slots sc)" "sc_slots sc' = (sc_slots sc)[i := w]"
    and "sc_limit sc' = sc_limit sc" "ws_worker_id w = ws_worker_id (sc_slots sc ! i)" "slot_sound w"
    and "is_free (sc_slots sc ! i) \<Longrightarrow> int (active_count sc) < sc_limit sc"
    and "\<not> is_free w"
  shows "scheduler_sound sc'"
proof -
  have "active_count sc' + (if is_free (sc_slots sc ! i) then 0 else 1) = active_count sc + 1"
    using filter_update [OF assms(2), of "\<lambda>w. \<not> is_free w" w] assms(3,8)
    by (simp add: active_count_def split: if_splits)
  moreover have "map ws_worker_id (sc_slots sc') = map ws_worker_id (sc_slots sc)"
    using assms(2,5) by (simp add: assms(3) map_update list_update_same_conv)
  moreover have "list_all slot_sound (sc_slots sc')"
    using assms(1,6) by (auto simp: scheduler_sound_def assms(3) list_all_iff dest: set_update_subset_insert [THEN subsetD])
  ultimately show ?thesis
    using assms(1,4,7) by (auto simp: scheduler_sound_def split: if_splits)
qed

lemma slot_sound_task:
  "slot_sound w \<Longrightarrow> ws_task w \<noteq> None \<Longrightarrow> slot_sound (w\<lparr>ws_task := Some t\<rparr>)"
  by (simp add: slot_sound_def validate_claim_def)

lemma sound_set_task:
  assumes "scheduler_sound sc" "i < length (sc_slots sc)" "ws_task (sc_slots sc ! i) \<noteq> None"
  shows "scheduler_sound (set_task i t sc)"
proof (rule sound_updated [OF assms(1,2)])
  show "slot_sound ((sc_slots sc ! i)\<lparr>ws_task := Some t\<rparr>)"
    using assms by (intro slot_sound_task) (simp_all add: scheduler_sound_def list_all_length)
qed (use assms(3) in \<open>simp_all add: set_task_def is_free_def\<close>)

lemma sound_reap: "scheduler_sound sc \<Longrightarrow> scheduler_sound (reap_finished_slots sc)"
  by (rule sound_mapped [where f = "\<lambda>w. if finished_slot w then w\<lparr>ws_task := None, ws_job := None\<rparr> else w"])
    (auto simp: reap_finished_slots_def slot_sound_def is_free_def)

lemma slot_sound_cancel: "slot_sound w \<Longrightarrow> slot_sound (w\<lparr>ws_task := map_option task_cancel (ws_task w)\<rparr>)"
  by (simp add: slot_sound_def validate_claim_def)

lemma sound_cancel: "scheduler_sound sc \<Longrightarrow> scheduler_sound (cancel_recovered_jobs ids sc)"
  by (rule sound_mapped [where f = "\<lambda>w. if (case ws_job w of None \<Rightarrow> False | Some j \<Rightarrow> jb_id j \<in> set ids)
        then w\<lparr>ws_task := map_option task_cancel (ws_task w)\<rparr> else w"])
    (auto simp: cancel_recovered_jobs_def Let_def slot_sound_cancel is_free_def)

lemma sound_fill:
  assumes "fill_slots W A is acc sc s = (r, sc', s')" "scheduler_sound sc"
    and "\<forall>i \<in> set is. i < length (sc_slots sc)"
  shows "scheduler_sound sc'"
  using assms
proof (induction "is" arbitrary: acc sc s)
  case (Cons i js)
  have small: "i < length (sc_slots sc)" using Cons.prems(3) by simp
  let ?w = "sc_slots sc ! i"
  have occupied: "scheduler_sound (occupy i job sc)"
    if "is_free ?w" "int (active_count sc) < sc_limit sc" "validate_claim job ?w = Inr ()" for job
    by (rule sound_updated [OF Cons.prems(2) small, where w = "?w\<lparr>ws_task := Some Pending, ws_job := Some job\<rparr>"])
      (use that in \<open>simp_all add: occupy_def slot_sound_def validate_claim_def is_free_def\<close>)
  from Cons.prems(1) consider "sc' = sc"
    | acc2 s2 where "fill_slots W A js acc2 sc s2 = (r, sc', s')"
    | acc2 s2 job where "fill_slots W A js acc2 (occupy i job sc) s2 = (r, sc', s')" "is_free ?w"
        "int (active_count sc) < sc_limit sc" "validate_claim job ?w = Inr ()"
    by (auto simp: Let_def split: if_splits prod.splits sum.splits option.splits)
  then show ?case
  proof cases
    case 3
    then show ?thesis using Cons.IH [OF 3(1) occupied] Cons.prems(3) by (simp add: occupy_def)
  qed (use Cons in auto)
qed simp

lemma sound_run_once:
  assumes "run_once W A recovery sc s = (r, sc', s')" "scheduler_sound sc"
  shows "scheduler_sound sc'"
proof -
  define sc2 where "sc2 = reap_finished_slots (cancel_recovered_jobs (lb_recovered_job_ids recovery)
    (sc\<lparr>sc_recovery_progressed := lb_recovered_job_ids recovery \<noteq> []
        \<or> lb_reconciliation_count recovery \<noteq> 0\<rparr>))"
  have "scheduler_sound sc2"
    unfolding sc2_def by (intro sound_reap sound_cancel) (rule sound_same [OF assms(2)]; simp)
  moreover obtain q sc3 where "fill_slots W A (claim_order (sc_role_cursor sc2) (sc_slots sc2)) (0, None) sc2 s
      = (q, sc3, s')" "sc' = advance_cursor q sc3"
    using assms(1) by (auto simp: run_once_def Let_def sc2_def split: prod.splits)
  moreover have "\<forall>i \<in> set (claim_order (sc_role_cursor sc2) (sc_slots sc2)). i < length (sc_slots sc2)"
    by (simp add: claim_order_set)
  ultimately have "scheduler_sound sc3" using sound_fill by blast
  then show ?thesis by (rule sound_same) (simp_all add: \<open>sc' = advance_cursor q sc3\<close>)
qed

lemma sound_conclude:
  assumes "scheduler_sound sc" "i < length (sc_slots sc)" "ws_task (sc_slots sc ! i) \<noteq> None"
  shows "scheduler_sound (conclude i job_id r sc)"
proof (cases r)
  case (Inl e)
  then show ?thesis using assms by (simp add: conclude_def sound_set_task)
next
  case (Inr p)
  obtain kept errors where p: "p = (kept, errors)" by (cases p)
  let ?sc = "note_claim job_id kept (sc\<lparr>sc_errors := sc_errors sc @ errors\<rparr>)"
  have "scheduler_sound ?sc" by (rule sound_same [OF assms(1)]) simp_all
  then have "scheduler_sound (set_task i Done ?sc)" by (rule sound_set_task) (use assms in simp_all)
  then show ?thesis by (simp add: conclude_def Inr p)
qed

lemma sound_shutdown:
  assumes "shutdown_gathered W A recover sc s = (sc', s')" "scheduler_sound sc"
  shows "scheduler_sound sc'"
proof -
  obtain sc2 where "sc' = reap_finished_slots sc2" "sc_slots sc2 = sc_slots sc" "sc_limit sc2 = sc_limit sc"
    using assms(1) by (auto simp: shutdown_gathered_def Let_def split: prod.splits sum.splits)
  with assms(2) show ?thesis using sound_reap sound_same by metis
qed

subsection \<open>Every worker has its own name\<close>

lemma decimal_digits_nonempty: "n < k \<Longrightarrow> decimal_digits k n \<noteq> []"
  by (cases k) simp_all

lemma decimal_digit_inj:
  assumes "a < 10" "b < 10" "(char_of (48 + a) :: char) = char_of (48 + b)"
  shows "a = (b::nat)"
proof -
  have "of_char (char_of (48 + a) :: char) = (of_char (char_of (48 + b) :: char) :: nat)"
    using assms(3) by simp
  then show ?thesis using assms(1,2) by (simp only: of_char_of) simp
qed

lemma decimal_digits_inj:
  assumes "n < k" "m < k'" "decimal_digits k n = decimal_digits k' m"
  shows "n = m"
  using assms
proof (induction k arbitrary: n k' m)
  case (Suc k)
  then obtain j where j: "k' = Suc j" by (cases k') simp_all
  have tens: "decimal_digits k (n div 10) \<noteq> []" if "10 \<le> n"
    using that Suc.prems(1) by (intro decimal_digits_nonempty) simp
  have tens': "decimal_digits j (m div 10) \<noteq> []" if "10 \<le> m"
    using that Suc.prems(2) j by (intro decimal_digits_nonempty) simp
  consider "n < 10" "m < 10" | "10 \<le> n" "10 \<le> m"
    using Suc.prems(3) tens tens' j by (cases "n < 10"; cases "m < 10") auto
  then show ?case
  proof cases
    case 1
    then show ?thesis using Suc.prems(3) j decimal_digit_inj [of n m] by simp
  next
    case 2
    then have same: "decimal_digits k (n div 10) = decimal_digits j (m div 10)"
      "(char_of (48 + n mod 10) :: char) = char_of (48 + m mod 10)"
      using Suc.prems(3) j by simp_all
    have "n div 10 = m div 10" using Suc.prems(1,2) 2 j by (intro Suc.IH [OF _ _ same(1)]) simp_all
    moreover have "n mod 10 = m mod 10" using same(2) by (intro decimal_digit_inj) simp_all
    ultimately show ?thesis by (metis div_mult_mod_eq)
  qed
qed simp

lemma worker_name_inj:
  assumes "worker_name prefix role i = worker_name prefix role' j"
  shows "role = role' \<and> i = j"
proof -
  have same: "worker_role_value role @ ''-'' @ str_int (int i + 1)
      = worker_role_value role' @ ''-'' @ str_int (int j + 1)"
    using assms by (simp add: worker_name_def)
  then have "role = role'" by (cases role; cases role'; simp)
  with same have "str_int (int i + 1) = str_int (int j + 1)" by simp
  then have "nat (int i + 1) = nat (int j + 1)"
    unfolding str_int_def by (intro decimal_digits_inj [of _ "nat (int i + 1) + 1" _ "nat (int j + 1) + 1"]) simp_all
  with \<open>role = role'\<close> show ?thesis by simp
qed

lemma pools_named:
  assumes "distinct roles"
  shows "distinct (map ws_worker_id (concat (map (\<lambda>role. pool_slots prefix role (pools role)) roles)))"
  using assms
proof (induction roles)
  case (Cons role roles)
  have "distinct (map ws_worker_id (pool_slots prefix role (pools role)))"
    by (auto simp: pool_slots_def distinct_map inj_on_def dest: worker_name_inj)
  moreover have "ws_worker_id ` set (pool_slots prefix role (pools role))
      \<inter> ws_worker_id ` (\<Union>role \<in> set roles. set (pool_slots prefix role (pools role))) = {}"
    using Cons.prems by (auto simp: pool_slots_def dest!: worker_name_inj)
  ultimately show ?case using Cons by simp
qed simp

lemma sound_init:
  assumes "scheduler_init pools limit lease_seconds heartbeat max_attempts retries prefix allow = Inr sc"
  shows "scheduler_sound sc"
proof -
  have sc: "1 \<le> limit" "sc_limit sc = limit"
    "sc_slots sc = concat (map (\<lambda>role. pool_slots prefix role (pools role)) all_worker_roles)"
    using assms by (auto simp: scheduler_init_def)
  have new: "\<forall>w \<in> set (sc_slots sc). slot_sound w \<and> is_free w"
    by (auto simp: sc pool_slots_def slot_sound_def is_free_def)
  then have "active_count sc = 0" by (simp add: active_count_def filter_empty_conv)
  moreover have "distinct (map ws_worker_id (sc_slots sc))"
    unfolding sc(3) by (rule pools_named) (simp add: all_worker_roles_def)
  ultimately show ?thesis using new sc(1,2) by (simp add: scheduler_sound_def list_all_iff)
qed

text \<open>
  C39.  Every scheduler stays within its bounds.  At every point of every run, whatever the store
  answers, whatever the workers do and however turns, ends of claims, cancellations and a shutdown
  are interleaved, no more slots are at work than the global limit allows, no two slots share a
  worker name, a slot holds a job exactly while its task exists, and that job is one of the slot's
  role under a lease with a token owned by that very worker.
\<close>

theorem scheduler_stays_sound:
  assumes "dispatched W A sc"
  shows "int (active_count sc) \<le> sc_limit sc \<and> distinct (map ws_worker_id (sc_slots sc))
    \<and> (\<forall>w \<in> set (sc_slots sc). (is_free w \<longleftrightarrow> ws_job w = None)
        \<and> (\<forall>job. ws_job w = Some job \<longrightarrow> jb_role job = ws_role w
            \<and> jb_lease_owner job = Some (ws_worker_id w)
            \<and> (\<exists>token. jb_lease_token job = Some token \<and> token \<noteq> [])))"
proof -
  have "scheduler_sound sc" using assms
  proof induction
    case stopping
    show ?case
      by (rule sound_mapped [OF stopping.IH, where f = "\<lambda>w. w\<lparr>ws_task := map_option task_cancel (ws_task w)\<rparr>"])
        (auto simp: shutdown_cancel_def slot_sound_cancel is_free_def)
  qed (auto intro: sound_init sound_run_once sound_conclude sound_set_task sound_shutdown)
  then show ?thesis
    by (auto simp: scheduler_sound_def list_all_iff slot_sound_def is_free_def validate_claim_def)
qed

text \<open>Two investigators, room for one: a first turn on the example campaign claims its first job.\<close>

definition small_turn :: "store_error + (scheduler_error + nat) \<times> scheduler \<times> (bool \<times> int) \<times> store" where
  "small_turn =
     bindR (scheduler_init (\<lambda>r. if r = Investigator then [Investigator, Investigator] else []) 1 60 None 3 3
              ''agent-flow'' True)
       (\<lambda>sc. Inr (run_once example_world sweeper
          \<lparr>lb_recovered_job_ids = [], lb_reconciliation_count = 0\<rparr> sc ((True, 10), run_on open_campaign)))"

lemma map_sum_InrD: "map_sum f g x = Inr y \<Longrightarrow> \<exists>z. x = Inr z \<and> y = g z"
  by (cases x) simp_all

lemma small_turn_claims:
  "map_sum id (\<lambda>(r, sc, s). (r, active_job_ids sc, sc_limit sc, sc_role_cursor sc,
       map (\<lambda>w. map_option jb_lease_owner (ws_job w)) (sc_slots sc))) small_turn
     = Inr (Inr 1, [''j1''], 1, 1, [Some (Some ''agent-flow-investigator-1''), None])"
  unfolding small_turn_def served open_campaign_def by code_simp

lemma scheduler_stays_sound_witness:
  "\<exists>sc. dispatched example_world sweeper sc \<and> active_job_ids sc = [''j1''] \<and> sc_limit sc = 1
     \<and> active_count sc \<le> 1 \<and> distinct (map ws_worker_id (sc_slots sc))"
proof -
  obtain end_state where "small_turn = Inr end_state"
    using map_sum_InrD [OF small_turn_claims] by blast
  moreover obtain r sc s where "end_state = (r, sc, s)" by (cases end_state)
  ultimately have small: "small_turn = Inr (r, sc, s)" by simp
  then obtain sc0 where
    new: "scheduler_init (\<lambda>r. if r = Investigator then [Investigator, Investigator] else [])
        1 60 None 3 3 ''agent-flow'' True = Inr sc0"
    and turn: "run_once example_world sweeper \<lparr>lb_recovered_job_ids = [], lb_reconciliation_count = 0\<rparr> sc0
        ((True, 10), run_on open_campaign) = (r, sc, s)"
    unfolding small_turn_def by auto
  have "dispatched example_world sweeper sc"
    by (rule dispatched.turned [OF dispatched.created [OF new] turn])
  with scheduler_stays_sound [OF this] small_turn_claims show ?thesis
    by (auto simp: small)
qed

end
