(* ===== verification/Spec2Isabelle.thy ===== *)
theory Spec2Isabelle
  imports Safety Fenced Outcomes Holding Reconciled Lasting Choice Sandbox Homestead Evidence Dispatching
begin

text \<open>
  A verification library of agent-flow, a local control plane through which investigator, fixer
  and tester workers move work items to \<^verbatim>\<open>verified_green\<close>.  Everything durable is
  one SQLite store (\<^verbatim>\<open>src/agent_flow/storage.py\<close>): campaigns hold items, items queue
  jobs, a worker claims a job under an expiring lease, runs one attempt, and ends it by
  committing a validated handoff, failing or being interrupted; an operator controls and
  recovers.  Every mutating method is one immediate transaction.

  \<^bold>\<open>How the code is modelled.\<close>
  A table is a list of row records in insertion order, the store a record of tables.  A method
  is a function of its arguments, the clock reading, the identifiers \<^verbatim>\<open>uuid4\<close>
  returns, the outside world and the store; it returns the committed store and its result, or
  the class of the exception, in which case the transaction is rolled back and the store of
  the caller is unchanged.  Error messages are not modelled.  Timestamps are the integers
  they denote; Python's unbounded integers are \<^verbatim>\<open>int\<close>; JSON columns are values of
  \<^verbatim>\<open>json\<close>.  \<^verbatim>\<open>world\<close> (Resources) is what is not in the repository:
  hashing, the file system, the platform.  A method reads the file system once; where it makes
  directories, a second world is the file system afterwards.  Every loop of the store is a structural
  recursion over a list or a bounded one, so its definitions are total without fuel.  The loop of
  the reconciler that waits for a process group is a partial function, and Deadlines proves that it
  returns; so is the loop that reaps expired processes (Sweeping).  The endless loops of the
  scheduler are given by one turn each.  A text is a list of characters up to U+00FF;
  \<^verbatim>\<open>utf8_bytes\<close> encodes it where the code hashes or bounds its encoding.

  \<^bold>\<open>The theories.\<close>
  \<^item> Prelude: results, SQL statements on lists of rows, and the lemmas on them.
  \<^item> Screening (\<^verbatim>\<open>models.py\<close>, \<^verbatim>\<open>storage.py\<close>): the text screens, regular expressions and
    exact identifiers.  Models, Gates (\<^verbatim>\<open>models.py\<close>): enumerations, handoffs with their
    validators, \<^verbatim>\<open>evaluate_test_handoff\<close> and its decision table.  Resources
    (\<^verbatim>\<open>models.py\<close>): typed resource definitions.
  \<^item> Schema: rows, tables, constraints.  Registry: \<^verbatim>\<open>define_resource\<close> to
    \<^verbatim>\<open>set_resource_enabled\<close>.  Admission: focused-test admissions.  Fences: the checks all
    lease operations share.  Enqueue: campaigns, items, jobs, approvals, artifacts, standalone
    leases.  External: sessions and processes.  Operator: interrupt and resume requests.
    Recovery: expiry, recovery, reconciliation.  Claim: \<^verbatim>\<open>claim_job\<close>, \<^verbatim>\<open>heartbeat_job\<close>.
    Finish: \<^verbatim>\<open>commit_stage_result\<close>, \<^verbatim>\<open>fail_job\<close>, \<^verbatim>\<open>interrupt_job\<close>, \<^verbatim>\<open>release_job\<close>.
  \<^item> Worktrees: \<^verbatim>\<open>request_managed_worktree\<close> to
    \<^verbatim>\<open>resume_quarantined_worktree_operation\<close>, every store method on managed worktrees.
    Provisioning: they keep the queue.  Housing: the abstract life cycle \<^verbatim>\<open>life_step\<close>, the
    invariant \<^verbatim>\<open>housing_ok\<close> that ties each operation to the state of its worktree, and that
    every request is at most one step of the cycle.  Homestead: what follows, and a worktree
    built and used on a concrete store.
  \<^item> Sandbox (\<^verbatim>\<open>focused_sandbox.py\<close>): the trusted runtime and the Seatbelt profile.
  \<^item> Collectors: plans of browser and database evidence, and their executions as far as the
    code runs.  Admitting: \<^verbatim>\<open>create_focused_test_admission\<close>.  Focused: manifests,
    executables, private directories, \<^verbatim>\<open>create_focused_test_plan\<close>.  Executing:
    \<^verbatim>\<open>prepare_focused_test_execution\<close>, \<^verbatim>\<open>complete_focused_test_execution\<close>, the semantic
    outcome of a unittest output, the canonical handoff.  Canonical: what a commit without
    simulated evidence is judged on.  Gathering: these operations as calls, and that they
    leave the queue alone.
  \<^item> Queue: the invariant \<^verbatim>\<open>queue_ok\<close> of the store and the two transitions, opening and
    closing an attempt, that every lease operation is an instance of.  Closing, Ends,
    Recovering, Opening, Claiming, Beating, Growing, Fencing, Turns, Lifecycle and Steps prove
    that every operation keeps it (\<^verbatim>\<open>_ok\<close> lemmas).
  \<^item> Reach: the store as a state machine; \<^verbatim>\<open>request\<close> is one call of a mutating method,
    \<^verbatim>\<open>exec\<close> performs it, \<^verbatim>\<open>reachable\<close> is every store some sequence of requests
    builds, failed ones included, under any clock and any identifiers.
  \<^item> History, Passing, Lasting, Evidence: what no request ever rewrites (\<^verbatim>\<open>_kept\<close> lemmas), and what a green
    item proves with and without simulated evidence.  Safety: exclusion, capacities, limits in
    every reachable store.  Fenced: which requests and collector reads are heard, with
    every fence a worker or a collector presents, and that a claim silences the older ones for
    good.  Holding: what pending interrupts and unresolved processes allow.  Choice, Outcomes, Reconciled: what each operation does exactly.
  \<^item> Processes, Reconciling (\<^verbatim>\<open>process_reconciler.py\<close>): identities, bindings, the Darwin and
    the unsupported runtime over the calls of the system, and \<^verbatim>\<open>reconcile\<close>.  The machine is an
    arbitrary state that every call may change.  Watching: the log of the calls and clock readings of a run,
    and that keeping it changes nothing.  Signalling: which logs are lawful, the grace periods
    included.  Verdicts: the contract
    \<^verbatim>\<open>group_runtime\<close> of a runtime, met by both, and what the reconciler signals, releases and
    raises.  Deadlines: how long it takes.  Launcher: one machine to run it on.
  \<^item> Sweeping, Adapting (\<^verbatim>\<open>sqlite_scheduler.py\<close>): the storage adapter of the scheduler.  Sweeping
    claims expired processes, reconciles each and reports to the store; Adapting is the rest of
    the protocol, one transaction each.  Scheduling (\<^verbatim>\<open>scheduler.py\<close>): validation of a worker's
    output, the execution of one claimed job and the end of it on every path, and that the
    scheduler's own decision of a tester's handoff is the store's.  Dispatching
    (\<^verbatim>\<open>scheduler.py\<close>): worker slots, claiming order, one turn, heartbeat and shutdown; the
    relation \<^verbatim>\<open>dispatched\<close> interleaves the stretches between two suspensions of the event loop.
  \<^item> Scenario: concrete stores on which the properties are exercised.

  \<^bold>\<open>Not modelled.\<close>
  The migrations between schema versions; the Git side of managed worktrees; the processes that
  collect evidence; the code after a call that always raises \<^verbatim>\<open>TypeError\<close> (the recording of
  browser and database executions); the evidence pipeline; the event loop itself and the
  conversion of rows to their Pydantic mirrors; the worker processes, the command line and the status views, which are
  subprocess and presentation code.  JSON numbers are integers; characters
  above U+00FF do not occur.
\<close>

end
